(* ===== verification/Prelude.thy ===== *)
theory Prelude
  imports Main "HOL-Library.AList"
begin

section \<open>Prelude: effects, dictionaries and text shared by the components\<close>

text \<open>
  What every component of the model uses:
  \<^item> \<open>exn\<close> names the Python exceptions the source raises or catches, and \<open>io\<close> is the type of
    a coroutine: from a world (Redis, NATS, clock, models, tools) to a result or an
    exception, with the new world. \<open>ret_io\<close>, \<open>bind_io\<close>, \<open>raise_io\<close> and \<open>try_io\<close> are
    \<open>return\<close>, sequencing, \<open>raise\<close> and \<open>try/except Exception\<close>.
  \<^item> a Python \<open>dict\<close> keeps insertion order, and storing under a present key keeps the key's
    place: that is an association list with \<open>AList.update\<close> (\<open>map_of\<close> looks up, \<open>AList.delete\<close>
    is \<open>pop\<close>).
  \<^item> a Python \<open>str\<close> is \<open>string\<close>; the helpers are \<open>lower\<close>, \<open>upper\<close>, \<open>startswith\<close>, \<open>in\<close>,
    \<open>split\<close>, \<open>join\<close> and the decimal rendering of integers. Letters outside ASCII have no case
    here, and the few non-ASCII characters of the source's literals are written as their UTF-8
    bytes.
  The collections \<open>io_simps\<close> and \<open>py_simps\<close> hold the rewriting the component proofs use.
\<close>

named_theorems io_simps "unfolding of the effect combinators"
named_theorems py_simps "evaluation of the text and dictionary helpers"

subsection \<open>Exceptions and coroutines\<close>

datatype exn =
    KeyError string
  | ValueError string
  | TypeError string
  | AttributeError string
  | IndexError string
  | RuntimeError string
  | ValidationError string
  | JSONDecodeError string
  | TimeoutError
  | JWTError string
  | PyJWTError string
  | PoisonPill string
  | TenantContextError string
  | HTTPException int string
  | OtherError string

text \<open>\<open>str(exc)\<close>: the message an exception carries.\<close>

fun exn_str :: "exn \<Rightarrow> string" where
  "exn_str (KeyError m) = m"
| "exn_str (ValueError m) = m"
| "exn_str (TypeError m) = m"
| "exn_str (AttributeError m) = m"
| "exn_str (IndexError m) = m"
| "exn_str (RuntimeError m) = m"
| "exn_str (ValidationError m) = m"
| "exn_str (JSONDecodeError m) = m"
| "exn_str TimeoutError = ''''"
| "exn_str (JWTError m) = m"
| "exn_str (PyJWTError m) = m"
| "exn_str (PoisonPill m) = m"
| "exn_str (TenantContextError m) = m"
| "exn_str (HTTPException _ m) = m"
| "exn_str (OtherError m) = m"

type_synonym ('w, 'a) io = "'w \<Rightarrow> (exn + 'a) \<times> 'w"

definition ret_io :: "'a \<Rightarrow> ('w, 'a) io" where
  "ret_io x w = (Inr x, w)"

definition raise_io :: "exn \<Rightarrow> ('w, 'a) io" where
  "raise_io e w = (Inl e, w)"

definition bind_io :: "('w, 'a) io \<Rightarrow> ('a \<Rightarrow> ('w, 'b) io) \<Rightarrow> ('w, 'b) io" where
  "bind_io m f w = (case m w of (Inl e, w') \<Rightarrow> (Inl e, w') | (Inr x, w') \<Rightarrow> f x w')"

definition try_io :: "('w, 'a) io \<Rightarrow> (exn \<Rightarrow> ('w, 'a) io) \<Rightarrow> ('w, 'a) io" where
  "try_io m h w = (case m w of (Inl e, w') \<Rightarrow> h e w' | (Inr x, w') \<Rightarrow> (Inr x, w'))"

text \<open>\<open>asyncio.gather(..., return_exceptions=True)\<close> keeps an exception as a value.\<close>

definition catch_io :: "('w, 'a) io \<Rightarrow> ('w, exn + 'a) io" where
  "catch_io m w = (case m w of (r, w') \<Rightarrow> (Inr r, w'))"

text \<open>\<open>try: m finally: f\<close>: \<open>f\<close> runs whatever \<open>m\<close> did; an exception of \<open>f\<close> replaces the outcome.\<close>

definition finally_io :: "('w, 'a) io \<Rightarrow> ('w, unit) io \<Rightarrow> ('w, 'a) io" where
  "finally_io m f w =
     (case m w of (r, w1) \<Rightarrow> (case f w1 of (Inl e, w2) \<Rightarrow> (Inl e, w2) | (Inr u, w2) \<Rightarrow> (r, w2)))"

definition of_result :: "exn + 'a \<Rightarrow> ('w, 'a) io" where
  "of_result r w = (r, w)"

lemma ret_io_simp [simp, io_simps]: "ret_io x w = (Inr x, w)"
  by (simp add: ret_io_def)

lemma raise_io_simp [simp, io_simps]: "raise_io e w = (Inl e, w)"
  by (simp add: raise_io_def)

lemma of_result_simp [simp, io_simps]: "of_result r w = (r, w)"
  by (simp add: of_result_def)

lemma bind_io_Inr [simp, io_simps]: "m w = (Inr x, w') \<Longrightarrow> bind_io m f w = f x w'"
  by (simp add: bind_io_def)

lemma bind_io_Inl [simp, io_simps]: "m w = (Inl e, w') \<Longrightarrow> bind_io m f w = (Inl e, w')"
  by (simp add: bind_io_def)

lemma try_io_Inr [simp, io_simps]: "m w = (Inr x, w') \<Longrightarrow> try_io m h w = (Inr x, w')"
  by (simp add: try_io_def)

lemma try_io_Inl [simp, io_simps]: "m w = (Inl e, w') \<Longrightarrow> try_io m h w = h e w'"
  by (simp add: try_io_def)

lemma catch_io_simp [simp, io_simps]: "m w = (r, w') \<Longrightarrow> catch_io m w = (Inr r, w')"
  by (simp add: catch_io_def)

lemma bind_io_eq_Inr:
  "bind_io m f w = (Inr y, w'') \<longleftrightarrow> (\<exists>x w'. m w = (Inr x, w') \<and> f x w' = (Inr y, w''))"
  by (auto simp: bind_io_def split: prod.splits sum.splits)

lemma bind_io_eq_Inl:
  "bind_io m f w = (Inl e, w'') \<longleftrightarrow>
     m w = (Inl e, w'') \<or> (\<exists>x w'. m w = (Inr x, w') \<and> f x w' = (Inl e, w''))"
  by (auto simp: bind_io_def split: prod.splits sum.splits)

text \<open>
  A coroutine that never raises: the contract of every operation that ends in
  \<open>except Exception: logger.warning(...)\<close>.
\<close>

definition no_raise :: "('w, 'a) io \<Rightarrow> bool" where
  "no_raise m \<longleftrightarrow> (\<forall>w. \<exists>x w'. m w = (Inr x, w'))"

named_theorems no_raise_intros "coroutines that never raise"

lemma no_raiseI: "(\<And>w. \<exists>x w'. m w = (Inr x, w')) \<Longrightarrow> no_raise m"
  by (simp add: no_raise_def)

lemma no_raiseE: "no_raise m \<Longrightarrow> (\<And>x w'. m w = (Inr x, w') \<Longrightarrow> P) \<Longrightarrow> P"
  by (auto simp: no_raise_def)

lemma no_raise_ret [no_raise_intros]: "no_raise (ret_io x)"
  by (simp add: no_raise_def)

lemma no_raise_bind [no_raise_intros]:
  "no_raise m \<Longrightarrow> (\<And>x. no_raise (f x)) \<Longrightarrow> no_raise (bind_io m f)"
  by (rule no_raiseI) (metis bind_io_Inr no_raise_def)

lemma no_raise_try [no_raise_intros]:
  "(\<And>e. no_raise (h e)) \<Longrightarrow> no_raise (try_io m h)"
  by (rule no_raiseI) (metis no_raise_def old.sum.exhaust surj_pair try_io_Inl try_io_Inr)

lemma no_raise_try_body: "no_raise m \<Longrightarrow> no_raise (try_io m h)"
  by (rule no_raiseI) (metis no_raise_def try_io_Inr)

lemma no_raise_catch [no_raise_intros]: "no_raise (catch_io m)"
  by (auto simp: no_raise_def catch_io_def split: prod.splits)

lemma no_raise_finally [no_raise_intros]: "no_raise m \<Longrightarrow> no_raise f \<Longrightarrow> no_raise (finally_io m f)"
proof (rule no_raiseI)
  fix w
  assume "no_raise m" "no_raise f"
  then obtain x w1 u w2 where "m w = (Inr x, w1)" "f w1 = (Inr u, w2)"
    by (metis no_raise_def)
  then show "\<exists>x w'. finally_io m f w = (Inr x, w')" by (simp add: finally_io_def)
qed

lemma no_raise_if [no_raise_intros]:
  "(b \<Longrightarrow> no_raise m) \<Longrightarrow> (\<not> b \<Longrightarrow> no_raise m') \<Longrightarrow> no_raise (if b then m else m')"
  by simp

text \<open>A coroutine that leaves a part \<open>f\<close> of the world as it is.\<close>

definition keeps :: "('w \<Rightarrow> 'k) \<Rightarrow> ('w, 'a) io \<Rightarrow> bool" where
  "keeps f m \<longleftrightarrow> (\<forall>w. f (snd (m w)) = f w)"

named_theorems keeps_intros "coroutines that leave a part of the world as it is"

lemma keepsD: "keeps f m \<Longrightarrow> m w = (res, w') \<Longrightarrow> f w' = f w"
  by (metis keeps_def snd_conv)

lemma keeps_ret [keeps_intros]: "keeps f (ret_io x)" "keeps f (raise_io e)" "keeps f (of_result r)"
  by (simp_all add: keeps_def)

lemma keeps_bind [keeps_intros]: "keeps f m \<Longrightarrow> (\<And>x. keeps f (g x)) \<Longrightarrow> keeps f (bind_io m g)"
  unfolding keeps_def bind_io_def by (auto split: prod.splits sum.splits) (metis snd_conv)+

lemma keeps_try [keeps_intros]: "keeps f m \<Longrightarrow> (\<And>e. keeps f (h e)) \<Longrightarrow> keeps f (try_io m h)"
  unfolding keeps_def try_io_def by (auto split: prod.splits sum.splits) (metis snd_conv)+

lemma keeps_catch [keeps_intros]: "keeps f m \<Longrightarrow> keeps f (catch_io m)"
  unfolding keeps_def catch_io_def by (auto split: prod.splits) (metis snd_conv)

lemma keeps_if [keeps_intros]:
  "(b \<Longrightarrow> keeps f m) \<Longrightarrow> (\<not> b \<Longrightarrow> keeps f m') \<Longrightarrow> keeps f (if b then m else m')"
  by simp

text \<open>Running a coroutine over a list, in order (a \<open>for\<close> loop whose body awaits).\<close>

fun map_io :: "('a \<Rightarrow> ('w, 'b) io) \<Rightarrow> 'a list \<Rightarrow> ('w, 'b list) io" where
  "map_io f [] = ret_io []"
| "map_io f (x # xs) = bind_io (f x) (\<lambda>y. bind_io (map_io f xs) (\<lambda>ys. ret_io (y # ys)))"

lemma no_raise_map_io [no_raise_intros]:
  "(\<And>x. no_raise (f x)) \<Longrightarrow> no_raise (map_io f xs)"
  by (induction xs) (auto intro!: no_raise_intros)

lemma map_io_length: "map_io f xs w = (Inr ys, w') \<Longrightarrow> length ys = length xs"
  by (induction xs arbitrary: ys w) (auto simp: bind_io_eq_Inr)

lemma map_io_all:
  "map_io f xs w = (Inr ys, w') \<Longrightarrow> (\<And>x y w w'. x \<in> set xs \<Longrightarrow> f x w = (Inr y, w') \<Longrightarrow> P x y)
   \<Longrightarrow> list_all2 P xs ys"
  by (induction xs arbitrary: ys w) (auto simp: bind_io_eq_Inr)

subsection \<open>Services with a state of their own\<close>

text \<open>
  A handler runs in the world together with what its service keeps in memory, so that the memory
  survives exceptions. \<open>on_world\<close> is an operation that only touches the world outside, \<open>on_state\<close> one
  that runs on a part of the memory and replaces it.
\<close>

definition on_world :: "('w, 'a) io \<Rightarrow> ('w \<times> 's, 'a) io" where
  "on_world m = (\<lambda>(w, s). case m w of (r, w') \<Rightarrow> (r, (w', s)))"

definition on_state ::
    "('s \<Rightarrow> ('w, 'a \<times> 'b) io) \<Rightarrow> ('b \<Rightarrow> 's \<Rightarrow> 's) \<Rightarrow> ('w \<times> 's, 'a) io" where
  "on_state m put = (\<lambda>(w, s). case m s w of
     (Inl e, w') \<Rightarrow> (Inl e, (w', s)) | (Inr (x, b), w') \<Rightarrow> (Inr x, (w', put b s)))"

text \<open>An operation that reads the memory, and one that only changes it.\<close>

definition reads :: "('s \<Rightarrow> ('w, 'a) io) \<Rightarrow> ('w \<times> 's, 'a) io" where
  "reads m = (\<lambda>(w, s). on_world (m s) (w, s))"

definition modify :: "('s \<Rightarrow> 's) \<Rightarrow> ('w \<times> 's, unit) io" where
  "modify f = (\<lambda>(w, s). (Inr (), (w, f s)))"

lemma on_world_eq: "on_world m (w, s) = (case m w of (r, w') \<Rightarrow> (r, (w', s)))"
  by (simp add: on_world_def)

lemma reads_eq: "reads m (w, s) = (case m s w of (r, w') \<Rightarrow> (r, (w', s)))"
  by (simp add: reads_def on_world_eq)

lemma modify_eq [simp, io_simps]: "modify f (w, s) = (Inr (), (w, f s))"
  by (simp add: modify_def)

lemma no_raise_on_world:
  assumes "no_raise m"
  shows "no_raise (on_world m)"
proof (rule no_raiseI)
  fix ws :: "'a \<times> 's"
  obtain w s where ws: "ws = (w, s)" by fastforce
  obtain x w' where "m w = (Inr x, w')" using assms by (rule no_raiseE)
  with ws show "\<exists>x w'. on_world m ws = (Inr x, w')" by (simp add: on_world_def)
qed

lemma no_raise_on_state:
  assumes "\<And>s. no_raise (m s)"
  shows "no_raise (on_state m put)"
proof (rule no_raiseI)
  fix ws :: "'b \<times> 'a"
  obtain w s where ws: "ws = (w, s)" by fastforce
  obtain x w' where "m s w = (Inr x, w')" using assms by (rule no_raiseE)
  with ws show "\<exists>x w'. on_state m put ws = (Inr x, w')"
    by (cases x) (simp add: on_state_def)
qed

lemma no_raise_reads: "(\<And>s. no_raise (m s)) \<Longrightarrow> no_raise (reads m)"
  by (rule no_raiseI) (auto simp: reads_eq split: prod.splits elim: no_raiseE, metis no_raiseE old.prod.inject)

lemma no_raise_modify [no_raise_intros]: "no_raise (modify f)"
  by (auto simp: no_raise_def modify_def)

text \<open>What keeps a part \<open>g\<close> of the memory.\<close>

lemma keeps_on_world [keeps_intros]: "keeps (\<lambda>ws. g (snd ws)) (on_world m)"
  by (auto simp: keeps_def on_world_def split: prod.splits)

lemma keeps_reads [keeps_intros]: "keeps (\<lambda>ws. g (snd ws)) (reads m)"
  by (auto simp: keeps_def reads_eq split: prod.splits)

lemma keeps_on_state:
  "(\<And>b s. g (put b s) = g s) \<Longrightarrow> keeps (\<lambda>ws. g (snd ws)) (on_state m put)"
  by (auto simp: keeps_def on_state_def split: prod.splits sum.splits)

lemma keeps_modify: "(\<And>s. g (f s) = g s) \<Longrightarrow> keeps (\<lambda>ws. g (snd ws)) (modify f)"
  by (auto simp: keeps_def)

lemma keeps_map_io [keeps_intros]: "(\<And>x. keeps f (m x)) \<Longrightarrow> keeps f (map_io m xs)"
  by (induction xs) (auto intro!: keeps_intros)

text \<open>A coroutine that keeps a property of the world.\<close>

definition preserves :: "('w \<Rightarrow> bool) \<Rightarrow> ('w, 'a) io \<Rightarrow> bool" where
  "preserves P m \<longleftrightarrow> (\<forall>w. P w \<longrightarrow> P (snd (m w)))"

named_theorems preserves_intros "coroutines that keep a property of the world"

lemma preservesD: "preserves P m \<Longrightarrow> m w = (res, w') \<Longrightarrow> P w \<Longrightarrow> P w'"
  by (metis preserves_def snd_conv)

lemma preserves_ret [preserves_intros]:
  "preserves P (ret_io x)" "preserves P (raise_io e)" "preserves P (of_result r)"
  by (simp_all add: preserves_def)

lemma preserves_bind [preserves_intros]:
  "preserves P m \<Longrightarrow> (\<And>x. preserves P (g x)) \<Longrightarrow> preserves P (bind_io m g)"
  unfolding preserves_def bind_io_def by (fastforce split: prod.splits sum.splits)

lemma preserves_try [preserves_intros]:
  "preserves P m \<Longrightarrow> (\<And>e. preserves P (h e)) \<Longrightarrow> preserves P (try_io m h)"
  unfolding preserves_def try_io_def by (fastforce split: prod.splits sum.splits)

lemma preserves_catch [preserves_intros]: "preserves P m \<Longrightarrow> preserves P (catch_io m)"
  unfolding preserves_def catch_io_def by (fastforce split: prod.splits)

lemma preserves_if [preserves_intros]:
  "(b \<Longrightarrow> preserves P m) \<Longrightarrow> (\<not> b \<Longrightarrow> preserves P m') \<Longrightarrow> preserves P (if b then m else m')"
  by simp

lemma preserves_map_io [preserves_intros]: "(\<And>x. preserves P (m x)) \<Longrightarrow> preserves P (map_io m xs)"
  by (induction xs) (auto intro!: preserves_intros)

lemma preserves_keeps: "keeps f m \<Longrightarrow> preserves (\<lambda>w. P (f w)) m"
  by (simp add: preserves_def keeps_def)

subsection \<open>First occurrences\<close>

text \<open>\<open>list(dict.fromkeys(xs))\<close>: each element at its first position.\<close>

fun fromkeys :: "'a list \<Rightarrow> 'a list" where
  "fromkeys [] = []"
| "fromkeys (x # xs) = x # filter (\<lambda>y. y \<noteq> x) (fromkeys xs)"

lemma set_fromkeys [simp]: "set (fromkeys xs) = set xs"
  by (induction xs) auto

lemma distinct_fromkeys [simp]: "distinct (fromkeys xs)"
  by (induction xs) auto

lemma fromkeys_distinct: "distinct xs \<Longrightarrow> fromkeys xs = xs"
  by (induction xs) (auto simp: filter_id_conv)

lemma fromkeys_append:
  "fromkeys (xs @ ys) = fromkeys xs @ filter (\<lambda>y. y \<notin> set xs) (fromkeys ys)"
  by (induction xs) (auto intro: filter_cong)

lemma fromkeys_snoc:
  "fromkeys (xs @ [x]) = (if x \<in> set xs then fromkeys xs else fromkeys xs @ [x])"
  by (simp add: fromkeys_append)

subsection \<open>Text\<close>

definition lower_char :: "char \<Rightarrow> char" where
  "lower_char c = (let n = (of_char c :: nat) in
     if 65 \<le> n \<and> n \<le> 90 then char_of (n + 32) else c)"

definition upper_char :: "char \<Rightarrow> char" where
  "upper_char c = (let n = (of_char c :: nat) in
     if 97 \<le> n \<and> n \<le> 122 then char_of (n - 32) else c)"

definition str_lower :: "string \<Rightarrow> string" where
  "str_lower s = map lower_char s"

definition str_upper :: "string \<Rightarrow> string" where
  "str_upper s = map upper_char s"

definition starts_with :: "string \<Rightarrow> string \<Rightarrow> bool" where
  "starts_with s p \<longleftrightarrow> take (length p) s = p"

text \<open>\<open>sub in s\<close> for strings.\<close>

fun str_in :: "string \<Rightarrow> string \<Rightarrow> bool" where
  "str_in sub [] = (sub = [])"
| "str_in sub (c # cs) = (starts_with (c # cs) sub \<or> str_in sub cs)"

text \<open>\<open>s.split(sep)\<close> for a one-character separator: never empty.\<close>

fun split_on :: "char \<Rightarrow> string \<Rightarrow> string list" where
  "split_on d [] = [[]]"
| "split_on d (c # cs) =
     (if c = d then [] # split_on d cs
      else (case split_on d cs of [] \<Rightarrow> [[c]] | p # ps \<Rightarrow> (c # p) # ps))"

fun str_join :: "string \<Rightarrow> string list \<Rightarrow> string" where
  "str_join sep [] = []"
| "str_join sep [x] = x"
| "str_join sep (x # y # ys) = x @ sep @ str_join sep (y # ys)"

text \<open>\<open>s.strip()\<close>: ASCII white space off both ends.\<close>

definition is_space :: "char \<Rightarrow> bool" where
  "is_space c \<longleftrightarrow> (let n = (of_char c :: nat) in n = 32 \<or> (9 \<le> n \<and> n \<le> 13) \<or> (28 \<le> n \<and> n \<le> 31))"

definition str_strip :: "string \<Rightarrow> string" where
  "str_strip s = rev (dropWhile is_space (rev (dropWhile is_space s)))"

fun show_nat :: "nat \<Rightarrow> string" where
  "show_nat n = (if n < 10 then [char_of (48 + n)] else show_nat (n div 10) @ [char_of (48 + n mod 10)])"

declare show_nat.simps [simp del]

definition show_int :: "int \<Rightarrow> string" where
  "show_int i = (if i < 0 then ''-'' @ show_nat (nat (- i)) else show_nat (nat i))"

lemma split_on_nonempty [simp]: "split_on d s \<noteq> []"
  by (induction s) (auto split: list.splits)

lemma hd_split_on: "hd (split_on d s) = takeWhile (\<lambda>c. c \<noteq> d) s"
  by (induction s) (auto split: list.splits)

lemma hd_split_on_id: "d \<notin> set s \<Longrightarrow> hd (split_on d s) = s"
  by (simp add: hd_split_on takeWhile_eq_all_conv) blast

lemma hd_split_on_append: "d \<notin> set p \<Longrightarrow> hd (split_on d (p @ d # s)) = p"
  by (simp add: hd_split_on takeWhile_append)

lemma starts_with_append [simp]: "starts_with (p @ s) p"
  by (simp add: starts_with_def)

lemma starts_with_iff: "starts_with s p \<longleftrightarrow> (\<exists>t. s = p @ t)"
  by (metis append_take_drop_id starts_with_append starts_with_def)

lemma str_in_iff: "str_in sub s \<longleftrightarrow> (\<exists>a b. s = a @ sub @ b)"
proof (induction s)
  case Nil
  then show ?case by auto
next
  case (Cons c cs)
  show ?case
  proof
    assume "str_in sub (c # cs)"
    then show "\<exists>a b. c # cs = a @ sub @ b"
      by (metis Cons.IH append_Cons append_Nil starts_with_iff str_in.simps(2))
  next
    assume "\<exists>a b. c # cs = a @ sub @ b"
    then obtain a b where ab: "c # cs = a @ sub @ b" by blast
    show "str_in sub (c # cs)"
    proof (cases a)
      case Nil
      with ab have "starts_with (c # cs) sub" by (auto simp: starts_with_iff)
      then show ?thesis by simp
    next
      case (Cons a' as)
      with ab have "cs = as @ sub @ b" by simp
      with Cons.IH show ?thesis by auto
    qed
  qed
qed

lemma str_upper_length [simp]: "length (str_upper s) = length s"
  by (simp add: str_upper_def)

subsection \<open>Small facts on lists\<close>

lemma list_all2_fst_map: "list_all2 (\<lambda>x y. f y = x) xs ys \<longleftrightarrow> map f ys = xs"
  by (induction xs ys rule: list_induct2') auto

lemma max_0_diff_le: "(0::int) \<le> k \<Longrightarrow> max 0 (b - k) \<le> max 0 b"
  by auto

subsection \<open>The environment of the process\<close>

text \<open>\<open>os.environ\<close>, and \<open>os.environ.get(k) or dflt\<close>.\<close>

type_synonym environ = "string \<Rightarrow> string option"

definition env_or :: "environ \<Rightarrow> string \<Rightarrow> string \<Rightarrow> string" where
  "env_or env k dflt = (case env k of Some v \<Rightarrow> if v = [] then dflt else v | None \<Rightarrow> dflt)"

text \<open>\<open>os.environ.get(k, "")\<close>.\<close>

definition getenv :: "environ \<Rightarrow> string \<Rightarrow> string" where
  "getenv env k = (case env k of None \<Rightarrow> [] | Some v \<Rightarrow> v)"

end
