(* ===== verification/Mitre_Router.thy ===== *)
theory Mitre_Router
  imports Prelude
begin

section \<open>services/mitre_router.py: the deterministic technique-to-tool router\<close>

text \<open>
  The whole module: the time windows, the routing entry, the routing table with its default,
  the severity budgets and the four public functions. A routing table is a \<open>dict\<close>, so an
  association list here, one per tactic, as the source groups it; \<open>table_keys_distinct\<close> shows that no entry shadows another. The lemmas
  give the functional behaviour of the lookup (exact technique, parent, default), the order and
  the content of the tool list against the reference description (\<open>dict.fromkeys\<close> over the
  priority tools and then all tools), and bounds that the parameter schemas of the tools need.
\<close>

subsection \<open>Time windows and entries\<close>

record time_window =
  tw_hours :: int
  tw_label :: string

definition PROCESS_EXECUTION_WINDOW :: time_window where
  "PROCESS_EXECUTION_WINDOW = \<lparr>tw_hours = 72, tw_label = ''72h''\<rparr>"

definition AUTH_LOGIN_WINDOW :: time_window where
  "AUTH_LOGIN_WINDOW = \<lparr>tw_hours = 336, tw_label = ''14d''\<rparr>"

definition LATERAL_MOVEMENT_WINDOW :: time_window where
  "LATERAL_MOVEMENT_WINDOW = \<lparr>tw_hours = 48, tw_label = ''48h''\<rparr>"

definition C2_BEACONING_WINDOW :: time_window where
  "C2_BEACONING_WINDOW = \<lparr>tw_hours = 720, tw_label = ''30d''\<rparr>"

definition PERSISTENCE_WINDOW :: time_window where
  "PERSISTENCE_WINDOW = \<lparr>tw_hours = 2160, tw_label = ''90d''\<rparr>"

definition THREAT_INTEL_WINDOW :: time_window where
  "THREAT_INTEL_WINDOW = \<lparr>tw_hours = 8760, tw_label = ''12mo''\<rparr>"

definition USER_BEHAVIOR_WINDOW :: time_window where
  "USER_BEHAVIOR_WINDOW = \<lparr>tw_hours = 2160, tw_label = ''90d''\<rparr>"

lemmas window_defs = PROCESS_EXECUTION_WINDOW_def AUTH_LOGIN_WINDOW_def
  LATERAL_MOVEMENT_WINDOW_def C2_BEACONING_WINDOW_def PERSISTENCE_WINDOW_def
  THREAT_INTEL_WINDOW_def USER_BEHAVIOR_WINDOW_def

record routing_entry =
  re_tools :: "string list"
  re_time_window :: time_window
  re_parallel_burst :: bool
  re_priority_tool :: "string option"

text \<open>The dataclass constructor with its defaults \<open>parallel_burst=True\<close>, \<open>priority_tool=None\<close>.\<close>

definition RoutingEntry :: "string list \<Rightarrow> time_window \<Rightarrow> routing_entry" where
  "RoutingEntry tools tw =
     \<lparr>re_tools = tools, re_time_window = tw, re_parallel_burst = True, re_priority_tool = None\<rparr>"

subsection \<open>The routing table\<close>

text \<open>The entries by tactic, in the sections of the source.\<close>

definition CREDENTIAL_ACCESS_ROUTES :: "(string \<times> routing_entry) list" where
  "CREDENTIAL_ACCESS_ROUTES = [
    (''T1003.001'', RoutingEntry [''query_crowdstrike'', ''query_splunk'', ''lookup_threat_intel'']
       PROCESS_EXECUTION_WINDOW \<lparr>re_priority_tool := Some ''query_crowdstrike''\<rparr>),
    (''T1003.002'', RoutingEntry [''query_crowdstrike'', ''query_splunk''] PROCESS_EXECUTION_WINDOW),
    (''T1003.003'', RoutingEntry [''query_crowdstrike'', ''query_splunk'', ''query_cmdb'']
       PROCESS_EXECUTION_WINDOW),
    (''T1110.001'', RoutingEntry [''query_splunk'', ''query_cmdb''] AUTH_LOGIN_WINDOW),
    (''T1110.003'', RoutingEntry [''query_splunk'', ''query_cmdb'', ''lookup_threat_intel'']
       AUTH_LOGIN_WINDOW),
    (''T1555'', RoutingEntry [''query_crowdstrike'', ''query_splunk''] PROCESS_EXECUTION_WINDOW)]"

definition COMMAND_AND_CONTROL_ROUTES :: "(string \<times> routing_entry) list" where
  "COMMAND_AND_CONTROL_ROUTES = [
    (''T1071.004'', RoutingEntry [''query_netflow'', ''query_dns_logs'', ''lookup_threat_intel'']
       C2_BEACONING_WINDOW),
    (''T1071.001'', RoutingEntry [''query_netflow'', ''lookup_threat_intel'', ''query_splunk'']
       C2_BEACONING_WINDOW),
    (''T1573'', RoutingEntry [''query_netflow'', ''lookup_threat_intel''] C2_BEACONING_WINDOW),
    (''T1095'', RoutingEntry [''query_netflow'', ''lookup_threat_intel''] C2_BEACONING_WINDOW)]"

definition LATERAL_MOVEMENT_ROUTES :: "(string \<times> routing_entry) list" where
  "LATERAL_MOVEMENT_ROUTES = [
    (''T1021.001'', RoutingEntry [''query_netflow'', ''query_splunk'', ''query_cmdb'']
       LATERAL_MOVEMENT_WINDOW),
    (''T1021.002'', RoutingEntry [''query_netflow'', ''query_splunk'', ''query_crowdstrike'']
       LATERAL_MOVEMENT_WINDOW),
    (''T1021.006'', RoutingEntry [''query_splunk'', ''query_crowdstrike''] LATERAL_MOVEMENT_WINDOW)]"

definition PERSISTENCE_ROUTES :: "(string \<times> routing_entry) list" where
  "PERSISTENCE_ROUTES = [
    (''T1053.005'', RoutingEntry [''query_crowdstrike'', ''query_splunk''] PERSISTENCE_WINDOW),
    (''T1547.001'', RoutingEntry [''query_crowdstrike'', ''query_splunk''] PERSISTENCE_WINDOW),
    (''T1543.003'', RoutingEntry [''query_crowdstrike'', ''query_splunk''] PERSISTENCE_WINDOW)]"

definition IMPACT_ROUTES :: "(string \<times> routing_entry) list" where
  "IMPACT_ROUTES = [
    (''T1486'', RoutingEntry [''query_crowdstrike'', ''query_splunk'', ''query_backup_systems'']
       PROCESS_EXECUTION_WINDOW
       \<lparr>re_parallel_burst := False, re_priority_tool := Some ''query_crowdstrike''\<rparr>),
    (''T1490'', RoutingEntry [''query_crowdstrike'', ''query_splunk'', ''query_backup_systems'']
       PROCESS_EXECUTION_WINDOW \<lparr>re_priority_tool := Some ''query_crowdstrike''\<rparr>),
    (''T1489'', RoutingEntry [''query_crowdstrike'', ''query_splunk''] PROCESS_EXECUTION_WINDOW)]"

definition PRIVILEGE_ESCALATION_ROUTES :: "(string \<times> routing_entry) list" where
  "PRIVILEGE_ESCALATION_ROUTES = [
    (''T1078.004'', RoutingEntry [''query_aws'', ''query_splunk'', ''lookup_threat_intel'']
       AUTH_LOGIN_WINDOW),
    (''T1098'', RoutingEntry [''query_splunk'', ''query_aws'', ''query_cmdb''] AUTH_LOGIN_WINDOW),
    (''T1134'', RoutingEntry [''query_crowdstrike'', ''query_splunk''] PROCESS_EXECUTION_WINDOW)]"

definition EXFILTRATION_ROUTES :: "(string \<times> routing_entry) list" where
  "EXFILTRATION_ROUTES = [
    (''T1048'', RoutingEntry [''query_netflow'', ''lookup_threat_intel'', ''query_splunk'']
       C2_BEACONING_WINDOW),
    (''T1041'', RoutingEntry [''query_netflow'', ''lookup_threat_intel''] C2_BEACONING_WINDOW)]"

definition INITIAL_ACCESS_ROUTES :: "(string \<times> routing_entry) list" where
  "INITIAL_ACCESS_ROUTES = [
    (''T1190'', RoutingEntry
       [''query_splunk'', ''lookup_vulncheck'', ''lookup_threat_intel'', ''query_cmdb'']
       PROCESS_EXECUTION_WINDOW),
    (''T1203'', RoutingEntry [''query_crowdstrike'', ''query_splunk'', ''lookup_vulncheck'']
       PROCESS_EXECUTION_WINDOW \<lparr>re_priority_tool := Some ''query_crowdstrike''\<rparr>),
    (''T1210'', RoutingEntry
       [''query_crowdstrike'', ''query_splunk'', ''lookup_vulncheck'', ''query_netflow'']
       LATERAL_MOVEMENT_WINDOW \<lparr>re_priority_tool := Some ''query_crowdstrike''\<rparr>),
    (''T1211'', RoutingEntry [''query_crowdstrike'', ''query_splunk'', ''lookup_vulncheck'']
       PROCESS_EXECUTION_WINDOW)]"

definition DISCOVERY_ROUTES :: "(string \<times> routing_entry) list" where
  "DISCOVERY_ROUTES = [
    (''T1082'', RoutingEntry [''query_crowdstrike'', ''query_splunk''] PROCESS_EXECUTION_WINDOW),
    (''T1083'', RoutingEntry [''query_crowdstrike'', ''query_splunk''] PROCESS_EXECUTION_WINDOW),
    (''T1046'', RoutingEntry [''query_netflow'', ''query_splunk''] LATERAL_MOVEMENT_WINDOW)]"

definition DEFENSE_EVASION_ROUTES :: "(string \<times> routing_entry) list" where
  "DEFENSE_EVASION_ROUTES = [
    (''T1055'', RoutingEntry [''query_crowdstrike'', ''query_splunk''] PROCESS_EXECUTION_WINDOW),
    (''T1562.001'', RoutingEntry [''query_crowdstrike'', ''query_splunk''] PROCESS_EXECUTION_WINDOW),
    (''T1070.004'', RoutingEntry [''query_crowdstrike'', ''query_splunk''] PROCESS_EXECUTION_WINDOW)]"

definition EXECUTION_ROUTES :: "(string \<times> routing_entry) list" where
  "EXECUTION_ROUTES = [
    (''T1059.001'', RoutingEntry [''query_crowdstrike'', ''query_splunk''] PROCESS_EXECUTION_WINDOW),
    (''T1059.003'', RoutingEntry [''query_crowdstrike'', ''query_splunk''] PROCESS_EXECUTION_WINDOW)]"

definition TECHNIQUE_TO_TOOLS :: "(string \<times> routing_entry) list" where
  "TECHNIQUE_TO_TOOLS = CREDENTIAL_ACCESS_ROUTES @ COMMAND_AND_CONTROL_ROUTES @ LATERAL_MOVEMENT_ROUTES @ PERSISTENCE_ROUTES
     @ IMPACT_ROUTES @ PRIVILEGE_ESCALATION_ROUTES @ EXFILTRATION_ROUTES @ INITIAL_ACCESS_ROUTES
     @ DISCOVERY_ROUTES @ DEFENSE_EVASION_ROUTES @ EXECUTION_ROUTES"

definition DEFAULT_ROUTING :: routing_entry where
  "DEFAULT_ROUTING =
     RoutingEntry [''query_splunk'', ''lookup_threat_intel'', ''query_cmdb''] PROCESS_EXECUTION_WINDOW"

definition SEVERITY_BUDGET :: "(string \<times> int) list" where
  "SEVERITY_BUDGET = [(''LOW'', 3), (''MEDIUM'', 5), (''HIGH'', 8), (''CRITICAL'', 15)]"

subsection \<open>The public functions\<close>

definition get_routing :: "string \<Rightarrow> routing_entry" where
  "get_routing technique_id =
     (case map_of TECHNIQUE_TO_TOOLS technique_id of
        Some e \<Rightarrow> e
      | None \<Rightarrow>
          (case map_of TECHNIQUE_TO_TOOLS (hd (split_on (CHR ''.'') technique_id)) of
             Some e \<Rightarrow> e
           | None \<Rightarrow> DEFAULT_ROUTING))"

text \<open>
  The two loops of \<open>get_tools_for_techniques\<close>. The loop state is \<open>(ordered, seen)\<close>; \<open>add_tool\<close> is
  the guarded append that both loops perform.
\<close>

type_synonym tool_acc = "string list \<times> string set"

definition add_tool :: "string \<Rightarrow> tool_acc \<Rightarrow> tool_acc" where
  "add_tool tool acc = (case acc of (ordered, seen) \<Rightarrow>
     if tool \<in> seen then (ordered, seen) else (ordered @ [tool], insert tool seen))"

definition add_priority :: "string \<Rightarrow> tool_acc \<Rightarrow> tool_acc" where
  "add_priority tid acc =
     (case re_priority_tool (get_routing tid) of
        None \<Rightarrow> acc
      | Some p \<Rightarrow> if p = '''' then acc else add_tool p acc)"

definition add_entry_tools :: "string \<Rightarrow> tool_acc \<Rightarrow> tool_acc" where
  "add_entry_tools tid acc = fold add_tool (re_tools (get_routing tid)) acc"

definition get_tools_for_techniques :: "string list \<Rightarrow> string list" where
  "get_tools_for_techniques tids =
     fst (fold add_entry_tools tids (fold add_priority tids ([], {})))"

definition get_time_window :: "string \<Rightarrow> time_window" where
  "get_time_window technique_id = re_time_window (get_routing technique_id)"

definition get_budget :: "string \<Rightarrow> int" where
  "get_budget severity =
     (case map_of SEVERITY_BUDGET (str_upper severity) of Some b \<Rightarrow> b | None \<Rightarrow> 5)"

subsection \<open>Facts of the table\<close>

lemma table_keys_distinct: "distinct (map fst TECHNIQUE_TO_TOOLS)"
  by code_simp

text \<open>
  \<open>route_ok\<close> collects what the rest of the program relies on for a routing entry: a non-empty,
  duplicate-free tool list, a priority tool that is one of the tools, and a look-back of one hour
  to ninety days.
\<close>

definition known_tools :: "string list" where
  "known_tools = [''query_splunk'', ''query_crowdstrike'', ''lookup_threat_intel'', ''query_aws'',
     ''query_cmdb'', ''query_netflow'', ''query_dns_logs'', ''query_backup_systems'',
     ''lookup_vulncheck'']"

definition route_ok :: "routing_entry \<Rightarrow> bool" where
  "route_ok e \<longleftrightarrow> re_tools e \<noteq> [] \<and> distinct (re_tools e)
     \<and> list_all (\<lambda>t. t \<in> set known_tools) (re_tools e)
     \<and> (case re_priority_tool e of None \<Rightarrow> True | Some p \<Rightarrow> p \<in> set (re_tools e) \<and> p \<noteq> '''')
     \<and> 1 \<le> tw_hours (re_time_window e) \<and> tw_hours (re_time_window e) \<le> 2160"

lemma table_ok: "list_all (\<lambda>(_, e). route_ok e) TECHNIQUE_TO_TOOLS"
  by code_simp

lemma default_ok: "route_ok DEFAULT_ROUTING"
  by code_simp

lemma get_routing_cases:
  "get_routing tid = DEFAULT_ROUTING \<or> (\<exists>k. (k, get_routing tid) \<in> set TECHNIQUE_TO_TOOLS)"
  by (auto simp: get_routing_def dest!: map_of_SomeD split: option.splits)

lemma get_routing_ok: "route_ok (get_routing tid)"
  using get_routing_cases [of tid] table_ok default_ok by (auto simp: list_all_iff)

lemmas get_routing_okD = get_routing_ok [unfolded route_ok_def]

subsection \<open>The two loops against the reference description\<close>

definition priority_tools :: "string list \<Rightarrow> string list" where
  "priority_tools tids = List.map_filter (\<lambda>tid. re_priority_tool (get_routing tid)) tids"

definition all_tools :: "string list \<Rightarrow> string list" where
  "all_tools tids = concat (map (\<lambda>tid. re_tools (get_routing tid)) tids)"

text \<open>The loop state mirrors a prefix \<open>xs\<close> of the tools offered so far.\<close>

definition acc_of :: "string list \<Rightarrow> tool_acc" where
  "acc_of xs = (fromkeys xs, set xs)"

lemma add_tool_acc_of: "add_tool t (acc_of xs) = acc_of (xs @ [t])"
  by (auto simp: add_tool_def acc_of_def fromkeys_snoc)

lemma fold_add_tool_acc_of: "fold add_tool ts (acc_of xs) = acc_of (xs @ ts)"
  by (induction ts arbitrary: xs) (simp_all add: add_tool_acc_of)

lemma add_priority_acc_of:
  "add_priority tid (acc_of xs) =
     acc_of (xs @ (case re_priority_tool (get_routing tid) of None \<Rightarrow> [] | Some p \<Rightarrow> [p]))"
  using get_routing_okD [of tid]
  by (auto simp: add_priority_def add_tool_acc_of split: option.splits)

lemma fold_add_priority_acc_of:
  "fold add_priority tids (acc_of xs) = acc_of (xs @ priority_tools tids)"
  by (induction tids arbitrary: xs)
    (simp_all add: add_priority_acc_of priority_tools_def List.map_filter_def split: option.splits)

lemma fold_add_entry_acc_of:
  "fold add_entry_tools tids (acc_of xs) = acc_of (xs @ all_tools tids)"
  by (induction tids arbitrary: xs)
    (simp_all add: add_entry_tools_def fold_add_tool_acc_of all_tools_def)

lemma get_tools_eq_fromkeys:
  "get_tools_for_techniques tids = fromkeys (priority_tools tids @ all_tools tids)"
proof -
  have "([], {}) = acc_of []" by (simp add: acc_of_def)
  then show ?thesis
    by (simp add: get_tools_for_techniques_def fold_add_priority_acc_of fold_add_entry_acc_of
        acc_of_def [of "priority_tools tids @ all_tools tids"])
qed

lemma priority_subset_all: "set (priority_tools tids) \<subseteq> set (all_tools tids)"
proof
  fix t assume "t \<in> set (priority_tools tids)"
  then obtain tid where "tid \<in> set tids" and p: "re_priority_tool (get_routing tid) = Some t"
    by (auto simp: priority_tools_def List.map_filter_def)
  moreover from p have "t \<in> set (re_tools (get_routing tid))"
    using get_routing_okD [of tid] by simp
  ultimately show "t \<in> set (all_tools tids)" by (auto simp: all_tools_def)
qed

lemma set_get_tools: "set (get_tools_for_techniques tids) = set (all_tools tids)"
  using priority_subset_all [of tids] by (auto simp: get_tools_eq_fromkeys)

lemma distinct_get_tools: "distinct (get_tools_for_techniques tids)"
  by (simp add: get_tools_eq_fromkeys)

lemma get_tools_known: "set (get_tools_for_techniques tids) \<subseteq> set known_tools"
  using get_routing_okD by (fastforce simp: set_get_tools all_tools_def list_all_iff)

lemma length_get_tools: "length (get_tools_for_techniques tids) \<le> 9"
proof -
  have "length (get_tools_for_techniques tids) = card (set (get_tools_for_techniques tids))"
    by (simp add: distinct_card distinct_get_tools)
  also have "\<dots> \<le> card (set known_tools)"
    by (rule card_mono) (use get_tools_known in auto)
  also have "\<dots> \<le> length known_tools" by (rule card_length)
  finally show ?thesis by (simp add: known_tools_def)
qed

lemma get_budget_range: "3 \<le> get_budget s \<and> get_budget s \<le> 15"
  by (auto simp: get_budget_def SEVERITY_BUDGET_def split: option.splits if_splits)

subsection \<open>The routing property\<close>

text \<open>
  C39. Routing is exactly this: first the priority tools of the techniques in order, then all
  their tools in order, each tool kept at its first position; the result is duplicate-free, names
  known tools only and therefore has at most nine entries, and it is never empty for a non-empty
  list of techniques, known or not.
\<close>

theorem routed_tools:
  "get_tools_for_techniques tids = fromkeys (priority_tools tids @ all_tools tids)
   \<and> distinct (get_tools_for_techniques tids)
   \<and> set (get_tools_for_techniques tids) \<subseteq> set known_tools
   \<and> length (get_tools_for_techniques tids) \<le> 9
   \<and> (get_tools_for_techniques tids = [] \<longleftrightarrow> tids = [])"
proof -
  have "get_tools_for_techniques tids = [] \<longleftrightarrow> tids = []"
  proof (cases tids)
    case (Cons t ts)
    then have "set (all_tools tids) \<noteq> {}"
      using get_routing_okD [of t] by (auto simp: all_tools_def)
    then show ?thesis using set_get_tools [of tids] Cons by auto
  qed (simp add: get_tools_eq_fromkeys priority_tools_def all_tools_def List.map_filter_simps)
  then show ?thesis
    using get_tools_eq_fromkeys distinct_get_tools get_tools_known length_get_tools by blast
qed

end
