(* ===== verification/Json.thy ===== *)
theory Json
  imports Prelude Complex_Main
begin

section \<open>JSON values and the Python operations on them\<close>

text \<open>
  Alert payloads, tool parameters and tool results are JSON-shaped Python values
  (\<open>dict[str, Any]\<close>). A \<open>dict\<close> is an association list in insertion order; a float is its exact
  rational value (the infinities and NaN are outside the model). The functions here are the
  Python operations the source applies to such values: truth testing, \<open>d.get(k, default)\<close>,
  \<open>v.get(...)\<close> on a value that may not be a dictionary, \<open>v[0]\<close>, \<open>v[:3]\<close>, \<open>len(v)\<close>,
  \<open>sep.join(v)\<close>, and \<open>str\<close>/\<open>repr\<close> as f-strings use them. The shortest decimal rendering of a
  float is the parameter \<open>fr\<close>.
\<close>

datatype json =
    JNull
  | JBool bool
  | JInt int
  | JFloat rat
  | JStr string
  | JList "json list"
  | JDict "(string \<times> json) list"

type_synonym jdict = "(string \<times> json) list"

fun truthy :: "json \<Rightarrow> bool" where
  "truthy JNull = False"
| "truthy (JBool b) = b"
| "truthy (JInt i) = (i \<noteq> 0)"
| "truthy (JFloat r) = (r \<noteq> 0)"
| "truthy (JStr s) = (s \<noteq> [])"
| "truthy (JList xs) = (xs \<noteq> [])"
| "truthy (JDict d) = (d \<noteq> [])"

text \<open>\<open>d.get(k, dflt)\<close> on a dictionary; \<open>d.get(k)\<close> is \<open>dict_get d k JNull\<close>.\<close>

definition dict_get :: "jdict \<Rightarrow> string \<Rightarrow> json \<Rightarrow> json" where
  "dict_get d k dflt = (case map_of d k of None \<Rightarrow> dflt | Some v \<Rightarrow> v)"

definition has_key :: "jdict \<Rightarrow> string \<Rightarrow> bool" where
  "has_key d k \<longleftrightarrow> k \<in> set (map fst d)"

text \<open>\<open>a or b\<close>.\<close>

definition py_or :: "json \<Rightarrow> json \<Rightarrow> json" where
  "py_or a b = (if truthy a then a else b)"

text \<open>Operations on a value of any type raise where Python raises.\<close>

fun attr_get :: "json \<Rightarrow> string \<Rightarrow> json \<Rightarrow> exn + json" where
  "attr_get (JDict d) k dflt = Inr (dict_get d k dflt)"
| "attr_get _ k dflt = Inl (AttributeError ''get'')"

fun index_zero :: "json \<Rightarrow> exn + json" where
  "index_zero (JList (x # xs)) = Inr x"
| "index_zero (JList []) = Inl (IndexError ''list index out of range'')"
| "index_zero (JStr (c # cs)) = Inr (JStr [c])"
| "index_zero (JStr []) = Inl (IndexError ''string index out of range'')"
| "index_zero (JDict d) = Inl (KeyError ''0'')"
| "index_zero _ = Inl (TypeError ''object is not subscriptable'')"

fun slice_to :: "nat \<Rightarrow> json \<Rightarrow> exn + json" where
  "slice_to n (JList xs) = Inr (JList (take n xs))"
| "slice_to n (JStr s) = Inr (JStr (take n s))"
| "slice_to n (JDict d) = Inl (KeyError ''slice'')"
| "slice_to n _ = Inl (TypeError ''object is not subscriptable'')"

fun py_len :: "json \<Rightarrow> exn + int" where
  "py_len (JList xs) = Inr (int (length xs))"
| "py_len (JStr s) = Inr (int (length s))"
| "py_len (JDict d) = Inr (int (length d))"
| "py_len _ = Inl (TypeError ''object has no len()'')"

text \<open>Iterating over a value: the elements of a list, the characters of a string, the keys.\<close>

fun py_iter :: "json \<Rightarrow> exn + json list" where
  "py_iter (JList xs) = Inr xs"
| "py_iter (JStr s) = Inr (map (\<lambda>c. JStr [c]) s)"
| "py_iter (JDict d) = Inr (map (\<lambda>(k, v). JStr k) d)"
| "py_iter _ = Inl (TypeError ''object is not iterable'')"

fun all_strings :: "json list \<Rightarrow> exn + string list" where
  "all_strings [] = Inr []"
| "all_strings (JStr s # xs) =
     (case all_strings xs of Inl e \<Rightarrow> Inl e | Inr ss \<Rightarrow> Inr (s # ss))"
| "all_strings (x # xs) = Inl (TypeError ''sequence item: expected str instance'')"

text \<open>\<open>s in v\<close> for a value of any type.\<close>

fun value_in :: "string \<Rightarrow> json \<Rightarrow> exn + bool" where
  "value_in t (JStr s) = Inr (str_in t s)"
| "value_in t (JList vs) = Inr (JStr t \<in> set vs)"
| "value_in t (JDict d) = Inr (has_key d t)"
| "value_in t _ = Inl (TypeError ''argument is not iterable'')"

definition bind_r :: "exn + 'a \<Rightarrow> ('a \<Rightarrow> exn + 'b) \<Rightarrow> exn + 'b" where
  "bind_r r f = (case r of Inl e \<Rightarrow> Inl e | Inr x \<Rightarrow> f x)"

lemma bind_r_simps [simp]: "bind_r (Inl e) f = Inl e" "bind_r (Inr x) f = f x"
  by (simp_all add: bind_r_def)

lemma bind_r_eq_Inr: "bind_r r f = Inr y \<longleftrightarrow> (\<exists>x. r = Inr x \<and> f x = Inr y)"
  by (auto simp: bind_r_def split: sum.splits)

lemma bind_rE:
  assumes "bind_r r f = Inr y"
  obtains x where "r = Inr x" "f x = Inr y"
  using assms by (auto simp: bind_r_eq_Inr)

definition join_json :: "string \<Rightarrow> json \<Rightarrow> exn + string" where
  "join_json sep v =
     bind_r (py_iter v) (\<lambda>xs. bind_r (all_strings xs) (\<lambda>ss. Inr (str_join sep ss)))"

fun map_r :: "('a \<Rightarrow> exn + 'b) \<Rightarrow> 'a list \<Rightarrow> exn + 'b list" where
  "map_r f [] = Inr []"
| "map_r f (x # xs) = bind_r (f x) (\<lambda>y. bind_r (map_r f xs) (\<lambda>ys. Inr (y # ys)))"

lemma map_r_total: "(\<And>x. x \<in> set xs \<Longrightarrow> \<exists>y. f x = Inr y) \<Longrightarrow> \<exists>ys. map_r f xs = Inr ys"
  by (induction xs) (auto simp: bind_r_eq_Inr)

subsection \<open>\<open>str\<close> and \<open>repr\<close>\<close>

definition hex_digit :: "nat \<Rightarrow> char" where
  "hex_digit n = char_of (if n < 10 then 48 + n else 87 + n)"

definition repr_char :: "char \<Rightarrow> char \<Rightarrow> string" where
  "repr_char q c = (let n = (of_char c :: nat) in
     if c = q \<or> n = 92 then [char_of (92::nat), c]
     else if n = 10 then [char_of (92::nat), CHR ''n'']
     else if n = 13 then [char_of (92::nat), CHR ''r'']
     else if n = 9 then [char_of (92::nat), CHR ''t'']
     else if n < 32 \<or> n = 127
       then [char_of (92::nat), CHR ''x'', hex_digit (n div 16), hex_digit (n mod 16)]
     else [c])"

definition repr_str :: "string \<Rightarrow> string" where
  "repr_str s =
     (let sq = (char_of (39::nat) :: char); dq = char_of (34::nat);
          q = (if sq \<in> set s \<and> dq \<notin> set s then dq else sq)
      in [q] @ concat (map (repr_char q) s) @ [q])"

fun py_repr :: "(rat \<Rightarrow> string) \<Rightarrow> json \<Rightarrow> string" where
  "py_repr fr JNull = ''None''"
| "py_repr fr (JBool b) = (if b then ''True'' else ''False'')"
| "py_repr fr (JInt i) = show_int i"
| "py_repr fr (JFloat r) = fr r"
| "py_repr fr (JStr s) = repr_str s"
| "py_repr fr (JList xs) = ''['' @ str_join '', '' (map (py_repr fr) xs) @ '']''"
| "py_repr fr (JDict d) =
     ''{'' @ str_join '', '' (map (\<lambda>kv. repr_str (fst kv) @ '': '' @ py_repr fr (snd kv)) d) @ ''}''"

fun py_str :: "(rat \<Rightarrow> string) \<Rightarrow> json \<Rightarrow> string" where
  "py_str fr (JStr s) = s"
| "py_str fr v = py_repr fr v"

subsection \<open>Dictionary facts\<close>

lemma dict_get_update_same [simp]: "dict_get (AList.update k v d) k dflt = v"
  by (simp add: dict_get_def update_conv)

lemma dict_get_update_other [simp]:
  "k' \<noteq> k \<Longrightarrow> dict_get (AList.update k v d) k' dflt = dict_get d k' dflt"
  by (simp add: dict_get_def update_conv)

lemma dict_get_delete_same [simp]: "dict_get (AList.delete k d) k dflt = dflt"
  by (simp add: dict_get_def delete_conv)

lemma dict_get_delete_other [simp]:
  "k' \<noteq> k \<Longrightarrow> dict_get (AList.delete k d) k' dflt = dict_get d k' dflt"
  by (simp add: dict_get_def delete_conv)

lemma dict_get_Nil [simp]: "dict_get [] k dflt = dflt"
  by (simp add: dict_get_def)

lemma dict_get_Cons [simp]:
  "dict_get ((k', v) # d) k dflt = (if k = k' then v else dict_get d k dflt)"
  by (simp add: dict_get_def)

lemma has_key_simps [simp]:
  "\<not> has_key [] k" "has_key ((k', v) # d) k \<longleftrightarrow> k = k' \<or> has_key d k"
  by (auto simp: has_key_def)

lemma dict_get_no_key: "\<not> has_key d k \<Longrightarrow> dict_get d k dflt = dflt"
  by (induction d) auto

subsection \<open>Standard-library functions used as they are\<close>

text \<open>
  The functions of Python's standard library that the model does not spell out: \<open>json.loads\<close>
  (which raises \<open>JSONDecodeError\<close>), \<open>json.dumps\<close> without and with \<open>sort_keys\<close>, the hexadecimal
  SHA-256 digest of a text, the decimal rendering of a float and its reading back
  (\<open>float(s)\<close>), and \<open>list(set(xs))\<close>, whose order Python leaves open. Every theorem holds for all
  functions in their place, unless it names what it needs of them (\<open>set_order_ok\<close> for the last).
\<close>

record pylib =
  json_loads :: "string \<Rightarrow> exn + json"
  json_dumps :: "json \<Rightarrow> string"
  json_dumps_sorted :: "json \<Rightarrow> string"
  sha256_hex :: "string \<Rightarrow> string"
  float_repr :: "rat \<Rightarrow> string"
  float_parse :: "string \<Rightarrow> exn + rat"
  set_order :: "string list \<Rightarrow> string list"

definition set_order_ok :: "pylib \<Rightarrow> bool" where
  "set_order_ok lib \<longleftrightarrow> (\<forall>xs. set (set_order lib xs) = set xs \<and> distinct (set_order lib xs))"

definition json_opt :: "string option \<Rightarrow> json" where
  "json_opt v = (case v of None \<Rightarrow> JNull | Some s \<Rightarrow> JStr s)"

text \<open>Truth of an optional string: \<open>None\<close> and the empty string are false.\<close>

definition opt_true :: "string option \<Rightarrow> bool" where
  "opt_true v = (case v of None \<Rightarrow> False | Some s \<Rightarrow> s \<noteq> [])"

definition opt_or :: "string option \<Rightarrow> string option \<Rightarrow> string option" where
  "opt_or a b = (if opt_true a then a else b)"

text \<open>\<open>float(v)\<close>; a boolean counts as 0 or 1.\<close>

fun as_float :: "pylib \<Rightarrow> json \<Rightarrow> exn + rat" where
  "as_float lib (JInt i) = Inr (of_int i)"
| "as_float lib (JFloat r) = Inr r"
| "as_float lib (JBool b) = Inr (if b then 1 else 0)"
| "as_float lib (JStr s) = float_parse lib s"
| "as_float lib _ = Inl (TypeError ''float() argument must be a string or a real number'')"

text \<open>\<open>int(v)\<close>: a float is truncated towards zero.\<close>

definition trunc_rat :: "rat \<Rightarrow> int" where
  "trunc_rat r = (if r < 0 then - \<lfloor>- r\<rfloor> else \<lfloor>r\<rfloor>)"

end
