(* ===== verification/Schemas.thy ===== *)
theory Schemas
  imports Json
begin

section \<open>schemas/: the data contracts\<close>

text \<open>
  The Pydantic models of \<open>schemas/v1\<close> and the enumerations of \<open>schemas/_common/enums.py\<close>. A
  model class is a record with the class's fields (prefixed by the class's initials), a
  \<open>StrEnum\<close> a datatype with its value function, an optional field an \<open>option\<close>. A timestamp is a
  \<open>string\<close> (its ISO text). The bounds of \<open>Field(...)\<close> are the \<open>_valid\<close> predicates: constructing a
  model outside them raises \<open>ValidationError\<close>.
\<close>

subsection \<open>Enumerations\<close>

datatype severity = LOW | MEDIUM | HIGH | CRITICAL

fun severity_value :: "severity \<Rightarrow> string" where
  "severity_value LOW = ''LOW''"
| "severity_value MEDIUM = ''MEDIUM''"
| "severity_value HIGH = ''HIGH''"
| "severity_value CRITICAL = ''CRITICAL''"

text \<open>Severities are ordered as declared, from the least to the most severe.\<close>

fun severity_rank :: "severity \<Rightarrow> nat" where
  "severity_rank LOW = 0"
| "severity_rank MEDIUM = 1"
| "severity_rank HIGH = 2"
| "severity_rank CRITICAL = 3"

lemma severity_rank_inj: "severity_rank a = severity_rank b \<Longrightarrow> a = b"
  by (cases a; cases b) simp_all

instantiation severity :: linorder
begin

definition less_eq_severity :: "severity \<Rightarrow> severity \<Rightarrow> bool" where
  "less_eq_severity a b \<longleftrightarrow> severity_rank a \<le> severity_rank b"

definition less_severity :: "severity \<Rightarrow> severity \<Rightarrow> bool" where
  "less_severity a b \<longleftrightarrow> severity_rank a < severity_rank b"

instance
  by standard (auto simp: less_eq_severity_def less_severity_def dest: severity_rank_inj)

end

text \<open>\<open>Severity(s)\<close>: \<open>ValueError\<close> for a string that is no member's value.\<close>

definition severity_of :: "string \<Rightarrow> exn + severity" where
  "severity_of s =
     (if s = ''LOW'' then Inr LOW else if s = ''MEDIUM'' then Inr MEDIUM
      else if s = ''HIGH'' then Inr HIGH else if s = ''CRITICAL'' then Inr CRITICAL
      else Inl (ValueError (repr_str s @ '' is not a valid Severity'')))"

lemma severity_of_value [simp]: "severity_of (severity_value s) = Inr s"
  by (cases s) (simp_all add: severity_of_def)

datatype alert_source = SPLUNK | CROWDSTRIKE | AWS_GUARDDUTY | SENTINEL | GENERIC

fun source_value :: "alert_source \<Rightarrow> string" where
  "source_value SPLUNK = ''splunk''"
| "source_value CROWDSTRIKE = ''crowdstrike''"
| "source_value AWS_GUARDDUTY = ''aws_guardduty''"
| "source_value SENTINEL = ''sentinel''"
| "source_value GENERIC = ''generic''"

definition source_of :: "string \<Rightarrow> exn + alert_source" where
  "source_of s =
     (if s = ''splunk'' then Inr SPLUNK else if s = ''crowdstrike'' then Inr CROWDSTRIKE
      else if s = ''aws_guardduty'' then Inr AWS_GUARDDUTY else if s = ''sentinel'' then Inr SENTINEL
      else if s = ''generic'' then Inr GENERIC
      else Inl (ValueError (repr_str s @ '' is not a valid AlertSource'')))"

lemma source_of_value [simp]: "source_of (source_value s) = Inr s"
  by (cases s) (simp_all add: source_of_def)

datatype escalation_decision = ESCALATE_IR | FALSE_POSITIVE | MONITOR | CLOSE

fun escalation_value :: "escalation_decision \<Rightarrow> string" where
  "escalation_value ESCALATE_IR = ''ESCALATE_IR''"
| "escalation_value FALSE_POSITIVE = ''FALSE_POSITIVE''"
| "escalation_value MONITOR = ''MONITOR''"
| "escalation_value CLOSE = ''CLOSE''"

subsection \<open>The normalised alert\<close>

record network_activity =
  nw_src_ip :: "string option"
  nw_dst_ip :: "string option"
  nw_src_port :: "int option"
  nw_dst_port :: "int option"
  nw_protocol :: "string option"
  nw_bytes_in :: "int option"
  nw_bytes_out :: "int option"

record process_activity =
  pa_process_name :: "string option"
  pa_process_path :: "string option"
  pa_process_id :: "int option"
  pa_parent_process_name :: "string option"
  pa_command_line :: "string option"
  pa_hash_md5 :: "string option"
  pa_hash_sha256 :: "string option"

record user_activity =
  ua_username :: "string option"
  ua_domain :: "string option"
  ua_uid :: "string option"
  ua_is_privileged :: bool
  ua_auth_protocol :: "string option"

record finding_info =
  fi_title :: string
  fi_desc :: string
  fi_product_uid :: "string option"
  fi_severity_id :: "int option"

record observable_entry =
  ob_type :: string
  ob_value :: string

record attack_context =
  ac_tactic_name :: "string option"
  ac_technique_uid :: "string option"

record detection_finding_slice =
  df_schema_version :: string
  df_finding_info :: finding_info
  df_observables :: "observable_entry list"
  df_attacks :: "attack_context option"
  df_evidences :: "string option option"

text \<open>\<open>EvidenceBundle\<close> has one optional field, so \<open>evidences\<close> is an option of an option.\<close>

record normalized_alert =
  na_alert_id :: string
  na_source :: alert_source
  na_source_alert_id :: "string option"
  na_title :: string
  na_description :: string
  na_severity :: severity
  na_timestamp :: string
  na_ingested_at :: string
  na_tenant_id :: "string option"
  na_category_uid :: "int option"
  na_class_uid :: "int option"
  na_activity_id :: "int option"
  na_hostname :: "string option"
  na_asset_id :: "string option"
  na_cloud_region :: "string option"
  na_cloud_account_id :: "string option"
  na_network :: "network_activity option"
  na_process :: "process_activity option"
  na_user :: "user_activity option"
  na_mitre_tactic :: "string option"
  na_mitre_technique :: "string option"
  na_detection_finding :: "detection_finding_slice option"
  na_raw_payload :: jdict
  na_coerced_by_llm :: bool
  na_coercion_trace_id :: "string option"

subsection \<open>Extracted entities\<close>

record host_entity =
  he_hostname :: string
  he_ip_addresses :: "string list"
  he_os_type :: "string option"
  he_is_server :: "bool option"
  he_asset_criticality :: string

record user_entity =
  ue_username :: string
  ue_domain :: "string option"
  ue_is_admin :: bool
  ue_is_service_account :: bool

record process_entity =
  pe_name :: string
  pe_path :: "string option"
  pe_command_line :: "string option"
  pe_hash_sha256 :: "string option"
  pe_is_suspicious :: bool
  pe_suspicion_reason :: "string option"

record technique_entity =
  te_technique_id :: string
  te_technique_name :: "string option"
  te_tactic :: "string option"
  te_confidence :: rat

record ioc_entity =
  ioc_type :: string
  ioc_value :: string
  ioc_context :: "string option"

definition ioc_types :: "string list" where
  "ioc_types = [''ip'', ''domain'', ''hash_md5'', ''hash_sha256'', ''url'', ''email'', ''filename'']"

record extracted_entities =
  ee_hosts :: "host_entity list"
  ee_users :: "user_entity list"
  ee_processes :: "process_entity list"
  ee_techniques :: "technique_entity list"
  ee_iocs :: "ioc_entity list"
  ee_attack_chain_summary :: string

subsection \<open>Tool calls and THINK output\<close>

record tool_call_record =
  tcr_tool_name :: string
  tcr_input_params :: jdict
  tcr_result_summary :: string
  tcr_raw_result :: jdict
  tcr_source_available :: bool
  tcr_latency_ms :: int
  tcr_error :: "string option"

record agent_think_tool_plan =
  pl_name :: string
  pl_arguments :: string

record agent_think_response =
  th_tocontinue :: bool
  th_planned_tools :: "agent_think_tool_plan list"
  th_reasoning :: string

definition think_valid :: "agent_think_response \<Rightarrow> bool" where
  "think_valid t \<longleftrightarrow> length (th_planned_tools t) \<le> 8 \<and> length (th_reasoning t) \<le> 2048
     \<and> list_all (\<lambda>p. length (pl_arguments p) \<le> 4096) (th_planned_tools t)"

subsection \<open>The verdict\<close>

record mitre_assessment =
  ma_technique_id :: string
  ma_technique_name :: string
  ma_tactic :: string
  ma_confidence :: rat

record immediate_action =
  ia_priority :: int
  ia_action :: string
  ia_target :: "string option"

record triage_verdict =
  tv_verdict_id :: string
  tv_alert_id :: string
  tv_tenant_id :: "string option"
  tv_generated_at :: string
  tv_status :: "string option"
  tv_severity :: severity
  tv_severity_justification :: string
  tv_mitre_assessments :: "mitre_assessment list"
  tv_triage_summary :: string
  tv_confirmed_iocs :: "ioc_entity list"
  tv_immediate_actions :: "immediate_action list"
  tv_escalation :: escalation_decision
  tv_escalation_rationale :: string
  tv_total_tool_calls :: int
  tv_tools_called :: "string list"
  tv_analyst_confidence :: rat
  tv_false_positive_probability :: rat

definition unit_interval :: "rat \<Rightarrow> bool" where
  "unit_interval r \<longleftrightarrow> 0 \<le> r \<and> r \<le> 1"

definition verdict_valid :: "triage_verdict \<Rightarrow> bool" where
  "verdict_valid v \<longleftrightarrow>
     list_all (\<lambda>m. unit_interval (ma_confidence m)) (tv_mitre_assessments v)
     \<and> list_all (\<lambda>a. 1 \<le> ia_priority a \<and> ia_priority a \<le> 3) (tv_immediate_actions v)
     \<and> list_all (\<lambda>i. ioc_type i \<in> set ioc_types) (tv_confirmed_iocs v)
     \<and> unit_interval (tv_analyst_confidence v) \<and> unit_interval (tv_false_positive_probability v)"

subsection \<open>Phase events\<close>

definition triage_phases :: "string list" where
  "triage_phases = [''queued'', ''extract'', ''route'', ''burst'', ''react'', ''execute_tool'',
     ''verdict'', ''done'', ''failed'', ''cancelled'']"

record phase_event =
  ev_alert_id :: string
  ev_tenant_id :: string
  ev_event_seq :: int
  ev_emitted_at :: string
  ev_trace_id :: "string option"
  ev_kind :: string
  ev_phase :: string
  ev_detail :: "jdict option"

text \<open>\<open>PhaseEvent.phase\<close> is a \<open>Literal\<close> of the phases.\<close>

definition phase_event_valid :: "phase_event \<Rightarrow> bool" where
  "phase_event_valid e \<longleftrightarrow> ev_kind e = ''phase'' \<and> ev_phase e \<in> set triage_phases"

subsection \<open>Token and cancel events\<close>

text \<open>The two other envelopes of the event stream; the gateway writes the second one.\<close>

record token_event =
  tk_alert_id :: string
  tk_tenant_id :: string
  tk_event_seq :: int
  tk_emitted_at :: string
  tk_trace_id :: "string option"
  tk_kind :: string
  tk_node :: string
  tk_text :: string

definition token_event_valid :: "token_event \<Rightarrow> bool" where
  "token_event_valid e \<longleftrightarrow> tk_kind e = ''token''"

record triage_cancel_event =
  ce_alert_id :: string
  ce_tenant_id :: string
  ce_user_id :: "string option"
  ce_reason :: string
  ce_requested_at :: string

definition cancel_reasons :: "string list" where
  "cancel_reasons = [''ws_closed'', ''user_request'', ''admin'']"

definition cancel_event_valid :: "triage_cancel_event \<Rightarrow> bool" where
  "cancel_event_valid e \<longleftrightarrow> ce_reason e \<in> set cancel_reasons"

end
