(* ===== verification/Redis_Port.thy ===== *)
theory Redis_Port
  imports Prelude
begin

section \<open>The Redis client the runtime relies on\<close>

text \<open>
  Redis and its Python client are not part of the repository: they are a parameter of the model.
  \<open>redis\<close> is the record of the client calls the source makes, each a coroutine over the world
  that may raise. What the source relies on is stated by \<open>redis_ok r kv\<close>, where \<open>kv w\<close> is the
  live view (key to value, expired keys gone) of the store in the world \<open>w\<close>: each command is
  atomic on the view; a command that raises has either not run or has run and lost its reply. The
  model lets no time pass inside one command, so expiry is visible between commands only.
  Every property that needs these laws names \<open>redis_ok\<close>; \<open>map_redis\<close> is a concrete client that
  satisfies them, used by the witnesses.
\<close>

record 'w redis =
  rd_get :: "string \<Rightarrow> ('w, string option) io"
  rd_set :: "string \<Rightarrow> string \<Rightarrow> ('w, unit) io"
  rd_set_nx_ex :: "string \<Rightarrow> string \<Rightarrow> int \<Rightarrow> ('w, bool) io"
  rd_setex :: "string \<Rightarrow> int \<Rightarrow> string \<Rightarrow> ('w, unit) io"
  rd_delete :: "string list \<Rightarrow> ('w, unit) io"
  rd_incr :: "string \<Rightarrow> ('w, int) io"
  rd_expire :: "string \<Rightarrow> int \<Rightarrow> ('w, unit) io"
  rd_eval :: "string \<Rightarrow> string list \<Rightarrow> string list \<Rightarrow> ('w, int) io"
  rd_scan_iter :: "string \<Rightarrow> ('w, string list) io"

type_synonym kv = "string \<rightharpoonup> string"

text \<open>Reading a counter: a missing key counts from zero.\<close>

definition counter_of :: "string option \<Rightarrow> (string \<Rightarrow> int) \<Rightarrow> int" where
  "counter_of v parse = (case v of None \<Rightarrow> 0 | Some s \<Rightarrow> parse s)"

definition del_keys :: "string list \<Rightarrow> kv \<Rightarrow> kv" where
  "del_keys ks m = (\<lambda>k. if k \<in> set ks then None else m k)"

text \<open>
  One law per command. The first disjunct of each error case is "not run", the second "run, reply
  lost".
\<close>

definition get_ok :: "'w redis \<Rightarrow> ('w \<Rightarrow> kv) \<Rightarrow> bool" where
  "get_ok r kv \<longleftrightarrow> (\<forall>k w res w'. rd_get r k w = (res, w') \<longrightarrow>
     kv w' = kv w \<and> (\<forall>v. res = Inr v \<longrightarrow> v = kv w k))"

definition set_ok :: "'w redis \<Rightarrow> ('w \<Rightarrow> kv) \<Rightarrow> bool" where
  "set_ok r kv \<longleftrightarrow> (\<forall>k v w res w'. rd_set r k v w = (res, w') \<longrightarrow>
     kv w' = (kv w)(k \<mapsto> v) \<or> ((\<exists>e. res = Inl e) \<and> kv w' = kv w))"

definition setex_ok :: "'w redis \<Rightarrow> ('w \<Rightarrow> kv) \<Rightarrow> bool" where
  "setex_ok r kv \<longleftrightarrow> (\<forall>k ttl v w res w'. rd_setex r k ttl v w = (res, w') \<longrightarrow>
     kv w' = (kv w)(k \<mapsto> v) \<or> ((\<exists>e. res = Inl e) \<and> kv w' = kv w))"

definition set_nx_ok :: "'w redis \<Rightarrow> ('w \<Rightarrow> kv) \<Rightarrow> bool" where
  "set_nx_ok r kv \<longleftrightarrow> (\<forall>k v ttl w res w'. rd_set_nx_ex r k v ttl w = (res, w') \<longrightarrow>
     (case res of
        Inr b \<Rightarrow> b = (kv w k = None) \<and> kv w' = (if b then (kv w)(k \<mapsto> v) else kv w)
      | Inl e \<Rightarrow> kv w' = kv w \<or> (kv w k = None \<and> kv w' = (kv w)(k \<mapsto> v))))"

definition delete_ok :: "'w redis \<Rightarrow> ('w \<Rightarrow> kv) \<Rightarrow> bool" where
  "delete_ok r kv \<longleftrightarrow> (\<forall>ks w res w'. rd_delete r ks w = (res, w') \<longrightarrow>
     kv w' = del_keys ks (kv w) \<or> ((\<exists>e. res = Inl e) \<and> kv w' = kv w))"

text \<open>\<open>INCR\<close> stores the decimal text of the new value.\<close>

definition incr_ok :: "'w redis \<Rightarrow> ('w \<Rightarrow> kv) \<Rightarrow> (string \<Rightarrow> int) \<Rightarrow> bool" where
  "incr_ok r kv parse \<longleftrightarrow> (\<forall>k w res w'. rd_incr r k w = (res, w') \<longrightarrow>
     (let n = counter_of (kv w k) parse + 1 in
        (kv w' = (kv w)(k \<mapsto> show_int n) \<or> ((\<exists>e. res = Inl e) \<and> kv w' = kv w))
        \<and> (\<forall>m. res = Inr m \<longrightarrow> m = n)))"

definition expire_ok :: "'w redis \<Rightarrow> ('w \<Rightarrow> kv) \<Rightarrow> bool" where
  "expire_ok r kv \<longleftrightarrow> (\<forall>k ttl w. kv (snd (rd_expire r k ttl w)) = kv w)"

definition parse_ok :: "(string \<Rightarrow> int) \<Rightarrow> bool" where
  "parse_ok parse \<longleftrightarrow> (\<forall>i. parse (show_int i) = i)"

text \<open>A client none of whose commands raises: a reachable server.\<close>

definition redis_up :: "'w redis \<Rightarrow> bool" where
  "redis_up r \<longleftrightarrow> (\<forall>k. no_raise (rd_get r k)) \<and> (\<forall>k v. no_raise (rd_set r k v))
     \<and> (\<forall>k v t. no_raise (rd_set_nx_ex r k v t)) \<and> (\<forall>k t v. no_raise (rd_setex r k t v))
     \<and> (\<forall>ks. no_raise (rd_delete r ks)) \<and> (\<forall>k. no_raise (rd_incr r k))
     \<and> (\<forall>k t. no_raise (rd_expire r k t))"

definition redis_ok :: "'w redis \<Rightarrow> ('w \<Rightarrow> kv) \<Rightarrow> (string \<Rightarrow> int) \<Rightarrow> bool" where
  "redis_ok r kv parse \<longleftrightarrow> get_ok r kv \<and> set_ok r kv \<and> setex_ok r kv \<and> set_nx_ok r kv \<and> delete_ok r kv
     \<and> incr_ok r kv parse \<and> expire_ok r kv \<and> parse_ok parse"

subsection \<open>What one command did\<close>

lemma rd_get_kv: "redis_ok r kv p \<Longrightarrow> rd_get r k w = (res, w') \<Longrightarrow> kv w' = kv w"
  unfolding redis_ok_def get_ok_def by blast

lemma rd_get_Inr: "redis_ok r kv p \<Longrightarrow> rd_get r k w = (Inr v, w') \<Longrightarrow> v = kv w k \<and> kv w' = kv w"
  unfolding redis_ok_def get_ok_def by blast

lemma rd_set_Inr:
  "redis_ok r kv p \<Longrightarrow> rd_set r k v w = (Inr u, w') \<Longrightarrow> kv w' = (kv w)(k \<mapsto> v)"
  unfolding redis_ok_def set_ok_def by blast

lemma rd_setex_kv:
  "redis_ok r kv p \<Longrightarrow> rd_setex r k t v w = (res, w') \<Longrightarrow> kv w' = kv w \<or> kv w' = (kv w)(k \<mapsto> v)"
  unfolding redis_ok_def setex_ok_def by blast

lemma rd_setex_Inr:
  "redis_ok r kv p \<Longrightarrow> rd_setex r k t v w = (Inr u, w') \<Longrightarrow> kv w' = (kv w)(k \<mapsto> v)"
  unfolding redis_ok_def setex_ok_def by blast

lemma rd_set_nx_Inr:
  "redis_ok r kv p \<Longrightarrow> rd_set_nx_ex r k v t w = (Inr b, w') \<Longrightarrow>
     b = (kv w k = None) \<and> kv w' = (if b then (kv w)(k \<mapsto> v) else kv w)"
  unfolding redis_ok_def set_nx_ok_def by fastforce

lemma rd_delete_Inr:
  "redis_ok r kv p \<Longrightarrow> rd_delete r ks w = (Inr u, w') \<Longrightarrow> kv w' = del_keys ks (kv w)"
  unfolding redis_ok_def delete_ok_def by blast

lemma rd_delete_kv:
  "redis_ok r kv p \<Longrightarrow> rd_delete r ks w = (res, w') \<Longrightarrow> kv w' = kv w \<or> kv w' = del_keys ks (kv w)"
  unfolding redis_ok_def delete_ok_def by blast

lemma rd_incr_Inr:
  "redis_ok r kv p \<Longrightarrow> rd_incr r k w = (Inr n, w') \<Longrightarrow>
     n = counter_of (kv w k) p + 1 \<and> kv w' = (kv w)(k \<mapsto> show_int n)"
  unfolding redis_ok_def incr_ok_def Let_def by blast

lemma rd_expire_kv: "redis_ok r kv p \<Longrightarrow> rd_expire r k t w = (res, w') \<Longrightarrow> kv w' = kv w"
  unfolding redis_ok_def expire_ok_def by (metis snd_conv)

lemma parse_show: "redis_ok r kv p \<Longrightarrow> p (show_int i) = i"
  by (simp add: redis_ok_def parse_ok_def)

lemmas redis_cmd = rd_get_Inr rd_setex_Inr rd_set_nx_Inr rd_delete_Inr rd_incr_Inr rd_expire_kv

lemma redis_upE:
  assumes "redis_up r"
  shows "no_raise (rd_get r k)" "no_raise (rd_set_nx_ex r k v t)" "no_raise (rd_setex r k t v)"
    "no_raise (rd_delete r ks)" "no_raise (rd_incr r k)" "no_raise (rd_expire r k t)"
    "no_raise (rd_set r k v)"
  using assms by (auto simp: redis_up_def)

subsection \<open>A concrete client for the witnesses\<close>

text \<open>
  \<open>map_redis view store\<close> keeps the store as a map inside a larger world; \<open>digits\<close> reads decimal
  text back.
\<close>

fun read_nat :: "nat \<Rightarrow> string \<Rightarrow> nat" where
  "read_nat acc [] = acc"
| "read_nat acc (c # cs) = read_nat (10 * acc + (of_char c - 48)) cs"

definition read_int :: "string \<Rightarrow> int" where
  "read_int s = (case s of [] \<Rightarrow> 0
     | c # cs \<Rightarrow> if c = CHR ''-'' then - int (read_nat 0 cs) else int (read_nat 0 s))"

lemma read_nat_append: "read_nat acc (xs @ [c]) = 10 * read_nat acc xs + (of_char c - 48)"
  by (induction xs arbitrary: acc) auto

lemma read_show_nat: "read_nat 0 (show_nat n) = n"
proof (induction n rule: show_nat.induct)
  case (1 n)
  show ?case
  proof (cases "n < 10")
    case True
    then show ?thesis by (simp add: show_nat.simps [of n])
  next
    case False
    with "1.IH" show ?thesis
      by (simp add: show_nat.simps [of n] read_nat_append)
  qed
qed

lemma show_nat_hd: "\<exists>c cs. show_nat n = c # cs \<and> 48 \<le> (of_char c :: nat)"
proof (induction n rule: show_nat.induct)
  case (1 n)
  show ?case
  proof (cases "n < 10")
    case True
    then show ?thesis by (auto simp: show_nat.simps [of n])
  next
    case False
    with "1.IH" show ?thesis by (auto simp: show_nat.simps [of n])
  qed
qed

lemma read_show_int: "read_int (show_int i) = i"
proof (cases "i < 0")
  case True
  then show ?thesis by (simp add: read_int_def show_int_def read_show_nat)
next
  case False
  obtain c cs where c: "show_nat (nat i) = c # cs" "48 \<le> (of_char c :: nat)"
    using show_nat_hd by blast
  then have "c \<noteq> CHR ''-''" by auto
  with False c(1) show ?thesis
    using read_show_nat [of "nat i"] by (simp add: read_int_def show_int_def)
qed

text \<open>\<open>int(s)\<close>: white space around, a sign, decimal digits (no underscores).\<close>

definition decimal_digit :: "char \<Rightarrow> bool" where
  "decimal_digit c \<longleftrightarrow> (let n = (of_char c :: nat) in 48 \<le> n \<and> n \<le> 57)"

definition py_int :: "string \<Rightarrow> exn + int" where
  "py_int s =
     (let t = str_strip s;
          body = (case t of [] \<Rightarrow> [] | c # cs \<Rightarrow> if c = CHR ''-'' \<or> c = CHR ''+'' then cs else t)
      in if body \<noteq> [] \<and> list_all decimal_digit body
           then Inr (if take 1 t = ''-'' then - int (read_nat 0 body) else int (read_nat 0 body))
         else Inl (ValueError ''invalid literal for int() with base 10''))"

lemma show_nat_digits: "list_all decimal_digit (show_nat n)"
proof (induction n rule: show_nat.induct)
  case (1 n)
  show ?case
  proof (cases "n < 10")
    case True
    then show ?thesis by (simp add: show_nat.simps [of n] decimal_digit_def Let_def)
  next
    case False
    with "1.IH" show ?thesis by (simp add: show_nat.simps [of n] decimal_digit_def Let_def)
  qed
qed

lemma dropWhile_none: "list_all (\<lambda>c. \<not> P c) s \<Longrightarrow> dropWhile P s = s"
  by (cases s) auto

lemma strip_id: "list_all (\<lambda>c. \<not> is_space c) s \<Longrightarrow> str_strip s = s"
  by (simp add: str_strip_def dropWhile_none list_all_rev)

lemma digit_not_space: "decimal_digit c \<Longrightarrow> \<not> is_space c"
  by (auto simp: decimal_digit_def is_space_def Let_def)

lemma py_int_show: "py_int (show_int i) = Inr i"
proof -
  have ns: "list_all (\<lambda>c. \<not> is_space c) (show_nat n)" for n
    using show_nat_digits digit_not_space by (auto simp: list_all_iff)
  then have "list_all (\<lambda>c. \<not> is_space c) (show_int i)"
    by (simp add: show_int_def is_space_def)
  then have strip: "str_strip (show_int i) = show_int i" by (rule strip_id)
  obtain c cs where c: "show_nat (nat \<bar>i\<bar>) = c # cs" using show_nat_hd by blast
  with show_nat_digits [of "nat \<bar>i\<bar>"] have "c \<noteq> CHR ''-''" "c \<noteq> CHR ''+''"
    by (auto simp: decimal_digit_def)
  with strip c show_nat_digits [of "nat \<bar>i\<bar>"] read_show_nat [of "nat \<bar>i\<bar>"] show ?thesis
    by (cases "i < 0") (auto simp: py_int_def show_int_def Let_def)
qed

definition map_redis :: "('w \<Rightarrow> kv) \<Rightarrow> (kv \<Rightarrow> 'w \<Rightarrow> 'w) \<Rightarrow> 'w redis" where
  "map_redis view store =
     \<lparr>rd_get = (\<lambda>k w. (Inr (view w k), w)),
      rd_set = (\<lambda>k v w. (Inr (), store ((view w)(k \<mapsto> v)) w)),
      rd_set_nx_ex = (\<lambda>k v t w. if view w k = None
         then (Inr True, store ((view w)(k \<mapsto> v)) w) else (Inr False, w)),
      rd_setex = (\<lambda>k t v w. (Inr (), store ((view w)(k \<mapsto> v)) w)),
      rd_delete = (\<lambda>ks w. (Inr (), store (del_keys ks (view w)) w)),
      rd_incr = (\<lambda>k w. let n = counter_of (view w k) read_int + 1
         in (Inr n, store ((view w)(k \<mapsto> show_int n)) w)),
      rd_expire = (\<lambda>k t w. (Inr (), w)),
      rd_eval = (\<lambda>script ks args w. if view w (hd ks) = Some (hd args)
         then (Inr 1, store (del_keys ks (view w)) w) else (Inr 0, w)),
      rd_scan_iter = (\<lambda>p w. (Inr [], w))\<rparr>"

lemma map_redis_ok:
  assumes "\<And>m w. view (store m w) = m"
  shows "redis_ok (map_redis view store) view read_int"
  by (simp add: redis_ok_def get_ok_def set_ok_def setex_ok_def set_nx_ok_def delete_ok_def incr_ok_def
      expire_ok_def parse_ok_def map_redis_def assms read_show_int Let_def)

lemma map_redis_up: "redis_up (map_redis view store)"
  by (auto simp: redis_up_def no_raise_def map_redis_def Let_def)

end
