(* ===== verification/Demo_World.thy ===== *)
theory Demo_World
  imports Json Redis_Port Schemas "HOL-Library.Countable"
begin

section \<open>A concrete world for the witnesses\<close>

text \<open>
  The properties that speak of code outside the repository are applied to these instances: a
  standard library whose \<open>json.loads\<close> knows a finite table of texts, a Redis server whose world
  is its store, and an alert. Nothing of the model depends on this theory.
\<close>

definition demo_lib :: "(string \<times> json) list \<Rightarrow> pylib" where
  "demo_lib table =
     \<lparr>json_loads = (\<lambda>s. case map_of table s of Some v \<Rightarrow> Inr v | None \<Rightarrow> Inl (JSONDecodeError s)),
      json_dumps = py_repr (\<lambda>r. show_int \<lfloor>r\<rfloor>),
      json_dumps_sorted = py_repr (\<lambda>r. show_int \<lfloor>r\<rfloor>),
      sha256_hex = (\<lambda>s. s),
      float_repr = (\<lambda>r. show_int \<lfloor>r\<rfloor>),
      float_parse = (\<lambda>s. Inr (of_int (read_int s))),
      set_order = remdups\<rparr>"

lemma demo_set_order: "set_order_ok (demo_lib table)"
  by (simp add: set_order_ok_def demo_lib_def)

definition demo_redis :: "kv redis" where
  "demo_redis = map_redis (\<lambda>w. w) (\<lambda>m w. m)"

lemma demo_redis_ok: "redis_ok demo_redis (\<lambda>w. w) read_int"
  unfolding demo_redis_def by (rule map_redis_ok) simp

lemma demo_redis_up: "redis_up demo_redis"
  unfolding demo_redis_def by (rule map_redis_up)

lemma demo_redis_cmds [simp]:
  "rd_get demo_redis k w = (Inr (w k), w)"
  "rd_set demo_redis k v w = (Inr (), w(k \<mapsto> v))"
  "rd_setex demo_redis k t v w = (Inr (), w(k \<mapsto> v))"
  "rd_delete demo_redis ks w = (Inr (), del_keys ks w)"
  by (simp_all add: demo_redis_def map_redis_def)

definition demo_alert :: normalized_alert where
  "demo_alert =
     \<lparr>na_alert_id = ''a1'', na_source = SPLUNK, na_source_alert_id = None,
      na_title = ''Encoded PowerShell on WS01'', na_description = ''T1059.001 from 203.0.113.7'',
      na_severity = HIGH, na_timestamp = ''2024-01-01T00:00:00Z'',
      na_ingested_at = ''2024-01-01T00:00:01Z'', na_tenant_id = Some ''acme'',
      na_category_uid = None, na_class_uid = None, na_activity_id = None,
      na_hostname = Some ''WS01'', na_asset_id = None, na_cloud_region = None,
      na_cloud_account_id = None, na_network = None, na_process = None, na_user = None,
      na_mitre_tactic = None, na_mitre_technique = Some ''T1059.001'', na_detection_finding = None,
      na_raw_payload = [], na_coerced_by_llm = False, na_coercion_trace_id = None\<rparr>"

definition demo_entities :: extracted_entities where
  "demo_entities =
     \<lparr>ee_hosts = [\<lparr>he_hostname = ''WS01'', he_ip_addresses = [], he_os_type = None,
        he_is_server = None, he_asset_criticality = ''unknown''\<rparr>],
      ee_users = [], ee_processes = [], ee_techniques = [],
      ee_iocs = [\<lparr>ioc_type = ''ip'', ioc_value = ''203.0.113.7'', ioc_context = None\<rparr>],
      ee_attack_chain_summary = ''''\<rparr>"

subsection \<open>Coding alerts and verdicts as text\<close>

text \<open>
  All values of the data model are countable, so there is a text for each of them that can be read
  back: the codec the witnesses use for pydantic's.
\<close>

instance json :: countable
  by countable_datatype

instance severity :: countable
  by countable_datatype

instance alert_source :: countable
  by countable_datatype

instance escalation_decision :: countable
  by countable_datatype

instance network_activity_ext :: (countable) countable
  by (rule countable_classI [of "\<lambda>r. to_nat (nw_src_ip r, nw_dst_ip r, nw_src_port r, nw_dst_port r, nw_protocol r,
      nw_bytes_in r, nw_bytes_out r, network_activity.more r)"])
    simp

instance process_activity_ext :: (countable) countable
  by (rule countable_classI [of "\<lambda>r. to_nat (pa_process_name r, pa_process_path r, pa_process_id r, pa_parent_process_name r,
      pa_command_line r, pa_hash_md5 r, pa_hash_sha256 r, process_activity.more r)"])
    simp

instance user_activity_ext :: (countable) countable
  by (rule countable_classI [of "\<lambda>r. to_nat (ua_username r, ua_domain r, ua_uid r, ua_is_privileged r, ua_auth_protocol r, user_activity.more r)"])
    simp

instance finding_info_ext :: (countable) countable
  by (rule countable_classI [of "\<lambda>r. to_nat (fi_title r, fi_desc r, fi_product_uid r, fi_severity_id r, finding_info.more r)"])
    simp

instance observable_entry_ext :: (countable) countable
  by (rule countable_classI [of "\<lambda>r. to_nat (ob_type r, ob_value r, observable_entry.more r)"])
    simp

instance attack_context_ext :: (countable) countable
  by (rule countable_classI [of "\<lambda>r. to_nat (ac_tactic_name r, ac_technique_uid r, attack_context.more r)"])
    simp

instance detection_finding_slice_ext :: (countable) countable
  by (rule countable_classI [of "\<lambda>r. to_nat (df_schema_version r, df_finding_info r, df_observables r, df_attacks r,
      df_evidences r, detection_finding_slice.more r)"])
    simp

instance normalized_alert_ext :: (countable) countable
  by (rule countable_classI [of "\<lambda>r. to_nat (na_alert_id r, na_source r, na_source_alert_id r, na_title r, na_description r,
      na_severity r, na_timestamp r, na_ingested_at r, na_tenant_id r, na_category_uid r,
      na_class_uid r, na_activity_id r, na_hostname r, na_asset_id r, na_cloud_region r,
      na_cloud_account_id r, na_network r, na_process r, na_user r, na_mitre_tactic r,
      na_mitre_technique r, na_detection_finding r, na_raw_payload r, na_coerced_by_llm r,
      na_coercion_trace_id r, normalized_alert.more r)"])
    simp

instance mitre_assessment_ext :: (countable) countable
  by (rule countable_classI [of "\<lambda>r. to_nat (ma_technique_id r, ma_technique_name r, ma_tactic r, ma_confidence r, mitre_assessment.more r)"])
    simp

instance immediate_action_ext :: (countable) countable
  by (rule countable_classI [of "\<lambda>r. to_nat (ia_priority r, ia_action r, ia_target r, immediate_action.more r)"])
    simp

instance ioc_entity_ext :: (countable) countable
  by (rule countable_classI [of "\<lambda>r. to_nat (ioc_type r, ioc_value r, ioc_context r, ioc_entity.more r)"])
    simp

instance triage_verdict_ext :: (countable) countable
  by (rule countable_classI [of "\<lambda>r. to_nat (tv_verdict_id r, tv_alert_id r, tv_tenant_id r, tv_generated_at r, tv_status r,
      tv_severity r, tv_severity_justification r, tv_mitre_assessments r,
      tv_triage_summary r, tv_confirmed_iocs r, tv_immediate_actions r, tv_escalation r,
      tv_escalation_rationale r, tv_total_tool_calls r, tv_tools_called r,
      tv_analyst_confidence r, tv_false_positive_probability r, triage_verdict.more r)"])
    simp

definition coded :: "'a::countable \<Rightarrow> string" where
  "coded x = replicate (Suc (to_nat x)) CHR ''x''"

definition decoded :: "string \<Rightarrow> 'a::countable" where
  "decoded s = from_nat (length s - 1)"

lemma coded_simps [simp]: "coded x \<noteq> []" "decoded (coded x) = x"
  by (simp_all add: coded_def decoded_def)

text \<open>A library whose JSON functions are mutually inverse.\<close>

definition coding_lib :: pylib where
  "coding_lib = (demo_lib [])\<lparr>json_loads := (\<lambda>s. Inr (decoded s)), json_dumps := coded\<rparr>"

lemma coding_lib_json [simp]:
  "json_dumps coding_lib = coded" "json_loads coding_lib s = Inr (decoded s)"
  by (simp_all add: coding_lib_def)

end
