(* ===== verification/Context_Cache.thy ===== *)
theory Context_Cache
  imports Json Redis_Port Demo_World
begin

section \<open>services/context_cache.py: the tool-result cache\<close>

text \<open>
  \<open>ContextCache\<close> keeps tool results in Redis under a digest of the tool's name and parameters.
  Without a client, or when disabled, every operation is a no-op; an error of the client or of the
  decoder is logged and swallowed. The lemmas show that no operation raises, and that a stored
  result is read back under the laws of \<open>Redis_Port\<close>.
\<close>

record 'w context_cache =
  cc_ttl :: int
  cc_enabled :: bool
  cc_client :: "'w redis option"

definition make_key :: "pylib \<Rightarrow> string \<Rightarrow> jdict \<Rightarrow> string" where
  "make_key lib tool_name params =
     ''soc:cache:'' @ sha256_hex lib (json_dumps_sorted lib
       (JDict [(''tool'', JStr tool_name), (''params'', JDict params)]))"

text \<open>\<open>__init__\<close>: \<open>from_url\<close> is only called when enabled; if it raises, the cache is disabled.\<close>

definition ContextCache_init ::
    "(string \<Rightarrow> exn + 'w redis) \<Rightarrow> string \<Rightarrow> int \<Rightarrow> bool \<Rightarrow> 'w context_cache" where
  "ContextCache_init from_url redis_url ttl_seconds enabled =
     (if enabled then
        (case from_url redis_url of
           Inr client \<Rightarrow> \<lparr>cc_ttl = ttl_seconds, cc_enabled = True, cc_client = Some client\<rparr>
         | Inl e \<Rightarrow> \<lparr>cc_ttl = ttl_seconds, cc_enabled = False, cc_client = None\<rparr>)
      else \<lparr>cc_ttl = ttl_seconds, cc_enabled = False, cc_client = None\<rparr>)"

text \<open>\<open>get\<close> returns \<open>None\<close> (here \<open>JNull\<close>) on a miss, an error, or an undecodable entry.\<close>

definition cache_get :: "pylib \<Rightarrow> 'w context_cache \<Rightarrow> string \<Rightarrow> jdict \<Rightarrow> ('w, json) io" where
  "cache_get lib c tool_name params =
     (case (if cc_enabled c then cc_client c else None) of
        None \<Rightarrow> ret_io JNull
      | Some client \<Rightarrow>
          try_io
            (bind_io (rd_get client (make_key lib tool_name params)) (\<lambda>raw.
               (case raw of
                  None \<Rightarrow> ret_io JNull
                | Some s \<Rightarrow> if s = [] then ret_io JNull else of_result (json_loads lib s))))
            (\<lambda>exc. ret_io JNull))"

definition cache_set :: "pylib \<Rightarrow> 'w context_cache \<Rightarrow> string \<Rightarrow> jdict \<Rightarrow> jdict \<Rightarrow> ('w, unit) io" where
  "cache_set lib c tool_name params result =
     (case (if cc_enabled c then cc_client c else None) of
        None \<Rightarrow> ret_io ()
      | Some client \<Rightarrow>
          try_io
            (rd_setex client (make_key lib tool_name params) (cc_ttl c) (json_dumps lib (JDict result)))
            (\<lambda>exc. ret_io ()))"

definition cache_invalidate :: "pylib \<Rightarrow> 'w context_cache \<Rightarrow> string \<Rightarrow> jdict \<Rightarrow> ('w, unit) io" where
  "cache_invalidate lib c tool_name params =
     (case (if cc_enabled c then cc_client c else None) of
        None \<Rightarrow> ret_io ()
      | Some client \<Rightarrow>
          try_io (rd_delete client [make_key lib tool_name params]) (\<lambda>exc. ret_io ()))"

subsection \<open>The contract its client relies on\<close>

text \<open>
  What tool execution needs of a cache: reading and storing never raise. The client's lemmas are
  proved from this contract; the interpretation below discharges it for the code's cache.
\<close>

locale best_effort_cache =
  fixes cget :: "'c \<Rightarrow> string \<Rightarrow> jdict \<Rightarrow> ('w, json) io"
    and cset :: "'c \<Rightarrow> string \<Rightarrow> jdict \<Rightarrow> jdict \<Rightarrow> ('w, unit) io"
  assumes cget_no_raise: "no_raise (cget c t p)"
    and cset_no_raise: "no_raise (cset c t p d)"
begin

text \<open>A fetch that falls back to computing and storing never raises beyond its computation.\<close>

lemma cached_or_compute_no_raise:
  assumes "no_raise m"
  shows "no_raise (bind_io (cget c t p) (\<lambda>v.
    if truthy v then ret_io (f v) else bind_io m (\<lambda>d. bind_io (cset c t p d) (\<lambda>_. ret_io (g d)))))"
  by (intro no_raise_intros cget_no_raise cset_no_raise assms)

lemma cgetE: obtains v w' where "cget c t p w = (Inr v, w')"
  using cget_no_raise by (rule no_raiseE)

lemma csetE: obtains w' where "cset c t p d w = (Inr (), w')"
  using cset_no_raise by (rule no_raiseE) auto

end

lemma no_raise_cache_get: "no_raise (cache_get lib c t p)"
  unfolding cache_get_def by (auto split: option.splits intro!: no_raise_intros)

lemma no_raise_cache_set: "no_raise (cache_set lib c t p d)"
  unfolding cache_set_def by (auto split: option.splits intro!: no_raise_intros)

lemma no_raise_cache_invalidate: "no_raise (cache_invalidate lib c t p)"
  unfolding cache_invalidate_def by (auto split: option.splits intro!: no_raise_intros)

interpretation ctx_cache: best_effort_cache "cache_get lib" "cache_set lib" for lib
  by unfold_locales (rule no_raise_cache_get, rule no_raise_cache_set)

subsection \<open>Reading back\<close>

lemma cache_get_after_set:
  assumes "redis_ok r kv parse" "redis_up r" "cc_enabled c" "cc_client c = Some r"
    and "json_dumps lib (JDict d) \<noteq> []" "json_loads lib (json_dumps lib (JDict d)) = Inr (JDict d)"
    and "cache_set lib c t p d w = (Inr (), w')"
  shows "\<exists>w''. cache_get lib c t p w' = (Inr (JDict d), w'')"
proof -
  let ?k = "make_key lib t p" and ?v = "json_dumps lib (JDict d)"
  obtain w1 where w1: "rd_setex r ?k (cc_ttl c) ?v w = (Inr (), w1)"
    using redis_upE(3) [OF assms(2)] by (rule no_raiseE) auto
  with assms(3,4,7) have "w' = w1" by (simp add: cache_set_def)
  with w1 assms(1) have kv: "kv w' ?k = Some ?v" by (auto dest: rd_setex_Inr)
  obtain v w2 where w2: "rd_get r ?k w' = (Inr v, w2)"
    using redis_upE(1) [OF assms(2)] by (rule no_raiseE)
  with assms(1) kv have "v = Some ?v" by (auto dest: rd_get_Inr)
  with w2 assms(3-6) show ?thesis by (simp add: cache_get_def)
qed

subsection \<open>The property of the cache\<close>

text \<open>
  What was stored is read back: with Redis reachable and a result the JSON functions
  round-trip, \<open>get\<close> after \<open>set\<close> under the same tool and parameters returns the stored result.
\<close>

theorem cached_result_returned:
  assumes "redis_ok r kv parse" "redis_up r" "cc_enabled c" "cc_client c = Some r"
    and "json_dumps lib (JDict d) \<noteq> []" "json_loads lib (json_dumps lib (JDict d)) = Inr (JDict d)"
    and "cache_set lib c t p d w = (Inr (), w')"
  shows "\<exists>w''. cache_get lib c t p w' = (Inr (JDict d), w'')"
  using assms by (rule cache_get_after_set)

theorem cached_result_returned_witness:
  "\<exists>w' w''. cache_set (demo_lib [(''{}'', JDict [])]) \<lparr>cc_ttl = 60, cc_enabled = True, cc_client = Some demo_redis\<rparr>
        ''query_cmdb'' [] [] Map.empty = (Inr (), w')
    \<and> cache_get (demo_lib [(''{}'', JDict [])]) \<lparr>cc_ttl = 60, cc_enabled = True, cc_client = Some demo_redis\<rparr>
        ''query_cmdb'' [] w' = (Inr (JDict []), w'')"
proof -
  let ?lib = "demo_lib [(''{}'', JDict [])]"
    and ?c = "\<lparr>cc_ttl = 60, cc_enabled = True, cc_client = Some demo_redis\<rparr>"
  have rt: "json_dumps ?lib (JDict []) \<noteq> []"
    "json_loads ?lib (json_dumps ?lib (JDict [])) = Inr (JDict [])"
    by (simp_all add: demo_lib_def)
  have c: "cc_enabled ?c" "cc_client ?c = Some demo_redis" by simp_all
  obtain u w' where s: "cache_set ?lib ?c ''query_cmdb'' [] [] Map.empty = (Inr u, w')"
    using no_raise_cache_set by (rule no_raiseE)
  with cached_result_returned [OF demo_redis_ok demo_redis_up c rt, of "''query_cmdb''" "[]" Map.empty w']
  show ?thesis by auto
qed

end
