(* ===== verification/Tool_Schemas.thy ===== *)
theory Tool_Schemas
  imports Json
begin

section \<open>agents/tools/: the input schemas of the tools\<close>

text \<open>
  The Pydantic class each connector declares for its parameters (\<open>args_schema\<close>), as a predicate on
  the keyword dictionary: literal fields, optional strings, bounded integers with their defaults.
  The predicates accept exactly-typed values; what Pydantic would coerce (such as the text of a
  number) is outside them. A dictionary that satisfies the predicate is accepted by the class. The
  connectors themselves are in the theories of their modules.
\<close>

definition literal_field :: "string list \<Rightarrow> jdict \<Rightarrow> string \<Rightarrow> bool" where
  "literal_field ls d k = (case dict_get d k JNull of JStr s \<Rightarrow> s \<in> set ls | _ \<Rightarrow> False)"

definition literal_field_or :: "string \<Rightarrow> string list \<Rightarrow> jdict \<Rightarrow> string \<Rightarrow> bool" where
  "literal_field_or dflt ls d k = (case dict_get d k (JStr dflt) of JStr s \<Rightarrow> s \<in> set ls | _ \<Rightarrow> False)"

definition str_field :: "jdict \<Rightarrow> string \<Rightarrow> bool" where
  "str_field d k = (case dict_get d k JNull of JStr s \<Rightarrow> True | _ \<Rightarrow> False)"

definition opt_str_field :: "jdict \<Rightarrow> string \<Rightarrow> bool" where
  "opt_str_field d k = (case dict_get d k JNull of JNull \<Rightarrow> True | JStr s \<Rightarrow> True | _ \<Rightarrow> False)"

definition int_field :: "int \<Rightarrow> int \<Rightarrow> int \<Rightarrow> jdict \<Rightarrow> string \<Rightarrow> bool" where
  "int_field dflt lo hi d k = (case dict_get d k (JInt dflt) of JInt i \<Rightarrow> lo \<le> i \<and> i \<le> hi | _ \<Rightarrow> False)"

definition any_int_field :: "jdict \<Rightarrow> string \<Rightarrow> bool" where
  "any_int_field d k = (case dict_get d k (JInt 0) of JInt i \<Rightarrow> True | _ \<Rightarrow> False)"

lemmas field_defs = literal_field_def literal_field_or_def str_field_def opt_str_field_def
  int_field_def any_int_field_def

definition SplunkQueryInput :: "jdict \<Rightarrow> bool" where
  "SplunkQueryInput d \<longleftrightarrow>
     literal_field [''process_by_host'', ''auth_events_by_user'', ''network_by_ip'', ''dns_tunneling'',
       ''scheduled_tasks'', ''shadow_copy_deletion'', ''file_rename_burst'', ''raw_spl''] d ''query_type''
     \<and> opt_str_field d ''hostname'' \<and> opt_str_field d ''username'' \<and> opt_str_field d ''ip_address''
     \<and> int_field 72 1 8760 d ''hours_back'' \<and> opt_str_field d ''raw_spl''
     \<and> int_field 100 1 1000 d ''max_results''"

definition CrowdStrikeInput :: "jdict \<Rightarrow> bool" where
  "CrowdStrikeInput d \<longleftrightarrow>
     literal_field [''detections_by_host'', ''process_tree'', ''device_info'', ''ioc_lookup'',
       ''alerts_by_host'', ''incidents_by_host''] d ''query_type''
     \<and> opt_str_field d ''hostname'' \<and> opt_str_field d ''device_id'' \<and> opt_str_field d ''process_id''
     \<and> opt_str_field d ''ioc_value''
     \<and> literal_field_or ''sha256'' [''sha256'', ''md5'', ''ipv4'', ''domain''] d ''ioc_type''
     \<and> int_field 72 1 2160 d ''hours_back''"

definition ThreatIntelInput :: "jdict \<Rightarrow> bool" where
  "ThreatIntelInput d \<longleftrightarrow>
     literal_field [''ip'', ''domain'', ''hash_sha256'', ''hash_md5'', ''url''] d ''ioc_type''
     \<and> str_field d ''ioc_value''
     \<and> (case dict_get d ''sources'' (JList []) of
          JList xs \<Rightarrow> list_all (\<lambda>x. x \<in> set (map JStr [''virustotal'', ''abuseipdb'', ''otx''])) xs
        | _ \<Rightarrow> False)"

definition AWSQueryInput :: "jdict \<Rightarrow> bool" where
  "AWSQueryInput d \<longleftrightarrow>
     literal_field [''cloudtrail_by_user'', ''iam_policy_changes'', ''guardduty_findings'',
       ''assume_role_events''] d ''query_type''
     \<and> opt_str_field d ''username'' \<and> opt_str_field d ''account_id'' \<and> opt_str_field d ''region''
     \<and> int_field 336 1 8760 d ''hours_back''"

definition CMDBInput :: "jdict \<Rightarrow> bool" where
  "CMDBInput d \<longleftrightarrow>
     literal_field [''by_hostname'', ''by_ip'', ''by_owner''] d ''lookup_type''
     \<and> opt_str_field d ''hostname'' \<and> opt_str_field d ''ip_address'' \<and> opt_str_field d ''owner''"

definition NetFlowInput :: "jdict \<Rightarrow> bool" where
  "NetFlowInput d \<longleftrightarrow>
     literal_field [''dns_entropy_analysis'', ''beacon_detection'', ''top_talkers'', ''exfil_volume'',
       ''port_scan_detection''] d ''query_type''
     \<and> opt_str_field d ''src_ip'' \<and> opt_str_field d ''dst_ip'' \<and> opt_str_field d ''hostname''
     \<and> int_field 720 1 8760 d ''hours_back'' \<and> any_int_field d ''threshold_bytes''"

definition BackupQueryInput :: "jdict \<Rightarrow> bool" where
  "BackupQueryInput d \<longleftrightarrow>
     literal_field [''shadow_copy_status'', ''backup_job_history'', ''recovery_point_availability'']
       d ''query_type''
     \<and> opt_str_field d ''hostname'' \<and> int_field 72 1 720 d ''hours_back''"

definition VulnCheckInput :: "jdict \<Rightarrow> bool" where
  "VulnCheckInput d \<longleftrightarrow> str_field d ''cve_id''"

text \<open>The schema half of \<open>_TOOL_REGISTRY\<close>: tool name to input class.\<close>

definition REGISTRY_SCHEMAS :: "(string \<times> (jdict \<Rightarrow> bool)) list" where
  "REGISTRY_SCHEMAS = [
     (''query_splunk'', SplunkQueryInput),
     (''query_crowdstrike'', CrowdStrikeInput),
     (''lookup_threat_intel'', ThreatIntelInput),
     (''query_aws'', AWSQueryInput),
     (''query_cmdb'', CMDBInput),
     (''query_netflow'', NetFlowInput),
     (''query_dns_logs'', NetFlowInput),
     (''query_backup_systems'', BackupQueryInput),
     (''lookup_vulncheck'', VulnCheckInput)]"

definition schema_accepts :: "string \<Rightarrow> jdict \<Rightarrow> bool" where
  "schema_accepts tool_name params =
     (case map_of REGISTRY_SCHEMAS tool_name of None \<Rightarrow> False | Some sch \<Rightarrow> sch params)"

lemmas schema_defs = SplunkQueryInput_def CrowdStrikeInput_def ThreatIntelInput_def
  AWSQueryInput_def CMDBInput_def NetFlowInput_def BackupQueryInput_def VulnCheckInput_def

end
