(* ===== verification/Enrichment.thy ===== *)
theory Enrichment
  imports Mitre_Router Schemas Context_Cache Tool_Schemas "HOL-Library.Sublist"
begin

section \<open>agents/enrichment_node.py: burst enrichment\<close>

text \<open>
  The parameter builders that turn an alert and its entities into tool inputs, the compression of
  a tool result into one line of text, the execution of a single tool (cache, registry, timeout,
  record) and the burst that fires every tool of the routing table.

  The tools themselves talk to vendor APIs over HTTP: \<open>env_run_tool name params timeout\<close> stands
  for \<open>asyncio.wait_for(fn(schema_cls(**params)), timeout)\<close>, a coroutine that may raise anything
  (\<open>TimeoutError\<close> when the limit passes, \<open>ValidationError\<close> from the schema). \<open>env_now_ms\<close> is
  \<open>int(time.time() * 1000)\<close>, and \<open>env_as_bool\<close> is Pydantic's coercion to \<open>bool\<close> (\<open>None\<close> where it
  rejects the value). \<open>asyncio.gather\<close> is modelled by running the calls in list order; it returns
  its results in that order whatever the interleaving.
\<close>

record 'w tool_env =
  env_lib :: pylib
  env_cache :: "'w context_cache"
  env_now_ms :: "'w \<Rightarrow> int \<times> 'w"
  env_run_tool :: "string \<Rightarrow> jdict \<Rightarrow> int \<Rightarrow> ('w, jdict) io"
  env_as_bool :: "json \<Rightarrow> bool option"

definition tool_registry :: "string list" where
  "tool_registry = map fst REGISTRY_SCHEMAS"

subsection \<open>Parameter builders\<close>

definition first_hostname :: "normalized_alert \<Rightarrow> extracted_entities \<Rightarrow> string option" where
  "first_hostname alert entities =
     (case ee_hosts entities of [] \<Rightarrow> na_hostname alert | h # _ \<Rightarrow> Some (he_hostname h))"

definition first_username :: "extracted_entities \<Rightarrow> string option" where
  "first_username entities =
     (case ee_users entities of [] \<Rightarrow> None | u # _ \<Rightarrow> Some (ue_username u))"

definition build_splunk_params ::
    "normalized_alert \<Rightarrow> extracted_entities \<Rightarrow> string \<Rightarrow> jdict option" where
  "build_splunk_params alert entities technique_id =
     (let hours = JInt (tw_hours (get_time_window technique_id));
          hostname = json_opt (first_hostname alert entities);
          username = json_opt (first_username entities)
      in
      if starts_with technique_id ''T1110'' then
        Some [(''query_type'', JStr ''auth_events_by_user''), (''username'', username),
              (''hours_back'', hours)]
      else if starts_with technique_id ''T1486'' \<or> starts_with technique_id ''T1490'' then
        Some [(''query_type'', JStr ''shadow_copy_deletion''), (''hours_back'', hours)]
      else if starts_with technique_id ''T1053'' then
        Some [(''query_type'', JStr ''scheduled_tasks''), (''hostname'', hostname),
              (''hours_back'', hours)]
      else if starts_with technique_id ''T1071'' then
        Some [(''query_type'', JStr ''dns_tunneling''), (''hostname'', hostname),
              (''hours_back'', hours)]
      else
        Some [(''query_type'', JStr ''process_by_host''), (''hostname'', hostname),
              (''hours_back'', hours)])"

definition build_crowdstrike_params ::
    "normalized_alert \<Rightarrow> extracted_entities \<Rightarrow> string \<Rightarrow> jdict option" where
  "build_crowdstrike_params alert entities technique_id =
     Some [(''query_type'', JStr ''detections_by_host''),
           (''hostname'', json_opt (first_hostname alert entities)),
           (''hours_back'', JInt (tw_hours (get_time_window technique_id)))]"

fun first_ioc_params :: "ioc_entity list \<Rightarrow> jdict option" where
  "first_ioc_params [] = None"
| "first_ioc_params (i # is) =
     (if ioc_type i = ''hash_sha256''
        then Some [(''ioc_type'', JStr ''hash_sha256''), (''ioc_value'', JStr (ioc_value i))]
      else if ioc_type i = ''ip''
        then Some [(''ioc_type'', JStr ''ip''), (''ioc_value'', JStr (ioc_value i))]
      else first_ioc_params is)"

definition alert_dst_ip :: "normalized_alert \<Rightarrow> string option" where
  "alert_dst_ip alert = (case na_network alert of None \<Rightarrow> None | Some n \<Rightarrow> nw_dst_ip n)"

definition alert_src_ip :: "normalized_alert \<Rightarrow> string option" where
  "alert_src_ip alert = (case na_network alert of None \<Rightarrow> None | Some n \<Rightarrow> nw_src_ip n)"

definition build_threat_intel_params ::
    "normalized_alert \<Rightarrow> extracted_entities \<Rightarrow> string \<Rightarrow> jdict option" where
  "build_threat_intel_params alert entities technique_id =
     (case first_ioc_params (ee_iocs entities) of
        Some p \<Rightarrow> Some p
      | None \<Rightarrow>
          if opt_true (alert_dst_ip alert)
            then Some [(''ioc_type'', JStr ''ip''), (''ioc_value'', json_opt (alert_dst_ip alert))]
          else None)"

definition build_netflow_params ::
    "normalized_alert \<Rightarrow> extracted_entities \<Rightarrow> string \<Rightarrow> jdict option" where
  "build_netflow_params alert entities technique_id =
     (let hours = JInt (tw_hours (get_time_window technique_id));
          src_ip = json_opt (alert_src_ip alert);
          hostname = json_opt (first_hostname alert entities)
      in
      if starts_with technique_id ''T1071.004'' then
        Some [(''query_type'', JStr ''dns_entropy_analysis''), (''src_ip'', src_ip),
              (''hostname'', hostname), (''hours_back'', hours)]
      else if starts_with technique_id ''T1573'' \<or> starts_with technique_id ''T1095'' then
        Some [(''query_type'', JStr ''beacon_detection''), (''src_ip'', src_ip),
              (''hours_back'', hours)]
      else
        Some [(''query_type'', JStr ''top_talkers''), (''src_ip'', src_ip),
              (''hours_back'', hours)])"

definition build_aws_params ::
    "normalized_alert \<Rightarrow> extracted_entities \<Rightarrow> string \<Rightarrow> jdict option" where
  "build_aws_params alert entities technique_id =
     Some [(''query_type'', JStr ''cloudtrail_by_user''),
           (''username'', json_opt (first_username entities)),
           (''hours_back'', JInt (tw_hours (get_time_window technique_id)))]"

definition build_cmdb_params ::
    "normalized_alert \<Rightarrow> extracted_entities \<Rightarrow> string \<Rightarrow> jdict option" where
  "build_cmdb_params alert entities technique_id =
     (let hostname = first_hostname alert entities in
      if opt_true hostname
        then Some [(''lookup_type'', JStr ''by_hostname''), (''hostname'', json_opt hostname)]
      else if opt_true (alert_dst_ip alert)
        then Some [(''lookup_type'', JStr ''by_ip''), (''ip_address'', json_opt (alert_dst_ip alert))]
      else Some [(''lookup_type'', JStr ''by_hostname''), (''hostname'', JStr ''unknown'')])"

definition build_backup_params ::
    "normalized_alert \<Rightarrow> extracted_entities \<Rightarrow> string \<Rightarrow> jdict option" where
  "build_backup_params alert entities technique_id =
     Some [(''query_type'', JStr ''shadow_copy_status''),
           (''hostname'', json_opt (first_hostname alert entities))]"

text \<open>
  The regular expression \<open>CVE-\d{4}-\d{4,}\<close>, ignoring case, and its \<open>search\<close>: the leftmost match,
  with as many final digits as there are.
\<close>

definition is_digit :: "char \<Rightarrow> bool" where
  "is_digit c \<longleftrightarrow> (let n = (of_char c :: nat) in 48 \<le> n \<and> n \<le> 57)"

definition cve_match :: "string \<Rightarrow> string option" where
  "cve_match s =
     (let year = take 4 (drop 4 s); digits = takeWhile is_digit (drop 9 s) in
      if str_lower (take 4 s) = ''cve-'' \<and> length year = 4 \<and> list_all is_digit year
         \<and> take 1 (drop 8 s) = ''-'' \<and> 4 \<le> length digits
      then Some (take 9 s @ digits) else None)"

fun cve_search :: "string \<Rightarrow> string option" where
  "cve_search [] = None"
| "cve_search (c # cs) =
     (case cve_match (c # cs) of Some m \<Rightarrow> Some m | None \<Rightarrow> cve_search cs)"

fun cve_in_iocs :: "ioc_entity list \<Rightarrow> string option" where
  "cve_in_iocs [] = None"
| "cve_in_iocs (i # is) =
     (if ioc_type i = ''cve'' then Some (ioc_value i)
      else (case cve_search (ioc_value i) of
              Some m \<Rightarrow> Some (str_upper m)
            | None \<Rightarrow> cve_in_iocs is))"

fun cve_in_fields :: "string list \<Rightarrow> string option" where
  "cve_in_fields [] = None"
| "cve_in_fields (f # fs) =
     (case (if f = [] then None else cve_search f) of
        Some m \<Rightarrow> Some (str_upper m)
      | None \<Rightarrow> cve_in_fields fs)"

definition build_vulncheck_params ::
    "normalized_alert \<Rightarrow> extracted_entities \<Rightarrow> string \<Rightarrow> jdict option" where
  "build_vulncheck_params alert entities technique_id =
     (case cve_in_iocs (ee_iocs entities) of
        Some c \<Rightarrow> Some [(''cve_id'', JStr c)]
      | None \<Rightarrow>
          (case cve_in_fields [na_title alert, na_description alert] of
             Some c \<Rightarrow> Some [(''cve_id'', JStr c)]
           | None \<Rightarrow> None))"

type_synonym param_builder = "normalized_alert \<Rightarrow> extracted_entities \<Rightarrow> string \<Rightarrow> jdict option"

definition PARAM_BUILDERS :: "(string \<times> param_builder) list" where
  "PARAM_BUILDERS = [
     (''query_splunk'', build_splunk_params),
     (''query_crowdstrike'', build_crowdstrike_params),
     (''lookup_threat_intel'', build_threat_intel_params),
     (''query_aws'', build_aws_params),
     (''query_cmdb'', build_cmdb_params),
     (''query_netflow'', build_netflow_params),
     (''query_dns_logs'', build_netflow_params),
     (''query_backup_systems'', build_backup_params),
     (''lookup_vulncheck'', build_vulncheck_params)]"

subsection \<open>Context compression\<close>

text \<open>The em dash of the source's f-strings, as UTF-8 bytes.\<close>

definition em_dash :: string where
  "em_dash = [CHR 0xE2, CHR 0x80, CHR 0x94]"

text \<open>\<open>v.get(k)\<close> as an f-string renders it, for a value that may not be a dictionary.\<close>

definition get_str :: "pylib \<Rightarrow> json \<Rightarrow> string \<Rightarrow> json \<Rightarrow> exn + string" where
  "get_str lib v k dflt = bind_r (attr_get v k dflt) (\<lambda>x. Inr (py_str (float_repr lib) x))"

definition compress_crowdstrike :: "pylib \<Rightarrow> jdict \<Rightarrow> exn + string" where
  "compress_crowdstrike lib result =
     (let str = py_str (float_repr lib);
          count = str (dict_get result ''count'' (JInt 0));
          detections = dict_get result ''detections'' (JList []);
          alerts = dict_get result ''alerts'' (JList []);
          incidents = dict_get result ''incidents'' (JList [])
      in
      if truthy detections then
        bind_r (index_zero detections) (\<lambda>top.
        bind_r (get_str lib top ''technique'' JNull) (\<lambda>technique.
        bind_r (get_str lib top ''severity'' JNull) (\<lambda>severity.
        bind_r (get_str lib top ''filename'' JNull) (\<lambda>filename.
          Inr (''[CrowdStrike] '' @ count @ '' detections. Top: '' @ technique @ '' ('' @ severity
               @ '') '' @ em_dash @ '' '' @ filename)))))
      else if truthy alerts then
        bind_r (index_zero alerts) (\<lambda>top.
        bind_r (get_str lib top ''technique'' JNull) (\<lambda>technique.
        bind_r (get_str lib top ''severity'' JNull) (\<lambda>severity.
        bind_r (get_str lib top ''name'' (JStr ''?'')) (\<lambda>name.
          Inr (''[CrowdStrike/Alerts] '' @ count @ '' alerts. Top: '' @ technique @ '' ('' @ severity
               @ '') '' @ em_dash @ '' '' @ name)))))
      else if truthy incidents then
        bind_r (index_zero incidents) (\<lambda>top.
        bind_r (attr_get top ''tactics'' (JList [])) (\<lambda>tac.
        bind_r (slice_to 3 tac) (\<lambda>tac3.
        bind_r (join_json '', '' tac3) (\<lambda>joined.
        bind_r (get_str lib top ''severity'' JNull) (\<lambda>severity.
        bind_r (get_str lib top ''host_count'' (JStr ''?'')) (\<lambda>hosts.
          Inr (''[CrowdStrike/Incidents] '' @ count @ '' incidents. Top: severity='' @ severity
               @ '' tactics='' @ (if joined = [] then ''N/A'' else joined)
               @ '' hosts='' @ hosts)))))))
      else Inr (''[CrowdStrike] '' @ count @ '' results.''))"

definition compress_aws :: "pylib \<Rightarrow> jdict \<Rightarrow> exn + string" where
  "compress_aws lib result =
     (let high_risk = dict_get result ''high_risk_events'' (JList []) in
      bind_r (py_len high_risk) (\<lambda>n.
      bind_r (slice_to 3 high_risk) (\<lambda>top3.
      bind_r (py_iter top3) (\<lambda>events.
      bind_r (map_r (\<lambda>e. attr_get e ''EventName'' (JStr ''?'')) events) (\<lambda>names.
      bind_r (all_strings names) (\<lambda>ss.
        Inr (''[AWS] '' @ py_str (float_repr lib) (dict_get result ''total_events'' (JInt 0))
             @ '' CloudTrail events. '' @ show_int n @ '' high-risk IAM events: ''
             @ str_join '', '' ss)))))))"

definition compress_tool_result :: "pylib \<Rightarrow> string \<Rightarrow> jdict \<Rightarrow> exn + string" where
  "compress_tool_result lib tool_name result =
     (let str = py_str (float_repr lib);
          get = (\<lambda>k dflt. str (dict_get result k dflt))
      in
      if truthy (dict_get result ''error'' JNull) then
        Inr (''['' @ tool_name @ ''] ERROR: '' @ get ''error'' JNull)
      else if dict_get result ''source_available'' JNull = JBool False then
        Inr (''['' @ tool_name @ ''] ERROR: '' @ get ''error'' (JStr ''source unavailable''))
      else if tool_name = ''query_splunk'' then
        Inr (''[Splunk/'' @ get ''query_type'' (JStr ''?'') @ ''] ''
             @ get ''result_count'' (JInt 0) @ '' results. Summary: ''
             @ get ''summary'' (JStr ''No summary.''))
      else if tool_name = ''query_crowdstrike'' then compress_crowdstrike lib result
      else if tool_name = ''lookup_threat_intel'' then
        Inr (''[ThreatIntel] IOC='' @ get ''ioc'' JNull @ '' Verdict='' @ get ''verdict'' JNull
             @ '' '' @ em_dash @ '' '' @ get ''detail'' (JStr ''''))
      else if tool_name = ''query_netflow'' \<or> tool_name = ''query_dns_logs'' then
        Inr (''[NetFlow/'' @ get ''query_type'' (JStr ''?'') @ ''] Verdict=''
             @ get ''verdict'' (JStr ''N/A'') @ ''. Bytes=''
             @ get ''total_bytes_dns'' (dict_get result ''total_bytes_out'' (JStr ''N/A''))
             @ ''. High-entropy queries='' @ get ''high_entropy_queries'' (JStr ''N/A''))
      else if tool_name = ''query_cmdb'' then
        (if \<not> truthy (dict_get result ''found'' (JBool True)) then
           Inr (''[CMDB] '' @ get ''hostname'' (JStr ''?'') @ '' '' @ em_dash
                @ '' no matching CI in ServiceNow'')
         else
           Inr (''[CMDB] '' @ get ''hostname'' JNull @ '' '' @ em_dash
                @ '' criticality='' @ get ''criticality'' JNull
                @ '' type='' @ get ''asset_type'' JNull
                @ '' zone='' @ get ''network_zone'' JNull))
      else if tool_name = ''query_aws'' then compress_aws lib result
      else if tool_name = ''query_backup_systems'' then
        Inr (''[Backup] Shadow copies exist='' @ get ''shadow_copies_exist'' JNull
             @ '' Verdict='' @ get ''verdict'' (JStr ''N/A''))
      else if tool_name = ''lookup_vulncheck'' then
        (if \<not> truthy (dict_get result ''found'' JNull) then
           Inr (''[VulnCheck] '' @ get ''cve_id'' (JStr ''?'') @ '' '' @ em_dash @ '' not found'')
         else
           Inr (''[VulnCheck] '' @ get ''cve_id'' JNull @ '' CVSS='' @ get ''cvss_v3_score'' (JStr ''?'')
                @ '' ('' @ get ''severity'' (JStr ''?'') @ '') exploit=''
                @ (if truthy (dict_get result ''exploit_available'' JNull) then ''yes'' else ''no'')))
      else Inr (''['' @ tool_name @ ''] '' @ take 300 (str (JDict result))))"

text \<open>The same call on a value that may not be a dictionary: its first \<open>.get\<close> raises.\<close>

definition compress_json :: "pylib \<Rightarrow> string \<Rightarrow> json \<Rightarrow> exn + string" where
  "compress_json lib tool_name v =
     (case v of JDict d \<Rightarrow> compress_tool_result lib tool_name d
      | _ \<Rightarrow> Inl (AttributeError ''get''))"

lemma compress_error:
  assumes "truthy (dict_get d ''error'' JNull)"
  shows "compress_tool_result lib n d =
    Inr (''['' @ n @ ''] ERROR: '' @ py_str (float_repr lib) (dict_get d ''error'' JNull))"
  using assms by (simp add: compress_tool_result_def Let_def)

lemma compress_unavailable:
  assumes "dict_get d ''source_available'' JNull = JBool False"
  shows "\<exists>s. compress_tool_result lib n d = Inr s"
  using assms by (simp add: compress_tool_result_def Let_def)

subsection \<open>Single tool execution\<close>

text \<open>
  \<open>ToolCallRecord(...)\<close>: Pydantic rejects an \<open>error\<close> that is no string and a
  \<open>source_available\<close> it cannot read as a boolean.
\<close>

definition make_record ::
    "'w tool_env \<Rightarrow> string \<Rightarrow> jdict \<Rightarrow> string \<Rightarrow> jdict \<Rightarrow> int \<Rightarrow> json \<Rightarrow> json \<Rightarrow> exn + tool_call_record"
where
  "make_record env tool_name params summary raw latency source_available err =
     (case env_as_bool env source_available of
        None \<Rightarrow> Inl (ValidationError ''source_available'')
      | Some avail \<Rightarrow>
          (let rec = (\<lambda>e. \<lparr>tcr_tool_name = tool_name, tcr_input_params = params,
                 tcr_result_summary = summary, tcr_raw_result = raw, tcr_source_available = avail,
                 tcr_latency_ms = latency, tcr_error = e\<rparr>)
           in (case err of
                 JNull \<Rightarrow> Inr (rec None)
               | JStr s \<Rightarrow> Inr (rec (Some s))
               | _ \<Rightarrow> Inl (ValidationError ''error''))))"

type_synonym tool_outcome = "string \<times> jdict \<times> tool_call_record"

definition cached_outcome ::
    "'w tool_env \<Rightarrow> string \<Rightarrow> jdict \<Rightarrow> json \<Rightarrow> exn + tool_outcome" where
  "cached_outcome env tool_name params cached =
     bind_r (compress_json (env_lib env) tool_name cached) (\<lambda>compressed.
       (case cached of
          JDict d \<Rightarrow> Inr (tool_name, d,
            \<lparr>tcr_tool_name = tool_name, tcr_input_params = params,
             tcr_result_summary = compressed @ '' [CACHED]'', tcr_raw_result = d,
             tcr_source_available = True, tcr_latency_ms = 0, tcr_error = None\<rparr>)
        | _ \<Rightarrow> Inl (ValidationError ''raw_result'')))"

definition unregistered_outcome :: "string \<Rightarrow> jdict \<Rightarrow> tool_outcome" where
  "unregistered_outcome tool_name params =
     (let msg = ''Tool '' @ [CHR 0x27] @ tool_name @ [CHR 0x27] @ '' not registered'';
          result = [(''error'', JStr msg), (''source_available'', JBool False)]
      in (tool_name, result,
          \<lparr>tcr_tool_name = tool_name, tcr_input_params = params,
           tcr_result_summary = ''['' @ tool_name @ ''] NOT REGISTERED'', tcr_raw_result = result,
           tcr_source_available = True, tcr_latency_ms = 0, tcr_error = Some msg\<rparr>))"

text \<open>The awaited call with its two handlers: a timeout and any other exception become results.\<close>

definition guarded_tool_call ::
    "'w tool_env \<Rightarrow> string \<Rightarrow> jdict \<Rightarrow> int \<Rightarrow> ('w, jdict) io" where
  "guarded_tool_call env tool_name params timeout_seconds =
     try_io (env_run_tool env tool_name params timeout_seconds)
       (\<lambda>exc. ret_io
          [(''source_available'', JBool False),
           (''error'', JStr (case exc of
               TimeoutError \<Rightarrow> ''Timeout after '' @ show_int timeout_seconds @ ''s''
             | e \<Rightarrow> exn_str e))])"

definition cacheable :: "jdict \<Rightarrow> bool" where
  "cacheable result \<longleftrightarrow>
     truthy (dict_get result ''source_available'' (JBool True))
     \<and> \<not> truthy (dict_get result ''error'' JNull)"

definition now_ms_io :: "'w tool_env \<Rightarrow> ('w, int) io" where
  "now_ms_io env w = (case env_now_ms env w of (t, w') \<Rightarrow> (Inr t, w'))"

definition execute_single_tool ::
    "'w tool_env \<Rightarrow> string \<Rightarrow> jdict \<Rightarrow> int \<Rightarrow> ('w, tool_outcome) io" where
  "execute_single_tool env tool_name params timeout_seconds =
     bind_io (now_ms_io env) (\<lambda>start_ms.
     bind_io (cache_get (env_lib env) (env_cache env) tool_name params) (\<lambda>cached.
     if truthy cached then of_result (cached_outcome env tool_name params cached)
     else if tool_name \<notin> set tool_registry then ret_io (unregistered_outcome tool_name params)
     else
       bind_io (guarded_tool_call env tool_name params timeout_seconds) (\<lambda>result.
       bind_io (if cacheable result
                then cache_set (env_lib env) (env_cache env) tool_name params result
                else ret_io ()) (\<lambda>_.
       bind_io (now_ms_io env) (\<lambda>end_ms.
       bind_io (of_result (compress_tool_result (env_lib env) tool_name result)) (\<lambda>compressed.
       bind_io (of_result (make_record env tool_name params compressed result (end_ms - start_ms)
                  (dict_get result ''source_available'' (JBool True))
                  (dict_get result ''error'' JNull))) (\<lambda>record.
       ret_io (tool_name, result, record))))))))"

subsection \<open>The burst\<close>

text \<open>
  One task per tool of the routing table that has a builder and whose builder returns parameters.
  The builders are total here, so the \<open>except Exception: params = {}\<close> around them has no case.
\<close>

definition burst_tasks ::
    "normalized_alert \<Rightarrow> extracted_entities \<Rightarrow> string list \<Rightarrow> (string \<times> jdict) list" where
  "burst_tasks alert entities technique_ids =
     (let primary = (case technique_ids of [] \<Rightarrow> ''T1082'' | t # _ \<Rightarrow> t) in
      List.map_filter
        (\<lambda>tool_name. case map_of PARAM_BUILDERS tool_name of
             None \<Rightarrow> None
           | Some build \<Rightarrow>
               (case build alert entities primary of
                  None \<Rightarrow> None
                | Some params \<Rightarrow> Some (tool_name, params)))
        (get_tools_for_techniques technique_ids))"

type_synonym enrichment = "(string \<times> jdict) list \<times> tool_call_record list"

fun collect_results :: "(exn + tool_outcome) list \<Rightarrow> enrichment \<Rightarrow> enrichment" where
  "collect_results [] acc = acc"
| "collect_results (Inl e # rs) acc = collect_results rs acc"
| "collect_results (Inr (tool_name, data, record) # rs) (enrichment_data, records) =
     collect_results rs (AList.update tool_name data enrichment_data, records @ [record])"

definition run_burst_enrichment ::
    "'w tool_env \<Rightarrow> normalized_alert \<Rightarrow> extracted_entities \<Rightarrow> string list \<Rightarrow> int \<Rightarrow> ('w, enrichment) io"
where
  "run_burst_enrichment env alert entities technique_ids timeout_seconds =
     (if get_tools_for_techniques technique_ids = [] then ret_io ([], [])
      else
        bind_io
          (map_io (\<lambda>(tool_name, params). catch_io (execute_single_tool env tool_name params timeout_seconds))
            (burst_tasks alert entities technique_ids))
          (\<lambda>results. ret_io (collect_results results ([], []))))"

subsection \<open>Tool inputs agree with the schemas\<close>

lemma window_hours: "1 \<le> tw_hours (get_time_window t) \<and> tw_hours (get_time_window t) \<le> 2160"
  using get_routing_okD [of t] by (simp add: get_time_window_def)

lemma json_opt_is_str [simp]:
  "(case json_opt v of JNull \<Rightarrow> True | JStr s \<Rightarrow> True | _ \<Rightarrow> False)"
  by (cases v) (auto simp: json_opt_def)

lemma first_ioc_params_accepted:
  "first_ioc_params is = Some p \<Longrightarrow> ThreatIntelInput p"
  by (induction "is") (auto simp: ThreatIntelInput_def field_defs split: if_splits)

lemma builders_accepted:
  assumes "map_of PARAM_BUILDERS name = Some build" "build alert entities tid = Some p"
  shows "schema_accepts name p"
proof -
  note w = window_hours [of tid]
  from assms(1) consider
      "name = ''query_splunk''" "build = build_splunk_params"
    | "name = ''query_crowdstrike''" "build = build_crowdstrike_params"
    | "name = ''lookup_threat_intel''" "build = build_threat_intel_params"
    | "name = ''query_aws''" "build = build_aws_params"
    | "name = ''query_cmdb''" "build = build_cmdb_params"
    | "name = ''query_netflow''" "build = build_netflow_params"
    | "name = ''query_dns_logs''" "build = build_netflow_params"
    | "name = ''query_backup_systems''" "build = build_backup_params"
    | "name = ''lookup_vulncheck''" "build = build_vulncheck_params"
    by (auto simp: PARAM_BUILDERS_def split: if_splits)
  then show ?thesis
  proof cases
    case 1
    with assms(2) w show ?thesis
      by (auto simp: schema_accepts_def REGISTRY_SCHEMAS_def build_splunk_params_def schema_defs
          field_defs Let_def split: if_splits)
  next
    case 2
    with assms(2) w show ?thesis
      by (auto simp: schema_accepts_def REGISTRY_SCHEMAS_def build_crowdstrike_params_def
          schema_defs field_defs)
  next
    case 3
    with assms(2) show ?thesis
      by (auto simp: schema_accepts_def REGISTRY_SCHEMAS_def build_threat_intel_params_def
          opt_true_def dest: first_ioc_params_accepted
          split: option.splits if_splits)
        (auto simp: schema_defs field_defs json_opt_def)
  next
    case 4
    with assms(2) w show ?thesis
      by (auto simp: schema_accepts_def REGISTRY_SCHEMAS_def build_aws_params_def schema_defs
          field_defs)
  next
    case 5
    with assms(2) show ?thesis
      by (auto simp: schema_accepts_def REGISTRY_SCHEMAS_def build_cmdb_params_def schema_defs
          field_defs Let_def split: if_splits)
  next
    case 6
    with assms(2) w show ?thesis
      by (auto simp: schema_accepts_def REGISTRY_SCHEMAS_def build_netflow_params_def schema_defs
          field_defs Let_def split: if_splits)
  next
    case 7
    with assms(2) w show ?thesis
      by (auto simp: schema_accepts_def REGISTRY_SCHEMAS_def build_netflow_params_def schema_defs
          field_defs Let_def split: if_splits)
  next
    case 8
    with assms(2) show ?thesis
      by (auto simp: schema_accepts_def REGISTRY_SCHEMAS_def build_backup_params_def schema_defs
          field_defs)
  next
    case 9
    with assms(2) show ?thesis
      by (auto simp: schema_accepts_def REGISTRY_SCHEMAS_def build_vulncheck_params_def schema_defs
          field_defs split: option.splits)
  qed
qed

subsection \<open>Facts of a single execution\<close>

lemma no_raise_now: "no_raise (now_ms_io env)"
  by (auto simp: no_raise_def now_ms_io_def split: prod.splits)

lemma no_raise_guarded: "no_raise (guarded_tool_call env n p t)"
  unfolding guarded_tool_call_def by (intro no_raise_intros)

text \<open>What holds of every completed execution, whichever of its three branches it took.\<close>

definition outcome_ok :: "pylib \<Rightarrow> string \<Rightarrow> tool_outcome \<Rightarrow> bool" where
  "outcome_ok lib n out = (case out of (n', d, r) \<Rightarrow>
     n' = n \<and> tcr_tool_name r = n \<and> tcr_raw_result r = d
     \<and> (\<exists>s. compress_tool_result lib n d = Inr s))"

lemma make_record_Inr:
  "make_record env n p s d l av e = Inr r \<Longrightarrow> tcr_tool_name r = n \<and> tcr_raw_result r = d"
  by (auto simp: make_record_def Let_def split: option.splits json.splits)

lemma cached_outcome_ok: "cached_outcome env n p v = Inr out \<Longrightarrow> outcome_ok (env_lib env) n out"
  by (auto simp: cached_outcome_def compress_json_def bind_r_def outcome_ok_def
      split: json.splits sum.splits)

lemma unregistered_outcome_ok: "outcome_ok lib n (unregistered_outcome n p)"
  by (auto simp: unregistered_outcome_def outcome_ok_def Let_def
      intro!: exI compress_error)

lemma execute_outcome_ok:
  assumes "execute_single_tool env n p t w = (Inr out, w')"
  shows "outcome_ok (env_lib env) n out"
  using assms unregistered_outcome_ok [of "env_lib env" n p] unfolding execute_single_tool_def
  by (auto simp: bind_io_eq_Inr outcome_ok_def dest!: make_record_Inr
      dest: cached_outcome_ok [unfolded outcome_ok_def] split: if_splits)

text \<open>
  A name outside the registry never reaches a connector: the execution does not depend on
  \<open>env_run_tool\<close> at all.
\<close>

lemma execute_unregistered_indep:
  assumes "n \<notin> set tool_registry"
  shows "execute_single_tool (env\<lparr>env_run_tool := f\<rparr>) n p t w = execute_single_tool env n p t w"
  using assms unfolding execute_single_tool_def
  by (simp add: bind_io_def now_ms_io_def cached_outcome_def split: prod.splits sum.splits)

text \<open>A cache hit does not call the connector either, and takes its result from the cache.\<close>

lemma execute_cached:
  assumes "env_now_ms env w = (t0, w1)"
    and "cache_get (env_lib env) (env_cache env) n p w1 = (Inr v, w2)" and "truthy v"
  shows "execute_single_tool env n p t w = (cached_outcome env n p v, w2)"
  using assms by (simp add: execute_single_tool_def now_ms_io_def bind_io_def)

text \<open>An unavailable or failed result is never stored: the setter of the cache is not used.\<close>

lemma execute_no_store:
  assumes "env_now_ms env w = (t0, w1)"
    and "cache_get (env_lib env) (env_cache env) n p w1 = (Inr v, w2)" and "\<not> truthy v"
    and "n \<in> set tool_registry"
    and "guarded_tool_call env n p t w2 = (Inr d, w3)" and "\<not> cacheable d"
  shows "snd (execute_single_tool env n p t w) = snd (env_now_ms env w3)"
  using assms
  by (auto simp: execute_single_tool_def now_ms_io_def bind_io_def split: prod.splits sum.splits)

lemma guarded_failure_not_cacheable:
  assumes "env_run_tool env n p t w = (Inl e, w')"
  shows "\<exists>d. guarded_tool_call env n p t w = (Inr d, w') \<and> \<not> cacheable d"
  using assms by (auto simp: guarded_tool_call_def cacheable_def)

subsection \<open>Facts of the burst\<close>

definition outcome_name :: "tool_outcome \<Rightarrow> string" where
  "outcome_name out = fst out"

fun successes :: "(exn + 'a) list \<Rightarrow> 'a list" where
  "successes [] = []"
| "successes (Inl e # rs) = successes rs"
| "successes (Inr x # rs) = x # successes rs"

lemma update_new: "k \<notin> set (map fst d) \<Longrightarrow> AList.update k v d = d @ [(k, v)]"
  by (induction d) auto

lemma collect_results_eq:
  assumes "distinct (map fst data @ map fst (successes rs))"
  shows "collect_results rs (data, recs) =
    (data @ map (\<lambda>(n, d, r). (n, d)) (successes rs), recs @ map (\<lambda>(n, d, r). r) (successes rs))"
  using assms
proof (induction rs "(data, recs)" arbitrary: data recs rule: collect_results.induct)
  case (3 n d r rs data recs)
  then have "n \<notin> set (map fst data)" by auto
  then have u: "AList.update n d data = data @ [(n, d)]" by (rule update_new)
  with "3.prems" have "distinct (map fst (AList.update n d data) @ map fst (successes rs))"
    by auto
  from "3.hyps" [OF this] u show ?case by simp
qed auto

lemma successes_subseq:
  "list_all2 (\<lambda>x r. \<forall>y. r = Inr y \<longrightarrow> f y = g x) xs rs \<Longrightarrow>
     subseq (map f (successes rs)) (map g xs)"
proof (induction xs rs rule: list_all2_induct)
  case (Cons x xs r rs)
  then show ?case by (cases r) auto
qed simp

lemma subseq_distinct: "subseq xs ys \<Longrightarrow> distinct ys \<Longrightarrow> distinct xs"
  by (induction rule: list_emb.induct) (auto dest: list_emb_set)

lemma set_map_filter: "y \<in> set (List.map_filter h xs) \<Longrightarrow> \<exists>x\<in>set xs. h x = Some y"
  by (induction xs) (auto simp: List.map_filter_simps split: option.splits)

lemma subseq_map_filter_names:
  assumes "\<And>x y. h x = Some y \<Longrightarrow> fst y = x"
  shows "subseq (map fst (List.map_filter h xs)) xs"
  by (induction xs) (auto simp: List.map_filter_simps dest: assms split: option.splits)

lemma burst_tasks_subseq:
  "subseq (map fst (burst_tasks alert entities tids)) (get_tools_for_techniques tids)"
  unfolding burst_tasks_def Let_def
  by (rule subseq_map_filter_names) (auto split: option.splits)

lemma burst_tasks_accepted:
  assumes "(n, p) \<in> set (burst_tasks alert entities tids)"
  shows "schema_accepts n p"
  using set_map_filter [OF assms [unfolded burst_tasks_def Let_def]]
  by (auto split: option.splits intro: builders_accepted)

lemma map_io_Inr_rel:
  assumes "map_io f xs w = (Inr ys, w')"
    and "\<And>x y w w'. x \<in> set xs \<Longrightarrow> f x w = (Inr y, w') \<Longrightarrow> P x y"
  shows "list_all2 P xs ys"
  using assms by (rule map_io_all)

lemma catch_io_Inr: "catch_io m w = (Inr y, w') \<longleftrightarrow> m w = (y, w')"
  by (auto simp: catch_io_def split: prod.splits)

lemma successes_all:
  "list_all2 (\<lambda>x r. \<forall>y. r = Inr y \<longrightarrow> P x y) xs rs \<Longrightarrow> \<forall>y\<in>set (successes rs). \<exists>x\<in>set xs. P x y"
proof (induction xs rs rule: list_all2_induct)
  case (Cons x xs r rs)
  then show ?case by (cases r) auto
qed simp

text \<open>
  The result of a burst: records and data of the same tools, in routing order, each at most once,
  and every data entry one that compresses without an exception.
\<close>

lemma burst_result:
  assumes "run_burst_enrichment env alert entities tids t w = (Inr (data, recs), w')"
  shows "subseq (map tcr_tool_name recs) (get_tools_for_techniques tids)"
    and "data = map (\<lambda>r. (tcr_tool_name r, tcr_raw_result r)) recs"
    and "\<forall>(n, d) \<in> set data. \<exists>s. compress_tool_result (env_lib env) n d = Inr s"
proof -
  let ?tools = "get_tools_for_techniques tids" and ?tasks = "burst_tasks alert entities tids"
  let ?f = "\<lambda>(n, p). catch_io (execute_single_tool env n p t)"
  let ?Q = "subseq (map tcr_tool_name recs) ?tools
    \<and> data = map (\<lambda>r. (tcr_tool_name r, tcr_raw_result r)) recs
    \<and> (\<forall>(n, d) \<in> set data. \<exists>s. compress_tool_result (env_lib env) n d = Inr s)"
  have ?Q
  proof (cases "?tools = []")
    case True
    with assms show ?thesis by (simp add: run_burst_enrichment_def)
  next
    case False
    with assms obtain rs where rs: "map_io ?f ?tasks w = (Inr rs, w')"
      and res: "collect_results rs ([], []) = (data, recs)"
      by (auto simp: run_burst_enrichment_def bind_io_eq_Inr)
    from rs have rel: "list_all2 (\<lambda>x r. \<forall>y. r = Inr y \<longrightarrow> outcome_ok (env_lib env) (fst x) y) ?tasks rs"
      by (rule map_io_all) (auto simp: catch_io_Inr dest: execute_outcome_ok)
    then have "list_all2 (\<lambda>x r. \<forall>y. r = Inr y \<longrightarrow> fst y = fst x) ?tasks rs"
      by (rule list_all2_mono) (auto simp: outcome_ok_def)
    then have sub: "subseq (map fst (successes rs)) (map fst ?tasks)"
      by (rule successes_subseq)
    then have sub': "subseq (map fst (successes rs)) ?tools"
      using burst_tasks_subseq by (rule subseq_order.order_trans)
    then have "distinct (map fst (successes rs))"
      using distinct_get_tools subseq_distinct by blast
    with res have data: "data = map (\<lambda>(n, d, r). (n, d)) (successes rs)"
      and recs: "recs = map (\<lambda>(n, d, r). r) (successes rs)"
      by (simp_all add: collect_results_eq)
    have ok: "\<forall>y\<in>set (successes rs). outcome_ok (env_lib env) (fst y) y"
      using successes_all [OF rel] by (fastforce simp: outcome_ok_def)
    from ok have names: "map tcr_tool_name recs = map fst (successes rs)"
      by (auto simp: recs outcome_ok_def)
    from ok have "data = map (\<lambda>r. (tcr_tool_name r, tcr_raw_result r)) recs"
      by (auto simp: recs data outcome_ok_def)
    moreover from ok have "\<forall>(n, d) \<in> set data. \<exists>s. compress_tool_result (env_lib env) n d = Inr s"
      by (auto simp: data outcome_ok_def)
    ultimately show ?thesis using sub' names by simp
  qed
  then show "subseq (map tcr_tool_name recs) ?tools"
    and "data = map (\<lambda>r. (tcr_tool_name r, tcr_raw_result r)) recs"
    and "\<forall>(n, d) \<in> set data. \<exists>s. compress_tool_result (env_lib env) n d = Inr s"
    by blast+
qed

lemma no_raise_burst: "no_raise (run_burst_enrichment env alert entities tids t)"
  unfolding run_burst_enrichment_def
  by (intro no_raise_intros) (auto intro!: no_raise_intros)

lemma burst_count:
  assumes "run_burst_enrichment env alert entities tids t w = (Inr (data, recs), w')"
  shows "length recs \<le> 9" and "distinct (map tcr_tool_name recs)"
proof -
  from burst_result(1) [OF assms] have "length (map tcr_tool_name recs) \<le> length (get_tools_for_techniques tids)"
    by (rule list_emb_length)
  with length_get_tools [of tids] show "length recs \<le> 9" by simp
  from burst_result(1) [OF assms] distinct_get_tools show "distinct (map tcr_tool_name recs)"
    using subseq_distinct by blast
qed

end
