(* ===== verification/Prompts.thy ===== *)
theory Prompts
  imports Schemas
begin

section \<open>prompts/: templates, formatting and the prompt registry\<close>

text \<open>
  The two system prompts of the pipeline with the analyst persona, the technique hints, the
  functions that fill them in, and the versioned registry. \<open>py_format\<close> is \<open>str.format\<close> for the
  replacement fields the templates have (plain names): a doubled brace is one brace, and the
  arguments are copied as they are, never read as templates again. The static playbook texts of
  the module are in theory Playbooks.
\<close>

subsection \<open>\<open>str.format\<close>\<close>

definition lbrace :: char where "lbrace = CHR 0x7B"
definition rbrace :: char where "rbrace = CHR 0x7D"

datatype seg = Lit char | Field string

definition seg_cons :: "seg \<Rightarrow> exn + seg list \<Rightarrow> exn + seg list" where
  "seg_cons s r = bind_r r (\<lambda>ss. Inr (s # ss))"

text \<open>
  The mode of the scan: in literal text, after an opening or a closing brace, or inside a
  replacement field whose name so far is the argument.
\<close>

datatype fmt_mode = FText | FOpen | FClose | FIn string

fun fmt_parse :: "fmt_mode \<Rightarrow> string \<Rightarrow> exn + seg list" where
  "fmt_parse FText [] = Inr []"
| "fmt_parse FOpen [] = Inl (ValueError ''Single { encountered in format string'')"
| "fmt_parse FClose [] = Inl (ValueError ''Single } encountered in format string'')"
| "fmt_parse (FIn n) [] = Inl (ValueError ''expected } before end of string'')"
| "fmt_parse FText (c # cs) =
     (if c = lbrace then fmt_parse FOpen cs
      else if c = rbrace then fmt_parse FClose cs
      else seg_cons (Lit c) (fmt_parse FText cs))"
| "fmt_parse FOpen (c # cs) =
     (if c = lbrace then seg_cons (Lit lbrace) (fmt_parse FText cs)
      else if c = rbrace then seg_cons (Field []) (fmt_parse FText cs)
      else fmt_parse (FIn [c]) cs)"
| "fmt_parse FClose (c # cs) =
     (if c = rbrace then seg_cons (Lit rbrace) (fmt_parse FText cs)
      else Inl (ValueError ''Single } encountered in format string''))"
| "fmt_parse (FIn n) (c # cs) =
     (if c = rbrace then seg_cons (Field n) (fmt_parse FText cs) else fmt_parse (FIn (n @ [c])) cs)"

fun fmt_render :: "(string \<times> string) list \<Rightarrow> seg list \<Rightarrow> exn + string" where
  "fmt_render kw [] = Inr []"
| "fmt_render kw (Lit c # ss) = bind_r (fmt_render kw ss) (\<lambda>t. Inr (c # t))"
| "fmt_render kw (Field n # ss) =
     (case map_of kw n of
        None \<Rightarrow> Inl (KeyError n)
      | Some v \<Rightarrow> bind_r (fmt_render kw ss) (\<lambda>t. Inr (v @ t)))"

definition py_format :: "string \<Rightarrow> (string \<times> string) list \<Rightarrow> exn + string" where
  "py_format t kw = bind_r (fmt_parse FText t) (fmt_render kw)"

subsection \<open>Templates\<close>

definition ANALYST_PERSONA :: string where
  "ANALYST_PERSONA =
     str_join [CHR 0x0A] [
       ''You are a Tier 3+ SOC Analyst and Threat Intelligence specialist with 10+ years of experience.'',
       ''Your outputs are used in live demos for senior analysts (L3 and above): they expect investigation-grade precision,'',
       ''clear causal chains, and defensible conclusions '' @ [CHR 0xE2, CHR 0x80, CHR 0x94] @ '' not minimal triage.'',
       ''You have deep expertise in MITRE ATT&CK, threat hunting, incident response, and digital forensics.'',
       ''You are methodical, evidence-based, and never speculate beyond what the data supports.'',
       ''You are familiar with adversary TTPs used by APT groups, financially motivated threat actors, and insider threats.'']"

definition TRIAGE_SYSTEM_PROMPT :: string where
  "TRIAGE_SYSTEM_PROMPT =
     str_join [CHR 0x0A] [
       ''{persona}'',
       [],
       ''You are triaging a security alert. You have access to tools to query data sources.'',
       [],
       ''ALERT SEVERITY: {severity}'',
       ''REMAINING TOOL BUDGET: {budget} calls'',
       [],
       ''TECHNIQUE / TACTIC FOCUS (use when relevant; may be empty):'',
       ''{technique_context}'',
       [],
       ''AVAILABLE TOOLS:'',
       ''{tool_descriptions}'',
       [],
       ''ENRICHMENT DATA COLLECTED SO FAR:'',
       ''{enrichment_summary}'',
       [],
       ''Your task:'',
       ''1. Analyse the enrichment data collected so far.'',
       ''2. Set **tocontinue** (boolean): default **true** while **REMAINING TOOL BUDGET** > 0 if any material investigative gap remains.'',
       ''   Set **false** only when additional calls would not meaningfully reduce uncertainty (duplicate angle, no new parameters, or conclusive benign/malicious picture already backed by multiple independent signals).'',
       ''3. When **tocontinue** is true, fill **planned_tools** with one or more tools (up to the remaining budget). For each tool, set **arguments** to a **single JSON object string** (the tool parameters as compact JSON, e.g. `{{\"query\":\"...\"}}` '' @ [CHR 0xE2, CHR 0x80, CHR 0x94] @ '' not a nested prose field). Prefer **batching** distinct angles in one step rather than a single shallow call. When **tocontinue** is false, **planned_tools** must be an empty list.'',
       ''4. Summarise your reasoning briefly in **reasoning**.'',
       [],
       ''Bias toward **more tool use** (reliable verdicts for L3+ review):'',
       ''- Treat burst enrichment as a first pass, not the final word. Cross-check hosts, users, processes, IOCs, and cloud/endpoint narratives when tools allow.'',
       ''- CRITICAL/HIGH: keep **tocontinue** **true** until you have **strong multi-source corroboration** (e.g. endpoint + SIEM + identity/cloud or threat intel where applicable), or the budget is exhausted.'',
       ''- MEDIUM: use the budget to close **timeline**, **scope**, and **blast-radius** questions; prefer **true** while budget remains if any of those are open or only single-source.'',
       ''- LOW: still use tools when the alert is ambiguous, first-seen, or would change handling; prefer **true** while budget remains if a false positive cannot be confidently ruled in/out.'',
       [],
       ''Good follow-up angles (pick what fits the alert): adjacent time windows, related user/host/process, second SIEM perspective, reputation on IOCs not yet queried, asset/CMDB context, backup/VSS or netflow/DNS if relevant to the technique.'',
       [],
       ''Do NOT repeat the same tool with identical arguments.'',
       ''Do NOT fabricate enrichment data '' @ [CHR 0xE2, CHR 0x80, CHR 0x94] @ '' only use what the tools return.'']"

definition VERDICT_SYSTEM_PROMPT :: string where
  "VERDICT_SYSTEM_PROMPT =
     str_join [CHR 0x0A] [
       ''{persona}'',
       [],
       ''You have completed the enrichment phase. Based on ALL collected data, generate the final triage verdict.'',
       ''Assume the reader is an L3+ analyst judging precision: cite concrete facts from enrichment; prefer conservative escalation when evidence conflicts or is thin.'',
       [],
       ''TECHNIQUE / TACTIC FOCUS (use when relevant; may be empty):'',
       ''{technique_context}'',
       [],
       ''You MUST respond with a structured JSON matching the TriageVerdict schema exactly.'',
       ''Fields to fill:'',
       ''  - severity: escalate from the original if enrichment confirms higher risk'',
       ''  - severity_justification: cite specific evidence from tool outputs'',
       ''  - mitre_assessments: list all confirmed techniques with tactic names'',
       ''  - triage_summary: 3-5 sentences '' @ [CHR 0xE2, CHR 0x80, CHR 0x94] @ '' what happened, attack chain, objective'',
       ''  - confirmed_iocs: only IOCs confirmed by enrichment (not just alert claims)'',
       ''  - immediate_actions: exactly 3 actions, prioritised 1-3'',
       ''  - escalation: ESCALATE_IR / FALSE_POSITIVE / MONITOR / CLOSE'',
       ''  - escalation_rationale: 1-2 sentences explaining the decision'',
       ''  - analyst_confidence: 0.0-1.0 based on data quality'',
       ''  - false_positive_probability: 0.0-1.0'',
       [],
       ''ALERT TITLE: {alert_title}'',
       ''ORIGINAL SEVERITY: {original_severity}'',
       ''ENTITIES EXTRACTED: {entities_summary}'',
       ''ALL ENRICHMENT DATA:'',
       ''{full_enrichment}'']"

definition TECHNIQUE_CLASS_HINTS :: "(string \<times> string) list" where
  "TECHNIQUE_CLASS_HINTS = [
     (''credential_access'',
      ''Pay special attention to: process lineage (was lsass.exe accessed?), user behaviour anomalies (logins from unusual locations/times), lateral movement following the dump, downstream privileged actions.''),
     (''c2_beaconing'',
      ''Focus on: beacon periodicity (regular intervals = automated C2), entropy of DNS query strings (high entropy = tunnelling), destination IP reputation and ASN (bulletproof hosting = high confidence C2), data volume asymmetry (large outbound vs inbound = exfil).''),
     (''ransomware'',
      ''CRITICAL: Containment speed is paramount. Check: scope (how many hosts showing file rename activity?), backup system integrity (were VSS/shadow copies deleted?), network shares (is encryption spreading laterally?), initial access vector (phishing email? RDP brute force? Vulnerable service?).''),
     (''privilege_escalation'',
      ''Trace the privilege chain: what account was used before escalation? Was this from an external IP or internal pivot? What did the escalated account do immediately after? Check for persistence mechanisms installed post-escalation.''),
     (''lateral_movement'',
      ''Map the movement path: source host '' @ [CHR 0xE2, CHR 0x86, CHR 0x92] @ '' target hosts. Check if targets are higher-value (DC, file servers, backup servers). Correlate with credential theft events in the 48h preceding this alert.''),
     (''persistence'',
      ''Determine the persistence mechanism quality: registry run keys are noisy; scheduled tasks from browser processes are high-signal. Check parent process '' @ [CHR 0xE2, CHR 0x80, CHR 0x94] @ '' persistence from Office/browser indicates malware dropped via phishing.'')]"

definition get_technique_hint :: "string \<Rightarrow> string" where
  "get_technique_hint technique_class =
     (case map_of TECHNIQUE_CLASS_HINTS technique_class of None \<Rightarrow> [] | Some h \<Rightarrow> h)"

definition technique_class_mapping :: "(string \<times> string) list" where
  "technique_class_mapping = [
     (''T1003'', ''credential_access''), (''T1110'', ''credential_access''),
     (''T1555'', ''credential_access''), (''T1071'', ''c2_beaconing''),
     (''T1573'', ''c2_beaconing''), (''T1095'', ''c2_beaconing''), (''T1486'', ''ransomware''),
     (''T1490'', ''ransomware''), (''T1489'', ''ransomware''),
     (''T1078'', ''privilege_escalation''), (''T1098'', ''privilege_escalation''),
     (''T1134'', ''privilege_escalation''), (''T1021'', ''lateral_movement''),
     (''T1053'', ''persistence''), (''T1547'', ''persistence''), (''T1543'', ''persistence'')]"

definition technique_to_class :: "string \<Rightarrow> string" where
  "technique_to_class technique_id =
     (case map_of technique_class_mapping (hd (split_on CHR ''.'' technique_id)) of
        None \<Rightarrow> ''general'' | Some c \<Rightarrow> c)"

definition escape_format_braces :: "string \<Rightarrow> string" where
  "escape_format_braces s =
     concat (map (\<lambda>c. if c = lbrace \<or> c = rbrace then [c, c] else [c]) s)"

text \<open>\<open>x or dflt\<close> on strings.\<close>

definition str_or :: "string \<Rightarrow> string \<Rightarrow> string" where
  "str_or s dflt = (if s = [] then dflt else s)"

definition build_triage_prompt ::
    "severity \<Rightarrow> int \<Rightarrow> string \<Rightarrow> string \<Rightarrow> string \<Rightarrow> exn + string" where
  "build_triage_prompt severity budget tool_descriptions enrichment_summary technique_context =
     py_format TRIAGE_SYSTEM_PROMPT [
       (''persona'', ANALYST_PERSONA),
       (''severity'', severity_value severity),
       (''budget'', show_int budget),
       (''technique_context'', escape_format_braces (str_or technique_context ''None.'')),
       (''tool_descriptions'', escape_format_braces tool_descriptions),
       (''enrichment_summary'',
          escape_format_braces (str_or enrichment_summary ''No enrichment data yet.''))]"

definition build_verdict_prompt ::
    "string \<Rightarrow> string \<Rightarrow> string \<Rightarrow> string \<Rightarrow> string \<Rightarrow> exn + string" where
  "build_verdict_prompt alert_title original_severity entities_summary full_enrichment
       technique_context =
     py_format VERDICT_SYSTEM_PROMPT [
       (''persona'', ANALYST_PERSONA),
       (''alert_title'', escape_format_braces alert_title),
       (''original_severity'', escape_format_braces original_severity),
       (''entities_summary'', escape_format_braces entities_summary),
       (''full_enrichment'',
          escape_format_braces (str_or full_enrichment ''No enrichment data collected.'')),
       (''technique_context'', escape_format_braces (str_or technique_context ''None.''))]"

subsection \<open>The registry\<close>

record prompt_version =
  pv_name :: string
  pv_version :: string
  pv_content :: string
  pv_created_at :: string
  pv_is_active :: bool
  pv_tags :: "string list"

record prompt_registry =
  pr_store :: "(string \<times> prompt_version list) list"
  pr_active :: "(string \<times> string) list"

text \<open>\<open>register\<close>; \<open>now\<close> is the creation time the dataclass takes by default.\<close>

definition registry_register ::
    "string \<Rightarrow> string \<Rightarrow> string \<Rightarrow> string \<Rightarrow> string list \<Rightarrow> bool \<Rightarrow> prompt_registry \<Rightarrow> prompt_registry"
where
  "registry_register now name version content tags set_active reg =
     (let versions = (case map_of (pr_store reg) name of None \<Rightarrow> [] | Some vs \<Rightarrow> vs);
          entry = \<lparr>pv_name = name, pv_version = version, pv_content = content,
                   pv_created_at = now, pv_is_active = True, pv_tags = tags\<rparr>
      in reg\<lparr>pr_store := AList.update name (versions @ [entry]) (pr_store reg),
             pr_active := (if set_active then AList.update name version (pr_active reg)
                           else pr_active reg)\<rparr>)"

definition registry_seed :: "string \<Rightarrow> prompt_registry" where
  "registry_seed now =
     registry_register now ''analyst_persona'' ''v1.0'' ANALYST_PERSONA [''persona''] True
       (registry_register now ''verdict_system'' ''v1.0'' VERDICT_SYSTEM_PROMPT [''verdict''] True
         (registry_register now ''triage_system'' ''v1.0'' TRIAGE_SYSTEM_PROMPT [''triage'', ''react'']
           True \<lparr>pr_store = [], pr_active = []\<rparr>))"

text \<open>
  \<open>get\<close>. \<open>remote\<close> is the Langfuse lookup: \<open>None\<close> when prompt management is off, no client exists or
  any call of it raised (all three fall through to the local store). An empty \<open>version\<close> counts as
  not given.
\<close>

definition registry_get ::
    "(string \<Rightarrow> string option) \<Rightarrow> prompt_registry \<Rightarrow> string \<Rightarrow> string option \<Rightarrow> exn + string" where
  "registry_get remote reg name version =
     (case remote name of
        Some content \<Rightarrow> Inr content
      | None \<Rightarrow>
          (case (case map_of (pr_store reg) name of None \<Rightarrow> [] | Some vs \<Rightarrow> vs) of
             [] \<Rightarrow> Inl (KeyError (''Prompt '' @ repr_str name @ '' not found in registry''))
           | v0 # vs \<Rightarrow>
               (let target = opt_or version (map_of (pr_active reg) name) in
                case find (\<lambda>v. Some (pv_version v) = target) (v0 # vs) of
                  Some v \<Rightarrow> Inr (pv_content v)
                | None \<Rightarrow> Inr (pv_content (last (v0 # vs))))))"

definition registry_set_active ::
    "string \<Rightarrow> string \<Rightarrow> prompt_registry \<Rightarrow> exn + prompt_registry" where
  "registry_set_active name version reg =
     (if map_of (pr_store reg) name = None
        then Inl (KeyError (''Prompt '' @ repr_str name @ '' not found''))
      else Inr (reg\<lparr>pr_active := AList.update name version (pr_active reg)\<rparr>))"

definition list_versions :: "prompt_registry \<Rightarrow> string \<Rightarrow> string list" where
  "list_versions reg name =
     map pv_version (case map_of (pr_store reg) name of None \<Rightarrow> [] | Some vs \<Rightarrow> vs)"

subsection \<open>Formatting facts\<close>

fun fields :: "seg list \<Rightarrow> string list" where
  "fields [] = []"
| "fields (Lit c # ss) = fields ss"
| "fields (Field n # ss) = n # fields ss"

lemma fmt_render_total:
  "set (fields ss) \<subseteq> set (map fst kw) \<Longrightarrow> \<exists>t. fmt_render kw ss = Inr t"
proof (induction ss rule: fields.induct)
  case (3 n ss)
  then obtain v where "map_of kw n = Some v"
    by (metis fields.simps(3) list.set_intros(1) list.set_map map_of_eq_None_iff not_None_eq subset_code(1))
  with 3 show ?case by auto
qed auto

lemma fmt_render_field:
  "fmt_render kw ss = Inr t \<Longrightarrow> n \<in> set (fields ss) \<Longrightarrow> map_of kw n = Some v \<Longrightarrow>
     \<exists>a b. t = a @ v @ b"
proof (induction ss arbitrary: t rule: fields.induct)
  case (2 c ss)
  then obtain t' where "fmt_render kw ss = Inr t'" "t = c # t'"
    by (auto simp: bind_r_def split: sum.splits)
  with 2 show ?case by (metis append_Cons fields.simps(2))
next
  case (3 m ss)
  then obtain u t' where u: "map_of kw m = Some u" "fmt_render kw ss = Inr t'" "t = u @ t'"
    by (auto simp: bind_r_def split: sum.splits option.splits)
  show ?case
  proof (cases "n = m")
    case True
    with u 3 show ?thesis by (metis append_Nil option.inject)
  next
    case False
    with 3 u obtain a b where "t' = a @ v @ b" by auto
    with u show ?thesis by (metis append.assoc)
  qed
qed auto

definition template_fields :: "string \<Rightarrow> string list option" where
  "template_fields t = (case fmt_parse FText t of Inl e \<Rightarrow> None | Inr ss \<Rightarrow> Some (fields ss))"

lemma format_total:
  assumes "template_fields t = Some fs" "set fs \<subseteq> set (map fst kw)"
  obtains s where "py_format t kw = Inr s"
    and "\<And>n v. n \<in> set fs \<Longrightarrow> map_of kw n = Some v \<Longrightarrow> str_in v s"
proof -
  from assms(1) obtain ss where ss: "fmt_parse FText t = Inr ss" "fs = fields ss"
    by (auto simp: template_fields_def split: sum.splits)
  with assms(2) obtain s where s: "fmt_render kw ss = Inr s" using fmt_render_total by blast
  show thesis
  proof (rule that)
    show "py_format t kw = Inr s" using ss s by (simp add: py_format_def)
    show "str_in v s" if "n \<in> set fs" "map_of kw n = Some v" for n v
      using fmt_render_field [OF s] that ss by (auto simp: str_in_iff)
  qed
qed

text \<open>A template is checked line by line: a line that parses alone parses in front of any other.\<close>

lemma fmt_parse_append:
  "fmt_parse m l = Inr ss \<Longrightarrow>
     fmt_parse m (l @ t) = bind_r (fmt_parse FText t) (\<lambda>ss'. Inr (ss @ ss'))"
proof (induction m l arbitrary: ss rule: fmt_parse.induct)
  case 1
  then show ?case by (cases "fmt_parse FText t") auto
qed (cases "fmt_parse FText t";
     force simp: seg_cons_def bind_r_def split: if_splits sum.splits)+

lemma fields_append: "fields (xs @ ys) = fields xs @ fields ys"
  by (induction xs rule: fields.induct) auto

lemma template_fields_append:
  "template_fields l = Some fs \<Longrightarrow> template_fields t = Some gs \<Longrightarrow>
     template_fields (l @ t) = Some (fs @ gs)"
  by (auto simp: template_fields_def fmt_parse_append fields_append split: sum.splits)

fun lines_fields :: "string list \<Rightarrow> string list option" where
  "lines_fields [] = Some []"
| "lines_fields (l # ls) =
     (case template_fields l of
        None \<Rightarrow> None
      | Some fs \<Rightarrow> (case lines_fields ls of None \<Rightarrow> None | Some gs \<Rightarrow> Some (fs @ gs)))"

lemma newline_fields: "template_fields [CHR 0x0A] = Some []"
  by (simp add: template_fields_def seg_cons_def lbrace_def rbrace_def)

lemma lines_fields_join:
  "lines_fields ls = Some fs \<Longrightarrow> template_fields (str_join [CHR 0x0A] ls) = Some fs"
proof (induction ls arbitrary: fs)
  case Nil
  then show ?case by (simp add: template_fields_def)
next
  case (Cons l ls)
  then obtain f g where fg: "template_fields l = Some f" "lines_fields ls = Some g" "fs = f @ g"
    by (auto split: option.splits)
  show ?case
  proof (cases ls)
    case Nil
    with fg show ?thesis by simp
  next
    case (Cons m ms)
    from Cons.IH [OF fg(2)] have "template_fields ([CHR 0x0A] @ str_join [CHR 0x0A] ls) = Some g"
      using template_fields_append [OF newline_fields] by fastforce
    with fg Cons show ?thesis
      using template_fields_append [OF fg(1)] by fastforce
  qed
qed

lemma triage_template_fields:
  "template_fields TRIAGE_SYSTEM_PROMPT = Some [''persona'', ''severity'', ''budget'',
     ''technique_context'', ''tool_descriptions'', ''enrichment_summary'']"
  unfolding TRIAGE_SYSTEM_PROMPT_def by (rule lines_fields_join) code_simp

lemma verdict_template_fields:
  "template_fields VERDICT_SYSTEM_PROMPT = Some [''persona'', ''technique_context'',
     ''alert_title'', ''original_severity'', ''entities_summary'', ''full_enrichment'']"
  unfolding VERDICT_SYSTEM_PROMPT_def by (rule lines_fields_join) code_simp

lemma format_exists:
  assumes "template_fields t = Some fs" "set fs \<subseteq> set (map fst kw)"
    and "\<And>s. list_all (\<lambda>n. case map_of kw n of None \<Rightarrow> True | Some v \<Rightarrow> str_in v s) fs \<Longrightarrow> Q s"
  shows "\<exists>s. py_format t kw = Inr s \<and> Q s"
proof (rule format_total [OF assms(1,2)])
  fix s
  assume s: "py_format t kw = Inr s"
    and i: "\<And>n v. n \<in> set fs \<Longrightarrow> map_of kw n = Some v \<Longrightarrow> str_in v s"
  from i have "list_all (\<lambda>n. case map_of kw n of None \<Rightarrow> True | Some v \<Rightarrow> str_in v s) fs"
    by (auto simp: list_all_iff split: option.splits)
  with s assms(3) show ?thesis by blast
qed

subsection \<open>The properties of prompts\<close>

text \<open>
  Building a prompt never fails, whatever text alerts and tools put into it (braces included),
  and the prompt contains every piece of it: the tool descriptions, the enrichment summary, the
  technique context and the budget of the THINK prompt, the alert's title, entities and enrichment
  of the verdict prompt, each with its braces doubled.
\<close>

theorem prompts_complete:
  "(\<exists>p. build_triage_prompt sev b td es tc = Inr p
      \<and> str_in (show_int b) p \<and> str_in (severity_value sev) p \<and> str_in (escape_format_braces td) p
      \<and> str_in (escape_format_braces (str_or es ''No enrichment data yet.'')) p
      \<and> str_in (escape_format_braces (str_or tc ''None.'')) p)
   \<and> (\<exists>p. build_verdict_prompt title sv ents enr tc = Inr p
      \<and> str_in (escape_format_braces title) p \<and> str_in (escape_format_braces ents) p
      \<and> str_in (escape_format_braces (str_or enr ''No enrichment data collected.'')) p)"
proof
  show "\<exists>p. build_triage_prompt sev b td es tc = Inr p
      \<and> str_in (show_int b) p \<and> str_in (severity_value sev) p \<and> str_in (escape_format_braces td) p
      \<and> str_in (escape_format_braces (str_or es ''No enrichment data yet.'')) p
      \<and> str_in (escape_format_braces (str_or tc ''None.'')) p"
    unfolding build_triage_prompt_def
    by (rule format_exists [OF triage_template_fields]) simp_all
  show "\<exists>p. build_verdict_prompt title sv ents enr tc = Inr p
      \<and> str_in (escape_format_braces title) p \<and> str_in (escape_format_braces ents) p
      \<and> str_in (escape_format_braces (str_or enr ''No enrichment data collected.'')) p"
    unfolding build_verdict_prompt_def
    by (rule format_exists [OF verdict_template_fields]) simp_all
qed

text \<open>
  A version registered under a fresh version name is what the registry then serves from the
  local store: as the active one when it was registered as active, and by its name in any case.
\<close>

theorem registered_prompt_served:
  assumes "remote name = None" "version \<notin> set (list_versions reg name)" "version \<noteq> []"
  shows "registry_get remote (registry_register now name version content tags act reg) name (Some version)
      = Inr content
    \<and> registry_get remote (registry_register now name version content tags True reg) name None
      = Inr content"
proof -
  let ?vs = "case map_of (pr_store reg) name of None \<Rightarrow> [] | Some vs \<Rightarrow> vs"
  let ?e = "\<lparr>pv_name = name, pv_version = version, pv_content = content, pv_created_at = now,
      pv_is_active = True, pv_tags = tags\<rparr>"
  have none: "find (\<lambda>v. Some (pv_version v) = Some version) (?vs @ [?e]) = Some ?e"
    using assms(2) by (auto simp: list_versions_def find_Some_iff nth_append split: option.splits
        intro!: exI [of _ "length ?vs"])
  have "\<exists>v0 vs. ?vs @ [?e] = v0 # vs" by (cases ?vs) auto
  then obtain v0 vs where c: "?vs @ [?e] = v0 # vs" by blast
  from none assms(1,3) show ?thesis
    by (simp add: registry_get_def registry_register_def Let_def update_conv opt_or_def opt_true_def c
        del: find.simps)
qed

theorem registered_prompt_served_witness:
  "registry_get (\<lambda>n. None) (registry_register ''t1'' ''triage_system'' ''v2.0'' ''Be brief.'' [] True
      (registry_seed ''t0'')) ''triage_system'' None = Inr ''Be brief.''"
proof -
  have l: "list_versions (registry_seed ''t0'') ''triage_system'' = [''v1.0'']"
    by (simp add: list_versions_def registry_seed_def registry_register_def)
  have "''v2.0'' \<notin> set (list_versions (registry_seed ''t0'') ''triage_system'')"
    "''v2.0'' \<noteq> ([] :: string)" unfolding l by simp_all
  from registered_prompt_served [where remote = "\<lambda>n. None", OF refl this] show ?thesis by blast
qed

end
