(* ===== verification/Regex.thy ===== *)
theory Regex
  imports Prelude
begin

section \<open>Regular expressions of the standard library\<close>

text \<open>
  The part of Python's \<open>re\<close> that the source uses: character classes, sequence, ordered
  alternatives, bounded and unbounded repetition (greedy or lazy), the word boundary, and one
  capturing group. \<open>rmatch\<close> lists the ways to match at a position in the order in which a
  backtracking matcher tries them, so the first one is Python's match; \<open>re_search\<close>,
  \<open>re_findall\<close> and \<open>re_sub\<close> scan from the left and do not overlap. No pattern of the source
  matches the empty string. \<open>re_lang\<close> is the declarative reading, and \<open>rmatch_sound\<close> relates the
  two.
\<close>

datatype re =
    RChar "char \<Rightarrow> bool"
  | RSeq re re
  | RAlt re re
  | RRep nat "nat option" bool re
  | RWordB
  | RGroup re

text \<open>A position: the character before it, the text after it, and the group captured so far.\<close>

type_synonym re_pos = "char option \<times> string \<times> string option"

definition digit_char :: "char \<Rightarrow> bool" where
  "digit_char c \<longleftrightarrow> (let n = (of_char c :: nat) in 48 \<le> n \<and> n \<le> 57)"

definition alpha_char :: "char \<Rightarrow> bool" where
  "alpha_char c \<longleftrightarrow> (let n = (of_char c :: nat) in (65 \<le> n \<and> n \<le> 90) \<or> (97 \<le> n \<and> n \<le> 122))"

definition word_char :: "char \<Rightarrow> bool" where
  "word_char c \<longleftrightarrow> digit_char c \<or> alpha_char c \<or> c = CHR ''_''"

definition hex_char :: "char \<Rightarrow> bool" where
  "hex_char c \<longleftrightarrow> digit_char c \<or> (let n = (of_char c :: nat) in (65 \<le> n \<and> n \<le> 70) \<or> (97 \<le> n \<and> n \<le> 102))"

definition char_range :: "char \<Rightarrow> char \<Rightarrow> char \<Rightarrow> bool" where
  "char_range lo hi c \<longleftrightarrow> (of_char lo :: nat) \<le> of_char c \<and> (of_char c :: nat) \<le> of_char hi"

fun rep_exact :: "(re_pos \<Rightarrow> re_pos list) \<Rightarrow> nat \<Rightarrow> re_pos \<Rightarrow> re_pos list" where
  "rep_exact f 0 s = [s]"
| "rep_exact f (Suc n) s = concat (map (rep_exact f n) (f s))"

text \<open>Up to \<open>n\<close> more repetitions, the longest first when greedy; each must consume something.\<close>

fun rep_upto :: "bool \<Rightarrow> (re_pos \<Rightarrow> re_pos list) \<Rightarrow> nat \<Rightarrow> re_pos \<Rightarrow> re_pos list" where
  "rep_upto greedy f 0 s = [s]"
| "rep_upto greedy f (Suc n) s =
     (let more = concat (map (rep_upto greedy f n)
            (filter (\<lambda>s'. length (fst (snd s')) < length (fst (snd s))) (f s)))
      in if greedy then more @ [s] else s # more)"

fun is_word_opt :: "char option \<Rightarrow> bool" where
  "is_word_opt None = False"
| "is_word_opt (Some c) = word_char c"

definition at_boundary :: "re_pos \<Rightarrow> bool" where
  "at_boundary s \<longleftrightarrow> (case s of (p, rest, g) \<Rightarrow>
     is_word_opt p \<noteq> is_word_opt (case rest of [] \<Rightarrow> None | c # cs \<Rightarrow> Some c))"

primrec rmatch :: "re \<Rightarrow> re_pos \<Rightarrow> re_pos list" where
  "rmatch (RChar P) = (\<lambda>(p, rest, g). case rest of [] \<Rightarrow> []
     | c # cs \<Rightarrow> if P c then [(Some c, cs, g)] else [])"
| "rmatch (RSeq a b) = (\<lambda>s. concat (map (rmatch b) (rmatch a s)))"
| "rmatch (RAlt a b) = (\<lambda>s. rmatch a s @ rmatch b s)"
| "rmatch (RRep lo hi greedy r) = (\<lambda>s.
     concat (map (\<lambda>s'. rep_upto greedy (rmatch r)
        (case hi of None \<Rightarrow> length (fst (snd s')) | Some h \<Rightarrow> h - lo) s')
       (rep_exact (rmatch r) lo s)))"
| "rmatch RWordB = (\<lambda>s. if at_boundary s then [s] else [])"
| "rmatch (RGroup r) = (\<lambda>(p, rest, g).
     map (\<lambda>(p', rest', g'). (p', rest', Some (take (length rest - length rest') rest)))
       (rmatch r (p, rest, g)))"

text \<open>Building blocks: a literal, a literal ignoring case, alternatives of literals, \<open>r?\<close>, a class star.\<close>

fun re_lit :: "string \<Rightarrow> re" where
  "re_lit [] = RRep 0 (Some 0) True (RChar (\<lambda>c. True))"
| "re_lit [c] = RChar (\<lambda>d. d = c)"
| "re_lit (c # cs) = RSeq (RChar (\<lambda>d. d = c)) (re_lit cs)"

fun re_ilit :: "string \<Rightarrow> re" where
  "re_ilit [] = RRep 0 (Some 0) True (RChar (\<lambda>c. True))"
| "re_ilit [c] = RChar (\<lambda>d. lower_char d = lower_char c)"
| "re_ilit (c # cs) = RSeq (RChar (\<lambda>d. lower_char d = lower_char c)) (re_ilit cs)"

fun re_alts :: "re list \<Rightarrow> re" where
  "re_alts [] = RChar (\<lambda>c. False)"
| "re_alts [r] = r"
| "re_alts (r # rs) = RAlt r (re_alts rs)"

fun re_seqs :: "re list \<Rightarrow> re" where
  "re_seqs [] = RRep 0 (Some 0) True (RChar (\<lambda>c. True))"
| "re_seqs [r] = r"
| "re_seqs (r # rs) = RSeq r (re_seqs rs)"

definition re_opt :: "re \<Rightarrow> re" where
  "re_opt r = RRep 0 (Some 1) True r"

definition re_star :: "re \<Rightarrow> re" where
  "re_star r = RRep 0 None True r"

definition re_plus :: "re \<Rightarrow> re" where
  "re_plus r = RRep 1 None True r"

definition re_times :: "nat \<Rightarrow> re \<Rightarrow> re" where
  "re_times n r = RRep n (Some n) True r"

subsection \<open>Scanning\<close>

text \<open>The match at a position: the matched text and the group.\<close>

definition re_at :: "re \<Rightarrow> char option \<Rightarrow> string \<Rightarrow> (string \<times> string option) option" where
  "re_at r p s =
     (case rmatch r (p, s, None) of
        [] \<Rightarrow> None
      | (p', rest, g) # _ \<Rightarrow> Some (take (length s - length rest) s, g))"

fun search_from :: "re \<Rightarrow> char option \<Rightarrow> string \<Rightarrow> string option" where
  "search_from r p [] = map_option fst (re_at r p [])"
| "search_from r p (c # cs) =
     (case re_at r p (c # cs) of
        Some (m, g) \<Rightarrow> Some m
      | None \<Rightarrow> search_from r (Some c) cs)"

definition re_search :: "re \<Rightarrow> string \<Rightarrow> string option" where
  "re_search r s = search_from r None s"

text \<open>
  \<open>findall\<close> and \<open>sub\<close>: the number counts the characters of the last match still to be skipped.
\<close>

fun findall_from :: "re \<Rightarrow> char option \<Rightarrow> nat \<Rightarrow> string \<Rightarrow> string list" where
  "findall_from r p k [] = []"
| "findall_from r p (Suc k) (c # cs) = findall_from r (Some c) k cs"
| "findall_from r p 0 (c # cs) =
     (case re_at r p (c # cs) of
        Some (m, g) \<Rightarrow> m # findall_from r (Some c) (length m - 1) cs
      | None \<Rightarrow> findall_from r (Some c) 0 cs)"

definition re_findall :: "re \<Rightarrow> string \<Rightarrow> string list" where
  "re_findall r s = findall_from r None 0 s"

fun sub_from :: "re \<Rightarrow> (string option \<Rightarrow> string) \<Rightarrow> char option \<Rightarrow> nat \<Rightarrow> string \<Rightarrow> string" where
  "sub_from r f p k [] = []"
| "sub_from r f p (Suc k) (c # cs) = sub_from r f (Some c) k cs"
| "sub_from r f p 0 (c # cs) =
     (case re_at r p (c # cs) of
        Some (m, g) \<Rightarrow> f g @ sub_from r f (Some c) (length m - 1) cs
      | None \<Rightarrow> c # sub_from r f (Some c) 0 cs)"

definition re_sub :: "re \<Rightarrow> (string option \<Rightarrow> string) \<Rightarrow> string \<Rightarrow> string" where
  "re_sub r f s = sub_from r f None 0 s"

subsection \<open>The declarative reading\<close>

text \<open>The texts a pattern may consume, word boundaries aside.\<close>

inductive re_lang :: "re \<Rightarrow> string \<Rightarrow> bool" where
  lang_char: "P c \<Longrightarrow> re_lang (RChar P) [c]"
| lang_seq: "re_lang a u \<Longrightarrow> re_lang b v \<Longrightarrow> re_lang (RSeq a b) (u @ v)"
| lang_alt1: "re_lang a u \<Longrightarrow> re_lang (RAlt a b) u"
| lang_alt2: "re_lang b u \<Longrightarrow> re_lang (RAlt a b) u"
| lang_rep: "list_all (re_lang r) ws \<Longrightarrow> lo \<le> length ws \<Longrightarrow> (\<And>h. hi = Some h \<Longrightarrow> length ws \<le> max lo h) \<Longrightarrow>
     re_lang (RRep lo hi gr r) (concat ws)"
| lang_word: "re_lang RWordB []"
| lang_group: "re_lang r u \<Longrightarrow> re_lang (RGroup r) u"

inductive_cases re_lang_charE: "re_lang (RChar P) w"
inductive_cases re_lang_seqE: "re_lang (RSeq a b) w"
inductive_cases re_lang_altE: "re_lang (RAlt a b) w"
inductive_cases re_lang_repE: "re_lang (RRep lo hi gr r) w"
inductive_cases re_lang_wordE: "re_lang RWordB w"
inductive_cases re_lang_groupE: "re_lang (RGroup r) w"

definition sound_step :: "(re_pos \<Rightarrow> re_pos list) \<Rightarrow> (string \<Rightarrow> bool) \<Rightarrow> bool" where
  "sound_step f L \<longleftrightarrow> (\<forall>p s g p' s' g'. (p', s', g') \<in> set (f (p, s, g)) \<longrightarrow> (\<exists>w. s = w @ s' \<and> L w))"

lemma rep_exact_sound:
  assumes "sound_step f L"
  shows "(p', s', g') \<in> set (rep_exact f n (p, s, g)) \<Longrightarrow>
    \<exists>ws. s = concat ws @ s' \<and> list_all L ws \<and> length ws = n"
proof (induction n arbitrary: p s g)
  case 0
  then show ?case by auto
next
  case (Suc n)
  then obtain p1 s1 g1 where 1: "(p1, s1, g1) \<in> set (f (p, s, g))"
    and 2: "(p', s', g') \<in> set (rep_exact f n (p1, s1, g1))" by auto
  from 1 assms obtain w where w: "s = w @ s1" "L w" unfolding sound_step_def by blast
  from Suc.IH [OF 2] obtain ws where "s1 = concat ws @ s'" "list_all L ws" "length ws = n" by blast
  with w have "s = concat (w # ws) @ s'" "list_all L (w # ws)" "length (w # ws) = Suc n" by auto
  then show ?case by blast
qed

lemma rep_upto_sound:
  assumes "sound_step f L"
  shows "(p', s', g') \<in> set (rep_upto gr f n (p, s, g)) \<Longrightarrow>
    \<exists>ws. s = concat ws @ s' \<and> list_all L ws \<and> length ws \<le> n"
proof (induction n arbitrary: p s g)
  case 0
  then show ?case by auto
next
  case (Suc n)
  then consider "s' = s" | p1 s1 g1 where "(p1, s1, g1) \<in> set (f (p, s, g))"
    "(p', s', g') \<in> set (rep_upto gr f n (p1, s1, g1))"
    by (auto simp: Let_def split: if_splits)
  then show ?case
  proof cases
    case 1
    then show ?thesis by (intro exI [of _ "[]"]) simp
  next
    case 2
    from 2(1) assms obtain w where w: "s = w @ s1" "L w" unfolding sound_step_def by blast
    from Suc.IH [OF 2(2)] obtain ws where "s1 = concat ws @ s'" "list_all L ws" "length ws \<le> n"
      by blast
    with w have "s = concat (w # ws) @ s'" "list_all L (w # ws)" "length (w # ws) \<le> Suc n" by auto
    then show ?thesis by blast
  qed
qed

lemma rmatch_sound_step: "sound_step (rmatch r) (re_lang r)"
proof (induction r)
  case (RChar P)
  have "\<exists>w. s = w @ s' \<and> re_lang (RChar P) w"
    if "(p', s', g') \<in> set (rmatch (RChar P) (p, s, g))" for p s g p' s' g'
  proof -
    from that obtain c where "s = [c] @ s'" "P c" by (auto split: list.splits if_splits)
    then show ?thesis by (blast intro: lang_char)
  qed
  then show ?case unfolding sound_step_def by blast
next
  case (RSeq a b)
  show ?case
    unfolding sound_step_def
  proof (intro allI impI)
    fix p s g p' s' g'
    assume "(p', s', g') \<in> set (rmatch (RSeq a b) (p, s, g))"
    then obtain p1 s1 g1 where "(p1, s1, g1) \<in> set (rmatch a (p, s, g))"
      and "(p', s', g') \<in> set (rmatch b (p1, s1, g1))" by auto
    with RSeq obtain u v where uv: "s = u @ s1" "re_lang a u" "s1 = v @ s'" "re_lang b v"
      unfolding sound_step_def by meson
    then have "s = (u @ v) @ s'" by simp
    with uv show "\<exists>w. s = w @ s' \<and> re_lang (RSeq a b) w" by (blast intro: lang_seq)
  qed
next
  case (RAlt a b)
  show ?case
    unfolding sound_step_def
  proof (intro allI impI)
    fix p s g p' s' g'
    assume "(p', s', g') \<in> set (rmatch (RAlt a b) (p, s, g))"
    then consider "(p', s', g') \<in> set (rmatch a (p, s, g))"
      | "(p', s', g') \<in> set (rmatch b (p, s, g))" by auto
    then show "\<exists>w. s = w @ s' \<and> re_lang (RAlt a b) w"
    proof cases
      case 1
      with RAlt(1) show ?thesis unfolding sound_step_def by (meson lang_alt1)
    next
      case 2
      with RAlt(2) show ?thesis unfolding sound_step_def by (meson lang_alt2)
    qed
  qed
next
  case (RRep lo hi gr r)
  show ?case
    unfolding sound_step_def
  proof (intro allI impI)
    fix p s g p' s' g'
    assume "(p', s', g') \<in> set (rmatch (RRep lo hi gr r) (p, s, g))"
    then obtain p1 s1 g1 where 1: "(p1, s1, g1) \<in> set (rep_exact (rmatch r) lo (p, s, g))"
      and "(p', s', g') \<in> set (rep_upto gr (rmatch r)
        (case hi of None \<Rightarrow> length s1 | Some h \<Rightarrow> h - lo) (p1, s1, g1))"
      by (auto cong: option.case_cong)
    then obtain n where 2: "(p', s', g') \<in> set (rep_upto gr (rmatch r) n (p1, s1, g1))"
      and n: "\<And>h. hi = Some h \<Longrightarrow> n = h - lo" by fastforce
    from rep_exact_sound [OF RRep.IH 1] obtain us where us: "s = concat us @ s1"
      "list_all (re_lang r) us" "length us = lo" by blast
    from rep_upto_sound [OF RRep.IH 2] obtain vs where vs: "s1 = concat vs @ s'"
      "list_all (re_lang r) vs" "length vs \<le> n" by blast
    have "re_lang (RRep lo hi gr r) (concat (us @ vs))"
      by (rule lang_rep) (use us vs n in auto)
    with us vs show "\<exists>w. s = w @ s' \<and> re_lang (RRep lo hi gr r) w" by auto
  qed
next
  case RWordB
  have "s' = s" if "(p', s', g') \<in> set (rmatch RWordB (p, s, g))" for p s g p' s' g'
    using that by (simp split: if_splits)
  then show ?case unfolding sound_step_def by (metis append_Nil lang_word)
next
  case (RGroup r)
  show ?case
    unfolding sound_step_def
  proof (intro allI impI)
    fix p s g p' s' g'
    assume "(p', s', g') \<in> set (rmatch (RGroup r) (p, s, g))"
    then obtain g1 where "(p', s', g1) \<in> set (rmatch r (p, s, g))" by auto
    with RGroup show "\<exists>w. s = w @ s' \<and> re_lang (RGroup r) w"
      unfolding sound_step_def by (meson lang_group)
  qed
qed

lemma re_at_sound:
  assumes "re_at r p s = Some (m, g)"
  shows "re_lang r m \<and> (\<exists>t. s = m @ t)"
proof -
  from assms obtain p' rest where "(p', rest, g) \<in> set (rmatch r (p, s, None))"
    and m: "m = take (length s - length rest) s"
    by (auto simp: re_at_def split: list.splits)
  with rmatch_sound_step obtain w where "s = w @ rest" "re_lang r w"
    unfolding sound_step_def by blast
  with m show ?thesis by simp
qed

lemma findall_from_sound: "m \<in> set (findall_from r p k s) \<Longrightarrow> re_lang r m"
  by (induction r p k s rule: findall_from.induct)
    (auto split: option.splits dest: re_at_sound)

lemma re_findall_sound: "m \<in> set (re_findall r s) \<Longrightarrow> re_lang r m"
  by (simp add: re_findall_def findall_from_sound)

lemma findall_from_infix:
  "m \<in> set (findall_from r p k s) \<Longrightarrow> str_in m s"
proof (induction r p k s rule: findall_from.induct)
  case (3 r p c cs)
  show ?case
  proof (cases "re_at r p (c # cs)")
    case None
    with 3 show ?thesis by (auto simp: str_in_iff) (metis append_Cons)
  next
    case (Some mg)
    then obtain m' g where mg: "mg = (m', g)" by (cases mg)
    with Some obtain t where "c # cs = m' @ t" using re_at_sound by blast
    then have "str_in m' (c # cs)" unfolding str_in_iff by (metis append_Nil)
    with 3 Some mg show ?thesis by (auto simp del: str_in.simps simp: str_in_iff) (metis append_Cons)
  qed
qed (auto simp: str_in_iff, metis append_Cons)

lemma re_findall_infix: "m \<in> set (re_findall r s) \<Longrightarrow> str_in m s"
  by (simp add: re_findall_def findall_from_infix)

end
