(* ===== verification/Entity_Extractor.thy ===== *)
theory Entity_Extractor
  imports Schemas Regex Demo_World
begin

section \<open>components/entity_extractor.py: typed entities of an alert\<close>

text \<open>
  Extraction asks the local model, then the hosted one, and falls back to the heuristic, which
  reads the alert's fields and matches regular expressions in its text. The models are parameters
  (\<open>ex_ollama\<close>, \<open>ex_openai\<close>): a prompt to a structured result, which the client library may
  leave empty (\<open>None\<close>), or an exception. The patterns \<open>_MD5_RE\<close> and \<open>_DOMAIN_RE\<close> of the module
  are never used.
\<close>

subsection \<open>Patterns\<close>

definition octet_re :: re where
  "octet_re = re_alts [
     re_seqs [re_lit ''25'', RChar (char_range CHR ''0'' CHR ''5'')],
     re_seqs [re_lit ''2'', RChar (char_range CHR ''0'' CHR ''4''), RChar digit_char],
     re_seqs [re_opt (RChar (\<lambda>c. c = CHR ''0'' \<or> c = CHR ''1'')), RChar digit_char,
              re_opt (RChar digit_char)]]"

definition IPV4_RE :: re where
  "IPV4_RE = re_seqs [RWordB, re_times 3 (RSeq octet_re (re_lit ''.'')), octet_re, RWordB]"

definition SHA256_RE :: re where
  "SHA256_RE = re_seqs [RWordB, re_times 64 (RChar hex_char), RWordB]"

definition MITRE_RE :: re where
  "MITRE_RE = re_seqs [RWordB, re_lit ''T'', re_times 4 (RChar digit_char),
     re_opt (RSeq (re_lit ''.'') (re_times 3 (RChar digit_char))), RWordB]"

subsection \<open>The heuristic\<close>

definition name_suspicious_keywords :: "string list" where
  "name_suspicious_keywords =
     [''mimikatz'', ''psexec'', ''wce'', ''procdump'', ''lsass'', ''powershell'']"

definition cmdline_suspicious_keywords :: "string list" where
  "cmdline_suspicious_keywords =
     [''sekurlsa'', ''logonpasswords'', ''privilege::debug'', ''lsadump'', ''kerberos::ptt'',
      ''pass-the-hash'', ''invoke-mimikatz'', ''invoke-bloodhound'']"

definition opt_str :: "string option \<Rightarrow> string \<Rightarrow> string" where
  "opt_str v dflt = (case v of None \<Rightarrow> dflt | Some s \<Rightarrow> if s = [] then dflt else s)"

definition heuristic_hosts :: "normalized_alert \<Rightarrow> host_entity list" where
  "heuristic_hosts alert =
     (if opt_true (na_hostname alert)
        then [\<lparr>he_hostname = opt_str (na_hostname alert) [], he_ip_addresses = [], he_os_type = None,
               he_is_server = None, he_asset_criticality = ''unknown''\<rparr>]
      else [])"

definition heuristic_users :: "normalized_alert \<Rightarrow> user_entity list" where
  "heuristic_users alert =
     (case na_user alert of
        None \<Rightarrow> []
      | Some u \<Rightarrow> [\<lparr>ue_username = opt_str (ua_username u) ''unknown'', ue_domain = ua_domain u,
                   ue_is_admin = ua_is_privileged u, ue_is_service_account = False\<rparr>])"

definition heuristic_processes :: "normalized_alert \<Rightarrow> process_entity list" where
  "heuristic_processes alert =
     (case na_process alert of
        None \<Rightarrow> []
      | Some p \<Rightarrow>
          if \<not> opt_true (pa_process_name p) then []
          else
            (let name = opt_str (pa_process_name p) [];
                 name_lower = str_lower name;
                 cmdline_lower = str_lower (opt_str (pa_command_line p) []);
                 name_hit = list_ex (\<lambda>k. str_in k name_lower) name_suspicious_keywords;
                 cmd_hit = list_ex (\<lambda>k. str_in k cmdline_lower) cmdline_suspicious_keywords;
                 reason = (if cmd_hit
                     then Some ''Mimikatz/credential dump command pattern in command line''
                   else if name_hit then Some ''Known offensive tool name''
                   else None)
             in [\<lparr>pe_name = name, pe_path = pa_process_path p, pe_command_line = pa_command_line p,
                  pe_hash_sha256 = pa_hash_sha256 p, pe_is_suspicious = (name_hit \<or> cmd_hit),
                  pe_suspicion_reason = reason\<rparr>]))"

definition heuristic_text :: "normalized_alert \<Rightarrow> string" where
  "heuristic_text alert = na_title alert @ '' '' @ na_description alert"

definition heuristic_techniques :: "normalized_alert \<Rightarrow> technique_entity list" where
  "heuristic_techniques alert =
     (let mitre_hits = re_findall MITRE_RE (heuristic_text alert);
          hits = (if opt_true (na_mitre_technique alert)
                  then opt_str (na_mitre_technique alert) [] # mitre_hits else mitre_hits)
      in map (\<lambda>tid. \<lparr>te_technique_id = tid, te_technique_name = None, te_tactic = None,
                     te_confidence = 1\<rparr>) (fromkeys hits))"

definition mk_ioc :: "string \<Rightarrow> string \<Rightarrow> ioc_entity" where
  "mk_ioc t v = \<lparr>ioc_type = t, ioc_value = v, ioc_context = None\<rparr>"

definition private_prefix :: "string \<Rightarrow> bool" where
  "private_prefix ip \<longleftrightarrow>
     starts_with ip ''10.'' \<or> starts_with ip ''192.168.'' \<or> starts_with ip ''172.''"

definition observable_iocs :: "observable_entry \<Rightarrow> ioc_entity list" where
  "observable_iocs ob =
     (let tl = str_lower (ob_type ob) in
      if str_in ''ip'' tl \<or> str_in ''ipv4'' tl \<or> str_in ''ipv6'' tl then [mk_ioc ''ip'' (ob_value ob)]
      else if str_in ''hash'' tl \<and> str_in ''256'' tl then [mk_ioc ''hash_sha256'' (ob_value ob)]
      else if str_in ''md5'' tl then [mk_ioc ''hash_md5'' (ob_value ob)]
      else if str_in ''domain'' tl \<or> str_in ''hostname'' tl \<or> str_in ''host'' tl
        then [mk_ioc ''domain'' (ob_value ob)]
      else if str_in ''url'' tl then [mk_ioc ''url'' (ob_value ob)]
      else [])"

definition heuristic_iocs :: "pylib \<Rightarrow> normalized_alert \<Rightarrow> ioc_entity list" where
  "heuristic_iocs lib alert =
     map (mk_ioc ''ip'') (filter (\<lambda>ip. \<not> private_prefix ip)
       (set_order lib (re_findall IPV4_RE (heuristic_text alert))))
     @ map (mk_ioc ''hash_sha256'') (set_order lib (re_findall SHA256_RE (heuristic_text alert)))
     @ (case na_detection_finding alert of
          None \<Rightarrow> []
        | Some df \<Rightarrow> concat (map observable_iocs (df_observables df)))"

definition heuristic_extract :: "pylib \<Rightarrow> normalized_alert \<Rightarrow> extracted_entities" where
  "heuristic_extract lib alert =
     \<lparr>ee_hosts = heuristic_hosts alert, ee_users = heuristic_users alert,
      ee_processes = heuristic_processes alert, ee_techniques = heuristic_techniques alert,
      ee_iocs = heuristic_iocs lib alert,
      ee_attack_chain_summary =
        (if na_description alert \<noteq> [] then na_title alert @ '': '' @ take 200 (na_description alert)
         else na_title alert)\<rparr>"

subsection \<open>Extraction with the models\<close>

definition build_extraction_prompt :: "pylib \<Rightarrow> normalized_alert \<Rightarrow> string" where
  "build_extraction_prompt lib alert = str_join [CHR 0x0A] [
     ''You are a Tier 3 SOC analyst performing structured entity extraction.'',
     [],
     ''Extract all security-relevant entities from the following alert.'',
     [],
     ''ALERT TITLE: '' @ na_title alert,
     ''ALERT DESCRIPTION: '' @ na_description alert,
     ''SOURCE: '' @ source_value (na_source alert),
     ''SEVERITY: '' @ severity_value (na_severity alert),
     ''HOSTNAME: '' @ opt_str (na_hostname alert) ''unknown'',
     ''MITRE TECHNIQUE (from source): '' @ opt_str (na_mitre_technique alert) ''unknown'',
     ''RAW DETAILS: '' @ take 1500 (py_str (float_repr lib) (JDict (na_raw_payload alert))),
     [],
     ''Extract:'',
     ''- All hostnames and IP addresses (classify asset criticality if recognisable)'',
     ''- All usernames and domains (flag admin/service accounts)'',
     ''- All process names, paths, command lines, hashes (flag suspicious ones)'',
     ''- All MITRE ATT&CK technique IDs present in the alert'',
     ''- All IOCs: external IPs, file hashes, suspicious domains'',
     ''- A 1-2 sentence attack chain summary'',
     [],
     ''Be precise. Do not hallucinate entities not present in the alert data.'']"

record 'w extractor_env =
  ex_lib :: pylib
  ex_ollama_base_url :: string
  ex_openai_api_key :: string
  ex_ollama :: "string \<Rightarrow> ('w, extracted_entities option) io"
  ex_openai :: "string \<Rightarrow> ('w, extracted_entities option) io"

text \<open>One attempt: \<open>None\<close> here means that the attempt was not made or raised.\<close>

definition extract_attempt ::
    "string \<Rightarrow> ('w, extracted_entities option) io \<Rightarrow> ('w, extracted_entities option option) io" where
  "extract_attempt configured call =
     (if configured \<noteq> [] then
        try_io (bind_io call (\<lambda>result. ret_io (Some result))) (\<lambda>exc. ret_io None)
      else ret_io None)"

definition extract_entities_llm ::
    "'w extractor_env \<Rightarrow> normalized_alert \<Rightarrow> ('w, extracted_entities option) io" where
  "extract_entities_llm env alert =
     (let prompt = build_extraction_prompt (ex_lib env) alert in
      bind_io (extract_attempt (ex_ollama_base_url env) (ex_ollama env prompt)) (\<lambda>a1.
      (case a1 of
         Some result \<Rightarrow> ret_io result
       | None \<Rightarrow>
           bind_io (extract_attempt (ex_openai_api_key env) (ex_openai env prompt)) (\<lambda>a2.
           (case a2 of
              Some result \<Rightarrow> ret_io result
            | None \<Rightarrow> ret_io (Some (heuristic_extract (ex_lib env) alert)))))))"

definition extract_entities ::
    "'w extractor_env \<Rightarrow> normalized_alert \<Rightarrow> bool \<Rightarrow> ('w, extracted_entities option) io" where
  "extract_entities env alert use_llm =
     (if \<not> use_llm then ret_io (Some (heuristic_extract (ex_lib env) alert))
      else extract_entities_llm env alert)"

subsection \<open>Facts\<close>

lemma no_raise_extract_attempt [no_raise_intros]: "no_raise (extract_attempt c m)"
  unfolding extract_attempt_def by (intro no_raise_intros)

lemma no_raise_extract: "no_raise (extract_entities env alert use_llm)"
  unfolding extract_entities_def extract_entities_llm_def Let_def
  by (auto split: option.splits intro!: no_raise_intros)

lemma opt_str_true: "opt_true v \<Longrightarrow> v = Some (opt_str v d)"
  by (auto simp: opt_true_def opt_str_def split: option.splits if_splits)

lemma heuristic_technique_ids:
  "map te_technique_id (heuristic_techniques alert) =
     fromkeys ((if opt_true (na_mitre_technique alert) then [the (na_mitre_technique alert)] else [])
       @ re_findall MITRE_RE (heuristic_text alert))"
  by (auto simp: heuristic_techniques_def Let_def o_def opt_true_def opt_str_def split: option.splits)

lemma heuristic_ioc_types: "i \<in> set (heuristic_iocs lib alert) \<Longrightarrow> ioc_type i \<in> set ioc_types"
  by (auto simp: heuristic_iocs_def mk_ioc_def ioc_types_def observable_iocs_def Let_def
      split: option.splits if_splits)

text \<open>The texts the technique and hash patterns can match.\<close>

lemma lang_digit: "re_lang (RChar P) w \<longleftrightarrow> (\<exists>c. w = [c] \<and> P c)"
  by (auto elim: re_lang_charE intro: lang_char)

lemma lang_times_char:
  "re_lang (re_times n (RChar P)) w \<Longrightarrow> length w = n \<and> list_all P w"
proof -
  assume "re_lang (re_times n (RChar P)) w"
  then obtain ws where ws: "w = concat ws" "list_all (re_lang (RChar P)) ws" "length ws = n"
    unfolding re_times_def by (fastforce elim: re_lang_repE)
  have "length (concat ws) = length ws \<and> list_all P (concat ws)"
    using ws(2) by (induction ws) (auto simp: lang_digit)
  with ws show ?thesis by simp
qed

lemma sha256_shape: "m \<in> set (re_findall SHA256_RE s) \<Longrightarrow> length m = 64 \<and> list_all hex_char m"
proof -
  assume "m \<in> set (re_findall SHA256_RE s)"
  then have "re_lang SHA256_RE m" by (rule re_findall_sound)
  then have "re_lang (re_times 64 (RChar hex_char)) m"
    unfolding SHA256_RE_def by (auto elim!: re_lang_seqE re_lang_wordE)
  then show ?thesis by (rule lang_times_char)
qed

text \<open>Dotted quads: four octets, each at most three digits and at most 255.\<close>

definition octet_ok :: "string \<Rightarrow> bool" where
  "octet_ok w \<longleftrightarrow> w \<noteq> [] \<and> length w \<le> 3 \<and> list_all digit_char w
     \<and> foldl (\<lambda>a c. 10 * a + (of_char c - 48)) (0::nat) w \<le> 255"

lemma lang_opt_char:
  "re_lang (re_opt (RChar P)) w \<Longrightarrow> w = [] \<or> (\<exists>c. w = [c] \<and> P c)"
proof -
  assume "re_lang (re_opt (RChar P)) w"
  then obtain ws where ws: "w = concat ws" "list_all (re_lang (RChar P)) ws" "length ws \<le> 1"
    unfolding re_opt_def by (fastforce elim: re_lang_repE)
  then show ?thesis by (cases ws) (auto simp: lang_digit)
qed

lemma octet_lang: "re_lang octet_re w \<Longrightarrow> octet_ok w"
  by (auto simp: octet_re_def octet_ok_def digit_char_def char_range_def Let_def
      dest!: lang_opt_char elim!: re_lang_seqE re_lang_altE re_lang_charE)

definition dotted_quad :: "string \<Rightarrow> bool" where
  "dotted_quad m \<longleftrightarrow> (\<exists>a b c d. m = a @ ''.'' @ b @ ''.'' @ c @ ''.'' @ d
     \<and> octet_ok a \<and> octet_ok b \<and> octet_ok c \<and> octet_ok d)"

lemma ipv4_shape: "m \<in> set (re_findall IPV4_RE s) \<Longrightarrow> dotted_quad m"
proof -
  assume "m \<in> set (re_findall IPV4_RE s)"
  then have "re_lang IPV4_RE m" by (rule re_findall_sound)
  then obtain u d where m: "m = u @ d" "re_lang octet_re d"
    and u: "re_lang (re_times 3 (RSeq octet_re (re_lit ''.''))) u"
    unfolding IPV4_RE_def by (auto elim!: re_lang_seqE re_lang_wordE)
  from u obtain ws where ws: "u = concat ws" "length ws = 3"
    "list_all (re_lang (RSeq octet_re (re_lit ''.''))) ws"
    unfolding re_times_def by (fastforce elim: re_lang_repE)
  then obtain x y z where xyz: "ws = [x, y, z]"
    by (auto simp: numeral_3_eq_3 length_Suc_conv)
  have quad: "\<exists>a. octet_ok a \<and> x = a @ ''.''" if "re_lang (RSeq octet_re (re_lit ''.'')) x" for x
    using that by (auto elim!: re_lang_seqE re_lang_charE dest: octet_lang)
  from quad [of x] quad [of y] quad [of z] ws(3) xyz
  obtain a b c where abc: "x = a @ ''.''" "y = b @ ''.''" "z = c @ ''.''"
    "octet_ok a" "octet_ok b" "octet_ok c" by auto
  with m ws(1) xyz have "m = a @ ''.'' @ b @ ''.'' @ c @ ''.'' @ d" by simp
  with abc octet_lang [OF m(2)] show ?thesis unfolding dotted_quad_def by blast
qed

subsection \<open>The properties of extraction\<close>

text \<open>
  The heuristic invents no indicator: what it takes from the text of an alert is a dotted quad
  of octets outside the prefixes it treats as private, or a SHA-256 digest of 64 hexadecimal
  digits, and it occurs verbatim in the alert's title or description.
\<close>

theorem heuristic_iocs_grounded:
  assumes "set_order_ok lib" "na_detection_finding alert = None"
    and "i \<in> set (ee_iocs (heuristic_extract lib alert))"
  shows "(ioc_type i = ''ip'' \<and> dotted_quad (ioc_value i) \<and> \<not> private_prefix (ioc_value i)
      \<or> ioc_type i = ''hash_sha256'' \<and> length (ioc_value i) = 64 \<and> list_all hex_char (ioc_value i))
    \<and> str_in (ioc_value i) (heuristic_text alert)"
proof -
  from assms consider
      v where "i = mk_ioc ''ip'' v" "v \<in> set (re_findall IPV4_RE (heuristic_text alert))" "\<not> private_prefix v"
    | v where "i = mk_ioc ''hash_sha256'' v" "v \<in> set (re_findall SHA256_RE (heuristic_text alert))"
    by (auto simp: heuristic_extract_def heuristic_iocs_def set_order_ok_def)
  then show ?thesis
  proof cases
    case (1 v)
    with ipv4_shape [OF 1(2)] re_findall_infix [OF 1(2)] show ?thesis by (simp add: mk_ioc_def)
  next
    case (2 v)
    with sha256_shape [OF 2(2)] re_findall_infix [OF 2(2)] show ?thesis by (simp add: mk_ioc_def)
  qed
qed

lemma demo_alert_iocs:
  "heuristic_iocs (demo_lib []) demo_alert = [mk_ioc ''ip'' ''203.0.113.7'']"
  by code_simp

theorem heuristic_iocs_grounded_witness:
  "dotted_quad ''203.0.113.7'' \<and> str_in ''203.0.113.7'' (heuristic_text demo_alert)"
proof -
  have i: "mk_ioc ''ip'' ''203.0.113.7'' \<in> set (ee_iocs (heuristic_extract (demo_lib []) demo_alert))"
    by (simp add: heuristic_extract_def demo_alert_iocs)
  have d: "na_detection_finding demo_alert = None" by (simp add: demo_alert_def)
  from heuristic_iocs_grounded [OF demo_set_order d i] show ?thesis by (simp add: mk_ioc_def)
qed

text \<open>
  Extraction never raises, whatever the models do. Without models its result is the
  heuristic's, whose technique identifiers are the alert's own
  technique first and then the matches in its text, each once, and whose indicator types are the
  schema's.
\<close>

theorem extraction_total:
  "no_raise (extract_entities env alert use_llm)
   \<and> extract_entities env alert False w = (Inr (Some (heuristic_extract (ex_lib env) alert)), w)
   \<and> list_all (\<lambda>i. ioc_type i \<in> set ioc_types) (ee_iocs (heuristic_extract (ex_lib env) alert))
   \<and> map te_technique_id (ee_techniques (heuristic_extract (ex_lib env) alert)) =
       fromkeys ((if opt_true (na_mitre_technique alert) then [the (na_mitre_technique alert)] else [])
         @ re_findall MITRE_RE (heuristic_text alert))"
proof -
  have "ee_iocs (heuristic_extract lib alert) = heuristic_iocs lib alert"
    "ee_techniques (heuristic_extract lib alert) = heuristic_techniques alert" for lib alert
    by (simp_all add: heuristic_extract_def)
  moreover have "extract_entities env alert False w = (Inr (Some (heuristic_extract (ex_lib env) alert)), w)"
    by (simp add: extract_entities_def)
  ultimately show ?thesis
    using no_raise_extract heuristic_ioc_types heuristic_technique_ids [of alert]
    by (simp add: list_all_iff)
qed

end
