(* ===== verification/Cancel_Registry.thy ===== *)
theory Cancel_Registry
  imports Redis_Port Demo_World
begin

section \<open>services/_runtime/cancel.py: cancellation with a grace window\<close>

text \<open>
  \<open>CancelRegistry\<close> with its timers. An \<open>asyncio\<close> task is a number; \<open>cr_live\<close> lists the timer
  tasks that have neither ended nor been cancelled, with their alert, and \<open>cr_timers\<close> is the
  dictionary \<open>_timers\<close>. A cancelled task returns from its \<open>sleep\<close> without touching anything, so
  cancelling removes it from \<open>cr_live\<close>. The operations are coroutines over the world that return
  the registry after them; \<open>cancel_step\<close> lets them and the waking timers run in any order, one at
  a time.
\<close>

definition pending_key :: "string \<Rightarrow> string" where
  "pending_key alert_id = ''cancel_pending:'' @ alert_id"

definition cancelled_key :: "string \<Rightarrow> string" where
  "cancelled_key alert_id = ''cancelled:'' @ alert_id"

definition CANCELLED_TTL_SEC :: int where
  "CANCELLED_TTL_SEC = 24 * 60 * 60"

definition DEFAULT_GRACE_SEC :: int where
  "DEFAULT_GRACE_SEC = 5"

record 'w cancel_registry =
  cr_grace :: int
  cr_client :: "'w redis option"
  cr_timers :: "(string \<times> nat) list"
  cr_live :: "(nat \<times> string) list"
  cr_next :: nat

definition CancelRegistry_init ::
    "(string \<Rightarrow> exn + 'w redis) \<Rightarrow> string \<Rightarrow> int \<Rightarrow> 'w cancel_registry" where
  "CancelRegistry_init from_url redis_url grace_seconds =
     \<lparr>cr_grace = grace_seconds,
      cr_client = (case from_url redis_url of Inl e \<Rightarrow> None | Inr c \<Rightarrow> Some c),
      cr_timers = [], cr_live = [], cr_next = 0\<rparr>"

definition is_cancelled :: "'w cancel_registry \<Rightarrow> string \<Rightarrow> ('w, bool) io" where
  "is_cancelled reg alert_id =
     (case cr_client reg of
        None \<Rightarrow> ret_io False
      | Some client \<Rightarrow>
          try_io
            (bind_io (rd_get client (cancelled_key alert_id)) (\<lambda>v. ret_io (v = Some ''1'')))
            (\<lambda>exc. ret_io False))"

text \<open>\<open>self._timers.pop(alert_id, None)\<close>, and \<open>cancel()\<close> on the task if it is not done.\<close>

definition drop_timer :: "string \<Rightarrow> 'w cancel_registry \<Rightarrow> 'w cancel_registry" where
  "drop_timer alert_id reg =
     reg\<lparr>cr_timers := AList.delete alert_id (cr_timers reg),
         cr_live := (case map_of (cr_timers reg) alert_id of
                       None \<Rightarrow> cr_live reg
                     | Some t \<Rightarrow> AList.delete t (cr_live reg))\<rparr>"

definition start_timer :: "string \<Rightarrow> 'w cancel_registry \<Rightarrow> 'w cancel_registry" where
  "start_timer alert_id reg =
     reg\<lparr>cr_timers := AList.update alert_id (cr_next reg) (cr_timers reg),
         cr_live := cr_live reg @ [(cr_next reg, alert_id)],
         cr_next := Suc (cr_next reg)\<rparr>"

definition request_cancel :: "'w cancel_registry \<Rightarrow> string \<Rightarrow> ('w, 'w cancel_registry) io" where
  "request_cancel reg alert_id =
     (case cr_client reg of
        None \<Rightarrow> ret_io reg
      | Some client \<Rightarrow>
          (let reg1 = drop_timer alert_id reg in
           try_io
             (bind_io (rd_setex client (pending_key alert_id) (cr_grace reg + 5) ''1'') (\<lambda>_.
                ret_io (start_timer alert_id reg1)))
             (\<lambda>exc. ret_io reg1)))"

definition revoke_cancel :: "'w cancel_registry \<Rightarrow> string \<Rightarrow> ('w, 'w cancel_registry) io" where
  "revoke_cancel reg alert_id =
     (let reg1 = drop_timer alert_id reg in
      case cr_client reg of
        None \<Rightarrow> ret_io reg1
      | Some client \<Rightarrow>
          try_io
            (bind_io (rd_delete client [pending_key alert_id]) (\<lambda>_. ret_io reg1))
            (\<lambda>exc. ret_io reg1))"

text \<open>
  The timer task \<open>t\<close> after its sleep. When it returns it is done; the \<open>finally\<close> pops the alert's
  entry, whichever task it names.
\<close>

definition fire_after_grace :: "'w cancel_registry \<Rightarrow> nat \<Rightarrow> string \<Rightarrow> ('w, 'w cancel_registry) io" where
  "fire_after_grace reg t alert_id =
     (let ended = reg\<lparr>cr_live := AList.delete t (cr_live reg)\<rparr>;
          popped = ended\<lparr>cr_timers := AList.delete alert_id (cr_timers ended)\<rparr>
      in case cr_client reg of
        None \<Rightarrow> ret_io ended
      | Some client \<Rightarrow>
          try_io
            (bind_io (rd_get client (pending_key alert_id)) (\<lambda>still_pending.
               if still_pending \<noteq> Some ''1'' then ret_io popped
               else
                 bind_io (rd_setex client (cancelled_key alert_id) CANCELLED_TTL_SEC ''1'') (\<lambda>_.
                 bind_io (rd_delete client [pending_key alert_id]) (\<lambda>_. ret_io popped))))
            (\<lambda>exc. ret_io popped))"

definition cancel_close ::
    "('w, unit) io \<Rightarrow> 'w cancel_registry \<Rightarrow> ('w, 'w cancel_registry) io" where
  "cancel_close aclose reg =
     (let reg1 = reg\<lparr>cr_timers := [],
          cr_live := filter (\<lambda>(t, a). t \<notin> snd ` set (cr_timers reg)) (cr_live reg)\<rparr>
      in case cr_client reg of
           None \<Rightarrow> ret_io reg1
         | Some client \<Rightarrow> bind_io aclose (\<lambda>_. ret_io reg1))"

subsection \<open>No operation raises\<close>

lemma no_raise_is_cancelled: "no_raise (is_cancelled reg a)"
  unfolding is_cancelled_def by (auto split: option.splits intro!: no_raise_intros)

lemma no_raise_request: "no_raise (request_cancel reg a)"
  unfolding request_cancel_def Let_def by (auto split: option.splits intro!: no_raise_intros)

lemma no_raise_revoke: "no_raise (revoke_cancel reg a)"
  unfolding revoke_cancel_def Let_def by (auto split: option.splits intro!: no_raise_intros)

lemma no_raise_fire: "no_raise (fire_after_grace reg t a)"
  unfolding fire_after_grace_def Let_def by (auto split: option.splits intro!: no_raise_intros)

subsection \<open>The registry as a state machine\<close>

datatype cancel_event = Request string | Revoke string | Fire nat string

fun cancel_op :: "cancel_event \<Rightarrow> 'w cancel_registry \<Rightarrow> ('w, 'w cancel_registry) io" where
  "cancel_op (Request a) reg = request_cancel reg a"
| "cancel_op (Revoke a) reg = revoke_cancel reg a"
| "cancel_op (Fire t a) reg = fire_after_grace reg t a"

inductive cancel_step ::
    "'w cancel_registry \<times> 'w \<Rightarrow> cancel_event \<Rightarrow> 'w cancel_registry \<times> 'w \<Rightarrow> bool" where
  "(\<And>t a. ev = Fire t a \<Longrightarrow> (t, a) \<in> set (cr_live reg)) \<Longrightarrow>
   cancel_op ev reg w = (Inr reg', w') \<Longrightarrow> cancel_step (reg, w) ev (reg', w')"

inductive_cases cancel_stepE: "cancel_step (reg, w) ev (reg', w')"

inductive cancel_run ::
    "'w cancel_registry \<times> 'w \<Rightarrow> cancel_event list \<Rightarrow> 'w cancel_registry \<times> 'w \<Rightarrow> bool" where
  run_nil: "cancel_run s [] s"
| run_cons: "cancel_step s ev s' \<Longrightarrow> cancel_run s' evs s'' \<Longrightarrow> cancel_run s (ev # evs) s''"

text \<open>
  The invariant: task numbers are fresh, and a live task is the one its alert's entry names. So an
  alert has at most one live timer.
\<close>

definition timers_ok :: "'w cancel_registry \<Rightarrow> bool" where
  "timers_ok reg \<longleftrightarrow> distinct (map fst (cr_live reg))
     \<and> (\<forall>t a. (t, a) \<in> set (cr_live reg) \<longrightarrow> map_of (cr_timers reg) a = Some t)
     \<and> (\<forall>t a. map_of (cr_timers reg) a = Some t \<longrightarrow>
          t < cr_next reg \<and> (\<forall>b. (t, b) \<in> set (cr_live reg) \<longrightarrow> b = a))"

lemma timers_okD:
  assumes "timers_ok reg"
  shows "distinct (map fst (cr_live reg))"
    and "(t, a) \<in> set (cr_live reg) \<Longrightarrow> map_of (cr_timers reg) a = Some t"
    and "map_of (cr_timers reg) a = Some t \<Longrightarrow> t < cr_next reg"
    and "map_of (cr_timers reg) a = Some t \<Longrightarrow> (t, b) \<in> set (cr_live reg) \<Longrightarrow> b = a"
  using assms by (auto simp: timers_ok_def)

lemma timers_ok_init: "timers_ok (CancelRegistry_init f u g)"
  by (simp add: timers_ok_def CancelRegistry_init_def)

lemma set_delete_alist: "set (AList.delete k xs) = {p \<in> set xs. fst p \<noteq> k}"
  by (induction xs) auto

lemma drop_timer_live:
  assumes "timers_ok reg"
  shows "(t, b) \<in> set (cr_live (drop_timer a reg)) \<longleftrightarrow> (t, b) \<in> set (cr_live reg) \<and> b \<noteq> a"
proof (cases "map_of (cr_timers reg) a")
  case None
  with assms show ?thesis by (auto simp: drop_timer_def dest: timers_okD(2))
next
  case (Some u)
  with timers_okD(2) [OF assms, of t b] timers_okD(4) [OF assms Some, of b]
  show ?thesis by (auto simp: drop_timer_def set_delete_alist)
qed

lemma drop_timer_timers [simp]:
  "map_of (cr_timers (drop_timer a reg)) b = (if b = a then None else map_of (cr_timers reg) b)"
  by (simp add: drop_timer_def delete_conv)

lemma drop_timer_next [simp]: "cr_next (drop_timer a reg) = cr_next reg"
  "cr_client (drop_timer a reg) = cr_client reg" "cr_grace (drop_timer a reg) = cr_grace reg"
  by (simp_all add: drop_timer_def)

lemma drop_timer_distinct:
  "timers_ok reg \<Longrightarrow> distinct (map fst (cr_live (drop_timer a reg)))"
  by (auto simp: drop_timer_def distinct_delete dest: timers_okD(1) split: option.splits)

lemma timers_ok_drop: "timers_ok reg \<Longrightarrow> timers_ok (drop_timer a reg)"
  unfolding timers_ok_def [of "drop_timer a reg"]
  by (auto simp: drop_timer_live drop_timer_distinct dest: timers_okD)

lemma timers_ok_start:
  assumes "timers_ok reg" "\<And>t. (t, a) \<notin> set (cr_live reg)"
  shows "timers_ok (start_timer a reg)"
proof -
  have fresh: "(cr_next reg, b) \<notin> set (cr_live reg)" for b
    using timers_okD(2,3) [OF assms(1)] by blast
  then have "cr_next reg \<notin> fst ` set (cr_live reg)" by auto
  with assms fresh show ?thesis
    unfolding timers_ok_def [of "start_timer a reg"]
    by (auto simp: start_timer_def update_conv dest: timers_okD intro: less_SucI)
qed

lemma timers_ok_ended:
  assumes "timers_ok reg" "(t, a) \<in> set (cr_live reg)"
  shows "timers_ok (reg\<lparr>cr_live := AList.delete t (cr_live reg)\<rparr>)"
    and "timers_ok (reg\<lparr>cr_live := AList.delete t (cr_live reg),
           cr_timers := AList.delete a (cr_timers reg)\<rparr>)"
proof -
  have t: "map_of (cr_timers reg) a = Some t" using assms timers_okD(2) by blast
  then have uniq: "ta = t" if "(ta, a) \<in> set (cr_live reg)" for ta
    using timers_okD(2) [OF assms(1) that] by simp
  show "timers_ok (reg\<lparr>cr_live := AList.delete t (cr_live reg)\<rparr>)"
    and "timers_ok (reg\<lparr>cr_live := AList.delete t (cr_live reg),
           cr_timers := AList.delete a (cr_timers reg)\<rparr>)"
    using assms t by (auto simp: timers_ok_def set_delete_alist delete_conv distinct_delete dest: uniq)
qed

lemma request_result:
  assumes "request_cancel reg a w = (Inr reg', w')"
  shows "reg' = reg \<or> reg' = drop_timer a reg \<or> reg' = start_timer a (drop_timer a reg)"
  using assms by (auto simp: request_cancel_def Let_def try_io_def bind_io_def
      split: option.splits prod.splits sum.splits)

lemma revoke_result:
  assumes "revoke_cancel reg a w = (Inr reg', w')"
  shows "reg' = drop_timer a reg"
  using assms by (auto simp: revoke_cancel_def Let_def try_io_def bind_io_def
      split: option.splits prod.splits sum.splits)

lemma fire_result:
  assumes "fire_after_grace reg t a w = (Inr reg', w')"
  shows "reg' = reg\<lparr>cr_live := AList.delete t (cr_live reg)\<rparr>
    \<or> reg' = reg\<lparr>cr_live := AList.delete t (cr_live reg),
                 cr_timers := AList.delete a (cr_timers reg)\<rparr>"
  using assms by (auto simp: fire_after_grace_def Let_def try_io_def bind_io_def
      split: option.splits prod.splits sum.splits if_splits)

lemma timers_ok_step: "cancel_step (reg, w) ev (reg', w') \<Longrightarrow> timers_ok reg \<Longrightarrow> timers_ok reg'"
proof (erule cancel_stepE)
  assume ok: "timers_ok reg" and live: "\<And>t a. ev = Fire t a \<Longrightarrow> (t, a) \<in> set (cr_live reg)"
    and op: "cancel_op ev reg w = (Inr reg', w')"
  show "timers_ok reg'"
  proof (cases ev)
    case (Request a)
    have "timers_ok (start_timer a (drop_timer a reg))"
      using ok by (intro timers_ok_start timers_ok_drop) (simp_all add: drop_timer_live)
    with Request op request_result [of reg a w reg' w'] ok timers_ok_drop [OF ok, of a]
    show ?thesis by auto
  next
    case (Revoke a)
    with op revoke_result [of reg a w reg' w'] ok show ?thesis by (auto intro: timers_ok_drop)
  next
    case (Fire t a)
    with op live fire_result [of reg t a w reg' w'] ok show ?thesis by (auto intro: timers_ok_ended)
  qed
qed

lemma timers_ok_run: "cancel_run s evs s' \<Longrightarrow> timers_ok (fst s) \<Longrightarrow> timers_ok (fst s')"
proof (induction rule: cancel_run.induct)
  case (run_cons s ev s' evs s'')
  then show ?case by (metis prod.collapse timers_ok_step)
qed

subsection \<open>A revoked cancellation does not fire\<close>

text \<open>
  What a run without a further request keeps: no timer of the alert, and the same answer to
  \<open>is_cancelled\<close>.
\<close>

lemma keys_distinct [simp]:
  "pending_key a \<noteq> cancelled_key b" "pending_key a = pending_key b \<longleftrightarrow> a = b"
  "cancelled_key b \<noteq> pending_key a" "cancelled_key a = cancelled_key b \<longleftrightarrow> a = b"
  by (auto simp: pending_key_def cancelled_key_def)

lemma client_kept:
  "cancel_step (reg, w) ev (reg', w') \<Longrightarrow> cr_client reg' = cr_client reg"
  by (erule cancel_stepE, cases ev)
    (auto dest!: request_result revoke_result fire_result simp: start_timer_def)

lemma request_kv:
  assumes "redis_ok r kv p" "cr_client reg = Some r" "request_cancel reg a w = (Inr reg', w')"
  shows "kv w' (cancelled_key b) = kv w (cancelled_key b)"
  using assms
  by (auto simp: request_cancel_def Let_def try_io_def bind_io_def
      split: prod.splits sum.splits dest!: rd_setex_kv)

lemma step_keeps_flag:
  assumes "redis_ok r kv p" "cr_client reg = Some r" "cancel_step (reg, w) ev (reg', w')"
    and "\<And>t. (t, a) \<notin> set (cr_live reg)"
  shows "kv w' (cancelled_key a) = kv w (cancelled_key a)"
proof -
  from assms(3) have live: "\<And>t a. ev = Fire t a \<Longrightarrow> (t, a) \<in> set (cr_live reg)"
    and op: "cancel_op ev reg w = (Inr reg', w')"
    by (auto elim: cancel_stepE)
  show ?thesis
  proof (cases ev)
    case (Request b)
    with op request_kv [OF assms(1,2)] show ?thesis by auto
  next
    case (Revoke b)
    with op assms(1,2) show ?thesis
      by (auto simp: revoke_cancel_def Let_def try_io_def bind_io_def del_keys_def
          split: prod.splits sum.splits dest!: rd_delete_kv)
  next
    case (Fire t b)
    with live assms(4) have "b \<noteq> a" by blast
    with Fire op assms(1,2) show ?thesis
      by (auto simp: fire_after_grace_def Let_def try_io_def bind_io_def del_keys_def
          split: prod.splits sum.splits if_splits
          dest!: rd_delete_kv [OF assms(1)] rd_setex_kv [OF assms(1)] rd_get_kv [OF assms(1)])
  qed
qed

lemma step_keeps_no_timer:
  assumes "cancel_step (reg, w) ev (reg', w')" "timers_ok reg" "ev \<noteq> Request a"
    and "\<And>t. (t, a) \<notin> set (cr_live reg)"
  shows "(t, a) \<notin> set (cr_live reg')"
proof -
  from assms(1) have op: "cancel_op ev reg w = (Inr reg', w')" by (auto elim: cancel_stepE)
  show ?thesis
  proof (cases ev)
    case (Request b)
    with op request_result [of reg b w reg' w'] assms show ?thesis
      by (auto simp: drop_timer_live start_timer_def)
  next
    case (Revoke b)
    with op revoke_result [of reg b w reg' w'] assms show ?thesis by (auto simp: drop_timer_live)
  next
    case (Fire t b)
    with op fire_result [of reg t b w reg' w'] assms show ?thesis by (auto simp: set_delete_alist)
  qed
qed

lemma run_keeps_flag:
  assumes "redis_ok r kv p"
  shows "cancel_run s evs s' \<Longrightarrow> Request a \<notin> set evs \<Longrightarrow> timers_ok (fst s) \<Longrightarrow>
    cr_client (fst s) = Some r \<Longrightarrow> (\<And>t. (t, a) \<notin> set (cr_live (fst s))) \<Longrightarrow>
    kv (snd s') (cancelled_key a) = kv (snd s) (cancelled_key a)"
proof (induction rule: cancel_run.induct)
  case (run_cons s ev s' evs s'')
  obtain reg w reg' w' where s: "s = (reg, w)" "s' = (reg', w')" by (cases s, cases s') auto
  note st = run_cons.hyps(1) [unfolded s]
  from run_cons.prems s have pre: "timers_ok reg" "cr_client reg = Some r" "ev \<noteq> Request a"
    "\<And>t. (t, a) \<notin> set (cr_live reg)" by auto
  have "kv w' (cancelled_key a) = kv w (cancelled_key a)"
    using step_keeps_flag [OF assms pre(2) st pre(4)] .
  moreover have "kv (snd s'') (cancelled_key a) = kv (snd s') (cancelled_key a)"
  proof (rule run_cons.IH)
    show "Request a \<notin> set evs" using run_cons.prems(1) by simp
    show "timers_ok (fst s')" using timers_ok_step [OF st pre(1)] s by simp
    show "cr_client (fst s') = Some r" using client_kept [OF st] pre(2) s by simp
    show "(t, a) \<notin> set (cr_live (fst s'))" for t
      using step_keeps_no_timer [OF st pre(1,3,4)] s by simp
  qed
  ultimately show ?case using s by simp
qed simp

text \<open>A timer that wakes with its flag still pending sets the cancelled flag.\<close>

lemma fire_sets_flag:
  assumes "redis_ok r kv p" "redis_up r" "cr_client reg = Some r"
    and "kv w (pending_key a) = Some ''1''"
    and "fire_after_grace reg t a w = (Inr reg', w')"
  shows "kv w' (cancelled_key a) = Some ''1'' \<and> kv w' (pending_key a) = None"
proof -
  obtain v w1 where g: "rd_get r (pending_key a) w = (Inr v, w1)"
    using redis_upE(1) [OF assms(2)] by (rule no_raiseE)
  obtain w2 where s: "rd_setex r (cancelled_key a) CANCELLED_TTL_SEC ''1'' w1 = (Inr (), w2)"
    using redis_upE(3) [OF assms(2)] by (rule no_raiseE) auto
  obtain w3 where d: "rd_delete r [pending_key a] w2 = (Inr (), w3)"
    using redis_upE(4) [OF assms(2)] by (rule no_raiseE) auto
  note k = rd_get_Inr [OF assms(1) g] rd_setex_Inr [OF assms(1) s] rd_delete_Inr [OF assms(1) d]
  from assms(3-5) g s d k have "w' = w3"
    by (simp add: fire_after_grace_def Let_def)
  with k assms(4) show ?thesis by (simp add: del_keys_def)
qed

text \<open>\<open>is_cancelled\<close> answers what the flag says.\<close>

lemma is_cancelled_reads:
  assumes "redis_ok r kv p" "redis_up r" "cr_client reg = Some r"
  shows "fst (is_cancelled reg a w) = Inr (kv w (cancelled_key a) = Some ''1'')"
proof -
  obtain v w1 where g: "rd_get r (cancelled_key a) w = (Inr v, w1)"
    using redis_upE(1) [OF assms(2)] by (rule no_raiseE)
  with assms rd_get_Inr [OF assms(1) g] show ?thesis by (simp add: is_cancelled_def)
qed

subsection \<open>The properties of cancellation\<close>

text \<open>
  C32. A revoked cancellation never fires: after \<open>revoke_cancel\<close>, whatever operations and waking
  timers follow in whatever order, the alert's cancelled flag in Redis stays what it was, until
  cancellation is requested for that alert again.
\<close>

theorem revoked_cancel_never_fires:
  assumes "redis_ok r kv p" "cr_client reg = Some r" "timers_ok reg"
    and "revoke_cancel reg a w = (Inr reg1, w1)" "cancel_run (reg1, w1) evs (reg2, w2)"
    and "Request a \<notin> set evs"
  shows "kv w2 (cancelled_key a) = kv w (cancelled_key a)"
proof -
  have reg1: "reg1 = drop_timer a reg" using assms(4) by (rule revoke_result)
  have "kv w1 (cancelled_key a) = kv w (cancelled_key a)"
    using assms(1,2,4)
    by (auto simp: revoke_cancel_def Let_def try_io_def bind_io_def del_keys_def
        split: prod.splits sum.splits dest!: rd_delete_kv)
  moreover have "kv w2 (cancelled_key a) = kv w1 (cancelled_key a)"
    using run_keeps_flag [OF assms(1,5,6)] assms(2,3) reg1
    by (simp add: timers_ok_drop drop_timer_live)
  ultimately show ?thesis by simp
qed

lemma demo_cancel_init:
  "cr_client (CancelRegistry_init (\<lambda>u. Inr demo_redis) u 5) = Some demo_redis"
  by (simp add: CancelRegistry_init_def)

lemma demo_request:
  "request_cancel (CancelRegistry_init (\<lambda>u. Inr demo_redis) u 5) ''a'' Map.empty =
     (Inr (start_timer ''a'' (drop_timer ''a'' (CancelRegistry_init (\<lambda>u. Inr demo_redis) u 5))),
      [''cancel_pending:a'' \<mapsto> ''1''])"
  by (simp add: request_cancel_def Let_def demo_cancel_init pending_key_def try_io_def bind_io_def)

theorem revoked_cancel_never_fires_witness:
  "\<exists>reg reg1 w1 reg2 w2. cancel_run (CancelRegistry_init (\<lambda>u. Inr demo_redis) ''u'' 5, Map.empty)
      [Request ''a''] (reg, [''cancel_pending:a'' \<mapsto> ''1''])
    \<and> revoke_cancel reg ''a'' [''cancel_pending:a'' \<mapsto> ''1''] = (Inr reg1, w1)
    \<and> cancel_run (reg1, w1) [Request ''b''] (reg2, w2)
    \<and> w2 (cancelled_key ''a'') = None"
proof -
  let ?i = "CancelRegistry_init (\<lambda>u. Inr demo_redis) ''u'' 5" and ?w = "[''cancel_pending:a'' \<mapsto> ''1'']"
  let ?reg = "start_timer ''a'' (drop_timer ''a'' ?i)"
  have req: "request_cancel ?i ''a'' Map.empty = (Inr ?reg, ?w)" by (rule demo_request)
  have st: "cancel_step (?i, Map.empty) (Request ''a'') (?reg, ?w)"
    by (rule cancel_step.intros) (simp_all add: req)
  have ok: "timers_ok ?reg" using timers_ok_step [OF st timers_ok_init] .
  have cl: "cr_client ?reg = Some demo_redis"
    using client_kept [OF st] demo_cancel_init by simp
  obtain reg1 w1 where rv: "revoke_cancel ?reg ''a'' ?w = (Inr reg1, w1)"
    using no_raise_revoke by (rule no_raiseE)
  obtain reg2 w2 where rb: "request_cancel reg1 ''b'' w1 = (Inr reg2, w2)"
    using no_raise_request by (rule no_raiseE)
  have run: "cancel_run (reg1, w1) [Request ''b''] (reg2, w2)"
    by (rule run_cons [OF _ run_nil], rule cancel_step.intros) (simp_all add: rb)
  have "w2 (cancelled_key ''a'') = ?w (cancelled_key ''a'')"
    using revoked_cancel_never_fires [where kv = "\<lambda>w. w" and p = read_int, OF demo_redis_ok cl ok rv run]
    by simp
  then have "w2 (cancelled_key ''a'') = None" by (simp add: cancelled_key_def)
  with st rv run show ?thesis by (blast intro: run_cons run_nil)
qed

text \<open>
  In every history of requests, revocations and waking timers, an alert has at most one live
  timer, and it is the one the registry would cancel.
\<close>

theorem one_live_timer:
  assumes "cancel_run (CancelRegistry_init f u g, w) evs (reg, w')"
    and "(t, a) \<in> set (cr_live reg)" "(t', a) \<in> set (cr_live reg)"
  shows "t = t' \<and> map_of (cr_timers reg) a = Some t"
proof -
  have ok: "timers_ok reg"
    using timers_ok_run [OF assms(1)] timers_ok_init [of f u g] by simp
  from timers_okD(2) [OF ok assms(2)] timers_okD(2) [OF ok assms(3)] show ?thesis by simp
qed

theorem one_live_timer_witness:
  "\<exists>reg w1 t. cancel_run (CancelRegistry_init (\<lambda>u. Inr demo_redis) ''u'' 5, Map.empty)
      [Request ''a''] (reg, w1)
    \<and> (t, ''a'') \<in> set (cr_live reg) \<and> map_of (cr_timers reg) ''a'' = Some t"
proof -
  let ?i = "CancelRegistry_init (\<lambda>u. Inr demo_redis) ''u'' 5"
  let ?reg = "start_timer ''a'' (drop_timer ''a'' ?i)" and ?w = "[''cancel_pending:a'' \<mapsto> ''1'']"
  have "request_cancel ?i ''a'' Map.empty = (Inr ?reg, ?w)" by (rule demo_request)
  then have "cancel_step (?i, Map.empty) (Request ''a'') (?reg, ?w)"
    by (intro cancel_step.intros) simp_all
  then have run: "cancel_run (?i, Map.empty) [Request ''a''] (?reg, ?w)"
    by (rule run_cons [OF _ run_nil])
  have live: "(0, ''a'') \<in> set (cr_live ?reg)"
    by (simp add: start_timer_def drop_timer_def CancelRegistry_init_def)
  from one_live_timer [OF run live live] run live show ?thesis by blast
qed

end
