(* ===== verification/Triage_Pipeline.thy ===== *)
theory Triage_Pipeline
  imports Enrichment Prompts Entity_Extractor Cancel_Registry
begin

section \<open>services/triage_pipeline.py: the triage graph\<close>

text \<open>
  The state graph that turns an alert into a verdict. \<open>triage_state\<close> is \<open>TriageState\<close>; a node is a
  coroutine from a state to the state with the returned keys replaced (LangGraph keeps the last
  value of every key); \<open>next_node\<close> has the edges of \<open>build_triage_graph\<close>, the conditional ones
  through \<open>should_continue_react\<close> and \<open>after_execute_tool\<close>; \<open>run_graph\<close> runs nodes until \<open>END\<close> and
  raises when LangGraph's step limit (\<open>pe_recursion_limit\<close>) is reached first. The models, the
  identifiers drawn at random, the clock and the Redis client of the cancellation check are
  parameters in \<open>pipe_env\<close>. Tracing is left out, and so is the checkpointer, which only decides
  where LangGraph stores states between nodes.
\<close>

definition REACT_TOOL_NAMES :: "string list" where
  "REACT_TOOL_NAMES = [''query_splunk'', ''query_crowdstrike'', ''lookup_threat_intel'', ''query_aws'',
     ''query_cmdb'', ''query_netflow'', ''query_dns_logs'', ''query_backup_systems'']"

record tool_call =
  tc_name :: string
  tc_args :: jdict
  tc_id :: string

datatype message =
    SystemMessage string
  | HumanMessage string
  | AIMessage string "tool_call list"
  | ToolMessage string string string

text \<open>\<open>ToolMessage content tool_call_id name\<close>; only an \<open>AIMessage\<close> has the attribute \<open>tool_calls\<close>.\<close>

fun tool_calls_of :: "message \<Rightarrow> tool_call list" where
  "tool_calls_of (AIMessage c tcs) = tcs"
| "tool_calls_of _ = []"

record triage_state =
  ts_alert :: normalized_alert
  ts_entities :: "extracted_entities option"
  ts_technique_ids :: "string list"
  ts_severity :: string
  ts_tool_budget :: int
  ts_tools_called :: "string list"
  ts_tool_records :: "tool_call_record list"
  ts_enrichment_data :: "(string \<times> string) list"
  ts_messages :: "message list"
  ts_verdict :: "triage_verdict option"
  ts_phase :: string
  ts_error :: "string option"
  ts_tocontinue :: "bool option"
  ts_cancelled :: "bool option"

record 'w pipe_env =
  pe_tools :: "'w tool_env"
  pe_extractor :: "'w extractor_env"
  pe_tool_timeout :: int
  pe_redis_url :: string
  pe_from_url :: "string \<Rightarrow> exn + 'w redis"
  pe_aclose :: "'w redis \<Rightarrow> ('w, unit) io"
  pe_tool_docs :: "(string \<times> string) list"
  pe_think_ollama :: "message list \<Rightarrow> ('w, agent_think_response option) io"
  pe_think_openai :: "message list \<Rightarrow> ('w, agent_think_response option) io"
  pe_verdict_ollama :: "string \<Rightarrow> ('w, triage_verdict option) io"
  pe_verdict_openai :: "string \<Rightarrow> ('w, triage_verdict option) io"
  pe_uuid_hex :: "'w \<Rightarrow> string \<times> 'w"
  pe_new_verdict :: "'w \<Rightarrow> (string \<times> string) \<times> 'w"
  pe_recursion_limit :: nat

text \<open>\<open>pe_new_verdict\<close> draws the defaults of \<open>verdict_id\<close> and \<open>generated_at\<close>.\<close>

definition pe_lib :: "'w pipe_env \<Rightarrow> pylib" where
  "pe_lib env = env_lib (pe_tools env)"

definition draw :: "('w \<Rightarrow> 'a \<times> 'w) \<Rightarrow> ('w, 'a) io" where
  "draw g w = (case g w of (x, w') \<Rightarrow> (Inr x, w'))"

definition ollama_base_url :: "'w pipe_env \<Rightarrow> string" where
  "ollama_base_url env = ex_ollama_base_url (pe_extractor env)"

definition openai_api_key :: "'w pipe_env \<Rightarrow> string" where
  "openai_api_key env = ex_openai_api_key (pe_extractor env)"

definition list_str_or :: "string list \<Rightarrow> string list \<Rightarrow> string list" where
  "list_str_or xs dflt = (if xs = [] then dflt else xs)"

subsection \<open>Utilities\<close>

definition parse_agent_think_arguments :: "pylib \<Rightarrow> string \<Rightarrow> exn + jdict" where
  "parse_agent_think_arguments lib raw =
     (if str_strip raw = [] then Inr []
      else (case json_loads lib raw of
              Inl (JSONDecodeError m) \<Rightarrow> Inr []
            | Inl e \<Rightarrow> Inl e
            | Inr (JDict d) \<Rightarrow> Inr d
            | Inr v \<Rightarrow> Inr []))"

definition format_entities :: "extracted_entities option \<Rightarrow> string" where
  "format_entities entities =
     (case entities of
        None \<Rightarrow> ''No entities extracted.''
      | Some e \<Rightarrow>
          (let section = (\<lambda>label xs. if xs = [] then [] else [label @ '': '' @ str_join '', '' xs]);
               parts = section ''Hosts'' (map he_hostname (ee_hosts e))
                 @ section ''Users'' (map ue_username (ee_users e))
                 @ section ''Processes'' (map pe_name (ee_processes e))
                 @ section ''Techniques'' (map te_technique_id (ee_techniques e))
                 @ section ''IOCs'' (map ioc_value (take 5 (ee_iocs e)))
           in str_or (str_join ''; '' parts) ''No notable entities.''))"

definition describe_tools :: "(string \<times> string) list \<Rightarrow> string" where
  "describe_tools tools =
     str_join [CHR 0x0A] (map (\<lambda>(name, desc). ''  '' @ name @ '': '' @ take 200 desc) tools)"

text \<open>The bullet of the summaries, as UTF-8 bytes.\<close>

definition bullet :: string where
  "bullet = [CHR 0xE2, CHR 0x80, CHR 0xA2]"

definition bullet_lines :: "(string \<times> string) list \<Rightarrow> string" where
  "bullet_lines kvs =
     str_join [CHR 0x0A] (map (\<lambda>(k, v). ''  '' @ bullet @ '' '' @ k @ '': '' @ v) kvs)"

definition fallback_verdict ::
    "pylib \<Rightarrow> string \<times> string \<Rightarrow> triage_state \<Rightarrow> normalized_alert \<Rightarrow> string \<Rightarrow> exn + triage_verdict"
where
  "fallback_verdict lib fresh state alert reason =
     bind_r (severity_of (ts_severity state)) (\<lambda>sev. Inr
       \<lparr>tv_verdict_id = fst fresh,
        tv_alert_id = na_alert_id alert,
        tv_tenant_id = None,
        tv_generated_at = snd fresh,
        tv_status = None,
        tv_severity = sev,
        tv_severity_justification = ''Fallback verdict '' @ em_dash @ '' '' @ reason,
        tv_mitre_assessments =
          map (\<lambda>tid. \<lparr>ma_technique_id = tid, ma_technique_name = ''Unknown'',
                      ma_tactic = ''Unknown'', ma_confidence = 1 / 2\<rparr>)
            (take 3 (ts_technique_ids state)),
        tv_triage_summary =
          ''Automated triage for alert: '' @ na_title alert @ ''. Enrichment collected from ''
          @ show_nat (length (ts_tools_called state))
          @ '' sources. Manual analyst review required.'',
        tv_confirmed_iocs = [],
        tv_immediate_actions =
          [\<lparr>ia_priority = 1, ia_action = ''Review alert manually'', ia_target = na_hostname alert\<rparr>,
           \<lparr>ia_priority = 2, ia_action = ''Check enrichment data in pipeline logs'',
            ia_target = None\<rparr>,
           \<lparr>ia_priority = 3, ia_action = ''Escalate to senior analyst if uncertain'',
            ia_target = None\<rparr>],
        tv_escalation = MONITOR,
        tv_escalation_rationale =
          ''Automated verdict generation failed. Manual review required.'',
        tv_total_tool_calls = int (length (ts_tools_called state)),
        tv_tools_called = set_order lib (ts_tools_called state),
        tv_analyst_confidence = 3 / 10,
        tv_false_positive_probability = 1 / 2\<rparr>)"

subsection \<open>Deterministic nodes\<close>

definition normalise_alert_node :: "'w pipe_env \<Rightarrow> triage_state \<Rightarrow> ('w, triage_state) io" where
  "normalise_alert_node env state = ret_io (state
     \<lparr>ts_severity := severity_value (na_severity (ts_alert state)),
      ts_phase := ''extract'', ts_error := None\<rparr>)"

definition merge_technique_ids :: "normalized_alert \<Rightarrow> extracted_entities \<Rightarrow> string list" where
  "merge_technique_ids alert entities =
     (let ids = map te_technique_id (ee_techniques entities);
          ids' = (case na_mitre_technique alert of
                    None \<Rightarrow> ids
                  | Some t \<Rightarrow> if t \<noteq> [] \<and> t \<notin> set ids then t # ids else ids)
      in list_str_or ids' [''T1082''])"

definition extract_entities_node :: "'w pipe_env \<Rightarrow> triage_state \<Rightarrow> ('w, triage_state) io" where
  "extract_entities_node env state =
     (let alert = ts_alert state in
      bind_io
        (try_io (extract_entities (pe_extractor env) alert (ollama_base_url env \<noteq> []))
          (\<lambda>exc. ret_io (Some (heuristic_extract (pe_lib env) alert)))) (\<lambda>entities.
      (case entities of
         None \<Rightarrow> raise_io (AttributeError ''techniques'')
       | Some e \<Rightarrow> ret_io (state
           \<lparr>ts_entities := Some e, ts_technique_ids := merge_technique_ids alert e,
            ts_phase := ''route''\<rparr>))))"

definition route_tools_node :: "'w pipe_env \<Rightarrow> triage_state \<Rightarrow> ('w, triage_state) io" where
  "route_tools_node env state =
     ret_io (state\<lparr>ts_tool_budget := get_budget (ts_severity state), ts_phase := ''burst''\<rparr>)"

definition initial_message ::
    "triage_state \<Rightarrow> extracted_entities \<Rightarrow> (string \<times> string) list \<Rightarrow> int \<Rightarrow> string" where
  "initial_message state entities compressed new_budget =
     ''ALERT: '' @ na_title (ts_alert state) @ [CHR 0x0A]
     @ ''SEVERITY: '' @ ts_severity state @ [CHR 0x0A]
     @ ''ENTITIES: '' @ format_entities (Some entities) @ [CHR 0x0A, CHR 0x0A]
     @ ''INITIAL ENRICHMENT (parallel burst):'' @ [CHR 0x0A]
     @ bullet_lines compressed @ [CHR 0x0A, CHR 0x0A]
     @ ''Tool budget remaining: '' @ show_int new_budget
     @ ''. Decide if further investigation is needed.''"

text \<open>\<open>entities\<close> is never \<open>None\<close> when this node runs; the builders would raise on its attributes.\<close>

definition burst_enrichment_node :: "'w pipe_env \<Rightarrow> triage_state \<Rightarrow> ('w, triage_state) io" where
  "burst_enrichment_node env state =
     (case ts_entities state of
        None \<Rightarrow> raise_io (AttributeError ''hosts'')
      | Some entities \<Rightarrow>
          (let alert = ts_alert state in
           bind_io (run_burst_enrichment (pe_tools env) alert entities (ts_technique_ids state)
                      (pe_tool_timeout env)) (\<lambda>(enrichment_data, records).
           bind_io (of_result (map_r
               (\<lambda>(tool_name, raw). bind_r (compress_tool_result (pe_lib env) tool_name raw)
                  (\<lambda>c. Inr (tool_name, c))) enrichment_data)) (\<lambda>compressed.
           (let new_budget = max 0 (ts_tool_budget state - int (length records))
            in ret_io (state
              \<lparr>ts_enrichment_data := compressed,
               ts_tool_records := ts_tool_records state @ records,
               ts_tools_called := ts_tools_called state @ map tcr_tool_name records,
               ts_tool_budget := new_budget,
               ts_messages := [HumanMessage (initial_message state entities compressed new_budget)],
               ts_phase := ''react''\<rparr>))))))"

definition check_cancelled :: "'w pipe_env \<Rightarrow> triage_state \<Rightarrow> ('w, bool) io" where
  "check_cancelled env state =
     (let reg = CancelRegistry_init (pe_from_url env) (pe_redis_url env) DEFAULT_GRACE_SEC;
          aclose = (case cr_client reg of None \<Rightarrow> ret_io () | Some c \<Rightarrow> pe_aclose env c)
      in try_io
           (finally_io (is_cancelled reg (na_alert_id (ts_alert state)))
             (bind_io (cancel_close aclose reg) (\<lambda>_. ret_io ())))
           (\<lambda>exc. ret_io False))"

subsection \<open>THINK\<close>

text \<open>
  One model attempt: made only when configured and nothing was obtained before; an exception is
  logged and leaves the result as it was.
\<close>

definition llm_attempt ::
    "'a option \<Rightarrow> string \<Rightarrow> ('w, 'a option) io \<Rightarrow> ('w, 'a option) io" where
  "llm_attempt prev configured call =
     (if prev = None \<and> configured \<noteq> [] then try_io call (\<lambda>exc. ret_io prev) else ret_io prev)"

definition think_prompt :: "'w pipe_env \<Rightarrow> triage_state \<Rightarrow> exn + string" where
  "think_prompt env state =
     bind_r (severity_of (ts_severity state)) (\<lambda>sev.
       build_triage_prompt sev (ts_tool_budget state) (describe_tools (pe_tool_docs env))
         (bullet_lines (ts_enrichment_data state))
         (case ts_technique_ids state of
            [] \<Rightarrow> [] | t # _ \<Rightarrow> get_technique_hint (technique_to_class t)))"

definition ask_think :: "'w pipe_env \<Rightarrow> message list \<Rightarrow> ('w, agent_think_response option) io" where
  "ask_think env messages =
     bind_io (llm_attempt None (ollama_base_url env) (pe_think_ollama env messages)) (\<lambda>t1.
       llm_attempt t1 (openai_api_key env) (pe_think_openai env messages))"

definition valid_plans :: "int \<Rightarrow> agent_think_tool_plan list \<Rightarrow> agent_think_tool_plan list" where
  "valid_plans budget plans =
     take (nat (max 0 budget)) (filter (\<lambda>p. pl_name p \<in> set REACT_TOOL_NAMES) plans)"

definition make_tool_call :: "'w pipe_env \<Rightarrow> agent_think_tool_plan \<Rightarrow> ('w, tool_call) io" where
  "make_tool_call env p =
     bind_io (of_result (parse_agent_think_arguments (pe_lib env) (pl_arguments p))) (\<lambda>args.
     bind_io (draw (pe_uuid_hex env)) (\<lambda>h.
       ret_io \<lparr>tc_name = pl_name p, tc_args = args, tc_id = ''call_'' @ take 26 h\<rparr>))"

definition agent_think_node :: "'w pipe_env \<Rightarrow> triage_state \<Rightarrow> ('w, triage_state) io" where
  "agent_think_node env state =
     bind_io (check_cancelled env state) (\<lambda>cancelled.
     if cancelled then
       ret_io (state\<lparr>ts_cancelled := Some True, ts_tocontinue := Some False, ts_tool_budget := 0\<rparr>)
     else
       bind_io (of_result (think_prompt env state)) (\<lambda>system_prompt.
       bind_io (ask_think env (SystemMessage system_prompt # ts_messages state)) (\<lambda>think_out.
       (case think_out of
          None \<Rightarrow> ret_io (state
            \<lparr>ts_messages := ts_messages state @
               [AIMessage ''LLM unavailable. Generating verdict from burst enrichment.'' []],
             ts_tool_budget := 0, ts_tocontinue := Some False\<rparr>)
        | Some out \<Rightarrow>
            (let budget = ts_tool_budget state;
                 plans = valid_plans budget (th_planned_tools out);
                 can_execute = (th_tocontinue out \<and> budget > 0 \<and> plans \<noteq> []);
                 content = str_or (th_reasoning out)
                   (if can_execute then ''Planning further tool calls.''
                    else ''Stopping ReAct; sufficient context for verdict.'')
             in bind_io (if can_execute then map_io (make_tool_call env) plans else ret_io [])
                  (\<lambda>tool_calls. ret_io (state
                    \<lparr>ts_messages := ts_messages state @ [AIMessage content tool_calls],
                     ts_tocontinue := Some (th_tocontinue out)\<rparr>)))))))"

subsection \<open>ACT and OBSERVE\<close>

record react_acc =
  ra_messages :: "message list"
  ra_enrichment :: "(string \<times> string) list"
  ra_called :: "string list"
  ra_records :: "tool_call_record list"
  ra_executed :: int

fun absorb_results ::
    "pylib \<Rightarrow> (tool_call \<times> (exn + tool_outcome)) list \<Rightarrow> react_acc \<Rightarrow> exn + react_acc" where
  "absorb_results lib [] acc = Inr acc"
| "absorb_results lib ((tc, Inl e) # rest) acc =
     absorb_results lib rest (acc
       \<lparr>ra_messages := ra_messages acc @
          [ToolMessage (''['' @ tc_name tc @ ''] Error: '' @ exn_str e) (tc_id tc) (tc_name tc)],
        ra_called := ra_called acc @ [tc_name tc],
        ra_executed := ra_executed acc + 1\<rparr>)"
| "absorb_results lib ((tc, Inr (_, raw_result, record)) # rest) acc =
     bind_r (compress_tool_result lib (tc_name tc) raw_result) (\<lambda>compressed.
     absorb_results lib rest (acc
       \<lparr>ra_messages := ra_messages acc @ [ToolMessage compressed (tc_id tc) (tc_name tc)],
        ra_enrichment := AList.update (tc_name tc) compressed (ra_enrichment acc),
        ra_records := ra_records acc @ [record],
        ra_called := ra_called acc @ [tc_name tc],
        ra_executed := ra_executed acc + 1\<rparr>))"

text \<open>\<open>_execute_single_tool\<close> is called with its default timeout of 30 seconds here.\<close>

definition execute_tool_node :: "'w pipe_env \<Rightarrow> triage_state \<Rightarrow> ('w, triage_state) io" where
  "execute_tool_node env state =
     bind_io (check_cancelled env state) (\<lambda>cancelled.
     if cancelled then ret_io (state\<lparr>ts_cancelled := Some True, ts_tool_budget := 0\<rparr>)
     else
       (let tool_calls = (if ts_messages state = [] then [] else tool_calls_of (last (ts_messages state)))
        in if tool_calls = [] then ret_io (state\<lparr>ts_tool_budget := 0\<rparr>)
           else
             bind_io (map_io (\<lambda>tc. catch_io (execute_single_tool (pe_tools env) (tc_name tc) (tc_args tc) 30))
                        tool_calls) (\<lambda>results.
             bind_io (of_result (absorb_results (pe_lib env) (zip tool_calls results)
                        \<lparr>ra_messages = ts_messages state, ra_enrichment = ts_enrichment_data state,
                         ra_called = ts_tools_called state, ra_records = ts_tool_records state,
                         ra_executed = 0\<rparr>)) (\<lambda>acc.
               ret_io (state
                 \<lparr>ts_messages := ra_messages acc,
                  ts_tool_budget := ts_tool_budget state - ra_executed acc,
                  ts_enrichment_data := ra_enrichment acc,
                  ts_tools_called := ra_called acc,
                  ts_tool_records := ra_records acc\<rparr>)))))"

subsection \<open>The verdict\<close>

definition cancelled_verdict :: "string \<times> string \<Rightarrow> triage_state \<Rightarrow> triage_verdict" where
  "cancelled_verdict fresh state =
     (let alert = ts_alert state in
      \<lparr>tv_verdict_id = fst fresh,
       tv_alert_id = na_alert_id alert,
       tv_tenant_id = na_tenant_id alert,
       tv_generated_at = snd fresh,
       tv_status = Some ''cancelled'',
       tv_severity = na_severity alert,
       tv_severity_justification =
         ''Triage cancelled before completion. The analyst closed the live view ''
         @ ''and a cancel signal arrived during the grace window.'',
       tv_mitre_assessments = [],
       tv_triage_summary = ''Triage was cancelled before a verdict could be generated.'',
       tv_confirmed_iocs = [],
       tv_immediate_actions = [],
       tv_escalation = MONITOR,
       tv_escalation_rationale = ''Synthesized cancelled-verdict; no LLM analysis was performed.'',
       tv_total_tool_calls = int (length (ts_tools_called state)),
       tv_tools_called = ts_tools_called state,
       tv_analyst_confidence = 8 / 10,
       tv_false_positive_probability = 1 / 10\<rparr>)"

definition verdict_prompt :: "triage_state \<Rightarrow> exn + string" where
  "verdict_prompt state =
     build_verdict_prompt (na_title (ts_alert state)) (ts_severity state)
       (format_entities (ts_entities state))
       (str_or (str_join [CHR 0x0A] (map (\<lambda>(k, v). k @ '': '' @ v) (ts_enrichment_data state)))
          ''No enrichment data was collected.'')
       (case ts_technique_ids state of
          [] \<Rightarrow> [] | t # _ \<Rightarrow> get_technique_hint (technique_to_class t))"

definition ask_verdict :: "'w pipe_env \<Rightarrow> string \<Rightarrow> ('w, triage_verdict option) io" where
  "ask_verdict env prompt =
     bind_io (llm_attempt None (ollama_base_url env) (pe_verdict_ollama env prompt)) (\<lambda>v1.
       llm_attempt v1 (openai_api_key env) (pe_verdict_openai env prompt))"

definition generate_verdict_node :: "'w pipe_env \<Rightarrow> triage_state \<Rightarrow> ('w, triage_state) io" where
  "generate_verdict_node env state =
     (if ts_cancelled state = Some True then
        bind_io (draw (pe_new_verdict env)) (\<lambda>fresh.
          ret_io (state\<lparr>ts_verdict := Some (cancelled_verdict fresh state), ts_phase := ''done''\<rparr>))
      else
        bind_io (of_result (verdict_prompt state)) (\<lambda>prompt.
        bind_io (ask_verdict env prompt) (\<lambda>verdict.
        bind_io
          (case verdict of
             None \<Rightarrow>
               bind_io (draw (pe_new_verdict env)) (\<lambda>fresh. of_result
                 (fallback_verdict (pe_lib env) fresh state (ts_alert state)
                    ''All LLM providers unavailable''))
           | Some v \<Rightarrow> ret_io (v
               \<lparr>tv_alert_id := na_alert_id (ts_alert state),
                tv_total_tool_calls := int (length (ts_tools_called state)),
                tv_tools_called := set_order (pe_lib env) (ts_tools_called state)\<rparr>)) (\<lambda>v.
        ret_io (state\<lparr>ts_verdict := Some v, ts_phase := ''done''\<rparr>)))))"

subsection \<open>The graph\<close>

datatype node =
    Normalise
  | Extract_Entities
  | Route_Tools
  | Burst_Enrichment
  | Agent_Think
  | Execute_Tool
  | Generate_Verdict

fun run_node :: "'w pipe_env \<Rightarrow> node \<Rightarrow> triage_state \<Rightarrow> ('w, triage_state) io" where
  "run_node env Normalise = normalise_alert_node env"
| "run_node env Extract_Entities = extract_entities_node env"
| "run_node env Route_Tools = route_tools_node env"
| "run_node env Burst_Enrichment = burst_enrichment_node env"
| "run_node env Agent_Think = agent_think_node env"
| "run_node env Execute_Tool = execute_tool_node env"
| "run_node env Generate_Verdict = generate_verdict_node env"

definition should_continue_react :: "triage_state \<Rightarrow> string" where
  "should_continue_react state =
     (if ts_tool_budget state \<le> 0 then ''verdict''
      else if ts_tocontinue state \<noteq> Some True then ''verdict''
      else if ts_messages state = [] then ''verdict''
      else if tool_calls_of (last (ts_messages state)) \<noteq> [] then ''execute''
      else ''verdict'')"

definition after_execute_tool :: "triage_state \<Rightarrow> string" where
  "after_execute_tool state = (if ts_tool_budget state \<le> 0 then ''verdict'' else ''think'')"

text \<open>The edges; \<open>None\<close> is \<open>END\<close>.\<close>

fun next_node :: "node \<Rightarrow> triage_state \<Rightarrow> node option" where
  "next_node Normalise s = Some Extract_Entities"
| "next_node Extract_Entities s = Some Route_Tools"
| "next_node Route_Tools s = Some Burst_Enrichment"
| "next_node Burst_Enrichment s = Some Agent_Think"
| "next_node Agent_Think s =
     Some (if should_continue_react s = ''execute'' then Execute_Tool else Generate_Verdict)"
| "next_node Execute_Tool s =
     Some (if after_execute_tool s = ''think'' then Agent_Think else Generate_Verdict)"
| "next_node Generate_Verdict s = None"

fun run_graph :: "nat \<Rightarrow> 'w pipe_env \<Rightarrow> node \<Rightarrow> triage_state \<Rightarrow> ('w, triage_state) io" where
  "run_graph 0 env n s = raise_io (OtherError ''GraphRecursionError'')"
| "run_graph (Suc k) env n s =
     bind_io (run_node env n s) (\<lambda>s'.
       case next_node n s' of None \<Rightarrow> ret_io s' | Some n' \<Rightarrow> run_graph k env n' s')"

text \<open>
  The same loop when a checkpointer is bound: the engine saves the state after every node.
  \<open>run_graph\<close> is the case of a saver that does nothing.
\<close>

fun run_graph_saved ::
    "nat \<Rightarrow> 'w pipe_env \<Rightarrow> (triage_state \<Rightarrow> ('w, unit) io) \<Rightarrow> node \<Rightarrow> triage_state \<Rightarrow> ('w, triage_state) io"
where
  "run_graph_saved 0 env save n s = raise_io (OtherError ''GraphRecursionError'')"
| "run_graph_saved (Suc k) env save n s =
     bind_io (run_node env n s) (\<lambda>s'.
     bind_io (save s') (\<lambda>_.
       case next_node n s' of None \<Rightarrow> ret_io s' | Some n' \<Rightarrow> run_graph_saved k env save n' s'))"

definition initial_state :: "normalized_alert \<Rightarrow> triage_state" where
  "initial_state alert =
     \<lparr>ts_alert = alert, ts_entities = None, ts_technique_ids = [],
      ts_severity = severity_value (na_severity alert), ts_tool_budget = 5, ts_tools_called = [],
      ts_tool_records = [], ts_enrichment_data = [], ts_messages = [], ts_verdict = None,
      ts_phase = ''normalise'', ts_error = None, ts_tocontinue = None, ts_cancelled = None\<rparr>"

definition verdict_or_fallback ::
    "'w pipe_env \<Rightarrow> normalized_alert \<Rightarrow> triage_state \<Rightarrow> ('w, triage_verdict) io" where
  "verdict_or_fallback env alert final_state =
     (case ts_verdict final_state of
        None \<Rightarrow>
          bind_io (draw (pe_new_verdict env)) (\<lambda>fresh. of_result
            (fallback_verdict (pe_lib env) fresh final_state alert ''Graph completed without verdict''))
      | Some v \<Rightarrow> ret_io v)"

definition run_triage :: "'w pipe_env \<Rightarrow> normalized_alert \<Rightarrow> ('w, triage_verdict) io" where
  "run_triage env alert =
     bind_io (run_graph (pe_recursion_limit env) env Normalise (initial_state alert))
       (verdict_or_fallback env alert)"

text \<open>
  \<open>run_triage\<close> with a checkpointer. The engine's use of the saver is a parameter: \<open>begin_run\<close> takes the
  thread (the alert's id) and the input, and gives the state the first node sees (it may read what
  an earlier run of the thread left); \<open>save_step\<close> stores a state. Either may raise, and then the run
  does. (LangGraph may store a step while the next one runs; a failure then surfaces later, out of
  the same call.)
\<close>

definition run_triage_saved ::
    "'w pipe_env \<Rightarrow> (string \<Rightarrow> triage_state \<Rightarrow> ('w, triage_state) io)
     \<Rightarrow> (string \<Rightarrow> triage_state \<Rightarrow> ('w, unit) io) \<Rightarrow> normalized_alert \<Rightarrow> ('w, triage_verdict) io" where
  "run_triage_saved env begin_run save_step alert =
     (let thread_id = na_alert_id alert in
      bind_io (begin_run thread_id (initial_state alert)) (\<lambda>state.
      bind_io (run_graph_saved (pe_recursion_limit env) env (save_step thread_id) Normalise state)
        (verdict_or_fallback env alert)))"

end
