(* ===== verification/Pipeline_Facts.thy ===== *)
theory Pipeline_Facts
  imports Triage_Pipeline
begin

section \<open>Facts of the triage graph\<close>

text \<open>
  What a run of the graph keeps, and that it ends. \<open>pipe_inv\<close> is the invariant of the states in
  which a node is about to run; \<open>node_keeps_inv\<close> shows that every node and edge keeps it, and
  \<open>need\<close> bounds the nodes that are still to run, so that \<open>run_graph\<close> with a limit of at least
  \<open>need\<close> reaches a verdict. The hypotheses on code outside the repository are \<open>loads_ok\<close>
  (\<open>json.loads\<close> raises nothing but \<open>JSONDecodeError\<close>) and, where a lemma is about the runs whose
  extraction model answers, \<open>extractor_answers\<close> (its structured output is not \<open>None\<close>); what a run
  does without that is in \<open>run_triage_cases\<close>.
\<close>

definition loads_ok :: "pylib \<Rightarrow> bool" where
  "loads_ok lib \<longleftrightarrow> (\<forall>s e. json_loads lib s = Inl e \<longrightarrow> (\<exists>m. e = JSONDecodeError m))"

definition answers :: "('w, 'a option) io \<Rightarrow> bool" where
  "answers m \<longleftrightarrow> (\<forall>w. fst (m w) \<noteq> Inr None)"

definition extractor_answers :: "'w pipe_env \<Rightarrow> bool" where
  "extractor_answers env \<longleftrightarrow>
     (\<forall>p. answers (ex_ollama (pe_extractor env) p) \<and> answers (ex_openai (pe_extractor env) p))"

subsection \<open>The message history\<close>

text \<open>
  The protocol of tool-calling models: after an assistant message with tool calls come exactly
  the tool messages that answer them, in order, before anything else. \<open>pend is ms\<close> reads the
  messages with the calls \<open>is\<close> still open and returns the calls open at the end, or \<open>None\<close> when
  the protocol is broken.
\<close>

fun pend :: "string list \<Rightarrow> message list \<Rightarrow> string list option" where
  "pend is [] = Some is"
| "pend [] (SystemMessage c # ms) = pend [] ms"
| "pend [] (HumanMessage c # ms) = pend [] ms"
| "pend [] (AIMessage c tcs # ms) = pend (map tc_id tcs) ms"
| "pend (i # is) (ToolMessage c j n # ms) = (if i = j then pend is ms else None)"
| "pend _ _ = None"

lemma pend_append:
  "pend is (ms @ ms') = (case pend is ms of None \<Rightarrow> None | Some js \<Rightarrow> pend js ms')"
  by (induction "is" ms rule: pend.induct) auto

fun answers_of :: "tool_call list \<Rightarrow> string list \<Rightarrow> message list" where
  "answers_of (tc # tcs) (c # cs) = ToolMessage c (tc_id tc) (tc_name tc) # answers_of tcs cs"
| "answers_of _ _ = []"

lemma pend_answers: "length cs = length tcs \<Longrightarrow> pend (map tc_id tcs) (answers_of tcs cs) = Some []"
  by (induction tcs cs rule: answers_of.induct) auto

subsection \<open>Parts that cannot raise\<close>

lemma no_raise_check: "no_raise (check_cancelled env s)"
  unfolding check_cancelled_def Let_def by (intro no_raise_intros)

lemma no_raise_draw: "no_raise (draw g)"
  by (auto simp: no_raise_def draw_def split: prod.splits)

lemma no_raise_llm_attempt: "no_raise (llm_attempt p c m)"
  unfolding llm_attempt_def by (intro no_raise_intros)

lemma no_raise_ask_think: "no_raise (ask_think env ms)"
  unfolding ask_think_def by (intro no_raise_intros no_raise_llm_attempt)

lemma no_raise_ask_verdict: "no_raise (ask_verdict env p)"
  unfolding ask_verdict_def by (intro no_raise_intros no_raise_llm_attempt)

lemmas no_raise_parts = no_raise_check no_raise_draw no_raise_ask_think no_raise_ask_verdict

lemma no_raise_of_result: "r = Inr x \<Longrightarrow> no_raise (of_result r)"
  by (simp add: no_raise_def)

lemma triage_prompt_total: "\<exists>p. build_triage_prompt sev b td es tc = Inr p"
  unfolding build_triage_prompt_def
  by (rule format_total [OF triage_template_fields]) auto

lemma verdict_prompt_total: "\<exists>p. build_verdict_prompt t s e f c = Inr p"
  unfolding build_verdict_prompt_def
  by (rule format_total [OF verdict_template_fields]) auto

lemma think_prompt_total:
  assumes "ts_severity s = severity_value sev"
  shows "\<exists>p. think_prompt env s = Inr p"
  using assms triage_prompt_total by (simp add: think_prompt_def)

lemma parse_arguments_total: "loads_ok lib \<Longrightarrow> \<exists>d. parse_agent_think_arguments lib raw = Inr d"
  by (auto simp: parse_agent_think_arguments_def loads_ok_def split: sum.splits exn.splits json.splits)

lemma no_raise_make_tool_call: "loads_ok (pe_lib env) \<Longrightarrow> no_raise (make_tool_call env p)"
  unfolding make_tool_call_def
  using parse_arguments_total [of "pe_lib env" "pl_arguments p"]
  by (auto intro!: no_raise_intros no_raise_draw no_raise_of_result)

lemma fallback_verdict_total:
  assumes "ts_severity s = severity_value sev"
  shows "\<exists>v. fallback_verdict lib fr s alert reason = Inr v"
  using assms by (simp add: fallback_verdict_def)

subsection \<open>The results of the nodes\<close>

lemma map_io_names:
  "map_io (make_tool_call env) ps w = (Inr tcs, w') \<Longrightarrow> map tc_name tcs = map pl_name ps"
proof -
  assume "map_io (make_tool_call env) ps w = (Inr tcs, w')"
  then have "list_all2 (\<lambda>p tc. tc_name tc = pl_name p) ps tcs"
    by (rule map_io_all) (auto simp: make_tool_call_def bind_io_eq_Inr)
  then show ?thesis by (induction ps tcs rule: list_all2_induct) auto
qed

lemma valid_plans_bounds:
  "length (valid_plans b ps) \<le> nat (max 0 b)"
  "p \<in> set (valid_plans b ps) \<Longrightarrow> pl_name p \<in> set REACT_TOOL_NAMES"
  by (auto simp: valid_plans_def dest: in_set_takeD)

text \<open>What THINK can do to a state.\<close>

lemma think_result:
  assumes "agent_think_node env s w = (Inr s', w')"
  obtains
    (cancelled) "s' = s\<lparr>ts_cancelled := Some True, ts_tocontinue := Some False, ts_tool_budget := 0\<rparr>"
  | (no_model) c where "s' = s\<lparr>ts_messages := ts_messages s @ [AIMessage c []], ts_tool_budget := 0,
       ts_tocontinue := Some False\<rparr>"
  | (answer) c tcs b where "s' = s\<lparr>ts_messages := ts_messages s @ [AIMessage c tcs], ts_tocontinue := Some b\<rparr>"
      "length tcs \<le> nat (max 0 (ts_tool_budget s))" "tc_name ` set tcs \<subseteq> set REACT_TOOL_NAMES"
proof -
  note defs = agent_think_node_def Let_def
  from assms obtain cn w1 where cn: "check_cancelled env s w = (Inr cn, w1)"
    by (auto simp: defs bind_io_eq_Inr)
  show thesis
  proof (cases cn)
    case True
    with assms cn show thesis by (intro cancelled) (simp add: defs)
  next
    case False
    with assms cn obtain sp out w2 where o: "ask_think env (SystemMessage sp # ts_messages s) w1 = (Inr out, w2)"
      and rest: "think_prompt env s = Inr sp"
      by (auto simp: defs bind_io_eq_Inr)
    show thesis
    proof (cases out)
      case None
      with assms cn False o rest show thesis
        by (intro no_model [of "''LLM unavailable. Generating verdict from burst enrichment.''"])
          (simp add: defs)
    next
      case (Some t)
      let ?plans = "valid_plans (ts_tool_budget s) (th_planned_tools t)"
      let ?can = "th_tocontinue t \<and> ts_tool_budget s > 0 \<and> ?plans \<noteq> []"
      from assms cn False o rest Some obtain tcs w3 c where
        tcs: "(if ?can then map_io (make_tool_call env) ?plans else ret_io []) w2 = (Inr tcs, w3)"
        and s': "s' = s\<lparr>ts_messages := ts_messages s @ [AIMessage c tcs],
                        ts_tocontinue := Some (th_tocontinue t)\<rparr>"
        by (auto simp: defs bind_io_eq_Inr)
      have names: "map tc_name tcs = (if ?can then map pl_name ?plans else [])"
        using tcs map_io_names by (auto split: if_splits)
      then have "length tcs \<le> nat (max 0 (ts_tool_budget s))"
        using valid_plans_bounds(1) by (metis bot_nat_0.extremum length_map list.size(3))
      moreover have "tc_name ` set tcs \<subseteq> set REACT_TOOL_NAMES"
        using names valid_plans_bounds(2)
        by (metis (no_types, lifting) image_subsetI list.set(1) list.set_map empty_subsetI)
      ultimately show thesis using s' by (intro answer) auto
    qed
  qed
qed

text \<open>What absorbing a batch of results adds to the accumulators.\<close>

lemma absorb_result:
  assumes "absorb_results lib rs acc = Inr acc'"
  shows "\<exists>cs. length cs = length rs
    \<and> ra_messages acc' = ra_messages acc @ answers_of (map fst rs) cs
    \<and> ra_called acc' = ra_called acc @ map (\<lambda>p. tc_name (fst p)) rs
    \<and> ra_executed acc' = ra_executed acc + int (length rs)"
  using assms
proof (induction lib rs acc rule: absorb_results.induct)
  case (1 lib acc)
  then show ?case by simp
next
  case (2 lib tc e rest acc)
  then obtain cs where "length cs = length rest"
    "ra_messages acc' = ra_messages acc
       @ [ToolMessage (''['' @ tc_name tc @ ''] Error: '' @ exn_str e) (tc_id tc) (tc_name tc)]
       @ answers_of (map fst rest) cs"
    "ra_called acc' = ra_called acc @ tc_name tc # map (\<lambda>p. tc_name (fst p)) rest"
    "ra_executed acc' = ra_executed acc + 1 + int (length rest)"
    by auto
  then show ?case
    by (intro exI [of _ "(''['' @ tc_name tc @ ''] Error: '' @ exn_str e) # cs"]) simp
next
  case (3 lib tc u raw rcd rest acc)
  then obtain compressed where c: "compress_tool_result lib (tc_name tc) raw = Inr compressed"
    by (auto simp: bind_r_def split: sum.splits)
  with "3.prems" have "absorb_results lib rest (acc
       \<lparr>ra_messages := ra_messages acc @ [ToolMessage compressed (tc_id tc) (tc_name tc)],
        ra_enrichment := AList.update (tc_name tc) compressed (ra_enrichment acc),
        ra_records := ra_records acc @ [rcd],
        ra_called := ra_called acc @ [tc_name tc],
        ra_executed := ra_executed acc + 1\<rparr>) = Inr acc'" by simp
  from "3.IH" [OF this] obtain cs where "length cs = length rest"
    "ra_messages acc' = ra_messages acc @ [ToolMessage compressed (tc_id tc) (tc_name tc)]
       @ answers_of (map fst rest) cs"
    "ra_called acc' = ra_called acc @ tc_name tc # map (\<lambda>p. tc_name (fst p)) rest"
    "ra_executed acc' = ra_executed acc + 1 + int (length rest)"
    by auto
  then show ?case by (intro exI [of _ "compressed # cs"]) simp
qed

lemma absorb_total:
  assumes "list_all2 (\<lambda>tc r. \<forall>out. r = Inr out \<longrightarrow> outcome_ok lib (tc_name tc) out) tcs rs"
  shows "\<exists>acc'. absorb_results lib (zip tcs rs) acc = Inr acc'"
  using assms
proof (induction tcs rs arbitrary: acc rule: list_all2_induct)
  case (Cons tc tcs r rs)
  then show ?case by (cases r) (auto simp: outcome_ok_def split: prod.splits)
qed simp

lemma gather_outcomes:
  assumes "map_io (\<lambda>tc. catch_io (execute_single_tool te (tc_name tc) (tc_args tc) t)) tcs w = (Inr rs, w')"
  shows "list_all2 (\<lambda>tc r. \<forall>out. r = Inr out \<longrightarrow> outcome_ok (env_lib te) (tc_name tc) out) tcs rs"
  using assms by (rule map_io_all) (auto simp: catch_io_Inr dest: execute_outcome_ok)

lemma execute_result:
  assumes "execute_tool_node env s w = (Inr s', w')"
  obtains
    (cancelled) "s' = s\<lparr>ts_cancelled := Some True, ts_tool_budget := 0\<rparr>"
  | (nothing) "ts_messages s = [] \<or> tool_calls_of (last (ts_messages s)) = []"
      "s' = s\<lparr>ts_tool_budget := 0\<rparr>"
  | (batch) tcs cs enr recs where "tcs = tool_calls_of (last (ts_messages s))" "tcs \<noteq> []"
      "length cs = length tcs"
      "s' = s\<lparr>ts_messages := ts_messages s @ answers_of tcs cs,
             ts_tool_budget := ts_tool_budget s - int (length tcs),
             ts_enrichment_data := enr,
             ts_tools_called := ts_tools_called s @ map tc_name tcs,
             ts_tool_records := recs\<rparr>"
proof -
  note defs = execute_tool_node_def Let_def
  let ?tcs = "tool_calls_of (last (ts_messages s))"
  from assms obtain cn w1 where cn: "check_cancelled env s w = (Inr cn, w1)"
    by (auto simp: defs bind_io_eq_Inr)
  consider "cn" | "\<not> cn" "ts_messages s = [] \<or> ?tcs = []" | "\<not> cn" "ts_messages s \<noteq> []" "?tcs \<noteq> []"
    by blast
  then show thesis
  proof cases
    case 1
    with assms cn show thesis by (intro cancelled) (simp add: defs)
  next
    case 2
    with assms cn have "s' = s\<lparr>ts_tool_budget := 0\<rparr>" by (auto simp: defs split: if_splits)
    with 2(2) show thesis by (rule nothing)
  next
    case 3
    with assms cn obtain rs w2 acc where
      rs: "map_io (\<lambda>tc. catch_io (execute_single_tool (pe_tools env) (tc_name tc) (tc_args tc) 30)) ?tcs w1
           = (Inr rs, w2)"
      and acc: "absorb_results (pe_lib env) (zip ?tcs rs)
           \<lparr>ra_messages = ts_messages s, ra_enrichment = ts_enrichment_data s,
            ra_called = ts_tools_called s, ra_records = ts_tool_records s, ra_executed = 0\<rparr> = Inr acc"
      and s': "s' = s\<lparr>ts_messages := ra_messages acc,
          ts_tool_budget := ts_tool_budget s - ra_executed acc, ts_enrichment_data := ra_enrichment acc,
          ts_tools_called := ra_called acc, ts_tool_records := ra_records acc\<rparr>"
      by (auto simp: defs bind_io_eq_Inr intro: that)
    have "length rs = length ?tcs" using rs by (rule map_io_length)
    then have "map fst (zip ?tcs rs) = ?tcs" "length (zip ?tcs rs) = length ?tcs" by simp_all
    moreover from this have "map (\<lambda>p. tc_name (fst p)) (zip ?tcs rs) = map tc_name ?tcs"
      by (metis (no_types, lifting) map_eq_conv map_map o_def)
    ultimately obtain cs where "length cs = length ?tcs"
      "ra_messages acc = ts_messages s @ answers_of ?tcs cs"
      "ra_called acc = ts_tools_called s @ map tc_name ?tcs"
      "ra_executed acc = int (length ?tcs)"
      using absorb_result [OF acc] by auto
    with s' 3 show thesis by (intro batch [of ?tcs cs]) simp_all
  qed
qed

lemma subseq_set: "subseq xs ys \<Longrightarrow> set xs \<subseteq> set ys"
  by (induction rule: list_emb.induct) auto

text \<open>What the burst leaves behind.\<close>

lemma burst_node_unfold:
  assumes "burst_enrichment_node env s w = (Inr s', w')" "ts_entities s = Some e"
  obtains data recs w1 compressed where
    "run_burst_enrichment (pe_tools env) (ts_alert s) e (ts_technique_ids s) (pe_tool_timeout env) w
        = (Inr (data, recs), w1)"
    and "s' = s\<lparr>ts_enrichment_data := compressed, ts_tool_records := ts_tool_records s @ recs,
        ts_tools_called := ts_tools_called s @ map tcr_tool_name recs,
        ts_tool_budget := max 0 (ts_tool_budget s - int (length recs)),
        ts_messages := [HumanMessage (initial_message s e compressed
          (max 0 (ts_tool_budget s - int (length recs))))], ts_phase := ''react''\<rparr>"
proof -
  from assms show thesis
    by (auto simp: burst_enrichment_node_def Let_def bind_io_eq_Inr intro: that)
qed

lemma burst_node_result:
  assumes "burst_enrichment_node env s w = (Inr s', w')"
  obtains m compressed recs where
    "s' = s\<lparr>ts_enrichment_data := compressed, ts_tool_records := ts_tool_records s @ recs,
           ts_tools_called := ts_tools_called s @ map tcr_tool_name recs,
           ts_tool_budget := max 0 (ts_tool_budget s - int (length recs)),
           ts_messages := [HumanMessage m], ts_phase := ''react''\<rparr>"
    "length recs \<le> 9" "set (map tcr_tool_name recs) \<subseteq> set (get_tools_for_techniques (ts_technique_ids s))"
proof -
  from assms obtain e where e: "ts_entities s = Some e"
    by (auto simp: burst_enrichment_node_def split: option.splits)
  obtain data recs w1 compressed where
    b: "run_burst_enrichment (pe_tools env) (ts_alert s) e (ts_technique_ids s) (pe_tool_timeout env) w
        = (Inr (data, recs), w1)"
    and s': "s' = s\<lparr>ts_enrichment_data := compressed, ts_tool_records := ts_tool_records s @ recs,
        ts_tools_called := ts_tools_called s @ map tcr_tool_name recs,
        ts_tool_budget := max 0 (ts_tool_budget s - int (length recs)),
        ts_messages := [HumanMessage (initial_message s e compressed
          (max 0 (ts_tool_budget s - int (length recs))))], ts_phase := ''react''\<rparr>"
    by (rule burst_node_unfold [OF assms e])
  have "subseq (map tcr_tool_name recs) (get_tools_for_techniques (ts_technique_ids s))"
    using burst_result(1) [OF b] .
  then have "set (map tcr_tool_name recs) \<subseteq> set (get_tools_for_techniques (ts_technique_ids s))"
    by (rule subseq_set)
  then show thesis by (rule that [OF s' burst_count(1) [OF b]])
qed

subsection \<open>The invariant\<close>

definition pipe_inv :: "normalized_alert \<Rightarrow> node \<Rightarrow> triage_state \<Rightarrow> bool" where
  "pipe_inv alert n s \<longleftrightarrow>
     ts_alert s = alert \<and> ts_severity s = severity_value (na_severity alert)
     \<and> (n \<in> {Burst_Enrichment, Agent_Think, Execute_Tool, Generate_Verdict} \<longrightarrow>
          0 \<le> ts_tool_budget s
          \<and> int (length (ts_tools_called s)) + ts_tool_budget s
            \<le> max 9 (get_budget (severity_value (na_severity alert))))
     \<and> (n \<notin> {Agent_Think, Execute_Tool, Generate_Verdict} \<longrightarrow> ts_tools_called s = [])
     \<and> (n \<notin> {Normalise, Extract_Entities} \<longrightarrow> ts_entities s \<noteq> None)
     \<and> set (ts_tools_called s) \<subseteq> set (get_tools_for_techniques (ts_technique_ids s)) \<union> set REACT_TOOL_NAMES
     \<and> (n = Burst_Enrichment \<longrightarrow> ts_tool_budget s = get_budget (severity_value (na_severity alert)))
     \<and> (n = Agent_Think \<longrightarrow> pend [] (ts_messages s) = Some [])
     \<and> (n = Execute_Tool \<longrightarrow>
          (\<exists>ms c tcs. ts_messages s = ms @ [AIMessage c tcs] \<and> pend [] ms = Some [] \<and> tcs \<noteq> []
             \<and> int (length tcs) \<le> ts_tool_budget s \<and> tc_name ` set tcs \<subseteq> set REACT_TOOL_NAMES))
     \<and> (ts_cancelled s = Some True \<longrightarrow> n = Generate_Verdict \<and> ts_tool_budget s = 0)"

lemma initial_inv: "pipe_inv alert Normalise (initial_state alert)"
  by (simp add: pipe_inv_def initial_state_def)

lemma inv_normalise:
  assumes "pipe_inv alert Normalise s" "normalise_alert_node env s w = (Inr s', w')"
  shows "pipe_inv alert Extract_Entities s'"
  using assms by (auto simp: pipe_inv_def normalise_alert_node_def)

lemma inv_extract:
  assumes "pipe_inv alert Extract_Entities s" "extract_entities_node env s w = (Inr s', w')"
  shows "pipe_inv alert Route_Tools s'"
  using assms by (auto simp: pipe_inv_def extract_entities_node_def Let_def bind_io_eq_Inr split: option.splits)

lemma inv_route:
  assumes "pipe_inv alert Route_Tools s" "route_tools_node env s w = (Inr s', w')"
  shows "pipe_inv alert Burst_Enrichment s'"
  using assms get_budget_range [of "severity_value (na_severity alert)"]
  by (auto simp: pipe_inv_def route_tools_node_def)

lemma inv_burst:
  assumes "pipe_inv alert Burst_Enrichment s" "burst_enrichment_node env s w = (Inr s', w')"
  shows "pipe_inv alert Agent_Think s'"
proof (rule burst_node_result [OF assms(2)])
  fix m compressed and recs :: "tool_call_record list"
  assume s': "s' = s\<lparr>ts_enrichment_data := compressed, ts_tool_records := ts_tool_records s @ recs,
      ts_tools_called := ts_tools_called s @ map tcr_tool_name recs,
      ts_tool_budget := max 0 (ts_tool_budget s - int (length recs)),
      ts_messages := [HumanMessage m], ts_phase := ''react''\<rparr>"
    and "length recs \<le> 9"
    and "set (map tcr_tool_name recs) \<subseteq> set (get_tools_for_techniques (ts_technique_ids s))"
  with assms(1) show ?thesis
    by (auto simp: pipe_inv_def)
qed

lemma inv_think:
  assumes "pipe_inv alert Agent_Think s" "agent_think_node env s w = (Inr s', w')"
    and "next_node Agent_Think s' = Some n'"
  shows "pipe_inv alert n' s'"
proof -
  from assms(1) have B: "0 \<le> ts_tool_budget s" and P: "pend [] (ts_messages s) = Some []"
    by (simp_all add: pipe_inv_def)
  show ?thesis
  proof (rule think_result [OF assms(2)])
    assume s': "s' = s\<lparr>ts_cancelled := Some True, ts_tocontinue := Some False, ts_tool_budget := 0\<rparr>"
    with assms(3) have "n' = Generate_Verdict" by (simp add: should_continue_react_def)
    with s' assms(1) show ?thesis by (simp add: pipe_inv_def)
  next
    fix c assume s': "s' = s\<lparr>ts_messages := ts_messages s @ [AIMessage c []], ts_tool_budget := 0,
       ts_tocontinue := Some False\<rparr>"
    with assms(3) have "n' = Generate_Verdict" by (simp add: should_continue_react_def)
    with s' assms(1) show ?thesis by (simp add: pipe_inv_def)
  next
    fix c tcs b
    assume s': "s' = s\<lparr>ts_messages := ts_messages s @ [AIMessage c tcs], ts_tocontinue := Some b\<rparr>"
      and len: "length tcs \<le> nat (max 0 (ts_tool_budget s))"
      and names: "tc_name ` set tcs \<subseteq> set REACT_TOOL_NAMES"
    show ?thesis
    proof (cases "should_continue_react s' = ''execute''")
      case True
      with assms(3) have n': "n' = Execute_Tool" by simp
      from True s' have "tcs \<noteq> []" by (auto simp: should_continue_react_def split: if_splits)
      moreover from len B have "int (length tcs) \<le> ts_tool_budget s" by linarith
      ultimately show ?thesis using s' n' assms(1) names P by (simp add: pipe_inv_def)
    next
      case False
      with assms(3) have "n' = Generate_Verdict" by simp
      with s' assms(1) show ?thesis by (simp add: pipe_inv_def)
    qed
  qed
qed

lemma inv_execute:
  assumes "pipe_inv alert Execute_Tool s" "execute_tool_node env s w = (Inr s', w')"
    and "next_node Execute_Tool s' = Some n'"
  shows "pipe_inv alert n' s'"
proof -
  from assms(1) obtain ms c tcs where m: "ts_messages s = ms @ [AIMessage c tcs]" "pend [] ms = Some []"
    "tcs \<noteq> []" "int (length tcs) \<le> ts_tool_budget s" "tc_name ` set tcs \<subseteq> set REACT_TOOL_NAMES"
    by (auto simp: pipe_inv_def)
  show ?thesis
  proof (rule execute_result [OF assms(2)])
    assume s': "s' = s\<lparr>ts_cancelled := Some True, ts_tool_budget := 0\<rparr>"
    with assms(3) have "n' = Generate_Verdict" by (simp add: after_execute_tool_def)
    with s' assms(1) show ?thesis by (simp add: pipe_inv_def)
  next
    assume "ts_messages s = [] \<or> tool_calls_of (last (ts_messages s)) = []"
    with m show ?thesis by simp
  next
    fix tcs' cs enr recs
    assume "tcs' = tool_calls_of (last (ts_messages s))" and l: "length cs = length tcs'"
      and s': "s' = s\<lparr>ts_messages := ts_messages s @ answers_of tcs' cs,
        ts_tool_budget := ts_tool_budget s - int (length tcs'), ts_enrichment_data := enr,
        ts_tools_called := ts_tools_called s @ map tc_name tcs', ts_tool_records := recs\<rparr>"
    then have t: "tcs' = tcs" using m(1) by simp
    have "pend [] (ts_messages s') = Some []"
      using s' t m l by (simp add: pend_append pend_answers)
    moreover have "n' \<in> {Agent_Think, Generate_Verdict}" using assms(3) by (auto split: if_splits)
    ultimately show ?thesis
      using assms(1) s' t m(4,5) by (auto simp: pipe_inv_def)
  qed
qed

lemma node_keeps_inv:
  assumes "pipe_inv alert n s" "run_node env n s w = (Inr s', w')" "next_node n s' = Some n'"
  shows "pipe_inv alert n' s'"
  using assms
  by (cases n) (auto intro: inv_normalise inv_extract inv_route inv_burst
      dest: inv_think inv_execute simp del: next_node.simps(5,6))

subsection \<open>Every run ends with a verdict\<close>

lemma total_normalise: "\<exists>s' w'. normalise_alert_node env s w = (Inr s', w')"
  by (simp add: normalise_alert_node_def)

lemma extract_answers:
  assumes "extractor_answers env"
    and "extract_entities (pe_extractor env) alert b w = (Inr e, w')"
  shows "e \<noteq> None"
proof -
  have a: "m w \<noteq> (Inr None, w')" if "answers m"
    for m :: "('a, extracted_entities option) io" and w w'
    using that by (metis answers_def fst_conv)
  have att: "r \<noteq> Some None" if "answers m" "extract_attempt c m w = (Inr r, w')"
    for m :: "('a, extracted_entities option) io" and c w w' r
    using that a [OF that(1)]
    by (auto simp: extract_attempt_def try_io_def bind_io_def split: if_splits prod.splits sum.splits)
  have a1: "extract_attempt c (ex_ollama (pe_extractor env) p) w \<noteq> (Inr (Some None), w')"
    and a2: "extract_attempt c (ex_openai (pe_extractor env) p) w \<noteq> (Inr (Some None), w')"
    for c p w w'
    using att assms(1) by (metis extractor_answers_def)+
  show ?thesis
  proof
    assume "e = None"
    with assms(2) a1 a2 show False
      by (auto simp: extract_entities_def extract_entities_llm_def Let_def bind_io_eq_Inr
          split: if_splits option.splits)
  qed
qed

lemma total_extract:
  assumes "extractor_answers env"
  shows "\<exists>s' w'. extract_entities_node env s w = (Inr s', w')"
proof -
  obtain e w' where e: "extract_entities (pe_extractor env) (ts_alert s) (ollama_base_url env \<noteq> []) w
      = (Inr e, w')"
    using no_raise_extract by (rule no_raiseE)
  with extract_answers [OF assms e] obtain x where "e = Some x" by blast
  with e show ?thesis by (simp add: extract_entities_node_def Let_def)
qed

lemma total_burst:
  assumes "ts_entities s \<noteq> None"
  shows "\<exists>s' w'. burst_enrichment_node env s w = (Inr s', w')"
proof -
  from assms obtain e where e: "ts_entities s = Some e" by blast
  obtain x w1 where x:
    "run_burst_enrichment (pe_tools env) (ts_alert s) e (ts_technique_ids s) (pe_tool_timeout env) w
        = (Inr x, w1)"
    using no_raise_burst by (rule no_raiseE)
  obtain data recs where "x = (data, recs)" by fastforce
  note b = x [unfolded this]
  have "\<exists>ys. map_r (\<lambda>(tool_name, raw). bind_r (compress_tool_result (pe_lib env) tool_name raw)
      (\<lambda>c. Inr (tool_name, c))) data = Inr ys"
    using burst_result(3) [OF b] by (intro map_r_total) (fastforce simp: pe_lib_def)
  with e b show ?thesis by (auto simp: burst_enrichment_node_def Let_def)
qed

lemma total_think:
  assumes "loads_ok (pe_lib env)" "ts_severity s = severity_value sev"
  shows "\<exists>s' w'. agent_think_node env s w = (Inr s', w')"
proof -
  have "no_raise (agent_think_node env s)"
    unfolding agent_think_node_def Let_def
    using think_prompt_total [OF assms(2), of env]
    by (auto intro!: no_raise_intros no_raise_parts no_raise_of_result
        no_raise_make_tool_call [OF assms(1)] split: option.splits)
  then show ?thesis by (auto simp: no_raise_def)
qed

lemma total_execute: "\<exists>s' w'. execute_tool_node env s w = (Inr s', w')"
proof -
  let ?tcs = "tool_calls_of (last (ts_messages s))"
  let ?f = "\<lambda>tc. catch_io (execute_single_tool (pe_tools env) (tc_name tc) (tc_args tc) 30)"
  obtain cn w1 where cn: "check_cancelled env s w = (Inr cn, w1)"
    using no_raise_check by (rule no_raiseE)
  obtain rs w2 where rs: "map_io ?f ?tcs w1 = (Inr rs, w2)"
    by (rule no_raiseE [OF no_raise_map_io]) (rule no_raise_catch)
  have "\<exists>acc'. absorb_results (pe_lib env) (zip ?tcs rs) acc = Inr acc'" for acc
    using gather_outcomes [OF rs] by (intro absorb_total) (simp add: pe_lib_def)
  with cn rs show ?thesis
    by (auto simp: execute_tool_node_def Let_def bind_io_def split: sum.splits) (metis Inl_Inr_False)
qed

lemma verdict_node_cancelled:
  assumes "ts_cancelled s = Some True"
  shows "generate_verdict_node env s w = (case pe_new_verdict env w of (fresh, w') \<Rightarrow>
     (Inr (s\<lparr>ts_verdict := Some (cancelled_verdict fresh s), ts_phase := ''done''\<rparr>), w'))"
  using assms by (simp add: generate_verdict_node_def bind_io_def draw_def split: prod.splits)

text \<open>What the verdict node fills in, whatever the models answered.\<close>

definition verdict_of :: "pylib \<Rightarrow> triage_state \<Rightarrow> triage_verdict \<Rightarrow> bool" where
  "verdict_of lib s v \<longleftrightarrow>
     tv_alert_id v = na_alert_id (ts_alert s)
     \<and> tv_total_tool_calls v = int (length (ts_tools_called s))
     \<and> (if ts_cancelled s = Some True
        then tv_status v = Some ''cancelled'' \<and> tv_tenant_id v = na_tenant_id (ts_alert s)
          \<and> tv_tools_called v = ts_tools_called s
        else tv_tools_called v = set_order lib (ts_tools_called s))"

lemma total_verdict:
  assumes "ts_severity s = severity_value sev"
  shows "\<exists>v w'. generate_verdict_node env s w =
      (Inr (s\<lparr>ts_verdict := Some v, ts_phase := ''done''\<rparr>), w') \<and> verdict_of (pe_lib env) s v"
proof (cases "ts_cancelled s = Some True")
  case True
  then show ?thesis
    by (auto simp: verdict_node_cancelled verdict_of_def cancelled_verdict_def Let_def split: prod.splits)
next
  case False
  obtain p where p: "verdict_prompt s = Inr p"
    using verdict_prompt_total unfolding verdict_prompt_def by blast
  obtain vo w1 where vo: "ask_verdict env p w = (Inr vo, w1)"
    using no_raise_ask_verdict by (rule no_raiseE)
  show ?thesis
  proof (cases vo)
    case (Some v)
    let ?v = "v\<lparr>tv_alert_id := na_alert_id (ts_alert s),
        tv_total_tool_calls := int (length (ts_tools_called s)),
        tv_tools_called := set_order (pe_lib env) (ts_tools_called s)\<rparr>"
    from Some False p vo have "generate_verdict_node env s w
        = (Inr (s\<lparr>ts_verdict := Some ?v, ts_phase := ''done''\<rparr>), w1)"
      by (simp add: generate_verdict_node_def)
    moreover from False have "verdict_of (pe_lib env) s ?v" by (simp add: verdict_of_def)
    ultimately show ?thesis by blast
  next
    case None
    obtain fr w2 where fr: "pe_new_verdict env w1 = (fr, w2)" by fastforce
    from assms obtain v where v: "fallback_verdict (pe_lib env) fr s (ts_alert s)
        ''All LLM providers unavailable'' = Inr v"
      using fallback_verdict_total by blast
    with assms have "verdict_of (pe_lib env) s v"
      using False by (auto simp: fallback_verdict_def verdict_of_def)
    moreover from None False p vo fr v have "generate_verdict_node env s w
        = (Inr (s\<lparr>ts_verdict := Some v, ts_phase := ''done''\<rparr>), w2)"
      by (simp add: generate_verdict_node_def draw_def)
    ultimately show ?thesis by blast
  qed
qed

text \<open>How many nodes are still to run, the current one included.\<close>

fun need :: "node \<Rightarrow> triage_state \<Rightarrow> nat" where
  "need Normalise s = 36"
| "need Extract_Entities s = 35"
| "need Route_Tools s = 34"
| "need Burst_Enrichment s = 2 * nat (ts_tool_budget s) + 3"
| "need Agent_Think s = 2 * nat (ts_tool_budget s) + 2"
| "need Execute_Tool s = 2 * nat (ts_tool_budget s) + 1"
| "need Generate_Verdict s = 1"

lemma node_total:
  assumes "loads_ok (pe_lib env)" "n \<noteq> Extract_Entities" "pipe_inv alert n s"
  shows "\<exists>s' w'. run_node env n s w = (Inr s', w')"
proof -
  from assms(3) have sev: "ts_severity s = severity_value (na_severity alert)"
    by (simp add: pipe_inv_def)
  show ?thesis
  proof (cases n)
    case Burst_Enrichment
    with assms(3) have "ts_entities s \<noteq> None" by (simp add: pipe_inv_def)
    with Burst_Enrichment total_burst show ?thesis by simp
  next
    case Generate_Verdict
    with total_verdict [OF sev] show ?thesis by fastforce
  qed (use assms(2) total_normalise total_think [OF assms(1) sev] total_execute
    in \<open>simp_all add: route_tools_node_def\<close>)
qed

lemma need_decreases:
  assumes "pipe_inv alert n s" "run_node env n s w = (Inr s', w')" "next_node n s' = Some n'"
  shows "need n' s' < need n s"
proof -
  from node_keeps_inv [OF assms] have inv': "pipe_inv alert n' s'" .
  show ?thesis
  proof (cases n)
    case Route_Tools
    with assms(3) have n': "n' = Burst_Enrichment" by simp
    with inv' have "ts_tool_budget s' \<le> 15"
      using get_budget_range by (simp add: pipe_inv_def)
    with Route_Tools n' show ?thesis by simp
  next
    case Burst_Enrichment
    with assms have n': "n' = Agent_Think" and b: "burst_enrichment_node env s w = (Inr s', w')"
      by simp_all
    from b obtain k where "ts_tool_budget s' = max 0 (ts_tool_budget s - int k)"
      by (rule burst_node_result) simp
    with Burst_Enrichment n' show ?thesis by simp
  next
    case Agent_Think
    with assms have t: "agent_think_node env s w = (Inr s', w')" by simp
    from t have "ts_tool_budget s' = 0 \<or> ts_tool_budget s' = ts_tool_budget s"
      by (rule think_result) simp_all
    with Agent_Think assms(3) show ?thesis
      by (auto simp: should_continue_react_def split: if_splits)
  next
    case Execute_Tool
    with assms have t: "execute_tool_node env s w = (Inr s', w')" by simp
    from t have "ts_tool_budget s' = 0 \<or> ts_tool_budget s' < ts_tool_budget s"
      by (rule execute_result) auto
    moreover from Execute_Tool assms(1) obtain tcs :: "tool_call list" where
      "tcs \<noteq> []" "int (length tcs) \<le> ts_tool_budget s" by (auto simp: pipe_inv_def)
    then have "0 < ts_tool_budget s" by (cases tcs) auto
    ultimately show ?thesis using Execute_Tool assms(3)
      by (auto simp: after_execute_tool_def split: if_splits)
  qed (use assms(3) in auto)
qed

text \<open>
  From the routing of the tools on, a run ends in the state of the verdict node, also when every
  step is saved, as long as the saver does not raise.
\<close>

lemma run_graph_plain: "run_graph_saved k env (\<lambda>s. ret_io ()) n s = run_graph k env n s"
  by (induction k arbitrary: n s) (auto simp: bind_io_def fun_eq_iff split: prod.splits sum.splits option.splits)

lemma next_not_early: "next_node n s = Some n' \<Longrightarrow> n \<noteq> Normalise \<Longrightarrow> n' \<notin> {Normalise, Extract_Entities}"
  by (cases n) (auto split: if_splits)

lemma run_graph_total:
  assumes "loads_ok (pe_lib env)" "\<And>s. no_raise (save s)"
  shows "pipe_inv alert n s \<Longrightarrow> n \<notin> {Normalise, Extract_Entities} \<Longrightarrow> need n s \<le> k \<Longrightarrow>
    \<exists>s1 v w'. run_graph_saved k env save n s w = (Inr (s1\<lparr>ts_verdict := Some v, ts_phase := ''done''\<rparr>), w')
      \<and> pipe_inv alert Generate_Verdict s1 \<and> verdict_of (pe_lib env) s1 v"
proof (induction k arbitrary: n s w)
  case 0
  then show ?case by (cases n) auto
next
  case (Suc k)
  obtain s' w1 where r: "run_node env n s w = (Inr s', w1)"
    using node_total [OF assms(1) _ Suc.prems(1)] Suc.prems(2) by blast
  obtain u w2 where sv: "save s' w1 = (Inr u, w2)" using assms(2) by (rule no_raiseE)
  show ?case
  proof (cases "next_node n s'")
    case None
    then have n: "n = Generate_Verdict" by (cases n) auto
    from Suc.prems(1) have "ts_severity s = severity_value (na_severity alert)"
      by (simp add: pipe_inv_def)
    from total_verdict [OF this, of env w] obtain v w' where
      v: "generate_verdict_node env s w = (Inr (s\<lparr>ts_verdict := Some v, ts_phase := ''done''\<rparr>), w')"
        "verdict_of (pe_lib env) s v" by blast
    with n r sv have "run_graph_saved (Suc k) env save n s w
        = (Inr (s\<lparr>ts_verdict := Some v, ts_phase := ''done''\<rparr>), w2)" by simp
    with v n Suc.prems(1) show ?thesis by blast
  next
    case (Some n')
    have "n' \<notin> {Normalise, Extract_Entities}"
      using next_not_early [OF Some] Suc.prems(2) by simp
    with Suc.IH [OF node_keeps_inv [OF Suc.prems(1) r Some], of w2]
      need_decreases [OF Suc.prems(1) r Some] Suc.prems(3) r sv Some
    show ?thesis by simp
  qed
qed

text \<open>
  A whole run is decided by the extraction: with no entities it ends there with the exception,
  otherwise it ends with the verdict of a state that satisfies the invariant.
\<close>

lemma run_triage_cases:
  assumes "loads_ok (pe_lib env)" "36 \<le> pe_recursion_limit env"
    and "extract_entities (pe_extractor env) alert (ollama_base_url env \<noteq> []) w = (Inr x, w1)"
  shows "case x of
      None \<Rightarrow> run_triage env alert w = (Inl (AttributeError ''techniques''), w1)
    | Some e \<Rightarrow> \<exists>s v w'. run_triage env alert w = (Inr v, w')
        \<and> pipe_inv alert Generate_Verdict s \<and> verdict_of (pe_lib env) s v"
proof -
  obtain k where k: "pe_recursion_limit env = Suc (Suc k)" "34 \<le> k"
    using assms(2) that [of "pe_recursion_limit env - 2"] by simp
  obtain s1 where n: "run_node env Normalise (initial_state alert) w = (Inr s1, w)"
    by (simp add: normalise_alert_node_def)
  have i1: "pipe_inv alert Extract_Entities s1"
    using inv_normalise [OF initial_inv] n by simp
  then have a: "ts_alert s1 = alert" by (simp add: pipe_inv_def)
  show ?thesis
  proof (cases x)
    case None
    with n k a assms(3) show ?thesis
      by (simp add: run_triage_def extract_entities_node_def Let_def)
  next
    case (Some e)
    with a assms(3) obtain s2 where e: "extract_entities_node env s1 w = (Inr s2, w1)"
      by (simp add: extract_entities_node_def Let_def)
    have "pipe_inv alert Route_Tools s2" by (rule inv_extract [OF i1 e])
    then have "\<exists>s v w'. run_graph k env Route_Tools s2 w1
        = (Inr (s\<lparr>ts_verdict := Some v, ts_phase := ''done''\<rparr>), w')
      \<and> pipe_inv alert Generate_Verdict s \<and> verdict_of (pe_lib env) s v"
      using run_graph_total [OF assms(1), of "\<lambda>s. ret_io ()", unfolded run_graph_plain] k(2)
      by (simp add: no_raise_ret)
    with n e k Some show ?thesis by (fastforce simp: run_triage_def verdict_or_fallback_def)
  qed
qed

lemma run_triage_result:
  assumes "loads_ok (pe_lib env)" "extractor_answers env" "36 \<le> pe_recursion_limit env"
  obtains s v w' where "run_triage env alert w = (Inr v, w')"
    "pipe_inv alert Generate_Verdict s" "verdict_of (pe_lib env) s v"
proof -
  obtain x w1 where x: "extract_entities (pe_extractor env) alert (ollama_base_url env \<noteq> []) w = (Inr x, w1)"
    using no_raise_extract by (rule no_raiseE)
  with extract_answers [OF assms(2) x] run_triage_cases [OF assms(1,3) x] show thesis
    by (auto intro: that)
qed

end
