(* ===== verification/Triage_Guarantees.thy ===== *)
theory Triage_Guarantees
  imports Pipeline_Facts Demo_World
begin

section \<open>What a triage run guarantees\<close>

text \<open>
  The properties of \<open>services/triage_pipeline.py\<close> and \<open>agents/enrichment_node.py\<close>: a run returns
  a verdict for its alert within the tool budget; in every state the graph can reach the budget,
  the message history and the tool names are as they should be; a cancelled alert reaches no
  model; the burst gives every tool an input its schema accepts. \<open>reaches\<close> is the step relation
  of the graph: the states in which a node is about to run.
\<close>

inductive reaches ::
    "'w pipe_env \<Rightarrow> normalized_alert \<Rightarrow> node \<Rightarrow> triage_state \<Rightarrow> 'w \<Rightarrow> bool"
  for env :: "'w pipe_env" and alert :: normalized_alert where
  start: "reaches env alert Normalise (initial_state alert) w"
| step: "reaches env alert n s w \<Longrightarrow> run_node env n s w = (Inr s', w') \<Longrightarrow> next_node n s' = Some n'
    \<Longrightarrow> reaches env alert n' s' w'"

lemma reaches_inv: "reaches env alert n s w \<Longrightarrow> pipe_inv alert n s"
  by (induction rule: reaches.induct) (rule initial_inv, rule node_keeps_inv)

lemma react_tools_known: "set REACT_TOOL_NAMES \<subseteq> set known_tools"
  by (simp add: REACT_TOOL_NAMES_def known_tools_def)

lemma inv_tools_known:
  assumes "pipe_inv alert n s"
  shows "set (ts_tools_called s) \<subseteq> set known_tools"
proof -
  have "set (ts_tools_called s)
      \<subseteq> set (get_tools_for_techniques (ts_technique_ids s)) \<union> set REACT_TOOL_NAMES"
    using assms by (simp add: pipe_inv_def)
  then show ?thesis
    using get_tools_known [of "ts_technique_ids s"] react_tools_known by blast
qed

subsection \<open>A concrete environment\<close>

text \<open>The THINK model plans one lookup, every tool answers, the verdict models are down.\<close>

definition demo_think :: agent_think_response where
  "demo_think =
     \<lparr>th_tocontinue = True,
      th_planned_tools = [\<lparr>pl_name = ''query_cmdb'', pl_arguments = ''{}''\<rparr>],
      th_reasoning = ''Check the asset''\<rparr>"

definition demo_env :: "kv pipe_env" where
  "demo_env =
     \<lparr>pe_tools =
        \<lparr>env_lib = demo_lib [(''{}'', JDict [])],
         env_cache = \<lparr>cc_ttl = 300, cc_enabled = True, cc_client = Some demo_redis\<rparr>,
         env_now_ms = (\<lambda>w. (0, w)),
         env_run_tool = (\<lambda>n p t w. (Inr [(''found'', JBool False)], w)),
         env_as_bool = (\<lambda>v. case v of JBool b \<Rightarrow> Some b | _ \<Rightarrow> None)\<rparr>,
      pe_extractor =
        \<lparr>ex_lib = demo_lib [], ex_ollama_base_url = ''http://ollama'', ex_openai_api_key = '''',
         ex_ollama = (\<lambda>p. raise_io TimeoutError), ex_openai = (\<lambda>p. raise_io TimeoutError)\<rparr>,
      pe_tool_timeout = 30, pe_redis_url = ''redis://r'', pe_from_url = (\<lambda>u. Inr demo_redis),
      pe_aclose = (\<lambda>c. ret_io ()), pe_tool_docs = [(''query_cmdb'', ''asset lookup'')],
      pe_think_ollama = (\<lambda>ms. ret_io (Some demo_think)), pe_think_openai = (\<lambda>ms. ret_io None),
      pe_verdict_ollama = (\<lambda>p. raise_io TimeoutError), pe_verdict_openai = (\<lambda>p. ret_io None),
      pe_uuid_hex = (\<lambda>w. (''0123456789abcdef0123456789abcdef'', w)),
      pe_new_verdict = (\<lambda>w. ((''v1'', ''2024-01-01T00:00:02Z''), w)), pe_recursion_limit = 50\<rparr>"

lemma demo_env_simps [simp]:
  "pe_lib demo_env = demo_lib [(''{}'', JDict [])]" "pe_recursion_limit demo_env = 50"
  "pe_from_url demo_env u = Inr demo_redis" "pe_aclose demo_env c = ret_io ()"
  by (simp_all add: demo_env_def pe_lib_def)

lemma demo_loads: "loads_ok (demo_lib t)"
  by (simp add: loads_ok_def demo_lib_def split: option.splits)

lemma demo_extractor: "extractor_answers demo_env"
  by (simp add: extractor_answers_def answers_def demo_env_def)

subsection \<open>Runs\<close>

text \<open>A more severe alert gets at least the tool budget of a less severe one.\<close>

lemma budget_grows: "mono (\<lambda>s. get_budget (severity_value s))"
proof (rule monoI)
  fix a b :: severity
  have b: "get_budget ''LOW'' = 3" "get_budget ''MEDIUM'' = 5" "get_budget ''HIGH'' = 8" "get_budget ''CRITICAL'' = 15"
    by code_simp+
  show "a \<le> b \<Longrightarrow> get_budget (severity_value a) \<le> get_budget (severity_value b)"
    by (cases a; cases b) (simp_all add: b less_eq_severity_def)
qed

lemma no_raise_run_triage:
  assumes "loads_ok (pe_lib env)" "extractor_answers env" "36 \<le> pe_recursion_limit env"
  shows "no_raise (run_triage env alert)"
  by (rule no_raiseI) (use run_triage_result [OF assms] in blast)

text \<open>
  C1. Every triage run ends, and it fails in one way only: when a structured extraction model
  answers \<open>None\<close> the run raises the \<open>AttributeError\<close> of the extraction node, having done nothing
  else. In every other case, whatever the models, the tools and Redis do (exceptions included), it
  returns a verdict for its alert; the tool calls the verdict counts stay within the severity's
  budget, or nine when the burst alone needs more, and only tools the routing table knows are
  named. Supposed are a step limit of at least 36, that \<open>json.loads\<close> raises nothing but
  \<open>JSONDecodeError\<close>, and that \<open>list(set(xs))\<close> holds the elements of \<open>xs\<close>.
\<close>

theorem run_triage_returns:
  assumes "loads_ok (pe_lib env)" "36 \<le> pe_recursion_limit env" "set_order_ok (pe_lib env)"
  shows "\<exists>x w1 r w'. extract_entities (pe_extractor env) alert (ollama_base_url env \<noteq> []) w = (Inr x, w1)
    \<and> run_triage env alert w = (r, w')
    \<and> (case r of
         Inl e \<Rightarrow> x = None \<and> e = AttributeError ''techniques'' \<and> w' = w1
       | Inr v \<Rightarrow> x \<noteq> None \<and> tv_alert_id v = na_alert_id alert
           \<and> tv_total_tool_calls v \<le> max 9 (get_budget (severity_value (na_severity alert)))
           \<and> set (tv_tools_called v) \<subseteq> set known_tools)"
proof -
  obtain x w1 where x: "extract_entities (pe_extractor env) alert (ollama_base_url env \<noteq> []) w = (Inr x, w1)"
    using no_raise_extract by (rule no_raiseE)
  show ?thesis
  proof (cases x)
    case None
    with x run_triage_cases [OF assms(1,2) x] show ?thesis by auto
  next
    case (Some e)
    then obtain s v w' where run: "run_triage env alert w = (Inr v, w')"
      and inv: "pipe_inv alert Generate_Verdict s" and v: "verdict_of (pe_lib env) s v"
      using run_triage_cases [OF assms(1,2) x] by auto
    from v assms(3) have "set (tv_tools_called v) = set (ts_tools_called s)"
      by (auto simp: verdict_of_def set_order_ok_def split: if_splits)
    with inv v inv_tools_known [OF inv] run x Some show ?thesis
      by (auto simp: verdict_of_def pipe_inv_def)
  qed
qed

text \<open>Both ends at work: the demonstration's models, and a model that gives no structured output.\<close>

definition mute_env :: "kv pipe_env" where
  "mute_env = demo_env\<lparr>pe_extractor := (pe_extractor demo_env)
     \<lparr>ex_ollama_base_url := ''http://o'', ex_ollama := (\<lambda>p. ret_io None)\<rparr>\<rparr>"

theorem run_triage_returns_witness:
  "(\<exists>v w'. run_triage demo_env demo_alert Map.empty = (Inr v, w')
      \<and> tv_alert_id v = ''a1'' \<and> tv_total_tool_calls v \<le> 9
      \<and> set (tv_tools_called v) \<subseteq> set known_tools)
    \<and> run_triage mute_env demo_alert Map.empty = (Inl (AttributeError ''techniques''), Map.empty)"
proof
  have "na_alert_id demo_alert = ''a1''" by (simp add: demo_alert_def)
  moreover have "max 9 (get_budget (severity_value (na_severity demo_alert))) = 9" by code_simp
  moreover obtain x w1 r w' where
    x: "extract_entities (pe_extractor demo_env) demo_alert (ollama_base_url demo_env \<noteq> []) Map.empty
      = (Inr x, w1)" "run_triage demo_env demo_alert Map.empty = (r, w')"
    "case r of
         Inl e \<Rightarrow> x = None \<and> e = AttributeError ''techniques'' \<and> w' = w1
       | Inr v \<Rightarrow> x \<noteq> None \<and> tv_alert_id v = na_alert_id demo_alert
           \<and> tv_total_tool_calls v \<le> max 9 (get_budget (severity_value (na_severity demo_alert)))
           \<and> set (tv_tools_called v) \<subseteq> set known_tools"
    using run_triage_returns [of demo_env demo_alert Map.empty] demo_loads demo_set_order by auto
  moreover have "x \<noteq> None" by (rule extract_answers [OF demo_extractor x(1)])
  ultimately show "\<exists>v w'. run_triage demo_env demo_alert Map.empty = (Inr v, w')
      \<and> tv_alert_id v = ''a1'' \<and> tv_total_tool_calls v \<le> 9
      \<and> set (tv_tools_called v) \<subseteq> set known_tools"
    by (cases r) auto
next
  have m: "loads_ok (pe_lib mute_env)" "36 \<le> pe_recursion_limit mute_env" "set_order_ok (pe_lib mute_env)"
    using demo_loads [of "[(''{}'', JDict [])]"] demo_set_order [of "[(''{}'', JDict [])]"]
      demo_env_simps(1) by (simp_all add: mute_env_def pe_lib_def)
  have e: "extract_entities (pe_extractor mute_env) demo_alert (ollama_base_url mute_env \<noteq> []) Map.empty
      = (Inr None, Map.empty)"
    by (simp add: ollama_base_url_def mute_env_def extract_entities_def extract_entities_llm_def Let_def extract_attempt_def
        try_io_def)
  obtain x w1 r w' where
    x: "extract_entities (pe_extractor mute_env) demo_alert (ollama_base_url mute_env \<noteq> []) Map.empty
      = (Inr x, w1)" "run_triage mute_env demo_alert Map.empty = (r, w')"
    "case r of
         Inl e \<Rightarrow> x = None \<and> e = AttributeError ''techniques'' \<and> w' = w1
       | Inr v \<Rightarrow> x \<noteq> None \<and> tv_alert_id v = na_alert_id demo_alert
           \<and> tv_total_tool_calls v \<le> max 9 (get_budget (severity_value (na_severity demo_alert)))
           \<and> set (tv_tools_called v) \<subseteq> set known_tools"
    using run_triage_returns [OF m, of demo_alert Map.empty] by blast
  with e show "run_triage mute_env demo_alert Map.empty = (Inl (AttributeError ''techniques''), Map.empty)"
    by (cases r) auto
qed

text \<open>
  C2. The tool budget is never exceeded and never negative: in every state in which the THINK,
  ACT or verdict node is about to run, the calls made so far plus the budget left are at most the
  severity's budget (or nine, the most the burst can make). A call answered from the cache counts
  like any other, though the RFC and the header of the cache say it should not.
\<close>

theorem budget_respected:
  assumes "reaches env alert n s w" "n \<in> {Agent_Think, Execute_Tool, Generate_Verdict}"
  shows "0 \<le> ts_tool_budget s
    \<and> int (length (ts_tools_called s)) + ts_tool_budget s
        \<le> max 9 (get_budget (severity_value (na_severity alert)))"
  using reaches_inv [OF assms(1)] assms(2) by (auto simp: pipe_inv_def)

lemma demo_reaches_route: "\<exists>s w. reaches demo_env demo_alert Route_Tools s w"
proof -
  obtain s1 where s1: "run_node demo_env Normalise (initial_state demo_alert) Map.empty = (Inr s1, Map.empty)"
    by (simp add: normalise_alert_node_def [abs_def])
  have "reaches demo_env demo_alert Extract_Entities s1 Map.empty"
    by (rule step [OF start s1]) simp
  moreover obtain s2 w2 where "run_node demo_env Extract_Entities s1 Map.empty = (Inr s2, w2)"
    using total_extract [OF demo_extractor, of s1 Map.empty] by auto
  ultimately have "reaches demo_env demo_alert Route_Tools s2 w2"
    by (rule step) simp
  then show ?thesis by blast
qed

lemma demo_reaches_think: "\<exists>s w. reaches demo_env demo_alert Agent_Think s w"
proof -
  obtain s w where r: "reaches demo_env demo_alert Route_Tools s w" using demo_reaches_route by blast
  obtain s1 where s1: "run_node demo_env Route_Tools s w = (Inr s1, w)"
    by (simp add: route_tools_node_def [abs_def])
  have b: "reaches demo_env demo_alert Burst_Enrichment s1 w"
    by (rule step [OF r s1]) simp
  obtain s2 w2 where s2: "run_node demo_env Burst_Enrichment s1 w = (Inr s2, w2)"
    using node_total [where env = demo_env and w = w, OF _ _ reaches_inv [OF b]] demo_loads by auto
  have "reaches demo_env demo_alert Agent_Think s2 w2"
    by (rule step [OF b s2]) simp
  then show ?thesis by blast
qed

theorem budget_respected_witness:
  "\<exists>s w. reaches demo_env demo_alert Agent_Think s w \<and> 0 \<le> ts_tool_budget s
    \<and> int (length (ts_tools_called s)) + ts_tool_budget s
        \<le> max 9 (get_budget (severity_value (na_severity demo_alert)))"
proof -
  obtain s w where "reaches demo_env demo_alert Agent_Think s w" using demo_reaches_think by blast
  with budget_respected [OF this] show ?thesis by blast
qed

text \<open>
  C3. The conversation handed to the THINK model is well formed: every tool call an assistant
  message announces is answered by exactly one tool message, in order, before the next message,
  and none is open when the model is asked again.
\<close>

theorem think_sees_closed_history:
  assumes "reaches env alert Agent_Think s w"
  shows "pend [] (ts_messages s) = Some []"
  using reaches_inv [OF assms] by (simp add: pipe_inv_def)

theorem think_sees_closed_history_witness:
  "\<exists>s w. reaches demo_env demo_alert Agent_Think s w \<and> pend [] (ts_messages s) = Some []"
proof -
  obtain s w where "reaches demo_env demo_alert Agent_Think s w" using demo_reaches_think by blast
  with think_sees_closed_history [OF this] show ?thesis by blast
qed

subsection \<open>Cancellation\<close>

lemma check_cancelled_true:
  assumes "redis_ok r kv p" "redis_up r" "pe_from_url env (pe_redis_url env) = Inr r"
    and "no_raise (pe_aclose env r)" "kv w (cancelled_key (na_alert_id (ts_alert s))) = Some ''1''"
  shows "\<exists>w'. check_cancelled env s w = (Inr True, w')"
proof -
  let ?reg = "CancelRegistry_init (pe_from_url env) (pe_redis_url env) DEFAULT_GRACE_SEC"
  have c: "cr_client ?reg = Some r" using assms(3) by (simp add: CancelRegistry_init_def)
  obtain v w1 where i: "is_cancelled ?reg (na_alert_id (ts_alert s)) w = (Inr v, w1)"
    using no_raise_is_cancelled by (rule no_raiseE)
  with is_cancelled_reads [OF assms(1,2) c, of "na_alert_id (ts_alert s)" w] assms(5)
  have v: v by simp
  obtain u w2 where "pe_aclose env r w1 = (Inr u, w2)"
    using assms(4) by (rule no_raiseE)
  with c i v show ?thesis
    by (simp add: check_cancelled_def Let_def finally_io_def cancel_close_def)
qed

text \<open>
  C4. Once the cancelled flag of an alert is set in Redis, THINK asks no model and plans nothing:
  it marks the run cancelled with no budget left, the graph goes straight to the verdict node, and
  that node asks no model either and issues a verdict with status cancelled for the alert and its
  tenant. That no model is asked is stated as: state, verdict and resulting world are the same
  whatever models the nodes are given (a model is a function on the world).
\<close>

theorem cancelled_run_short_circuits:
  assumes "redis_ok r kv p" "redis_up r" "pe_from_url env (pe_redis_url env) = Inr r"
    and "no_raise (pe_aclose env r)" "kv w (cancelled_key (na_alert_id (ts_alert s))) = Some ''1''"
  shows "\<exists>s' w' v w''.
    (\<forall>f g. agent_think_node (env\<lparr>pe_think_ollama := f, pe_think_openai := g\<rparr>) s w = (Inr s', w'))
    \<and> s' = s\<lparr>ts_cancelled := Some True, ts_tocontinue := Some False, ts_tool_budget := 0\<rparr>
    \<and> next_node Agent_Think s' = Some Generate_Verdict
    \<and> (\<forall>f g. generate_verdict_node (env\<lparr>pe_verdict_ollama := f, pe_verdict_openai := g\<rparr>) s' w'
        = (Inr (s'\<lparr>ts_verdict := Some v, ts_phase := ''done''\<rparr>), w''))
    \<and> tv_status v = Some ''cancelled'' \<and> tv_alert_id v = na_alert_id (ts_alert s)
    \<and> tv_tenant_id v = na_tenant_id (ts_alert s)"
proof -
  obtain w1 where c: "check_cancelled env s w = (Inr True, w1)"
    using check_cancelled_true [OF assms] by blast
  have same: "check_cancelled (env\<lparr>pe_think_ollama := f, pe_think_openai := g\<rparr>) = check_cancelled env" for f g
    by (simp add: fun_eq_iff check_cancelled_def Let_def split: option.splits)
  let ?s = "s\<lparr>ts_cancelled := Some True, ts_tocontinue := Some False, ts_tool_budget := 0\<rparr>"
  have think: "agent_think_node (env\<lparr>pe_think_ollama := f, pe_think_openai := g\<rparr>) s w = (Inr ?s, w1)" for f g
    using c by (simp add: agent_think_node_def same)
  obtain fresh w2 where "pe_new_verdict env w1 = (fresh, w2)" by fastforce
  then have "generate_verdict_node (env\<lparr>pe_verdict_ollama := f, pe_verdict_openai := g\<rparr>) ?s w1
      = (Inr (?s\<lparr>ts_verdict := Some (cancelled_verdict fresh ?s), ts_phase := ''done''\<rparr>), w2)" for f g
    by (simp add: verdict_node_cancelled)
  with think show ?thesis
    by (intro exI [of _ ?s] exI [of _ w1] exI [of _ "cancelled_verdict fresh ?s"] exI [of _ w2])
      (simp add: should_continue_react_def cancelled_verdict_def Let_def)
qed

theorem cancelled_run_short_circuits_witness:
  "\<exists>s' w' v w''. agent_think_node demo_env (initial_state demo_alert) [''cancelled:a1'' \<mapsto> ''1'']
      = (Inr s', w')
    \<and> next_node Agent_Think s' = Some Generate_Verdict
    \<and> generate_verdict_node demo_env s' w' = (Inr (s'\<lparr>ts_verdict := Some v, ts_phase := ''done''\<rparr>), w'')
    \<and> tv_status v = Some ''cancelled'' \<and> tv_tenant_id v = Some ''acme''"
proof -
  let ?w = "[''cancelled:a1'' \<mapsto> ''1'']" and ?s = "initial_state demo_alert"
  have k: "?w (cancelled_key (na_alert_id (ts_alert ?s))) = Some ''1''"
    by (simp add: cancelled_key_def initial_state_def demo_alert_def)
  have t: "na_tenant_id (ts_alert ?s) = Some ''acme''"
    by (simp add: initial_state_def demo_alert_def)
  have e: "demo_env\<lparr>pe_verdict_ollama := pe_verdict_ollama demo_env,
      pe_verdict_openai := pe_verdict_openai demo_env\<rparr> = demo_env"
    "demo_env\<lparr>pe_think_ollama := pe_think_ollama demo_env,
      pe_think_openai := pe_think_openai demo_env\<rparr> = demo_env" by simp_all
  have a: "no_raise (pe_aclose demo_env demo_redis)" by (simp add: no_raise_ret)
  obtain s' w' v w'' where r:
    "\<forall>f g. agent_think_node (demo_env\<lparr>pe_think_ollama := f, pe_think_openai := g\<rparr>) ?s ?w = (Inr s', w')"
    "next_node Agent_Think s' = Some Generate_Verdict"
    "\<forall>f g. generate_verdict_node (demo_env\<lparr>pe_verdict_ollama := f, pe_verdict_openai := g\<rparr>) s' w'
        = (Inr (s'\<lparr>ts_verdict := Some v, ts_phase := ''done''\<rparr>), w'')"
    "tv_status v = Some ''cancelled''" "tv_tenant_id v = na_tenant_id (ts_alert ?s)"
    using cancelled_run_short_circuits [where r = demo_redis and kv = "\<lambda>w. w" and p = read_int
        and env = demo_env and s = "?s" and w = "?w", OF demo_redis_ok demo_redis_up demo_env_simps(3) a k]
    by blast
  have th: "agent_think_node demo_env ?s ?w = (Inr s', w')"
    "generate_verdict_node demo_env s' w' = (Inr (s'\<lparr>ts_verdict := Some v, ts_phase := ''done''\<rparr>), w'')"
    using spec [OF spec [OF r(1)], of "pe_think_openai demo_env" "pe_think_ollama demo_env", unfolded e]
      spec [OF spec [OF r(3)], of "pe_verdict_openai demo_env" "pe_verdict_ollama demo_env", unfolded e]
    by (simp_all only:)
  show ?thesis
    using th r(2,4,5) t by (intro exI [of _ s'] exI [of _ w'] exI [of _ v] exI [of _ w'']) simp
qed

text \<open>
  C5. A run that saw no cancellation and got no verdict from any model still produces a verdict
  the schema accepts: confidences and probabilities in the unit interval, action priorities from
  one to three, indicator types of the schema.
\<close>

theorem fallback_verdict_valid:
  assumes "fallback_verdict lib fresh s alert reason = Inr v"
  shows "verdict_valid v \<and> tv_escalation v = MONITOR \<and> tv_alert_id v = na_alert_id alert
    \<and> severity_value (tv_severity v) = ts_severity s"
proof -
  from assms obtain sev where sev: "severity_of (ts_severity s) = Inr sev"
    by (cases "severity_of (ts_severity s)") (auto simp: fallback_verdict_def)
  then have "severity_value sev = ts_severity s"
    by (auto simp: severity_of_def split: if_splits)
  with assms sev show ?thesis
    by (auto simp: fallback_verdict_def verdict_valid_def unit_interval_def list_all_iff)
qed

theorem fallback_verdict_valid_witness:
  "\<exists>v. fallback_verdict (demo_lib []) (''v1'', ''t'') (initial_state demo_alert) demo_alert ''down'' = Inr v
    \<and> verdict_valid v"
proof -
  have "ts_severity (initial_state demo_alert) = severity_value HIGH"
    by (simp add: initial_state_def demo_alert_def)
  then obtain v where "fallback_verdict (demo_lib []) (''v1'', ''t'') (initial_state demo_alert) demo_alert ''down'' = Inr v"
    using fallback_verdict_total by blast
  with fallback_verdict_valid [OF this] show ?thesis by blast
qed

subsection \<open>The burst and single tools\<close>

text \<open>
  C6. A burst reports on tools of the routing table only, each at most once and in routing order,
  at most nine of them, and the data it hands on is exactly the data of its records.
\<close>

theorem burst_reports_each_tool_once:
  assumes "run_burst_enrichment env alert entities tids t w = (Inr (data, recs), w')"
  shows "subseq (map tcr_tool_name recs) (get_tools_for_techniques tids)
    \<and> distinct (map tcr_tool_name recs) \<and> length recs \<le> 9
    \<and> data = map (\<lambda>r. (tcr_tool_name r, tcr_raw_result r)) recs"
  using burst_result(1,2) [OF assms] burst_count [OF assms] by blast

theorem burst_reports_each_tool_once_witness:
  "\<exists>data recs w'. run_burst_enrichment (pe_tools demo_env) demo_alert demo_entities [''T1059.001''] 30
      Map.empty = (Inr (data, recs), w')
    \<and> distinct (map tcr_tool_name recs) \<and> length recs \<le> 9"
proof -
  obtain x w' where x: "run_burst_enrichment (pe_tools demo_env) demo_alert demo_entities [''T1059.001'']
      30 Map.empty = (Inr x, w')"
    using no_raise_burst by (rule no_raiseE)
  obtain data recs where "x = (data, recs)" by fastforce
  note b = x [unfolded this]
  from burst_reports_each_tool_once [OF b] b show ?thesis by blast
qed

text \<open>
  Every call the burst schedules is to a registered tool, with parameters that the tool's
  input schema accepts (query types, look-back bounds, field types).
\<close>

theorem burst_inputs_valid:
  assumes "(n, p) \<in> set (burst_tasks alert entities tids)"
  shows "n \<in> set tool_registry \<and> schema_accepts n p"
proof -
  have s: "schema_accepts n p" using assms by (rule burst_tasks_accepted)
  then obtain sch where "map_of REGISTRY_SCHEMAS n = Some sch"
    by (auto simp: schema_accepts_def split: option.splits)
  then have "n \<in> set tool_registry"
    by (force simp: tool_registry_def dest: map_of_SomeD)
  with s show ?thesis by simp
qed

theorem burst_inputs_valid_witness:
  "schema_accepts ''lookup_threat_intel'' [(''ioc_type'', JStr ''ip''), (''ioc_value'', JStr ''203.0.113.7'')]"
proof -
  have "(''lookup_threat_intel'', [(''ioc_type'', JStr ''ip''), (''ioc_value'', JStr ''203.0.113.7'')])
      \<in> set (burst_tasks demo_alert demo_entities [''T1071.001''])"
    by code_simp
  from burst_inputs_valid [OF this] show ?thesis by blast
qed

text \<open>
  C8. A tool that raises or times out does not break the run and leaves nothing in the cache: the
  execution completes with an error record marked unavailable, and after the failed call nothing
  but the clock is read.
\<close>

theorem failed_tool_not_cached:
  assumes "env_now_ms env w = (t0, w1)"
    and "cache_get (env_lib env) (env_cache env) n p w1 = (Inr v, w2)" "\<not> truthy v"
    and "n \<in> set tool_registry" "env_run_tool env n p t w2 = (Inl e, w3)"
    and "env_as_bool env (JBool False) = Some False"
  shows "\<exists>d r. execute_single_tool env n p t w = (Inr (n, d, r), snd (env_now_ms env w3))
    \<and> tcr_error r \<noteq> None \<and> \<not> tcr_source_available r \<and> \<not> cacheable d"
proof -
  let ?msg = "case e of TimeoutError \<Rightarrow> ''Timeout after '' @ show_int t @ ''s'' | e \<Rightarrow> exn_str e"
  let ?d = "[(''source_available'', JBool False), (''error'', JStr ?msg)]"
  have g: "guarded_tool_call env n p t w2 = (Inr ?d, w3)"
    using assms(5) by (simp add: guarded_tool_call_def)
  have nc: "\<not> cacheable ?d" by (simp add: cacheable_def)
  obtain t1 w4 where t1: "env_now_ms env w3 = (t1, w4)" by fastforce
  obtain c where c: "compress_tool_result (env_lib env) n ?d = Inr c"
    using compress_unavailable [of ?d] by auto
  let ?r = "\<lparr>tcr_tool_name = n, tcr_input_params = p, tcr_result_summary = c, tcr_raw_result = ?d,
      tcr_source_available = False, tcr_latency_ms = t1 - t0, tcr_error = Some ?msg\<rparr>"
  have "make_record env n p c ?d (t1 - t0) (JBool False) (JStr ?msg) = Inr ?r"
    using assms(6) by (simp add: make_record_def Let_def)
  with assms g nc t1 c have "execute_single_tool env n p t w = (Inr (n, ?d, ?r), w4)"
    by (simp add: execute_single_tool_def now_ms_io_def bind_io_def dict_get_def)
  with nc t1 show ?thesis by fastforce
qed

theorem failed_tool_not_cached_witness:
  "\<exists>d r. execute_single_tool ((pe_tools demo_env)\<lparr>env_run_tool := (\<lambda>n p t. raise_io TimeoutError)\<rparr>)
      ''query_cmdb'' [] 30 Map.empty = (Inr (''query_cmdb'', d, r), Map.empty) \<and> \<not> cacheable d"
proof -
  let ?e = "(pe_tools demo_env)\<lparr>env_run_tool := (\<lambda>n p t. raise_io TimeoutError)\<rparr>"
  have now: "env_now_ms ?e Map.empty = (0, Map.empty)" by (simp add: demo_env_def)
  have get: "cache_get (env_lib ?e) (env_cache ?e) ''query_cmdb'' [] Map.empty = (Inr JNull, Map.empty)"
    by (simp add: cache_get_def demo_env_def demo_redis_def map_redis_def try_io_def bind_io_def)
  have reg: "''query_cmdb'' \<in> set tool_registry" by (simp add: tool_registry_def REGISTRY_SCHEMAS_def)
  have call: "env_run_tool ?e ''query_cmdb'' [] 30 Map.empty = (Inl TimeoutError, Map.empty)" by simp
  have asb: "env_as_bool ?e (JBool False) = Some False" by (simp add: demo_env_def)
  have nt: "\<not> truthy JNull" by simp
  from failed_tool_not_cached [OF now get nt reg call asb]
  show ?thesis unfolding now snd_conv by blast
qed

text \<open>
  A tool name outside the registry never reaches a connector, whatever name a model planned:
  the execution is the same for every connector.
\<close>

theorem unregistered_tool_not_run:
  assumes "n \<notin> set tool_registry"
  shows "execute_single_tool (env\<lparr>env_run_tool := f\<rparr>) n p t w = execute_single_tool env n p t w"
  using assms by (rule execute_unregistered_indep)

theorem unregistered_tool_not_run_witness:
  "execute_single_tool ((pe_tools demo_env)\<lparr>env_run_tool := (\<lambda>n p t. raise_io TimeoutError)\<rparr>)
     ''drop_table'' [] 30 Map.empty = execute_single_tool (pe_tools demo_env) ''drop_table'' [] 30 Map.empty"
proof -
  have "''drop_table'' \<notin> set tool_registry" by (simp add: tool_registry_def REGISTRY_SCHEMAS_def)
  then show ?thesis by (rule unregistered_tool_not_run)
qed

end
