(* ===== verification/Event_Seq.thy ===== *)
theory Event_Seq
  imports Redis_Port Demo_World
begin

section \<open>services/_runtime/event_seq.py: sequence numbers of an alert's events\<close>

text \<open>
  \<open>EventSequencer\<close> numbers the events of an alert from a Redis counter, or from a dictionary of
  the process (\<open>_local_counters\<close>, passed through as \<open>lc\<close>) when there is no client or a command
  raised. \<open>sequencer\<close> is the contract of a numbering; the process-local one is an instance
  whatever happens, the Redis one under the laws of \<open>Redis_Port\<close>.
\<close>

definition seq_key :: "string \<Rightarrow> string" where
  "seq_key alert_id = ''seq:'' @ alert_id"

record 'w event_sequencer =
  sq_ttl :: int
  sq_client :: "'w redis option"

type_synonym counters = "(string \<times> int) list"

definition SEQ_DEFAULT_TTL_SEC :: int where
  "SEQ_DEFAULT_TTL_SEC = 24 * 60 * 60"

definition EventSequencer_init ::
    "(string \<Rightarrow> exn + 'w redis) \<Rightarrow> string \<Rightarrow> int \<Rightarrow> 'w event_sequencer" where
  "EventSequencer_init from_url redis_url ttl_seconds =
     \<lparr>sq_ttl = ttl_seconds,
      sq_client = (case from_url redis_url of Inl e \<Rightarrow> None | Inr c \<Rightarrow> Some c)\<rparr>"

definition local_peek :: "string \<Rightarrow> counters \<Rightarrow> int" where
  "local_peek alert_id lc = (case map_of lc alert_id of None \<Rightarrow> 0 | Some n \<Rightarrow> n)"

definition local_next :: "string \<Rightarrow> counters \<Rightarrow> int \<times> counters" where
  "local_next alert_id lc =
     (let n = local_peek alert_id lc + 1 in (n, AList.update alert_id n lc))"

definition local_reset :: "string \<Rightarrow> counters \<Rightarrow> counters" where
  "local_reset alert_id lc = AList.delete alert_id lc"

definition next_seq :: "'w event_sequencer \<Rightarrow> counters \<Rightarrow> string \<Rightarrow> ('w, int \<times> counters) io" where
  "next_seq sq lc alert_id =
     (case sq_client sq of
        None \<Rightarrow> ret_io (local_next alert_id lc)
      | Some client \<Rightarrow>
          try_io
            (bind_io (rd_incr client (seq_key alert_id)) (\<lambda>seq.
             bind_io (rd_expire client (seq_key alert_id) (sq_ttl sq)) (\<lambda>_.
               ret_io (seq, lc))))
            (\<lambda>exc. ret_io (local_next alert_id lc)))"

definition current_seq :: "'w event_sequencer \<Rightarrow> counters \<Rightarrow> string \<Rightarrow> ('w, int) io" where
  "current_seq sq lc alert_id =
     (case sq_client sq of
        None \<Rightarrow> ret_io (local_peek alert_id lc)
      | Some client \<Rightarrow>
          try_io
            (bind_io (rd_get client (seq_key alert_id)) (\<lambda>raw.
               (case raw of
                  None \<Rightarrow> ret_io 0
                | Some s \<Rightarrow> if s = [] then ret_io 0 else of_result (py_int s))))
            (\<lambda>exc. ret_io 0))"

definition reset_seq :: "'w event_sequencer \<Rightarrow> counters \<Rightarrow> string \<Rightarrow> ('w, counters) io" where
  "reset_seq sq lc alert_id =
     (case sq_client sq of
        None \<Rightarrow> ret_io (local_reset alert_id lc)
      | Some client \<Rightarrow>
          try_io (bind_io (rd_delete client [seq_key alert_id]) (\<lambda>_. ret_io lc)) (\<lambda>exc. ret_io lc))"

subsection \<open>The contract of a numbering\<close>

text \<open>The \<open>n\<close> numbers from \<open>c\<close> on.\<close>

fun count_from :: "int \<Rightarrow> nat \<Rightarrow> int list" where
  "count_from c 0 = []"
| "count_from c (Suc n) = c # count_from (c + 1) n"

locale sequencer =
  fixes nxt :: "string \<Rightarrow> 's \<Rightarrow> int \<times> 's"
    and peek :: "string \<Rightarrow> 's \<Rightarrow> int"
    and drop :: "string \<Rightarrow> 's \<Rightarrow> 's"
  assumes nxt_num: "fst (nxt a s) = peek a s + 1"
    and peek_nxt: "peek b (snd (nxt a s)) = (if b = a then peek a s + 1 else peek b s)"
    and peek_drop: "peek b (drop a s) = (if b = a then 0 else peek b s)"
begin

fun numbers :: "string list \<Rightarrow> 's \<Rightarrow> (string \<times> int) list" where
  "numbers [] s = []"
| "numbers (a # as) s = (case nxt a s of (n, s') \<Rightarrow> (a, n) # numbers as s')"

text \<open>
  Whatever the interleaving of alerts, the numbers one alert gets are consecutive from its
  counter: no gap, no repetition.
\<close>

lemma numbers_of_one:
  "map snd (filter (\<lambda>(b, n). b = a) (numbers as s)) =
     count_from (peek a s + 1) (length (filter (\<lambda>b. b = a) as))"
proof (induction "as" arbitrary: s)
  case (Cons b bs)
  obtain n s' where n: "nxt b s = (n, s')" by fastforce
  with nxt_num [of b s] peek_nxt [of a b s] have num: "n = peek b s + 1"
    and pk: "peek a s' = (if a = b then peek b s + 1 else peek a s)" by simp_all
  from n num pk Cons.IH [of s'] show ?case by (cases "b = a") simp_all
qed simp

end

lemma local_peek_update:
  "local_peek b (AList.update a n lc) = (if b = a then n else local_peek b lc)"
  by (simp add: local_peek_def update_conv)

lemma local_peek_reset: "local_peek b (local_reset a lc) = (if b = a then 0 else local_peek b lc)"
  by (simp add: local_peek_def local_reset_def delete_conv)

interpretation local_seq: sequencer local_next local_peek local_reset
  by unfold_locales
    (simp_all add: local_next_def Let_def local_peek_update local_peek_reset)

subsection \<open>The counter in Redis\<close>

lemma no_raise_next: "no_raise (next_seq sq lc a)"
  unfolding next_seq_def by (auto split: option.splits intro!: no_raise_intros)

lemma no_raise_current: "no_raise (current_seq sq lc a)"
  unfolding current_seq_def by (auto split: option.splits intro!: no_raise_intros)

lemma seq_key_inj [simp]: "seq_key a = seq_key b \<longleftrightarrow> a = b"
  by (simp add: seq_key_def)

text \<open>The view of an alert's counter.\<close>

definition seq_of :: "('w \<Rightarrow> kv) \<Rightarrow> (string \<Rightarrow> int) \<Rightarrow> 'w \<Rightarrow> string \<Rightarrow> int" where
  "seq_of kv parse w a = counter_of (kv w (seq_key a)) parse"

lemma next_seq_redis:
  assumes "redis_ok r kv p" "redis_up r" "sq_client sq = Some r"
  shows "\<exists>w'. next_seq sq lc a w = (Inr (seq_of kv p w a + 1, lc), w')
    \<and> (\<forall>b. seq_of kv p w' b = (if b = a then seq_of kv p w a + 1 else seq_of kv p w b))"
proof -
  obtain n w1 where i: "rd_incr r (seq_key a) w = (Inr n, w1)"
    using redis_upE(5) [OF assms(2)] by (rule no_raiseE)
  obtain u w2 where e: "rd_expire r (seq_key a) (sq_ttl sq) w1 = (Inr u, w2)"
    using redis_upE(6) [OF assms(2)] by (rule no_raiseE)
  note k = rd_incr_Inr [OF assms(1) i] rd_expire_kv [OF assms(1) e]
  from assms(3) i e have "next_seq sq lc a w = (Inr (n, lc), w2)" by (simp add: next_seq_def)
  with k parse_show [OF assms(1)] show ?thesis
    by (auto simp: seq_of_def counter_of_def)
qed

text \<open>The numbers a run of the sequencer gives out, one event after another.\<close>

fun event_numbers ::
    "'w event_sequencer \<Rightarrow> counters \<Rightarrow> string list \<Rightarrow> 'w \<Rightarrow> (string \<times> int) list" where
  "event_numbers sq lc [] w = []"
| "event_numbers sq lc (a # as) w =
     (case next_seq sq lc a w of
        (Inr (n, lc'), w') \<Rightarrow> (a, n) # event_numbers sq lc' as w'
      | (Inl e, w') \<Rightarrow> [])"

lemma event_numbers_redis:
  assumes "redis_ok r kv p" "redis_up r" "sq_client sq = Some r"
  shows "map snd (filter (\<lambda>(b, n). b = a) (event_numbers sq lc as w)) =
    count_from (seq_of kv p w a + 1) (length (filter (\<lambda>b. b = a) as))"
proof (induction "as" arbitrary: w)
  case (Cons b bs)
  from next_seq_redis [OF assms, of lc b w] obtain w' where
    n: "next_seq sq lc b w = (Inr (seq_of kv p w b + 1, lc), w')"
    and pk: "seq_of kv p w' a = (if a = b then seq_of kv p w b + 1 else seq_of kv p w a)"
    by blast
  from n pk Cons.IH [of w'] show ?case by (cases "b = a") simp_all
qed simp

text \<open>
  When the increment succeeds and only the refresh of the expiry raises, the number that was
  drawn is lost and the process-local counter answers instead.
\<close>

lemma next_seq_expire_fails:
  assumes "sq_client sq = Some r" "rd_incr r (seq_key a) w = (Inr n, w1)"
    and "rd_expire r (seq_key a) (sq_ttl sq) w1 = (Inl e, w2)"
  shows "next_seq sq lc a w = (Inr (local_next a lc), w2)"
  using assms by (simp add: next_seq_def)

subsection \<open>The properties of the numbering\<close>

text \<open>
  With Redis reachable, the numbers one alert's events get are consecutive, whatever the
  interleaving with events of other alerts: no gap, no repetition, starting after the counter.
\<close>

theorem redis_numbers_consecutive:
  assumes "redis_ok r kv p" "redis_up r" "sq_client sq = Some r"
  shows "map snd (filter (\<lambda>(b, n). b = a) (event_numbers sq lc as w)) =
    count_from (seq_of kv p w a + 1) (length (filter (\<lambda>b. b = a) as))"
  using assms by (rule event_numbers_redis)

theorem redis_numbers_consecutive_witness:
  "map snd (filter (\<lambda>(b, n). b = ''x'')
     (event_numbers \<lparr>sq_ttl = 600, sq_client = Some demo_redis\<rparr> [] [''x'', ''y'', ''x''] Map.empty)) = [1, 2]"
proof -
  have c: "sq_client \<lparr>sq_ttl = 600, sq_client = Some demo_redis\<rparr> = Some demo_redis" by simp
  show ?thesis
    using redis_numbers_consecutive [OF demo_redis_ok demo_redis_up c,
        of "''x''" "[]" "[''x'', ''y'', ''x'']" Map.empty]
    by (simp add: seq_of_def counter_of_def numeral_2_eq_2)
qed

lemma event_numbers_local:
  "sq_client sq = None \<Longrightarrow> event_numbers sq lc as w = local_seq.numbers as lc"
  by (induction "as" arbitrary: lc) (auto simp: next_seq_def split: prod.splits)

text \<open>
  Without Redis the process-local counters give the same guarantee: consecutive numbers per
  alert, in any interleaving.
\<close>

theorem local_numbers_consecutive:
  assumes "sq_client sq = None"
  shows "map snd (filter (\<lambda>(b, n). b = a) (event_numbers sq lc as w)) =
    count_from (local_peek a lc + 1) (length (filter (\<lambda>b. b = a) as))"
  using assms by (simp add: event_numbers_local local_seq.numbers_of_one)

theorem local_numbers_consecutive_witness:
  "map snd (filter (\<lambda>(b, n). b = ''x'')
     (event_numbers \<lparr>sq_ttl = 600, sq_client = (None :: unit redis option)\<rparr> [(''x'', 4)]
        [''x'', ''y'', ''x''] ())) = [5, 6]"
proof -
  have c: "sq_client \<lparr>sq_ttl = 600, sq_client = (None :: unit redis option)\<rparr> = None" by simp
  show ?thesis
    using local_numbers_consecutive [OF c, of "''x''" "[(''x'', 4)]" "[''x'', ''y'', ''x'']" "()"]
    by (simp add: local_peek_def numeral_2_eq_2)
qed

end
