(* ===== verification/Jwt_Service.thy ===== *)
theory Jwt_Service
  imports Json Demo_World
begin

section \<open>services/_runtime/tenant.py and jwt_service.py: verified identity\<close>

text \<open>
  \<open>get_tenant_id\<close> over the contexts it accepts, and the HS256 token service: minting, and
  verification with its cache, the overlap of two secrets and the revocation check. PyJWT is a
  parameter: \<open>jw_encode claims secret\<close>, and \<open>jw_decode token secret audience leeway\<close> at a time,
  which raises \<open>PyJWTError\<close> when it rejects (and may raise more). What some lemmas rely on is
  \<open>jwt_ok\<close>: a token decodes under a plain secret to exactly the claims it was encoded from with that
  secret, while they are what PyJWT accepts for the audience at the time, and it is rejected under
  every other plain secret.
\<close>

subsection \<open>The tenant of a request\<close>

record auth_context =
  au_user_id :: json
  au_tenant_id :: string
  au_audience :: string
  au_role :: json
  au_jti :: json

text \<open>
  What callers pass: an \<open>AuthContext\<close>, an object with (or without) \<open>state.auth\<close>, a mapping with (or
  without) an \<open>auth\<close> entry of the right type.
\<close>

datatype auth_source =
    IsAuth auth_context
  | FromMapping "auth_context option"
  | FromState "auth_context option"

fun extract_auth :: "auth_source \<Rightarrow> exn + auth_context" where
  "extract_auth (IsAuth a) = Inr a"
| "extract_auth (FromMapping (Some a)) = Inr a"
| "extract_auth (FromMapping None) = Inl (TenantContextError ''mapping has no auth AuthContext'')"
| "extract_auth (FromState (Some a)) = Inr a"
| "extract_auth (FromState None) = Inl (TenantContextError ''no AuthContext found'')"

definition get_tenant_id :: "auth_source \<Rightarrow> exn + string" where
  "get_tenant_id ctx =
     bind_r (extract_auth ctx) (\<lambda>auth.
       if str_strip (au_tenant_id auth) = []
       then Inl (TenantContextError ''auth context present but tenant_id is empty'')
       else Inr (au_tenant_id auth))"

subsection \<open>The service\<close>

record secret_bundle =
  sb_audience :: string
  sb_current :: string
  sb_previous :: "string option"
  sb_rotated_at :: rat

record cache_entry =
  ce_payload :: jdict
  ce_audience :: string
  ce_expires_at :: rat

type_synonym jwt_cache = "(string \<times> cache_entry) list"

record 'w jwt_service =
  jw_audience :: string
  jw_provider :: "exn + secret_bundle"
  jw_revoked :: "(json \<Rightarrow> ('w, bool) io) option"
  jw_ttl :: int
  jw_leeway :: int
  jw_lib :: pylib
  jw_time :: "'w \<Rightarrow> rat \<times> 'w"
  jw_new_jti :: "'w \<Rightarrow> string \<times> 'w"
  jw_encode :: "jdict \<Rightarrow> string \<Rightarrow> string"
  jw_decode :: "string \<Rightarrow> string \<Rightarrow> string \<Rightarrow> int \<Rightarrow> rat \<Rightarrow> exn + jdict"

definition CACHE_MAX_ENTRIES :: nat where
  "CACHE_MAX_ENTRIES = 10000"

definition jwt_now :: "'w jwt_service \<Rightarrow> ('w, rat) io" where
  "jwt_now sv w = (case jw_time sv w of (t, w') \<Rightarrow> (Inr t, w'))"

fun extend_claims :: "jdict \<Rightarrow> jdict \<Rightarrow> exn + jdict" where
  "extend_claims claims [] = Inr claims"
| "extend_claims claims ((k, v) # rest) =
     (if has_key claims k then Inl (JWTError (''extra_claims may not override reserved claim '' @ repr_str k))
      else extend_claims (claims @ [(k, v)]) rest)"

definition base_claims ::
    "'w jwt_service \<Rightarrow> string \<Rightarrow> string \<Rightarrow> string \<Rightarrow> string option \<Rightarrow> string \<Rightarrow> int \<Rightarrow> jdict" where
  "base_claims sv subject tenant_id target_audience role jti now =
     [(''iss'', JStr (jw_audience sv)), (''sub'', JStr subject), (''aud'', JStr target_audience),
      (''tid'', JStr tenant_id), (''jti'', JStr jti), (''iat'', JInt now),
      (''exp'', JInt (now + jw_ttl sv))]
     @ (case role of None \<Rightarrow> [] | Some r \<Rightarrow> [(''role'', JStr r)])"

definition mint ::
    "'w jwt_service \<Rightarrow> string \<Rightarrow> string \<Rightarrow> string \<Rightarrow> string option \<Rightarrow> jdict \<Rightarrow> ('w, string) io" where
  "mint sv subject tenant_id target_audience role extra_claims =
     bind_io (of_result (jw_provider sv)) (\<lambda>bundle.
     if sb_audience bundle \<noteq> jw_audience sv
     then raise_io (JWTError ''bundle audience does not match service audience'')
     else
       bind_io (jwt_now sv) (\<lambda>t.
       bind_io (\<lambda>w. case jw_new_jti sv w of (j, w') \<Rightarrow> (Inr j, w')) (\<lambda>jti.
       bind_io (of_result (extend_claims
           (base_claims sv subject tenant_id target_audience role jti \<lfloor>t\<rfloor>) extra_claims)) (\<lambda>claims.
         ret_io (jw_encode sv claims (sb_current bundle))))))"

text \<open>Only \<open>PyJWTError\<close> moves on to the next secret; with none left it is a \<open>JWTError\<close>.\<close>

fun decode_with ::
    "'w jwt_service \<Rightarrow> string \<Rightarrow> rat \<Rightarrow> string list \<Rightarrow> exn option \<Rightarrow> exn + jdict" where
  "decode_with sv token now [] last_err =
     Inl (JWTError (''token verification failed: ''
       @ (case last_err of None \<Rightarrow> ''None'' | Some e \<Rightarrow> exn_str e)))"
| "decode_with sv token now (secret # rest) last_err =
     (if secret = [] then decode_with sv token now rest last_err
      else
        (case jw_decode sv token secret (jw_audience sv) (jw_leeway sv) now of
           Inr payload \<Rightarrow> Inr payload
         | Inl (PyJWTError m) \<Rightarrow> decode_with sv token now rest (Some (PyJWTError m))
         | Inl e \<Rightarrow> Inl e))"

definition bundle_secrets :: "secret_bundle \<Rightarrow> string list" where
  "bundle_secrets b =
     [sb_current b] @ (case sb_previous b of None \<Rightarrow> [] | Some s \<Rightarrow> [s])"

definition decode_with_rotation :: "'w jwt_service \<Rightarrow> string \<Rightarrow> rat \<Rightarrow> secret_bundle \<Rightarrow> exn + jdict" where
  "decode_with_rotation sv token now bundle = decode_with sv token now (bundle_secrets bundle) None"

text \<open>
  A failing check counts as not revoked. The entry dropped from the cache is the one under the
  key \<open>jti\<close>, although the cache's keys are tokens.
\<close>

definition check_revocation ::
    "'w jwt_service \<Rightarrow> jwt_cache \<Rightarrow> json \<Rightarrow> ('w, exn option \<times> jwt_cache) io" where
  "check_revocation sv cache jti =
     (case jw_revoked sv of
        None \<Rightarrow> ret_io (None, cache)
      | Some revoked_of \<Rightarrow>
          if \<not> truthy jti then ret_io (None, cache)
          else
            bind_io (try_io (revoked_of jti) (\<lambda>exc. ret_io False)) (\<lambda>revoked.
            if \<not> revoked then ret_io (None, cache)
            else
              (case jti of
                 JStr j \<Rightarrow> ret_io (Some (JWTError ''token revoked''), AList.delete j cache)
               | JList _ \<Rightarrow> ret_io (Some (TypeError ''unhashable type''), cache)
               | JDict _ \<Rightarrow> ret_io (Some (TypeError ''unhashable type''), cache)
               | _ \<Rightarrow> ret_io (Some (JWTError ''token revoked''), cache))))"

definition maybe_evict :: "'w jwt_service \<Rightarrow> jwt_cache \<Rightarrow> ('w, jwt_cache) io" where
  "maybe_evict sv cache =
     (if length cache < CACHE_MAX_ENTRIES then ret_io cache
      else
        bind_io (jwt_now sv) (\<lambda>now.
          (let alive = filter (\<lambda>(k, e). \<not> ce_expires_at e \<le> now) cache in
           if length alive \<ge> CACHE_MAX_ENTRIES then
             (let oldest = sort_key (\<lambda>kv. ce_expires_at (snd kv)) alive;
                  victims = map fst (take (length oldest div 4) oldest)
              in ret_io (filter (\<lambda>(k, e). k \<notin> set victims) alive))
           else ret_io alive)))"

definition to_auth :: "'w jwt_service \<Rightarrow> jdict \<Rightarrow> string \<Rightarrow> auth_context" where
  "to_auth sv payload audience =
     \<lparr>au_user_id = dict_get payload ''sub'' JNull,
      au_tenant_id = py_str (float_repr (jw_lib sv)) (dict_get payload ''tid'' JNull),
      au_audience = audience,
      au_role = dict_get payload ''role'' JNull,
      au_jti = dict_get payload ''jti'' JNull\<rparr>"

definition required_claims :: "string list" where
  "required_claims = [''sub'', ''tid'', ''jti'', ''iat'', ''exp'']"

text \<open>The claims of a decoded payload are checked, and the token enters the cache.\<close>

definition admit_payload ::
    "'w jwt_service \<Rightarrow> jwt_cache \<Rightarrow> string \<Rightarrow> jdict \<Rightarrow> ('w, (exn + auth_context) \<times> jwt_cache) io" where
  "admit_payload sv cache token payload =
     (if dict_get payload ''aud'' JNull \<noteq> JStr (jw_audience sv)
      then ret_io (Inl (JWTError ''audience mismatch''), cache)
      else if \<not> list_all (has_key payload) required_claims
      then ret_io (Inl (JWTError ''missing required claim''), cache)
      else
        bind_io (check_revocation sv cache (dict_get payload ''jti'' JNull)) (\<lambda>(err, cache).
        (case err of
           Some e \<Rightarrow> ret_io (Inl e, cache)
         | None \<Rightarrow>
             bind_io (maybe_evict sv cache) (\<lambda>cache.
             (case as_float (jw_lib sv) (dict_get payload ''exp'' JNull) of
                Inl e \<Rightarrow> ret_io (Inl e, cache)
              | Inr ex \<Rightarrow> ret_io (Inr (to_auth sv payload (jw_audience sv)),
                  AList.update token
                    \<lparr>ce_payload = payload, ce_audience = jw_audience sv, ce_expires_at = ex\<rparr>
                    cache))))))"

text \<open>The part of \<open>verify\<close> that a cache hit skips.\<close>

definition verify_fresh ::
    "'w jwt_service \<Rightarrow> jwt_cache \<Rightarrow> string \<Rightarrow> ('w, (exn + auth_context) \<times> jwt_cache) io" where
  "verify_fresh sv cache token =
     (case jw_provider sv of
        Inl e \<Rightarrow> ret_io (Inl e, cache)
      | Inr bundle \<Rightarrow>
          bind_io (jwt_now sv) (\<lambda>now.
          (case decode_with_rotation sv token now bundle of
             Inl e \<Rightarrow> ret_io (Inl e, cache)
           | Inr payload \<Rightarrow> admit_payload sv cache token payload)))"

text \<open>\<open>verify\<close>; the cache is part of the result because it changes when verification fails too.\<close>

definition verify ::
    "'w jwt_service \<Rightarrow> jwt_cache \<Rightarrow> string \<Rightarrow> ('w, (exn + auth_context) \<times> jwt_cache) io" where
  "verify sv cache token =
     (case map_of cache token of
        None \<Rightarrow> verify_fresh sv cache token
      | Some entry \<Rightarrow>
          bind_io (jwt_now sv) (\<lambda>now.
          if ce_expires_at entry > now then
            bind_io (check_revocation sv cache (dict_get (ce_payload entry) ''jti'' JNull)) (\<lambda>(err, cache).
            (case err of
               Some e \<Rightarrow> ret_io (Inl e, cache)
             | None \<Rightarrow> ret_io (Inr (to_auth sv (ce_payload entry) (ce_audience entry)), cache)))
          else verify_fresh sv cache token))"

subsection \<open>What is relied on of PyJWT\<close>

text \<open>
  The claims PyJWT accepts for an audience at a time: the audience is that one text, \<open>exp\<close>, \<open>iat\<close>
  and, if present, \<open>nbf\<close> are whole seconds that admit the time within the leeway, \<open>sub\<close> and \<open>jti\<close>
  are texts, and what the options require is there. The values are texts and numbers, which JSON
  gives back as they were. A key is plain when it is made as the secret store makes its secrets:
  letters, digits, hyphens and underscores, at most the 64 bytes of an HMAC block (a longer key is
  hashed, one with trailing zero bytes is the key without them) and no name of an SSH key format,
  which PyJWT refuses.
\<close>

fun flat_value :: "json \<Rightarrow> bool" where
  "flat_value (JStr s) = True"
| "flat_value (JInt i) = True"
| "flat_value _ = False"

definition claims_valid :: "jdict \<Rightarrow> string \<Rightarrow> int \<Rightarrow> rat \<Rightarrow> bool" where
  "claims_valid claims audience leeway now \<longleftrightarrow>
     dict_get claims ''aud'' JNull = JStr audience
     \<and> (\<exists>e. dict_get claims ''exp'' JNull = JInt e \<and> now - of_int leeway < of_int e)
     \<and> (\<exists>i. dict_get claims ''iat'' JNull = JInt i \<and> of_int i \<le> now + of_int leeway)
     \<and> (has_key claims ''nbf'' \<longrightarrow>
          (\<exists>n. dict_get claims ''nbf'' JNull = JInt n \<and> of_int n \<le> now + of_int leeway))
     \<and> (\<exists>s. dict_get claims ''sub'' JNull = JStr s) \<and> (\<exists>j. dict_get claims ''jti'' JNull = JStr j)
     \<and> list_all (has_key claims) required_claims
     \<and> distinct (map fst claims) \<and> list_all (\<lambda>(k, v). flat_value v) claims"

definition urlsafe :: "char \<Rightarrow> bool" where
  "urlsafe c = (let n = of_char c :: nat in
     97 \<le> n \<and> n \<le> 122 \<or> 65 \<le> n \<and> n \<le> 90 \<or> 48 \<le> n \<and> n \<le> 57 \<or> n = 45 \<or> n = 95)"

definition plain_key :: "string \<Rightarrow> bool" where
  "plain_key k \<longleftrightarrow> k \<noteq> [] \<and> length k \<le> 64 \<and> list_all urlsafe k
     \<and> \<not> str_in ''ssh-'' k \<and> \<not> str_in ''ecdsa-'' k"

definition jwt_ok :: "'w jwt_service \<Rightarrow> bool" where
  "jwt_ok sv \<longleftrightarrow>
     (\<forall>claims k aud lw now. plain_key k \<and> claims_valid claims aud lw now \<longrightarrow>
        jw_decode sv (jw_encode sv claims k) k aud lw now = Inr claims)
     \<and> (\<forall>claims k k' aud lw now. plain_key k \<and> plain_key k' \<and> k' \<noteq> k \<longrightarrow>
        (\<exists>m. jw_decode sv (jw_encode sv claims k) k' aud lw now = Inl (PyJWTError m)))"

subsection \<open>Facts of verification\<close>

text \<open>
  \<open>signed_payload sv K token p\<close>: the library decoded exactly this token, for the service's audience,
  under one of the secrets \<open>K\<close> and gave \<open>p\<close>. The cache holds only such payloads, each under its
  token; \<open>K\<close> are the secrets the service has held so far.
\<close>

definition signed_payload :: "'w jwt_service \<Rightarrow> string set \<Rightarrow> string \<Rightarrow> jdict \<Rightarrow> bool" where
  "signed_payload sv K token p \<longleftrightarrow>
     (\<exists>secret t. secret \<in> K \<and> secret \<noteq> []
        \<and> jw_decode sv token secret (jw_audience sv) (jw_leeway sv) t = Inr p)"

definition entry_ok :: "string set \<Rightarrow> 'w jwt_service \<Rightarrow> string \<Rightarrow> cache_entry \<Rightarrow> bool" where
  "entry_ok K sv token e \<longleftrightarrow> ce_audience e = jw_audience sv
     \<and> dict_get (ce_payload e) ''aud'' JNull = JStr (jw_audience sv)
     \<and> list_all (has_key (ce_payload e)) required_claims
     \<and> signed_payload sv K token (ce_payload e)"

definition cache_ok :: "string set \<Rightarrow> 'w jwt_service \<Rightarrow> jwt_cache \<Rightarrow> bool" where
  "cache_ok K sv c \<longleftrightarrow> (\<forall>(k, e) \<in> set c. entry_ok K sv k e)"

definition holds_secrets :: "string set \<Rightarrow> 'w jwt_service \<Rightarrow> bool" where
  "holds_secrets K sv \<longleftrightarrow> (\<forall>b. jw_provider sv = Inr b \<longrightarrow> set (bundle_secrets b) \<subseteq> K)"

lemma decode_with_signed:
  "decode_with sv token t ks le = Inr p \<Longrightarrow> signed_payload sv (set ks) token p"
proof (induction sv token t ks le rule: decode_with.induct)
  case (2 sv token now secret rest last_err)
  show ?case
  proof (cases "\<exists>q. secret \<noteq> [] \<and> jw_decode sv token secret (jw_audience sv) (jw_leeway sv) now = Inr q")
    case True
    with 2(3) have "secret \<noteq> []" "jw_decode sv token secret (jw_audience sv) (jw_leeway sv) now = Inr p"
      by auto
    then show ?thesis unfolding signed_payload_def by (intro exI [of _ secret] exI [of _ now]) simp
  next
    case False
    with 2(3) have "signed_payload sv (set rest) token p"
      by (auto intro: 2(1,2) split: if_splits sum.splits exn.splits)
    then show ?thesis by (auto simp: signed_payload_def)
  qed
qed simp

lemma rotation_signed:
  assumes "decode_with_rotation sv token t b = Inr p" "jw_provider sv = Inr b" "holds_secrets K sv"
  shows "signed_payload sv K token p"
  using decode_with_signed [OF assms(1) [unfolded decode_with_rotation_def]] assms(2,3)
  unfolding signed_payload_def holds_secrets_def by blast

lemma cache_ok_Nil: "cache_ok K sv []"
  by (simp add: cache_ok_def)

lemma cache_ok_subset: "cache_ok K sv c \<Longrightarrow> set c' \<subseteq> set c \<Longrightarrow> cache_ok K sv c'"
  by (auto simp: cache_ok_def)

lemma set_delete_subset: "set (AList.delete k xs) \<subseteq> set xs"
  by (induction xs) auto

lemma set_update_subset: "set (AList.update k v xs) \<subseteq> insert (k, v) (set xs)"
  by (induction xs) auto

lemma cache_ok_update: "cache_ok K sv c \<Longrightarrow> entry_ok K sv k e \<Longrightarrow> cache_ok K sv (AList.update k e c)"
  using set_update_subset [of k e c] by (fastforce simp: cache_ok_def)

lemma no_raise_jwt_now: "no_raise (jwt_now sv)"
  by (auto simp: no_raise_def jwt_now_def split: prod.splits)

lemma no_raise_check_revocation: "no_raise (check_revocation sv c j)"
  unfolding check_revocation_def
  by (auto split: option.splits json.splits intro!: no_raise_intros)

lemma no_raise_maybe_evict: "no_raise (maybe_evict sv c)"
  unfolding maybe_evict_def Let_def by (auto intro!: no_raise_intros no_raise_jwt_now)

lemma no_raise_verify_fresh: "no_raise (verify_fresh sv c token)"
  unfolding verify_fresh_def admit_payload_def
  by (auto split: option.splits sum.splits intro!: no_raise_intros no_raise_jwt_now
      no_raise_check_revocation no_raise_maybe_evict)

lemma no_raise_verify: "no_raise (verify sv c token)"
  unfolding verify_def
  by (auto split: option.splits intro!: no_raise_intros no_raise_jwt_now
      no_raise_check_revocation no_raise_verify_fresh)

text \<open>A revocation check drops at most one entry, and never passes a revoked identifier.\<close>

lemma check_revocation_cache:
  "check_revocation sv c j w = (Inr (err, c'), w') \<Longrightarrow>
     c' = c \<or> (\<exists>s. j = JStr s \<and> c' = AList.delete s c \<and> err \<noteq> None)"
  by (auto simp: check_revocation_def bind_io_eq_Inr split: option.splits if_splits json.splits)

definition always_revoked :: "'w jwt_service \<Rightarrow> json \<Rightarrow> bool" where
  "always_revoked sv j \<longleftrightarrow>
     (\<exists>f. jw_revoked sv = Some f \<and> (\<forall>w. \<exists>w'. f j w = (Inr True, w')))"

lemma check_revocation_revoked:
  assumes "always_revoked sv j" "truthy j" "check_revocation sv c j w = (Inr (err, c'), w')"
  shows "err \<noteq> None"
proof -
  from assms(1) obtain f where f: "jw_revoked sv = Some f" "\<And>w. \<exists>w'. f j w = (Inr True, w')"
    by (auto simp: always_revoked_def)
  from f(2) obtain w1 where w1: "f j w = (Inr True, w1)" by blast
  with f(1) assms(2,3) show ?thesis
    by (auto simp: check_revocation_def bind_io_def try_io_def split: json.splits)
qed

text \<open>What a successful verification rests on: a payload for this audience that is not revoked.\<close>

definition accepted_payload :: "'w jwt_service \<Rightarrow> jdict \<Rightarrow> bool" where
  "accepted_payload sv p \<longleftrightarrow> dict_get p ''aud'' JNull = JStr (jw_audience sv)
     \<and> list_all (has_key p) required_claims
     \<and> \<not> (truthy (dict_get p ''jti'' JNull) \<and> always_revoked sv (dict_get p ''jti'' JNull))"

lemma admit_cases:
  assumes "admit_payload sv c token p w = (Inr (res, c'), w')"
  obtains (rejected) e where "res = Inl e" "c' = c"
  | (revoked) e w1 where "res = Inl e"
      "check_revocation sv c (dict_get p ''jti'' JNull) w = (Inr (Some e, c'), w1)"
  | (admitted) c1 w1 c2 w2 where "dict_get p ''aud'' JNull = JStr (jw_audience sv)"
      "list_all (has_key p) required_claims"
      "check_revocation sv c (dict_get p ''jti'' JNull) w = (Inr (None, c1), w1)"
      "maybe_evict sv c1 w1 = (Inr c2, w2)"
      "(\<exists>e. res = Inl e \<and> c' = c2) \<or> (\<exists>ex. res = Inr (to_auth sv p (jw_audience sv))
         \<and> c' = AList.update token
             \<lparr>ce_payload = p, ce_audience = jw_audience sv, ce_expires_at = ex\<rparr> c2)"
proof (cases "dict_get p ''aud'' JNull = JStr (jw_audience sv) \<and> list_all (has_key p) required_claims")
  case False
  with assms have "(\<exists>e. res = Inl e) \<and> c' = c" by (auto simp: admit_payload_def split: if_splits)
  then show thesis using rejected by blast
next
  case True
  obtain x w1 where "check_revocation sv c (dict_get p ''jti'' JNull) w = (Inr x, w1)"
    using no_raise_check_revocation by (rule no_raiseE)
  then obtain err c1 where cr: "check_revocation sv c (dict_get p ''jti'' JNull) w = (Inr (err, c1), w1)"
    by (cases x) auto
  show thesis
  proof (cases err)
    case (Some e)
    with assms True cr show thesis by (intro revoked) (auto simp: admit_payload_def)
  next
    case None
    obtain c2 w2 where ev: "maybe_evict sv c1 w1 = (Inr c2, w2)"
      using no_raise_maybe_evict by (rule no_raiseE)
    with assms True cr None show thesis
      by (intro admitted [OF _ _ _ ev])
        (auto simp: admit_payload_def split: sum.splits)
  qed
qed

lemma verify_fresh_cases:
  assumes "verify_fresh sv c token w = (Inr (res, c'), w')"
  obtains (failed) e where "res = Inl e" "c' = c"
  | (decoded) b t p w1 where "jw_provider sv = Inr b" "decode_with_rotation sv token t b = Inr p"
      "admit_payload sv c token p w1 = (Inr (res, c'), w')"
proof (cases "jw_provider sv")
  case (Inl e)
  with assms show thesis by (intro failed) (auto simp: verify_fresh_def)
next
  case (Inr b)
  obtain t w1 where t: "jwt_now sv w = (Inr t, w1)" using no_raise_jwt_now by (rule no_raiseE)
  show thesis
  proof (cases "decode_with_rotation sv token t b")
    case (Inl e)
    with assms Inr t show thesis by (intro failed) (auto simp: verify_fresh_def)
  next
    case (Inr p)
    with assms \<open>jw_provider sv = Inr b\<close> t show thesis
      by (intro decoded [of b t p w1]) (auto simp: verify_fresh_def)
  qed
qed

lemma verify_fresh_accepts:
  assumes "verify_fresh sv c token w = (Inr (Inr auth, c'), w')"
  obtains p where "auth = to_auth sv p (jw_audience sv)" "accepted_payload sv p"
    "\<exists>b t. jw_provider sv = Inr b \<and> decode_with_rotation sv token t b = Inr p"
  using assms
proof (cases rule: verify_fresh_cases)
  case (decoded b t p w1)
  from decoded(3) show thesis
  proof (cases rule: admit_cases)
    case (admitted c1 w2 c2 w3)
    have "\<not> (truthy (dict_get p ''jti'' JNull) \<and> always_revoked sv (dict_get p ''jti'' JNull))"
      using check_revocation_revoked [OF _ _ admitted(3)] by blast
    with that admitted decoded show thesis unfolding accepted_payload_def by blast
  qed simp_all
qed simp

text \<open>The cache stays well-formed and bounded.\<close>

lemma maybe_evict_subset: "maybe_evict sv c w = (Inr c', w') \<Longrightarrow> set c' \<subseteq> set c"
  by (auto simp: maybe_evict_def Let_def bind_io_eq_Inr split: if_splits)

lemma sum_filter_le: "length (filter P xs) \<le> length xs"
  by simp

lemma evict_room:
  assumes "maybe_evict sv c w = (Inr c', w')" "length c \<le> CACHE_MAX_ENTRIES"
  shows "length c' < CACHE_MAX_ENTRIES"
proof (cases "length c < CACHE_MAX_ENTRIES")
  case True
  with assms show ?thesis by (simp add: maybe_evict_def)
next
  case False
  obtain now w1 where now: "jwt_now sv w = (Inr now, w1)" using no_raise_jwt_now by (rule no_raiseE)
  let ?alive = "filter (\<lambda>(k, e). \<not> ce_expires_at e \<le> now) c"
  let ?oldest = "sort_key (\<lambda>kv. ce_expires_at (snd kv)) ?alive"
  let ?victims = "map fst (take (length ?oldest div 4) ?oldest)"
  show ?thesis
  proof (cases "length ?alive \<ge> CACHE_MAX_ENTRIES")
    case False
    with assms(1) now \<open>\<not> length c < CACHE_MAX_ENTRIES\<close> show ?thesis
      by (simp add: maybe_evict_def Let_def)
  next
    case True
    then have "length ?oldest div 4 \<noteq> 0" by (simp add: CACHE_MAX_ENTRIES_def)
    then have "take (length ?oldest div 4) ?oldest \<noteq> []"
      by (metis div_0 length_0_conv list.size(3) take_eq_Nil)
    then obtain x xs where x: "take (length ?oldest div 4) ?oldest = x # xs"
      using list.exhaust by blast
    have "set (take (length ?oldest div 4) ?oldest) \<subseteq> set ?alive"
      using set_take_subset [of _ ?oldest] by simp
    with x have "x \<in> set ?alive" "fst x \<in> set ?victims" by auto
    then have "length (filter (\<lambda>(k, e). k \<notin> set ?victims) ?alive) < length ?alive"
      by (intro length_filter_less [of x]) (simp_all only: case_prod_unfold not_not)
    also have "\<dots> \<le> CACHE_MAX_ENTRIES" using assms(2) length_filter_le le_trans by blast
    finally show ?thesis using assms(1) now True \<open>\<not> length c < CACHE_MAX_ENTRIES\<close>
      by (simp add: maybe_evict_def Let_def)
  qed
qed

lemma length_update_le: "length (AList.update k v xs) \<le> Suc (length xs)"
  by (induction xs) auto

lemma length_delete_le': "length (AList.delete k xs) \<le> length xs"
  by (induction xs) auto

lemma revocation_keeps:
  assumes "check_revocation sv c j w = (Inr (err, c'), w')" "cache_ok K sv c" "length c \<le> n"
  shows "cache_ok K sv c' \<and> length c' \<le> n"
proof -
  from check_revocation_cache [OF assms(1)] have "c' = c \<or> (\<exists>s. c' = AList.delete s c)" by blast
  with assms(2,3) cache_ok_subset [OF assms(2) set_delete_subset] show ?thesis
    by (auto intro: le_trans [OF length_delete_le'])
qed

lemma verify_fresh_cache:
  assumes "verify_fresh sv c token w = (Inr (res, c'), w')"
    and "cache_ok K sv c" "length c \<le> CACHE_MAX_ENTRIES" "holds_secrets K sv"
  shows "cache_ok K sv c' \<and> length c' \<le> CACHE_MAX_ENTRIES"
  using assms(1)
proof (cases rule: verify_fresh_cases)
  case (decoded b t p w1)
  from decoded(3) show ?thesis
  proof (cases rule: admit_cases)
    case (revoked e w2)
    from revocation_keeps [OF revoked(2) assms(2,3)] show ?thesis .
  next
    case (admitted c1 w2 c2 w3)
    from revocation_keeps [OF admitted(3) assms(2,3)]
    have c1: "cache_ok K sv c1" "length c1 \<le> CACHE_MAX_ENTRIES" by simp_all
    have c2: "cache_ok K sv c2" "length c2 < CACHE_MAX_ENTRIES"
      using cache_ok_subset [OF c1(1) maybe_evict_subset [OF admitted(4)]]
        evict_room [OF admitted(4) c1(2)] by simp_all
    have "length (AList.update token e c2) \<le> CACHE_MAX_ENTRIES" for e
      using length_update_le [of token e c2] c2(2) by linarith
    moreover have "cache_ok K sv (AList.update token
           \<lparr>ce_payload = p, ce_audience = jw_audience sv, ce_expires_at = ex\<rparr> c2)" for ex
      using c2(1) admitted(1,2) rotation_signed [OF decoded(2,1) assms(4)]
      by (intro cache_ok_update) (simp_all add: entry_ok_def)
    ultimately show ?thesis using admitted(5) c2 by auto
  qed (use assms in simp)
qed (use assms in simp)

lemma verify_cases:
  assumes "verify sv c token w = (Inr (res, c'), w')"
  obtains (fresh) w1 where "verify_fresh sv c token w1 = (Inr (res, c'), w')"
  | (hit) e err w1 w2 where "map_of c token = Some e"
      "check_revocation sv c (dict_get (ce_payload e) ''jti'' JNull) w1 = (Inr (err, c'), w2)"
      "res = (case err of Some x \<Rightarrow> Inl x | None \<Rightarrow> Inr (to_auth sv (ce_payload e) (ce_audience e)))"
proof (cases "map_of c token")
  case None
  with assms show thesis by (intro fresh) (simp add: verify_def)
next
  case (Some e)
  obtain now w1 where now: "jwt_now sv w = (Inr now, w1)" using no_raise_jwt_now by (rule no_raiseE)
  show thesis
  proof (cases "ce_expires_at e > now")
    case False
    with assms Some now show thesis by (intro fresh [of w1]) (simp add: verify_def)
  next
    case True
    obtain x w2 where "check_revocation sv c (dict_get (ce_payload e) ''jti'' JNull) w1 = (Inr x, w2)"
      using no_raise_check_revocation by (rule no_raiseE)
    then obtain err c1 where
      cr: "check_revocation sv c (dict_get (ce_payload e) ''jti'' JNull) w1 = (Inr (err, c1), w2)"
      by (cases x) auto
    with assms Some now True show thesis
      by (intro hit [OF Some, of w1 err w2]) (auto simp: verify_def split: option.splits)
  qed
qed

lemma verify_cache:
  assumes "verify sv c token w = (Inr (res, c'), w')"
    and "cache_ok K sv c" "length c \<le> CACHE_MAX_ENTRIES" "holds_secrets K sv"
  shows "cache_ok K sv c' \<and> length c' \<le> CACHE_MAX_ENTRIES"
  using assms(1)
proof (cases rule: verify_cases)
  case (fresh w1)
  from verify_fresh_cache [OF this assms(2-4)] show ?thesis .
next
  case (hit e err w1 w2)
  from revocation_keeps [OF hit(2) assms(2,3)] show ?thesis .
qed

lemma verify_accepts:
  assumes "cache_ok K sv c" "holds_secrets K sv" "verify sv c token w = (Inr (Inr auth, c'), w')"
  obtains p where "auth = to_auth sv p (jw_audience sv)" "accepted_payload sv p"
    "signed_payload sv K token p"
    "map_of c token = None \<Longrightarrow>
       \<exists>b. jw_provider sv = Inr b \<and> signed_payload sv (set (bundle_secrets b)) token p"
  using assms(3)
proof (cases rule: verify_cases)
  case (fresh w1)
  then obtain p b t where p: "auth = to_auth sv p (jw_audience sv)" "accepted_payload sv p"
    and b: "jw_provider sv = Inr b" "decode_with_rotation sv token t b = Inr p"
    by (rule verify_fresh_accepts) blast
  have "signed_payload sv (set (bundle_secrets b)) token p"
    using decode_with_signed [OF b(2) [unfolded decode_with_rotation_def]] .
  with b(1) rotation_signed [OF b(2,1) assms(2)] show thesis by (intro that [OF p]) blast+
next
  case (hit e err w1 w2)
  then have e: "entry_ok K sv token e" using assms(1) by (auto simp: cache_ok_def dest: map_of_SomeD)
  from hit(3) have err: "err = None" "auth = to_auth sv (ce_payload e) (ce_audience e)"
    by (auto split: option.splits)
  have "\<not> (truthy (dict_get (ce_payload e) ''jti'' JNull)
      \<and> always_revoked sv (dict_get (ce_payload e) ''jti'' JNull))"
    using check_revocation_revoked [OF _ _ hit(2)] err(1) by blast
  with e err(2) hit(1) show thesis
    by (intro that [of "ce_payload e"]) (auto simp: entry_ok_def accepted_payload_def)
qed

text \<open>A minted token verifies at its target and carries its tenant.\<close>

lemma decode_with_member:
  assumes "jwt_ok sv" "claims_valid claims (jw_audience sv) (jw_leeway sv) now"
    and "k \<in> set ks" "list_all plain_key ks"
  shows "decode_with sv (jw_encode sv claims k) now ks le = Inr claims"
  using assms(3,4)
proof (induction ks arbitrary: le)
  case (Cons s ks)
  have pk: "plain_key k" using Cons.prems by (auto simp: list_all_iff)
  have s: "plain_key s" "s \<noteq> []" using Cons.prems(2) by (auto simp: plain_key_def)
  show ?case
  proof (cases "s = k")
    case True
    with assms(1,2) pk s show ?thesis by (auto simp: jwt_ok_def)
  next
    case False
    with assms(1) pk s obtain m where
      "jw_decode sv (jw_encode sv claims k) s (jw_audience sv) (jw_leeway sv) now = Inl (PyJWTError m)"
      unfolding jwt_ok_def by blast
    with False Cons s show ?thesis by auto
  qed
qed simp

lemma decode_with_none:
  assumes "jwt_ok sv" "k \<notin> set ks" "plain_key k" "list_all plain_key ks"
  shows "\<exists>m. decode_with sv (jw_encode sv claims k) now ks le = Inl (JWTError m)"
  using assms(2,4)
proof (induction ks arbitrary: le)
  case (Cons s ks)
  then have "plain_key s" "s \<noteq> k" by auto
  with assms(1,3) obtain m where
    "jw_decode sv (jw_encode sv claims k) s (jw_audience sv) (jw_leeway sv) now = Inl (PyJWTError m)"
    unfolding jwt_ok_def by blast
  with Cons show ?case by auto
qed simp

subsection \<open>The properties of verification\<close>

text \<open>
  C34. An identity is only ever handed out for the token at hand: the library decoded exactly that
  token, for this service's audience and leeway, under a secret the service has held, and for a
  token not in the cache under one of the bundle it holds now; the payload so obtained names the
  service's own audience, carries all required claims and is not revoked, and user, tenant, role
  and identifier are its claims. \<open>cache_ok\<close> is what verification keeps of the cache (an empty
  cache has it): the same was found of each payload in it, under the token it is stored for.
\<close>

theorem verified_identity:
  assumes "cache_ok K sv c" "length c \<le> CACHE_MAX_ENTRIES" "holds_secrets K sv"
    and "verify sv c token w = (Inr (Inr auth, c'), w')"
  shows "\<exists>p secret t. auth = to_auth sv p (jw_audience sv)
    \<and> secret \<in> K \<and> secret \<noteq> []
    \<and> jw_decode sv token secret (jw_audience sv) (jw_leeway sv) t = Inr p
    \<and> (map_of c token = None \<longrightarrow> (\<exists>b. jw_provider sv = Inr b \<and> secret \<in> set (bundle_secrets b)))
    \<and> dict_get p ''aud'' JNull = JStr (jw_audience sv)
    \<and> list_all (has_key p) required_claims
    \<and> \<not> (truthy (dict_get p ''jti'' JNull) \<and> always_revoked sv (dict_get p ''jti'' JNull))
    \<and> cache_ok K sv c'"
proof -
  obtain p where p: "auth = to_auth sv p (jw_audience sv)" "accepted_payload sv p" "signed_payload sv K token p"
    "map_of c token = None \<Longrightarrow>
       \<exists>b. jw_provider sv = Inr b \<and> signed_payload sv (set (bundle_secrets b)) token p"
    using verify_accepts [OF assms(1,3,4)] by blast
  have c': "cache_ok K sv c'" using verify_cache [OF assms(4,1,2,3)] by simp
  show ?thesis
  proof (cases "map_of c token = None")
    case True
    then obtain b where b: "jw_provider sv = Inr b" "signed_payload sv (set (bundle_secrets b)) token p"
      using p(4) by blast
    then show ?thesis
      using p(1,2) c' assms(3) unfolding signed_payload_def accepted_payload_def holds_secrets_def by blast
  next
    case False
    obtain secret t where "secret \<in> K" "secret \<noteq> []"
        "jw_decode sv token secret (jw_audience sv) (jw_leeway sv) t = Inr p"
      using p(3) unfolding signed_payload_def by blast
    with False p(1,2) c' show ?thesis
      unfolding accepted_payload_def by (intro exI [of _ p] exI [of _ secret] exI [of _ t]) auto
  qed
qed

definition demo_claims :: jdict where
  "demo_claims =
     [(''iss'', JStr ''worker''), (''sub'', JStr ''u1''), (''aud'', JStr ''worker''),
      (''tid'', JStr ''acme''), (''jti'', JStr ''j1''), (''iat'', JInt 100), (''exp'', JInt 160)]"

definition demo_jwt :: "unit jwt_service" where
  "demo_jwt =
     \<lparr>jw_audience = ''worker'',
      jw_provider = Inr \<lparr>sb_audience = ''worker'', sb_current = ''s1'', sb_previous = Some ''s0'',
        sb_rotated_at = 0\<rparr>,
      jw_revoked = Some (\<lambda>j. ret_io (j = JStr ''gone'')), jw_ttl = 60, jw_leeway = 5,
      jw_lib = demo_lib [], jw_time = (\<lambda>w. (100, w)), jw_new_jti = (\<lambda>w. (''j1'', w)),
      jw_encode = (\<lambda>c k. if c = demo_claims \<and> k = ''s1'' then ''good'' else ''bad''),
      jw_decode = (\<lambda>token k aud lw now. if token = ''good'' \<and> k = ''s1'' then Inr demo_claims
         else Inl (PyJWTError ''signature''))\<rparr>"

lemma demo_verify:
  "verify demo_jwt [] ''good'' () =
     (Inr (Inr (to_auth demo_jwt demo_claims ''worker''),
       [(''good'', \<lparr>ce_payload = demo_claims, ce_audience = ''worker'', ce_expires_at = 160\<rparr>)]), ())"
proof -
  have d: "decode_with_rotation demo_jwt ''good'' 100 \<lparr>sb_audience = ''worker'', sb_current = ''s1'',
      sb_previous = Some ''s0'', sb_rotated_at = 0\<rparr> = Inr demo_claims"
    by (simp add: decode_with_rotation_def bundle_secrets_def demo_jwt_def)
  have a: "admit_payload demo_jwt [] ''good'' demo_claims () =
    (Inr (Inr (to_auth demo_jwt demo_claims ''worker''),
       [(''good'', \<lparr>ce_payload = demo_claims, ce_audience = ''worker'', ce_expires_at = 160\<rparr>)]), ())"
    by (simp add: admit_payload_def check_revocation_def maybe_evict_def CACHE_MAX_ENTRIES_def
        required_claims_def demo_claims_def demo_jwt_def bind_io_def try_io_def)
  have p: "jw_provider demo_jwt = Inr \<lparr>sb_audience = ''worker'', sb_current = ''s1'',
      sb_previous = Some ''s0'', sb_rotated_at = 0\<rparr>" and t: "jwt_now demo_jwt () = (Inr 100, ())"
    by (simp_all add: demo_jwt_def jwt_now_def)
  show ?thesis by (simp add: verify_def verify_fresh_def p t d a)
qed

lemma demo_holds: "holds_secrets {''s1'', ''s0''} demo_jwt"
  by (simp add: holds_secrets_def demo_jwt_def bundle_secrets_def)

theorem verified_identity_witness:
  "\<exists>auth c' p secret t. verify demo_jwt [] ''good'' () = (Inr (Inr auth, c'), ())
    \<and> auth = to_auth demo_jwt p ''worker'' \<and> dict_get p ''aud'' JNull = JStr ''worker''
    \<and> secret \<in> {''s1'', ''s0''}
    \<and> jw_decode demo_jwt ''good'' secret ''worker'' (jw_leeway demo_jwt) t = Inr p"
proof -
  have a: "jw_audience demo_jwt = ''worker''" by (simp add: demo_jwt_def)
  have l: "length [] \<le> CACHE_MAX_ENTRIES" by simp
  from verified_identity [OF cache_ok_Nil l demo_holds demo_verify] demo_verify
  show ?thesis unfolding a by blast
qed

text \<open>
  The verification cache is bounded: it never exceeds ten thousand entries, whatever tokens
  arrive, and it only ever holds payloads of the service's own audience.
\<close>

theorem verification_cache_bounded:
  assumes "cache_ok K sv c" "length c \<le> CACHE_MAX_ENTRIES" "holds_secrets K sv"
    and "verify sv c token w = (Inr (res, c'), w')"
  shows "length c' \<le> 10000 \<and> (\<forall>(k, e) \<in> set c'. ce_audience e = jw_audience sv
    \<and> dict_get (ce_payload e) ''aud'' JNull = JStr (jw_audience sv))"
  using verify_cache [OF assms(4,1,2,3)]
  by (auto simp: cache_ok_def entry_ok_def CACHE_MAX_ENTRIES_def)

theorem verification_cache_bounded_witness:
  "\<exists>res c'. verify demo_jwt [] ''good'' () = (Inr (res, c'), ()) \<and> length c' \<le> 10000"
proof -
  have "length [] \<le> CACHE_MAX_ENTRIES" by simp
  from verification_cache_bounded [OF cache_ok_Nil this demo_holds demo_verify] demo_verify show ?thesis by blast
qed

subsection \<open>Minting and verifying\<close>

lemma has_key_append: "has_key (xs @ ys) k \<longleftrightarrow> has_key xs k \<or> has_key ys k"
  by (auto simp: has_key_def split: option.splits)

lemma extend_claims_result:
  "extend_claims cs xs = Inr r \<Longrightarrow> distinct (map fst cs) \<Longrightarrow> r = cs @ xs \<and> distinct (map fst (cs @ xs))"
proof (induction cs xs rule: extend_claims.induct)
  case (2 cs k v rest)
  then have "k \<notin> set (map fst cs)" by (force simp: has_key_def map_of_eq_None_iff split: if_splits)
  with 2 show ?case by (auto split: if_splits)
qed simp

lemma mint_result:
  assumes "mint sv subject tenant aud role extra w = (Inr token, w')"
  obtains b t jti w1 w2 where "jw_provider sv = Inr b" "jw_time sv w = (t, w1)" "jw_new_jti sv w1 = (jti, w2)"
    "token = jw_encode sv (base_claims sv subject tenant aud role jti \<lfloor>t\<rfloor> @ extra) (sb_current b)"
    "distinct (map fst (base_claims sv subject tenant aud role jti \<lfloor>t\<rfloor> @ extra))"
proof -
  from assms obtain b where b: "jw_provider sv = Inr b" "sb_audience b = jw_audience sv"
    by (auto simp: mint_def bind_io_eq_Inr split: if_splits)
  obtain t w1 where t: "jw_time sv w = (t, w1)" by fastforce
  obtain jti w2 where j: "jw_new_jti sv w1 = (jti, w2)" by fastforce
  let ?base = "base_claims sv subject tenant aud role jti \<lfloor>t\<rfloor>"
  from assms b t j obtain cs where cs: "extend_claims ?base extra = Inr cs"
      "token = jw_encode sv cs (sb_current b)"
    by (auto simp: mint_def jwt_now_def bind_io_eq_Inr)
  have "distinct (map fst ?base)" by (simp add: base_claims_def split: option.splits)
  from extend_claims_result [OF cs(1) this] cs(2) show thesis by (intro that [OF b(1) t j]) simp_all
qed

text \<open>Extra claims that keep a token valid: texts and numbers, and no \<open>nbf\<close>.\<close>

definition harmless_claims :: "jdict \<Rightarrow> bool" where
  "harmless_claims extra \<longleftrightarrow> list_all (\<lambda>(k, v). flat_value v \<and> k \<noteq> ''nbf'') extra"

lemma base_claims_valid:
  assumes "of_int now \<le> t + of_int leeway" "t < of_int now + of_int (jw_ttl sv) + of_int leeway"
    and "harmless_claims extra"
    and "distinct (map fst (base_claims sv subject tenant aud role jti now @ extra))"
  shows "claims_valid (base_claims sv subject tenant aud role jti now @ extra) aud leeway t"
proof -
  have "\<not> has_key extra ''nbf''"
    using assms(3) by (auto simp: harmless_claims_def has_key_def list_all_iff dest: map_of_SomeD split: option.splits)
  moreover have "list_all (\<lambda>(k, v). flat_value v) extra"
    using assms(3) by (auto simp: harmless_claims_def list_all_iff)
  ultimately show ?thesis
    using assms(1,2,4)
    by (simp add: claims_valid_def base_claims_def required_claims_def has_key_append split: option.splits)
qed

lemma verify_admits:
  assumes "jw_provider sv = Inr b" "jw_time sv w = (t, w1)"
    and "decode_with_rotation sv token t b = Inr p"
    and "dict_get p ''aud'' JNull = JStr (jw_audience sv)" "list_all (has_key p) required_claims"
    and "dict_get p ''exp'' JNull = JInt e" "jw_revoked sv = None"
  shows "verify sv [] token w = (Inr (Inr (to_auth sv p (jw_audience sv)),
    [(token, \<lparr>ce_payload = p, ce_audience = jw_audience sv, ce_expires_at = of_int e\<rparr>)]), w1)"
  using assms
  by (simp add: verify_def verify_fresh_def admit_payload_def jwt_now_def check_revocation_def
      maybe_evict_def CACHE_MAX_ENTRIES_def)

text \<open>The revocation checker, when there is one, does not report the identifier (it may fail).\<close>

definition never_revoked :: "'w jwt_service \<Rightarrow> bool" where
  "never_revoked sv \<longleftrightarrow> (\<forall>f j w. jw_revoked sv = Some f \<longrightarrow> fst (f j w) \<noteq> Inr True)"

lemma unrevoked_passes:
  assumes "never_revoked sv"
  shows "\<exists>w'. check_revocation sv c j w = (Inr (None, c), w')"
proof (cases "jw_revoked sv")
  case (Some f)
  obtain r w1 where r: "f j w = (r, w1)" by (rule prod.exhaust)
  with assms Some have "r \<noteq> Inr True" by (metis fst_conv never_revoked_def)
  with Some r show ?thesis
    by (cases r) (auto simp: check_revocation_def try_io_def bind_io_def)
qed (simp add: check_revocation_def)

lemma verify_admits_new:
  assumes "jw_provider sv = Inr b" "jw_time sv w = (t, w1)"
    and "decode_with_rotation sv token t b = Inr p"
    and "dict_get p ''aud'' JNull = JStr (jw_audience sv)" "list_all (has_key p) required_claims"
    and "dict_get p ''exp'' JNull = JInt e" "never_revoked sv" "map_of c token = None"
  shows "\<exists>c' w'. verify sv c token w = (Inr (Inr (to_auth sv p (jw_audience sv)), c'), w')"
proof -
  obtain w2 where cr: "check_revocation sv c (dict_get p ''jti'' JNull) w1 = (Inr (None, c), w2)"
    using unrevoked_passes [OF assms(7)] by blast
  obtain c2 w3 where "maybe_evict sv c w2 = (Inr c2, w3)"
    using no_raise_maybe_evict by (rule no_raiseE)
  with assms cr show ?thesis
    by (simp add: verify_def verify_fresh_def admit_payload_def jwt_now_def)
qed

text \<open>
  C35. Round trip: a token minted for an audience verifies at the service of that audience, as long
  as that service still holds the signing secret, as its current or its previous one, and the
  token has not expired; the identity read back has the subject and the tenant it was minted for.
  Supposed are: the secrets are made as the secret store makes them (\<open>plain_key\<close>); extra claims, if
  any, are texts and numbers other than \<open>nbf\<close>; the verifier's clock is not behind the minter's by
  more than the leeway; the verifier has not cached the token, and its revocation checker, if it
  has one, does not report it.
\<close>

theorem minted_token_verifies:
  assumes "jwt_ok v" "jw_encode sv = jw_encode v"
    and "mint sv subject tenant (jw_audience v) role extra w = (Inr token, w')"
    and "jw_provider sv = Inr b" "jw_provider v = Inr b'"
    and "sb_current b \<in> set (bundle_secrets b')" "list_all plain_key (bundle_secrets b')"
    and "jw_time sv w = (t0, w1)" "jw_time v w2 = (t, w3)"
    and "t0 \<le> t + of_int (jw_leeway v)" "t < of_int \<lfloor>t0\<rfloor> + of_int (jw_ttl sv) + of_int (jw_leeway v)"
    and "harmless_claims extra" "never_revoked v" "map_of c token = None"
  shows "\<exists>auth c' w4. verify v c token w2 = (Inr (Inr auth, c'), w4)
    \<and> au_user_id auth = JStr subject \<and> au_tenant_id auth = tenant \<and> au_audience auth = jw_audience v"
proof -
  obtain jti where tok: "token = jw_encode v
      (base_claims sv subject tenant (jw_audience v) role jti \<lfloor>t0\<rfloor> @ extra) (sb_current b)"
    and d: "distinct (map fst (base_claims sv subject tenant (jw_audience v) role jti \<lfloor>t0\<rfloor> @ extra))"
    using mint_result [OF assms(3)] assms(2,4,8) by (metis Inr_inject Pair_inject)
  let ?p = "base_claims sv subject tenant (jw_audience v) role jti \<lfloor>t0\<rfloor> @ extra"
  have "of_int \<lfloor>t0\<rfloor> \<le> t0" by simp
  with assms(10) have "of_int \<lfloor>t0\<rfloor> \<le> t + of_int (jw_leeway v)" by linarith
  then have "claims_valid ?p (jw_audience v) (jw_leeway v) t"
    using assms(11,12) d by (intro base_claims_valid) simp_all
  then have dec: "decode_with_rotation v token t b' = Inr ?p"
    unfolding decode_with_rotation_def tok
    using decode_with_member [OF assms(1) _ assms(6,7)] by blast
  have p: "dict_get ?p ''aud'' JNull = JStr (jw_audience v)" "list_all (has_key ?p) required_claims"
    "dict_get ?p ''exp'' JNull = JInt (\<lfloor>t0\<rfloor> + jw_ttl sv)"
    by (simp_all add: base_claims_def required_claims_def)
  have "au_user_id (to_auth v ?p (jw_audience v)) = JStr subject"
    "au_tenant_id (to_auth v ?p (jw_audience v)) = tenant"
    "au_audience (to_auth v ?p (jw_audience v)) = jw_audience v"
    by (simp_all add: to_auth_def base_claims_def)
  with verify_admits_new [OF assms(5,9) dec p assms(13,14)] show ?thesis by blast
qed

text \<open>
  A token library that meets \<open>jwt_ok\<close>, for the witnesses: a token is a run of characters whose length
  numbers the pair of claims and secret.
\<close>

definition ideal_jwt :: "string \<Rightarrow> secret_bundle \<Rightarrow> 'w jwt_service" where
  "ideal_jwt audience bundle =
     \<lparr>jw_audience = audience, jw_provider = Inr bundle, jw_revoked = None, jw_ttl = 60, jw_leeway = 5,
      jw_lib = demo_lib [], jw_time = (\<lambda>w. (100, w)), jw_new_jti = (\<lambda>w. (''j1'', w)),
      jw_encode = (\<lambda>c k. replicate (Suc (to_nat (c, k))) CHR ''t''),
      jw_decode = (\<lambda>token k aud lw now. case from_nat (length token - 1) of (c, k') \<Rightarrow>
         if k' = k \<and> claims_valid c aud lw now then Inr c else Inl (PyJWTError ''invalid''))\<rparr>"

lemma ideal_jwt_ok: "jwt_ok (ideal_jwt audience bundle)"
  by (auto simp: jwt_ok_def ideal_jwt_def split: prod.splits if_splits)

lemma plain_keys:
  "plain_key ''s0''" "plain_key ''s1''" "plain_key ''s2''" "plain_key ''s9''" "plain_key ''boot''"
  by code_simp+

lemma ideal_never_revoked: "never_revoked (ideal_jwt audience bundle)"
  by (simp add: never_revoked_def ideal_jwt_def)

lemma ideal_jwt_simps [simp]:
  "jw_audience (ideal_jwt a b) = a" "jw_provider (ideal_jwt a b) = Inr b"
  "jw_revoked (ideal_jwt a b) = None" "jw_ttl (ideal_jwt a b) = 60" "jw_leeway (ideal_jwt a b) = 5"
  "jw_time (ideal_jwt a b) w = (100, w)" "jw_new_jti (ideal_jwt a b) w = (''j1'', w)"
  by (simp_all add: ideal_jwt_def)

lemma ideal_jwt_encode: "jw_encode (ideal_jwt a b) = jw_encode (ideal_jwt a' b')"
  by (simp add: ideal_jwt_def)

lemma ideal_mint:
  "sb_audience b = a \<Longrightarrow> mint (ideal_jwt a b :: 'w jwt_service) subject tenant aud role [] w =
     (Inr (jw_encode (ideal_jwt a b :: 'w jwt_service)
        (base_claims (ideal_jwt a b :: 'w jwt_service) subject tenant aud role ''j1'' 100)
        (sb_current b)), w)"
  by (simp add: mint_def jwt_now_def)

text \<open>The service before and after one rotation of its secret.\<close>

definition bundle_old :: secret_bundle where
  "bundle_old = \<lparr>sb_audience = ''worker'', sb_current = ''s1'', sb_previous = None, sb_rotated_at = 0\<rparr>"

definition bundle_new :: secret_bundle where
  "bundle_new = \<lparr>sb_audience = ''worker'', sb_current = ''s2'', sb_previous = Some ''s1'', sb_rotated_at = 9\<rparr>"

theorem minted_token_verifies_witness:
  "\<exists>token auth c' w4.
      mint (ideal_jwt ''worker'' bundle_old) ''u1'' ''acme'' ''worker'' None [(''ver'', JInt 1)] ()
        = (Inr token, ())
    \<and> verify (ideal_jwt ''worker'' bundle_new) [] token () = (Inr (Inr auth, c'), w4)
    \<and> au_tenant_id auth = ''acme''"
proof -
  let ?s = "ideal_jwt ''worker'' bundle_old :: unit jwt_service"
    and ?v = "ideal_jwt ''worker'' bundle_new :: unit jwt_service"
    and ?x = "[(''ver'', JInt 1)]"
  obtain token where m: "mint ?s ''u1'' ''acme'' (jw_audience ?v) None ?x () = (Inr token, ())"
    by (simp add: mint_def jwt_now_def bundle_old_def base_claims_def has_key_def)
  have k: "sb_current bundle_old \<in> set (bundle_secrets bundle_new)"
    "list_all plain_key (bundle_secrets bundle_new)"
    by (simp_all add: bundle_old_def bundle_new_def bundle_secrets_def plain_keys)
  have h: "harmless_claims ?x" by (simp add: harmless_claims_def)
  have n: "map_of [] token = None" by simp
  have "\<exists>auth c' w4. verify ?v [] token () = (Inr (Inr auth, c'), w4) \<and> au_tenant_id auth = ''acme''"
    using minted_token_verifies [OF ideal_jwt_ok ideal_jwt_encode m ideal_jwt_simps(2,2) k
        ideal_jwt_simps(6,6) _ _ h ideal_never_revoked n] by auto
  with m show ?thesis by auto
qed

text \<open>
  A token signed with a secret the service no longer holds (or never held) is rejected with
  \<open>JWTError\<close>, and the cache is left as it was.
\<close>

theorem foreign_token_rejected:
  assumes "jwt_ok sv" "jw_provider sv = Inr b" "k \<notin> set (bundle_secrets b)"
    and "plain_key k" "list_all plain_key (bundle_secrets b)"
    and "map_of c (jw_encode sv claims k) = None"
  shows "\<exists>m w'. verify sv c (jw_encode sv claims k) w = (Inr (Inl (JWTError m), c), w')"
proof -
  obtain t w1 where t: "jwt_now sv w = (Inr t, w1)" using no_raise_jwt_now by (rule no_raiseE)
  obtain m where "decode_with_rotation sv (jw_encode sv claims k) t b = Inl (JWTError m)"
    using decode_with_none [OF assms(1,3-5)] unfolding decode_with_rotation_def by blast
  with assms(2,6) t show ?thesis by (simp add: verify_def verify_fresh_def)
qed

theorem foreign_token_rejected_witness:
  "\<exists>m w'. verify (ideal_jwt ''worker'' bundle_old) []
      (jw_encode (ideal_jwt ''worker'' bundle_old :: unit jwt_service) demo_claims ''s9'') ()
    = (Inr (Inl (JWTError m), []), w')"
proof -
  have "''s9'' \<notin> set (bundle_secrets bundle_old)" "list_all plain_key (bundle_secrets bundle_old)"
    by (simp_all add: bundle_old_def bundle_secrets_def plain_keys)
  from this(1) plain_keys(4) this(2) show ?thesis
    by (rule foreign_token_rejected [OF ideal_jwt_ok ideal_jwt_simps(2)]) simp
qed

end
