(* ===== verification/Nats_Broker.thy ===== *)
theory Nats_Broker
  imports Prelude
begin

section \<open>services/_runtime/nats_broker.py: subjects, streams and the broker\<close>

text \<open>
  The subject constructors, the stream table, and \<open>NatsBroker\<close> as a state (connected or not) with
  operations that never raise. The NATS client library is the parameter \<open>nats\<close>. How the server
  matches a subject against a stream's filter is documented: tokens are separated by dots, and
  \<open>>\<close> stands for one or more tokens at the end (\<open>subject_matches\<close>; the filters here use no other
  wildcard).
\<close>

subsection \<open>Subjects and streams\<close>

definition SCHEMA_VERSION_TAG :: string where
  "SCHEMA_VERSION_TAG = ''v1''"

definition dots :: "string list \<Rightarrow> string" where
  "dots ts = str_join ''.'' ts"

definition subj_alert :: "string \<Rightarrow> string \<Rightarrow> string \<Rightarrow> string" where
  "subj_alert tenant_id source alert_id =
     ''alerts.'' @ SCHEMA_VERSION_TAG @ ''.'' @ tenant_id @ ''.'' @ source @ ''.'' @ alert_id"

definition subj_triage_event :: "string \<Rightarrow> string \<Rightarrow> string \<Rightarrow> string" where
  "subj_triage_event tenant_id alert_id phase =
     ''triage.events.'' @ SCHEMA_VERSION_TAG @ ''.'' @ tenant_id @ ''.'' @ alert_id @ ''.'' @ phase"

definition subj_triage_cancel :: "string \<Rightarrow> string \<Rightarrow> string" where
  "subj_triage_cancel tenant_id alert_id =
     ''triage.cancel.'' @ SCHEMA_VERSION_TAG @ ''.'' @ tenant_id @ ''.'' @ alert_id"

definition subj_auth_revocation :: "string \<Rightarrow> string \<Rightarrow> string" where
  "subj_auth_revocation tenant_id user_id =
     ''auth.revocations.'' @ SCHEMA_VERSION_TAG @ ''.'' @ tenant_id @ ''.'' @ user_id"

definition subj_feedback :: "string \<Rightarrow> string \<Rightarrow> string" where
  "subj_feedback tenant_id alert_id =
     ''feedback.'' @ SCHEMA_VERSION_TAG @ ''.'' @ tenant_id @ ''.'' @ alert_id"

definition subj_dlq :: "string \<Rightarrow> string \<Rightarrow> string \<Rightarrow> string" where
  "subj_dlq tenant_id origin_stream alert_id =
     ''dlq.'' @ SCHEMA_VERSION_TAG @ ''.'' @ tenant_id @ ''.'' @ origin_stream @ ''.'' @ alert_id"

record stream_spec =
  ss_name :: string
  ss_subjects :: "string list"
  ss_retention :: string
  ss_max_age_seconds :: int

definition STREAM_SPECS :: "stream_spec list" where
  "STREAM_SPECS = [
     \<lparr>ss_name = ''ALERTS'', ss_subjects = [''alerts.'' @ SCHEMA_VERSION_TAG @ ''.>''],
      ss_retention = ''workqueue'', ss_max_age_seconds = 24 * 60 * 60\<rparr>,
     \<lparr>ss_name = ''TRIAGE_EVENTS'', ss_subjects = [''triage.events.'' @ SCHEMA_VERSION_TAG @ ''.>''],
      ss_retention = ''interest'', ss_max_age_seconds = 10 * 60\<rparr>,
     \<lparr>ss_name = ''CONTROL'',
      ss_subjects = [''triage.cancel.'' @ SCHEMA_VERSION_TAG @ ''.>'',
                     ''auth.revocations.'' @ SCHEMA_VERSION_TAG @ ''.>''],
      ss_retention = ''interest'', ss_max_age_seconds = 5 * 60\<rparr>,
     \<lparr>ss_name = ''FEEDBACK'', ss_subjects = [''feedback.'' @ SCHEMA_VERSION_TAG @ ''.>''],
      ss_retention = ''limits'', ss_max_age_seconds = 90 * 24 * 60 * 60\<rparr>,
     \<lparr>ss_name = ''DLQ'', ss_subjects = [''dlq.'' @ SCHEMA_VERSION_TAG @ ''.>''],
      ss_retention = ''limits'', ss_max_age_seconds = 7 * 24 * 60 * 60\<rparr>]"

fun tokens_match :: "string list \<Rightarrow> string list \<Rightarrow> bool" where
  "tokens_match [] ts = (ts = [])"
| "tokens_match (f # fs) ts =
     (if f = ''>'' \<and> fs = [] then ts \<noteq> []
      else (case ts of [] \<Rightarrow> False | t # ts' \<Rightarrow> f = t \<and> tokens_match fs ts'))"

definition subject_matches :: "string \<Rightarrow> string \<Rightarrow> bool" where
  "subject_matches filt subject =
     tokens_match (split_on CHR ''.'' filt) (split_on CHR ''.'' subject)"

definition streams_for :: "string \<Rightarrow> string list" where
  "streams_for subject =
     map ss_name (filter (\<lambda>s. list_ex (\<lambda>f. subject_matches f subject) (ss_subjects s)) STREAM_SPECS)"

subsection \<open>The broker\<close>

type_synonym headers = "(string \<times> string) list"

record 'w nats =
  nt_connect :: "string \<Rightarrow> string option \<Rightarrow> string \<Rightarrow> ('w, unit) io"
  nt_jetstream :: "('w, unit) io"
  nt_js_publish :: "string \<Rightarrow> string \<Rightarrow> headers option \<Rightarrow> ('w, unit) io"
  nt_publish :: "string \<Rightarrow> string \<Rightarrow> headers option \<Rightarrow> ('w, unit) io"
  nt_pull_subscribe :: "string \<Rightarrow> string \<Rightarrow> int \<Rightarrow> int \<Rightarrow> ('w, unit) io"
  nt_drain :: "('w, unit) io"

record broker =
  nb_servers :: string
  nb_creds_path :: "string option"
  nb_name :: string
  nb_nc :: bool
  nb_js :: bool
  nb_connected :: bool

definition NatsBroker_init :: "string \<Rightarrow> string option \<Rightarrow> string \<Rightarrow> broker" where
  "NatsBroker_init servers creds_path name =
     \<lparr>nb_servers = servers, nb_creds_path = creds_path, nb_name = name, nb_nc = False, nb_js = False,
      nb_connected = False\<rparr>"

definition broker_connect :: "'w nats \<Rightarrow> broker \<Rightarrow> ('w, broker) io" where
  "broker_connect nt b =
     (if nb_connected b then ret_io b
      else
        bind_io (catch_io (nt_connect nt (nb_servers b)
            (case nb_creds_path b of None \<Rightarrow> None | Some p \<Rightarrow> if p = [] then None else Some p)
            (nb_name b))) (\<lambda>r1.
        (case r1 of
           Inl exc \<Rightarrow> ret_io (b\<lparr>nb_connected := False\<rparr>)
         | Inr _ \<Rightarrow>
             bind_io (catch_io (nt_jetstream nt)) (\<lambda>r2.
             (case r2 of
                Inl exc \<Rightarrow> ret_io (b\<lparr>nb_nc := True, nb_connected := False\<rparr>)
              | Inr _ \<Rightarrow> ret_io (b\<lparr>nb_nc := True, nb_js := True, nb_connected := True\<rparr>))))))"

text \<open>\<open>all_headers\<close>: the message id first, then the caller's headers over it; empty is \<open>None\<close>.\<close>

definition all_headers :: "string option \<Rightarrow> headers \<Rightarrow> headers option" where
  "all_headers msg_id headers =
     (let base = (case msg_id of None \<Rightarrow> [] | Some m \<Rightarrow> if m = [] then [] else [(''Nats-Msg-Id'', m)]);
          hs = foldl (\<lambda>acc (k, v). AList.update k v acc) base headers
      in if hs = [] then None else Some hs)"

definition broker_publish ::
    "'w nats \<Rightarrow> broker \<Rightarrow> string \<Rightarrow> string \<Rightarrow> string option \<Rightarrow> headers \<Rightarrow> bool \<Rightarrow> ('w, bool \<times> broker) io"
where
  "broker_publish nt b subject payload msg_id headers await_ack =
     bind_io (if nb_connected b then ret_io b else broker_connect nt b) (\<lambda>b.
     if \<not> nb_connected b \<or> \<not> nb_js b then ret_io (False, b)
     else
       try_io
         (bind_io (if await_ack then nt_js_publish nt subject payload (all_headers msg_id headers)
                   else nt_publish nt subject payload (all_headers msg_id headers)) (\<lambda>_.
           ret_io (True, b)))
         (\<lambda>exc. ret_io (False, b)))"

text \<open>The subscription itself is an object of the library; the result says whether there is one.\<close>

definition broker_pull_subscribe ::
    "'w nats \<Rightarrow> broker \<Rightarrow> string \<Rightarrow> string \<Rightarrow> int \<Rightarrow> int \<Rightarrow> ('w, bool \<times> broker) io" where
  "broker_pull_subscribe nt b subject_filter durable ack_wait_seconds max_deliver =
     bind_io (if nb_connected b then ret_io b else broker_connect nt b) (\<lambda>b.
     if \<not> nb_connected b \<or> \<not> nb_js b then ret_io (False, b)
     else
       try_io
         (bind_io (nt_pull_subscribe nt subject_filter durable ack_wait_seconds max_deliver) (\<lambda>_.
           ret_io (True, b)))
         (\<lambda>exc. ret_io (False, b)))"

definition broker_close :: "'w nats \<Rightarrow> broker \<Rightarrow> ('w, broker) io" where
  "broker_close nt b =
     bind_io (if nb_nc b then try_io (nt_drain nt) (\<lambda>exc. ret_io ()) else ret_io ()) (\<lambda>_.
       ret_io (b\<lparr>nb_connected := False\<rparr>))"

subsection \<open>Facts\<close>

lemma no_raise_connect: "no_raise (broker_connect nt b)"
  unfolding broker_connect_def by (auto split: sum.splits intro!: no_raise_intros)

lemma no_raise_publish: "no_raise (broker_publish nt b s p m h a)"
  unfolding broker_publish_def by (auto intro!: no_raise_intros no_raise_connect)

lemma no_raise_close: "no_raise (broker_close nt b)"
  unfolding broker_close_def by (auto intro!: no_raise_intros)

lemma split_on_append:
  "split_on d (p @ d # s) = split_on d p @ split_on d s"
  by (induction p) (auto split: list.splits)

lemma split_on_plain: "d \<notin> set p \<Longrightarrow> split_on d p = [p]"
  by (induction p) auto

lemma tokens_prefix:
  "tokens_match (fs @ [''>'']) (fs @ ts) \<longleftrightarrow> ts \<noteq> []"
  by (induction fs) auto

lemma tokens_differ:
  "f \<noteq> g \<Longrightarrow> fs \<noteq> [] \<Longrightarrow> \<not> tokens_match (f # fs) (g # ts)"
  by auto

text \<open>The first tokens of every subject are fixed, so one stream takes it.\<close>

lemma split_subject:
  "split_on CHR ''.'' (subj_alert t s a) = ''alerts'' # ''v1'' # split_on CHR ''.'' (t @ ''.'' @ s @ ''.'' @ a)"
  "split_on CHR ''.'' (subj_triage_event t a p) =
     ''triage'' # ''events'' # ''v1'' # split_on CHR ''.'' (t @ ''.'' @ a @ ''.'' @ p)"
  "split_on CHR ''.'' (subj_triage_cancel t a) = ''triage'' # ''cancel'' # ''v1'' # split_on CHR ''.'' (t @ ''.'' @ a)"
  "split_on CHR ''.'' (subj_auth_revocation t u) = ''auth'' # ''revocations'' # ''v1'' # split_on CHR ''.'' (t @ ''.'' @ u)"
  "split_on CHR ''.'' (subj_feedback t a) = ''feedback'' # ''v1'' # split_on CHR ''.'' (t @ ''.'' @ a)"
  "split_on CHR ''.'' (subj_dlq t s a) = ''dlq'' # ''v1'' # split_on CHR ''.'' (t @ ''.'' @ s @ ''.'' @ a)"
  by (simp_all add: subj_alert_def subj_triage_event_def subj_triage_cancel_def
      subj_auth_revocation_def subj_feedback_def subj_dlq_def SCHEMA_VERSION_TAG_def)

lemma stream_of_subject:
  "streams_for (subj_alert t s a) = [''ALERTS'']"
  "streams_for (subj_triage_event t a p) = [''TRIAGE_EVENTS'']"
  "streams_for (subj_triage_cancel t a) = [''CONTROL'']"
  "streams_for (subj_auth_revocation t u) = [''CONTROL'']"
  "streams_for (subj_feedback t a) = [''FEEDBACK'']"
  "streams_for (subj_dlq t s a) = [''DLQ'']"
  by (simp_all add: streams_for_def STREAM_SPECS_def subject_matches_def split_subject
      SCHEMA_VERSION_TAG_def)

text \<open>Components without dots can be read back from the subject.\<close>

lemma split_dots:
  assumes "CHR ''.'' \<notin> set a" "CHR ''.'' \<notin> set b" "CHR ''.'' \<notin> set c"
  shows "split_on CHR ''.'' (a @ CHR ''.'' # b @ CHR ''.'' # c) = [a, b, c]"
    and "split_on CHR ''.'' (a @ CHR ''.'' # b) = [a, b]"
  using assms by (simp_all add: split_on_append split_on_plain)

lemma subj_alert_inj:
  assumes "CHR ''.'' \<notin> set t \<union> set s \<union> set a \<union> set t' \<union> set s' \<union> set a'"
    and "subj_alert t s a = subj_alert t' s' a'"
  shows "t = t' \<and> s = s' \<and> a = a'"
proof -
  from assms(2) have "split_on CHR ''.'' (subj_alert t s a) = split_on CHR ''.'' (subj_alert t' s' a')"
    by simp
  with assms(1) show ?thesis unfolding split_subject by (simp add: split_dots)
qed

subsection \<open>The properties of the subjects\<close>

text \<open>
  Whatever the tenant, source, alert, user or phase, every subject the program publishes on
  falls into exactly one stream of the stream table, the one meant for it.
\<close>

theorem subject_has_one_stream:
  "streams_for (subj_alert t s a) = [''ALERTS'']
   \<and> streams_for (subj_triage_event t a p) = [''TRIAGE_EVENTS'']
   \<and> streams_for (subj_triage_cancel t a) = [''CONTROL'']
   \<and> streams_for (subj_auth_revocation t u) = [''CONTROL'']
   \<and> streams_for (subj_feedback t a) = [''FEEDBACK'']
   \<and> streams_for (subj_dlq t s a) = [''DLQ'']"
  by (simp add: stream_of_subject)

text \<open>
  Subjects of different alerts differ: with components free of dots the tenant, the source and
  the alert can be read back from the subject.
\<close>

theorem alert_subject_injective:
  assumes "CHR ''.'' \<notin> set t \<union> set s \<union> set a \<union> set t' \<union> set s' \<union> set a'"
    and "subj_alert t s a = subj_alert t' s' a'"
  shows "t = t' \<and> s = s' \<and> a = a'"
  using assms by (rule subj_alert_inj)

theorem alert_subject_injective_witness:
  "(''acme'' :: string) = ''acme'' \<and> (''splunk'' :: string) = ''splunk'' \<and> (''a1'' :: string) = ''a1''
   \<and> subj_alert ''acme'' ''splunk'' ''a1'' \<noteq> subj_alert ''acme'' ''splunk'' ''a2''"
proof -
  have same: "(''acme'' :: string) = ''acme'' \<and> (''splunk'' :: string) = ''splunk'' \<and> (''a1'' :: string) = ''a1''"
    by (rule alert_subject_injective) simp_all
  have "subj_alert ''acme'' ''splunk'' ''a1'' \<noteq> subj_alert ''acme'' ''splunk'' ''a2''"
  proof
    assume "subj_alert ''acme'' ''splunk'' ''a1'' = subj_alert ''acme'' ''splunk'' ''a2''"
    with alert_subject_injective [of "''acme''" "''splunk''" "''a1''" "''acme''" "''splunk''" "''a2''"]
    show False by simp
  qed
  with same show ?thesis by simp
qed

end
