(* ===== verification/Checkpoint_Factory.thy ===== *)
theory Checkpoint_Factory
  imports Redis_Port Demo_World
begin

section \<open>services/_runtime/checkpoint_redis_ttl.py: checkpointers by retention policy\<close>

text \<open>
  \<open>CheckpointerFactory\<close> with its cache of savers. A saver of the LangGraph library is represented by
  the arguments it is constructed with (\<open>saver\<close>); its \<open>asetup\<close> is a parameter that may raise. The
  environment variable \<open>CHECKPOINT_TTL_SEC\<close> is the argument \<open>raw\<close>.
\<close>

definition CHECKPOINT_DEFAULT_TTL_SEC :: int where
  "CHECKPOINT_DEFAULT_TTL_SEC = 30 * 24 * 60 * 60"

definition ttl_minutes :: "int \<Rightarrow> int" where
  "ttl_minutes seconds = max 1 ((seconds + 59) div 60)"

definition read_ttl_seconds :: "string \<Rightarrow> int" where
  "read_ttl_seconds raw =
     (case (if raw = [] then Inr CHECKPOINT_DEFAULT_TTL_SEC else py_int raw) of
        Inl e \<Rightarrow> CHECKPOINT_DEFAULT_TTL_SEC
      | Inr v \<Rightarrow> if v > 0 then v else CHECKPOINT_DEFAULT_TTL_SEC)"

record saver =
  sv_redis_url :: string
  sv_default_ttl :: int
  sv_refresh_on_read :: bool
  sv_checkpoint_prefix :: string
  sv_checkpoint_write_prefix :: string

record checkpointer_factory =
  cf_redis_url :: string
  cf_default_ttl :: int
  cf_overrides :: "(string \<times> int) list"
  cf_refresh :: bool
  cf_cache :: "(string \<times> saver) list"
  cf_setup_done :: "string set"

definition CheckpointerFactory_init ::
    "string \<Rightarrow> string \<Rightarrow> int option \<Rightarrow> (string \<times> int) list \<Rightarrow> bool \<Rightarrow> checkpointer_factory" where
  "CheckpointerFactory_init raw redis_url default_ttl_seconds overrides refresh_on_read =
     \<lparr>cf_redis_url = redis_url,
      cf_default_ttl = (case default_ttl_seconds of
          None \<Rightarrow> read_ttl_seconds raw
        | Some n \<Rightarrow> if n = 0 then read_ttl_seconds raw else n),
      cf_overrides = overrides, cf_refresh = refresh_on_read, cf_cache = [], cf_setup_done = {}\<rparr>"

definition cf_ttl_for :: "checkpointer_factory \<Rightarrow> string option \<Rightarrow> int" where
  "cf_ttl_for cf tenant_id =
     (case tenant_id of
        None \<Rightarrow> cf_default_ttl cf
      | Some t \<Rightarrow>
          if t = [] then cf_default_ttl cf
          else (case map_of (cf_overrides cf) t of None \<Rightarrow> cf_default_ttl cf | Some n \<Rightarrow> n))"

definition cf_cache_key :: "int \<Rightarrow> string" where
  "cf_cache_key ttl_sec = ''ttl:'' @ show_int ttl_sec"

definition build_saver :: "checkpointer_factory \<Rightarrow> int \<Rightarrow> saver" where
  "build_saver cf ttl_sec =
     \<lparr>sv_redis_url = cf_redis_url cf, sv_default_ttl = ttl_minutes ttl_sec,
      sv_refresh_on_read = cf_refresh cf, sv_checkpoint_prefix = ''checkpoint'',
      sv_checkpoint_write_prefix = ''checkpoint_write''\<rparr>"

definition get_checkpointer ::
    "(saver \<Rightarrow> ('w, unit) io) \<Rightarrow> checkpointer_factory \<Rightarrow> string option
     \<Rightarrow> ('w, saver \<times> checkpointer_factory) io" where
  "get_checkpointer asetup cf tenant_id =
     (let ttl_sec = cf_ttl_for cf tenant_id; cache_key = cf_cache_key ttl_sec in
      case map_of (cf_cache cf) cache_key of
        Some existing \<Rightarrow> ret_io (existing, cf)
      | None \<Rightarrow>
          (let s = build_saver cf ttl_sec;
               cf1 = cf\<lparr>cf_cache := AList.update cache_key s (cf_cache cf)\<rparr>
           in if cache_key \<in> cf_setup_done cf then ret_io (s, cf1)
              else try_io
                (bind_io (asetup s) (\<lambda>_.
                   ret_io (s, cf1\<lparr>cf_setup_done := insert cache_key (cf_setup_done cf)\<rparr>)))
                (\<lambda>exc. ret_io (s, cf1))))"

definition cf_set_tenant_override ::
    "checkpointer_factory \<Rightarrow> string \<Rightarrow> int \<Rightarrow> exn + checkpointer_factory" where
  "cf_set_tenant_override cf tenant_id ttl_seconds =
     (if ttl_seconds \<le> 0 then Inl (ValueError ''ttl_seconds must be > 0'')
      else Inr (cf\<lparr>cf_overrides := AList.update tenant_id ttl_seconds (cf_overrides cf),
                   cf_cache := AList.delete (cf_cache_key ttl_seconds) (cf_cache cf)\<rparr>))"

subsection \<open>Facts\<close>

lemma show_int_inj: "show_int i = show_int j \<longleftrightarrow> i = j"
  by (metis read_show_int)

lemma cf_cache_key_inj [simp]: "cf_cache_key i = cf_cache_key j \<longleftrightarrow> i = j"
  by (simp add: cf_cache_key_def show_int_inj)

lemma read_ttl_positive: "0 < read_ttl_seconds raw"
  by (auto simp: read_ttl_seconds_def CHECKPOINT_DEFAULT_TTL_SEC_def split: sum.splits)

lemma ttl_minutes_rounds_up:
  assumes "0 < s"
  shows "s \<le> 60 * ttl_minutes s" "60 * (ttl_minutes s - 1) < s"
  using assms by (auto simp: ttl_minutes_def max_def)

text \<open>
  The invariant of the cache: the saver under the key of a retention is the one built for it, and
  every retention that can be asked for is positive.
\<close>

definition factory_ok :: "checkpointer_factory \<Rightarrow> bool" where
  "factory_ok cf \<longleftrightarrow> 0 < cf_default_ttl cf \<and> (\<forall>t n. map_of (cf_overrides cf) t = Some n \<longrightarrow> 0 < n)
     \<and> (\<forall>n s. map_of (cf_cache cf) (cf_cache_key n) = Some s \<longrightarrow> s = build_saver cf n)"

lemma factory_ok_init:
  assumes "\<And>n. d = Some n \<Longrightarrow> 0 \<le> n"
  shows "factory_ok (CheckpointerFactory_init raw url d [] refresh)"
  using assms read_ttl_positive [of raw]
  by (cases d) (auto simp: factory_ok_def CheckpointerFactory_init_def order.order_iff_strict)

lemma factory_ok_override:
  assumes "factory_ok cf" "cf_set_tenant_override cf t n = Inr cf'"
  shows "factory_ok cf'"
  using assms
  by (auto simp: factory_ok_def cf_set_tenant_override_def update_conv delete_conv build_saver_def
      split: if_splits)

lemma get_checkpointer_result:
  assumes "get_checkpointer asetup cf t w = (Inr (s, cf'), w')"
  shows "(map_of (cf_cache cf) (cf_cache_key (cf_ttl_for cf t)) = Some s \<and> cf' = cf)
    \<or> (s = build_saver cf (cf_ttl_for cf t)
       \<and> cf_cache cf' = AList.update (cf_cache_key (cf_ttl_for cf t)) s (cf_cache cf)
       \<and> cf_default_ttl cf' = cf_default_ttl cf \<and> cf_overrides cf' = cf_overrides cf
       \<and> cf_redis_url cf' = cf_redis_url cf \<and> cf_refresh cf' = cf_refresh cf)"
  using assms
  by (auto simp: get_checkpointer_def Let_def try_io_def bind_io_def
      split: option.splits if_splits prod.splits sum.splits)

lemma no_raise_get_checkpointer: "no_raise (get_checkpointer asetup cf t)"
  unfolding get_checkpointer_def Let_def by (auto split: option.splits intro!: no_raise_intros)

subsection \<open>The property of retention\<close>

text \<open>
  Every tenant's checkpoints get the retention of the tenant's policy, also from the cache: the
  saver is built for the override when the tenant has one and for the default otherwise, its
  lifetime in minutes is that number of seconds rounded up, and the factory stays well formed.
\<close>

theorem checkpoint_retention_honoured:
  assumes "factory_ok cf" "get_checkpointer asetup cf t w = (Inr (s, cf'), w')"
  shows "s = build_saver cf (cf_ttl_for cf t)
    \<and> cf_ttl_for cf t \<le> 60 * sv_default_ttl s \<and> 60 * (sv_default_ttl s - 1) < cf_ttl_for cf t
    \<and> factory_ok cf'"
proof -
  have pos: "0 < cf_ttl_for cf t"
    using assms(1) by (auto simp: factory_ok_def cf_ttl_for_def split: option.splits)
  have s: "s = build_saver cf (cf_ttl_for cf t)"
    using get_checkpointer_result [OF assms(2)] assms(1) by (auto simp: factory_ok_def)
  have "factory_ok cf'"
    using get_checkpointer_result [OF assms(2)] assms(1) s
    by (auto simp: factory_ok_def update_conv build_saver_def split: if_splits)
  moreover have "sv_default_ttl s = ttl_minutes (cf_ttl_for cf t)" using s by (simp add: build_saver_def)
  ultimately show ?thesis using s ttl_minutes_rounds_up [OF pos] by simp
qed

theorem checkpoint_retention_honoured_witness:
  "\<exists>s cf' w'. get_checkpointer (\<lambda>s. raise_io TimeoutError)
      (CheckpointerFactory_init ''90'' ''redis://r'' None [] True) (Some ''acme'') () = (Inr (s, cf'), w')
    \<and> 90 \<le> 60 * sv_default_ttl s \<and> 60 * (sv_default_ttl s - 1) < 90"
proof -
  let ?cf = "CheckpointerFactory_init ''90'' ''redis://r'' None [] True"
  have ok: "factory_ok ?cf" by (rule factory_ok_init) simp
  have "read_ttl_seconds ''90'' = 90" by code_simp
  then have ttl: "cf_ttl_for ?cf (Some ''acme'') = 90"
    by (simp add: cf_ttl_for_def CheckpointerFactory_init_def)
  obtain x w' where x: "get_checkpointer (\<lambda>s. raise_io TimeoutError) ?cf (Some ''acme'') () = (Inr x, w')"
    using no_raise_get_checkpointer by (rule no_raiseE)
  obtain s cf' where "x = (s, cf')" by fastforce
  note g = x [unfolded this]
  from checkpoint_retention_honoured [OF ok g] g show ?thesis unfolding ttl by blast
qed

end
