(* ===== verification/Triage_Worker.thy ===== *)
theory Triage_Worker
  imports Triage_Guarantees Event_Seq Jwt_Service Nats_Broker Checkpoint_Factory
begin

section \<open>services/_runtime/triage_worker.py: the NATS consumer\<close>

text \<open>
  \<open>TriageWorker\<close>: the handling of one message and its settlement with the server, and of one
  cancel request. What the worker's services keep in memory (\<open>worker_state\<close>: connection flag, token
  cache, timers, local counters, savers) is part of the world the handlers run in, so that it
  survives exceptions; \<open>on_world\<close> and \<open>on_state\<close> (theory Prelude) lift the services' own operations. The
  loop that fetches messages is in theory Worker_Loop; logging is not modelled. \<open>we_validate\<close> is
  \<open>NormalizedAlert.model_validate\<close>, \<open>we_settle\<close> the client's \<open>ack\<close>, \<open>nak\<close> and \<open>term\<close>;
  \<open>we_begin\<close> and \<open>we_save\<close> are the graph engine's use of a saver, which may raise.
\<close>

record nats_msg =
  ms_subject :: string
  ms_data :: string
  ms_headers :: "headers option"

datatype settlement = Ack | Nak | Term

record 'w worker_state =
  wk_broker :: broker
  wk_jwt_cache :: jwt_cache
  wk_cancel :: "'w cancel_registry"
  wk_counters :: counters
  wk_factory :: checkpointer_factory

type_synonym ('w, 'a) worker = "('w \<times> 'w worker_state, 'a) io"

record 'w worker_env =
  we_lib :: pylib
  we_nats :: "'w nats"
  we_jwt :: "'w jwt_service"
  we_seq :: "'w event_sequencer"
  we_asetup :: "saver \<Rightarrow> ('w, unit) io"
  we_pipeline :: "'w pipe_env"
  we_validate :: "json \<Rightarrow> exn + normalized_alert"
  we_now :: "'w \<Rightarrow> string \<times> 'w"
  we_dump_event :: "phase_event \<Rightarrow> string"
  we_settle :: "settlement \<Rightarrow> nats_msg \<Rightarrow> ('w, unit) io"
  we_begin :: "saver \<Rightarrow> string \<Rightarrow> triage_state \<Rightarrow> ('w, triage_state) io"
  we_save :: "saver \<Rightarrow> string \<Rightarrow> triage_state \<Rightarrow> ('w, unit) io"

subsection \<open>The services in the worker's world\<close>

definition w_verify :: "'w worker_env \<Rightarrow> string \<Rightarrow> ('w, auth_context) worker" where
  "w_verify env token =
     bind_io (on_state (\<lambda>s. verify (we_jwt env) (wk_jwt_cache s) token) (\<lambda>c s. s\<lparr>wk_jwt_cache := c\<rparr>))
       of_result"

definition w_publish :: "'w worker_env \<Rightarrow> string \<Rightarrow> string \<Rightarrow> string option \<Rightarrow> bool \<Rightarrow> ('w, bool) worker" where
  "w_publish env subject payload msg_id await_ack =
     on_state (\<lambda>s. broker_publish (we_nats env) (wk_broker s) subject payload msg_id [] await_ack)
       (\<lambda>b s. s\<lparr>wk_broker := b\<rparr>)"

definition w_next_seq :: "'w worker_env \<Rightarrow> string \<Rightarrow> ('w, int) worker" where
  "w_next_seq env alert_id =
     on_state (\<lambda>s. next_seq (we_seq env) (wk_counters s) alert_id) (\<lambda>c s. s\<lparr>wk_counters := c\<rparr>)"

definition w_is_cancelled :: "string \<Rightarrow> ('w, bool) worker" where
  "w_is_cancelled alert_id = reads (\<lambda>s. is_cancelled (wk_cancel s) alert_id)"

definition w_request_cancel :: "string \<Rightarrow> ('w, unit) worker" where
  "w_request_cancel alert_id =
     on_state (\<lambda>s. bind_io (request_cancel (wk_cancel s) alert_id) (\<lambda>reg. ret_io ((), reg)))
       (\<lambda>reg s. s\<lparr>wk_cancel := reg\<rparr>)"

definition w_checkpointer :: "'w worker_env \<Rightarrow> string option \<Rightarrow> ('w, saver) worker" where
  "w_checkpointer env tenant_id =
     on_state (\<lambda>s. get_checkpointer (we_asetup env) (wk_factory s) tenant_id)
       (\<lambda>cf s. s\<lparr>wk_factory := cf\<rparr>)"

definition w_run_triage :: "'w worker_env \<Rightarrow> normalized_alert \<Rightarrow> saver \<Rightarrow> ('w, triage_verdict) worker" where
  "w_run_triage env alert checkpointer =
     on_world (run_triage_saved (we_pipeline env) (we_begin env checkpointer) (we_save env checkpointer) alert)"

subsection \<open>Parsing\<close>

definition strip_claims :: "json \<Rightarrow> json" where
  "strip_claims raw =
     (case raw of
        JDict d \<Rightarrow> JDict (AList.delete ''__subject__'' (AList.delete ''tenant_id'' d))
      | v \<Rightarrow> v)"

definition parse_alert ::
    "pylib \<Rightarrow> (json \<Rightarrow> exn + normalized_alert) \<Rightarrow> string \<Rightarrow> auth_context \<Rightarrow> exn + normalized_alert" where
  "parse_alert lib validate data auth =
     (case json_loads lib data of
        Inl (JSONDecodeError m) \<Rightarrow> Inl (PoisonPill (''message body is not valid JSON: '' @ m))
      | Inl e \<Rightarrow> Inl e
      | Inr raw \<Rightarrow>
          (case validate (strip_claims raw) of
             Inl e \<Rightarrow> Inl (PoisonPill (''message body fails NormalizedAlert validation: '' @ exn_str e))
           | Inr alert \<Rightarrow> Inr (alert\<lparr>na_tenant_id := Some (au_tenant_id auth)\<rparr>)))"

definition alert_id_from_subject :: "string \<Rightarrow> string option" where
  "alert_id_from_subject subject =
     (let parts = split_on CHR ''.'' subject in
      if 5 \<le> length parts \<and> parts ! 0 = ''triage'' \<and> parts ! 1 = ''cancel'' then Some (last parts)
      else None)"

subsection \<open>Phase events\<close>

definition make_phase_event ::
    "string \<Rightarrow> normalized_alert \<Rightarrow> string \<Rightarrow> int \<Rightarrow> string \<Rightarrow> string option \<Rightarrow> exn + phase_event" where
  "make_phase_event now alert tenant_id seq phase trace_id =
     (let ev = \<lparr>ev_alert_id = na_alert_id alert, ev_tenant_id = tenant_id, ev_event_seq = seq,
                ev_emitted_at = now, ev_trace_id = trace_id, ev_kind = ''phase'', ev_phase = phase,
                ev_detail = None\<rparr>
      in if phase_event_valid ev then Inr ev else Inl (ValidationError ''phase''))"

definition publish_phase ::
    "'w worker_env \<Rightarrow> normalized_alert \<Rightarrow> string \<Rightarrow> string option \<Rightarrow> ('w, unit) worker" where
  "publish_phase env alert phase trace_id =
     (if \<not> opt_true (na_tenant_id alert) then ret_io ()
      else
        (let tenant_id = the (na_tenant_id alert) in
         bind_io (w_next_seq env (na_alert_id alert)) (\<lambda>seq.
         bind_io (on_world (draw (we_now env))) (\<lambda>now.
         bind_io (of_result (make_phase_event now alert tenant_id seq phase trace_id)) (\<lambda>event.
         bind_io (w_publish env (subj_triage_event tenant_id (na_alert_id alert) phase)
                    (we_dump_event env event) None False) (\<lambda>_. ret_io ()))))))"

definition to_dlq :: "'w worker_env \<Rightarrow> normalized_alert \<Rightarrow> string \<Rightarrow> ('w, unit) worker" where
  "to_dlq env alert reason =
     (if \<not> opt_true (na_tenant_id alert) then ret_io ()
      else
        bind_io (w_publish env (subj_dlq (the (na_tenant_id alert)) ''ALERTS'' (na_alert_id alert))
            (json_dumps (we_lib env) (JDict
              [(''alert_id'', JStr (na_alert_id alert)), (''reason'', JStr reason)]))
            (Some (na_alert_id alert @ '':dlq'')) True) (\<lambda>_. ret_io ()))"

subsection \<open>One message\<close>

text \<open>
  \<open>handle_message\<close>. The verdict is not used after step 5: the code leaves its storage to the
  in-process store, which this path does not call. The comparison of \<open>msg_id\<close> with the alert's id
  only logs.
\<close>

definition handle_message :: "'w worker_env \<Rightarrow> string \<Rightarrow> string \<Rightarrow> ('w, unit) worker" where
  "handle_message env data service_token =
     bind_io (w_verify env service_token) (\<lambda>auth.
     bind_io (of_result (parse_alert (we_lib env) (we_validate env) data auth)) (\<lambda>alert.
     bind_io (publish_phase env alert ''queued'' None) (\<lambda>_.
     bind_io (w_is_cancelled (na_alert_id alert)) (\<lambda>cancelled.
     if cancelled then publish_phase env alert ''cancelled'' None
     else
       bind_io (w_checkpointer env (Some (au_tenant_id auth))) (\<lambda>checkpointer.
       bind_io
         (try_io (w_run_triage env alert checkpointer)
            (\<lambda>exc. bind_io (publish_phase env alert ''failed'' None) (\<lambda>_. raise_io exc))) (\<lambda>verdict.
       bind_io (w_is_cancelled (na_alert_id alert)) (\<lambda>_.
         publish_phase env alert ''done'' None)))))))"

definition safe_settle :: "'w worker_env \<Rightarrow> settlement \<Rightarrow> nats_msg \<Rightarrow> ('w, unit) worker" where
  "safe_settle env how msg = try_io (on_world (we_settle env how msg)) (\<lambda>exc. ret_io ())"

definition service_token_of :: "nats_msg \<Rightarrow> string" where
  "service_token_of msg =
     (let headers = (case ms_headers msg of None \<Rightarrow> [] | Some h \<Rightarrow> h)
      in case map_of headers ''X-Service-Auth'' of None \<Rightarrow> [] | Some t \<Rightarrow> t)"

definition dispatch_one :: "'w worker_env \<Rightarrow> nats_msg \<Rightarrow> ('w, unit) worker" where
  "dispatch_one env msg =
     (let service_token = service_token_of msg
      in if service_token = [] then safe_settle env Term msg
         else
           bind_io (catch_io (handle_message env (ms_data msg) service_token)) (\<lambda>outcome.
           (case outcome of
              Inl (JWTError m) \<Rightarrow> safe_settle env Term msg
            | Inl (PoisonPill m) \<Rightarrow> safe_settle env Term msg
            | Inl e \<Rightarrow> safe_settle env Nak msg
            | Inr _ \<Rightarrow> safe_settle env Ack msg)))"

fun dispatch_all :: "'w worker_env \<Rightarrow> nats_msg list \<Rightarrow> ('w, unit) worker" where
  "dispatch_all env [] = ret_io ()"
| "dispatch_all env (msg # msgs) = bind_io (dispatch_one env msg) (\<lambda>_. dispatch_all env msgs)"

subsection \<open>One cancel request\<close>

text \<open>
  The body of the cancel loop for one message. An identifier that is neither text nor a number
  cannot be a dictionary key; whatever happens, the message is acknowledged.
\<close>

definition cancel_target :: "pylib \<Rightarrow> nats_msg \<Rightarrow> exn + string option" where
  "cancel_target lib msg =
     bind_r (if ms_data msg = [] then Inr (JDict []) else json_loads lib (ms_data msg)) (\<lambda>payload.
     bind_r (attr_get payload ''alert_id'' JNull) (\<lambda>v.
       if \<not> truthy v then Inr (alert_id_from_subject (ms_subject msg))
       else (case v of
               JList _ \<Rightarrow> Inl (TypeError ''unhashable type'')
             | JDict _ \<Rightarrow> Inl (TypeError ''unhashable type'')
             | _ \<Rightarrow> Inr (Some (py_str (float_repr lib) v)))))"

definition handle_cancel :: "'w worker_env \<Rightarrow> nats_msg \<Rightarrow> ('w, unit) worker" where
  "handle_cancel env msg =
     try_io
       (bind_io (of_result (cancel_target (we_lib env) msg)) (\<lambda>target.
        bind_io (if opt_true target then w_request_cancel (the target) else ret_io ()) (\<lambda>_.
          safe_settle env Ack msg)))
       (\<lambda>exc. safe_settle env Ack msg)"

subsection \<open>Facts\<close>

lemma no_raise_safe_settle: "no_raise (safe_settle env how msg)"
  unfolding safe_settle_def by (intro no_raise_intros)

lemma no_raise_dispatch: "no_raise (dispatch_one env msg)"
  unfolding dispatch_one_def Let_def
  by (intro no_raise_intros no_raise_safe_settle)
    (auto split: sum.splits exn.splits intro: no_raise_safe_settle)

lemma no_raise_w_publish: "no_raise (w_publish env s p m a)"
  unfolding w_publish_def by (intro no_raise_on_state no_raise_publish)

lemma no_raise_publish_phase:
  assumes "phase \<in> set triage_phases"
  shows "no_raise (publish_phase env alert phase t)"
proof -
  have "no_raise (w_next_seq env a)" for a
    unfolding w_next_seq_def by (intro no_raise_on_state no_raise_next)
  moreover have "no_raise (on_world (draw (we_now env)))"
    by (rule no_raise_on_world) (auto simp: no_raise_def draw_def split: prod.splits)
  moreover have "no_raise (of_result (make_phase_event now alert tid n phase t))" for now tid n
    using assms by (simp add: no_raise_def make_phase_event_def phase_event_valid_def)
  ultimately show ?thesis
    unfolding publish_phase_def Let_def by (intro no_raise_intros no_raise_w_publish)
qed

text \<open>How the outcome of the handler settles a message.\<close>

fun settlement_of :: "exn + unit \<Rightarrow> settlement" where
  "settlement_of (Inr u) = Ack"
| "settlement_of (Inl (JWTError m)) = Term"
| "settlement_of (Inl (PoisonPill m)) = Term"
| "settlement_of (Inl e) = Nak"

lemma dispatch_settles:
  assumes "service_token_of msg \<noteq> []"
  shows "dispatch_one env msg ws =
    (case handle_message env (ms_data msg) (service_token_of msg) ws of
       (r, ws') \<Rightarrow> safe_settle env (settlement_of r) msg ws')"
proof -
  obtain r ws' where h: "handle_message env (ms_data msg) (service_token_of msg) ws = (r, ws')"
    by (rule prod.exhaust)
  with assms show ?thesis
    by (auto simp: dispatch_one_def Let_def bind_io_def catch_io_def split: sum.splits exn.splits)
qed

lemma settlement_iffs:
  "settlement_of r = Ack \<longleftrightarrow> r = Inr ()"
  "settlement_of r = Term \<longleftrightarrow> (\<exists>m. r = Inl (JWTError m) \<or> r = Inl (PoisonPill m))"
  by (cases r rule: settlement_of.cases; simp)+

subsection \<open>The properties of the worker\<close>

text \<open>
  C18. Tenant isolation: the alert a message is turned into belongs to the tenant of the verified
  service token, and the rest of the alert does not depend on what tenant (or routing subject) the
  body claims.
\<close>

theorem worker_tenant_from_token:
  assumes "json_loads lib data = Inr (JDict d)"
    and "json_loads lib data' = Inr (JDict (AList.update ''tenant_id'' claimed d))"
  shows "parse_alert lib validate data' auth = parse_alert lib validate data auth
    \<and> (\<forall>alert. parse_alert lib validate data auth = Inr alert
         \<longrightarrow> na_tenant_id alert = Some (au_tenant_id auth))"
proof -
  have "AList.delete k (AList.update k v xs) = AList.delete k xs" for k :: string and v and xs :: jdict
    by (induction xs) auto
  with assms show ?thesis by (auto simp: parse_alert_def strip_claims_def split: sum.splits)
qed

definition demo_auth :: auth_context where
  "demo_auth = \<lparr>au_user_id = JStr ''u1'', au_tenant_id = ''acme'', au_audience = ''worker'',
     au_role = JNull, au_jti = JStr ''j1''\<rparr>"

theorem worker_tenant_from_token_witness:
  "parse_alert (demo_lib [(''{}'', JDict []), (''{t}'', JDict [(''tenant_id'', JStr ''evil'')])])
      (\<lambda>v. Inr demo_alert) ''{t}'' demo_auth = Inr (demo_alert\<lparr>na_tenant_id := Some ''acme''\<rparr>)"
proof -
  let ?lib = "demo_lib [(''{}'', JDict []), (''{t}'', JDict [(''tenant_id'', JStr ''evil'')])]"
  have l: "json_loads ?lib ''{}'' = Inr (JDict [])"
    "json_loads ?lib ''{t}'' = Inr (JDict (AList.update ''tenant_id'' (JStr ''evil'') []))"
    by (simp_all add: demo_lib_def)
  have "parse_alert ?lib (\<lambda>v. Inr demo_alert) ''{}'' demo_auth = Inr (demo_alert\<lparr>na_tenant_id := Some ''acme''\<rparr>)"
    by (simp add: parse_alert_def demo_lib_def demo_auth_def)
  with worker_tenant_from_token [OF l] show ?thesis by simp
qed

text \<open>
  C19. Every message is settled with the server exactly once, whatever it holds and whatever happens
  while it is handled, and handling it never stops the worker. Without a service token it is
  terminated (never redelivered) and not looked at. Otherwise it is acknowledged just when the
  handler returns, terminated just when the handler raised \<open>JWTError\<close> or \<open>PoisonPill\<close>, and handed
  back for redelivery on any other exception. A token that verification refuses with \<open>JWTError\<close>,
  and under a good token a body that is not JSON or that the alert model refuses, are terminated
  (a body that is not UTF-8 makes \<open>json.loads\<close> raise something else and is handed back).
\<close>

theorem message_settled_once:
  shows "\<exists>how ws1 ws2. dispatch_one env msg ws = (Inr (), ws2)
    \<and> safe_settle env how msg ws1 = (Inr (), ws2)
    \<and> (if service_token_of msg = [] then how = Term \<and> ws1 = ws
       else \<exists>r. handle_message env (ms_data msg) (service_token_of msg) ws = (r, ws1)
          \<and> (how = Ack \<longleftrightarrow> r = Inr ())
          \<and> (how = Term \<longleftrightarrow> (\<exists>m. r = Inl (JWTError m) \<or> r = Inl (PoisonPill m))))
    \<and> (\<forall>m ws'. w_verify env (service_token_of msg) ws = (Inl (JWTError m), ws') \<longrightarrow> how = Term)
    \<and> (\<forall>auth m v e ws'. w_verify env (service_token_of msg) ws = (Inr auth, ws')
         \<and> (json_loads (we_lib env) (ms_data msg) = Inl (JSONDecodeError m)
            \<or> json_loads (we_lib env) (ms_data msg) = Inr v \<and> we_validate env (strip_claims v) = Inl e)
         \<longrightarrow> how = Term)"
proof (cases "service_token_of msg = []")
  case True
  obtain u ws2 where d: "dispatch_one env msg ws = (Inr u, ws2)"
    using no_raise_dispatch by (rule no_raiseE)
  with True have "safe_settle env Term msg ws = (Inr (), ws2)" by (simp add: dispatch_one_def)
  with d True show ?thesis by (intro exI [of _ Term] exI [of _ ws] exI [of _ ws2]) simp
next
  case False
  let ?h = "handle_message env (ms_data msg) (service_token_of msg) ws"
  obtain r ws1 where h: "?h = (r, ws1)" by (rule prod.exhaust)
  obtain u ws2 where d: "dispatch_one env msg ws = (Inr u, ws2)"
    using no_raise_dispatch by (rule no_raiseE)
  have t1: "settlement_of r = Term" if "w_verify env (service_token_of msg) ws = (Inl (JWTError m), ws')" for m ws'
    using h that by (auto simp: handle_message_def)
  have t2: "settlement_of r = Term"
    if "w_verify env (service_token_of msg) ws = (Inr auth, ws')"
      "json_loads (we_lib env) (ms_data msg) = Inl (JSONDecodeError m)
        \<or> json_loads (we_lib env) (ms_data msg) = Inr v \<and> we_validate env (strip_claims v) = Inl e" for auth m v e ws'
  proof -
    have "\<exists>p. parse_alert (we_lib env) (we_validate env) (ms_data msg) auth = Inl (PoisonPill p)"
      using that(2) by (auto simp: parse_alert_def)
    with h that(1) show ?thesis by (auto simp: handle_message_def)
  qed
  from h d False dispatch_settles [OF False, of env ws] have "safe_settle env (settlement_of r) msg ws1 = (Inr (), ws2)"
    by simp
  with h d False t1 t2 show ?thesis
    by (intro exI [of _ "settlement_of r"] exI [of _ ws1] exI [of _ ws2] conjI) (auto simp: settlement_iffs)
qed

text \<open>
  A message without a service token is terminated without being looked at: no service of the
  worker changes state. This is the fate of every message the ingest path and the reconciler
  publish, which carry the message id as their only header.
\<close>

theorem tokenless_message_terminated:
  assumes "ms_headers msg = all_headers (Some alert_id) []"
  shows "dispatch_one env msg (w, s) = (case we_settle env Term msg w of (r, w') \<Rightarrow> (Inr (), (w', s)))"
proof -
  have "service_token_of msg = []"
    using assms by (simp add: service_token_of_def all_headers_def)
  then show ?thesis
    by (simp add: dispatch_one_def safe_settle_def on_world_eq try_io_def split: prod.splits sum.splits)
qed

text \<open>A worker over the demonstration store for the witnesses; \<open>table\<close> is what its bodies decode to.\<close>

definition demo_worker :: "(string \<times> json) list \<Rightarrow> kv worker_env" where
  "demo_worker table =
     \<lparr>we_lib = demo_lib table, we_nats = \<lparr>nt_connect = (\<lambda>s c n. ret_io ()), nt_jetstream = ret_io (),
        nt_js_publish = (\<lambda>s p h. ret_io ()), nt_publish = (\<lambda>s p h. ret_io ()),
        nt_pull_subscribe = (\<lambda>f d a m. ret_io ()), nt_drain = ret_io ()\<rparr>,
      we_jwt = ideal_jwt ''worker'' bundle_old,
      we_seq = \<lparr>sq_ttl = 600, sq_client = Some demo_redis\<rparr>, we_asetup = (\<lambda>s. ret_io ()),
      we_pipeline = demo_env, we_validate = (\<lambda>v. Inr demo_alert), we_now = (\<lambda>w. (''now'', w)),
      we_dump_event = ev_phase, we_settle = (\<lambda>how msg. raise_io TimeoutError),
      we_begin = (\<lambda>sv thread input. ret_io input), we_save = (\<lambda>sv thread state. ret_io ())\<rparr>"

definition demo_state :: "kv worker_state" where
  "demo_state =
     \<lparr>wk_broker = NatsBroker_init ''nats://n'' None ''worker'', wk_jwt_cache = [],
      wk_cancel = CancelRegistry_init (\<lambda>u. Inr demo_redis) ''u'' 5, wk_counters = [],
      wk_factory = CheckpointerFactory_init '''' ''redis://r'' None [] True\<rparr>"

definition demo_msg :: "headers option \<Rightarrow> nats_msg" where
  "demo_msg headers = \<lparr>ms_subject = ''alerts.v1.acme.splunk.a1'', ms_data = ''{}'', ms_headers = headers\<rparr>"

theorem message_settled_once_witness:
  "\<exists>ws1 ws2. dispatch_one (demo_worker []) (demo_msg None) (Map.empty, demo_state) = (Inr (), ws2)
    \<and> safe_settle (demo_worker []) Term (demo_msg None) ws1 = (Inr (), ws2)
    \<and> ws1 = (Map.empty, demo_state)"
proof -
  have t: "service_token_of (demo_msg None) = []" by (simp add: service_token_of_def demo_msg_def)
  show ?thesis
    using message_settled_once [of "demo_worker []" "demo_msg None" "(Map.empty, demo_state)"]
    unfolding if_P [OF t] by blast
qed

theorem tokenless_message_terminated_witness:
  "dispatch_one (demo_worker []) (demo_msg (all_headers (Some ''a1'') [])) (Map.empty, demo_state)
     = (Inr (), (Map.empty, demo_state))"
proof -
  have h: "ms_headers (demo_msg (all_headers (Some ''a1'') [])) = all_headers (Some ''a1'') []"
    by (simp add: demo_msg_def)
  have s: "we_settle (demo_worker []) Term m w = (Inl TimeoutError, w)" for m w
    by (simp add: demo_worker_def)
  show ?thesis using tokenless_message_terminated [OF h, of "demo_worker []" Map.empty demo_state]
    by (simp add: s)
qed

subsection \<open>A good message is acknowledged\<close>

lemma phases_listed:
  "''queued'' \<in> set triage_phases" "''cancelled'' \<in> set triage_phases" "''failed'' \<in> set triage_phases"
  "''done'' \<in> set triage_phases"
  by (simp_all add: triage_phases_def)

lemma no_raise_w_is_cancelled: "no_raise (w_is_cancelled a)"
  unfolding w_is_cancelled_def by (intro no_raise_reads no_raise_is_cancelled)

text \<open>
  C20. A message with a valid service token and a valid body fails only when its triage run fails.
  Telling the phase, reading the cancel flag and getting the checkpointer never fail it, whatever
  Redis and NATS do. When its cancel flag is set it is acknowledged without a run. Otherwise the
  run with the tenant's checkpointer (whose Redis may raise out of the run) decides: when it gives a
  verdict the message is acknowledged, and when it raises the failed phase is told and the
  exception settles the message as in C19: handed back for redelivery, unless it is one of the two
  that terminate.
\<close>

theorem valid_message_outcome:
  assumes "service_token_of msg \<noteq> []" "w_verify env (service_token_of msg) ws = (Inr auth, ws1)"
    and "parse_alert (we_lib env) (we_validate env) (ms_data msg) auth = Inr alert"
  shows "\<exists>ws2 cancelled ws3.
    publish_phase env alert ''queued'' None ws1 = (Inr (), ws2)
    \<and> w_is_cancelled (na_alert_id alert) ws2 = (Inr cancelled, ws3)
    \<and> (if cancelled then \<exists>ws4. dispatch_one env msg ws = safe_settle env Ack msg ws4
       else \<exists>checkpointer ws4 r ws5 ws6.
         w_checkpointer env (Some (au_tenant_id auth)) ws3 = (Inr checkpointer, ws4)
         \<and> w_run_triage env alert checkpointer ws4 = (r, ws5)
         \<and> (case r of
              Inr verdict \<Rightarrow> dispatch_one env msg ws = safe_settle env Ack msg ws6
            | Inl e \<Rightarrow> publish_phase env alert ''failed'' None ws5 = (Inr (), ws6)
                \<and> dispatch_one env msg ws = safe_settle env (settlement_of (Inl e)) msg ws6))"
proof -
  have cp: "no_raise (w_checkpointer env t)" for t
    unfolding w_checkpointer_def by (intro no_raise_on_state no_raise_get_checkpointer)
  obtain ws2 where q: "publish_phase env alert ''queued'' None ws1 = (Inr (), ws2)"
    using no_raise_publish_phase [OF phases_listed(1)] by (metis no_raiseE old.unit.exhaust)
  obtain cancelled ws3 where c: "w_is_cancelled (na_alert_id alert) ws2 = (Inr cancelled, ws3)"
    using no_raise_w_is_cancelled by (rule no_raiseE)
  note d = dispatch_settles [OF assms(1), of env ws]
  let ?run = "\<lambda>ws3. \<exists>checkpointer ws4 r ws5 ws6.
         w_checkpointer env (Some (au_tenant_id auth)) ws3 = (Inr checkpointer, ws4)
         \<and> w_run_triage env alert checkpointer ws4 = (r, ws5)
         \<and> (case r of
              Inr verdict \<Rightarrow> dispatch_one env msg ws = safe_settle env Ack msg ws6
            | Inl e \<Rightarrow> publish_phase env alert ''failed'' None ws5 = (Inr (), ws6)
                \<and> dispatch_one env msg ws = safe_settle env (settlement_of (Inl e)) msg ws6)"
  show ?thesis
  proof (cases cancelled)
    case True
    obtain u4 ws4 where "publish_phase env alert ''cancelled'' None ws3 = (Inr u4, ws4)"
      using no_raise_publish_phase [OF phases_listed(2)] by (rule no_raiseE)
    with True q c assms(2,3) have "handle_message env (ms_data msg) (service_token_of msg) ws = (Inr (), ws4)"
      by (simp add: handle_message_def)
    with d have "\<exists>ws4. dispatch_one env msg ws = safe_settle env Ack msg ws4"
      by (intro exI [of _ ws4]) simp
    with q c True show ?thesis
      by - (rule exI [of _ ws2], rule exI [of _ cancelled], rule exI [of _ ws3], simp)
  next
    case False
    obtain cpr ws4 where p: "w_checkpointer env (Some (au_tenant_id auth)) ws3 = (Inr cpr, ws4)"
      using cp by (rule no_raiseE)
    obtain r ws5 where t: "w_run_triage env alert cpr ws4 = (r, ws5)" by (rule prod.exhaust)
    show ?thesis
    proof (cases r)
      case (Inl e)
      obtain u6 ws6 where f: "publish_phase env alert ''failed'' None ws5 = (Inr u6, ws6)"
        using no_raise_publish_phase [OF phases_listed(3)] by (rule no_raiseE)
      have "handle_message env (ms_data msg) (service_token_of msg) ws = (Inl e, ws6)"
        using False q c p t Inl f assms(2,3) by (simp add: handle_message_def try_io_def)
      with d have "dispatch_one env msg ws = safe_settle env (settlement_of (Inl e)) msg ws6" by simp
      with p t Inl f have "?run ws3"
        by - (rule exI [of _ cpr], rule exI [of _ ws4], rule exI [of _ r], rule exI [of _ ws5],
            rule exI [of _ ws6], simp)
      with False q c show ?thesis
        by - (rule exI [of _ ws2], rule exI [of _ cancelled], rule exI [of _ ws3], simp only: if_False simp_thms)
    next
      case (Inr v)
      obtain c2 ws6 where c2: "w_is_cancelled (na_alert_id alert) ws5 = (Inr c2, ws6)"
        using no_raise_w_is_cancelled by (rule no_raiseE)
      obtain u7 ws7 where f: "publish_phase env alert ''done'' None ws6 = (Inr u7, ws7)"
        using no_raise_publish_phase [OF phases_listed(4)] by (rule no_raiseE)
      have "handle_message env (ms_data msg) (service_token_of msg) ws = (Inr (), ws7)"
        using False q c p t Inr c2 f assms(2,3) by (simp add: handle_message_def try_io_def)
      with d have "dispatch_one env msg ws = safe_settle env Ack msg ws7" by simp
      with p t Inr have "?run ws3"
        by - (rule exI [of _ cpr], rule exI [of _ ws4], rule exI [of _ r], rule exI [of _ ws5],
            rule exI [of _ ws7], simp)
      with False q c show ?thesis
        by - (rule exI [of _ ws2], rule exI [of _ cancelled], rule exI [of _ ws3], simp only: if_False simp_thms)
    qed
  qed
qed

lemma demo_token_verifies:
  "\<exists>auth ws1. w_verify (demo_worker t) (jw_encode (ideal_jwt ''worker'' bundle_old :: kv jwt_service)
       demo_claims ''s1'') (Map.empty, demo_state) = (Inr auth, ws1)"
proof -
  let ?sv = "ideal_jwt ''worker'' bundle_old :: kv jwt_service"
  have valid: "claims_valid demo_claims (jw_audience ?sv) (jw_leeway ?sv) 100"
    by (simp add: claims_valid_def demo_claims_def required_claims_def)
  have dec: "decode_with_rotation ?sv (jw_encode ?sv demo_claims ''s1'') 100 bundle_old = Inr demo_claims"
    unfolding decode_with_rotation_def
    by (rule decode_with_member [OF ideal_jwt_ok valid]) (simp_all add: bundle_secrets_def bundle_old_def plain_keys)
  have p: "dict_get demo_claims ''aud'' JNull = JStr (jw_audience ?sv)"
    "list_all (has_key demo_claims) required_claims" "dict_get demo_claims ''exp'' JNull = JInt 160"
    by (simp_all add: demo_claims_def required_claims_def)
  show ?thesis
    using verify_admits [OF ideal_jwt_simps(2) ideal_jwt_simps(6) dec p ideal_jwt_simps(3)]
    by (simp add: w_verify_def on_state_def demo_worker_def demo_state_def bind_io_def)
qed

theorem valid_message_outcome_witness:
  "\<exists>token auth alert ws1 ws2 cancelled ws3.
     w_verify (demo_worker [(''{}'', JDict [])]) token (Map.empty, demo_state) = (Inr auth, ws1)
     \<and> na_alert_id alert = ''a1'' \<and> na_tenant_id alert = Some (au_tenant_id auth)
     \<and> publish_phase (demo_worker [(''{}'', JDict [])]) alert ''queued'' None ws1 = (Inr (), ws2)
     \<and> w_is_cancelled ''a1'' ws2 = (Inr cancelled, ws3)"
proof -
  let ?env = "demo_worker [(''{}'', JDict [])]"
  let ?token = "jw_encode (ideal_jwt ''worker'' bundle_old :: kv jwt_service) demo_claims ''s1''"
  let ?m = "demo_msg (Some [(''X-Service-Auth'', ?token)])"
  obtain auth ws1 where v: "w_verify ?env ?token (Map.empty, demo_state) = (Inr auth, ws1)"
    using demo_token_verifies by blast
  have t: "service_token_of ?m = ?token" by (simp add: service_token_of_def demo_msg_def)
  have v': "w_verify ?env (service_token_of ?m) (Map.empty, demo_state) = (Inr auth, ws1)"
    by (subst t) (rule v)
  have n: "service_token_of ?m \<noteq> []" unfolding t by (simp add: ideal_jwt_def)
  let ?a = "demo_alert\<lparr>na_tenant_id := Some (au_tenant_id auth)\<rparr>"
  have p: "parse_alert (we_lib ?env) (we_validate ?env) (ms_data ?m) auth = Inr ?a"
    by (simp add: parse_alert_def strip_claims_def demo_worker_def demo_lib_def demo_msg_def)
  have a: "na_alert_id ?a = ''a1''" "na_tenant_id ?a = Some (au_tenant_id auth)"
    by (simp_all add: demo_alert_def)
  obtain ws2 cancelled ws3 where "publish_phase ?env ?a ''queued'' None ws1 = (Inr (), ws2)"
    "w_is_cancelled (na_alert_id ?a) ws2 = (Inr cancelled, ws3)"
    using valid_message_outcome [OF n v' p] by blast
  with v a show ?thesis by metis
qed

end
