(* ===== verification/Ingest_Wal.thy ===== *)
theory Ingest_Wal
  imports Json Redis_Port Nats_Broker Demo_World
begin

section \<open>services/_runtime/ingest_reconciler.py: the write-ahead log\<close>

text \<open>
  The log of alerts accepted but not yet published: \<open>write_ahead\<close> and \<open>mark_published\<close> are called
  by the ingest path, \<open>run_once\<close> drains the log with one lease per alert. The broker's state is
  passed through. \<open>rc_now\<close> is \<open>time.time()\<close>; the background task that calls \<open>run_once\<close> every few
  seconds is in theory Wal_Loop. \<open>publish_subject_for\<close> may raise; \<open>rc_dlq\<close> is the optional publisher of
  the dead-letter queue.
\<close>

definition wal_pending_key :: "string \<Rightarrow> string" where
  "wal_pending_key alert_id = ''pending_alert:'' @ alert_id"

definition wal_lease_key :: "string \<Rightarrow> string" where
  "wal_lease_key alert_id = ''pending_alert_lease:'' @ alert_id"

definition wal_attempts_key :: "string \<Rightarrow> string" where
  "wal_attempts_key alert_id = ''pending_alert_attempts:'' @ alert_id"

definition wal_next_key :: "string \<Rightarrow> string" where
  "wal_next_key alert_id = ''pending_alert_attempts:'' @ alert_id @ '':next''"

definition BACKOFF_SECONDS :: "int list" where
  "BACKOFF_SECONDS = [5, 30, 300, 1800, 3600, 3600 * 4, 3600 * 8]"

record 'w reconciler =
  rc_lib :: pylib
  rc_nats :: "'w nats"
  rc_client :: "'w redis option"
  rc_publish_subject_for :: "jdict \<Rightarrow> exn + string"
  rc_max_age :: int
  rc_lease :: int
  rc_owner :: string
  rc_dlq :: "(string \<Rightarrow> jdict \<Rightarrow> string \<Rightarrow> ('w, unit) io) option"
  rc_now :: "'w \<Rightarrow> rat \<times> 'w"

definition rc_time :: "'w reconciler \<Rightarrow> ('w, rat) io" where
  "rc_time rc w = (case rc_now rc w of (t, w') \<Rightarrow> (Inr t, w'))"

definition write_ahead :: "'w reconciler \<Rightarrow> string \<Rightarrow> jdict \<Rightarrow> ('w, bool) io" where
  "write_ahead rc alert_id payload =
     (case rc_client rc of
        None \<Rightarrow> ret_io True
      | Some client \<Rightarrow>
          try_io
            (bind_io (rd_setex client (wal_pending_key alert_id) (rc_max_age rc)
                        (json_dumps (rc_lib rc) (JDict payload))) (\<lambda>_. ret_io True))
            (\<lambda>exc. ret_io True))"

definition mark_published :: "'w reconciler \<Rightarrow> string \<Rightarrow> ('w, unit) io" where
  "mark_published rc alert_id =
     (case rc_client rc of
        None \<Rightarrow> ret_io ()
      | Some client \<Rightarrow>
          try_io
            (rd_delete client [wal_pending_key alert_id, wal_lease_key alert_id, wal_attempts_key alert_id])
            (\<lambda>exc. ret_io ()))"

subsection \<open>Leases and attempts\<close>

definition acquire_lease :: "'w reconciler \<Rightarrow> 'w redis \<Rightarrow> string \<Rightarrow> ('w, bool) io" where
  "acquire_lease rc client alert_id =
     rd_set_nx_ex client (wal_lease_key alert_id) (rc_owner rc) (rc_lease rc)"

text \<open>The script, its white space collapsed: delete the key when it still holds the owner.\<close>

definition release_script :: string where
  "release_script =
     ''if redis.call('GET', KEYS[1]) == ARGV[1] then return redis.call('DEL', KEYS[1]) else return 0 end''"

definition release_lease :: "'w reconciler \<Rightarrow> 'w redis \<Rightarrow> string \<Rightarrow> ('w, unit) io" where
  "release_lease rc client alert_id =
     try_io
       (bind_io (rd_eval client release_script [wal_lease_key alert_id] [rc_owner rc]) (\<lambda>_. ret_io ()))
       (\<lambda>exc. ret_io ())"

definition increment_attempts :: "'w reconciler \<Rightarrow> 'w redis \<Rightarrow> string \<Rightarrow> ('w, int) io" where
  "increment_attempts rc client alert_id =
     try_io
       (bind_io (rd_incr client (wal_attempts_key alert_id)) (\<lambda>n.
        bind_io (rd_expire client (wal_attempts_key alert_id) (rc_max_age rc)) (\<lambda>_. ret_io n)))
       (\<lambda>exc. ret_io 1)"

definition move_to_dlq ::
    "'w reconciler \<Rightarrow> 'w redis \<Rightarrow> string \<Rightarrow> jdict \<Rightarrow> string \<Rightarrow> ('w, unit) io" where
  "move_to_dlq rc client alert_id payload reason =
     bind_io
       (case rc_dlq rc of
          None \<Rightarrow> ret_io ()
        | Some publish \<Rightarrow> try_io (publish alert_id payload reason) (\<lambda>exc. ret_io ())) (\<lambda>_.
     try_io
       (rd_delete client [wal_pending_key alert_id, wal_attempts_key alert_id, wal_next_key alert_id])
       (\<lambda>exc. ret_io ()))"

subsection \<open>One pending alert\<close>

text \<open>What \<open>if next_after and time.time() < float(next_after)\<close> decides.\<close>

definition backing_off :: "'w reconciler \<Rightarrow> string option \<Rightarrow> ('w, bool) io" where
  "backing_off rc next_after =
     (case next_after of
        None \<Rightarrow> ret_io False
      | Some s \<Rightarrow>
          if s = [] then ret_io False
          else bind_io (rc_time rc) (\<lambda>now.
               bind_io (of_result (float_parse (rc_lib rc) s)) (\<lambda>t. ret_io (now < t))))"

definition publish_pending ::
    "'w reconciler \<Rightarrow> 'w redis \<Rightarrow> broker \<Rightarrow> string \<Rightarrow> jdict \<Rightarrow> int \<Rightarrow> ('w, broker) io" where
  "publish_pending rc client b alert_id payload attempts =
     bind_io (of_result (rc_publish_subject_for rc payload)) (\<lambda>subject.
     bind_io (broker_publish (rc_nats rc) b subject (json_dumps (rc_lib rc) (JDict payload))
                (Some alert_id) [] True) (\<lambda>(ok, b).
     if ok then bind_io (mark_published rc alert_id) (\<lambda>_. ret_io b)
     else
       (let delay = BACKOFF_SECONDS ! nat (min (attempts - 1) (int (length BACKOFF_SECONDS) - 1)) in
        bind_io (rc_time rc) (\<lambda>now.
        bind_io (rd_setex client (wal_next_key alert_id) (rc_max_age rc)
                   (float_repr (rc_lib rc) (now + of_int delay))) (\<lambda>_.
        bind_io (if attempts \<ge> int (length BACKOFF_SECONDS)
                 then move_to_dlq rc client alert_id payload ''max_retries_exhausted''
                 else ret_io ()) (\<lambda>_. ret_io b))))))"

definition process_one ::
    "'w reconciler \<Rightarrow> 'w redis \<Rightarrow> broker \<Rightarrow> string \<Rightarrow> ('w, broker) io" where
  "process_one rc client b alert_id =
     bind_io (rd_get client (wal_pending_key alert_id)) (\<lambda>raw.
     (case raw of
        None \<Rightarrow> ret_io b
      | Some s \<Rightarrow>
          if s = [] then ret_io b
          else
            (case json_loads (rc_lib rc) s of
               Inl (JSONDecodeError m) \<Rightarrow>
                 bind_io (rd_delete client [wal_pending_key alert_id]) (\<lambda>_. ret_io b)
             | Inl e \<Rightarrow> raise_io e
             | Inr v \<Rightarrow>
                 bind_io (increment_attempts rc client alert_id) (\<lambda>attempts.
                 bind_io (rd_get client (wal_next_key alert_id)) (\<lambda>next_after.
                 bind_io (backing_off rc next_after) (\<lambda>wait.
                 if wait then ret_io b
                 else
                   (case v of
                      JDict payload \<Rightarrow> publish_pending rc client b alert_id payload attempts
                    | _ \<Rightarrow> raise_io (AttributeError ''get''))))))))"

text \<open>
  One pass over the keys the scan yields (here taken as the list of alert ids the server returned);
  an exception of one alert ends the pass after its lease is released.
\<close>

fun process_batch :: "'w reconciler \<Rightarrow> 'w redis \<Rightarrow> broker \<Rightarrow> string list \<Rightarrow> ('w, broker) io" where
  "process_batch rc client b [] = ret_io b"
| "process_batch rc client b (alert_id # rest) =
     bind_io (acquire_lease rc client alert_id) (\<lambda>got.
     if \<not> got then process_batch rc client b rest
     else
       bind_io (finally_io (process_one rc client b alert_id) (release_lease rc client alert_id))
         (\<lambda>b. process_batch rc client b rest))"

definition run_once :: "'w reconciler \<Rightarrow> broker \<Rightarrow> ('w, int \<times> broker) io" where
  "run_once rc b =
     (case rc_client rc of
        None \<Rightarrow> ret_io (0, b)
      | Some client \<Rightarrow>
          bind_io (rd_scan_iter client ''pending_alert:*'') (\<lambda>keys.
          bind_io (process_batch rc client b (map (\<lambda>k. drop (length ''pending_alert:'') k) keys)) (\<lambda>b.
            ret_io (int (length keys), b))))"

subsection \<open>Keys\<close>

lemma wal_keys_distinct [simp]:
  "wal_pending_key a = wal_pending_key b \<longleftrightarrow> a = b"
  "wal_pending_key a \<noteq> wal_lease_key b" "wal_lease_key a \<noteq> wal_pending_key b"
  "wal_pending_key a \<noteq> wal_attempts_key b" "wal_attempts_key a \<noteq> wal_pending_key b"
  "wal_pending_key a \<noteq> wal_next_key b" "wal_next_key a \<noteq> wal_pending_key b"
  "wal_lease_key a = wal_lease_key b \<longleftrightarrow> a = b"
  "wal_next_key a \<noteq> wal_attempts_key a" "wal_attempts_key a \<noteq> wal_next_key a"
  by (simp_all add: wal_pending_key_def wal_lease_key_def wal_attempts_key_def wal_next_key_def)

text \<open>No key of another kind is taken for a pending alert by the scan pattern.\<close>

lemma scan_pattern_exact:
  "starts_with (wal_pending_key a) ''pending_alert:''"
  "\<not> starts_with (wal_lease_key a) ''pending_alert:''"
  "\<not> starts_with (wal_attempts_key a) ''pending_alert:''"
  by (simp_all add: starts_with_def wal_pending_key_def wal_lease_key_def wal_attempts_key_def)

subsection \<open>Durability\<close>

lemma no_raise_write_ahead: "no_raise (write_ahead rc a p)"
  unfolding write_ahead_def by (auto split: option.splits intro!: no_raise_intros)

lemma no_raise_mark: "no_raise (mark_published rc a)"
  unfolding mark_published_def by (auto split: option.splits intro!: no_raise_intros)

lemma write_ahead_durable:
  assumes "redis_ok r kv p" "redis_up r" "rc_client rc = Some r"
    and "write_ahead rc a payload w = (res, w')"
  shows "kv w' (wal_pending_key a) = Some (json_dumps (rc_lib rc) (JDict payload))"
proof -
  obtain w1 where s: "rd_setex r (wal_pending_key a) (rc_max_age rc)
      (json_dumps (rc_lib rc) (JDict payload)) w = (Inr (), w1)"
    using redis_upE(3) [OF assms(2)] by (rule no_raiseE) auto
  with assms(3,4) have "w' = w1" by (simp add: write_ahead_def)
  with rd_setex_Inr [OF assms(1) s] show ?thesis by simp
qed

text \<open>What a publish does to the store: nothing; NATS and Redis are separate services.\<close>

definition nats_frame :: "'w nats \<Rightarrow> ('w \<Rightarrow> kv) \<Rightarrow> bool" where
  "nats_frame nt kv \<longleftrightarrow>
     (\<forall>s c n. keeps kv (nt_connect nt s c n)) \<and> keeps kv (nt_jetstream nt)
     \<and> (\<forall>s p h. keeps kv (nt_js_publish nt s p h)) \<and> (\<forall>s p h. keeps kv (nt_publish nt s p h))"

lemma broker_connect_keeps: "nats_frame nt kv \<Longrightarrow> keeps kv (broker_connect nt b)"
  unfolding nats_frame_def broker_connect_def
  by (auto intro!: keeps_intros split: sum.splits)

lemma broker_publish_keeps: "nats_frame nt kv \<Longrightarrow> keeps kv (broker_publish nt b s p m h a)"
  unfolding broker_publish_def
  by (intro keeps_intros broker_connect_keeps) (auto simp: nats_frame_def intro!: keeps_intros)

lemma broker_publish_frame:
  "nats_frame nt kv \<Longrightarrow> broker_publish nt b s p m h a w = (res, w') \<Longrightarrow> kv w' = kv w"
  by (rule keepsD [OF broker_publish_keeps])

subsection \<open>What one attempt leaves behind\<close>

text \<open>Reading the clock does not touch the store.\<close>

definition clock_frame :: "'w reconciler \<Rightarrow> ('w \<Rightarrow> kv) \<Rightarrow> bool" where
  "clock_frame rc kv \<longleftrightarrow> keeps kv (rc_time rc)"

lemma rc_timeE:
  assumes "clock_frame rc kv"
  obtains t w' where "rc_time rc w = (Inr t, w')" "kv w' = kv w" "t = fst (rc_now rc w)"
proof (cases "rc_now rc w")
  case (Pair t w')
  then have "rc_time rc w = (Inr t, w')" by (simp add: rc_time_def)
  with keepsD [OF assms [unfolded clock_frame_def] this] Pair show thesis
    by (intro that [of t w']) simp_all
qed

lemma mark_published_kv:
  assumes "redis_ok r kv p" "redis_up r" "rc_client rc = Some r"
  obtains w' where "mark_published rc a w = (Inr (), w')"
    "kv w' = del_keys [wal_pending_key a, wal_lease_key a, wal_attempts_key a] (kv w)"
proof -
  obtain w' where d: "rd_delete r [wal_pending_key a, wal_lease_key a, wal_attempts_key a] w = (Inr (), w')"
    using redis_upE(4) [OF assms(2)] by (rule no_raiseE) auto
  with assms(3) rd_delete_Inr [OF assms(1) d] show thesis
    by (intro that [of w']) (simp_all add: mark_published_def)
qed

text \<open>An acknowledged publish removes the entry.\<close>

lemma publish_pending_ok:
  assumes "redis_ok r kv p" "redis_up r" "rc_client rc = Some r" "nats_frame (rc_nats rc) kv"
    and "rc_publish_subject_for rc payload = Inr subject"
    and "broker_publish (rc_nats rc) b subject (json_dumps (rc_lib rc) (JDict payload)) (Some a) [] True w
         = (Inr (True, b1), w1)"
  shows "\<exists>w'. publish_pending rc r b a payload n w = (Inr b1, w')
    \<and> kv w' = del_keys [wal_pending_key a, wal_lease_key a, wal_attempts_key a] (kv w)"
proof -
  obtain w' where m: "mark_published rc a w1 = (Inr (), w')"
    "kv w' = del_keys [wal_pending_key a, wal_lease_key a, wal_attempts_key a] (kv w1)"
    using mark_published_kv [OF assms(1-3)] by blast
  from m broker_publish_frame [OF assms(4,6)] assms(5,6) show ?thesis
    by (simp add: publish_pending_def)
qed

text \<open>A failed publish keeps it and notes the time of the next try, until the attempts run out.\<close>

definition retry_delay :: "int \<Rightarrow> int" where
  "retry_delay n = BACKOFF_SECONDS ! nat (min (n - 1) (int (length BACKOFF_SECONDS) - 1))"

lemma publish_pending_fails:
  assumes "redis_ok r kv p" "redis_up r" "nats_frame (rc_nats rc) kv" "clock_frame rc kv"
    and "rc_publish_subject_for rc payload = Inr subject"
    and "broker_publish (rc_nats rc) b subject (json_dumps (rc_lib rc) (JDict payload)) (Some a) [] True w
         = (Inr (False, b1), w1)"
  obtains w2 where "kv w2 = (kv w)(wal_next_key a \<mapsto>
      float_repr (rc_lib rc) (fst (rc_now rc w1) + of_int (retry_delay n)))"
    "publish_pending rc r b a payload n w =
       bind_io (if n \<ge> 7 then move_to_dlq rc r a payload ''max_retries_exhausted'' else ret_io ())
         (\<lambda>_. ret_io b1) w2"
proof -
  obtain t w2 where t: "rc_time rc w1 = (Inr t, w2)" "kv w2 = kv w1" "t = fst (rc_now rc w1)"
    using assms(4) by (rule rc_timeE)
  let ?v = "float_repr (rc_lib rc) (t + of_int (retry_delay n))"
  obtain w3 where s: "rd_setex r (wal_next_key a) (rc_max_age rc) ?v w2 = (Inr (), w3)"
    using redis_upE(3) [OF assms(2)] by (rule no_raiseE) auto
  have "kv w3 = (kv w)(wal_next_key a \<mapsto> ?v)"
    using rd_setex_Inr [OF assms(1) s] t(2) broker_publish_frame [OF assms(3,6)] by simp
  moreover have "publish_pending rc r b a payload n w =
       bind_io (if n \<ge> 7 then move_to_dlq rc r a payload ''max_retries_exhausted'' else ret_io ())
         (\<lambda>_. ret_io b1) w3"
    using assms(5,6) t(1) s
    by (simp add: publish_pending_def Let_def retry_delay_def [symmetric])
      (simp add: BACKOFF_SECONDS_def)
  ultimately show thesis using that t(3) by blast
qed

lemma move_to_dlq_kv:
  assumes "redis_ok r kv p" "redis_up r" "\<And>a p s w. kv (snd (publish a p s w)) = kv w"
    and "rc_dlq rc = Some publish"
  shows "\<exists>w'. move_to_dlq rc r a payload reason w = (Inr (), w')
    \<and> kv w' = del_keys [wal_pending_key a, wal_attempts_key a, wal_next_key a] (kv w)"
proof -
  obtain r1 w1 where p: "try_io (publish a payload reason) (\<lambda>exc. ret_io ()) w = (Inr r1, w1)"
    by (rule no_raiseE [OF no_raise_try]) (rule no_raise_ret)
  then have 1: "kv w1 = kv w" using assms(3) [of a payload reason w]
    by (auto simp: try_io_def split: prod.splits sum.splits)
  obtain w2 where d: "rd_delete r [wal_pending_key a, wal_attempts_key a, wal_next_key a] w1 = (Inr (), w2)"
    using redis_upE(4) [OF assms(2)] by (rule no_raiseE) auto
  from p d assms(4) rd_delete_Inr [OF assms(1) d] 1 show ?thesis
    by (simp add: move_to_dlq_def)
qed

subsection \<open>The properties of the reconciler\<close>

text \<open>A reconciler over the demonstration store; \<open>up\<close> says whether NATS accepts publishes.\<close>

definition demo_nats :: "bool \<Rightarrow> kv nats" where
  "demo_nats up =
     \<lparr>nt_connect = (\<lambda>s c n. if up then ret_io () else raise_io (OtherError ''no servers'')),
      nt_jetstream = ret_io (),
      nt_js_publish = (\<lambda>s p h. if up then ret_io () else raise_io TimeoutError),
      nt_publish = (\<lambda>s p h. ret_io ()), nt_pull_subscribe = (\<lambda>f d a m. ret_io ()),
      nt_drain = ret_io ()\<rparr>"

lemma demo_nats_frame: "nats_frame (demo_nats up) (\<lambda>w. w)"
  by (simp add: nats_frame_def demo_nats_def keeps_ret)

definition demo_reconciler :: "bool \<Rightarrow> kv reconciler" where
  "demo_reconciler up =
     \<lparr>rc_lib = demo_lib [(''{}'', JDict [])], rc_nats = demo_nats up, rc_client = Some demo_redis,
      rc_publish_subject_for = (\<lambda>d. Inr ''alerts.v1.acme.splunk.a1''), rc_max_age = 86400,
      rc_lease = 60, rc_owner = ''me'', rc_dlq = Some (\<lambda>a p s. ret_io ()), rc_now = (\<lambda>w. (1000, w))\<rparr>"

lemma demo_reconciler_simps [simp]:
  "rc_client (demo_reconciler up) = Some demo_redis" "rc_nats (demo_reconciler up) = demo_nats up"
  "rc_publish_subject_for (demo_reconciler up) d = Inr ''alerts.v1.acme.splunk.a1''"
  "rc_dlq (demo_reconciler up) = Some (\<lambda>a p s. ret_io ())" "rc_owner (demo_reconciler up) = ''me''"
  "rc_now (demo_reconciler up) w = (1000, w)"
  "rc_lib (demo_reconciler up) = demo_lib [(''{}'', JDict [])]"
  by (simp_all add: demo_reconciler_def)

lemma demo_clock: "clock_frame (demo_reconciler up) (\<lambda>w. w)"
  by (simp add: clock_frame_def keeps_def rc_time_def)

definition demo_broker :: broker where
  "demo_broker = NatsBroker_init ''nats://n'' None ''ingest''"

lemma demo_publish:
  "broker_publish (demo_nats False) demo_broker s p m h True w = (Inr (False, demo_broker), w)"
  by (simp add: broker_publish_def broker_connect_def demo_broker_def NatsBroker_init_def demo_nats_def
      bind_io_def catch_io_def)

text \<open>Giving an alert up removes its entry, whether or not there is a dead-letter publisher.\<close>

definition dlq_frame :: "'w reconciler \<Rightarrow> ('w \<Rightarrow> kv) \<Rightarrow> bool" where
  "dlq_frame rc kv \<longleftrightarrow>
     (\<forall>publish a p s w. rc_dlq rc = Some publish \<longrightarrow> kv (snd (publish a p s w)) = kv w)"

lemma give_up_kv:
  assumes "redis_ok r kv p" "redis_up r" "dlq_frame rc kv"
  shows "\<exists>w'. move_to_dlq rc r a payload reason w = (Inr (), w')
    \<and> kv w' = del_keys [wal_pending_key a, wal_attempts_key a, wal_next_key a] (kv w)"
proof (cases "rc_dlq rc")
  case (Some publish)
  with move_to_dlq_kv [OF assms(1,2) _ Some] assms(3) show ?thesis by (simp add: dlq_frame_def)
next
  case None
  obtain w2 where d: "rd_delete r [wal_pending_key a, wal_attempts_key a, wal_next_key a] w = (Inr (), w2)"
    using redis_upE(4) [OF assms(2)] by (rule no_raiseE) auto
  with None rd_delete_Inr [OF assms(1) d] show ?thesis by (simp add: move_to_dlq_def)
qed

lemma increment_counts:
  assumes "redis_ok r kv p" "redis_up r"
  obtains w' where "increment_attempts rc r a w = (Inr (counter_of (kv w (wal_attempts_key a)) p + 1), w')"
    "kv w' = (kv w)(wal_attempts_key a \<mapsto> show_int (counter_of (kv w (wal_attempts_key a)) p + 1))"
proof -
  obtain n w2 where i: "rd_incr r (wal_attempts_key a) w = (Inr n, w2)"
    using redis_upE(5) [OF assms(2)] by (rule no_raiseE)
  obtain u w3 where e: "rd_expire r (wal_attempts_key a) (rc_max_age rc) w2 = (Inr u, w3)"
    using redis_upE(6) [OF assms(2)] by (rule no_raiseE)
  from rd_incr_Inr [OF assms(1) i] rd_expire_kv [OF assms(1) e] i e show thesis
    by (intro that [of w3]) (simp_all add: increment_attempts_def)
qed

text \<open>The time before which no try is made, as the \<open>:next\<close> key of the entry says.\<close>

definition retry_after :: "'w reconciler \<Rightarrow> string option \<Rightarrow> rat option" where
  "retry_after rc next_after =
     (case next_after of
        None \<Rightarrow> None
      | Some s \<Rightarrow> if s = [] then None else (case float_parse (rc_lib rc) s of Inl e \<Rightarrow> None | Inr t \<Rightarrow> Some t))"

text \<open>The key holds what \<open>str(time)\<close> gave, which \<open>float\<close> reads.\<close>

definition readable_retry :: "'w reconciler \<Rightarrow> string option \<Rightarrow> bool" where
  "readable_retry rc nx \<longleftrightarrow> (\<forall>s. nx = Some s \<and> s \<noteq> [] \<longrightarrow> (\<exists>t. float_parse (rc_lib rc) s = Inr t))"

lemma backing_off_result:
  assumes "clock_frame rc kv" "readable_retry rc nx"
  obtains wait w' where "backing_off rc nx w = (Inr wait, w')" "kv w' = kv w"
    "wait \<longleftrightarrow> (\<exists>t. retry_after rc nx = Some t \<and> fst (rc_now rc w) < t)"
proof (cases "nx = None \<or> nx = Some []")
  case True
  then have "backing_off rc nx w = (Inr False, w)" "retry_after rc nx = None"
    by (auto simp: backing_off_def retry_after_def)
  then show thesis by (intro that [of False w]) simp_all
next
  case False
  then obtain s where s: "nx = Some s" "s \<noteq> []" by auto
  from assms(2) s obtain t where t: "float_parse (rc_lib rc) s = Inr t" unfolding readable_retry_def by blast
  obtain now w' where now: "rc_time rc w = (Inr now, w')" "kv w' = kv w" "now = fst (rc_now rc w)"
    using assms(1) by (rule rc_timeE)
  with s t show thesis
    by (intro that [of "now < t" w']) (simp_all add: backing_off_def retry_after_def)
qed



text \<open>
  The seventh failed attempt moves the alert to the dead-letter queue: the queue's publisher
  is called with the reason, and the log entry, its counter and its retry time are removed.
\<close>

theorem exhausted_alert_dead_lettered:
  assumes "redis_ok r kv p" "redis_up r" "nats_frame (rc_nats rc) kv" "clock_frame rc kv"
    and "rc_publish_subject_for rc payload = Inr subject" "7 \<le> n" "rc_dlq rc = Some publish"
    and "\<And>a p s w. kv (snd (publish a p s w)) = kv w"
    and "broker_publish (rc_nats rc) b subject (json_dumps (rc_lib rc) (JDict payload)) (Some a) [] True w
         = (Inr (False, b1), w1)"
  shows "\<exists>w2 w'. publish_pending rc r b a payload n w = (Inr b1, w')
    \<and> move_to_dlq rc r a payload ''max_retries_exhausted'' w2 = (Inr (), w')
    \<and> kv w' = del_keys [wal_pending_key a, wal_attempts_key a, wal_next_key a] (kv w)"
proof -
  obtain w2 where w2: "kv w2 = (kv w)(wal_next_key a \<mapsto>
      float_repr (rc_lib rc) (fst (rc_now rc w1) + of_int (retry_delay n)))"
    "publish_pending rc r b a payload n w =
       bind_io (move_to_dlq rc r a payload ''max_retries_exhausted'') (\<lambda>_. ret_io b1) w2"
    using publish_pending_fails [OF assms(1-5,9), of n] assms(6) by auto
  obtain w' where w': "move_to_dlq rc r a payload ''max_retries_exhausted'' w2 = (Inr (), w')"
    "kv w' = del_keys [wal_pending_key a, wal_attempts_key a, wal_next_key a] (kv w2)"
    using move_to_dlq_kv [OF assms(1,2,8,7)] by blast
  have "kv w' = del_keys [wal_pending_key a, wal_attempts_key a, wal_next_key a] (kv w)"
    using w'(2) w2(1) by (auto simp: del_keys_def)
  with w2(2) w'(1) show ?thesis by auto
qed

theorem exhausted_alert_dead_lettered_witness:
  "\<exists>w'. publish_pending (demo_reconciler False) demo_redis demo_broker ''a1'' [] 7
      [''pending_alert:a1'' \<mapsto> ''{}''] = (Inr demo_broker, w') \<and> w' (wal_pending_key ''a1'') = None"
proof -
  have seven: "(7::int) \<le> 7" by simp
  have pub: "broker_publish (rc_nats (demo_reconciler False)) demo_broker ''alerts.v1.acme.splunk.a1''
      (json_dumps (rc_lib (demo_reconciler False)) (JDict [])) (Some ''a1'') [] True
      [''pending_alert:a1'' \<mapsto> ''{}''] = (Inr (False, demo_broker), [''pending_alert:a1'' \<mapsto> ''{}''])"
    by (simp add: demo_publish)
  have f: "nats_frame (rc_nats (demo_reconciler False)) (\<lambda>w. w)" by (simp add: demo_nats_frame)
  from exhausted_alert_dead_lettered [where kv = "\<lambda>w. w", OF demo_redis_ok demo_redis_up f demo_clock
      demo_reconciler_simps(3) seven demo_reconciler_simps(4) _ pub]
  show ?thesis by (auto simp: del_keys_def)
qed

text \<open>
  A pass over an alert that is still backing off publishes nothing and leaves every key as it
  is but one: the attempt counter, which goes up although no attempt was made. The schedule of
  seven delays is therefore consumed by passes, not by publishes.
\<close>

theorem backoff_pass_counts_attempt:
  assumes "redis_ok r kv p" "redis_up r" "clock_frame rc kv"
    and "kv w (wal_pending_key a) = Some s" "s \<noteq> []" "json_loads (rc_lib rc) s = Inr (JDict payload)"
    and "kv w (wal_next_key a) = Some nx" "nx \<noteq> []" "float_parse (rc_lib rc) nx = Inr t"
    and "\<And>w. fst (rc_now rc w) < t"
  shows "\<exists>w'. process_one rc r b a w = (Inr b, w')
    \<and> kv w' = (kv w)(wal_attempts_key a \<mapsto> show_int (counter_of (kv w (wal_attempts_key a)) p + 1))"
proof -
  obtain v1 w1 where g1: "rd_get r (wal_pending_key a) w = (Inr v1, w1)"
    using redis_upE(1) [OF assms(2)] by (rule no_raiseE)
  note k1 = rd_get_Inr [OF assms(1) g1]
  obtain n w2 where i: "rd_incr r (wal_attempts_key a) w1 = (Inr n, w2)"
    using redis_upE(5) [OF assms(2)] by (rule no_raiseE)
  obtain u w3 where e: "rd_expire r (wal_attempts_key a) (rc_max_age rc) w2 = (Inr u, w3)"
    using redis_upE(6) [OF assms(2)] by (rule no_raiseE)
  note k3 = rd_incr_Inr [OF assms(1) i] rd_expire_kv [OF assms(1) e]
  obtain v4 w4 where g4: "rd_get r (wal_next_key a) w3 = (Inr v4, w4)"
    using redis_upE(1) [OF assms(2)] by (rule no_raiseE)
  note k4 = rd_get_Inr [OF assms(1) g4]
  obtain now w5 where t: "rc_time rc w4 = (Inr now, w5)" "kv w5 = kv w4" "now = fst (rc_now rc w4)"
    using assms(3) by (rule rc_timeE)
  have inc: "increment_attempts rc r a w1 = (Inr n, w3)"
    using i e by (simp add: increment_attempts_def)
  have v4: "v4 = Some nx" using k4 k3 k1 assms(7) by simp
  have waits: "backing_off rc v4 w4 = (Inr True, w5)"
    using t(1,3) assms(8,9,10) v4 by (simp add: backing_off_def)
  have "process_one rc r b a w = (Inr b, w5)"
    using g1 k1 assms(4-6) inc g4 waits by (simp add: process_one_def)
  moreover have "kv w5 = (kv w)(wal_attempts_key a \<mapsto> show_int (counter_of (kv w (wal_attempts_key a)) p + 1))"
    using t(2) k4 k3 k1 by simp
  ultimately show ?thesis by blast
qed

theorem backoff_pass_counts_attempt_witness:
  "\<exists>w'. process_one (demo_reconciler True) demo_redis demo_broker ''a1''
      [''pending_alert:a1'' \<mapsto> ''{}'', wal_next_key ''a1'' \<mapsto> ''2000''] = (Inr demo_broker, w')
    \<and> w' (wal_attempts_key ''a1'') = Some ''1'' \<and> w' (wal_pending_key ''a1'') = Some ''{}''"
proof -
  let ?w = "[''pending_alert:a1'' \<mapsto> ''{}'', wal_next_key ''a1'' \<mapsto> ''2000''] :: kv"
  have k: "?w (wal_pending_key ''a1'') = Some ''{}''" "''{}'' \<noteq> []"
    "json_loads (rc_lib (demo_reconciler True)) ''{}'' = Inr (JDict [])"
    "?w (wal_next_key ''a1'') = Some ''2000''" "''2000'' \<noteq> []"
    by (simp_all add: wal_pending_key_def wal_next_key_def demo_lib_def)
  have f: "float_parse (rc_lib (demo_reconciler True)) ''2000'' = Inr 2000"
    by (simp add: demo_lib_def read_int_def)
  have c: "fst (rc_now (demo_reconciler True) w) < 2000" for w by simp
  have n: "counter_of (?w (wal_attempts_key ''a1'')) read_int = 0" "show_int 1 = ''1''"
    by (simp_all add: counter_of_def wal_attempts_key_def wal_next_key_def show_int_def show_nat.simps)
      code_simp
  obtain w' where w': "process_one (demo_reconciler True) demo_redis demo_broker ''a1'' ?w = (Inr demo_broker, w')"
    "w' = ?w(wal_attempts_key ''a1'' \<mapsto> show_int (counter_of (?w (wal_attempts_key ''a1'')) read_int + 1))"
    using backoff_pass_counts_attempt [where kv = "\<lambda>w. w" and b = demo_broker,
        OF demo_redis_ok demo_redis_up demo_clock k f c] by blast
  have "w' (wal_attempts_key ''a1'') = Some ''1''" using w'(2) n by simp
  moreover have "w' (wal_pending_key ''a1'') = Some ''{}''" using w'(2) k(1) by simp
  ultimately show ?thesis using w'(1) by blast
qed

end
