(* ===== verification/Secret_Store.thy ===== *)
theory Secret_Store
  imports Jwt_Service
begin

section \<open>services/_runtime/secret_store.py and jwt_bootstrap.py: secrets and their authority\<close>

text \<open>
  The two backends of the secret store and the authority that caches their bundles. A new secret
  and the time are arguments (\<open>new\<close>, \<open>now\<close>). The Postgres backend is modelled by its table: a
  row is what the statements of \<open>initialize\<close>, \<open>get_bundle\<close> and \<open>rotate\<close> read and write, and a
  transaction is one step. \<open>secret_store\<close> is the contract both meet (the \<open>SecretStore\<close>
  protocol). The watcher of rotations is in theory Secret_Rotation; the connection pool is left out.
\<close>

subsection \<open>In memory\<close>

type_synonym bundles = "(string \<times> secret_bundle) list"

fun mem_seed :: "(string \<times> string) list \<Rightarrow> rat \<Rightarrow> bundles \<Rightarrow> bundles" where
  "mem_seed [] now bs = bs"
| "mem_seed ((aud, secret) # rest) now bs =
     mem_seed rest now (AList.update aud
       \<lparr>sb_audience = aud, sb_current = secret, sb_previous = None, sb_rotated_at = now\<rparr> bs)"

text \<open>\<open>__init__\<close>: the audiences come with the secrets drawn for them.\<close>

definition InMemorySecretStore_init :: "(string \<times> string) list \<Rightarrow> rat \<Rightarrow> bundles" where
  "InMemorySecretStore_init seeds now = mem_seed seeds now []"

definition mem_get_bundle :: "bundles \<Rightarrow> string \<Rightarrow> exn + secret_bundle" where
  "mem_get_bundle bs audience =
     (case map_of bs audience of
        None \<Rightarrow> Inl (KeyError (''unknown audience '' @ repr_str audience))
      | Some b \<Rightarrow> Inr b)"

definition mem_rotate :: "string \<Rightarrow> rat \<Rightarrow> string \<Rightarrow> bundles \<Rightarrow> secret_bundle \<times> bundles" where
  "mem_rotate new now audience bs =
     (let prev = map_option sb_current (map_of bs audience);
          b = \<lparr>sb_audience = audience, sb_current = new, sb_previous = prev, sb_rotated_at = now\<rparr>
      in (b, AList.update audience b bs))"

subsection \<open>In Postgres\<close>

record secret_row =
  sr_current_secret :: string
  sr_previous_secret :: "string option"
  sr_rotated_at :: rat

type_synonym secret_table = "(string \<times> secret_row) list"

text \<open>\<open>INSERT ... ON CONFLICT (audience) DO NOTHING\<close>.\<close>

definition pg_insert_if_missing :: "string \<Rightarrow> string \<Rightarrow> rat \<Rightarrow> secret_table \<Rightarrow> secret_table" where
  "pg_insert_if_missing audience secret now t =
     (if map_of t audience = None
      then t @ [(audience, \<lparr>sr_current_secret = secret, sr_previous_secret = None, sr_rotated_at = now\<rparr>)]
      else t)"

fun pg_initialize :: "(string \<times> string) list \<Rightarrow> rat \<Rightarrow> secret_table \<Rightarrow> secret_table" where
  "pg_initialize [] now t = t"
| "pg_initialize ((aud, secret) # rest) now t =
     pg_initialize rest now (pg_insert_if_missing aud secret now t)"

definition row_bundle :: "string \<Rightarrow> secret_row \<Rightarrow> secret_bundle" where
  "row_bundle audience r =
     \<lparr>sb_audience = audience, sb_current = sr_current_secret r, sb_previous = sr_previous_secret r,
      sb_rotated_at = sr_rotated_at r\<rparr>"

definition pg_get_bundle :: "secret_table \<Rightarrow> string \<Rightarrow> exn + secret_bundle" where
  "pg_get_bundle t audience =
     (case map_of t audience of
        None \<Rightarrow> Inl (KeyError (''unknown audience '' @ repr_str audience))
      | Some r \<Rightarrow> Inr (row_bundle audience r))"

text \<open>The transaction of \<open>rotate\<close>: lock the row, then insert or shift.\<close>

definition pg_rotate_table :: "string \<Rightarrow> rat \<Rightarrow> string \<Rightarrow> secret_table \<Rightarrow> secret_table" where
  "pg_rotate_table new now audience t =
     (case map_of t audience of
        None \<Rightarrow> t @ [(audience, \<lparr>sr_current_secret = new, sr_previous_secret = None, sr_rotated_at = now\<rparr>)]
      | Some r \<Rightarrow> AList.update audience
          \<lparr>sr_current_secret = new, sr_previous_secret = Some (sr_current_secret r),
           sr_rotated_at = now\<rparr> t)"

definition pg_rotate :: "string \<Rightarrow> rat \<Rightarrow> string \<Rightarrow> secret_table \<Rightarrow> secret_bundle \<times> secret_table" where
  "pg_rotate new now audience t =
     (let t' = pg_rotate_table new now audience t in
      (case pg_get_bundle t' audience of
         Inr b \<Rightarrow> (b, t')
       | Inl e \<Rightarrow> (row_bundle audience \<lparr>sr_current_secret = new, sr_previous_secret = None, sr_rotated_at = now\<rparr>, t')))"

subsection \<open>The contract\<close>

text \<open>
  Rotation makes the new secret current and the old current one previous, and touches no other
  audience. The lemma is what the overlap window rests on: a token signed just before a rotation
  is still accepted after it.
\<close>

locale secret_store =
  fixes get_bundle :: "'s \<Rightarrow> string \<Rightarrow> exn + secret_bundle"
    and rotate :: "string \<Rightarrow> rat \<Rightarrow> string \<Rightarrow> 's \<Rightarrow> secret_bundle \<times> 's"
  assumes rotate_get: "get_bundle (snd (rotate n t a s)) a = Inr (fst (rotate n t a s))"
    and rotate_current: "sb_current (fst (rotate n t a s)) = n"
    and rotate_audience: "sb_audience (fst (rotate n t a s)) = a"
    and rotate_previous: "sb_previous (fst (rotate n t a s)) =
      (case get_bundle s a of Inr b \<Rightarrow> Some (sb_current b) | Inl _ \<Rightarrow> None)"
    and rotate_other: "b \<noteq> a \<Longrightarrow> get_bundle (snd (rotate n t a s)) b = get_bundle s b"
begin

lemma overlap_window:
  assumes "get_bundle s a = Inr b"
  shows "\<exists>b'. get_bundle (snd (rotate n t a s)) a = Inr b' \<and> bundle_secrets b' = [n, sb_current b]"
  using assms rotate_get [of n t a s] rotate_current [of n t a s] rotate_previous [of n t a s]
  by (simp add: bundle_secrets_def)

text \<open>Two rotations later the old secret is gone.\<close>

lemma two_rotations:
  assumes "get_bundle s a = Inr b"
  shows "\<exists>b'. get_bundle (snd (rotate n' t' a (snd (rotate n t a s)))) a = Inr b'
    \<and> bundle_secrets b' = [n', n]"
  using overlap_window [of "snd (rotate n t a s)" a "fst (rotate n t a s)" n' t']
    rotate_get [of n t a s] rotate_current [of n t a s] by simp

fun rotations :: "(string \<times> rat \<times> string) list \<Rightarrow> 's \<Rightarrow> 's" where
  "rotations [] s = s"
| "rotations ((n, t, a) # rs) s = rotations rs (snd (rotate n t a s))"

lemma rotations_other: "(\<And>n t. (n, t, b) \<notin> set rs) \<Longrightarrow> get_bundle (rotations rs s) b = get_bundle s b"
proof (induction rs s rule: rotations.induct)
  case (2 n t a rs s)
  then have "b \<noteq> a" by auto
  with 2 rotate_other show ?case by simp
qed simp

end

interpretation mem_store: secret_store mem_get_bundle mem_rotate
  by unfold_locales
    (auto simp: mem_get_bundle_def mem_rotate_def Let_def update_conv split: option.splits)

lemma map_of_snoc: "map_of (xs @ [(k, v)]) b = (case map_of xs b of Some x \<Rightarrow> Some x
    | None \<Rightarrow> if b = k then Some v else None)"
  by (auto simp: map_add_def split: option.splits)

lemma pg_rotate_get:
  "map_of (pg_rotate_table n t a s) b =
     (if b = a then Some \<lparr>sr_current_secret = n,
        sr_previous_secret = map_option sr_current_secret (map_of s a), sr_rotated_at = t\<rparr>
      else map_of s b)"
  by (auto simp: pg_rotate_table_def map_add_def update_conv split: option.splits)

interpretation pg_store: secret_store pg_get_bundle pg_rotate
  by unfold_locales
    (auto simp: pg_rotate_def Let_def pg_get_bundle_def pg_rotate_get row_bundle_def
      split: option.splits)

text \<open>
  The Postgres table refines the in-memory store: \<open>table_bundles\<close> reads a table as bundles, and
  lookup and rotation agree on both sides.
\<close>

definition same_bundles :: "secret_table \<Rightarrow> bundles \<Rightarrow> bool" where
  "same_bundles t bs \<longleftrightarrow> (\<forall>a. map_option (row_bundle a) (map_of t a) = map_of bs a)"

lemma same_bundles_get: "same_bundles t bs \<Longrightarrow> pg_get_bundle t a = mem_get_bundle bs a"
  by (auto simp: same_bundles_def pg_get_bundle_def mem_get_bundle_def split: option.splits)
    (metis option.simps(8) option.distinct(1) option.map(2) option.inject)+

lemma same_bundles_rotate:
  assumes "same_bundles t bs"
  shows "fst (pg_rotate n now a t) = fst (mem_rotate n now a bs)
    \<and> same_bundles (snd (pg_rotate n now a t)) (snd (mem_rotate n now a bs))"
proof -
  have prev: "map_option sr_current_secret (map_of t a) = map_option sb_current (map_of bs a)"
    using assms unfolding same_bundles_def
    by (metis (no_types, lifting) option.map_comp option.map_cong0 comp_apply row_bundle_def
        secret_bundle.select_convs(2))
  have "pg_rotate n now a t = (row_bundle a \<lparr>sr_current_secret = n,
      sr_previous_secret = map_option sr_current_secret (map_of t a), sr_rotated_at = now\<rparr>,
      pg_rotate_table n now a t)"
    by (simp add: pg_rotate_def Let_def pg_get_bundle_def pg_rotate_get)
  with assms prev show ?thesis
    by (auto simp: same_bundles_def mem_rotate_def Let_def pg_rotate_get update_conv row_bundle_def)
qed

subsection \<open>The authority\<close>

text \<open>
  \<open>ServiceTokenAuthority\<close>: its store is the one it was given or, when that failed to initialise,
  an in-memory one. A backend is its two coroutines.
\<close>

record 'w secret_backend =
  be_initialize :: "('w, unit) io"
  be_get_bundle :: "string \<Rightarrow> ('w, secret_bundle) io"

datatype 'w store_ref = External "'w secret_backend" | Fallback bundles

record 'w authority =
  ta_store :: "'w store_ref"
  ta_audiences :: "string list"
  ta_bundles :: bundles
  ta_services :: "string list"

fun store_get :: "'w store_ref \<Rightarrow> string \<Rightarrow> ('w, secret_bundle) io" where
  "store_get (External be) a = be_get_bundle be a"
| "store_get (Fallback bs) a = of_result (mem_get_bundle bs a)"

text \<open>A bundle that cannot be read leaves the cached one in place.\<close>

definition load_one :: "'w store_ref \<Rightarrow> string \<Rightarrow> bundles \<Rightarrow> ('w, bundles) io" where
  "load_one st aud bs =
     try_io (bind_io (store_get st aud) (\<lambda>b. ret_io (AList.update aud b bs))) (\<lambda>exc. ret_io bs)"

fun load_all :: "'w store_ref \<Rightarrow> string list \<Rightarrow> bundles \<Rightarrow> ('w, bundles) io" where
  "load_all st [] bs = ret_io bs"
| "load_all st (aud # rest) bs = bind_io (load_one st aud bs) (\<lambda>bs. load_all st rest bs)"

definition authority_start ::
    "'w secret_backend \<Rightarrow> string list \<Rightarrow> (string \<times> string) list \<Rightarrow> rat \<Rightarrow> ('w, 'w authority) io" where
  "authority_start be audiences seeds now =
     bind_io
       (try_io (bind_io (be_initialize be) (\<lambda>_. ret_io (External be)))
          (\<lambda>exc. ret_io (Fallback (InMemorySecretStore_init seeds now)))) (\<lambda>st.
     bind_io (load_all st audiences []) (\<lambda>bs.
       ret_io \<lparr>ta_store = st, ta_audiences = audiences, ta_bundles = bs, ta_services = audiences\<rparr>))"

definition authority_jwt_for :: "'w authority \<Rightarrow> string \<Rightarrow> exn + string" where
  "authority_jwt_for au audience =
     (if audience \<notin> set (ta_services au)
      then Inl (KeyError (''no JWTService for audience '' @ repr_str audience)) else Inr audience)"

definition bundle_for :: "'w authority \<Rightarrow> string \<Rightarrow> exn + secret_bundle" where
  "bundle_for au audience =
     (case map_of (ta_bundles au) audience of
        None \<Rightarrow> Inl (KeyError (''no bundle for audience '' @ repr_str audience))
      | Some b \<Rightarrow> Inr b)"

definition authority_refresh :: "'w authority \<Rightarrow> string option \<Rightarrow> ('w, 'w authority) io" where
  "authority_refresh au audience =
     (case audience of
        None \<Rightarrow> bind_io (load_all (ta_store au) (ta_audiences au) (ta_bundles au)) (\<lambda>bs.
          ret_io (au\<lparr>ta_bundles := bs\<rparr>))
      | Some a \<Rightarrow>
          if a \<notin> set (ta_audiences au) then ret_io au
          else bind_io (load_one (ta_store au) a (ta_bundles au)) (\<lambda>bs.
            ret_io (au\<lparr>ta_bundles := bs\<rparr>)))"

definition authority_provider :: "'w authority \<Rightarrow> string \<Rightarrow> exn + secret_bundle" where
  "authority_provider au audience =
     (case map_of (ta_bundles au) audience of
        None \<Rightarrow> Inl (KeyError (''bundle for audience '' @ repr_str audience @ '' not yet loaded''))
      | Some b \<Rightarrow> Inr b)"

subsection \<open>Facts of the authority\<close>

lemma no_raise_load_one: "no_raise (load_one st a bs)"
  unfolding load_one_def by (intro no_raise_intros)

lemma no_raise_load_all: "no_raise (load_all st as bs)"
  by (induction "as" arbitrary: bs) (auto intro!: no_raise_intros no_raise_load_one)

lemma no_raise_authority_start: "no_raise (authority_start be as seeds now)"
  unfolding authority_start_def by (intro no_raise_intros no_raise_load_all)

lemma no_raise_refresh: "no_raise (authority_refresh au a)"
  unfolding authority_refresh_def
  by (auto split: option.splits intro!: no_raise_intros no_raise_load_all no_raise_load_one)

lemma load_one_result:
  "load_one st a bs w = (Inr bs', w') \<Longrightarrow> bs' = bs \<or> (\<exists>b. bs' = AList.update a b bs)"
  by (auto simp: load_one_def try_io_def bind_io_def split: prod.splits sum.splits)

text \<open>Loading never loses a bundle.\<close>

lemma load_all_keeps:
  "load_all st as bs w = (Inr bs', w') \<Longrightarrow> map_of bs a \<noteq> None \<Longrightarrow> map_of bs' a \<noteq> None"
proof (induction "as" arbitrary: bs w)
  case (Cons x xs)
  then obtain bs1 w1 where l: "load_one st x bs w = (Inr bs1, w1)" "load_all st xs bs1 w1 = (Inr bs', w')"
    by (auto simp: bind_io_eq_Inr)
  from load_one_result [OF l(1)] Cons.prems(2) have "map_of bs1 a \<noteq> None"
    by (auto simp: update_conv)
  with Cons.IH [OF l(2)] show ?case .
qed simp

text \<open>With the fallback store every seeded audience has a bundle.\<close>

lemma mem_seed_get:
  "map_of (mem_seed seeds now bs) a \<noteq> None \<longleftrightarrow> a \<in> set (map fst seeds) \<or> map_of bs a \<noteq> None"
  by (induction seeds now bs rule: mem_seed.induct) (auto simp: update_conv)

lemma load_all_fallback:
  assumes "\<And>a. a \<in> set as \<Longrightarrow> map_of st a \<noteq> None"
  shows "load_all (Fallback st) as bs w = (Inr bs', w') \<Longrightarrow> a \<in> set as \<Longrightarrow> map_of bs' a \<noteq> None"
  using assms
proof (induction "as" arbitrary: bs w)
  case (Cons x xs)
  from Cons.prems obtain b where b: "map_of st x = Some b" by auto
  then have one: "load_one (Fallback st) x bs w = (Inr (AList.update x b bs), w)"
    by (simp add: load_one_def mem_get_bundle_def)
  with Cons.prems(1) have l: "load_all (Fallback st) xs (AList.update x b bs) w = (Inr bs', w')" by simp
  show ?case
  proof (cases "a = x")
    case True
    then show ?thesis using load_all_keeps [OF l, of a] by (simp add: update_conv)
  next
    case False
    with Cons.prems show ?thesis using Cons.IH [OF l] by simp
  qed
qed simp

subsection \<open>The properties of rotation and of the authority\<close>

text \<open>
  C36. The Postgres store refines the in-memory one: from stores that hold the same bundles, a
  lookup answers the same (\<open>KeyError\<close> included), and a rotation returns the same bundle and leaves
  stores that hold the same bundles.
\<close>

theorem postgres_refines_memory:
  assumes "same_bundles t bs"
  shows "pg_get_bundle t a = mem_get_bundle bs a
    \<and> fst (pg_rotate n now a t) = fst (mem_rotate n now a bs)
    \<and> same_bundles (snd (pg_rotate n now a t)) (snd (mem_rotate n now a bs))"
  using same_bundles_get [OF assms] same_bundles_rotate [OF assms] by blast

theorem postgres_refines_memory_witness:
  "pg_get_bundle [(''worker'', \<lparr>sr_current_secret = ''s1'', sr_previous_secret = None, sr_rotated_at = 0\<rparr>)]
      ''worker'' = mem_get_bundle [(''worker'', bundle_old)] ''worker''"
proof -
  have "same_bundles [(''worker'', \<lparr>sr_current_secret = ''s1'', sr_previous_secret = None, sr_rotated_at = 0\<rparr>)]
      [(''worker'', bundle_old)]"
    by (simp add: same_bundles_def row_bundle_def bundle_old_def)
  then show ?thesis using postgres_refines_memory by blast
qed

text \<open>
  The overlap window: a token signed with the current secret is still accepted after one
  rotation, and rejected after the second, when neither new secret equals the old one.
\<close>

theorem token_survives_one_rotation:
  assumes "jwt_ok sv" "pg_get_bundle t a = Inr b" "list_all plain_key [sb_current b, n, n']"
    and "claims_valid claims (jw_audience sv) (jw_leeway sv) now"
    and "n \<noteq> sb_current b" "n' \<noteq> sb_current b"
  shows "\<exists>b1 b2 m. pg_get_bundle (snd (pg_rotate n t1 a t)) a = Inr b1
    \<and> decode_with_rotation sv (jw_encode sv claims (sb_current b)) now b1 = Inr claims
    \<and> pg_get_bundle (snd (pg_rotate n' t2 a (snd (pg_rotate n t1 a t)))) a = Inr b2
    \<and> decode_with_rotation sv (jw_encode sv claims (sb_current b)) now b2 = Inl (JWTError m)"
proof -
  obtain b1 where b1: "pg_get_bundle (snd (pg_rotate n t1 a t)) a = Inr b1"
    "bundle_secrets b1 = [n, sb_current b]"
    using pg_store.overlap_window [OF assms(2)] by blast
  obtain b2 where b2: "pg_get_bundle (snd (pg_rotate n' t2 a (snd (pg_rotate n t1 a t)))) a = Inr b2"
    "bundle_secrets b2 = [n', n]"
    using pg_store.two_rotations [OF assms(2)] by blast
  have in1: "sb_current b \<in> set (bundle_secrets b1)" using b1 by simp
  have "decode_with_rotation sv (jw_encode sv claims (sb_current b)) now b1 = Inr claims"
    unfolding decode_with_rotation_def using b1(2) assms(3) by (intro decode_with_member [OF assms(1,4) in1]) simp
  moreover have k: "sb_current b \<notin> set (bundle_secrets b2)" using b2 assms(5,6) by auto
  have "plain_key (sb_current b)" "list_all plain_key (bundle_secrets b2)" using b2(2) assms(3) by simp_all
  then obtain m where "decode_with_rotation sv (jw_encode sv claims (sb_current b)) now b2 = Inl (JWTError m)"
    unfolding decode_with_rotation_def using decode_with_none [OF assms(1) k] by blast
  ultimately show ?thesis using b1(1) b2(1) by blast
qed

definition demo_table :: secret_table where
  "demo_table = [(''worker'', \<lparr>sr_current_secret = ''s1'', sr_previous_secret = None, sr_rotated_at = 0\<rparr>)]"

theorem token_survives_one_rotation_witness:
  "let sv = ideal_jwt ''worker'' bundle_old :: unit jwt_service; token = jw_encode sv demo_claims ''s1'' in
   \<exists>b1 b2 m. pg_get_bundle (snd (pg_rotate ''s2'' 1 ''worker'' demo_table)) ''worker'' = Inr b1
    \<and> decode_with_rotation sv token 120 b1 = Inr demo_claims
    \<and> decode_with_rotation sv token 120 b2 = Inl (JWTError m)"
proof -
  let ?sv = "ideal_jwt ''worker'' bundle_old :: unit jwt_service"
  have get: "pg_get_bundle demo_table ''worker'' = Inr bundle_old"
    by (simp add: pg_get_bundle_def demo_table_def row_bundle_def bundle_old_def)
  have c: "claims_valid demo_claims (jw_audience ?sv) (jw_leeway ?sv) 120"
    by (simp add: claims_valid_def demo_claims_def required_claims_def)
  have s: "sb_current bundle_old = ''s1''" by (simp add: bundle_old_def)
  have "list_all plain_key [sb_current bundle_old, ''s2'', ''s9'']"
    "''s2'' \<noteq> sb_current bundle_old" "''s9'' \<noteq> sb_current bundle_old"
    by (simp_all add: s plain_keys)
  from token_survives_one_rotation [OF ideal_jwt_ok get this(1) c this(2,3)]
  show ?thesis unfolding s Let_def by blast
qed

text \<open>
  The authority always comes up: when the configured store cannot be initialised, it starts
  on the in-memory store and has a bundle for every audience, so every service can mint and
  verify.
\<close>

theorem authority_falls_back:
  assumes "be_initialize be w = (Inl e, w1)" "set audiences \<subseteq> set (map fst seeds)"
  shows "\<exists>au w'. authority_start be audiences seeds now w = (Inr au, w')
    \<and> ta_store au = Fallback (InMemorySecretStore_init seeds now)
    \<and> (\<forall>a \<in> set audiences. \<exists>b. authority_provider au a = Inr b)
    \<and> (\<forall>a \<in> set audiences. authority_jwt_for au a = Inr a)"
proof -
  let ?st = "InMemorySecretStore_init seeds now"
  obtain bs w2 where l: "load_all (Fallback ?st) audiences [] w1 = (Inr bs, w2)"
    using no_raise_load_all by (rule no_raiseE)
  have "map_of ?st a \<noteq> None" if "a \<in> set audiences" for a
    unfolding InMemorySecretStore_init_def mem_seed_get using that assms(2) by auto
  then have "map_of bs a \<noteq> None" if "a \<in> set audiences" for a
    using load_all_fallback [OF _ l that] by blast
  then have p: "\<exists>b. map_of bs a = Some b" if "a \<in> set audiences" for a
    using that by auto
  from assms(1) l have "authority_start be audiences seeds now w
      = (Inr \<lparr>ta_store = Fallback ?st, ta_audiences = audiences, ta_bundles = bs,
              ta_services = audiences\<rparr>, w2)"
    by (simp add: authority_start_def)
  with p show ?thesis
    by (auto simp: authority_provider_def authority_jwt_for_def split: option.splits)
qed

theorem authority_falls_back_witness:
  "\<exists>au w'. authority_start \<lparr>be_initialize = raise_io (OtherError ''no database''),
        be_get_bundle = (\<lambda>a. raise_io (OtherError ''no database''))\<rparr>
      [''ingest'', ''worker''] [(''ingest'', ''k1''), (''worker'', ''k2'')] 0 () = (Inr au, w')
    \<and> (\<exists>b. authority_provider au ''worker'' = Inr b)"
proof -
  let ?be = "\<lparr>be_initialize = raise_io (OtherError ''no database''),
      be_get_bundle = (\<lambda>a. raise_io (OtherError ''no database''))\<rparr> :: unit secret_backend"
  have i: "be_initialize ?be () = (Inl (OtherError ''no database''), ())" by simp
  have s: "set [''ingest'', ''worker''] \<subseteq> set (map fst [(''ingest'', ''k1''), (''worker'', ''k2'')])"
    by simp
  from authority_falls_back [OF i s, of 0] show ?thesis by auto
qed

end
