(* ===== verification/Audit_Store.thy ===== *)
theory Audit_Store
  imports Json Redis_Port Demo_World
begin

section \<open>services/_runtime/audit.py: retention of raw payloads and coercion traces\<close>

text \<open>
  \<open>AuditStore\<close>: its client, the default retention and the per-tenant overrides (a Python
  dictionary). \<open>secrets.token_urlsafe\<close> is the argument \<open>trace_id\<close>; \<open>json.dumps(..., default=str)\<close>
  is \<open>json_dumps\<close> of the standard library. No operation raises but \<open>set_tenant_override\<close>.
\<close>

definition audit_raw_key :: "string \<Rightarrow> string" where
  "audit_raw_key alert_id = ''raw_payload:'' @ alert_id"

definition audit_coercion_key :: "string \<Rightarrow> string" where
  "audit_coercion_key trace_id = ''coercion_traces:'' @ trace_id"

definition AUDIT_DEFAULT_TTL_SEC :: int where
  "AUDIT_DEFAULT_TTL_SEC = 30 * 24 * 60 * 60"

record 'w audit_store =
  as_default_ttl :: int
  as_overrides :: "(string \<times> int) list"
  as_client :: "'w redis option"

definition AuditStore_init ::
    "(string \<Rightarrow> exn + 'w redis) \<Rightarrow> string \<Rightarrow> int \<Rightarrow> (string \<times> int) list \<Rightarrow> 'w audit_store" where
  "AuditStore_init from_url redis_url default_ttl_seconds overrides =
     \<lparr>as_default_ttl = default_ttl_seconds, as_overrides = overrides,
      as_client = (case from_url redis_url of Inl e \<Rightarrow> None | Inr c \<Rightarrow> Some c)\<rparr>"

definition audit_ttl_for :: "'w audit_store \<Rightarrow> string option \<Rightarrow> int" where
  "audit_ttl_for st tenant_id =
     (case tenant_id of
        None \<Rightarrow> as_default_ttl st
      | Some t \<Rightarrow>
          if t = [] then as_default_ttl st
          else (case map_of (as_overrides st) t of None \<Rightarrow> as_default_ttl st | Some n \<Rightarrow> n))"

definition audit_set_tenant_override ::
    "'w audit_store \<Rightarrow> string \<Rightarrow> int \<Rightarrow> exn + 'w audit_store" where
  "audit_set_tenant_override st tenant_id ttl_seconds =
     (if ttl_seconds \<le> 0 then Inl (ValueError ''ttl_seconds must be > 0'')
      else Inr (st\<lparr>as_overrides := AList.update tenant_id ttl_seconds (as_overrides st)\<rparr>))"

definition audit_record_raw_payload ::
    "pylib \<Rightarrow> 'w audit_store \<Rightarrow> string \<Rightarrow> string option \<Rightarrow> jdict \<Rightarrow> ('w, unit) io" where
  "audit_record_raw_payload lib st alert_id tenant_id payload =
     (case as_client st of
        None \<Rightarrow> ret_io ()
      | Some client \<Rightarrow>
          try_io
            (rd_setex client (audit_raw_key alert_id) (audit_ttl_for st tenant_id)
               (json_dumps lib (JDict payload)))
            (\<lambda>exc. ret_io ()))"

text \<open>Reading a stored JSON value: \<open>None\<close> (here \<open>JNull\<close>) when absent, empty or on any error.\<close>

definition audit_read :: "pylib \<Rightarrow> 'w audit_store \<Rightarrow> string \<Rightarrow> ('w, json) io" where
  "audit_read lib st key =
     (case as_client st of
        None \<Rightarrow> ret_io JNull
      | Some client \<Rightarrow>
          try_io
            (bind_io (rd_get client key) (\<lambda>v.
               (case v of
                  None \<Rightarrow> ret_io JNull
                | Some s \<Rightarrow> if s = [] then ret_io JNull else of_result (json_loads lib s))))
            (\<lambda>exc. ret_io JNull))"

definition audit_get_raw_payload :: "pylib \<Rightarrow> 'w audit_store \<Rightarrow> string \<Rightarrow> ('w, json) io" where
  "audit_get_raw_payload lib st alert_id = audit_read lib st (audit_raw_key alert_id)"

definition audit_get_coercion :: "pylib \<Rightarrow> 'w audit_store \<Rightarrow> string \<Rightarrow> ('w, json) io" where
  "audit_get_coercion lib st trace_id = audit_read lib st (audit_coercion_key trace_id)"

definition coercion_record ::
    "string \<Rightarrow> string option \<Rightarrow> string \<Rightarrow> string \<Rightarrow> json \<Rightarrow> int \<Rightarrow> rat option \<Rightarrow> jdict" where
  "coercion_record alert_id tenant_id prompt model response latency_ms cost_usd =
     [(''alert_id'', JStr alert_id), (''tenant_id'', json_opt tenant_id), (''prompt'', JStr prompt),
      (''model'', JStr model), (''response'', response), (''latency_ms'', JInt latency_ms),
      (''cost_usd'', case cost_usd of None \<Rightarrow> JNull | Some c \<Rightarrow> JFloat c)]"

definition audit_record_coercion ::
    "pylib \<Rightarrow> 'w audit_store \<Rightarrow> string \<Rightarrow> string \<Rightarrow> string option \<Rightarrow> jdict \<Rightarrow> ('w, string) io" where
  "audit_record_coercion lib st trace_id alert_id tenant_id entry =
     (case as_client st of
        None \<Rightarrow> ret_io trace_id
      | Some client \<Rightarrow>
          bind_io
            (try_io
               (rd_setex client (audit_coercion_key trace_id) (audit_ttl_for st tenant_id)
                  (json_dumps lib (JDict entry)))
               (\<lambda>exc. ret_io ()))
            (\<lambda>_. ret_io trace_id))"

definition audit_get_bundle ::
    "pylib \<Rightarrow> 'w audit_store \<Rightarrow> string \<Rightarrow> string option \<Rightarrow> ('w, jdict) io" where
  "audit_get_bundle lib st alert_id coercion_trace_id =
     bind_io (audit_get_raw_payload lib st alert_id) (\<lambda>raw.
       (let bundle = [(''alert_id'', JStr alert_id), (''raw_payload'', raw)] in
        if opt_true coercion_trace_id then
          bind_io (audit_get_coercion lib st (the coercion_trace_id)) (\<lambda>c.
            ret_io (bundle @ [(''coercion'', c)]))
        else ret_io bundle))"

subsection \<open>Facts\<close>

lemma no_raise_record_raw: "no_raise (audit_record_raw_payload lib st a t p)"
  unfolding audit_record_raw_payload_def by (auto split: option.splits intro!: no_raise_intros)

lemma no_raise_audit_read: "no_raise (audit_read lib st k)"
  unfolding audit_read_def by (auto split: option.splits intro!: no_raise_intros)

lemma no_raise_record_coercion: "no_raise (audit_record_coercion lib st i a t d)"
  unfolding audit_record_coercion_def by (auto split: option.splits intro!: no_raise_intros)

lemma no_raise_get_bundle: "no_raise (audit_get_bundle lib st a c)"
  unfolding audit_get_bundle_def audit_get_raw_payload_def audit_get_coercion_def Let_def
  by (auto intro!: no_raise_intros no_raise_audit_read)

lemma audit_read_after_setex:
  assumes "redis_ok r kv p" "redis_up r" "as_client st = Some r" "kv w key = Some s" "s \<noteq> []"
    and "json_loads lib s = Inr v"
  shows "\<exists>w'. audit_read lib st key w = (Inr v, w') \<and> kv w' = kv w"
proof -
  obtain x w1 where g: "rd_get r key w = (Inr x, w1)"
    using redis_upE(1) [OF assms(2)] by (rule no_raiseE)
  with rd_get_Inr [OF assms(1) g] assms show ?thesis by (simp add: audit_read_def)
qed

lemma audit_keys_distinct [simp]:
  "audit_raw_key a = audit_raw_key b \<longleftrightarrow> a = b" "audit_coercion_key a = audit_coercion_key b \<longleftrightarrow> a = b"
  "audit_raw_key a \<noteq> audit_coercion_key b" "audit_coercion_key b \<noteq> audit_raw_key a"
  by (simp_all add: audit_raw_key_def audit_coercion_key_def)

text \<open>What is needed of the JSON functions for one value.\<close>

definition round_trips :: "pylib \<Rightarrow> jdict \<Rightarrow> bool" where
  "round_trips lib d \<longleftrightarrow> json_dumps lib (JDict d) \<noteq> []
     \<and> json_loads lib (json_dumps lib (JDict d)) = Inr (JDict d)"

subsection \<open>The property of retention\<close>

text \<open>
  With Redis reachable, what was recorded for an alert is in its audit bundle: the payload as
  it was received and, for a coerced alert, the trace under the identifier that
  \<open>record_coercion\<close> returned, whatever was recorded for the alert in between under other keys.
\<close>

theorem audit_bundle_complete:
  assumes "redis_ok r kv p" "redis_up r" "as_client st = Some r"
    and "round_trips lib payload" "round_trips lib trace"
    and "audit_record_raw_payload lib st a t payload w = (Inr (), w1)"
    and "audit_record_coercion lib st i a t trace w1 = (Inr j, w2)" "i \<noteq> []"
  shows "j = i \<and> (\<exists>w3. audit_get_bundle lib st a (Some j) w2 = (Inr
    [(''alert_id'', JStr a), (''raw_payload'', JDict payload), (''coercion'', JDict trace)], w3))"
proof -
  let ?raw = "json_dumps lib (JDict payload)" and ?tr = "json_dumps lib (JDict trace)"
  obtain x1 where s1: "rd_setex r (audit_raw_key a) (audit_ttl_for st t) ?raw w = (Inr (), x1)"
    using redis_upE(3) [OF assms(2)] by (rule no_raiseE) auto
  have w1: "w1 = x1" using assms(3,6) s1 by (simp add: audit_record_raw_payload_def)
  obtain x2 where s2: "rd_setex r (audit_coercion_key i) (audit_ttl_for st t) ?tr w1 = (Inr (), x2)"
    using redis_upE(3) [OF assms(2)] by (rule no_raiseE) auto
  have w2: "w2 = x2" "j = i" using assms(3,7) s2 by (simp_all add: audit_record_coercion_def bind_io_def)
  have kv: "kv w2 (audit_raw_key a) = Some ?raw" "kv w2 (audit_coercion_key i) = Some ?tr"
    using rd_setex_Inr [OF assms(1) s1] rd_setex_Inr [OF assms(1) s2] w1 w2 by simp_all
  obtain w3 where g1: "audit_read lib st (audit_raw_key a) w2 = (Inr (JDict payload), w3)" "kv w3 = kv w2"
    using audit_read_after_setex [OF assms(1-3) kv(1)] assms(4) unfolding round_trips_def by blast
  obtain w4 where g2: "audit_read lib st (audit_coercion_key i) w3 = (Inr (JDict trace), w4)"
    using audit_read_after_setex [OF assms(1-3), of w3 "audit_coercion_key i" ?tr] kv(2) g1(2) assms(5)
    unfolding round_trips_def by auto
  from g1 g2 w2(2) assms(8) show ?thesis
    by (simp add: audit_get_bundle_def audit_get_raw_payload_def audit_get_coercion_def Let_def
        opt_true_def)
qed

theorem audit_bundle_complete_witness:
  "\<exists>w1 w2 w3. let lib = demo_lib [(''{}'', JDict [])];
       st = \<lparr>as_default_ttl = 60, as_overrides = [], as_client = Some demo_redis\<rparr> in
     audit_record_raw_payload lib st ''a1'' (Some ''acme'') [] Map.empty = (Inr (), w1)
     \<and> audit_record_coercion lib st ''tr'' ''a1'' (Some ''acme'') [] w1 = (Inr ''tr'', w2)
     \<and> audit_get_bundle lib st ''a1'' (Some ''tr'') w2 = (Inr
         [(''alert_id'', JStr ''a1''), (''raw_payload'', JDict []), (''coercion'', JDict [])], w3)"
proof -
  let ?lib = "demo_lib [(''{}'', JDict [])]"
  let ?st = "\<lparr>as_default_ttl = 60, as_overrides = [], as_client = Some demo_redis\<rparr>"
  have c: "as_client ?st = Some demo_redis" by simp
  have rt: "round_trips ?lib []" by (simp add: round_trips_def demo_lib_def)
  have ne: "''tr'' \<noteq> []" by simp
  obtain u w1 where 1: "audit_record_raw_payload ?lib ?st ''a1'' (Some ''acme'') [] Map.empty = (Inr u, w1)"
    using no_raise_record_raw by (rule no_raiseE)
  obtain j w2 where 2: "audit_record_coercion ?lib ?st ''tr'' ''a1'' (Some ''acme'') [] w1 = (Inr j, w2)"
    using no_raise_record_coercion by (rule no_raiseE)
  have u: "u = ()" by simp
  from audit_bundle_complete [where kv = "\<lambda>w. w", OF demo_redis_ok demo_redis_up c rt rt 1 [unfolded u] 2 ne]
  show ?thesis using 1 2 by (auto simp: Let_def)
qed

end
