(* ===== verification/Runtime_Glue.thy ===== *)
theory Runtime_Glue
  imports Ingest_Wal Secret_Store Audit_Store
begin

section \<open>app/_runtime_glue.py: the ingest path into the runtime\<close>

text \<open>
  \<open>RuntimeState\<close> and the functions the API calls: wiring at startup, the audit write, the
  verification of a forwarded service token, and the enqueueing of an alert. Pydantic's
  \<open>model_dump(mode="json")\<close> and \<open>model_dump_json()\<close> of an alert are the parameters \<open>dump\<close> and
  \<open>dump_json\<close>. The reconciler's client is one connection; its background task, started by
  \<open>startup\<close>, is in theory Wal_Loop.
\<close>

record 'w runtime_state =
  rt_broker :: "broker option"
  rt_reconciler :: "'w reconciler option"
  rt_ingest_jwt :: "'w jwt_service option"
  rt_jwt_cache :: jwt_cache
  rt_audit :: "'w audit_store option"
  rt_authority :: "'w authority option"

definition RuntimeState_init :: "'w runtime_state" where
  "RuntimeState_init =
     \<lparr>rt_broker = None, rt_reconciler = None, rt_ingest_jwt = None, rt_jwt_cache = [],
      rt_audit = None, rt_authority = None\<rparr>"

definition subject_for_alert :: "normalized_alert \<Rightarrow> string" where
  "subject_for_alert alert =
     (let tenant_id = (case na_tenant_id alert of
            None \<Rightarrow> ''default'' | Some t \<Rightarrow> if t = [] then ''default'' else t)
      in subj_alert tenant_id (source_value (na_source alert)) (na_alert_id alert))"

text \<open>A subject that is not a string cannot be published on; the entries the program writes have one.\<close>

definition wal_subject_resolver :: "jdict \<Rightarrow> exn + string" where
  "wal_subject_resolver payload =
     (let subject = dict_get payload ''__subject__'' JNull in
      if \<not> truthy subject then Inl (KeyError ''WAL entry missing precomputed __subject__'')
      else (case subject of JStr s \<Rightarrow> Inr s | _ \<Rightarrow> Inl (TypeError ''subject'')))"

subsection \<open>Startup and shutdown\<close>

text \<open>
  What the settings and the constructors give: \<open>su_store\<close> is \<open>PostgresSecretStore(dsn=...)\<close>, which
  may raise, \<open>su_seeds\<close> the secrets an in-memory fallback draws, \<open>su_jwt\<close> the service for an audience
  of an authority.
\<close>

record 'w startup_env =
  su_audit_enabled :: bool
  su_ingest_via_nats :: bool
  su_audit :: "'w audit_store"
  su_store :: "exn + 'w secret_backend"
  su_seeds :: "(string \<times> string) list"
  su_now :: rat
  su_jwt :: "'w authority \<Rightarrow> string \<Rightarrow> 'w jwt_service"
  su_nats :: "'w nats"
  su_nats_url :: string
  su_creds_path :: string
  su_reconciler :: "'w reconciler"

definition runtime_audiences :: "string list" where
  "runtime_audiences = [''ingest'', ''worker'', ''gateway'', ''bff_user'']"

definition runtime_startup :: "'w startup_env \<Rightarrow> ('w, 'w runtime_state) io" where
  "runtime_startup su =
     (let state = RuntimeState_init\<lparr>rt_audit := if su_audit_enabled su then Some (su_audit su) else None\<rparr> in
      bind_io
        (try_io
          (bind_io (of_result (su_store su)) (\<lambda>store.
           bind_io (authority_start store runtime_audiences (su_seeds su) (su_now su)) (\<lambda>au.
           bind_io (of_result (authority_jwt_for au ''ingest'')) (\<lambda>aud.
             ret_io (state\<lparr>rt_authority := Some au, rt_ingest_jwt := Some (su_jwt su au aud)\<rparr>)))))
          (\<lambda>exc. ret_io state)) (\<lambda>state.
      if \<not> su_ingest_via_nats su then ret_io state
      else
        bind_io (broker_connect (su_nats su)
            (NatsBroker_init (su_nats_url su)
               (if su_creds_path su = [] then None else Some (su_creds_path su)) ''soc-triage-ingest''))
          (\<lambda>b. ret_io (state\<lparr>rt_broker := Some b,
                 rt_reconciler := Some ((su_reconciler su)\<lparr>rc_publish_subject_for := wal_subject_resolver\<rparr>)\<rparr>))))"

subsection \<open>The audit write and the forwarded token\<close>

definition record_raw_payload ::
    "pylib \<Rightarrow> 'w runtime_state option \<Rightarrow> normalized_alert \<Rightarrow> jdict \<Rightarrow> ('w, unit) io" where
  "record_raw_payload lib state alert raw =
     (case state of
        None \<Rightarrow> ret_io ()
      | Some st \<Rightarrow>
          (case rt_audit st of
             None \<Rightarrow> ret_io ()
           | Some audit \<Rightarrow>
               try_io (audit_record_raw_payload lib audit (na_alert_id alert) (na_tenant_id alert) raw)
                 (\<lambda>exc. ret_io ())))"

text \<open>
  The bearer token of an \<open>Authorization\<close> header: what follows the first blank, stripped. \<open>None\<close>
  when there is none.
\<close>

definition bearer_token :: "string option \<Rightarrow> string option" where
  "bearer_token header =
     (case header of
        None \<Rightarrow> None
      | Some h \<Rightarrow>
          if \<not> starts_with (str_lower h) ''bearer '' then None
          else (let token = str_strip (drop 1 (dropWhile (\<lambda>c. c \<noteq> CHR '' '') h)) in
                if token = [] then None else Some token))"

text \<open>The context stashed on the request, if any, and the runtime after it.\<close>

definition attach_verified_service_token ::
    "'w runtime_state option \<Rightarrow> string option \<Rightarrow> ('w, auth_context option \<times> 'w runtime_state option) io"
where
  "attach_verified_service_token state header =
     (case state of
        None \<Rightarrow> ret_io (None, state)
      | Some st \<Rightarrow>
          (case rt_ingest_jwt st of
             None \<Rightarrow> ret_io (None, state)
           | Some sv \<Rightarrow>
               (case bearer_token header of
                  None \<Rightarrow> ret_io (None, state)
                | Some token \<Rightarrow>
                    bind_io (verify sv (rt_jwt_cache st) token) (\<lambda>(res, cache).
                    (let state' = Some (st\<lparr>rt_jwt_cache := cache\<rparr>) in
                     (case res of
                        Inl e \<Rightarrow> ret_io (None, state')
                      | Inr auth \<Rightarrow> ret_io (Some auth, state')))))))"

subsection \<open>Enqueueing an alert\<close>

definition enqueue_via_nats ::
    "(normalized_alert \<Rightarrow> jdict) \<Rightarrow> (normalized_alert \<Rightarrow> string) \<Rightarrow> 'w runtime_state option
     \<Rightarrow> normalized_alert \<Rightarrow> ('w, bool \<times> 'w runtime_state option) io" where
  "enqueue_via_nats dump dump_json state alert =
     (case state of
        None \<Rightarrow> ret_io (False, state)
      | Some st \<Rightarrow>
          (case (rt_broker st, rt_reconciler st) of
             (Some b, Some rc) \<Rightarrow>
               (let subject = subject_for_alert alert;
                    payload = AList.update ''__subject__'' (JStr subject) (dump alert);
                    body = dump_json alert
                in bind_io (write_ahead rc (na_alert_id alert) payload) (\<lambda>_.
                   bind_io (broker_publish (rc_nats rc) b subject body (Some (na_alert_id alert)) [] True)
                     (\<lambda>(ok, b).
                   bind_io (if ok then mark_published rc (na_alert_id alert) else ret_io ()) (\<lambda>_.
                     ret_io (True, Some (st\<lparr>rt_broker := Some b\<rparr>))))))
           | _ \<Rightarrow> ret_io (False, state)))"

subsection \<open>Facts\<close>

lemma no_raise_record_raw_payload: "no_raise (record_raw_payload lib state alert raw)"
  unfolding record_raw_payload_def
  by (auto split: option.splits intro!: no_raise_intros)

lemma no_raise_enqueue: "no_raise (enqueue_via_nats dump dump_json state alert)"
  unfolding enqueue_via_nats_def Let_def
  by (auto split: option.splits intro!: no_raise_intros no_raise_write_ahead no_raise_publish no_raise_mark)

text \<open>The subject the log entry carries is the one the alert was routed to.\<close>

lemma wal_subject_of_entry:
  "wal_subject_resolver (AList.update ''__subject__'' (JStr (subject_for_alert alert)) d)
     = Inr (subject_for_alert alert)"
  by (simp add: wal_subject_resolver_def subject_for_alert_def subj_alert_def Let_def)

lemma subject_for_alert_stream: "streams_for (subject_for_alert alert) = [''ALERTS'']"
  by (simp add: subject_for_alert_def Let_def stream_of_subject)

lemma write_ahead_frame_reconciler:
  assumes "redis_ok r kv p" "redis_up r" "rc_client rc = Some r"
  obtains w1 where "write_ahead rc a payload w = (Inr True, w1)"
    "kv w1 (wal_pending_key a) = Some (json_dumps (rc_lib rc) (JDict payload))"
proof -
  obtain x w1 where x: "write_ahead rc a payload w = (Inr x, w1)"
    using no_raise_write_ahead by (rule no_raiseE)
  obtain u w2 where "rd_setex r (wal_pending_key a) (rc_max_age rc)
      (json_dumps (rc_lib rc) (JDict payload)) w = (Inr u, w2)"
    using redis_upE(3) [OF assms(2)] by (rule no_raiseE)
  with x assms(3) have "x = True" by (auto simp: write_ahead_def bind_io_def)
  with x write_ahead_durable [OF assms x] show thesis using that by blast
qed

subsection \<open>The property of ingest\<close>

text \<open>
  C27. An accepted alert is durable: with Redis reachable, enqueueing answers yes exactly when the
  runtime is wired, and then either the broker acknowledged the message on the alert's subject,
  or the write-ahead log holds the alert with that subject, from which the reconciler publishes it.
\<close>

theorem enqueued_alert_durable:
  assumes "redis_ok r kv p" "redis_up r" "nats_frame (rc_nats rc) kv" "rc_client rc = Some r"
    and "rt_broker st = Some b" "rt_reconciler st = Some rc"
    and "payload = AList.update ''__subject__'' (JStr (subject_for_alert alert)) (dump alert)"
  shows "\<exists>st' w' acked b' w1 w2. enqueue_via_nats dump dump_json (Some st) alert w = (Inr (True, st'), w')
    \<and> broker_publish (rc_nats rc) b (subject_for_alert alert) (dump_json alert)
        (Some (na_alert_id alert)) [] True w1 = (Inr (acked, b'), w2)
    \<and> kv w' (wal_pending_key (na_alert_id alert)) =
        (if acked then None else Some (json_dumps (rc_lib rc) (JDict payload)))
    \<and> wal_subject_resolver payload = Inr (subject_for_alert alert)
    \<and> streams_for (subject_for_alert alert) = [''ALERTS'']"
proof -
  let ?a = "na_alert_id alert"
  obtain w1 where wa: "write_ahead rc ?a payload w = (Inr True, w1)"
    "kv w1 (wal_pending_key ?a) = Some (json_dumps (rc_lib rc) (JDict payload))"
    using write_ahead_frame_reconciler [OF assms(1,2,4)] by blast
  obtain x w2 where x: "broker_publish (rc_nats rc) b (subject_for_alert alert) (dump_json alert)
      (Some ?a) [] True w1 = (Inr x, w2)"
    using no_raise_publish by (rule no_raiseE)
  obtain ok b' where ok: "x = (ok, b')" by fastforce
  note pub = x [unfolded ok]
  have k2: "kv w2 = kv w1" by (rule broker_publish_frame [OF assms(3) pub])
  have "\<exists>w3. (if ok then mark_published rc ?a else ret_io ()) w2 = (Inr (), w3)
      \<and> kv w3 (wal_pending_key ?a) = (if ok then None else kv w2 (wal_pending_key ?a))"
  proof (cases ok)
    case True
    obtain w3 where "mark_published rc ?a w2 = (Inr (), w3)"
      "kv w3 = del_keys [wal_pending_key ?a, wal_lease_key ?a, wal_attempts_key ?a] (kv w2)"
      using mark_published_kv [OF assms(1,2,4)] by blast
    with True show ?thesis by (simp add: del_keys_def)
  qed simp
  then obtain w3 where m: "(if ok then mark_published rc ?a else ret_io ()) w2 = (Inr (), w3)"
    "kv w3 (wal_pending_key ?a) = (if ok then None else kv w2 (wal_pending_key ?a))" by blast
  have "enqueue_via_nats dump dump_json (Some st) alert w = (Inr (True, Some (st\<lparr>rt_broker := Some b'\<rparr>)), w3)"
    using assms(5,6) wa(1) pub m(1) by (simp add: enqueue_via_nats_def Let_def assms(7) bind_io_def)
  moreover have "kv w3 (wal_pending_key ?a)
      = (if ok then None else Some (json_dumps (rc_lib rc) (JDict payload)))"
    using m(2) k2 wa(2) by simp
  ultimately show ?thesis
    using pub wal_subject_of_entry [of alert "dump alert"] subject_for_alert_stream assms(7) by blast
qed

definition demo_runtime :: "bool \<Rightarrow> kv runtime_state" where
  "demo_runtime up = RuntimeState_init
     \<lparr>rt_broker := Some demo_broker, rt_reconciler := Some (demo_reconciler up)\<rparr>"

definition demo_dump :: "normalized_alert \<Rightarrow> jdict" where
  "demo_dump alert = [(''alert_id'', JStr (na_alert_id alert))]"

theorem enqueued_alert_durable_witness:
  "\<exists>st' w' acked. enqueue_via_nats demo_dump na_title (Some (demo_runtime False)) demo_alert Map.empty
      = (Inr (True, st'), w')
    \<and> w' (wal_pending_key ''a1'') = (if acked then None else Some (json_dumps (demo_lib [(''{}'', JDict [])])
        (JDict [(''alert_id'', JStr ''a1''), (''__subject__'', JStr ''alerts.v1.acme.splunk.a1'')])))"
proof -
  have s: "subject_for_alert demo_alert = ''alerts.v1.acme.splunk.a1''"
    by (simp add: subject_for_alert_def demo_alert_def subj_alert_def SCHEMA_VERSION_TAG_def)
  have a: "na_alert_id demo_alert = ''a1''" by (simp add: demo_alert_def)
  have f: "nats_frame (rc_nats (demo_reconciler False)) (\<lambda>w. w)" by (simp add: demo_nats_frame)
  have rt: "rt_broker (demo_runtime False) = Some demo_broker"
    "rt_reconciler (demo_runtime False) = Some (demo_reconciler False)"
    by (simp_all add: demo_runtime_def)
  have d: "AList.update ''__subject__'' (JStr (subject_for_alert demo_alert)) (demo_dump demo_alert)
      = [(''alert_id'', JStr ''a1''), (''__subject__'', JStr ''alerts.v1.acme.splunk.a1'')]"
    by (simp add: demo_dump_def a s)
  from enqueued_alert_durable [where kv = "\<lambda>w. w" and dump = demo_dump and dump_json = na_title
      and w = Map.empty, OF demo_redis_ok demo_redis_up f demo_reconciler_simps(1) rt d [symmetric]] a
  show ?thesis by auto
qed

end
