(* ===== verification/Security.thy ===== *)
theory Security
  imports Json Regex
begin

section \<open>security/: the input guard, the content filter and the output filter\<close>

text \<open>
  \<open>input_guard.py\<close> authenticates a request, bounds its size and cleans the strings of a payload;
  \<open>content_filter.py\<close> judges the parameters of a tool call; \<open>output_filter.py\<close> cleans a verdict
  before it leaves the service. The patterns are those of the source, written with the
  constructors of theory Regex; \<open>\<s>\<close> is white space, \<open>\<S>\<close> its complement, and \<open>.\<close> does not match
  a newline unless the pattern is compiled with \<open>DOTALL\<close>.
\<close>

subsection \<open>input_guard.py\<close>

definition MAX_PAYLOAD_BYTES :: nat where
  "MAX_PAYLOAD_BYTES = 1000000"

definition not_newline :: "char \<Rightarrow> bool" where
  "not_newline c \<longleftrightarrow> (of_char c :: nat) \<noteq> 10"

definition INJECTION_RE :: re where
  "INJECTION_RE = RGroup (re_seqs
     [RWordB,
      RGroup (re_alts (map re_ilit [''DROP'', ''DELETE'', ''INSERT'', ''UPDATE'', ''UNION'', ''SELECT''])),
      RWordB, re_star (RChar not_newline), RWordB,
      RGroup (re_alts (map re_ilit [''FROM'', ''INTO'', ''TABLE''])), RWordB])"

definition SCRIPT_RE :: re where
  "SCRIPT_RE = re_seqs
     [re_ilit ''<script'', re_star (RChar (\<lambda>c. c \<noteq> CHR ''>'')), RChar (\<lambda>c. c = CHR ''>''),
      RRep 0 None False (RChar (\<lambda>c. True)), re_ilit ''</script>'']"

text \<open>Header names are compared without case; \<open>removeprefix\<close> takes a prefix off when it is there.\<close>

definition header_get :: "(string \<times> string) list \<Rightarrow> string \<Rightarrow> string option" where
  "header_get headers name = map_of (map (\<lambda>(k, v). (str_lower k, v)) headers) (str_lower name)"

definition removeprefix :: "string \<Rightarrow> string \<Rightarrow> string" where
  "removeprefix s p = (if starts_with s p then drop (length p) s else s)"

definition provided_key :: "(string \<times> string) list \<Rightarrow> string" where
  "provided_key headers =
     (let key = header_get headers ''X-API-Key'' in
      if opt_true key then the key
      else removeprefix (case header_get headers ''Authorization'' of None \<Rightarrow> [] | Some a \<Rightarrow> a) ''Bearer '')"

definition validate_api_key :: "string \<Rightarrow> (string \<times> string) list \<Rightarrow> exn + unit" where
  "validate_api_key api_key headers =
     (if provided_key headers \<noteq> api_key
      then Inl (HTTPException 401 ''Invalid or missing API key'') else Inr ())"

text \<open>The size of the raw body, in bytes.\<close>

definition check_payload_size :: "nat \<Rightarrow> exn + unit" where
  "check_payload_size n =
     (if n > MAX_PAYLOAD_BYTES
      then Inl (HTTPException 413
        (''Payload exceeds '' @ show_int (int MAX_PAYLOAD_BYTES) @ '' bytes''))
      else Inr ())"

definition sanitise_string :: "string \<Rightarrow> string" where
  "sanitise_string value =
     (let value = re_sub SCRIPT_RE (\<lambda>g. []) value in
      if re_search INJECTION_RE value \<noteq> None then ''[REDACTED]'' else value)"

text \<open>The size of a value, for termination: containers are larger than what they hold.\<close>

fun json_size :: "json \<Rightarrow> nat" where
  "json_size (JList vs) = Suc (sum_list (map json_size vs))"
| "json_size (JDict d) = Suc (sum_list (map (\<lambda>kv. Suc (json_size (snd kv))) d))"
| "json_size v = 1"

definition dict_size :: "jdict \<Rightarrow> nat" where
  "dict_size d = sum_list (map (\<lambda>kv. Suc (json_size (snd kv))) d)"

lemma dict_size_member: "kv \<in> set d \<Longrightarrow> json_size (snd kv) < dict_size d"
  by (induction d) (auto simp: dict_size_def)

lemma list_size_member: "v \<in> set vs \<Longrightarrow> json_size v < json_size (JList vs)"
  by (induction vs) auto

lemma json_size_dict: "json_size (JDict d) = Suc (dict_size d)"
  by (simp add: dict_size_def)

text \<open>
  \<open>sanitise_payload\<close> at a depth, and what it does with the value of a key and with an element of a
  list: lists inside lists stay as they are, and so does everything below depth five.
\<close>

function sanitise_payload :: "nat \<Rightarrow> jdict \<Rightarrow> jdict" and sanitise_value :: "nat \<Rightarrow> json \<Rightarrow> json"
  and sanitise_item :: "nat \<Rightarrow> json \<Rightarrow> json" where
  "sanitise_payload depth payload =
     (if depth > 5 then payload
      else map (\<lambda>kv. (fst kv, sanitise_value depth (snd kv))) payload)"
| "sanitise_value depth value =
     (case value of
        JStr s \<Rightarrow> JStr (sanitise_string s)
      | JDict d \<Rightarrow> JDict (sanitise_payload (depth + 1) d)
      | JList vs \<Rightarrow> JList (map (sanitise_item depth) vs)
      | v \<Rightarrow> v)"
| "sanitise_item depth v =
     (case v of
        JDict d \<Rightarrow> JDict (sanitise_payload (depth + 1) d)
      | JStr s \<Rightarrow> JStr (sanitise_string s)
      | v \<Rightarrow> v)"
  by pat_completeness auto

termination
  by (relation "measure (\<lambda>x. case x of Inl (d, m) \<Rightarrow> dict_size m
      | Inr (Inl (d, v)) \<Rightarrow> json_size v | Inr (Inr (d, v)) \<Rightarrow> json_size v)")
    (auto simp: dict_size_member list_size_member json_size_dict simp del: json_size.simps)

declare sanitise_payload.simps [simp del] sanitise_value.simps [simp del] sanitise_item.simps [simp del]

subsection \<open>content_filter.py\<close>

definition DANGEROUS_SPL_RE :: re where
  "DANGEROUS_SPL_RE = re_seqs
     [RWordB,
      RGroup (re_alts (map re_ilit [''delete'', ''drop'', ''insert'', ''update'', ''output'', ''sendemail''])),
      RWordB]"

definition SSRF_TARGETS :: "string list" where
  "SSRF_TARGETS = [''169.254.169.254'', ''metadata.google.internal'', ''localhost'', ''127.0.0.1'', ''0.0.0.0'']"

fun any_target_in :: "string list \<Rightarrow> json \<Rightarrow> exn + bool" where
  "any_target_in [] v = Inr False"
| "any_target_in (t # ts) v = bind_r (value_in t v) (\<lambda>b. if b then Inr True else any_target_in ts v)"

definition check_raw_spl :: "jdict \<Rightarrow> exn + (bool \<times> string) option" where
  "check_raw_spl params =
     (case dict_get params ''raw_spl'' (JStr []) of
        JStr raw_spl \<Rightarrow>
          Inr (if raw_spl \<noteq> [] \<and> re_search DANGEROUS_SPL_RE raw_spl \<noteq> None
               then Some (False, ''Dangerous SPL keyword detected in raw_spl: '' @ take 100 raw_spl)
               else None)
      | v \<Rightarrow> if truthy v then Inl (TypeError ''expected string or bytes-like object'') else Inr None)"

definition check_ssrf :: "(rat \<Rightarrow> string) \<Rightarrow> jdict \<Rightarrow> exn + (bool \<times> string) option" where
  "check_ssrf fr params =
     (let ip = py_or (py_or (py_or (dict_get params ''ioc_value'' JNull) (dict_get params ''src_ip'' JNull))
                 (dict_get params ''dst_ip'' JNull)) (JStr []) in
      bind_r (any_target_in SSRF_TARGETS ip) (\<lambda>hit.
        Inr (if hit then Some (False, ''SSRF target detected in IP parameter: '' @ py_str fr ip) else None)))"

definition validate_tool_params ::
    "(rat \<Rightarrow> string) \<Rightarrow> string \<Rightarrow> jdict \<Rightarrow> exn + bool \<times> string" where
  "validate_tool_params fr tool_name params =
     bind_r (if tool_name = ''query_splunk'' then check_raw_spl params else Inr None) (\<lambda>r1.
     case r1 of Some r \<Rightarrow> Inr r | None \<Rightarrow>
     bind_r (if tool_name \<in> set [''lookup_threat_intel'', ''query_netflow'']
             then check_ssrf fr params else Inr None) (\<lambda>r2.
     case r2 of Some r \<Rightarrow> Inr r | None \<Rightarrow>
       (case dict_get params ''hours_back'' (JInt 0) of
          JInt h \<Rightarrow> Inr (if h > 8760
            then (False, ''hours_back='' @ show_int h @ '' exceeds maximum (8760h)'') else (True, ''ok''))
        | _ \<Rightarrow> Inr (True, ''ok''))))"

subsection \<open>output_filter.py\<close>

definition PASSWORD_RE :: re where
  "PASSWORD_RE = re_seqs
     [RGroup (re_alts [re_ilit ''password'', re_ilit ''passwd'', re_ilit ''pwd'', re_ilit ''secret'',
        re_ilit ''token'',
        re_seqs [re_ilit ''api'', re_opt (RChar (\<lambda>c. c \<in> {CHR ''_'', CHR ''-''})), re_ilit ''key'']]),
      re_star (RChar is_space), RChar (\<lambda>c. c \<in> {CHR ''='', CHR '':''}), re_star (RChar is_space),
      re_plus (RChar (\<lambda>c. \<not> is_space c))]"

definition CREDIT_CARD_RE :: re where
  "CREDIT_CARD_RE = re_seqs
     [RWordB,
      RRep 13 (Some 16) True
        (RSeq (RChar digit_char) (re_opt (RChar (\<lambda>c. c \<in> {CHR '' '', CHR ''-''})))),
      RWordB]"

definition scrub_string :: "string \<Rightarrow> string" where
  "scrub_string value =
     (let value = re_sub PASSWORD_RE (\<lambda>g. (case g of None \<Rightarrow> [] | Some s \<Rightarrow> s) @ ''=***REDACTED***'') value
      in re_sub CREDIT_CARD_RE (\<lambda>g. ''***CC_REDACTED***'') value)"

definition scrub_verdict_for_log :: "(rat \<Rightarrow> string) \<Rightarrow> jdict \<Rightarrow> jdict" where
  "scrub_verdict_for_log fr verdict_dict =
     (let cleaned = filter (\<lambda>(k, v). k \<noteq> ''raw_tool_outputs'') verdict_dict in
      if has_key cleaned ''triage_summary''
      then AList.update ''triage_summary''
        (JStr (scrub_string (py_str fr (dict_get cleaned ''triage_summary'' JNull)))) cleaned
      else cleaned)"

subsection \<open>What the guard guarantees\<close>

lemmas re_eval = re_search_def re_at_def re_sub_def at_boundary_def word_char_def digit_char_def
  alpha_char_def lower_char_def re_star_def not_newline_def

lemma redacted_clean: "re_search INJECTION_RE ''[REDACTED]'' = None"
  by (simp add: INJECTION_RE_def re_eval)

lemma sanitise_string_clean: "re_search INJECTION_RE (sanitise_string s) = None"
  by (simp add: sanitise_string_def Let_def redacted_clean)

lemma sanitise_payload_deep: "d \<le> 5 \<Longrightarrow> sanitise_payload d p = map (\<lambda>kv. (fst kv, sanitise_value d (snd kv))) p"
  by (subst sanitise_payload.simps) simp

lemma sanitised_keys: "map fst (sanitise_payload d p) = map fst p"
  by (subst sanitise_payload.simps) (simp add: comp_def)

lemma sanitised_member:
  assumes "(k, v) \<in> set (sanitise_payload d p)" "d \<le> 5"
  obtains u where "(k, u) \<in> set p" "v = sanitise_value d u"
  using assms by (auto simp: sanitise_payload_deep)

lemma sanitise_value_JStr: "sanitise_value d u = JStr s \<Longrightarrow> \<exists>t. u = JStr t \<and> s = sanitise_string t"
  by (subst (asm) sanitise_value.simps) (auto split: json.splits)

lemma sanitise_value_JDict:
  "sanitise_value d u = JDict m \<Longrightarrow> \<exists>m'. u = JDict m' \<and> m = sanitise_payload (d + 1) m'"
  by (subst (asm) sanitise_value.simps) (auto split: json.splits)

lemma sanitise_value_JList:
  "sanitise_value d u = JList vs \<Longrightarrow> \<exists>us. u = JList us \<and> vs = map (sanitise_item d) us"
  by (subst (asm) sanitise_value.simps) (auto split: json.splits)

lemma sanitise_item_JStr: "sanitise_item d u = JStr s \<Longrightarrow> \<exists>t. u = JStr t \<and> s = sanitise_string t"
  by (subst (asm) sanitise_item.simps) (auto split: json.splits)

lemma sanitise_item_JDict:
  "sanitise_item d u = JDict m \<Longrightarrow> \<exists>m'. u = JDict m' \<and> m = sanitise_payload (d + 1) m'"
  by (subst (asm) sanitise_item.simps) (auto split: json.splits)

text \<open>
  The strings the guard looks at: values of keys, elements of lists, and those of nested
  dictionaries, down to depth five. Lists inside lists are not looked at.
\<close>

inductive guarded :: "nat \<Rightarrow> jdict \<Rightarrow> string \<Rightarrow> bool" where
  guarded_str: "(k, JStr s) \<in> set p \<Longrightarrow> d \<le> 5 \<Longrightarrow> guarded d p s"
| guarded_dict: "(k, JDict m) \<in> set p \<Longrightarrow> d \<le> 5 \<Longrightarrow> guarded (d + 1) m s \<Longrightarrow> guarded d p s"
| guarded_item: "(k, JList vs) \<in> set p \<Longrightarrow> JStr s \<in> set vs \<Longrightarrow> d \<le> 5 \<Longrightarrow> guarded d p s"
| guarded_item_dict: "(k, JList vs) \<in> set p \<Longrightarrow> JDict m \<in> set vs \<Longrightarrow> d \<le> 5 \<Longrightarrow> guarded (d + 1) m s
    \<Longrightarrow> guarded d p s"

lemma guarded_clean:
  "guarded d q s \<Longrightarrow> q = sanitise_payload d p \<Longrightarrow> re_search INJECTION_RE s = None"
proof (induction arbitrary: p rule: guarded.induct)
  case (guarded_str k s q d)
  then show ?case
    by (metis sanitise_string_clean sanitise_value_JStr sanitised_member)
next
  case (guarded_dict k m q d s)
  then obtain u where "JDict m = sanitise_value d u" by (metis sanitised_member)
  then show ?case using guarded_dict.IH sanitise_value_JDict by metis
next
  case (guarded_item k vs q s d)
  then obtain u where "JList vs = sanitise_value d u" by (metis sanitised_member)
  then obtain us where "vs = map (sanitise_item d) us" using sanitise_value_JList by metis
  then obtain x where "JStr s = sanitise_item d x" using guarded_item.hyps(2) by auto
  then show ?case using sanitise_item_JStr sanitise_string_clean by metis
next
  case (guarded_item_dict k vs q m d s)
  then obtain u where "JList vs = sanitise_value d u" by (metis sanitised_member)
  then obtain us where "vs = map (sanitise_item d) us" using sanitise_value_JList by metis
  then obtain x where "JDict m = sanitise_item d x" using guarded_item_dict.hyps(2) by auto
  then show ?case using sanitise_item_JDict guarded_item_dict.IH by metis
qed

text \<open>
  C29. No string the input guard looks at matches the injection pattern once a payload has been
  sanitised, at whatever of the six levels it stands; and sanitising neither adds, drops nor
  reorders keys.
\<close>

theorem sanitised_payload_clean:
  assumes "guarded 0 (sanitise_payload 0 p) s"
  shows "re_search INJECTION_RE s = None \<and> map fst (sanitise_payload 0 p) = map fst p"
  using guarded_clean [OF assms refl] by (simp add: sanitised_keys)

text \<open>A payload whose nested title is an injection: the guard looks at what replaces it.\<close>

definition demo_payload :: jdict where
  "demo_payload = [(''event'', JDict [(''title'', JStr ''DROP x TABLE'')])]"

theorem sanitised_payload_clean_witness:
  "guarded 0 (sanitise_payload 0 demo_payload) (sanitise_string ''DROP x TABLE'')
   \<and> re_search INJECTION_RE (sanitise_string ''DROP x TABLE'') = None
   \<and> map fst (sanitise_payload 0 demo_payload) = map fst demo_payload"
proof -
  let ?q = "[(''title'', JStr (sanitise_string ''DROP x TABLE''))]"
  have s: "sanitise_payload 0 demo_payload = [(''event'', JDict ?q)]"
    by (simp add: demo_payload_def sanitise_payload.simps sanitise_value.simps)
  have g: "guarded 0 (sanitise_payload 0 demo_payload) (sanitise_string ''DROP x TABLE'')"
    unfolding s by (rule guarded_dict [of "''event''" ?q]) (auto intro: guarded_str [of "''title''"])
  from g sanitised_payload_clean [OF g] show ?thesis by simp
qed

subsection \<open>What the filters guarantee\<close>

text \<open>A verdict that leaves the service has no raw tool output, and its other fields are kept.\<close>

lemma scrubbed_verdict:
  "\<not> has_key (scrub_verdict_for_log fr d) ''raw_tool_outputs''"
  "k \<noteq> ''raw_tool_outputs'' \<Longrightarrow> k \<noteq> ''triage_summary'' \<Longrightarrow>
     map_of (scrub_verdict_for_log fr d) k = map_of d k"
proof -
  have *: "\<not> has_key (filter (\<lambda>(k, v). k \<noteq> ''raw_tool_outputs'') d) ''raw_tool_outputs''"
    by (auto simp: has_key_def)
  then show "\<not> has_key (scrub_verdict_for_log fr d) ''raw_tool_outputs''"
    by (auto simp: scrub_verdict_for_log_def Let_def has_key_def dom_update dest!: image_eqI)
next
  assume "k \<noteq> ''raw_tool_outputs''" "k \<noteq> ''triage_summary''"
  moreover from this have "map_of (filter (\<lambda>(k, v). k \<noteq> ''raw_tool_outputs'') d) k = map_of d k"
    by (induction d) auto
  ultimately show "map_of (scrub_verdict_for_log fr d) k = map_of d k"
    by (simp add: scrub_verdict_for_log_def Let_def update_conv)
qed

lemma safe_hours: "validate_tool_params fr n p = Inr (True, m) \<Longrightarrow> dict_get p ''hours_back'' (JInt 0) = JInt h
    \<Longrightarrow> h \<le> 8760"
  by (auto simp: validate_tool_params_def bind_r_def check_raw_spl_def check_ssrf_def Let_def
      split: sum.splits option.splits json.splits if_splits)

end
