(* ===== verification/Alert_Persistence.thy ===== *)
theory Alert_Persistence
  imports Json Redis_Port Schemas Demo_World
begin

section \<open>services/alert_persistence.py: alerts, verdicts and job status\<close>

text \<open>
  The store the API keeps alerts, verdicts and job states in: Redis when it is enabled, dictionaries
  of the process otherwise. The store is a record that every operation returns; with Redis the
  record stays as it is. The texts of alerts and verdicts in Redis are pydantic's
  (\<open>model_dump_json\<close>, \<open>model_validate_json\<close>): the parameter \<open>codec\<close>, of which \<open>codec_ok\<close> says that
  it reads back what it wrote. A job state read from Redis is whatever JSON stands there.
\<close>

definition KEY_ALERT :: string where
  "KEY_ALERT = ''soc:alert:''"

definition KEY_VERDICT :: string where
  "KEY_VERDICT = ''soc:verdict:''"

definition KEY_JOB :: string where
  "KEY_JOB = ''soc:job:''"

record codec =
  dump_alert :: "normalized_alert \<Rightarrow> string"
  load_alert :: "string \<Rightarrow> exn + normalized_alert"
  dump_verdict :: "triage_verdict \<Rightarrow> string"
  load_verdict :: "string \<Rightarrow> exn + triage_verdict"

record 'w alert_persistence =
  ap_enabled :: bool
  ap_redis :: "'w redis option"
  ap_alerts :: "(string \<times> normalized_alert) list"
  ap_verdicts :: "(string \<times> triage_verdict) list"
  ap_jobs :: "(string \<times> json) list"

definition AlertPersistence_init ::
    "(string \<Rightarrow> exn + 'w redis) \<Rightarrow> string \<Rightarrow> bool \<Rightarrow> 'w alert_persistence" where
  "AlertPersistence_init from_url redis_url enabled =
     (let off = \<lparr>ap_enabled = enabled, ap_redis = None, ap_alerts = [], ap_verdicts = [], ap_jobs = []\<rparr>
      in if \<not> enabled then off
         else (case from_url redis_url of
             Inl exc \<Rightarrow> off\<lparr>ap_enabled := False\<rparr>
           | Inr client \<Rightarrow> off\<lparr>ap_redis := Some client\<rparr>))"

text \<open>What \<open>get_alert_persistence\<close> creates from the settings, once.\<close>

definition persistence_of_settings ::
    "(string \<Rightarrow> exn + 'w redis) \<Rightarrow> bool \<Rightarrow> string \<Rightarrow> 'w alert_persistence" where
  "persistence_of_settings from_url verdict_persistence_enabled redis_url =
     AlertPersistence_init from_url redis_url (verdict_persistence_enabled \<and> redis_url \<noteq> [])"

subsection \<open>Writing\<close>

definition put_alert :: "codec \<Rightarrow> 'w alert_persistence \<Rightarrow> normalized_alert
    \<Rightarrow> ('w, 'w alert_persistence) io" where
  "put_alert co ap alert =
     (case ap_redis ap of
        Some client \<Rightarrow>
          bind_io (rd_set client (KEY_ALERT @ na_alert_id alert) (dump_alert co alert)) (\<lambda>_. ret_io ap)
      | None \<Rightarrow> ret_io (ap\<lparr>ap_alerts := AList.update (na_alert_id alert) alert (ap_alerts ap)\<rparr>))"

definition put_verdict :: "codec \<Rightarrow> 'w alert_persistence \<Rightarrow> string \<Rightarrow> triage_verdict
    \<Rightarrow> ('w, 'w alert_persistence) io" where
  "put_verdict co ap alert_id verdict =
     (case ap_redis ap of
        Some client \<Rightarrow>
          bind_io (rd_set client (KEY_VERDICT @ alert_id) (dump_verdict co verdict)) (\<lambda>_. ret_io ap)
      | None \<Rightarrow> ret_io (ap\<lparr>ap_verdicts := AList.update alert_id verdict (ap_verdicts ap)\<rparr>))"

definition job_record :: "string \<Rightarrow> string option \<Rightarrow> json" where
  "job_record status error = JDict [(''status'', JStr status), (''error'', json_opt error)]"

definition set_job :: "pylib \<Rightarrow> 'w alert_persistence \<Rightarrow> string \<Rightarrow> string \<Rightarrow> string option
    \<Rightarrow> ('w, 'w alert_persistence) io" where
  "set_job lib ap alert_id status error =
     (case ap_redis ap of
        Some client \<Rightarrow>
          bind_io (rd_set client (KEY_JOB @ alert_id) (json_dumps lib (job_record status error)))
            (\<lambda>_. ret_io ap)
      | None \<Rightarrow> ret_io (ap\<lparr>ap_jobs := AList.update alert_id (job_record status error) (ap_jobs ap)\<rparr>))"

subsection \<open>Reading\<close>

text \<open>A value read from Redis: nothing for a missing key or an empty text.\<close>

definition read_key :: "'w redis \<Rightarrow> string \<Rightarrow> (string \<Rightarrow> exn + 'a) \<Rightarrow> ('w, 'a option) io" where
  "read_key client key load =
     bind_io (rd_get client key) (\<lambda>raw.
     case raw of
       None \<Rightarrow> ret_io None
     | Some s \<Rightarrow>
         if s = [] then ret_io None
         else bind_io (of_result (load s)) (\<lambda>v. ret_io (Some v)))"

definition get_alert :: "codec \<Rightarrow> 'w alert_persistence \<Rightarrow> string \<Rightarrow> ('w, normalized_alert option) io" where
  "get_alert co ap alert_id =
     (case ap_redis ap of
        Some client \<Rightarrow> read_key client (KEY_ALERT @ alert_id) (load_alert co)
      | None \<Rightarrow> ret_io (map_of (ap_alerts ap) alert_id))"

definition get_verdict :: "codec \<Rightarrow> 'w alert_persistence \<Rightarrow> string \<Rightarrow> ('w, triage_verdict option) io" where
  "get_verdict co ap alert_id =
     (case ap_redis ap of
        Some client \<Rightarrow> read_key client (KEY_VERDICT @ alert_id) (load_verdict co)
      | None \<Rightarrow> ret_io (map_of (ap_verdicts ap) alert_id))"

definition get_job :: "pylib \<Rightarrow> 'w alert_persistence \<Rightarrow> string \<Rightarrow> ('w, json option) io" where
  "get_job lib ap alert_id =
     (case ap_redis ap of
        Some client \<Rightarrow> read_key client (KEY_JOB @ alert_id) (json_loads lib)
      | None \<Rightarrow> ret_io (map_of (ap_jobs ap) alert_id))"

definition store_sizes :: "'w alert_persistence \<Rightarrow> jdict" where
  "store_sizes ap =
     (case ap_redis ap of
        Some client \<Rightarrow>
          [(''verdict_count'', JInt (-1)), (''alert_count'', JInt (-1)), (''backend'', JStr ''redis'')]
      | None \<Rightarrow>
          [(''verdict_count'', JInt (int (length (ap_verdicts ap)))),
           (''alert_count'', JInt (int (length (ap_alerts ap)))), (''backend'', JStr ''memory'')])"

subsection \<open>The contract of a keyed store\<close>

locale keyed_store =
  fixes put :: "'s \<Rightarrow> string \<Rightarrow> 'v \<Rightarrow> 's" and look :: "'s \<Rightarrow> string \<Rightarrow> 'v option"
  assumes look_put: "look (put s k v) k' = (if k' = k then Some v else look s k')"
begin

lemma look_same [simp]: "look (put s k v) k = Some v"
  by (simp add: look_put)

lemma look_other [simp]: "k' \<noteq> k \<Longrightarrow> look (put s k v) k' = look s k'"
  by (simp add: look_put)

text \<open>After a series of writes a key has the last value written under it.\<close>

lemma last_write_wins:
  "look (foldl (\<lambda>s kv. put s (fst kv) (snd kv)) s kvs) k =
     (case map_of (rev kvs) k of None \<Rightarrow> look s k | Some v \<Rightarrow> Some v)"
  by (induction kvs arbitrary: s) (auto simp: look_put map_add_def split: option.splits)

end

interpretation mem_dict: keyed_store "\<lambda>s k v. AList.update k v s" map_of
  by unfold_locales (simp add: update_conv)

interpretation redis_dict: keyed_store "\<lambda>(m :: kv) k v. m(prefix @ k \<mapsto> v)" "\<lambda>m k. m (prefix @ k)"
  for prefix
  by unfold_locales simp

subsection \<open>Redis refines the dictionaries\<close>

definition codec_ok :: "codec \<Rightarrow> bool" where
  "codec_ok co \<longleftrightarrow> (\<forall>a. dump_alert co a \<noteq> [] \<and> load_alert co (dump_alert co a) = Inr a)
     \<and> (\<forall>v. dump_verdict co v \<noteq> [] \<and> load_verdict co (dump_verdict co v) = Inr v)"

definition jobs_ok :: "pylib \<Rightarrow> bool" where
  "jobs_ok lib \<longleftrightarrow> (\<forall>s e. json_dumps lib (job_record s e) \<noteq> []
     \<and> json_loads lib (json_dumps lib (job_record s e)) = Inr (job_record s e))"

text \<open>A view of Redis and the dictionaries that hold the same alerts, verdicts and jobs.\<close>

definition same_store :: "pylib \<Rightarrow> codec \<Rightarrow> kv \<Rightarrow> 'w alert_persistence \<Rightarrow> bool" where
  "same_store lib co m ap \<longleftrightarrow> (\<forall>i.
     m (KEY_ALERT @ i) = map_option (dump_alert co) (map_of (ap_alerts ap) i)
     \<and> m (KEY_VERDICT @ i) = map_option (dump_verdict co) (map_of (ap_verdicts ap) i)
     \<and> m (KEY_JOB @ i) = map_option (json_dumps lib) (map_of (ap_jobs ap) i)
     \<and> (\<forall>j. map_of (ap_jobs ap) i = Some j \<longrightarrow> (\<exists>s e. j = job_record s e)))"

datatype store_op =
    Put_Alert normalized_alert
  | Put_Verdict string triage_verdict
  | Set_Job string string "string option"

fun store_run :: "pylib \<Rightarrow> codec \<Rightarrow> store_op list \<Rightarrow> 'w alert_persistence \<Rightarrow> ('w, 'w alert_persistence) io" where
  "store_run lib co [] ap = ret_io ap"
| "store_run lib co (Put_Alert a # ops) ap = bind_io (put_alert co ap a) (store_run lib co ops)"
| "store_run lib co (Put_Verdict i v # ops) ap = bind_io (put_verdict co ap i v) (store_run lib co ops)"
| "store_run lib co (Set_Job i s e # ops) ap = bind_io (set_job lib ap i s e) (store_run lib co ops)"

lemma store_keys_distinct [simp]:
  "KEY_ALERT @ i \<noteq> KEY_VERDICT @ j" "KEY_VERDICT @ i \<noteq> KEY_ALERT @ j"
  "KEY_ALERT @ i \<noteq> KEY_JOB @ j" "KEY_JOB @ i \<noteq> KEY_ALERT @ j"
  "KEY_VERDICT @ i \<noteq> KEY_JOB @ j" "KEY_JOB @ i \<noteq> KEY_VERDICT @ j"
  by (simp_all add: KEY_ALERT_def KEY_VERDICT_def KEY_JOB_def)

lemma same_store_put:
  assumes "same_store lib co m ap"
  shows "same_store lib co (m(KEY_ALERT @ i \<mapsto> dump_alert co a)) (ap\<lparr>ap_alerts := AList.update i a (ap_alerts ap)\<rparr>)"
    and "same_store lib co (m(KEY_VERDICT @ i \<mapsto> dump_verdict co v)) (ap\<lparr>ap_verdicts := AList.update i v (ap_verdicts ap)\<rparr>)"
    and "same_store lib co (m(KEY_JOB @ i \<mapsto> json_dumps lib (job_record s e)))
      (ap\<lparr>ap_jobs := AList.update i (job_record s e) (ap_jobs ap)\<rparr>)"
  using assms by (auto simp: same_store_def update_conv)

lemma store_run_simulates:
  assumes "redis_ok r kv p" "redis_up r" "ap_redis rp = Some r"
  shows "same_store lib co (kv w) mp \<Longrightarrow> ap_redis mp = None \<Longrightarrow>
    \<exists>w' mp'. store_run lib co ops rp w = (Inr rp, w') \<and> store_run lib co ops mp v = (Inr mp', v)
      \<and> ap_redis mp' = None \<and> same_store lib co (kv w') mp'"
proof (induction ops arbitrary: w mp)
  case Nil
  then show ?case by simp
next
  case (Cons x ops)
  have set_w: "\<exists>w1. rd_set r k s w = (Inr (), w1) \<and> kv w1 = (kv w)(k \<mapsto> s)" for k s
    using redis_upE(7) [OF assms(2)] rd_set_Inr [OF assms(1)] by (metis no_raise_def old.unit.exhaust)
  show ?case
  proof (cases x)
    case (Put_Alert a)
    obtain w1 where step: "rd_set r (KEY_ALERT @ na_alert_id a) (dump_alert co a) w = (Inr (), w1)"
      and k1: "kv w1 = (kv w)(KEY_ALERT @ na_alert_id a \<mapsto> dump_alert co a)" using set_w by blast
    have same: "same_store lib co (kv w1) (mp\<lparr>ap_alerts := AList.update (na_alert_id a) a (ap_alerts mp)\<rparr>)"
      unfolding k1 by (rule same_store_put(1) [OF Cons.prems(1)])
    from Cons.IH [OF same] Cons.prems(2) have "\<exists>w' mp'. store_run lib co ops rp w1 = (Inr rp, w')
      \<and> store_run lib co ops (mp\<lparr>ap_alerts := AList.update (na_alert_id a) a (ap_alerts mp)\<rparr>) v = (Inr mp', v)
      \<and> ap_redis mp' = None \<and> same_store lib co (kv w') mp'" by simp
    with Put_Alert step Cons.prems(2) assms(3) show ?thesis by (simp add: put_alert_def)
  next
    case (Put_Verdict i vd)
    obtain w1 where step: "rd_set r (KEY_VERDICT @ i) (dump_verdict co vd) w = (Inr (), w1)"
      and k1: "kv w1 = (kv w)(KEY_VERDICT @ i \<mapsto> dump_verdict co vd)" using set_w by blast
    have same: "same_store lib co (kv w1) (mp\<lparr>ap_verdicts := AList.update i vd (ap_verdicts mp)\<rparr>)"
      unfolding k1 by (rule same_store_put(2) [OF Cons.prems(1)])
    from Cons.IH [OF same] Cons.prems(2) have "\<exists>w' mp'. store_run lib co ops rp w1 = (Inr rp, w')
      \<and> store_run lib co ops (mp\<lparr>ap_verdicts := AList.update i vd (ap_verdicts mp)\<rparr>) v = (Inr mp', v)
      \<and> ap_redis mp' = None \<and> same_store lib co (kv w') mp'" by simp
    with Put_Verdict step Cons.prems(2) assms(3) show ?thesis by (simp add: put_verdict_def)
  next
    case (Set_Job i s e)
    obtain w1 where step: "rd_set r (KEY_JOB @ i) (json_dumps lib (job_record s e)) w = (Inr (), w1)"
      and k1: "kv w1 = (kv w)(KEY_JOB @ i \<mapsto> json_dumps lib (job_record s e))" using set_w by blast
    have same: "same_store lib co (kv w1) (mp\<lparr>ap_jobs := AList.update i (job_record s e) (ap_jobs mp)\<rparr>)"
      unfolding k1 by (rule same_store_put(3) [OF Cons.prems(1)])
    from Cons.IH [OF same] Cons.prems(2) have "\<exists>w' mp'. store_run lib co ops rp w1 = (Inr rp, w')
      \<and> store_run lib co ops (mp\<lparr>ap_jobs := AList.update i (job_record s e) (ap_jobs mp)\<rparr>) v = (Inr mp', v)
      \<and> ap_redis mp' = None \<and> same_store lib co (kv w') mp'" by simp
    with Set_Job step Cons.prems(2) assms(3) show ?thesis by (simp add: set_job_def)
  qed
qed

lemma read_key_stored:
  assumes "redis_ok r kv p" "redis_up r" "kv w k = map_option dump v"
    and "\<And>x. v = Some x \<Longrightarrow> dump x \<noteq> [] \<and> load (dump x) = Inr x"
  shows "fst (read_key r k load w) = Inr v"
proof -
  obtain x w1 where g: "rd_get r k w = (Inr x, w1)" using redis_upE(1) [OF assms(2)] by (rule no_raiseE)
  with rd_get_Inr [OF assms(1) g] assms(3,4) show ?thesis by (cases v) (auto simp: read_key_def)
qed

lemma same_store_reads:
  assumes "redis_ok r kv p" "redis_up r" "ap_redis rp = Some r" "codec_ok co" "jobs_ok lib"
    and "same_store lib co (kv w) mp" "ap_redis mp = None"
  shows "fst (get_alert co rp i w) = fst (get_alert co mp i v)"
    and "fst (get_verdict co rp i w) = fst (get_verdict co mp i v)"
    and "fst (get_job lib rp i w) = fst (get_job lib mp i v)"
proof -
  note rd = read_key_stored [OF assms(1,2)]
  show "fst (get_alert co rp i w) = fst (get_alert co mp i v)"
    using assms by (simp add: get_alert_def rd [of w _ "dump_alert co"] same_store_def codec_ok_def)
  show "fst (get_verdict co rp i w) = fst (get_verdict co mp i v)"
    using assms by (simp add: get_verdict_def rd [of w _ "dump_verdict co"] same_store_def codec_ok_def)
  have "fst (read_key r (KEY_JOB @ i) (json_loads lib) w) = Inr (map_of (ap_jobs mp) i)"
  proof (rule rd [of w _ "json_dumps lib"])
    show "kv w (KEY_JOB @ i) = map_option (json_dumps lib) (map_of (ap_jobs mp) i)"
      using assms(6) by (simp add: same_store_def)
    fix j
    assume "map_of (ap_jobs mp) i = Some j"
    with assms(6) obtain s e where "j = job_record s e" unfolding same_store_def by blast
    with assms(5) show "json_dumps lib j \<noteq> [] \<and> json_loads lib (json_dumps lib j) = Inr j"
      by (simp add: jobs_ok_def)
  qed
  then show "fst (get_job lib rp i w) = fst (get_job lib mp i v)"
    using assms by (simp add: get_job_def)
qed

subsection \<open>What a write leaves behind, in either mode\<close>

definition store_ok :: "('w \<Rightarrow> kv) \<Rightarrow> (string \<Rightarrow> int) \<Rightarrow> 'w alert_persistence \<Rightarrow> bool" where
  "store_ok kv p ap \<longleftrightarrow> (\<forall>r. ap_redis ap = Some r \<longrightarrow> redis_ok r kv p \<and> redis_up r)"

definition holds_alert :: "('w \<Rightarrow> kv) \<Rightarrow> codec \<Rightarrow> 'w alert_persistence \<Rightarrow> 'w \<Rightarrow> normalized_alert \<Rightarrow> bool" where
  "holds_alert kv co ap w a \<longleftrightarrow>
     (case ap_redis ap of None \<Rightarrow> map_of (ap_alerts ap) (na_alert_id a) = Some a
      | Some r \<Rightarrow> kv w (KEY_ALERT @ na_alert_id a) = Some (dump_alert co a))"

definition holds_verdict ::
    "('w \<Rightarrow> kv) \<Rightarrow> codec \<Rightarrow> 'w alert_persistence \<Rightarrow> 'w \<Rightarrow> string \<Rightarrow> triage_verdict \<Rightarrow> bool" where
  "holds_verdict kv co ap w i v \<longleftrightarrow>
     (case ap_redis ap of None \<Rightarrow> map_of (ap_verdicts ap) i = Some v
      | Some r \<Rightarrow> kv w (KEY_VERDICT @ i) = Some (dump_verdict co v))"

definition holds_job ::
    "('w \<Rightarrow> kv) \<Rightarrow> pylib \<Rightarrow> 'w alert_persistence \<Rightarrow> 'w \<Rightarrow> string \<Rightarrow> string \<Rightarrow> string option \<Rightarrow> bool" where
  "holds_job kv lib ap w i s e \<longleftrightarrow>
     (case ap_redis ap of None \<Rightarrow> map_of (ap_jobs ap) i = Some (job_record s e)
      | Some r \<Rightarrow> kv w (KEY_JOB @ i) = Some (json_dumps lib (job_record s e)))"

lemmas holds_defs = holds_alert_def holds_verdict_def holds_job_def

lemma rd_set_done:
  assumes "redis_ok r kv p" "redis_up r"
  obtains w1 where "rd_set r k s w = (Inr (), w1)" "kv w1 = (kv w)(k \<mapsto> s)"
  using redis_upE(7) [OF assms(2)] rd_set_Inr [OF assms(1)] by (metis no_raise_def old.unit.exhaust)

lemma put_alert_done:
  assumes "store_ok kv p ap"
  obtains ap' w' where "put_alert co ap a w = (Inr ap', w')" "store_ok kv p ap'" "holds_alert kv co ap' w' a"
proof (cases "ap_redis ap")
  case None
  with assms show ?thesis by (intro that) (auto simp: put_alert_def store_ok_def holds_defs update_conv)
next
  case (Some r)
  with assms obtain w1 where "rd_set r (KEY_ALERT @ na_alert_id a) (dump_alert co a) w = (Inr (), w1)"
    "kv w1 = (kv w)(KEY_ALERT @ na_alert_id a \<mapsto> dump_alert co a)"
    by (meson rd_set_done store_ok_def)
  with Some assms show ?thesis by (intro that [of ap w1]) (auto simp: put_alert_def holds_defs)
qed

lemma put_verdict_done:
  assumes "store_ok kv p ap"
  obtains ap' w' where "put_verdict co ap i v w = (Inr ap', w')" "store_ok kv p ap'" "holds_verdict kv co ap' w' i v"
proof (cases "ap_redis ap")
  case None
  with assms show ?thesis by (intro that) (auto simp: put_verdict_def store_ok_def holds_defs update_conv)
next
  case (Some r)
  with assms obtain w1 where "rd_set r (KEY_VERDICT @ i) (dump_verdict co v) w = (Inr (), w1)"
    "kv w1 = (kv w)(KEY_VERDICT @ i \<mapsto> dump_verdict co v)"
    by (meson rd_set_done store_ok_def)
  with Some assms show ?thesis by (intro that [of ap w1]) (auto simp: put_verdict_def holds_defs)
qed

text \<open>Writing a job state leaves alerts and verdicts in place.\<close>

lemma set_job_done:
  assumes "store_ok kv p ap"
  obtains ap' w' where "set_job lib ap i s e w = (Inr ap', w')" "store_ok kv p ap'" "holds_job kv lib ap' w' i s e"
    "\<And>a. holds_alert kv co ap w a \<Longrightarrow> holds_alert kv co ap' w' a"
    "\<And>j v. holds_verdict kv co ap w j v \<Longrightarrow> holds_verdict kv co ap' w' j v"
proof (cases "ap_redis ap")
  case None
  with assms show ?thesis by (intro that) (auto simp: set_job_def store_ok_def holds_defs update_conv)
next
  case (Some r)
  with assms obtain w1 where "rd_set r (KEY_JOB @ i) (json_dumps lib (job_record s e)) w = (Inr (), w1)"
    "kv w1 = (kv w)(KEY_JOB @ i \<mapsto> json_dumps lib (job_record s e))"
    by (meson rd_set_done store_ok_def)
  with Some assms show ?thesis by (intro that [of ap w1]) (auto simp: set_job_def holds_defs)
qed

text \<open>What is held is what the readers return.\<close>

lemma held_reads:
  assumes "store_ok kv p ap"
  shows "codec_ok co \<Longrightarrow> holds_alert kv co ap w a \<Longrightarrow> fst (get_alert co ap (na_alert_id a) w) = Inr (Some a)"
    and "codec_ok co \<Longrightarrow> holds_verdict kv co ap w i v \<Longrightarrow> fst (get_verdict co ap i w) = Inr (Some v)"
    and "jobs_ok lib \<Longrightarrow> holds_job kv lib ap w i s e \<Longrightarrow> fst (get_job lib ap i w) = Inr (Some (job_record s e))"
proof -
  have rd: "fst (read_key r k load w) = Inr (Some x)"
    if "ap_redis ap = Some r" "kv w k = Some t" "t \<noteq> []" "load t = Inr x" for r k load t x
    using read_key_stored [where dump = "\<lambda>_. t" and v = "Some x"] that assms
    unfolding store_ok_def by fastforce
  show "codec_ok co \<Longrightarrow> holds_alert kv co ap w a \<Longrightarrow> fst (get_alert co ap (na_alert_id a) w) = Inr (Some a)"
    by (cases "ap_redis ap") (auto simp: get_alert_def holds_defs codec_ok_def intro!: rd)
  show "codec_ok co \<Longrightarrow> holds_verdict kv co ap w i v \<Longrightarrow> fst (get_verdict co ap i w) = Inr (Some v)"
    by (cases "ap_redis ap") (auto simp: get_verdict_def holds_defs codec_ok_def intro!: rd)
  show "jobs_ok lib \<Longrightarrow> holds_job kv lib ap w i s e \<Longrightarrow> fst (get_job lib ap i w) = Inr (Some (job_record s e))"
    by (cases "ap_redis ap") (auto simp: get_job_def holds_defs jobs_ok_def intro!: rd)
qed

text \<open>Commands of others that leave the keys of this store alone do not touch what it holds.\<close>

lemma holds_stable:
  assumes "\<And>k. starts_with k ''soc:'' \<Longrightarrow> kv w' k = kv w k"
  shows "holds_alert kv co ap w' a = holds_alert kv co ap w a"
    and "holds_verdict kv co ap w' i v = holds_verdict kv co ap w i v"
    and "holds_job kv lib ap w' i s e = holds_job kv lib ap w i s e"
  using assms by (simp_all add: holds_defs KEY_ALERT_def KEY_VERDICT_def KEY_JOB_def starts_with_def split: option.split)

text \<open>
  C28. The Redis store refines the in-memory one: from stores that hold the same, any series of
  writes succeeds on both and leaves stores in which every alert, verdict and job reads the same.
\<close>

theorem redis_store_refines_memory:
  assumes "redis_ok r kv p" "redis_up r" "codec_ok co" "jobs_ok lib"
    and "ap_redis rp = Some r" "ap_redis mp = None" "same_store lib co (kv w) mp"
  shows "\<exists>w' mp'. store_run lib co ops rp w = (Inr rp, w') \<and> store_run lib co ops mp v = (Inr mp', v)
    \<and> same_store lib co (kv w') mp'
    \<and> (\<forall>i. fst (get_alert co rp i w') = fst (get_alert co mp' i v)
         \<and> fst (get_verdict co rp i w') = fst (get_verdict co mp' i v)
         \<and> fst (get_job lib rp i w') = fst (get_job lib mp' i v))"
  using store_run_simulates [OF assms(1,2,5,7,6)] same_store_reads [OF assms(1,2,5,3,4)] by metis

definition demo_codec :: codec where
  "demo_codec = \<lparr>dump_alert = coded, load_alert = (\<lambda>s. Inr (decoded s)),
     dump_verdict = coded, load_verdict = (\<lambda>s. Inr (decoded s))\<rparr>"

lemma demo_codec_ok: "codec_ok demo_codec"
  by (simp add: codec_ok_def demo_codec_def)

definition demo_store :: "kv redis option \<Rightarrow> kv alert_persistence" where
  "demo_store r = \<lparr>ap_enabled = True, ap_redis = r, ap_alerts = [], ap_verdicts = [], ap_jobs = []\<rparr>"

theorem redis_store_refines_memory_witness:
  "\<exists>w' mp'. store_run coding_lib demo_codec [Put_Alert demo_alert, Set_Job ''a1'' ''queued'' None]
      (demo_store (Some demo_redis)) Map.empty = (Inr (demo_store (Some demo_redis)), w')
    \<and> store_run coding_lib demo_codec [Put_Alert demo_alert, Set_Job ''a1'' ''queued'' None]
      (demo_store None) Map.empty = (Inr mp', Map.empty)
    \<and> same_store coding_lib demo_codec w' mp'
    \<and> (\<forall>i. fst (get_alert demo_codec (demo_store (Some demo_redis)) i w') = fst (get_alert demo_codec mp' i Map.empty)
         \<and> fst (get_verdict demo_codec (demo_store (Some demo_redis)) i w') = fst (get_verdict demo_codec mp' i Map.empty)
         \<and> fst (get_job coding_lib (demo_store (Some demo_redis)) i w') = fst (get_job coding_lib mp' i Map.empty))"
  by (rule redis_store_refines_memory [where kv = "\<lambda>w. w", OF demo_redis_ok demo_redis_up demo_codec_ok])
    (simp_all add: jobs_ok_def same_store_def demo_store_def)

end
