(* ===== verification/Detection_Finding.thy ===== *)
theory Detection_Finding
  imports Schemas "HOL-Library.Sublist"
begin

section \<open>components/detection_finding_builder.py: the OCSF slice of an alert\<close>

text \<open>
  The bounded DetectionFinding envelope built from an alert's fields: title, description, up to nine
  observables, attack context and a piece of evidence. Constructing an observable whose value is
  longer than the schema allows raises \<open>ValidationError\<close>.
\<close>

definition MAX_DESC :: nat where
  "MAX_DESC = 4000"

definition MAX_EVIDENCE :: nat where
  "MAX_EVIDENCE = 8192"

definition trunc :: "string \<Rightarrow> nat \<Rightarrow> string" where
  "trunc s n = (if s = [] then [] else if length s \<le> n then s else take (n - 3) s @ ''...'')"

fun SEVERITY_TO_OCSF_ID :: "severity \<Rightarrow> int" where
  "SEVERITY_TO_OCSF_ID LOW = 2"
| "SEVERITY_TO_OCSF_ID MEDIUM = 3"
| "SEVERITY_TO_OCSF_ID HIGH = 4"
| "SEVERITY_TO_OCSF_ID CRITICAL = 5"

text \<open>\<open>ObservableEntry(type=..., value=...)\<close>, \<open>value\<close> having \<open>max_length=2048\<close>.\<close>

definition observable :: "string \<Rightarrow> string \<Rightarrow> exn + observable_entry" where
  "observable t v =
     (if length v \<le> 2048 then Inr \<lparr>ob_type = t, ob_value = v\<rparr>
      else Inl (ValidationError ''ObservableEntry.value''))"

text \<open>\<open>EvidenceBundle(query_result=...)\<close>, bounded by 8192 characters.\<close>

definition evidence_bundle :: "string option \<Rightarrow> exn + string option" where
  "evidence_bundle q =
     (case q of
        None \<Rightarrow> Inr None
      | Some s \<Rightarrow> if length s \<le> 8192 then Inr (Some s)
                  else Inl (ValidationError ''EvidenceBundle.query_result''))"

text \<open>\<open>FindingInfo(...)\<close>: a severity identifier lies between one and six.\<close>

definition make_finding_info ::
    "string \<Rightarrow> string \<Rightarrow> string option \<Rightarrow> int option \<Rightarrow> exn + finding_info" where
  "make_finding_info title desc product_uid severity_id =
     (case severity_id of
        None \<Rightarrow> Inr \<lparr>fi_title = title, fi_desc = desc, fi_product_uid = product_uid, fi_severity_id = None\<rparr>
      | Some i \<Rightarrow>
          if 1 \<le> i \<and> i \<le> 6
          then Inr \<lparr>fi_title = title, fi_desc = desc, fi_product_uid = product_uid, fi_severity_id = Some i\<rparr>
          else Inl (ValidationError ''FindingInfo.severity_id''))"

text \<open>A field of an alert that is not empty, as an observable of a type.\<close>

definition entry_if :: "string \<Rightarrow> string option \<Rightarrow> (string \<times> string) list" where
  "entry_if t v = (if opt_true v then [(t, the v)] else [])"

definition network_entries :: "network_activity \<Rightarrow> (string \<times> string) list" where
  "network_entries n = entry_if ''IPv4 Address'' (nw_src_ip n) @ entry_if ''IPv4 Address'' (nw_dst_ip n)"

definition user_entries :: "user_activity \<Rightarrow> (string \<times> string) list" where
  "user_entries u =
     (if opt_true (ua_username u)
      then [(''User'', if opt_true (ua_domain u) then the (ua_domain u) @ [char_of (92 :: nat)] @ the (ua_username u)
                       else the (ua_username u))]
      else [])"

definition process_entries :: "process_activity \<Rightarrow> (string \<times> string) list" where
  "process_entries p =
     entry_if ''Process Name'' (pa_process_name p) @ entry_if ''SHA-256 Hash'' (pa_hash_sha256 p)
       @ entry_if ''MD5 Hash'' (pa_hash_md5 p)"

definition observable_candidates :: "normalized_alert \<Rightarrow> (string \<times> string) list" where
  "observable_candidates alert =
     entry_if ''Hostname'' (na_hostname alert) @ entry_if ''Asset Identifier'' (na_asset_id alert)
       @ entry_if ''Cloud Account'' (na_cloud_account_id alert)
       @ (case na_network alert of None \<Rightarrow> [] | Some n \<Rightarrow> network_entries n)
       @ (case na_user alert of None \<Rightarrow> [] | Some u \<Rightarrow> user_entries u)
       @ (case na_process alert of None \<Rightarrow> [] | Some p \<Rightarrow> process_entries p)"

text \<open>The loop that keeps the first of the entries with equal type and value.\<close>

fun dedupe_observables :: "(string \<times> string) list \<Rightarrow> observable_entry list \<Rightarrow> observable_entry list" where
  "dedupe_observables seen [] = []"
| "dedupe_observables seen (o1 # os) =
     (let key = (ob_type o1, ob_value o1) in
      if key \<in> set seen then dedupe_observables seen os
      else o1 # dedupe_observables (key # seen) os)"

definition evidence_text :: "normalized_alert \<Rightarrow> string" where
  "evidence_text alert =
     (let cmd = (case na_process alert of None \<Rightarrow> None | Some p \<Rightarrow> pa_command_line p) in
      if opt_true cmd then the cmd else na_description alert)"

definition build_detection_finding_slice :: "normalized_alert \<Rightarrow> exn + detection_finding_slice" where
  "build_detection_finding_slice alert =
     bind_r (make_finding_info (trunc (na_title alert) 512) (trunc (na_description alert) MAX_DESC)
               (Some (source_value (na_source alert))) (Some (SEVERITY_TO_OCSF_ID (na_severity alert)))) (\<lambda>fi.
     bind_r (map_r (\<lambda>(t, v). observable t v) (observable_candidates alert)) (\<lambda>obs.
     bind_r (let e = trunc (evidence_text alert) MAX_EVIDENCE in
             evidence_bundle (if e = [] then None else Some e)) (\<lambda>evidences.
       Inr \<lparr>df_schema_version = ''1.0.0'', df_finding_info = fi,
            df_observables = dedupe_observables [] obs,
            df_attacks = (if opt_true (na_mitre_tactic alert) \<or> opt_true (na_mitre_technique alert)
              then Some \<lparr>ac_tactic_name = na_mitre_tactic alert, ac_technique_uid = na_mitre_technique alert\<rparr>
              else None),
            df_evidences = Some evidences\<rparr>)))"

definition attach_detection_finding :: "normalized_alert \<Rightarrow> exn + normalized_alert" where
  "attach_detection_finding alert =
     bind_r (build_detection_finding_slice alert) (\<lambda>df.
       Inr (alert\<lparr>na_category_uid := Some 2, na_class_uid := Some 2004, na_detection_finding := Some df\<rparr>))"

subsection \<open>Bounds\<close>

lemma trunc_length: "3 \<le> n \<Longrightarrow> length (trunc s n) \<le> n"
  unfolding trunc_def by auto

text \<open>What the model contexts rely on: every part of the slice is bounded.\<close>

definition slice_bounded :: "detection_finding_slice \<Rightarrow> bool" where
  "slice_bounded df \<longleftrightarrow> length (fi_title (df_finding_info df)) \<le> 512
     \<and> length (fi_desc (df_finding_info df)) \<le> 4000
     \<and> (case fi_severity_id (df_finding_info df) of None \<Rightarrow> True | Some i \<Rightarrow> 1 \<le> i \<and> i \<le> 6)
     \<and> length (df_observables df) \<le> 100
     \<and> list_all (\<lambda>e. length (ob_value e) \<le> 2048) (df_observables df)
     \<and> (case df_evidences df of Some (Some e) \<Rightarrow> length e \<le> 8192 | _ \<Rightarrow> True)"

lemma dedupe_sub: "subseq (dedupe_observables seen os) os"
  by (induction seen os rule: dedupe_observables.induct) (auto simp: Let_def)

lemma dedupe_first:
  "dedupe_observables seen os = filter (\<lambda>e. (ob_type e, ob_value e) \<notin> set seen) (fromkeys os)"
proof (induction seen os rule: dedupe_observables.induct)
  case (2 seen e es)
  have eq: "(ob_type x, ob_value x) = (ob_type e, ob_value e) \<longleftrightarrow> x = e" for x by auto
  show ?case
  proof (cases "(ob_type e, ob_value e) \<in> set seen")
    case True
    then show ?thesis using 2 eq by (auto simp: Let_def filter_filter intro!: filter_cong)
  next
    case False
    then show ?thesis using 2(2) eq by (auto simp: Let_def filter_filter intro!: filter_cong)
  qed
qed simp

lemma dedupe_is_fromkeys: "dedupe_observables [] os = fromkeys os"
  by (simp add: dedupe_first)

lemma map_r_length: "map_r f xs = Inr ys \<Longrightarrow> length ys = length xs"
  by (induction xs arbitrary: ys) (auto simp: bind_r_def split: sum.splits)

lemma map_r_all: "map_r f xs = Inr ys \<Longrightarrow> (\<And>x y. x \<in> set xs \<Longrightarrow> f x = Inr y \<Longrightarrow> P y) \<Longrightarrow> list_all P ys"
proof (induction xs arbitrary: ys)
  case (Cons x xs)
  then obtain y zs where "f x = Inr y" "map_r f xs = Inr zs" "ys = y # zs"
    by (auto simp: bind_r_def split: sum.splits)
  moreover from this Cons.prems(2) have "P y" by (meson list.set_intros(1))
  moreover have "list_all P zs"
    by (rule Cons.IH [OF calculation(2)]) (meson Cons.prems(2) list.set_intros(2))
  ultimately show ?case by simp
qed simp

lemma observable_bounded: "observable t v = Inr e \<Longrightarrow> length (ob_value e) \<le> 2048"
  by (auto simp: observable_def split: if_splits)

lemma candidates_few: "length (observable_candidates alert) \<le> 9"
  by (auto simp: observable_candidates_def entry_if_def network_entries_def user_entries_def
      process_entries_def split: option.splits)

text \<open>The slice that the builder makes is bounded, and names no observable twice.\<close>

lemma built_slice_bounded:
  assumes "build_detection_finding_slice alert = Inr df"
  shows "slice_bounded df \<and> distinct (df_observables df)"
proof -
  obtain fi obs ev where fi: "make_finding_info (trunc (na_title alert) 512) (trunc (na_description alert) MAX_DESC)
      (Some (source_value (na_source alert))) (Some (SEVERITY_TO_OCSF_ID (na_severity alert))) = Inr fi"
    and obs: "map_r (\<lambda>(t, v). observable t v) (observable_candidates alert) = Inr obs"
    and ev: "evidence_bundle (let e = trunc (evidence_text alert) MAX_EVIDENCE in if e = [] then None else Some e) = Inr ev"
    and df: "df_finding_info df = fi" "df_observables df = dedupe_observables [] obs" "df_evidences df = Some ev"
    using assms by (auto simp: build_detection_finding_slice_def bind_r_def Let_def split: sum.splits)
  have "fi_title fi = trunc (na_title alert) 512" "fi_desc fi = trunc (na_description alert) 4000"
    "case fi_severity_id fi of None \<Rightarrow> True | Some i \<Rightarrow> 1 \<le> i \<and> i \<le> 6"
    using fi by (auto simp: make_finding_info_def MAX_DESC_def split: if_splits)
  moreover have "length (dedupe_observables [] obs) \<le> 100"
    using list_emb_length [OF dedupe_sub [of "[]" obs]] map_r_length [OF obs] candidates_few [of alert] by simp
  moreover have "list_all (\<lambda>e. length (ob_value e) \<le> 2048) obs"
    by (rule map_r_all [OF obs]) (auto dest: observable_bounded)
  then have "list_all (\<lambda>e. length (ob_value e) \<le> 2048) (dedupe_observables [] obs)"
    by (simp add: dedupe_is_fromkeys list_all_iff)
  moreover have "case ev of None \<Rightarrow> True | Some e \<Rightarrow> length e \<le> 8192"
    using ev by (auto simp: evidence_bundle_def split: option.splits if_splits)
  ultimately show ?thesis
    using trunc_length [of 512 "na_title alert"] trunc_length [of 4000 "na_description alert"]
    by (auto simp: slice_bounded_def df dedupe_is_fromkeys split: option.splits)
qed

lemma attach_Inr:
  assumes "attach_detection_finding alert = Inr a"
  obtains df where "build_detection_finding_slice alert = Inr df"
    "a = alert\<lparr>na_category_uid := Some 2, na_class_uid := Some 2004, na_detection_finding := Some df\<rparr>"
  using assms by (auto simp: attach_detection_finding_def bind_r_def split: sum.splits)

lemma attached_finding:
  assumes "attach_detection_finding alert = Inr a"
  shows "na_class_uid a = Some 2004 \<and> na_category_uid a = Some 2
    \<and> (\<exists>df. na_detection_finding a = Some df \<and> slice_bounded df)"
proof -
  obtain df where df: "build_detection_finding_slice alert = Inr df"
    and a: "a = alert\<lparr>na_category_uid := Some 2, na_class_uid := Some 2004, na_detection_finding := Some df\<rparr>"
    using assms by (rule attach_Inr)
  from built_slice_bounded [OF df] a show ?thesis by simp
qed

lemma attach_keeps:
  assumes "attach_detection_finding alert = Inr a"
  shows "na_alert_id a = na_alert_id alert" "na_raw_payload a = na_raw_payload alert"
    "na_source a = na_source alert" "na_severity a = na_severity alert"
    "na_coerced_by_llm a = na_coerced_by_llm alert" "na_coercion_trace_id a = na_coercion_trace_id alert"
    "na_tenant_id a = na_tenant_id alert"
proof -
  obtain df where a: "a = alert\<lparr>na_category_uid := Some 2, na_class_uid := Some 2004, na_detection_finding := Some df\<rparr>"
    using assms by (rule attach_Inr)
  show "na_alert_id a = na_alert_id alert" "na_raw_payload a = na_raw_payload alert"
    "na_source a = na_source alert" "na_severity a = na_severity alert"
    "na_coerced_by_llm a = na_coerced_by_llm alert" "na_coercion_trace_id a = na_coercion_trace_id alert"
    "na_tenant_id a = na_tenant_id alert"
    by (simp_all add: a)
qed

end
