(* ===== verification/Py_Values.thy ===== *)
theory Py_Values
  imports Json Redis_Port
begin

section \<open>Python operations on values of unknown shape\<close>

text \<open>
  What parsers of vendor payloads and connectors do with the JSON they got: conversion to numbers,
  comparison, subscripts, the values of a dictionary, sets of values. Each raises where Python
  raises, so that every failure of an unexpected shape is a branch of the model.
\<close>

text \<open>\<open>int(val)\<close>.\<close>

fun to_int :: "json \<Rightarrow> exn + int" where
  "to_int (JInt i) = Inr i"
| "to_int (JBool b) = Inr (if b then 1 else 0)"
| "to_int (JFloat r) = Inr (trunc_rat r)"
| "to_int (JStr s) = py_int s"
| "to_int _ = Inl (TypeError ''int() argument must be a string or a real number'')"

text \<open>A value on which the next operation is \<open>.get(...)\<close>.\<close>

definition as_dict :: "json \<Rightarrow> exn + jdict" where
  "as_dict v = (case v of JDict d \<Rightarrow> Inr d | _ \<Rightarrow> Inl (AttributeError ''get''))"

lemma as_dict_Inr: "as_dict v = Inr d \<longleftrightarrow> v = JDict d"
  by (auto simp: as_dict_def split: json.splits)

definition get1 :: "jdict \<Rightarrow> string \<Rightarrow> json" where
  "get1 d k = dict_get d k JNull"

text \<open>\<open>v[k]\<close> for a string \<open>k\<close>.\<close>

fun item_get :: "json \<Rightarrow> string \<Rightarrow> exn + json" where
  "item_get (JDict d) k = (case map_of d k of None \<Rightarrow> Inl (KeyError k) | Some v \<Rightarrow> Inr v)"
| "item_get (JList xs) k = Inl (TypeError ''list indices must be integers or slices, not str'')"
| "item_get (JStr s) k = Inl (TypeError ''string indices must be integers'')"
| "item_get _ k = Inl (TypeError ''object is not subscriptable'')"

text \<open>The number a value is in arithmetic and comparisons; a boolean is 0 or 1.\<close>

fun num_of :: "json \<Rightarrow> exn + rat" where
  "num_of (JInt i) = Inr (of_int i)"
| "num_of (JFloat r) = Inr r"
| "num_of (JBool b) = Inr (if b then 1 else 0)"
| "num_of _ = Inl (TypeError ''not supported between instances'')"

definition at_least :: "json \<Rightarrow> rat \<Rightarrow> exn + bool" where
  "at_least v n = bind_r (num_of v) (\<lambda>x. Inr (n \<le> x))"

text \<open>\<open>sum(vs)\<close>: an integer as long as no float takes part.\<close>

fun is_float :: "json \<Rightarrow> bool" where
  "is_float (JFloat r) = True"
| "is_float _ = False"

definition py_sum :: "json list \<Rightarrow> exn + json" where
  "py_sum vs =
     bind_r (map_r num_of vs) (\<lambda>xs.
       Inr (if list_ex is_float vs then JFloat (sum_list xs) else JInt \<lfloor>sum_list xs\<rfloor>))"

text \<open>\<open>v.values()\<close>.\<close>

fun dict_values :: "json \<Rightarrow> exn + json list" where
  "dict_values (JDict d) = Inr (map snd d)"
| "dict_values _ = Inl (AttributeError ''values'')"

text \<open>\<open>d.setdefault(k, v)\<close>.\<close>

definition set_default :: "string \<Rightarrow> json \<Rightarrow> jdict \<Rightarrow> jdict" where
  "set_default k v d = (if has_key d k then d else d @ [(k, v)])"

text \<open>
  A set of values, in order of insertion: numbers that compare equal are one element, and a list or
  dictionary cannot be an element.
\<close>

fun hash_key :: "json \<Rightarrow> exn + json" where
  "hash_key (JInt i) = Inr (JFloat (of_int i))"
| "hash_key (JBool b) = Inr (JFloat (if b then 1 else 0))"
| "hash_key (JList xs) = Inl (TypeError ''unhashable type: list'')"
| "hash_key (JDict d) = Inl (TypeError ''unhashable type: dict'')"
| "hash_key v = Inr v"

fun py_set :: "json list \<Rightarrow> json list \<Rightarrow> exn + json list" where
  "py_set seen [] = Inr []"
| "py_set seen (v # vs) =
     bind_r (hash_key v) (\<lambda>k.
       if k \<in> set seen then py_set seen vs
       else bind_r (py_set (k # seen) vs) (\<lambda>rest. Inr (v # rest)))"

end
