(* ===== verification/Alert_Normalizer.thy ===== *)
theory Alert_Normalizer
  imports Detection_Finding Py_Values Demo_World
begin

section \<open>components/alert_normalizer.py: vendor payloads to alerts\<close>

text \<open>
  One parser per vendor, the dispatch, the detection of the vendor and the unwrapping of envelopes.
  A payload is a dictionary of any shape, so every access may raise what Python raises; constructing
  a model checks the types of its fields as pydantic does (text where text is expected; no
  coercion of numbers to text), which raises \<open>ValidationError\<close>. \<open>dates\<close> are the date functions of the
  standard library: \<open>fromisoformat\<close> and \<open>fromtimestamp\<close> (in seconds), both giving the ISO text of a
  time; \<open>fresh\<close> holds what the clock and \<open>uuid4\<close> deliver during one call: the fallback for an
  unreadable time, \<open>ingested_at\<close>, and the default identifier.
\<close>

record dates =
  iso_parse :: "string \<Rightarrow> exn + string"
  from_timestamp :: "rat \<Rightarrow> exn + string"

record fresh =
  fr_now :: string
  fr_ingested_at :: string
  fr_uuid :: string

subsection \<open>Severities\<close>

text \<open>
  The keys \<open>1\<close> to \<open>5\<close> of the Splunk table are found under every value equal to them (\<open>True\<close> and
  \<open>1.0\<close> are equal to \<open>1\<close>); a list or dictionary cannot be looked up.
\<close>

fun severity_word :: "string \<Rightarrow> severity" where
  "severity_word s =
     (if s = ''informational'' then LOW else if s = ''low'' then LOW else if s = ''medium'' then MEDIUM
      else if s = ''high'' then HIGH else if s = ''critical'' then CRITICAL else MEDIUM)"

definition severity_number :: "rat \<Rightarrow> severity" where
  "severity_number r =
     (if r = 1 \<or> r = 2 then LOW else if r = 3 then MEDIUM else if r = 4 then HIGH
      else if r = 5 then CRITICAL else MEDIUM)"

fun splunk_severity :: "json \<Rightarrow> exn + severity" where
  "splunk_severity (JStr s) = Inr (severity_word (str_lower s))"
| "splunk_severity (JInt i) = Inr (severity_number (of_int i))"
| "splunk_severity (JFloat r) = Inr (severity_number r)"
| "splunk_severity (JBool b) = Inr (severity_number (if b then 1 else 0))"
| "splunk_severity JNull = Inr MEDIUM"
| "splunk_severity _ = Inl (TypeError ''unhashable type'')"

definition guardduty_severity :: "rat \<Rightarrow> severity" where
  "guardduty_severity score =
     (if score \<ge> 9 then CRITICAL else if score \<ge> 7 then HIGH else if score \<ge> 4 then MEDIUM else LOW)"

definition ocsf_severity :: "int \<Rightarrow> severity" where
  "ocsf_severity i =
     (if i = 1 \<or> i = 2 then LOW else if i = 3 then MEDIUM else if i = 4 then HIGH
      else if i = 5 \<or> i = 6 then CRITICAL else MEDIUM)"

subsection \<open>Small helpers\<close>

definition stable_alert_id :: "pylib \<Rightarrow> string \<Rightarrow> string \<Rightarrow> string" where
  "stable_alert_id lib source source_id = take 16 (sha256_hex lib (source @ '':'' @ source_id))"

text \<open>\<open>_int_or_none\<close>.\<close>

definition int_or_none :: "json \<Rightarrow> int option" where
  "int_or_none v = (case to_int v of Inl e \<Rightarrow> None | Inr i \<Rightarrow> Some i)"

text \<open>The type check of a \<open>str\<close> field and of a \<open>str | None\<close> field.\<close>

definition str_value :: "json \<Rightarrow> exn + string" where
  "str_value v = (case v of JStr s \<Rightarrow> Inr s | _ \<Rightarrow> Inl (ValidationError ''string_type''))"

definition opt_value :: "json \<Rightarrow> exn + string option" where
  "opt_value v =
     (case v of JNull \<Rightarrow> Inr None | JStr s \<Rightarrow> Inr (Some s) | _ \<Rightarrow> Inl (ValidationError ''string_type''))"

text \<open>\<open>d.get(a) or d.get(b)\<close>.\<close>

definition get_or :: "jdict \<Rightarrow> string \<Rightarrow> string \<Rightarrow> json" where
  "get_or d a b = py_or (get1 d a) (get1 d b)"

definition zulu :: "string \<Rightarrow> string" where
  "zulu s = concat (map (\<lambda>c. if c = CHR ''Z'' then ''+00:00'' else [c]) s)"

definition iso_or_now :: "pylib \<Rightarrow> dates \<Rightarrow> fresh \<Rightarrow> json \<Rightarrow> string" where
  "iso_or_now lib dt f ts_raw =
     (case iso_parse dt (zulu (py_str (float_repr lib) ts_raw)) of Inl e \<Rightarrow> fr_now f | Inr t \<Rightarrow> t)"

definition make_network :: "json \<Rightarrow> json \<Rightarrow> int option \<Rightarrow> int option \<Rightarrow> json \<Rightarrow> exn + network_activity" where
  "make_network src dst sport dport proto =
     bind_r (opt_value src) (\<lambda>src. bind_r (opt_value dst) (\<lambda>dst. bind_r (opt_value proto) (\<lambda>proto.
       Inr \<lparr>nw_src_ip = src, nw_dst_ip = dst, nw_src_port = sport, nw_dst_port = dport,
            nw_protocol = proto, nw_bytes_in = None, nw_bytes_out = None\<rparr>)))"

definition make_process ::
    "json \<Rightarrow> json \<Rightarrow> int option \<Rightarrow> json \<Rightarrow> json \<Rightarrow> json \<Rightarrow> json \<Rightarrow> exn + process_activity" where
  "make_process name path pid parent cmd md5 sha256 =
     bind_r (opt_value name) (\<lambda>name. bind_r (opt_value path) (\<lambda>path. bind_r (opt_value parent) (\<lambda>parent.
     bind_r (opt_value cmd) (\<lambda>cmd. bind_r (opt_value md5) (\<lambda>md5. bind_r (opt_value sha256) (\<lambda>sha256.
       Inr \<lparr>pa_process_name = name, pa_process_path = path, pa_process_id = pid,
            pa_parent_process_name = parent, pa_command_line = cmd, pa_hash_md5 = md5,
            pa_hash_sha256 = sha256\<rparr>))))))"

definition make_user :: "json \<Rightarrow> string option \<Rightarrow> exn + user_activity" where
  "make_user username domain =
     bind_r (opt_value username) (\<lambda>u.
       Inr \<lparr>ua_username = u, ua_domain = domain, ua_uid = None, ua_is_privileged = False,
            ua_auth_protocol = None\<rparr>)"

text \<open>
  \<open>NormalizedAlert(...)\<close> with the fields every parser gives; the others have their defaults.
\<close>

definition make_alert ::
    "fresh \<Rightarrow> string \<Rightarrow> alert_source \<Rightarrow> json \<Rightarrow> json \<Rightarrow> json \<Rightarrow> severity \<Rightarrow> string \<Rightarrow> json \<Rightarrow> json \<Rightarrow> json
      \<Rightarrow> jdict \<Rightarrow> exn + normalized_alert" where
  "make_alert f aid src source_alert_id title desc sev ts hostname tactic technique raw =
     bind_r (opt_value source_alert_id) (\<lambda>sid. bind_r (str_value title) (\<lambda>title.
     bind_r (str_value desc) (\<lambda>desc. bind_r (opt_value hostname) (\<lambda>host.
     bind_r (opt_value tactic) (\<lambda>tac. bind_r (opt_value technique) (\<lambda>tec.
       Inr \<lparr>na_alert_id = aid, na_source = src, na_source_alert_id = sid,
            na_title = title, na_description = desc, na_severity = sev, na_timestamp = ts,
            na_ingested_at = fr_ingested_at f, na_tenant_id = None,
            na_category_uid = None, na_class_uid = None, na_activity_id = None,
            na_hostname = host, na_asset_id = None, na_cloud_region = None,
            na_cloud_account_id = None, na_network = None, na_process = None, na_user = None,
            na_mitre_tactic = tac, na_mitre_technique = tec, na_detection_finding = None,
            na_raw_payload = raw, na_coerced_by_llm = False, na_coercion_trace_id = None\<rparr>))))))"

subsection \<open>Splunk\<close>

definition splunk_network :: "jdict \<Rightarrow> exn + network_activity option" where
  "splunk_network result =
     (if truthy (get1 result ''src_ip'') \<or> truthy (get1 result ''dest_ip'') then
        bind_r (make_network (get_or result ''src_ip'' ''src'') (get_or result ''dest_ip'' ''dest'')
                 (int_or_none (get1 result ''src_port'')) (int_or_none (get1 result ''dest_port''))
                 (get_or result ''transport'' ''protocol'')) (\<lambda>n. Inr (Some n))
      else Inr None)"

definition splunk_process :: "jdict \<Rightarrow> exn + process_activity option" where
  "splunk_process result =
     (if truthy (get1 result ''process_name'') \<or> truthy (get1 result ''process'') then
        bind_r (make_process (get_or result ''process_name'' ''process'') (get1 result ''process_path'')
                 (int_or_none (get_or result ''process_id'' ''pid'')) (get1 result ''parent_process_name'')
                 (get_or result ''cmdline'' ''command_line'') (get_or result ''md5'' ''file_hash'')
                 (get1 result ''sha256'')) (\<lambda>p. Inr (Some p))
      else Inr None)"

text \<open>The backslash separates domain and user; other values than text raise.\<close>

fun split_account :: "json \<Rightarrow> exn + json \<times> string option" where
  "split_account (JStr s) =
     (let bs = (char_of (92 :: nat) :: char) in
      if bs \<in> set s
      then (let parts = split_on bs s in
            Inr (JStr (last parts), if length parts > 1 \<and> hd parts \<noteq> [] then Some (hd parts) else None))
      else Inr (JStr s, None))"
| "split_account v =
     bind_r (value_in [char_of (92 :: nat)] v) (\<lambda>b.
       if b then Inl (AttributeError ''split'') else Inr (v, None))"

definition splunk_user :: "jdict \<Rightarrow> exn + user_activity option" where
  "splunk_user result =
     (if truthy (get1 result ''user'') \<or> truthy (get1 result ''src_user'') then
        bind_r (split_account (get_or result ''user'' ''src_user'')) (\<lambda>(username, domain).
        bind_r (make_user username domain) (\<lambda>u. Inr (Some u)))
      else Inr None)"

definition parse_splunk :: "pylib \<Rightarrow> dates \<Rightarrow> fresh \<Rightarrow> jdict \<Rightarrow> exn + normalized_alert" where
  "parse_splunk lib dt f payload =
     bind_r (as_dict (dict_get payload ''result'' (JDict payload))) (\<lambda>result.
     bind_r (splunk_severity (dict_get result ''urgency'' (dict_get result ''severity'' (JStr ''medium'')))) (\<lambda>sev.
     (let ts = iso_or_now lib dt f (dict_get result ''_time'' (get1 result ''timestamp'')) in
     bind_r (splunk_network result) (\<lambda>network.
     bind_r (splunk_process result) (\<lambda>proc.
     bind_r (splunk_user result) (\<lambda>user.
     (let source_id = py_str (float_repr lib) (dict_get result ''_cd'' (dict_get result ''sid''
            (dict_get result ''search_name'' (JStr [])))) in
     bind_r (make_alert f (stable_alert_id lib ''splunk'' source_id) SPLUNK (JStr source_id)
        (dict_get payload ''search_name'' (dict_get result ''source'' (JStr ''Splunk Alert'')))
        (dict_get result ''message'' (dict_get result ''_raw''
           (JStr (take 500 (json_dumps lib (JDict result))))))
        sev ts (py_or (get_or result ''host'' ''dest_host'') (get1 result ''ComputerName''))
        (get1 result ''mitre_tactic'') (get_or result ''mitre_technique'' ''technique_id'') payload) (\<lambda>alert.
     attach_detection_finding
       (alert\<lparr>na_network := network, na_process := proc, na_user := user\<rparr>)))))))))"

subsection \<open>CrowdStrike\<close>

definition crowdstrike_severity :: "json \<Rightarrow> exn + severity" where
  "crowdstrike_severity raw_sev =
     (case raw_sev of
        JStr s \<Rightarrow> Inr (severity_word (str_lower s))
      | v \<Rightarrow> bind_r (to_int v) (\<lambda>i. Inr (severity_number (of_int i))))"

definition epoch_or_now :: "pylib \<Rightarrow> dates \<Rightarrow> fresh \<Rightarrow> json \<Rightarrow> string" where
  "epoch_or_now lib dt f ts_epoch =
     (case bind_r (as_float lib ts_epoch) (\<lambda>x. from_timestamp dt (x / 1000)) of
        Inl e \<Rightarrow> fr_now f | Inr t \<Rightarrow> t)"

text \<open>The domain: what stands between the first and the second \<open>@\<close> of the principal name.\<close>

fun principal_domain :: "json \<Rightarrow> exn + string option" where
  "principal_domain (JStr s) =
     Inr (if CHR 0x40 \<in> set s then Some (split_on (CHR 0x40) s ! 1) else None)"
| "principal_domain v =
     bind_r (value_in [CHR 0x40] v) (\<lambda>b. if b then Inl (AttributeError ''split'') else Inr None)"

definition crowdstrike_user :: "jdict \<Rightarrow> exn + user_activity option" where
  "crowdstrike_user event =
     (if truthy (get1 event ''UserName'') then
        bind_r (principal_domain (dict_get event ''UserPrincipalName'' (JStr []))) (\<lambda>domain.
        bind_r (make_user (get1 event ''UserName'') domain) (\<lambda>u. Inr (Some u)))
      else Inr None)"

definition crowdstrike_network :: "jdict \<Rightarrow> exn + network_activity option" where
  "crowdstrike_network event =
     (if truthy (get1 event ''RemoteAddress'') then
        bind_r (make_network JNull (get1 event ''RemoteAddress'') None
                 (int_or_none (get1 event ''RemotePort'')) JNull) (\<lambda>n. Inr (Some n))
      else Inr None)"

definition parse_crowdstrike :: "pylib \<Rightarrow> dates \<Rightarrow> fresh \<Rightarrow> jdict \<Rightarrow> exn + normalized_alert" where
  "parse_crowdstrike lib dt f payload =
     bind_r (as_dict (dict_get payload ''event'' (JDict payload))) (\<lambda>event.
     bind_r (crowdstrike_severity (dict_get event ''SeverityName''
               (dict_get event ''Severity'' (JStr ''medium'')))) (\<lambda>sev.
     (let meta = dict_get payload ''metadata'' (JDict []) in
     bind_r (if truthy (get1 event ''ProcessStartTime'') then Inr (get1 event ''ProcessStartTime'')
             else attr_get meta ''eventCreationTime'' (JInt 0)) (\<lambda>ts_epoch.
     bind_r (make_process (get1 event ''FileName'') (get1 event ''FilePath'')
               (int_or_none (get1 event ''TargetProcessId'')) (get1 event ''ParentImageFileName'')
               (get1 event ''CommandLine'') (get1 event ''MD5HashData'') (get1 event ''SHA256HashData'')) (\<lambda>proc.
     bind_r (crowdstrike_user event) (\<lambda>user.
     bind_r (crowdstrike_network event) (\<lambda>network.
     bind_r (attr_get meta ''offset'' (JStr [])) (\<lambda>offset.
     (let detection_id = py_str (float_repr lib) (dict_get event ''DetectionId'' offset) in
     bind_r (make_alert f (stable_alert_id lib ''crowdstrike'' detection_id) CROWDSTRIKE (JStr detection_id)
        (py_or (get1 event ''DetectDescription'')
           (dict_get event ''Technique'' (JStr ''CrowdStrike Detection'')))
        (dict_get event ''DetectDescription'' (JStr ''CrowdStrike Falcon detection''))
        sev (epoch_or_now lib dt f ts_epoch) (get_or event ''ComputerName'' ''Hostname'')
        (get1 event ''Tactic'') (get1 event ''Technique'') payload) (\<lambda>alert.
     attach_detection_finding
       (alert\<lparr>na_process := Some proc, na_user := user, na_network := network\<rparr>)))))))))))"

subsection \<open>GuardDuty\<close>

definition guardduty_network :: "jdict \<Rightarrow> jdict \<Rightarrow> exn + network_activity option" where
  "guardduty_network network_conn remote_ip =
     (if truthy (get1 remote_ip ''ipAddressV4'') then
        bind_r (as_dict (dict_get network_conn ''localPortDetails'' (JDict []))) (\<lambda>port.
        bind_r (make_network (get1 remote_ip ''ipAddressV4'') JNull None (int_or_none (get1 port ''port''))
                 (get1 network_conn ''protocol'')) (\<lambda>n. Inr (Some n)))
      else Inr None)"

definition parse_guardduty :: "pylib \<Rightarrow> dates \<Rightarrow> fresh \<Rightarrow> jdict \<Rightarrow> exn + normalized_alert" where
  "parse_guardduty lib dt f payload =
     bind_r (as_dict (dict_get payload ''detail'' (JDict payload))) (\<lambda>detail.
     bind_r (as_float lib (dict_get detail ''severity'' (JFloat 5))) (\<lambda>sev_score.
     (let ts = iso_or_now lib dt f (py_or (get_or detail ''updatedAt'' ''createdAt'')
                 (dict_get payload ''time'' (JStr []))) in
     bind_r (as_dict (dict_get detail ''resource'' (JDict []))) (\<lambda>resource.
     bind_r (as_dict (dict_get detail ''service'' (JDict []))) (\<lambda>service.
     bind_r (as_dict (dict_get service ''action'' (JDict []))) (\<lambda>action.
     bind_r (as_dict (dict_get action ''networkConnectionAction'' (JDict []))) (\<lambda>network_conn.
     bind_r (as_dict (dict_get network_conn ''remoteIpDetails'' (JDict []))) (\<lambda>remote_ip.
     bind_r (guardduty_network network_conn remote_ip) (\<lambda>network.
     bind_r (as_dict (dict_get resource ''instanceDetails'' (JDict []))) (\<lambda>inst.
     bind_r (make_alert f
        (stable_alert_id lib ''guardduty'' (py_str (float_repr lib) (dict_get detail ''id'' (JStr []))))
        AWS_GUARDDUTY (get1 detail ''id'')
        (dict_get detail ''title'' (JStr ''GuardDuty Finding'')) (dict_get detail ''description'' (JStr []))
        (guardduty_severity sev_score) ts (get1 inst ''instanceId'') JNull (get1 detail ''type'') payload) (\<lambda>alert.
     bind_r (opt_value (py_or (get1 detail ''region'') (get1 payload ''region''))) (\<lambda>region.
     bind_r (opt_value (get1 detail ''accountId'')) (\<lambda>account.
     attach_detection_finding
       (alert\<lparr>na_cloud_region := region, na_cloud_account_id := account, na_network := network\<rparr>))))))))))))))"

subsection \<open>Generic\<close>

definition parse_generic :: "pylib \<Rightarrow> dates \<Rightarrow> fresh \<Rightarrow> jdict \<Rightarrow> exn + normalized_alert" where
  "parse_generic lib dt f payload =
     (let raw_sev = str_lower (py_str (float_repr lib)
            (dict_get payload ''severity'' (dict_get payload ''urgency'' (JStr ''medium''))));
          ts = iso_or_now lib dt f (dict_get payload ''timestamp'' (dict_get payload ''time''
                 (get1 payload ''created_at'')))
      in bind_r (make_alert f (fr_uuid f) GENERIC
          (JStr (py_str (float_repr lib) (dict_get payload ''id'' (dict_get payload ''alert_id'' (JStr [])))))
          (dict_get payload ''title'' (dict_get payload ''name'' (JStr ''Generic Alert'')))
          (dict_get payload ''description'' (dict_get payload ''message''
             (JStr (take 500 (json_dumps lib (JDict payload))))))
          (severity_word raw_sev) ts (dict_get payload ''host'' (get1 payload ''hostname''))
          (get1 payload ''mitre_tactic'') (get1 payload ''mitre_technique'') payload)
        attach_detection_finding)"

subsection \<open>OCSF DetectionFinding\<close>

text \<open>\<open>v == 2004\<close>.\<close>

fun is_2004 :: "json \<Rightarrow> bool" where
  "is_2004 (JInt i) = (i = 2004)"
| "is_2004 (JFloat r) = (r = 2004)"
| "is_2004 _ = False"

definition is_detection_finding_payload :: "jdict \<Rightarrow> bool" where
  "is_detection_finding_payload payload \<longleftrightarrow>
     is_2004 (get1 payload ''class_uid'')
     \<or> (case get1 payload ''metadata'' of JDict meta \<Rightarrow> is_2004 (get1 meta ''class_uid'') | _ \<Rightarrow> False)"

text \<open>\<open>isinstance(v, int)\<close>, which booleans satisfy.\<close>

fun int_value :: "json \<Rightarrow> int option" where
  "int_value (JInt i) = Some i"
| "int_value (JBool b) = Some (if b then 1 else 0)"
| "int_value _ = None"

definition or_empty :: "json \<Rightarrow> json" where
  "or_empty v = py_or v (JDict [])"

definition ocsf_observable :: "pylib \<Rightarrow> json \<Rightarrow> (exn + observable_entry) option" where
  "ocsf_observable lib v =
     (case v of
        JDict d \<Rightarrow>
          if truthy (get1 d ''value'')
          then Some (observable (take 128 (py_str (float_repr lib) (dict_get d ''type'' (JStr ''Unknown''))))
                       (take 2048 (py_str (float_repr lib) (get1 d ''value''))))
          else None
      | _ \<Rightarrow> None)"

definition ocsf_observables :: "pylib \<Rightarrow> jdict \<Rightarrow> exn + observable_entry list" where
  "ocsf_observables lib payload =
     bind_r (slice_to 100 (py_or (get1 payload ''observables'') (JList []))) (\<lambda>vs.
     bind_r (py_iter vs) (\<lambda>items.
       map_r (\<lambda>r. r) (List.map_filter (ocsf_observable lib) items)))"

text \<open>A nested name, or a text under the flat key.\<close>

definition nested_or_flat :: "jdict \<Rightarrow> string \<Rightarrow> string \<Rightarrow> string \<Rightarrow> json" where
  "nested_or_flat atk outer inner flat =
     (case get1 atk outer of
        JDict d \<Rightarrow> get1 d inner
      | _ \<Rightarrow> (case get1 atk flat of JStr s \<Rightarrow> JStr s | _ \<Rightarrow> JNull))"

definition ocsf_source :: "string \<Rightarrow> alert_source" where
  "ocsf_source product_uid =
     (let pl = str_lower product_uid in
      if str_in ''splunk'' pl then SPLUNK
      else if str_in ''crowd'' pl \<or> str_in ''falcon'' pl then CROWDSTRIKE
      else if str_in ''guardduty'' pl \<or> str_in ''aws'' pl then AWS_GUARDDUTY
      else GENERIC)"

definition first_host :: "observable_entry list \<Rightarrow> string option" where
  "first_host obs = map_option ob_value (find (\<lambda>e. str_in ''host'' (str_lower (ob_type e))) obs)"

definition ocsf_evidence :: "pylib \<Rightarrow> json \<Rightarrow> exn + string option" where
  "ocsf_evidence lib ev_in =
     (let qr = (case ev_in of JDict d \<Rightarrow> get1 d ''query_result'' | _ \<Rightarrow> JNull) in
      evidence_bundle (if truthy qr then Some (take 8192 (py_str (float_repr lib) qr)) else None))"

definition ocsf_time :: "pylib \<Rightarrow> dates \<Rightarrow> fresh \<Rightarrow> jdict \<Rightarrow> string" where
  "ocsf_time lib dt f payload =
     (let ts_raw = py_or (get_or payload ''time'' ''created_at'') (get1 payload ''timestamp'') in
      if truthy ts_raw then iso_or_now lib dt f ts_raw else fr_now f)"

definition parse_ocsf :: "pylib \<Rightarrow> dates \<Rightarrow> fresh \<Rightarrow> jdict \<Rightarrow> exn + normalized_alert" where
  "parse_ocsf lib dt f payload =
     (let str = py_str (float_repr lib) in
     bind_r (as_dict (or_empty (get1 payload ''finding_info''))) (\<lambda>fi_in.
     (let title = str (py_or (py_or (get1 fi_in ''title'') (get1 payload ''title'')) (JStr ''Detection Finding''));
          desc = take 4000 (str (py_or (get_or fi_in ''desc'' ''description'')
                   (dict_get payload ''description'' (JStr []))));
          product_uid = str (py_or (py_or (get1 fi_in ''product_uid'') (get1 payload ''product_uid''))
                          (JStr ''generic''));
          sev_id = int_value (get1 fi_in ''severity_id'');
          sev = (case sev_id of Some i \<Rightarrow> ocsf_severity i | None \<Rightarrow> MEDIUM)
      in
     bind_r (ocsf_observables lib payload) (\<lambda>obs.
     bind_r (as_dict (or_empty (get1 payload ''attacks''))) (\<lambda>atk_in.
     (let tactic_name = nested_or_flat atk_in ''tactic'' ''name'' ''tactic_name'';
          technique_uid = nested_or_flat atk_in ''technique'' ''uid'' ''technique_uid'' in
     bind_r (if truthy tactic_name \<or> truthy technique_uid
             then bind_r (opt_value tactic_name) (\<lambda>tac. bind_r (opt_value technique_uid) (\<lambda>tec.
                    Inr (Some \<lparr>ac_tactic_name = tac, ac_technique_uid = tec\<rparr>)))
             else Inr None) (\<lambda>attacks.
     bind_r (ocsf_evidence lib (or_empty (get1 payload ''evidences''))) (\<lambda>evidences.
     bind_r (make_finding_info (take 512 title) desc (Some (take 128 product_uid)) sev_id) (\<lambda>fi.
     (let df = \<lparr>df_schema_version = take 32 (str (dict_get payload ''schema_version'' (JStr ''1.0.0''))),
                df_finding_info = fi, df_observables = obs, df_attacks = attacks,
                df_evidences = (if opt_true evidences then Some evidences else None)\<rparr>;
          aid = str (py_or (get_or payload ''finding_uid'' ''activity_uid'') (dict_get payload ''id'' (JStr [])));
          alert_id = stable_alert_id lib ''ocsf2004''
            (if aid \<noteq> [] then aid else take 200 (json_dumps_sorted lib (JDict payload)))
      in
     bind_r (make_alert f alert_id (ocsf_source product_uid)
               (if aid \<noteq> [] then JStr aid else JNull) (JStr (take 512 title)) (JStr desc) sev
               (ocsf_time lib dt f payload) (json_opt (first_host obs)) tactic_name technique_uid payload) (\<lambda>alert.
       Inr (alert\<lparr>na_category_uid := Some 2, na_class_uid := Some 2004,
                  na_detection_finding := Some df\<rparr>))))))))))))"

subsection \<open>Dispatch and detection\<close>

definition normalize_alert ::
    "pylib \<Rightarrow> dates \<Rightarrow> fresh \<Rightarrow> alert_source \<Rightarrow> jdict \<Rightarrow> exn + normalized_alert" where
  "normalize_alert lib dt f source payload =
     (if is_detection_finding_payload payload then parse_ocsf lib dt f payload
      else (case source of
          SPLUNK \<Rightarrow> parse_splunk lib dt f payload
        | CROWDSTRIKE \<Rightarrow> parse_crowdstrike lib dt f payload
        | AWS_GUARDDUTY \<Rightarrow> parse_guardduty lib dt f payload
        | _ \<Rightarrow> parse_generic lib dt f payload))"

definition detect_source :: "jdict \<Rightarrow> exn + alert_source" where
  "detect_source payload =
     (if is_detection_finding_payload payload then Inr GENERIC
      else
        bind_r (if has_key payload ''event'' then value_in ''DetectionId'' (get1 payload ''event'')
                else Inr False) (\<lambda>falcon.
        if falcon \<or> has_key payload ''DetectionId'' then Inr CROWDSTRIKE
        else
          bind_r (if has_key payload ''detail-type'' then value_in ''GuardDuty'' (get1 payload ''detail-type'')
                  else Inr False) (\<lambda>guardduty.
          if guardduty then Inr AWS_GUARDDUTY
          else if has_key payload ''search_name'' \<or> has_key payload ''result'' then Inr SPLUNK
          else
            (case get1 payload ''properties'' of
               JDict props \<Rightarrow> Inr (if has_key props ''incidentNumber'' then SENTINEL else GENERIC)
             | _ \<Rightarrow> Inr GENERIC))))"

subsection \<open>Unwrapping envelopes\<close>

definition wrapper_keys :: "string list" where
  "wrapper_keys = [''data'', ''alert'', ''body'', ''payload'', ''properties'', ''resource'']"

definition sole_keys :: "string list" where
  "sole_keys = [''alert'', ''data'', ''body'', ''payload'', ''event'', ''result'', ''resource'']"

text \<open>The loop over the wrapper keys: the inner dictionary to go on with, if there is one.\<close>

fun try_wrappers :: "jdict \<Rightarrow> alert_source \<Rightarrow> string list \<Rightarrow> exn + jdict option" where
  "try_wrappers p outer_src [] = Inr None"
| "try_wrappers p outer_src (key # ks) =
     (case get1 p key of
        JDict inner \<Rightarrow>
          if is_detection_finding_payload inner then Inr (Some inner)
          else
            bind_r (detect_source inner) (\<lambda>inner_src.
            if inner_src \<noteq> GENERIC \<and> outer_src = GENERIC then Inr (Some inner)
            else if inner_src \<noteq> outer_src \<and> inner_src \<noteq> GENERIC then Inr (Some inner)
            else try_wrappers p outer_src ks)
      | _ \<Rightarrow> try_wrappers p outer_src ks)"

definition sole_inner :: "jdict \<Rightarrow> jdict option" where
  "sole_inner p =
     (case p of
        [(sole_key, JDict inner)] \<Rightarrow> if str_lower sole_key \<in> set sole_keys then Some inner else None
      | _ \<Rightarrow> None)"

text \<open>The \<open>while\<close> loop; the number is the iterations left of the six it may make.\<close>

fun expand_loop :: "nat \<Rightarrow> jdict \<Rightarrow> exn + jdict" where
  "expand_loop 0 p = Inr p"
| "expand_loop (Suc n) p =
     (if is_detection_finding_payload p then Inr p
      else
        bind_r (detect_source p) (\<lambda>outer_src.
        bind_r (try_wrappers p outer_src wrapper_keys) (\<lambda>inner.
        (case inner of
           Some q \<Rightarrow> expand_loop n q
         | None \<Rightarrow> (case sole_inner p of Some q \<Rightarrow> expand_loop n q | None \<Rightarrow> Inr p)))))"

definition expand_auto_ingest_payload :: "jdict \<Rightarrow> exn + jdict" where
  "expand_auto_ingest_payload payload =
     expand_loop 6
       (case get1 payload ''records'' of
          JList (JDict r # rs) \<Rightarrow> r
        | _ \<Rightarrow> payload)"

subsection \<open>What every parser delivers\<close>

lemma make_alert_Inr:
  assumes "make_alert f aid src sid title desc sev ts host tac tec raw = Inr a"
  shows "na_alert_id a = aid" "na_raw_payload a = raw" "na_source a = src" "na_severity a = sev"
    "na_tenant_id a = None" "na_coerced_by_llm a = False" "na_coercion_trace_id a = None"
  using assms by (auto simp: make_alert_def elim!: bind_rE)

text \<open>The part of a successful normalisation all callers rely on.\<close>

definition well_normalised :: "jdict \<Rightarrow> normalized_alert \<Rightarrow> bool" where
  "well_normalised payload a \<longleftrightarrow> na_class_uid a = Some 2004 \<and> na_category_uid a = Some 2
     \<and> na_raw_payload a = payload \<and> na_tenant_id a = None \<and> \<not> na_coerced_by_llm a
     \<and> na_coercion_trace_id a = None
     \<and> (\<exists>df. na_detection_finding a = Some df \<and> slice_bounded df)"

lemma well_normalised_attach:
  assumes "attach_detection_finding alert = Inr a" "na_raw_payload alert = payload"
    "na_tenant_id alert = None" "\<not> na_coerced_by_llm alert" "na_coercion_trace_id alert = None"
  shows "well_normalised payload a"
  unfolding well_normalised_def
  using attached_finding [OF assms(1)] attach_keeps [OF assms(1)] assms(2-5) by metis

lemma parse_splunk_Inr:
  assumes "parse_splunk lib dt f payload = Inr a"
  shows "well_normalised payload a
    \<and> (\<exists>result. dict_get payload ''result'' (JDict payload) = JDict result
         \<and> na_alert_id a = stable_alert_id lib ''splunk'' (py_str (float_repr lib)
             (dict_get result ''_cd'' (dict_get result ''sid'' (dict_get result ''search_name'' (JStr []))))))"
  using assms unfolding parse_splunk_def Let_def
  apply (elim bind_rE)
  subgoal premises ps for result sev network proc user alert
  proof -
    have "dict_get payload ''result'' (JDict payload) = JDict result"
      using ps(1) by (auto simp: as_dict_def split: json.splits)
    moreover have "well_normalised payload a"
      by (rule well_normalised_attach [OF ps(7)]) (simp_all add: make_alert_Inr [OF ps(6)])
    moreover have "na_alert_id a = na_alert_id alert"
      using attach_keeps(1) [OF ps(7)] by simp
    ultimately show ?thesis using make_alert_Inr(1) [OF ps(6)] by simp
  qed
  done

lemma parse_crowdstrike_Inr:
  assumes "parse_crowdstrike lib dt f payload = Inr a"
  shows "well_normalised payload a
    \<and> (\<exists>event offset. dict_get payload ''event'' (JDict payload) = JDict event
         \<and> attr_get (dict_get payload ''metadata'' (JDict [])) ''offset'' (JStr []) = Inr offset
         \<and> na_alert_id a = stable_alert_id lib ''crowdstrike''
             (py_str (float_repr lib) (dict_get event ''DetectionId'' offset)))"
  using assms unfolding parse_crowdstrike_def Let_def
  apply (elim bind_rE)
  subgoal premises ps for event sev epoch proc user network offset alert
  proof -
    have "well_normalised payload a"
      by (rule well_normalised_attach [OF ps(9)]) (simp_all add: make_alert_Inr [OF ps(8)])
    moreover have "na_alert_id a = na_alert_id alert"
      using attach_keeps(1) [OF ps(9)] by simp
    ultimately show ?thesis
      using make_alert_Inr(1) [OF ps(8)] ps(1,7) unfolding as_dict_Inr by metis
  qed
  done

lemma parse_guardduty_Inr:
  assumes "parse_guardduty lib dt f payload = Inr a"
  shows "well_normalised payload a
    \<and> (\<exists>detail. dict_get payload ''detail'' (JDict payload) = JDict detail
         \<and> na_alert_id a = stable_alert_id lib ''guardduty''
             (py_str (float_repr lib) (dict_get detail ''id'' (JStr []))))"
  using assms unfolding parse_guardduty_def Let_def
  apply (elim bind_rE)
  subgoal premises ps for detail score resource service action conn remote network inst alert region account
  proof -
    have "well_normalised payload a"
      by (rule well_normalised_attach [OF ps(13)]) (simp_all add: make_alert_Inr [OF ps(10)])
    moreover have "na_alert_id a = na_alert_id alert"
      using attach_keeps(1) [OF ps(13)] by simp
    ultimately show ?thesis
      using make_alert_Inr(1) [OF ps(10)] ps(1) unfolding as_dict_Inr by metis
  qed
  done

lemma parse_generic_Inr:
  assumes "parse_generic lib dt f payload = Inr a"
  shows "well_normalised payload a \<and> na_alert_id a = fr_uuid f"
  using assms unfolding parse_generic_def Let_def
  apply (elim bind_rE)
  subgoal premises ps for alert
    using well_normalised_attach [OF ps(2)] make_alert_Inr [OF ps(1)] attach_keeps(1) [OF ps(2)] by simp
  done

subsection \<open>The ready-made DetectionFinding\<close>

lemma ocsf_observables_bounded:
  assumes "ocsf_observables lib payload = Inr obs"
  shows "length obs \<le> 100 \<and> list_all (\<lambda>e. length (ob_value e) \<le> 2048) obs"
proof -
  obtain vs items where vs: "slice_to 100 (py_or (get1 payload ''observables'') (JList [])) = Inr vs"
    and items: "py_iter vs = Inr items"
    and obs: "map_r (\<lambda>r. r) (List.map_filter (ocsf_observable lib) items) = Inr obs"
    using assms unfolding ocsf_observables_def by (elim bind_rE) blast
  have "length items \<le> 100"
    using vs items by (cases "py_or (get1 payload ''observables'') (JList [])") auto
  then have "length (List.map_filter (ocsf_observable lib) items) \<le> 100"
    by (simp add: List.map_filter_def) (meson le_trans length_filter_le)
  moreover have "list_all (\<lambda>e. length (ob_value e) \<le> 2048) obs"
  proof (rule map_r_all [OF obs])
    fix x y
    assume "x \<in> set (List.map_filter (ocsf_observable lib) items)" "x = Inr y"
    then show "length (ob_value y) \<le> 2048"
      by (auto simp: List.map_filter_def ocsf_observable_def observable_def split: json.splits if_splits)
  qed
  ultimately show ?thesis using map_r_length [OF obs] by simp
qed

lemma ocsf_evidence_bounded:
  "ocsf_evidence lib v = Inr e \<Longrightarrow> (case e of None \<Rightarrow> True | Some s \<Rightarrow> length s \<le> 8192)"
  by (auto simp: ocsf_evidence_def evidence_bundle_def Let_def split: option.splits if_splits)

lemma make_finding_info_Inr:
  assumes "make_finding_info title desc uid sev = Inr fi"
  shows "fi_title fi = title" "fi_desc fi = desc" "fi_severity_id fi = sev"
    "case sev of None \<Rightarrow> True | Some i \<Rightarrow> 1 \<le> i \<and> i \<le> 6"
  using assms by (auto simp: make_finding_info_def split: option.splits if_splits)

lemma parse_ocsf_Inr:
  assumes "parse_ocsf lib dt f payload = Inr a"
  shows "well_normalised payload a
    \<and> na_alert_id a = (let aid = py_str (float_repr lib) (py_or (get_or payload ''finding_uid'' ''activity_uid'')
          (dict_get payload ''id'' (JStr []))) in
        stable_alert_id lib ''ocsf2004''
          (if aid \<noteq> [] then aid else take 200 (json_dumps_sorted lib (JDict payload))))"
  using assms unfolding parse_ocsf_def Let_def
  apply (elim bind_rE)
  subgoal premises ps for fi_in obs atk_in attacks evidences fi alert
  proof -
    note fi = make_finding_info_Inr [OF ps(6)] and al = make_alert_Inr [OF ps(7)]
    note ob = ocsf_observables_bounded [OF ps(2)] and ev = ocsf_evidence_bounded [OF ps(5)]
    let ?df = "the (na_detection_finding a)"
    have a: "na_class_uid a = Some 2004" "na_category_uid a = Some 2" "na_alert_id a = na_alert_id alert"
      "na_raw_payload a = na_raw_payload alert" "na_tenant_id a = na_tenant_id alert"
      "na_coerced_by_llm a = na_coerced_by_llm alert"
      "na_coercion_trace_id a = na_coercion_trace_id alert" "na_detection_finding a = Some ?df"
      "df_finding_info ?df = fi" "df_observables ?df = obs"
      "df_evidences ?df = (if opt_true evidences then Some evidences else None)"
      unfolding ps(8) [unfolded sum.inject, symmetric] by simp_all
    have "slice_bounded ?df"
      unfolding slice_bounded_def a(9-11) using fi ob ev by (auto split: option.splits)
    then show ?thesis
      unfolding well_normalised_def using a(1-8) al by metis
  qed
  done

subsection \<open>Properties of normalisation\<close>

lemma normalize_alert_cases:
  assumes "normalize_alert lib dt f src p = Inr a"
  obtains (ocsf) "is_detection_finding_payload p" "parse_ocsf lib dt f p = Inr a"
  | (splunk) "\<not> is_detection_finding_payload p" "src = SPLUNK" "parse_splunk lib dt f p = Inr a"
  | (crowdstrike) "\<not> is_detection_finding_payload p" "src = CROWDSTRIKE" "parse_crowdstrike lib dt f p = Inr a"
  | (guardduty) "\<not> is_detection_finding_payload p" "src = AWS_GUARDDUTY" "parse_guardduty lib dt f p = Inr a"
  | (generic) "\<not> is_detection_finding_payload p" "src \<in> {SENTINEL, GENERIC}" "parse_generic lib dt f p = Inr a"
  using assms by (cases src) (auto simp: normalize_alert_def split: if_splits)

lemma well_normalised_all:
  assumes "normalize_alert lib dt f src p = Inr a"
  shows "well_normalised p a"
  using assms
  by (cases rule: normalize_alert_cases)
    (simp_all only: parse_ocsf_Inr parse_splunk_Inr parse_crowdstrike_Inr parse_guardduty_Inr parse_generic_Inr)

text \<open>
  C30. Whatever the vendor and the payload, a payload that is accepted becomes an alert of the
  DetectionFinding class that carries the payload unchanged for the audit, belongs to no tenant yet,
  and whose finding is bounded: title 512, description 4000, at most 100 observables of at most
  2048 characters, severity identifier one to six, evidence 8192.
\<close>

theorem normalised_alert_bounded:
  assumes "normalize_alert lib dt f src p = Inr a"
  shows "na_class_uid a = Some 2004 \<and> na_category_uid a = Some 2 \<and> na_raw_payload a = p
    \<and> na_tenant_id a = None \<and> (\<exists>df. na_detection_finding a = Some df \<and> slice_bounded df)"
  using well_normalised_all [OF assms] unfolding well_normalised_def by blast

text \<open>
  C31. A webhook that is delivered twice is one alert: for a vendor with a parser and for a
  DetectionFinding the identifier depends on the payload only, not on the time or on random numbers.
  A generic payload, in contrast, gets a new random identifier each time.
\<close>

theorem duplicate_webhook_same_alert:
  assumes "normalize_alert lib dt f src p = Inr a" "normalize_alert lib dt' f' src p = Inr a'"
  shows "if is_detection_finding_payload p \<or> src \<in> {SPLUNK, CROWDSTRIKE, AWS_GUARDDUTY}
    then na_alert_id a' = na_alert_id a
    else na_alert_id a = fr_uuid f \<and> na_alert_id a' = fr_uuid f'"
  using assms(1)
proof (cases rule: normalize_alert_cases)
  case ocsf
  with assms(2) have "parse_ocsf lib dt' f' p = Inr a'" by (simp add: normalize_alert_def)
  with ocsf show ?thesis using parse_ocsf_Inr by metis
next
  case splunk
  with assms(2) have "parse_splunk lib dt' f' p = Inr a'" by (simp add: normalize_alert_def)
  with splunk parse_splunk_Inr [OF this] parse_splunk_Inr [OF splunk(3)] show ?thesis by auto
next
  case crowdstrike
  with assms(2) have "parse_crowdstrike lib dt' f' p = Inr a'" by (simp add: normalize_alert_def)
  with crowdstrike parse_crowdstrike_Inr [OF this] parse_crowdstrike_Inr [OF crowdstrike(3)] show ?thesis by auto
next
  case guardduty
  with assms(2) have "parse_guardduty lib dt' f' p = Inr a'" by (simp add: normalize_alert_def)
  with guardduty parse_guardduty_Inr [OF this] parse_guardduty_Inr [OF guardduty(3)] show ?thesis by auto
next
  case generic
  with assms(2) have "parse_generic lib dt' f' p = Inr a'" by (auto simp: normalize_alert_def)
  with generic parse_generic_Inr [OF this] parse_generic_Inr [OF generic(3)] show ?thesis by auto
qed

text \<open>The dictionaries nested in a payload, at keys and at the head of its records.\<close>

inductive inside :: "jdict \<Rightarrow> jdict \<Rightarrow> bool" where
  inside_refl: "inside p p"
| inside_key: "(k, JDict q) \<in> set p \<Longrightarrow> inside q r \<Longrightarrow> inside p r"
| inside_record: "(''records'', JList (JDict q # vs)) \<in> set p \<Longrightarrow> inside q r \<Longrightarrow> inside p r"

lemma get1_member: "get1 p k = v \<Longrightarrow> v \<noteq> JNull \<Longrightarrow> (k, v) \<in> set p"
  by (auto simp: get1_def dict_get_def split: option.splits dest: map_of_SomeD)

lemma try_wrappers_inside: "try_wrappers p src ks = Inr (Some q) \<Longrightarrow> \<exists>k. (k, JDict q) \<in> set p"
proof (induction p src ks rule: try_wrappers.induct)
  case (2 p src key ks)
  show ?case
  proof (cases "get1 p key")
    case (JDict inner)
    with get1_member [of p key] have "(key, JDict inner) \<in> set p" by simp
    with 2 JDict show ?thesis by (auto split: if_splits elim!: bind_rE)
  qed (use 2 in auto)
qed simp

lemma sole_inner_inside: "sole_inner p = Some q \<Longrightarrow> \<exists>k. (k, JDict q) \<in> set p"
  by (auto simp: sole_inner_def split: list.splits json.splits if_splits)

lemma expand_loop_inside: "expand_loop n p = Inr q \<Longrightarrow> inside p q"
proof (induction n arbitrary: p)
  case 0
  then show ?case by (simp add: inside_refl)
next
  case (Suc n)
  show ?case
  proof (cases "is_detection_finding_payload p")
    case True
    with Suc.prems show ?thesis by (simp add: inside_refl)
  next
    case False
    with Suc.prems obtain s inner where i: "try_wrappers p s wrapper_keys = Inr inner"
      and r: "(case inner of Some q \<Rightarrow> expand_loop n q
        | None \<Rightarrow> (case sole_inner p of Some q \<Rightarrow> expand_loop n q | None \<Rightarrow> Inr p)) = Inr q"
      by (auto elim!: bind_rE)
    show ?thesis
    proof (cases inner)
      case (Some q')
      with i r Suc.IH show ?thesis using try_wrappers_inside inside_key by fastforce
    next
      case None
      with r Suc.IH show ?thesis
        using sole_inner_inside inside_key inside_refl by (fastforce split: option.splits)
    qed
  qed
qed

lemma wrapper_detect:
  assumes "k \<in> {''data'', ''alert'', ''body'', ''payload''}"
  shows "detect_source [(k, JDict p)] = Inr GENERIC" "\<not> is_detection_finding_payload [(k, JDict p)]"
  using assms
  by (elim insertE emptyE; simp add: detect_source_def is_detection_finding_payload_def get1_def)+

lemma wrapper_tried:
  assumes "k \<in> {''data'', ''alert'', ''body'', ''payload''}" "is_detection_finding_payload p \<or> (detect_source p = Inr s \<and> s \<noteq> GENERIC)"
  shows "try_wrappers [(k, JDict p)] GENERIC wrapper_keys = Inr (Some p)"
  using assms(1)
  by (elim insertE emptyE; use assms(2) in \<open>cases "is_detection_finding_payload p"\<close>;
      simp add: wrapper_keys_def get1_def)

text \<open>
  Unwrapping invents nothing: what comes out of an envelope is the payload itself or a
  dictionary nested in it. A vendor payload or DetectionFinding is found in each of the envelopes
  \<open>data\<close>, \<open>alert\<close>, \<open>body\<close> and \<open>payload\<close>, as if it had arrived without (one of the six rounds
  is spent on the envelope).
\<close>

theorem envelope_unwrapped:
  assumes "k \<in> {''data'', ''alert'', ''body'', ''payload''}"
    and "is_detection_finding_payload p \<or> (detect_source p = Inr s \<and> s \<noteq> GENERIC)"
  shows "expand_auto_ingest_payload [(k, JDict p)] = expand_loop 5 p
    \<and> (\<forall>q. expand_loop 5 p = Inr q \<longrightarrow> inside p q)"
proof -
  have "k \<noteq> ''records''" using assms(1) by auto
  then have "expand_auto_ingest_payload [(k, JDict p)] = expand_loop (Suc 5) [(k, JDict p)]"
    by (simp add: expand_auto_ingest_payload_def get1_def)
  also have "\<dots> = expand_loop 5 p"
    unfolding expand_loop.simps(2)
    using wrapper_detect [OF assms(1), of p] wrapper_tried [OF assms] by simp
  finally show ?thesis using expand_loop_inside by blast
qed

subsection \<open>Witnesses\<close>

definition demo_dates :: dates where
  "demo_dates = \<lparr>iso_parse = (\<lambda>s. Inr s), from_timestamp = (\<lambda>r. Inr (show_int \<lfloor>r\<rfloor>))\<rparr>"

definition demo_fresh :: "string \<Rightarrow> fresh" where
  "demo_fresh u = \<lparr>fr_now = ''2024-01-01T00:00:02Z'', fr_ingested_at = ''2024-01-01T00:00:03Z'', fr_uuid = u\<rparr>"

definition demo_webhook :: jdict where
  "demo_webhook = [(''search_name'', JStr ''Brute force''),
     (''result'', JDict [(''_cd'', JStr ''42''), (''host'', JStr ''WS01''), (''urgency'', JStr ''High'')])]"

definition accepted_as :: "string \<Rightarrow> severity \<Rightarrow> exn + normalized_alert \<Rightarrow> bool" where
  "accepted_as i sev r = (case r of Inl e \<Rightarrow> False | Inr a \<Rightarrow> na_alert_id a = i \<and> na_severity a = sev)"

lemma demo_webhook_runs:
  "accepted_as ''splunk:42'' HIGH (normalize_alert (demo_lib []) demo_dates (demo_fresh ''u1'') SPLUNK demo_webhook)"
  "accepted_as ''splunk:42'' HIGH (normalize_alert (demo_lib []) demo_dates (demo_fresh ''u2'') SPLUNK demo_webhook)"
  by code_simp+

lemma demo_webhook_accepted:
  assumes "u \<in> {''u1'', ''u2''}"
  shows "\<exists>a. normalize_alert (demo_lib []) demo_dates (demo_fresh u) SPLUNK demo_webhook = Inr a"
  using assms demo_webhook_runs by (auto simp: accepted_as_def split: sum.splits)

theorem normalised_alert_bounded_witness:
  "\<exists>a. normalize_alert (demo_lib []) demo_dates (demo_fresh ''u1'') SPLUNK demo_webhook = Inr a
     \<and> na_class_uid a = Some 2004 \<and> na_raw_payload a = demo_webhook
     \<and> (\<exists>df. na_detection_finding a = Some df \<and> slice_bounded df)"
proof -
  obtain a where "normalize_alert (demo_lib []) demo_dates (demo_fresh ''u1'') SPLUNK demo_webhook = Inr a"
    using demo_webhook_accepted [of "''u1''"] by blast
  with normalised_alert_bounded [OF this] show ?thesis by blast
qed

theorem duplicate_webhook_same_alert_witness:
  "\<exists>a a'. normalize_alert (demo_lib []) demo_dates (demo_fresh ''u1'') SPLUNK demo_webhook = Inr a
     \<and> normalize_alert (demo_lib []) demo_dates (demo_fresh ''u2'') SPLUNK demo_webhook = Inr a'
     \<and> na_alert_id a' = na_alert_id a"
proof -
  obtain a a' where n: "normalize_alert (demo_lib []) demo_dates (demo_fresh ''u1'') SPLUNK demo_webhook = Inr a"
    "normalize_alert (demo_lib []) demo_dates (demo_fresh ''u2'') SPLUNK demo_webhook = Inr a'"
    using demo_webhook_accepted [of "''u1''"] demo_webhook_accepted [of "''u2''"] by blast
  have "na_alert_id a' = na_alert_id a"
    using duplicate_webhook_same_alert [OF n] by (simp only: insert_iff simp_thms if_True)
  with n show ?thesis by blast
qed

theorem envelope_unwrapped_witness:
  "detect_source demo_webhook = Inr SPLUNK
   \<and> expand_auto_ingest_payload [(''data'', JDict demo_webhook)] = expand_loop 5 demo_webhook
   \<and> (case expand_loop 5 demo_webhook of Inl e \<Rightarrow> True | Inr q \<Rightarrow> inside demo_webhook q)"
proof -
  have s: "detect_source demo_webhook = Inr SPLUNK"
    by (simp add: detect_source_def demo_webhook_def is_detection_finding_payload_def get1_def)
  with envelope_unwrapped [of "''data''" demo_webhook SPLUNK] show ?thesis by (simp split: sum.split)
qed

end
