(* ===== verification/Auto_Ingest.thy ===== *)
theory Auto_Ingest
  imports Alert_Normalizer
begin

section \<open>components/auto_ingest.py: alerts of unknown shape\<close>

text \<open>
  What \<open>POST /ingest/auto\<close> does with a payload: unwrap it, detect the vendor, and when none is
  recognised ask a fast model for a flat view that the generic parser accepts. The models, the
  indented rendering of JSON and the values of the clock and of \<open>uuid4\<close> are parameters
  (\<open>ingest_env\<close>); the two attempts are made in order, and a model may answer with nothing.
\<close>

record auto_flat_view =
  fv_title :: string
  fv_description :: string
  fv_severity :: string
  fv_hostname :: "string option"
  fv_mitre_technique :: "string option"
  fv_mitre_tactic :: "string option"
  fv_source_alert_id :: "string option"

definition opt_max :: "nat \<Rightarrow> string option \<Rightarrow> bool" where
  "opt_max n v = (case v of None \<Rightarrow> True | Some s \<Rightarrow> length s \<le> n)"

definition flat_view_valid :: "auto_flat_view \<Rightarrow> bool" where
  "flat_view_valid v \<longleftrightarrow> length (fv_title v) \<le> 512 \<and> length (fv_description v) \<le> 8000
     \<and> opt_max 256 (fv_hostname v) \<and> opt_max 32 (fv_mitre_technique v)
     \<and> opt_max 128 (fv_mitre_tactic v) \<and> opt_max 256 (fv_source_alert_id v)"

record 'w ingest_env =
  ie_lib :: pylib
  ie_dates :: dates
  ie_fresh :: "'w \<Rightarrow> fresh \<times> 'w"
  ie_pretty :: "json \<Rightarrow> string"
  ie_ollama_base_url :: string
  ie_openai_api_key :: string
  ie_ollama :: "string \<Rightarrow> ('w, auto_flat_view option) io"
  ie_openai :: "string \<Rightarrow> ('w, auto_flat_view option) io"
  ie_coerce_llm :: bool

definition MAX_JSON_CHARS :: nat where
  "MAX_JSON_CHARS = 12000"

definition build_coerce_prompt :: "(json \<Rightarrow> string) \<Rightarrow> jdict \<Rightarrow> string" where
  "build_coerce_prompt pretty payload = str_join [CHR 0x0A]
    [''You are normalising an unknown security alert JSON into a flat summary for SOC triage.'',
     [],
     ''Rules:'',
     ''- Copy facts from the JSON only; do not invent IPs, domains, hashes, or MITRE T-codes that are not present in the input.'',
     ''- If severity is unclear, use \"medium\".'',
     ''- severity must be one of: low, medium, high, critical (lowercase).'',
     ''- title: one short line (what the alert is about).'',
     ''- description: 2'' @ [CHR 0xE2, CHR 0x80, CHR 0x93] @ ''6 sentences summarising observable facts from the payload.'',
     [],
     ''INPUT JSON:'',
     take MAX_JSON_CHARS (pretty (JDict payload)),
     []]"

text \<open>One attempt: \<open>None\<close> when the model is not configured or the call raised.\<close>

definition coerce_attempt ::
    "string \<Rightarrow> ('w, auto_flat_view option) io \<Rightarrow> ('w, auto_flat_view option option) io" where
  "coerce_attempt configured call =
     (if configured \<noteq> [] then
        try_io (bind_io call (\<lambda>result. ret_io (Some result))) (\<lambda>exc. ret_io None)
      else ret_io None)"

definition llm_coerce_to_flat :: "'w ingest_env \<Rightarrow> jdict \<Rightarrow> ('w, auto_flat_view option) io" where
  "llm_coerce_to_flat env payload =
     (let prompt = build_coerce_prompt (ie_pretty env) payload in
      bind_io (coerce_attempt (ie_ollama_base_url env) (ie_ollama env prompt)) (\<lambda>a1.
      (case a1 of
         Some result \<Rightarrow> ret_io result
       | None \<Rightarrow>
           bind_io (coerce_attempt (ie_openai_api_key env) (ie_openai env prompt)) (\<lambda>a2.
           (case a2 of Some result \<Rightarrow> ret_io result | None \<Rightarrow> ret_io None)))))"

definition opt_entry :: "string \<Rightarrow> string option \<Rightarrow> jdict" where
  "opt_entry k v = (if opt_true v then [(k, JStr (the v))] else [])"

definition flat_payload :: "auto_flat_view \<Rightarrow> jdict" where
  "flat_payload flat =
     [(''title'', JStr (fv_title flat)),
      (''description'', JStr (if fv_description flat \<noteq> [] then fv_description flat else fv_title flat)),
      (''severity'', JStr (fv_severity flat))]
     @ opt_entry ''hostname'' (fv_hostname flat) @ opt_entry ''mitre_technique'' (fv_mitre_technique flat)
     @ opt_entry ''mitre_tactic'' (fv_mitre_tactic flat) @ opt_entry ''id'' (fv_source_alert_id flat)"

definition ie_draw :: "'w ingest_env \<Rightarrow> ('w, fresh) io" where
  "ie_draw env w = (case ie_fresh env w of (f, w') \<Rightarrow> (Inr f, w'))"

text \<open>\<open>normalize_alert(...)\<close> and the original payload put back.\<close>

definition normalise_as :: "'w ingest_env \<Rightarrow> jdict \<Rightarrow> alert_source \<Rightarrow> jdict \<Rightarrow> ('w, normalized_alert) io" where
  "normalise_as env payload src p =
     bind_io (ie_draw env) (\<lambda>f.
     bind_io (of_result (normalize_alert (ie_lib env) (ie_dates env) f src p)) (\<lambda>alert.
       ret_io (alert\<lparr>na_raw_payload := payload\<rparr>)))"

definition resolve_alert_for_auto_ingest ::
    "'w ingest_env \<Rightarrow> jdict \<Rightarrow> bool option \<Rightarrow> ('w, normalized_alert) io" where
  "resolve_alert_for_auto_ingest env payload use_llm =
     (let use_llm = (case use_llm of None \<Rightarrow> ie_coerce_llm env | Some b \<Rightarrow> b) in
      bind_io (of_result (expand_auto_ingest_payload payload)) (\<lambda>expanded.
      bind_io (of_result (detect_source expanded)) (\<lambda>src.
      if src \<noteq> GENERIC then normalise_as env payload src expanded
      else
        bind_io (if use_llm then llm_coerce_to_flat env expanded else ret_io None) (\<lambda>flat.
        (case flat of
           Some v \<Rightarrow> normalise_as env payload GENERIC (flat_payload v)
         | None \<Rightarrow> normalise_as env payload GENERIC expanded)))))"

subsection \<open>Facts\<close>

lemma no_raise_coerce_attempt [no_raise_intros]: "no_raise (coerce_attempt c m)"
  unfolding coerce_attempt_def by (auto intro!: no_raise_intros)

lemma no_raise_llm_coerce: "no_raise (llm_coerce_to_flat env p)"
  unfolding llm_coerce_to_flat_def Let_def by (auto intro!: no_raise_intros split: option.splits)

lemma normalise_as_Inr:
  assumes "normalise_as env payload src p w = (Inr a, w')"
  shows "na_raw_payload a = payload \<and> na_class_uid a = Some 2004 \<and> \<not> na_coerced_by_llm a
    \<and> na_coercion_trace_id a = None \<and> (\<exists>df. na_detection_finding a = Some df \<and> slice_bounded df)"
proof -
  obtain f b where n: "normalize_alert (ie_lib env) (ie_dates env) f src p = Inr b"
    and a: "a = b\<lparr>na_raw_payload := payload\<rparr>"
    using assms by (auto simp: normalise_as_def bind_io_eq_Inr)
  from well_normalised_all [OF n] show ?thesis by (simp add: a well_normalised_def)
qed

lemma attach_total:
  assumes "\<And>t v. (t, v) \<in> set (observable_candidates alert) \<Longrightarrow> length v \<le> 2048"
  shows "\<exists>df. attach_detection_finding alert =
    Inr (alert\<lparr>na_category_uid := Some 2, na_class_uid := Some 2004, na_detection_finding := Some df\<rparr>)"
proof -
  have "\<exists>fi. make_finding_info t d u (Some (SEVERITY_TO_OCSF_ID s)) = Inr fi" for t d u s
    by (cases s) (simp_all add: make_finding_info_def)
  moreover have "\<exists>obs. map_r (\<lambda>(t, v). observable t v) (observable_candidates alert) = Inr obs"
    using assms by (intro map_r_total) (auto simp: observable_def)
  moreover have "\<exists>e. evidence_bundle (let x = trunc s MAX_EVIDENCE in if x = [] then None else Some x) = Inr e" for s
    using trunc_length [of MAX_EVIDENCE s] by (auto simp: evidence_bundle_def MAX_EVIDENCE_def Let_def)
  ultimately have "\<exists>df. build_detection_finding_slice alert = Inr df"
    unfolding build_detection_finding_slice_def by (metis bind_r_simps(2))
  then show ?thesis unfolding attach_detection_finding_def by auto
qed

lemma flat_payload_get:
  "dict_get (flat_payload v) ''title'' d = JStr (fv_title v)"
  "dict_get (flat_payload v) ''description'' d =
     JStr (if fv_description v \<noteq> [] then fv_description v else fv_title v)"
  "dict_get (flat_payload v) ''severity'' d = JStr (fv_severity v)"
  "dict_get (flat_payload v) ''host'' (get1 (flat_payload v) ''hostname'') =
     json_opt (if opt_true (fv_hostname v) then fv_hostname v else None)"
  "get1 (flat_payload v) ''mitre_tactic'' =
     json_opt (if opt_true (fv_mitre_tactic v) then fv_mitre_tactic v else None)"
  "get1 (flat_payload v) ''mitre_technique'' =
     json_opt (if opt_true (fv_mitre_technique v) then fv_mitre_technique v else None)"
  "get1 (flat_payload v) ''class_uid'' = JNull" "get1 (flat_payload v) ''metadata'' = JNull"
  by (auto simp: flat_payload_def opt_entry_def get1_def json_opt_def opt_true_def split: option.splits)

lemma flat_not_finding: "\<not> is_detection_finding_payload (flat_payload v)"
  by (simp add: is_detection_finding_payload_def flat_payload_get)

lemma opt_value_json_opt [simp]: "opt_value (json_opt x) = Inr x"
  by (cases x) (simp_all add: opt_value_def json_opt_def)

text \<open>The generic parser accepts every valid flat view.\<close>

lemma flat_view_accepted:
  assumes "flat_view_valid v"
  shows "\<exists>a. normalize_alert lib dt f GENERIC (flat_payload v) = Inr a \<and> na_title a = fv_title v
    \<and> na_severity a = severity_word (str_lower (fv_severity v))"
proof -
  let ?sid = "py_str (float_repr lib)
      (dict_get (flat_payload v) ''id'' (dict_get (flat_payload v) ''alert_id'' (JStr [])))"
  let ?ts = "iso_or_now lib dt f (dict_get (flat_payload v) ''timestamp''
      (dict_get (flat_payload v) ''time'' (get1 (flat_payload v) ''created_at'')))"
  obtain b where b: "make_alert f (fr_uuid f) GENERIC (JStr ?sid) (JStr (fv_title v))
      (JStr (if fv_description v \<noteq> [] then fv_description v else fv_title v))
      (severity_word (str_lower (fv_severity v))) ?ts
      (json_opt (if opt_true (fv_hostname v) then fv_hostname v else None))
      (json_opt (if opt_true (fv_mitre_tactic v) then fv_mitre_tactic v else None))
      (json_opt (if opt_true (fv_mitre_technique v) then fv_mitre_technique v else None))
      (flat_payload v) = Inr b"
    and t: "na_title b = fv_title v" "na_severity b = severity_word (str_lower (fv_severity v))"
    and h: "na_hostname b = (if opt_true (fv_hostname v) then fv_hostname v else None)"
      "na_asset_id b = None" "na_cloud_account_id b = None" "na_network b = None" "na_user b = None"
      "na_process b = None"
    by (simp add: make_alert_def opt_value_def [of "JStr ?sid"] str_value_def)
  have "length x \<le> 2048" if "(y, x) \<in> set (observable_candidates b)" for y x
    using that assms h
    by (auto simp: observable_candidates_def entry_if_def flat_view_valid_def opt_max_def opt_true_def
        split: option.splits if_splits)
  then have "\<exists>df. attach_detection_finding b =
      Inr (b\<lparr>na_category_uid := Some 2, na_class_uid := Some 2004, na_detection_finding := Some df\<rparr>)"
    by (rule attach_total)
  then obtain df where d: "attach_detection_finding b =
      Inr (b\<lparr>na_category_uid := Some 2, na_class_uid := Some 2004, na_detection_finding := Some df\<rparr>)"
    by blast
  have "parse_generic lib dt f (flat_payload v) = attach_detection_finding b"
    unfolding parse_generic_def Let_def flat_payload_get py_str.simps b by simp
  then show ?thesis
    using d t flat_not_finding by (simp add: normalize_alert_def)
qed

text \<open>
  An alert of unknown shape that a model flattened is accepted whatever the model wrote within
  the bounds of its answer, takes title and severity from that answer and keeps the original
  payload for the audit. Nothing in it says that a model made it up: the flag
  \<open>coerced_by_llm\<close> and the trace identifier stay unset.
\<close>

theorem coerced_alert_accepted:
  assumes "expand_auto_ingest_payload payload = Inr e" "detect_source e = Inr GENERIC"
    and "llm_coerce_to_flat env e w = (Inr (Some v), w1)" "flat_view_valid v"
  shows "\<exists>a w'. resolve_alert_for_auto_ingest env payload (Some True) w = (Inr a, w')
    \<and> na_title a = fv_title v \<and> na_severity a = severity_word (str_lower (fv_severity v))
    \<and> na_raw_payload a = payload \<and> \<not> na_coerced_by_llm a \<and> na_coercion_trace_id a = None"
proof -
  obtain f w2 where f: "ie_draw env w1 = (Inr f, w2)"
    by (cases "ie_fresh env w1") (simp add: ie_draw_def)
  obtain a where n: "normalize_alert (ie_lib env) (ie_dates env) f GENERIC (flat_payload v) = Inr a"
    and t: "na_title a = fv_title v" "na_severity a = severity_word (str_lower (fv_severity v))"
    using flat_view_accepted [OF assms(4)] by blast
  have r: "normalise_as env payload GENERIC (flat_payload v) w1 = (Inr (a\<lparr>na_raw_payload := payload\<rparr>), w2)"
    by (simp add: normalise_as_def f n)
  have "resolve_alert_for_auto_ingest env payload (Some True) w = (Inr (a\<lparr>na_raw_payload := payload\<rparr>), w2)"
    using assms(1-3) r by (simp add: resolve_alert_for_auto_ingest_def)
  with t normalise_as_Inr [OF r] show ?thesis by simp
qed

definition demo_view :: auto_flat_view where
  "demo_view = \<lparr>fv_title = ''Odd login'', fv_description = [], fv_severity = ''high'',
     fv_hostname = Some ''WS01'', fv_mitre_technique = None, fv_mitre_tactic = None,
     fv_source_alert_id = None\<rparr>"

definition demo_ingest_env :: "unit ingest_env" where
  "demo_ingest_env = \<lparr>ie_lib = demo_lib [], ie_dates = demo_dates, ie_fresh = Pair (demo_fresh ''u1''),
     ie_pretty = (\<lambda>v. []), ie_ollama_base_url = ''http://ollama'', ie_openai_api_key = [],
     ie_ollama = (\<lambda>prompt. ret_io (Some demo_view)), ie_openai = (\<lambda>prompt. ret_io None),
     ie_coerce_llm = True\<rparr>"

theorem coerced_alert_accepted_witness:
  "\<exists>a w'. resolve_alert_for_auto_ingest demo_ingest_env [(''who'', JStr ''bob'')] (Some True) () = (Inr a, w')
    \<and> na_title a = ''Odd login'' \<and> na_severity a = severity_word (str_lower ''high'')
    \<and> na_raw_payload a = [(''who'', JStr ''bob'')] \<and> \<not> na_coerced_by_llm a \<and> na_coercion_trace_id a = None"
proof -
  have d: "detect_source [(''who'', JStr ''bob'')] = Inr GENERIC"
    by (simp add: detect_source_def is_detection_finding_payload_def get1_def)
  have e: "expand_auto_ingest_payload [(''who'', JStr ''bob'')] = Inr [(''who'', JStr ''bob'')]"
    unfolding expand_auto_ingest_payload_def
    by (simp add: get1_def eval_nat_numeral d wrapper_keys_def sole_inner_def is_detection_finding_payload_def)
  have l: "llm_coerce_to_flat demo_ingest_env [(''who'', JStr ''bob'')] () = (Inr (Some demo_view), ())"
    by (simp add: llm_coerce_to_flat_def demo_ingest_env_def coerce_attempt_def Let_def bind_io_def try_io_def)
  have v: "flat_view_valid demo_view"
    by (simp add: flat_view_valid_def demo_view_def opt_max_def)
  from coerced_alert_accepted [OF e d l v] show ?thesis by (simp add: demo_view_def)
qed

end
