(* ===== verification/Observability.thy ===== *)
theory Observability
  imports Json Schemas "HOL-Library.Multiset"
begin

section \<open>observability/ and evaluation/: costs, feedback, accuracy\<close>

text \<open>
  The in-memory cost tracker (\<open>cost_tracker.py\<close>), the analyst feedback store (\<open>feedback.py\<close>) and the
  accuracy figures of \<open>online_monitor.py\<close>. Averages and rates are exact rationals here, floats in
  the code; \<open>py_round\<close> is Python's \<open>round\<close> (half to even). A time stamp is an argument. A
  \<open>defaultdict\<close> is a dictionary whose missing entries read as the default.
\<close>

definition py_round :: "nat \<Rightarrow> rat \<Rightarrow> rat" where
  "py_round digits r =
     (let scale = 10 ^ digits; x = r * scale; lo = \<lfloor>x\<rfloor>; d = x - of_int lo in
      of_int (if d < 1 / 2 then lo else if d > 1 / 2 then lo + 1 else if even lo then lo else lo + 1) / scale)"

definition int_mean :: "int list \<Rightarrow> int" where
  "int_mean xs = trunc_rat (of_int (sum_list xs) / of_nat (length xs))"

subsection \<open>cost_tracker.py\<close>

record triage_run_cost =
  run_alert_id :: string
  run_severity :: string
  run_tools_called :: "string list"
  run_elapsed_ms :: int
  run_timestamp :: rat
  run_input_tokens :: int
  run_output_tokens :: int
  run_cost_usd :: rat

record cost_tracker =
  ct_runs :: "triage_run_cost list"
  ct_tool_calls :: "(string \<times> int) list"
  ct_tool_latencies :: "(string \<times> int list) list"

definition CostTracker_init :: cost_tracker where
  "CostTracker_init = \<lparr>ct_runs = [], ct_tool_calls = [], ct_tool_latencies = []\<rparr>"

definition default_get :: "('k \<times> 'v) list \<Rightarrow> 'k \<Rightarrow> 'v \<Rightarrow> 'v" where
  "default_get d k dflt = (case map_of d k of None \<Rightarrow> dflt | Some v \<Rightarrow> v)"

fun count_tools :: "string list \<Rightarrow> (string \<times> int) list \<Rightarrow> (string \<times> int) list" where
  "count_tools [] d = d"
| "count_tools (t # ts) d = count_tools ts (AList.update t (default_get d t 0 + 1) d)"

definition record_triage ::
    "rat \<Rightarrow> string \<Rightarrow> string list \<Rightarrow> int \<Rightarrow> string \<Rightarrow> int \<Rightarrow> int \<Rightarrow> cost_tracker \<Rightarrow> cost_tracker" where
  "record_triage now alert_id tools_called elapsed_ms severity input_tokens output_tokens ct =
     ct\<lparr>ct_runs := ct_runs ct @
          [\<lparr>run_alert_id = alert_id, run_severity = severity, run_tools_called = tools_called,
            run_elapsed_ms = elapsed_ms, run_timestamp = now, run_input_tokens = input_tokens,
            run_output_tokens = output_tokens,
            run_cost_usd = of_int input_tokens * (3 / 1000000) + of_int output_tokens * (15 / 1000000)\<rparr>],
        ct_tool_calls := count_tools tools_called (ct_tool_calls ct)\<rparr>"

definition record_tool_latency :: "string \<Rightarrow> int \<Rightarrow> cost_tracker \<Rightarrow> cost_tracker" where
  "record_tool_latency tool latency_ms ct =
     ct\<lparr>ct_tool_latencies := AList.update tool (default_get (ct_tool_latencies ct) tool [] @ [latency_ms])
          (ct_tool_latencies ct)\<rparr>"

text \<open>\<open>sorted(latencies)[int(len(latencies) * 0.95)]\<close>.\<close>

definition p95_latency :: "int list \<Rightarrow> int" where
  "p95_latency latencies = sort latencies ! nat \<lfloor>(of_nat (length latencies) :: rat) * (95 / 100)\<rfloor>"

fun group_latencies :: "triage_run_cost list \<Rightarrow> (string \<times> int list) list \<Rightarrow> (string \<times> int list) list" where
  "group_latencies [] d = d"
| "group_latencies (r # rs) d =
     group_latencies rs (AList.update (run_severity r) (default_get d (run_severity r) [] @ [run_elapsed_ms r]) d)"

definition cost_summary :: "cost_tracker \<Rightarrow> jdict" where
  "cost_summary ct =
     (if ct_runs ct = [] then [(''total_runs'', JInt 0)]
      else
        (let latencies = map run_elapsed_ms (ct_runs ct) in
         [(''total_runs'', JInt (int (length (ct_runs ct)))),
          (''avg_latency_ms'', JInt (int_mean latencies)),
          (''p95_latency_ms'', JInt (p95_latency latencies)),
          (''total_estimated_cost_usd'', JFloat (py_round 4 (sum_list (map run_cost_usd (ct_runs ct))))),
          (''total_input_tokens'', JInt (sum_list (map run_input_tokens (ct_runs ct)))),
          (''total_output_tokens'', JInt (sum_list (map run_output_tokens (ct_runs ct)))),
          (''tool_call_counts'', JDict (map (\<lambda>(t, n). (t, JInt n)) (ct_tool_calls ct))),
          (''tool_avg_latency_ms'', JDict (map (\<lambda>(t, lats). (t, JInt (int_mean lats)))
             (filter (\<lambda>(t, lats). lats \<noteq> []) (ct_tool_latencies ct)))),
          (''latency_by_severity'', JDict (map (\<lambda>(s, lats). (s, JInt (int_mean lats)))
             (group_latencies (ct_runs ct) [])))]))"

text \<open>\<open>self._runs[-n:]\<close>; for \<open>n = 0\<close> that is the whole list.\<close>

definition last_n :: "int \<Rightarrow> 'a list \<Rightarrow> 'a list" where
  "last_n n xs = (if n > 0 then drop (length xs - nat n) xs else drop (nat (- n)) xs)"

definition get_recent :: "int \<Rightarrow> cost_tracker \<Rightarrow> jdict list" where
  "get_recent n ct = map (\<lambda>r.
     [(''alert_id'', JStr (run_alert_id r)), (''severity'', JStr (run_severity r)),
      (''elapsed_ms'', JInt (run_elapsed_ms r)), (''tools_called'', JList (map JStr (run_tools_called r))),
      (''estimated_cost_usd'', JFloat (run_cost_usd r))]) (last_n n (ct_runs ct))"

subsection \<open>feedback.py\<close>

record feedback_record =
  fb_alert_id :: string
  fb_original_verdict :: string
  fb_analyst_decision :: string
  fb_agree :: bool
  fb_comment :: string
  fb_analyst_id :: string
  fb_timestamp :: rat

type_synonym feedback_store = "feedback_record list"

definition record_feedback ::
    "rat \<Rightarrow> string \<Rightarrow> string \<Rightarrow> string \<Rightarrow> string \<Rightarrow> string \<Rightarrow> feedback_store \<Rightarrow> feedback_store" where
  "record_feedback now alert_id original_verdict analyst_decision comment analyst_id fs =
     fs @ [\<lparr>fb_alert_id = alert_id, fb_original_verdict = original_verdict,
            fb_analyst_decision = analyst_decision,
            fb_agree = (str_upper original_verdict = str_upper analyst_decision),
            fb_comment = comment, fb_analyst_id = analyst_id, fb_timestamp = now\<rparr>]"

definition agreement_rate :: "feedback_store \<Rightarrow> rat" where
  "agreement_rate fs =
     (if fs = [] then 0 else of_nat (length (filter fb_agree fs)) / of_nat (length fs))"

definition disagreements :: "feedback_store \<Rightarrow> jdict list" where
  "disagreements fs = map (\<lambda>r.
     [(''alert_id'', JStr (fb_alert_id r)), (''pipeline_said'', JStr (fb_original_verdict r)),
      (''analyst_said'', JStr (fb_analyst_decision r)), (''comment'', JStr (fb_comment r))])
     (filter (\<lambda>r. \<not> fb_agree r) fs)"

definition false_positive_overcalls :: "feedback_store \<Rightarrow> (string \<times> int) list" where
  "false_positive_overcalls fs =
     count_tools (map fb_original_verdict
       (filter (\<lambda>r. \<not> fb_agree r \<and> fb_analyst_decision r = ''FALSE_POSITIVE'') fs)) []"

definition feedback_summary :: "feedback_store \<Rightarrow> jdict" where
  "feedback_summary fs =
     (let total = int (length fs) in
      if total = 0 then [(''total_feedback'', JInt 0)]
      else
        (let agreement = agreement_rate fs in
         [(''total_feedback'', JInt total),
          (''agreement_rate'', JFloat (py_round 3 agreement)),
          (''false_positive_overcalls'', JDict (map (\<lambda>(v, n). (v, JInt n)) (false_positive_overcalls fs))),
          (''disagreements_count'', JInt (total - trunc_rat (agreement * of_int total)))]))"

subsection \<open>online_monitor.py\<close>

definition evaluate_verdict :: "triage_verdict \<Rightarrow> string \<Rightarrow> string \<Rightarrow> jdict" where
  "evaluate_verdict verdict expected_severity expected_escalation =
     [(''severity_correct'', JBool (severity_value (tv_severity verdict) = expected_severity)),
      (''escalation_correct'', JBool (escalation_value (tv_escalation verdict) = expected_escalation))]"

definition compute_accuracy :: "jdict list \<Rightarrow> jdict" where
  "compute_accuracy results =
     (if results = [] then []
      else
        (let correct = (\<lambda>k. length (filter (\<lambda>r. truthy (dict_get r k (JBool False))) results));
             sev_correct = of_nat (correct ''severity_correct'');
             esc_correct = of_nat (correct ''escalation_correct'');
             n = of_nat (length results) in
         [(''severity_accuracy'', JFloat (py_round 3 (sev_correct / n))),
          (''escalation_accuracy'', JFloat (py_round 3 (esc_correct / n))),
          (''overall_accuracy'', JFloat (py_round 3 ((sev_correct + esc_correct) / (2 * n)))),
          (''n'', JInt (int (length results)))]))"

subsection \<open>Properties\<close>

lemma default_get_update: "default_get (AList.update k v d) k' x = (if k' = k then v else default_get d k' x)"
  by (simp add: default_get_def update_conv)

lemma count_tools_get: "default_get (count_tools ts d) t 0 = default_get d t 0 + int (count_list ts t)"
  by (induction ts d rule: count_tools.induct) (auto simp: default_get_update)

text \<open>The invariant of the tracker: its counters agree with its runs.\<close>

definition counts_agree :: "cost_tracker \<Rightarrow> bool" where
  "counts_agree ct \<longleftrightarrow> (\<forall>t. default_get (ct_tool_calls ct) t 0 =
     int (count_list (concat (map run_tools_called (ct_runs ct))) t))"

lemma counts_agree_init: "counts_agree CostTracker_init"
  by (simp add: counts_agree_def CostTracker_init_def default_get_def)

lemma counts_agree_record:
  "counts_agree ct \<Longrightarrow> counts_agree (record_triage now a tools ms sev i out ct)"
  by (simp add: counts_agree_def record_triage_def count_tools_get)

lemma counts_agree_latency: "counts_agree ct \<Longrightarrow> counts_agree (record_tool_latency t ms ct)"
  by (simp add: counts_agree_def record_tool_latency_def)

lemma p95_index:
  assumes "xs \<noteq> []"
  shows "nat \<lfloor>(of_nat (length xs) :: rat) * (95 / 100)\<rfloor> < length xs"
    and "19 * length xs < 20 * (nat \<lfloor>(of_nat (length xs) :: rat) * (95 / 100)\<rfloor> + 1)"
proof -
  let ?n = "length xs" and ?r = "(of_nat (length xs) :: rat) * (95 / 100)"
  have n: "(0 :: rat) < of_nat ?n" using assms by simp
  have "\<lfloor>?r\<rfloor> < int ?n"
    unfolding floor_less_iff using n by simp
  moreover have pos: "0 \<le> \<lfloor>?r\<rfloor>" by simp
  ultimately show "nat \<lfloor>?r\<rfloor> < ?n" by linarith
  have "?r < of_int \<lfloor>?r\<rfloor> + 1" by linarith
  then have "(19 :: rat) * of_nat ?n < 20 * (of_int \<lfloor>?r\<rfloor> + 1)" by simp
  also have "(of_int \<lfloor>?r\<rfloor> :: rat) = of_nat (nat \<lfloor>?r\<rfloor>)" using pos by simp
  finally have "(of_nat (19 * ?n) :: rat) < of_nat (20 * (nat \<lfloor>?r\<rfloor> + 1))" by simp
  then show "19 * ?n < 20 * (nat \<lfloor>?r\<rfloor> + 1)" by (simp only: of_nat_less_iff)
qed

lemma sorted_below:
  assumes "sorted ys" "i < length ys"
  shows "i + 1 \<le> length (filter (\<lambda>y. y \<le> ys ! i) ys)"
proof -
  have "filter (\<lambda>y. y \<le> ys ! i) (take (i + 1) ys) = take (i + 1) ys"
  proof (intro filter_True ballI)
    fix y
    assume "y \<in> set (take (i + 1) ys)"
    then obtain j where "j \<le> i" "y = ys ! j" by (auto simp: in_set_conv_nth less_Suc_eq_le)
    with assms show "y \<le> ys ! i" by (simp add: sorted_nth_mono)
  qed
  then have "length (filter (\<lambda>y. y \<le> ys ! i) (take (i + 1) ys)) = i + 1"
    using assms(2) by simp
  then show ?thesis
    using length_append [of "filter (\<lambda>y. y \<le> ys ! i) (take (i + 1) ys)" "filter (\<lambda>y. y \<le> ys ! i) (drop (i + 1) ys)"]
    by (metis append_take_drop_id filter_append le_add1)
qed

lemma length_filter_sort: "length (filter P (sort xs)) = length (filter P xs)"
  by (metis mset_filter mset_sort size_mset)

text \<open>
  The metrics are right: after any series of recorded runs the call counter of every tool is
  the number of its calls over all runs, and the 95th percentile is a latency that
  was measured and that at least 95 percent of the runs do not exceed.
\<close>

theorem cost_metrics_right:
  assumes "ct = foldl (\<lambda>ct (now, a, tools, ms, sev, i, out). record_triage now a tools ms sev i out ct)
      CostTracker_init reqs" "reqs \<noteq> []"
  shows "(\<forall>t. default_get (ct_tool_calls ct) t 0 =
        int (count_list (concat (map (\<lambda>(now, a, tools, ms, sev, i, out). tools) reqs)) t))
    \<and> (let xs = map run_elapsed_ms (ct_runs ct) in
         p95_latency xs \<in> set xs
         \<and> 95 * length xs \<le> 100 * length (filter (\<lambda>x. x \<le> p95_latency xs) xs))"
proof -
  have inv: "counts_agree ct0 \<Longrightarrow> counts_agree (foldl (\<lambda>ct (now, a, tools, ms, sev, i, out).
      record_triage now a tools ms sev i out ct) ct0 rs)" for ct0 rs
    by (induction rs arbitrary: ct0) (auto simp: counts_agree_record)
  have runs: "map run_tools_called (ct_runs (foldl (\<lambda>ct (now, a, tools, ms, sev, i, out).
      record_triage now a tools ms sev i out ct) ct0 rs)) =
      map run_tools_called (ct_runs ct0) @ map (\<lambda>(now, a, tools, ms, sev, i, out). tools) rs" for ct0 rs
    by (induction rs arbitrary: ct0) (auto simp: record_triage_def)
  have tools: "map run_tools_called (ct_runs ct) = map (\<lambda>(now, a, tools, ms, sev, i, out). tools) reqs"
    using runs [of CostTracker_init reqs] by (simp add: assms(1) CostTracker_init_def)
  have counts: "\<forall>t. default_get (ct_tool_calls ct) t 0 =
      int (count_list (concat (map (\<lambda>(now, a, tools, ms, sev, i, out). tools) reqs)) t)"
    using inv [OF counts_agree_init, of reqs] unfolding counts_agree_def tools [symmetric] assms(1)
    by blast
  let ?xs = "map run_elapsed_ms (ct_runs ct)"
  have ne: "?xs \<noteq> []" using tools assms(2) by (metis list.map_disc_iff)
  note i = p95_index [OF ne]
  have "p95_latency ?xs \<in> set ?xs"
    unfolding p95_latency_def using i(1) by (metis length_sort nth_mem set_sort)
  moreover have "nat \<lfloor>(of_nat (length ?xs) :: rat) * (95 / 100)\<rfloor> + 1
      \<le> length (filter (\<lambda>x. x \<le> p95_latency ?xs) ?xs)"
    using sorted_below [of "sort ?xs"] i(1) unfolding p95_latency_def
    by (metis length_filter_sort length_sort sorted_sort)
  ultimately have "p95_latency ?xs \<in> set ?xs"
    and "95 * length ?xs \<le> 100 * length (filter (\<lambda>x. x \<le> p95_latency ?xs) ?xs)"
    using i(2) by (blast, linarith)
  with counts show ?thesis unfolding Let_def by blast
qed

text \<open>
  The reported number of disagreements is the number of disagreeing records, in exact arithmetic
  (the code rounds the product of the rate and the total, a float, towards zero).
\<close>

lemma disagreements_counted:
  "fs \<noteq> [] \<Longrightarrow> dict_get (feedback_summary fs) ''disagreements_count'' JNull = JInt (int (length (disagreements fs)))"
proof -
  assume "fs \<noteq> []"
  then have "agreement_rate fs * of_int (int (length fs)) = of_int (int (length (filter fb_agree fs)))"
    by (simp add: agreement_rate_def)
  moreover have "trunc_rat (of_int (int k)) = int k" for k by (simp add: trunc_rat_def)
  moreover have "int (length fs) = int (length (filter fb_agree fs)) + int (length (filter (\<lambda>r. \<not> fb_agree r) fs))"
    using sum_length_filter_compl [of fb_agree fs] by simp
  ultimately have "int (length fs) - trunc_rat (agreement_rate fs * of_int (int (length fs))) =
      int (length (filter (\<lambda>r. \<not> fb_agree r) fs))" by simp
  then show ?thesis
    using \<open>fs \<noteq> []\<close> unfolding feedback_summary_def Let_def disagreements_def
    by (simp del: of_int_of_nat_eq)
qed

theorem cost_metrics_right_witness:
  "\<exists>ct. ct = foldl (\<lambda>ct (now, a, tools, ms, sev, i, out). record_triage now a tools ms sev i out ct)
      CostTracker_init [(0, ''a1'', [''query_splunk''], 120, ''HIGH'', 0, 0)]
    \<and> default_get (ct_tool_calls ct) ''query_splunk'' 0 = 1
    \<and> p95_latency (map run_elapsed_ms (ct_runs ct)) = 120"
proof -
  let ?reqs = "[(0 :: rat, ''a1'', [''query_splunk''], 120 :: int, ''HIGH'', 0 :: int, 0 :: int)]"
  let ?ct = "foldl (\<lambda>ct (now, a, tools, ms, sev, i, out). record_triage now a tools ms sev i out ct)
      CostTracker_init ?reqs"
  have "default_get (ct_tool_calls ?ct) ''query_splunk'' 0 = 1"
    using cost_metrics_right [OF refl, of ?reqs] by simp
  moreover have "p95_latency (map run_elapsed_ms (ct_runs ?ct)) = 120"
    using cost_metrics_right [OF refl, of ?reqs]
    by (simp add: Let_def record_triage_def CostTracker_init_def)
  ultimately show ?thesis by blast
qed

end
