(* ===== verification/Api.thy ===== *)
theory Api
  imports Triage_Guarantees Runtime_Glue Event_Seq Security Auto_Ingest Alert_Persistence Observability
begin

section \<open>app/main.py: the REST API\<close>

text \<open>
  The request handlers of the API and the background run of a triage. What the process keeps in
  memory between requests (\<open>api_state\<close>: the alert store, the runtime of \<open>app.state\<close>, the pipeline
  metrics, the cost tracker, the feedback store, and the background tasks of the request being
  served) is part of the world the handlers run in. \<open>serve\<close> is Starlette's way of running a
  handler: the tasks it added run in order after a response, and not at all when it raised. A
  request has its headers and its body; an exception that is not an \<open>HTTPException\<close> is a 500.
  Parameters (\<open>api_env\<close>): the codec of stored models, pydantic's dumps, the clock, the webhook's
  \<open>POST\<close>, and what happens to the world while the event stream sleeps. Tracing, logging, CORS and
  the OpenAPI document are left out.
\<close>

record pipeline_metrics =
  pm_alerts_received :: int
  pm_verdicts_generated :: int
  pm_errors :: int
  pm_avg_latency_ms :: rat

definition pipeline_metrics_init :: pipeline_metrics where
  "pipeline_metrics_init =
     \<lparr>pm_alerts_received = 0, pm_verdicts_generated = 0, pm_errors = 0, pm_avg_latency_ms = 0\<rparr>"

record 'w api_state =
  api_store :: "'w alert_persistence"
  api_runtime :: "'w runtime_state option"
  api_metrics :: pipeline_metrics
  api_costs :: cost_tracker
  api_feedback :: feedback_store
  api_tasks :: "normalized_alert list"

type_synonym ('w, 'a) api = "('w \<times> 'w api_state, 'a) io"

record api_settings =
  st_api_key :: string
  st_ingest_via_nats :: bool
  st_auto_ingest_coerce_llm :: bool
  st_webhook_url :: "string option"
  st_verdict_auth_required :: bool
  st_sunset :: string
  st_redis_url :: string

record 'w api_env =
  ae_settings :: api_settings
  ae_lib :: pylib
  ae_codec :: codec
  ae_ingest :: "'w ingest_env"
  ae_pipeline :: "'w pipe_env"
  ae_dump_alert :: "normalized_alert \<Rightarrow> jdict"
  ae_dump_alert_json :: "normalized_alert \<Rightarrow> string"
  ae_dump_verdict :: "triage_verdict \<Rightarrow> jdict"
  ae_time :: "'w \<Rightarrow> rat \<times> 'w"
  ae_post :: "string \<Rightarrow> json \<Rightarrow> ('w, unit) io"
  ae_from_url :: "string \<Rightarrow> exn + 'w redis"
  ae_sleep :: "rat \<Rightarrow> ('w, unit) api"

record http_request =
  rq_headers :: "(string \<times> string) list"
  rq_body :: string

record response =
  rs_content :: json
  rs_headers :: "(string \<times> string) list"

subsection \<open>The services in the API's world\<close>

definition a_put_alert :: "'w api_env \<Rightarrow> normalized_alert \<Rightarrow> ('w, unit) api" where
  "a_put_alert env alert =
     on_state (\<lambda>s. bind_io (put_alert (ae_codec env) (api_store s) alert) (\<lambda>ap. ret_io ((), ap)))
       (\<lambda>ap s. s\<lparr>api_store := ap\<rparr>)"

definition a_put_verdict :: "'w api_env \<Rightarrow> string \<Rightarrow> triage_verdict \<Rightarrow> ('w, unit) api" where
  "a_put_verdict env alert_id verdict =
     on_state (\<lambda>s. bind_io (put_verdict (ae_codec env) (api_store s) alert_id verdict) (\<lambda>ap. ret_io ((), ap)))
       (\<lambda>ap s. s\<lparr>api_store := ap\<rparr>)"

definition a_set_job :: "'w api_env \<Rightarrow> string \<Rightarrow> string \<Rightarrow> string option \<Rightarrow> ('w, unit) api" where
  "a_set_job env alert_id status error =
     on_state (\<lambda>s. bind_io (set_job (ae_lib env) (api_store s) alert_id status error) (\<lambda>ap. ret_io ((), ap)))
       (\<lambda>ap s. s\<lparr>api_store := ap\<rparr>)"

definition a_get_alert :: "'w api_env \<Rightarrow> string \<Rightarrow> ('w, normalized_alert option) api" where
  "a_get_alert env alert_id = reads (\<lambda>s. Alert_Persistence.get_alert (ae_codec env) (api_store s) alert_id)"

definition a_get_verdict :: "'w api_env \<Rightarrow> string \<Rightarrow> ('w, triage_verdict option) api" where
  "a_get_verdict env alert_id = reads (\<lambda>s. Alert_Persistence.get_verdict (ae_codec env) (api_store s) alert_id)"

definition a_get_job :: "'w api_env \<Rightarrow> string \<Rightarrow> ('w, json option) api" where
  "a_get_job env alert_id = reads (\<lambda>s. get_job (ae_lib env) (api_store s) alert_id)"

definition a_now :: "'w api_env \<Rightarrow> ('w, rat) api" where
  "a_now env = on_world (draw (ae_time env))"

definition require_key :: "'w api_env \<Rightarrow> http_request \<Rightarrow> ('w, unit) api" where
  "require_key env rq = of_result (validate_api_key (st_api_key (ae_settings env)) (rq_headers rq))"

definition scrubbed :: "'w api_env \<Rightarrow> triage_verdict \<Rightarrow> json" where
  "scrubbed env verdict =
     JDict (scrub_verdict_for_log (float_repr (ae_lib env)) (ae_dump_verdict env verdict))"

subsection \<open>The background run of a triage\<close>

text \<open>
  The webhook's body is made of \<open>model_dump()\<close>, which leaves the datetime \<open>generated_at\<close> an object:
  httpx encodes the body with \<open>json.dumps\<close>, which refuses it before anything is sent. (The other dumps
  that leave the process go through FastAPI's encoder or \<open>mode="json"\<close>, where it is a text.)
\<close>

definition encode_dump :: "jdict \<Rightarrow> exn + json" where
  "encode_dump dumped =
     (if has_key dumped ''generated_at'' then Inl (TypeError ''Object of type datetime is not JSON serializable'')
      else Inr (JDict dumped))"

definition notify_triage_webhook :: "'w api_env \<Rightarrow> string \<Rightarrow> triage_verdict \<Rightarrow> ('w, unit) api" where
  "notify_triage_webhook env alert_id verdict =
     (let url = str_strip (case st_webhook_url (ae_settings env) of None \<Rightarrow> [] | Some u \<Rightarrow> u) in
      if url = [] then ret_io ()
      else
        (let dumped = scrub_verdict_for_log (float_repr (ae_lib env)) (ae_dump_verdict env verdict) in
         try_io
           (bind_io (of_result (encode_dump dumped)) (\<lambda>body.
              on_world (ae_post env url (JDict [(''alert_id'', JStr alert_id), (''verdict'', body)]))))
           (\<lambda>exc. ret_io ())))"

definition count_received :: "'w api_state \<Rightarrow> 'w api_state" where
  "count_received s =
     s\<lparr>api_metrics := (api_metrics s)\<lparr>pm_alerts_received := pm_alerts_received (api_metrics s) + 1\<rparr>\<rparr>"

definition count_error :: "'w api_state \<Rightarrow> 'w api_state" where
  "count_error s =
     s\<lparr>api_metrics := (api_metrics s)\<lparr>pm_errors := pm_errors (api_metrics s) + 1\<rparr>\<rparr>"

definition count_verdict :: "int \<Rightarrow> 'w api_state \<Rightarrow> 'w api_state" where
  "count_verdict elapsed_ms s =
     (let m = api_metrics s; n = pm_verdicts_generated m + 1 in
      s\<lparr>api_metrics := m\<lparr>pm_verdicts_generated := n,
          pm_avg_latency_ms := (pm_avg_latency_ms m * (of_int n - 1) + of_int elapsed_ms) / of_int n\<rparr>\<rparr>)"

definition record_cost :: "normalized_alert \<Rightarrow> triage_verdict \<Rightarrow> int \<Rightarrow> rat \<Rightarrow> 'w api_state \<Rightarrow> 'w api_state" where
  "record_cost alert verdict elapsed_ms now s =
     s\<lparr>api_costs := record_triage now (na_alert_id alert) (tv_tools_called verdict) elapsed_ms
         (severity_value (tv_severity verdict)) 0 0 (api_costs s)\<rparr>"

text \<open>The bookkeeping after a stored verdict, and the body of the \<open>try\<close>.\<close>

definition complete_run :: "'w api_env \<Rightarrow> normalized_alert \<Rightarrow> triage_verdict \<Rightarrow> int \<Rightarrow> ('w, unit) api" where
  "complete_run env alert verdict elapsed_ms =
     bind_io (modify (count_verdict elapsed_ms)) (\<lambda>_.
     bind_io (a_now env) (\<lambda>ts.
     bind_io (modify (record_cost alert verdict elapsed_ms ts)) (\<lambda>_.
       notify_triage_webhook env (na_alert_id alert) verdict)))"

definition triage_attempt :: "'w api_env \<Rightarrow> normalized_alert \<Rightarrow> rat \<Rightarrow> ('w, unit) api" where
  "triage_attempt env alert start =
     bind_io (on_world (run_triage (ae_pipeline env) alert)) (\<lambda>verdict.
     bind_io (a_now env) (\<lambda>now.
     let elapsed_ms = trunc_rat ((now - start) * 1000) in
     bind_io (a_put_verdict env (na_alert_id alert) verdict) (\<lambda>_.
     bind_io (a_set_job env (na_alert_id alert) ''complete'' None) (\<lambda>_.
       complete_run env alert verdict elapsed_ms))))"

definition run_triage_background :: "'w api_env \<Rightarrow> normalized_alert \<Rightarrow> ('w, unit) api" where
  "run_triage_background env alert =
     bind_io (a_now env) (\<lambda>start.
     bind_io (modify count_received) (\<lambda>_.
     bind_io (a_set_job env (na_alert_id alert) ''running'' None) (\<lambda>_.
       try_io (triage_attempt env alert start)
         (\<lambda>exc.
          bind_io (modify count_error) (\<lambda>_.
            a_set_job env (na_alert_id alert) ''failed'' (Some (exn_str exc)))))))"

definition add_task :: "normalized_alert \<Rightarrow> 'w api_state \<Rightarrow> 'w api_state" where
  "add_task alert s = s\<lparr>api_tasks := api_tasks s @ [alert]\<rparr>"

definition dispatch_triage :: "'w api_env \<Rightarrow> normalized_alert \<Rightarrow> ('w, unit) api" where
  "dispatch_triage env alert =
     bind_io
       (if st_ingest_via_nats (ae_settings env)
        then try_io
          (on_state (\<lambda>s. enqueue_via_nats (ae_dump_alert env) (ae_dump_alert_json env) (api_runtime s) alert)
             (\<lambda>rt s. s\<lparr>api_runtime := rt\<rparr>))
          (\<lambda>exc. ret_io False)
        else ret_io False) (\<lambda>ok.
     if ok then ret_io () else modify (add_task alert))"

text \<open>The tasks of a request, in order; one that raises ends the rest.\<close>

fun run_tasks :: "'w api_env \<Rightarrow> normalized_alert list \<Rightarrow> ('w, unit) api" where
  "run_tasks env [] = ret_io ()"
| "run_tasks env (a # as) = bind_io (run_triage_background env a) (\<lambda>_. run_tasks env as)"

definition serve :: "'w api_env \<Rightarrow> ('w, 'a) api \<Rightarrow> ('w, exn + 'a) api" where
  "serve env handler =
     bind_io (modify (\<lambda>s. s\<lparr>api_tasks := []\<rparr>)) (\<lambda>_.
     bind_io (catch_io handler) (\<lambda>res.
     (case res of
        Inl e \<Rightarrow> ret_io (Inl e)
      | Inr x \<Rightarrow>
          bind_io (catch_io (bind_io (reads (\<lambda>s. ret_io (api_tasks s))) (run_tasks env))) (\<lambda>_.
            ret_io (Inr x)))))"

subsection \<open>Ingestion\<close>

text \<open>
  \<open>request.json()\<close> and the cleaning of the body: a body that is no JSON, or no JSON object (which
  has no \<open>items\<close>), raises outside the handlers' \<open>try\<close>.
\<close>

definition read_payload :: "'w api_env \<Rightarrow> http_request \<Rightarrow> exn + jdict" where
  "read_payload env rq =
     bind_r (json_loads (ae_lib env) (rq_body rq)) (\<lambda>v.
     case v of
       JDict d \<Rightarrow> Inr (sanitise_payload 0 d)
     | _ \<Rightarrow> Inl (AttributeError ''items''))"

text \<open>What the three endpoints do with an alert that parsed.\<close>

definition accept_alert :: "'w api_env \<Rightarrow> normalized_alert \<Rightarrow> jdict \<Rightarrow> ('w, unit) api" where
  "accept_alert env alert payload =
     bind_io (a_put_alert env alert) (\<lambda>_.
     bind_io (a_set_job env (na_alert_id alert) ''queued'' None) (\<lambda>_.
     bind_io (reads (\<lambda>s. record_raw_payload (ae_lib env) (api_runtime s) alert payload)) (\<lambda>_.
       dispatch_triage env alert)))"

definition normalise :: "'w api_env \<Rightarrow> alert_source \<Rightarrow> jdict \<Rightarrow> ('w, normalized_alert) api" where
  "normalise env src payload =
     on_world (bind_io (ie_draw (ae_ingest env)) (\<lambda>f.
       of_result (normalize_alert (ae_lib env) (ie_dates (ae_ingest env)) f src payload)))"

definition unknown_source :: "string \<Rightarrow> string" where
  "unknown_source source = ''Unknown source '' @ [CHR 0x27] @ source @ [CHR 0x27]"

definition ingest_row :: "'w api_env \<Rightarrow> string \<times> jdict \<Rightarrow> ('w, jdict) api" where
  "ingest_row env row =
     (case source_of (str_lower (fst row)) of
        Inl e \<Rightarrow> ret_io [(''ok'', JBool False), (''error'', JStr (unknown_source (fst row)))]
      | Inr src \<Rightarrow>
          (let payload = sanitise_payload 0 (snd row) in
           bind_io (catch_io (normalise env src payload)) (\<lambda>res.
           (case res of
              Inl exc \<Rightarrow> ret_io [(''ok'', JBool False), (''error'', JStr (exn_str exc))]
            | Inr alert \<Rightarrow>
                bind_io (accept_alert env alert payload) (\<lambda>_.
                  ret_io [(''ok'', JBool True), (''alert_id'', JStr (na_alert_id alert)),
                          (''source'', JStr (source_value src))])))))"

text \<open>FastAPI admits at most 500 items.\<close>

definition batch_body_valid :: "(string \<times> jdict) list \<Rightarrow> bool" where
  "batch_body_valid items \<longleftrightarrow> length items \<le> 500"

definition ingest_batch :: "'w api_env \<Rightarrow> http_request \<Rightarrow> (string \<times> jdict) list \<Rightarrow> ('w, jdict) api" where
  "ingest_batch env rq items =
     bind_io (require_key env rq) (\<lambda>_.
     bind_io (map_io (ingest_row env) items) (\<lambda>results.
       ret_io
         [(''accepted'', JInt (int (length (filter (\<lambda>r. truthy (dict_get r ''ok'' JNull)) results)))),
          (''total'', JInt (int (length items))),
          (''results'', JList (map JDict results))]))"

definition ingest_alert_auto :: "'w api_env \<Rightarrow> http_request \<Rightarrow> ('w, jdict) api" where
  "ingest_alert_auto env rq =
     bind_io (require_key env rq) (\<lambda>_.
     bind_io (of_result (check_payload_size (length (rq_body rq)))) (\<lambda>_.
     bind_io (of_result (read_payload env rq)) (\<lambda>payload.
     bind_io
       (try_io
         (on_world (resolve_alert_for_auto_ingest (ae_ingest env) payload
            (Some (st_auto_ingest_coerce_llm (ae_settings env)))))
         (\<lambda>exc. raise_io (HTTPException 422 (''Normalisation failed: '' @ exn_str exc)))) (\<lambda>alert.
     bind_io (accept_alert env alert payload) (\<lambda>_.
       ret_io [(''alert_id'', JStr (na_alert_id alert)),
               (''detected_source'', JStr (source_value (na_source alert))),
               (''status'', JStr ''queued'')])))))"

definition ingest_alert :: "'w api_env \<Rightarrow> string \<Rightarrow> http_request \<Rightarrow> ('w, jdict) api" where
  "ingest_alert env source rq =
     bind_io (require_key env rq) (\<lambda>_.
     bind_io (of_result (check_payload_size (length (rq_body rq)))) (\<lambda>_.
     (case source_of (str_lower source) of
        Inl e \<Rightarrow>
          raise_io (HTTPException 400 (unknown_source source @ ''. Valid: '' @
            py_repr (float_repr (ae_lib env))
              (JList (map (JStr \<circ> source_value) [SPLUNK, CROWDSTRIKE, AWS_GUARDDUTY, SENTINEL, GENERIC]))))
      | Inr src \<Rightarrow>
          bind_io (of_result (read_payload env rq)) (\<lambda>payload.
          bind_io
            (try_io (normalise env src payload)
              (\<lambda>exc. raise_io (HTTPException 422 (''Failed to normalise alert: '' @ exn_str exc)))) (\<lambda>alert.
          bind_io (accept_alert env alert payload) (\<lambda>_.
            ret_io [(''alert_id'', JStr (na_alert_id alert)), (''status'', JStr ''queued''),
                    (''message'', JStr ''Alert accepted. Triage running asynchronously.'')]))))))"

subsection \<open>Retrieval\<close>

text \<open>
  What \<open>request.state.auth\<close> holds after the forwarded token was looked at; \<open>_verified_tenant_id\<close>
  is its tenant.
\<close>

definition a_attach_token :: "http_request \<Rightarrow> ('w, auth_context option) api" where
  "a_attach_token rq =
     on_state (\<lambda>s. attach_verified_service_token (api_runtime s) (header_get (rq_headers rq) ''Authorization''))
       (\<lambda>rt s. s\<lparr>api_runtime := rt\<rparr>)"

definition verified_tenant_id :: "auth_context option \<Rightarrow> string option" where
  "verified_tenant_id auth = map_option au_tenant_id auth"

definition cross_tenant :: "bool \<Rightarrow> string option \<Rightarrow> triage_verdict \<Rightarrow> bool" where
  "cross_tenant required verified_tenant verdict \<longleftrightarrow>
     required \<and> verified_tenant \<noteq> None \<and> tv_tenant_id verdict \<noteq> None \<and> verified_tenant \<noteq> tv_tenant_id verdict"

definition job_failed :: "json \<Rightarrow> exn + bool" where
  "job_failed job =
     (if truthy job then bind_r (attr_get job ''status'' JNull) (\<lambda>s. Inr (s = JStr ''failed'')) else Inr False)"

definition or_null :: "json option \<Rightarrow> json" where
  "or_null v = (case v of None \<Rightarrow> JNull | Some x \<Rightarrow> x)"

definition api_get_verdict :: "'w api_env \<Rightarrow> string \<Rightarrow> http_request \<Rightarrow> ('w, response) api" where
  "api_get_verdict env alert_id rq =
     (let required = st_verdict_auth_required (ae_settings env);
          headers = (if required then []
            else [(''Deprecation'', ''true''), (''Sunset'', st_sunset (ae_settings env))]) in
      bind_io (a_attach_token rq) (\<lambda>auth.
      bind_io (if required then require_key env rq else ret_io ()) (\<lambda>_.
      bind_io (a_get_verdict env alert_id) (\<lambda>verdict.
      (case verdict of
         Some v \<Rightarrow>
           if cross_tenant required (verified_tenant_id auth) v
           then raise_io (HTTPException 403 ''forbidden'')
           else ret_io \<lparr>rs_content = JDict [(''alert_id'', JStr alert_id), (''status'', JStr ''complete''),
                  (''verdict'', scrubbed env v)], rs_headers = headers\<rparr>
       | None \<Rightarrow>
           bind_io (a_get_job env alert_id) (\<lambda>job.
           bind_io (of_result (job_failed (or_null job))) (\<lambda>failed.
           if failed then
             bind_io (of_result (attr_get (or_null job) ''error'' JNull)) (\<lambda>err.
               ret_io \<lparr>rs_content = JDict [(''alert_id'', JStr alert_id), (''status'', JStr ''failed''),
                  (''error'', err)], rs_headers = headers\<rparr>)
           else
             bind_io (a_get_alert env alert_id) (\<lambda>alert.
             if alert \<noteq> None then
               ret_io \<lparr>rs_content = JDict [(''alert_id'', JStr alert_id), (''status'', JStr ''processing'')],
                  rs_headers = headers\<rparr>
             else raise_io (HTTPException 404 (''No verdict found for alert_id='' @ alert_id))))))))))"

text \<open>The coercion trace is looked up only for an alert that has a verdict.\<close>

definition coercion_trace_of :: "'w api_env \<Rightarrow> string \<Rightarrow> triage_verdict option \<Rightarrow> ('w, string option) api" where
  "coercion_trace_of env alert_id verdict =
     (case verdict of
        None \<Rightarrow> ret_io None
      | Some v \<Rightarrow>
          bind_io (a_get_alert env alert_id) (\<lambda>alert.
            ret_io (case alert of None \<Rightarrow> None | Some a \<Rightarrow> na_coercion_trace_id a)))"

definition get_audit_bundle :: "'w api_env \<Rightarrow> string \<Rightarrow> http_request \<Rightarrow> ('w, jdict) api" where
  "get_audit_bundle env alert_id rq =
     bind_io (require_key env rq) (\<lambda>_.
     bind_io (reads (\<lambda>s. ret_io (Option.bind (api_runtime s) rt_audit))) (\<lambda>audit.
     (case audit of
        None \<Rightarrow> raise_io (HTTPException 503 ''audit store not configured'')
      | Some st \<Rightarrow>
          bind_io (a_get_verdict env alert_id) (\<lambda>verdict.
          bind_io (coercion_trace_of env alert_id verdict) (\<lambda>trace.
          bind_io (on_world (audit_get_bundle (ae_lib env) st alert_id trace)) (\<lambda>bundle.
          if dict_get bundle ''raw_payload'' JNull = JNull \<and> dict_get bundle ''coercion'' JNull = JNull
          then raise_io (HTTPException 404 ''no audit data for alert_id'')
          else ret_io (AList.update ''verdict_summary''
                 (case verdict of None \<Rightarrow> JNull | Some v \<Rightarrow> scrubbed env v) bundle)))))))"

definition api_get_alert :: "'w api_env \<Rightarrow> string \<Rightarrow> http_request \<Rightarrow> ('w, jdict) api" where
  "api_get_alert env alert_id rq =
     bind_io (require_key env rq) (\<lambda>_.
     bind_io (a_get_alert env alert_id) (\<lambda>alert.
     (case alert of
        None \<Rightarrow> raise_io (HTTPException 404 ''Alert not found'')
      | Some a \<Rightarrow> ret_io (ae_dump_alert env a))))"

text \<open>
  The sequencer is made anew for the request: without Redis its counters are empty.
\<close>

definition get_alert_snapshot :: "'w api_env \<Rightarrow> string \<Rightarrow> http_request \<Rightarrow> ('w, jdict) api" where
  "get_alert_snapshot env alert_id rq =
     bind_io (require_key env rq) (\<lambda>_.
     bind_io (a_get_verdict env alert_id) (\<lambda>verdict.
     bind_io (a_get_job env alert_id) (\<lambda>job.
     bind_io (of_result (if verdict \<noteq> None then Inr (JStr ''done'')
         else (case job of None \<Rightarrow> Inr JNull | Some j \<Rightarrow> attr_get j ''status'' JNull))) (\<lambda>phase.
     bind_io (try_io
         (on_world (current_seq (EventSequencer_init (ae_from_url env) (st_redis_url (ae_settings env))
            SEQ_DEFAULT_TTL_SEC) [] alert_id))
         (\<lambda>exc. ret_io 0)) (\<lambda>last_seq.
       ret_io [(''alert_id'', JStr alert_id), (''last_seq'', JInt last_seq), (''current_phase'', phase)])))))"

definition dict_merge :: "jdict \<Rightarrow> jdict \<Rightarrow> jdict" where
  "dict_merge a b = fold (\<lambda>(k, v). AList.update k v) b a"

definition get_job_status :: "'w api_env \<Rightarrow> string \<Rightarrow> http_request \<Rightarrow> ('w, jdict) api" where
  "get_job_status env alert_id rq =
     bind_io (require_key env rq) (\<lambda>_.
     bind_io (a_get_job env alert_id) (\<lambda>job.
     if truthy (or_null job) then
       (case or_null job of
          JDict d \<Rightarrow> ret_io (dict_merge [(''alert_id'', JStr alert_id)] d)
        | _ \<Rightarrow> raise_io (TypeError ''not a mapping''))
     else
       bind_io (a_get_alert env alert_id) (\<lambda>alert.
       bind_io (if alert \<noteq> None then ret_io True
                else bind_io (a_get_verdict env alert_id) (\<lambda>v. ret_io (v \<noteq> None))) (\<lambda>known.
       if known then ret_io [(''alert_id'', JStr alert_id), (''status'', JStr ''unknown'')]
       else raise_io (HTTPException 404 ''Job not found'')))))"

subsection \<open>The event stream\<close>

definition STREAM_POLL_SEC :: rat where
  "STREAM_POLL_SEC = 1 / 4"

definition STREAM_MAX_TICKS :: nat where
  "STREAM_MAX_TICKS = 1200"

text \<open>One line of the stream: \<open>data: {...}\<close> and a blank line.\<close>

definition sse :: "'w api_env \<Rightarrow> jdict \<Rightarrow> string" where
  "sse env event = ''data: '' @ json_dumps (ae_lib env) (JDict event) @ [CHR 0x0A, CHR 0x0A]"

definition ev_open :: "string \<Rightarrow> jdict" where
  "ev_open alert_id = [(''phase'', JStr ''open''), (''alert_id'', JStr alert_id)]"

definition ev_timeout :: "string \<Rightarrow> jdict" where
  "ev_timeout alert_id = [(''phase'', JStr ''timeout''), (''alert_id'', JStr alert_id)]"

definition ev_error :: "exn \<Rightarrow> jdict" where
  "ev_error exc = [(''phase'', JStr ''error''), (''error'', JStr (exn_str exc))]"

text \<open>One look at the verdict and the job: the event, and whether it is the last one.\<close>

definition poll_once :: "'w api_env \<Rightarrow> string \<Rightarrow> ('w, jdict \<times> bool) api" where
  "poll_once env alert_id =
     bind_io (a_get_verdict env alert_id) (\<lambda>verdict.
     (case verdict of
        Some v \<Rightarrow> ret_io ([(''phase'', JStr ''complete''), (''verdict'', scrubbed env v)], True)
      | None \<Rightarrow>
          bind_io (a_get_job env alert_id) (\<lambda>job.
          let job = py_or (or_null job) (JDict []) in
          bind_io (of_result (attr_get job ''status'' JNull)) (\<lambda>st.
          if st = JStr ''failed'' then
            bind_io (of_result (attr_get job ''error'' JNull)) (\<lambda>err.
              ret_io ([(''phase'', JStr ''failed''), (''error'', err)], True))
          else ret_io ([(''phase'', py_or st (JStr ''unknown'')), (''alert_id'', JStr alert_id)], False)))))"

text \<open>
  The events after the first one. An exception ends the stream with an error event, whether a look
  or the sleep after it raised.
\<close>

fun stream_ticks :: "nat \<Rightarrow> 'w api_env \<Rightarrow> string \<Rightarrow> ('w, jdict list) api" where
  "stream_ticks 0 env alert_id = ret_io [ev_timeout alert_id]"
| "stream_ticks (Suc n) env alert_id =
     bind_io (catch_io (poll_once env alert_id)) (\<lambda>res.
     (case res of
        Inl exc \<Rightarrow> ret_io [ev_error exc]
      | Inr (ev, finished) \<Rightarrow>
          if finished then ret_io [ev]
          else
            bind_io (catch_io (ae_sleep env STREAM_POLL_SEC)) (\<lambda>slept.
            (case slept of
               Inl exc \<Rightarrow> ret_io [ev, ev_error exc]
             | Inr u \<Rightarrow> bind_io (stream_ticks n env alert_id) (\<lambda>evs. ret_io (ev # evs))))))"

definition stream_triage_events :: "'w api_env \<Rightarrow> string \<Rightarrow> http_request \<Rightarrow> ('w, string list) api" where
  "stream_triage_events env alert_id rq =
     bind_io (require_key env rq) (\<lambda>_.
     bind_io (stream_ticks STREAM_MAX_TICKS env alert_id) (\<lambda>evs.
       ret_io (map (sse env) (ev_open alert_id # evs))))"

subsection \<open>Feedback and metrics\<close>

record feedback_body =
  bd_alert_id :: string
  bd_analyst_decision :: escalation_decision
  bd_original_verdict :: "escalation_decision option"
  bd_comment :: string
  bd_analyst_id :: string

definition original_decision :: "'w api_env \<Rightarrow> feedback_body \<Rightarrow> ('w, escalation_decision) api" where
  "original_decision env body =
     (case bd_original_verdict body of
        Some d \<Rightarrow> ret_io d
      | None \<Rightarrow>
          bind_io (a_get_verdict env (bd_alert_id body)) (\<lambda>verdict.
          (case verdict of
             None \<Rightarrow> raise_io (HTTPException 404 ''No stored verdict for alert_id; pass original_verdict explicitly'')
           | Some v \<Rightarrow> ret_io (tv_escalation v))))"

definition post_verdict_feedback :: "'w api_env \<Rightarrow> feedback_body \<Rightarrow> http_request \<Rightarrow> ('w, jdict) api" where
  "post_verdict_feedback env body rq =
     bind_io (require_key env rq) (\<lambda>_.
     bind_io (original_decision env body) (\<lambda>orig.
     bind_io (a_now env) (\<lambda>now.
     bind_io (modify (\<lambda>s. s\<lparr>api_feedback := record_feedback now (bd_alert_id body) (escalation_value orig)
         (escalation_value (bd_analyst_decision body)) (bd_comment body) (bd_analyst_id body)
         (api_feedback s)\<rparr>)) (\<lambda>_.
       ret_io [(''status'', JStr ''recorded'')]))))"

definition health :: jdict where
  "health = [(''status'', JStr ''ok''), (''service'', JStr ''soc-triage-agent'')]"

definition pipeline_json :: "pipeline_metrics \<Rightarrow> json" where
  "pipeline_json m = JDict
     [(''alerts_received'', JInt (pm_alerts_received m)),
      (''verdicts_generated'', JInt (pm_verdicts_generated m)),
      (''errors'', JInt (pm_errors m)),
      (''avg_latency_ms'', JFloat (pm_avg_latency_ms m))]"

definition metrics :: "'w api_env \<Rightarrow> http_request \<Rightarrow> ('w, jdict) api" where
  "metrics env rq =
     bind_io (require_key env rq) (\<lambda>_.
     reads (\<lambda>s. (let sizes = store_sizes (api_store s) in ret_io
       [(''pipeline'', pipeline_json (api_metrics s)),
        (''verdict_store_size'', dict_get sizes ''verdict_count'' JNull),
        (''alert_store_size'', dict_get sizes ''alert_count'' JNull),
        (''persistence_backend'', dict_get sizes ''backend'' JNull)])))"

end
