(* ===== verification/Api_Guarantees.thy ===== *)
theory Api_Guarantees
  imports Api
begin

section \<open>What the REST API guarantees\<close>

text \<open>
  The requests of the API as a datatype, their handling in sequence, and the properties of that:
  the key check, the bookkeeping of metrics and costs, the fate of a background run, tenant
  isolation of verdicts, the event stream. Requests are served one after another; the overlap of
  handlers at their \<open>await\<close>s is not modelled, except for what happens while the event stream
  sleeps, which is a parameter.
\<close>

datatype api_request =
    Post_Batch "(string \<times> jdict) list" | Post_Auto | Post_Source string
  | Get_Verdict string | Get_Audit string | Get_Alert string | Get_Snapshot string | Get_Job string
  | Get_Stream string | Post_Feedback feedback_body | Get_Health | Get_Metrics

definition answer :: "('a \<Rightarrow> json) \<Rightarrow> ('w, 'a) api \<Rightarrow> ('w, json) api" where
  "answer f m = bind_io m (\<lambda>x. ret_io (f x))"

fun handle :: "'w api_env \<Rightarrow> api_request \<Rightarrow> http_request \<Rightarrow> ('w, json) api" where
  "handle env (Post_Batch items) rq = answer JDict (ingest_batch env rq items)"
| "handle env Post_Auto rq = answer JDict (ingest_alert_auto env rq)"
| "handle env (Post_Source source) rq = answer JDict (ingest_alert env source rq)"
| "handle env (Get_Verdict a) rq = answer rs_content (api_get_verdict env a rq)"
| "handle env (Get_Audit a) rq = answer JDict (get_audit_bundle env a rq)"
| "handle env (Get_Alert a) rq = answer JDict (api_get_alert env a rq)"
| "handle env (Get_Snapshot a) rq = answer JDict (get_alert_snapshot env a rq)"
| "handle env (Get_Job a) rq = answer JDict (get_job_status env a rq)"
| "handle env (Get_Stream a) rq = answer (\<lambda>ls. JList (map JStr ls)) (stream_triage_events env a rq)"
| "handle env (Post_Feedback body) rq = answer JDict (post_verdict_feedback env body rq)"
| "handle env Get_Health rq = ret_io (JDict health)"
| "handle env Get_Metrics rq = answer JDict (metrics env rq)"

fun api_run :: "'w api_env \<Rightarrow> (api_request \<times> http_request) list \<Rightarrow> ('w, (exn + json) list) api" where
  "api_run env [] = ret_io []"
| "api_run env ((r, rq) # rs) =
     bind_io (serve env (handle env r rq)) (\<lambda>res. bind_io (api_run env rs) (\<lambda>rest. ret_io (res # rest)))"

subsection \<open>The bookkeeping\<close>

definition core :: "'w api_state \<Rightarrow> pipeline_metrics \<times> cost_tracker" where
  "core s = (api_metrics s, api_costs s)"

lemma core_simps [simp]:
  "core (s\<lparr>api_store := ap\<rparr>) = core s" "core (s\<lparr>api_runtime := rt\<rparr>) = core s"
  "core (s\<lparr>api_tasks := ts\<rparr>) = core s" "core (s\<lparr>api_feedback := fs\<rparr>) = core s"
  by (simp_all add: core_def)

abbreviation keeps_core :: "('w, 'a) api \<Rightarrow> bool" where
  "keeps_core \<equiv> keeps (\<lambda>ws. core (snd ws))"

lemma keeps_core_services [keeps_intros]:
  "keeps_core (a_put_alert env alert)" "keeps_core (a_put_verdict env a v)"
  "keeps_core (a_set_job env a st e)" "keeps_core (a_get_alert env a)" "keeps_core (a_get_verdict env a)"
  "keeps_core (a_get_job env a)" "keeps_core (a_now env)" "keeps_core (a_attach_token rq)"
  unfolding a_put_alert_def a_put_verdict_def a_set_job_def a_get_alert_def a_get_verdict_def
    a_get_job_def a_now_def a_attach_token_def
  by (intro keeps_on_state keeps_reads keeps_on_world core_simps)+

lemma keeps_core_notify [keeps_intros]: "keeps_core (notify_triage_webhook env a v)"
  unfolding notify_triage_webhook_def Let_def by (intro keeps_intros)

lemma no_raise_notify: "no_raise (notify_triage_webhook env a v)"
  unfolding notify_triage_webhook_def Let_def by (intro no_raise_intros)

lemma no_raise_a_now: "no_raise (a_now env)"
  unfolding a_now_def
  by (rule no_raise_on_world, rule no_raiseI) (simp add: draw_def split: prod.splits)

text \<open>A completed run does its bookkeeping as a whole; before it, nothing is counted.\<close>

lemma complete_run_core:
  "\<exists>ts ws'. complete_run env alert v e (w, s) = (Inr (), ws')
    \<and> core (snd ws') = core (record_cost alert v e ts (count_verdict e s))"
proof -
  obtain ts ws1 where now: "a_now env (w, count_verdict e s) = (Inr ts, ws1)"
    using no_raise_a_now by (rule no_raiseE)
  then have c1: "core (snd ws1) = core (count_verdict e s)"
    using keepsD [OF keeps_core_services(7) now] by simp
  obtain w1 s1 where ws1: "ws1 = (w1, s1)" by fastforce
  obtain u ws2 where post: "notify_triage_webhook env (na_alert_id alert) v (w1, record_cost alert v e ts s1)
      = (Inr u, ws2)"
    using no_raise_notify by (rule no_raiseE)
  have "core (snd ws2) = core (record_cost alert v e ts s1)"
    using keepsD [OF keeps_core_notify post] by simp
  also have "\<dots> = core (record_cost alert v e ts (count_verdict e s))"
    using c1 ws1 by (simp add: core_def record_cost_def)
  finally show ?thesis
    using now ws1 post by (intro exI [of _ ts] exI [of _ ws2]) (simp add: complete_run_def)
qed

lemma attempt_core:
  assumes "triage_attempt env alert start ws = (res, ws')"
  shows "(\<exists>e. res = Inl e \<and> core (snd ws') = core (snd ws))
    \<or> (\<exists>e v ts. res = Inr () \<and> core (snd ws') = core (record_cost alert v e ts (count_verdict e (snd ws))))"
proof -
  let ?id = "na_alert_id alert"
  let ?m = "bind_io (on_world (run_triage (ae_pipeline env) alert)) (\<lambda>v. bind_io (a_now env) (\<lambda>now.
     let e = trunc_rat ((now - start) * 1000) in
     bind_io (a_put_verdict env ?id v) (\<lambda>_. bind_io (a_set_job env ?id ''complete'' None) (\<lambda>_. ret_io (v, e)))))"
  have split: "triage_attempt env alert start ws = bind_io ?m (\<lambda>(v, e). complete_run env alert v e) ws"
    unfolding triage_attempt_def
    by (simp add: bind_io_def Let_def split: prod.splits sum.splits)
  have k: "keeps_core ?m" unfolding Let_def by (intro keeps_intros)
  obtain r ws1 where m: "?m ws = (r, ws1)" by (rule prod.exhaust)
  have c: "core (snd ws1) = core (snd ws)" using keepsD [OF k m] .
  show ?thesis
  proof (cases r)
    case (Inl e)
    with split m assms c show ?thesis by (simp add: bind_io_def)
  next
    case (Inr ve)
    obtain v e where ve: "ve = (v, e)" by fastforce
    obtain ts ws2 where f: "complete_run env alert v e ws1 = (Inr (), ws2)"
      "core (snd ws2) = core (record_cost alert v e ts (count_verdict e (snd ws1)))"
      using complete_run_core [of env alert v e "fst ws1" "snd ws1"] by auto
    have "core (record_cost alert v e ts (count_verdict e (snd ws1)))
        = core (record_cost alert v e ts (count_verdict e (snd ws)))"
      using c by (simp add: core_def record_cost_def count_verdict_def Let_def)
    with split m assms Inr ve f show ?thesis by (auto simp: bind_io_def)
  qed
qed

text \<open>
  The verdict counter is the number of recorded runs, the average latency their mean, the tool
  counters count the tools of the runs, and no more verdicts and errors than received alerts.
\<close>

definition metrics_agree :: "'w api_state \<Rightarrow> bool" where
  "metrics_agree s \<longleftrightarrow>
     (let m = api_metrics s; xs = map run_elapsed_ms (ct_runs (api_costs s)) in
      pm_verdicts_generated m = int (length xs)
      \<and> pm_avg_latency_ms m * of_nat (length xs) = of_int (sum_list xs)
      \<and> pm_verdicts_generated m + pm_errors m \<le> pm_alerts_received m
      \<and> counts_agree (api_costs s))"

lemma metrics_agree_core: "core s' = core s \<Longrightarrow> metrics_agree s' = metrics_agree s"
  by (simp add: metrics_agree_def core_def)

lemma count_received_step:
  "metrics_agree s \<Longrightarrow> metrics_agree (count_received s)"
  "metrics_agree s \<Longrightarrow> metrics_agree (count_error (count_received s))"
  by (simp_all add: metrics_agree_def count_received_def count_error_def Let_def)

lemma mean_step: "(avg * ((n + 1) - 1) + x) / (n + 1) * (n + 1) = avg * n + (x :: rat)" if "0 \<le> n"
  using that by simp

lemma count_verdict_step:
  assumes "metrics_agree s"
  shows "metrics_agree (record_cost alert v e ts (count_verdict e (count_received s)))"
proof -
  let ?xs = "map run_elapsed_ms (ct_runs (api_costs s))"
  have v: "pm_verdicts_generated (api_metrics s) = int (length ?xs)"
    and avg: "pm_avg_latency_ms (api_metrics s) * of_nat (length ?xs) = of_int (sum_list ?xs)"
    and le: "pm_verdicts_generated (api_metrics s) + pm_errors (api_metrics s) \<le> pm_alerts_received (api_metrics s)"
    and c: "counts_agree (api_costs s)"
    using assms by (simp_all add: metrics_agree_def Let_def)
  have "(pm_avg_latency_ms (api_metrics s) * ((of_nat (length ?xs) + 1) - 1) + of_int e)
      / (of_nat (length ?xs) + 1) * (of_nat (length ?xs) + 1) = of_int (sum_list ?xs + e)"
    using mean_step [of "of_nat (length ?xs)" "pm_avg_latency_ms (api_metrics s)" "of_int e"] avg by simp
  moreover have "counts_agree (record_triage ts (na_alert_id alert) (tv_tools_called v) e
      (severity_value (tv_severity v)) 0 0 (api_costs s))"
    using c by (rule counts_agree_record)
  ultimately show ?thesis
    using v le
    by (simp add: metrics_agree_def record_cost_def count_verdict_def count_received_def Let_def
        record_triage_def add.commute)
qed

lemma count_steps_core:
  "core s' = core s \<Longrightarrow> core (count_received s') = core (count_received s)"
  "core s' = core s \<Longrightarrow> core (count_error s') = core (count_error s)"
  "core s' = core s \<Longrightarrow>
     core (record_cost alert v e ts (count_verdict e s')) = core (record_cost alert v e ts (count_verdict e s))"
  by (simp_all add: core_def count_received_def count_error_def count_verdict_def record_cost_def Let_def)

text \<open>The three ways a background run can go, for the bookkeeping.\<close>

lemma background_core:
  assumes "run_triage_background env alert ws = (res, ws')"
  shows "core (snd ws') = core (count_received (snd ws))
    \<or> core (snd ws') = core (count_error (count_received (snd ws)))
    \<or> (\<exists>e v ts. core (snd ws') = core (record_cost alert v e ts (count_verdict e (count_received (snd ws)))))"
proof -
  let ?id = "na_alert_id alert"
  obtain start ws1 where now: "a_now env ws = (Inr start, ws1)" using no_raise_a_now by (rule no_raiseE)
  obtain w1 s1 where ws1: "ws1 = (w1, s1)" by (rule prod.exhaust)
  have c1: "core (count_received s1) = core (count_received (snd ws))"
    using keepsD [OF keeps_core_services(7) now] ws1 by (intro count_steps_core(1)) simp
  obtain r ws2 where job: "a_set_job env ?id ''running'' None (w1, count_received s1) = (r, ws2)"
    by (rule prod.exhaust)
  have c2: "core (snd ws2) = core (count_received (snd ws))"
    using keepsD [OF keeps_core_services(3) job] c1 by simp
  show ?thesis
  proof (cases r)
    case (Inl e)
    with assms now ws1 job c2 show ?thesis by (simp add: run_triage_background_def)
  next
    case (Inr u)
    obtain r3 ws3 where att: "triage_attempt env alert start ws2 = (r3, ws3)" by (rule prod.exhaust)
    from attempt_core [OF att] show ?thesis
    proof (elim disjE exE conjE)
      fix e assume r3: "r3 = Inl e" and c3: "core (snd ws3) = core (snd ws2)"
      obtain w3 s3 where ws3: "ws3 = (w3, s3)" by (rule prod.exhaust)
      have "a_set_job env ?id ''failed'' (Some (exn_str e)) (w3, count_error s3) = (res, ws')"
        using assms now ws1 job Inr att r3 ws3 by (simp add: run_triage_background_def)
      then have "core (snd ws') = core (count_error s3)"
        using keepsD [OF keeps_core_services(3)] by fastforce
      also have "\<dots> = core (count_error (count_received (snd ws)))"
        using c2 c3 ws3 by (intro count_steps_core(2)) simp
      finally show ?thesis by blast
    next
      fix e v ts
      assume r3: "r3 = Inr ()" and c3: "core (snd ws3) = core (record_cost alert v e ts (count_verdict e (snd ws2)))"
      have "ws' = ws3" using assms now ws1 job Inr att r3 by (simp add: run_triage_background_def)
      with c3 count_steps_core(3) [OF c2] show ?thesis by metis
    qed
  qed
qed

abbreviation agrees :: "('w, 'a) api \<Rightarrow> bool" where
  "agrees \<equiv> preserves (\<lambda>ws. metrics_agree (snd ws))"

lemma background_agrees: "agrees (run_triage_background env alert)"
  unfolding preserves_def
proof (intro allI impI)
  fix ws :: "'a \<times> 'a api_state"
  assume m: "metrics_agree (snd ws)"
  obtain res ws' where r: "run_triage_background env alert ws = (res, ws')" by (rule prod.exhaust)
  from background_core [OF r] have "metrics_agree (snd ws')"
    using metrics_agree_core count_received_step [OF m] count_verdict_step [OF m] by metis
  with r show "metrics_agree (snd (snd (run_triage_background env alert ws)))" by simp
qed

lemma agrees_keeps: "keeps_core m \<Longrightarrow> agrees m"
  unfolding preserves_def keeps_def by (metis metrics_agree_core)

lemma keeps_core_dispatch [keeps_intros]: "keeps_core (dispatch_triage env alert)"
  unfolding dispatch_triage_def
  by (intro keeps_intros keeps_on_state keeps_modify) (simp_all add: core_def add_task_def)

lemma keeps_core_accept [keeps_intros]: "keeps_core (accept_alert env alert payload)"
  unfolding accept_alert_def by (intro keeps_intros)

lemma keeps_core_require [keeps_intros]: "keeps_core (require_key env rq)"
  unfolding require_key_def by (intro keeps_intros)

lemma keeps_core_normalise [keeps_intros]: "keeps_core (normalise env src p)"
  unfolding normalise_def by (intro keeps_intros)

lemma keeps_core_row [keeps_intros]: "keeps_core (ingest_row env row)"
  unfolding ingest_row_def Let_def by (auto split: sum.split intro!: keeps_intros)

lemma keeps_core_ingest [keeps_intros]:
  "keeps_core (ingest_batch env rq items)" "keeps_core (ingest_alert_auto env rq)"
  "keeps_core (ingest_alert env src rq)"
  unfolding ingest_batch_def ingest_alert_auto_def ingest_alert_def
  by (auto split: sum.split intro!: keeps_intros)

lemma keeps_core_trace [keeps_intros]: "keeps_core (coercion_trace_of env a v)"
  unfolding coercion_trace_of_def by (auto split: option.split intro!: keeps_intros)

lemma keeps_core_retrieval [keeps_intros]:
  "keeps_core (api_get_verdict env a rq)" "keeps_core (get_audit_bundle env a rq)"
  "keeps_core (api_get_alert env a rq)" "keeps_core (get_alert_snapshot env a rq)"
  "keeps_core (get_job_status env a rq)" "keeps_core (poll_once env a)"
  "keeps_core (metrics env rq)"
  unfolding api_get_verdict_def get_audit_bundle_def api_get_alert_def get_alert_snapshot_def
    get_job_status_def poll_once_def metrics_def Let_def
  by (auto split: option.split json.split intro!: keeps_intros)

lemma keeps_core_feedback [keeps_intros]: "keeps_core (post_verdict_feedback env body rq)"
  unfolding post_verdict_feedback_def original_decision_def
  by (auto split: option.split intro!: keeps_intros keeps_modify)

lemmas agrees_handlers = agrees_keeps [OF keeps_core_require] agrees_keeps [OF keeps_core_ingest(1)]
  agrees_keeps [OF keeps_core_ingest(2)] agrees_keeps [OF keeps_core_ingest(3)]
  keeps_core_retrieval [THEN agrees_keeps] keeps_core_feedback [THEN agrees_keeps]
  keeps_reads [THEN agrees_keeps]

lemma agrees_ticks:
  assumes "\<And>t. agrees (ae_sleep env t)"
  shows "agrees (stream_ticks n env a)"
  using assms
  by (induction n) (auto split: sum.split intro!: preserves_intros agrees_handlers)

lemma agrees_stream:
  "(\<And>t. agrees (ae_sleep env t)) \<Longrightarrow> agrees (stream_triage_events env a rq)"
  unfolding stream_triage_events_def by (intro preserves_intros agrees_ticks agrees_handlers)

lemma agrees_handle:
  "(\<And>t. agrees (ae_sleep env t)) \<Longrightarrow> agrees (handle env r rq)"
  by (cases r) (auto simp: answer_def intro!: preserves_intros agrees_stream agrees_handlers)

lemma agrees_tasks: "agrees (run_tasks env as)"
proof (induction as)
  case Nil
  show ?case unfolding run_tasks.simps by (rule preserves_ret)
next
  case (Cons a as)
  then show ?case unfolding run_tasks.simps by (intro preserves_bind background_agrees)
qed

lemma agrees_serve:
  assumes "agrees m"
  shows "agrees (serve env m)"
proof -
  have "agrees (modify (\<lambda>s. s\<lparr>api_tasks := []\<rparr>))" by (intro agrees_keeps keeps_modify core_simps)
  with assms show ?thesis unfolding serve_def
    by (auto split: sum.split intro!: preserves_intros agrees_tasks agrees_handlers)
qed

lemma agrees_run:
  "(\<And>t. agrees (ae_sleep env t)) \<Longrightarrow> agrees (api_run env reqs)"
proof (induction env reqs rule: api_run.induct)
  case (1 env)
  show ?case unfolding api_run.simps by (rule preserves_ret)
next
  case (2 env r rq rs)
  from 2(1) [OF 2(2)] 2(2) show ?case unfolding api_run.simps
    by (intro preserves_bind preserves_ret agrees_serve agrees_handle)
qed

subsection \<open>The services over a working store\<close>

text \<open>The clock and the webhook leave the keys of Redis alone.\<close>

definition api_frame :: "'w api_env \<Rightarrow> ('w \<Rightarrow> kv) \<Rightarrow> bool" where
  "api_frame env kv \<longleftrightarrow> (\<forall>w. kv (snd (ae_time env w)) = kv w) \<and> (\<forall>u v w. kv (snd (ae_post env u v w)) = kv w)"

lemma a_now_done:
  assumes "api_frame env kv"
  obtains t w' where "a_now env (w, s) = (Inr t, (w', s))" "kv w' = kv w"
proof -
  obtain t w' where t: "ae_time env w = (t, w')" by (rule prod.exhaust)
  then have "kv w' = kv w" using assms unfolding api_frame_def by (metis snd_conv)
  with t show thesis by (intro that [of t w']) (simp_all add: a_now_def on_world_def draw_def)
qed

lemma a_set_job_done:
  assumes "store_ok kv p (api_store s)"
  obtains w' ap' where "a_set_job env i st e (w, s) = (Inr (), (w', s\<lparr>api_store := ap'\<rparr>))" "store_ok kv p ap'"
    "holds_job kv (ae_lib env) ap' w' i st e"
    "\<And>a. holds_alert kv co (api_store s) w a \<Longrightarrow> holds_alert kv co ap' w' a"
    "\<And>j v. holds_verdict kv co (api_store s) w j v \<Longrightarrow> holds_verdict kv co ap' w' j v"
  by (rule set_job_done [OF assms, of "ae_lib env" i st e w co])
    (simp add: a_set_job_def on_state_def that)

lemma a_put_verdict_done:
  assumes "store_ok kv p (api_store s)"
  obtains w' ap' where "a_put_verdict env i v (w, s) = (Inr (), (w', s\<lparr>api_store := ap'\<rparr>))" "store_ok kv p ap'"
    "holds_verdict kv (ae_codec env) ap' w' i v"
  by (rule put_verdict_done [OF assms, of "ae_codec env" i v w])
    (simp add: a_put_verdict_def on_state_def that)

lemma a_put_alert_done:
  assumes "store_ok kv p (api_store s)"
  obtains w' ap' where "a_put_alert env a (w, s) = (Inr (), (w', s\<lparr>api_store := ap'\<rparr>))" "store_ok kv p ap'"
    "holds_alert kv (ae_codec env) ap' w' a"
  by (rule put_alert_done [OF assms, of "ae_codec env" a w])
    (simp add: a_put_alert_def on_state_def that)

lemma a_reads:
  assumes "store_ok kv p (api_store s)"
  shows "codec_ok (ae_codec env) \<Longrightarrow> holds_alert kv (ae_codec env) (api_store s) w a
      \<Longrightarrow> fst (a_get_alert env (na_alert_id a) (w, s)) = Inr (Some a)"
    and "codec_ok (ae_codec env) \<Longrightarrow> holds_verdict kv (ae_codec env) (api_store s) w i v
      \<Longrightarrow> fst (a_get_verdict env i (w, s)) = Inr (Some v)"
    and "jobs_ok (ae_lib env) \<Longrightarrow> holds_job kv (ae_lib env) (api_store s) w i st e
      \<Longrightarrow> fst (a_get_job env i (w, s)) = Inr (Some (job_record st e))"
  using held_reads [OF assms]
  by (auto simp: a_get_alert_def a_get_verdict_def a_get_job_def reads_eq split: prod.splits)
    (metis fst_conv)+

lemma notify_done:
  assumes "api_frame env kv"
  obtains w' where "notify_triage_webhook env i v (w, s) = (Inr (), (w', s))" "kv w' = kv w"
proof -
  let ?url = "str_strip (case st_webhook_url (ae_settings env) of None \<Rightarrow> [] | Some u \<Rightarrow> u)"
  let ?dump = "scrub_verdict_for_log (float_repr (ae_lib env)) (ae_dump_verdict env v)"
  consider "?url = [] \<or> (\<exists>e. encode_dump ?dump = Inl e)" | body where "?url \<noteq> []" "encode_dump ?dump = Inr body"
    by (metis old.sum.exhaust)
  then show ?thesis
  proof cases
    case 1
    then show ?thesis by (intro that [of w]) (auto simp: notify_triage_webhook_def Let_def try_io_def)
  next
    case 2
    obtain r w' where post: "ae_post env ?url (JDict [(''alert_id'', JStr i), (''verdict'', body)]) w = (r, w')"
      by (rule prod.exhaust)
    have "kv w' = kv w" using assms post unfolding api_frame_def by (metis snd_conv)
    with 2 post show ?thesis
      by (intro that [of w']) (auto simp: notify_triage_webhook_def Let_def on_world_def try_io_def split: sum.split)
  qed
qed

text \<open>A verdict whose dump has its \<open>generated_at\<close>, as every verdict's has, is never posted.\<close>

lemma webhook_never_posts:
  assumes "has_key (ae_dump_verdict env v) ''generated_at''"
  shows "notify_triage_webhook env i v ws = (Inr (), ws)"
proof -
  have "map_of (scrub_verdict_for_log (float_repr (ae_lib env)) (ae_dump_verdict env v)) ''generated_at''
      = map_of (ae_dump_verdict env v) ''generated_at''"
    by (rule scrubbed_verdict(2)) simp_all
  with assms have "has_key (scrub_verdict_for_log (float_repr (ae_lib env)) (ae_dump_verdict env v)) ''generated_at''"
    by (auto simp: has_key_def map_of_eq_None_iff dest!: map_of_SomeD split: option.splits)
      (metis fst_conv image_eqI map_of_eq_None_iff)
  then show ?thesis by (simp add: notify_triage_webhook_def encode_dump_def Let_def try_io_def)
qed

text \<open>The bookkeeping of a completed run leaves the store as it is.\<close>

lemma complete_run_done:
  assumes "api_frame env kv"
  obtains w' s' where "complete_run env alert v e (w, s) = (Inr (), (w', s'))" "kv w' = kv w"
    "api_store s' = api_store s"
proof -
  obtain t w1 where 1: "a_now env (w, count_verdict e s) = (Inr t, (w1, count_verdict e s))" "kv w1 = kv w"
    using a_now_done [OF assms] by blast
  obtain w2 where 2: "notify_triage_webhook env (na_alert_id alert) v
      (w1, record_cost alert v e t (count_verdict e s)) = (Inr (), (w2, record_cost alert v e t (count_verdict e s)))"
      "kv w2 = kv w1"
    using notify_done [OF assms] by blast
  from 1 2 show thesis
    by (intro that [of w2 "record_cost alert v e t (count_verdict e s)"])
      (simp_all add: complete_run_def record_cost_def count_verdict_def Let_def)
qed

lemma attempt_done:
  assumes "store_ok kv p (api_store s)" "codec_ok (ae_codec env)" "jobs_ok (ae_lib env)" "api_frame env kv"
    and "run_triage (ae_pipeline env) alert w = (Inr v, w1)"
  obtains w' s' where "triage_attempt env alert start (w, s) = (Inr (), (w', s'))" "store_ok kv p (api_store s')"
    "holds_verdict kv (ae_codec env) (api_store s') w' (na_alert_id alert) v"
    "holds_job kv (ae_lib env) (api_store s') w' (na_alert_id alert) ''complete'' None"
proof -
  let ?id = "na_alert_id alert"
  obtain t w2 where 1: "a_now env (w1, s) = (Inr t, (w2, s))" using a_now_done [OF assms(4)] by blast
  obtain w3 ap1 where 2: "a_put_verdict env ?id v (w2, s) = (Inr (), (w3, s\<lparr>api_store := ap1\<rparr>))"
    "store_ok kv p ap1" "holds_verdict kv (ae_codec env) ap1 w3 ?id v"
    using a_put_verdict_done [OF assms(1)] by blast
  have ok1: "store_ok kv p (api_store (s\<lparr>api_store := ap1\<rparr>))" using 2(2) by simp
  obtain w4 ap2 where 3: "a_set_job env ?id ''complete'' None (w3, s\<lparr>api_store := ap1\<rparr>)
      = (Inr (), (w4, s\<lparr>api_store := ap2\<rparr>))"
    "store_ok kv p ap2" "holds_job kv (ae_lib env) ap2 w4 ?id ''complete'' None"
    "holds_verdict kv (ae_codec env) ap2 w4 ?id v"
    by (rule a_set_job_done [OF ok1, of env ?id "''complete''" None w3 "ae_codec env"]) (use 2(3) in auto)
  obtain w5 s5 where 4: "complete_run env alert v (trunc_rat ((t - start) * 1000)) (w4, s\<lparr>api_store := ap2\<rparr>)
      = (Inr (), (w5, s5))" "kv w5 = kv w4" "api_store s5 = ap2"
    using complete_run_done [OF assms(4)] by (metis api_state.select_convs(1) api_state.surjective api_state.update_convs(1))
  have k: "kv w5 k = kv w4 k" if "starts_with k ''soc:''" for k using 4(2) by simp
  show thesis
    using assms(5) 1 2(1) 3(1) 4(1) 3(2-4) 4(3)
    by (intro that [of w5 s5]) (simp_all add: triage_attempt_def on_world_eq Let_def holds_stable [where kv = kv and w = w4 and w' = w5, OF k])
qed

text \<open>
  No background run leaves its job open: with a working store, memory or Redis, the run
  returns, whatever the pipeline does; when the pipeline gave a verdict, the alert's verdict is
  that one and its job is complete, and when it raised, the job has failed with the message.
\<close>

theorem background_run_concluded:
  assumes "store_ok kv p (api_store s)" "codec_ok (ae_codec env)" "jobs_ok (ae_lib env)" "api_frame env kv"
  shows "\<exists>w1 ws'. run_triage_background env alert (w, s) = (Inr (), ws')
    \<and> (case fst (run_triage (ae_pipeline env) alert w1) of
         Inr v \<Rightarrow> fst (a_get_verdict env (na_alert_id alert) ws') = Inr (Some v)
           \<and> fst (a_get_job env (na_alert_id alert) ws') = Inr (Some (job_record ''complete'' None))
       | Inl e \<Rightarrow> fst (a_get_job env (na_alert_id alert) ws') = Inr (Some (job_record ''failed'' (Some (exn_str e)))))"
proof -
  let ?id = "na_alert_id alert"
  obtain t w1 where 1: "a_now env (w, s) = (Inr t, (w1, s))" using a_now_done [OF assms(4)] by blast
  have ok0: "store_ok kv p (api_store (count_received s))" using assms(1) by (simp add: count_received_def)
  obtain w2 ap where 2: "a_set_job env ?id ''running'' None (w1, count_received s)
      = (Inr (), (w2, (count_received s)\<lparr>api_store := ap\<rparr>))" "store_ok kv p ap"
    by (rule a_set_job_done [OF ok0])
  let ?s2 = "(count_received s)\<lparr>api_store := ap\<rparr>"
  have ok2: "store_ok kv p (api_store ?s2)" using 2(2) by simp
  obtain r w3 where r: "run_triage (ae_pipeline env) alert w2 = (r, w3)" by (rule prod.exhaust)
  show ?thesis
  proof (cases r)
    case (Inr v)
    obtain w' s' where a: "triage_attempt env alert t (w2, ?s2) = (Inr (), (w', s'))" "store_ok kv p (api_store s')"
      "holds_verdict kv (ae_codec env) (api_store s') w' ?id v"
      "holds_job kv (ae_lib env) (api_store s') w' ?id ''complete'' None"
      by (rule attempt_done [OF ok2 assms(2-4), of alert w2 v w3 t]) (simp add: r Inr)
    have "run_triage_background env alert (w, s) = (Inr (), (w', s'))"
      using 1 2(1) a(1) by (simp add: run_triage_background_def)
    moreover note a_reads(2) [OF a(2) assms(2) a(3)] a_reads(3) [OF a(2) assms(3) a(4)]
    ultimately show ?thesis using r Inr by (intro exI [of _ w2] exI [of _ "(w', s')"]) simp
  next
    case (Inl e)
    have att: "triage_attempt env alert t (w2, ?s2) = (Inl e, (w3, ?s2))"
      using r Inl by (simp add: triage_attempt_def on_world_eq)
    have ok3: "store_ok kv p (api_store (count_error ?s2))" using 2(2) by (simp add: count_error_def)
    obtain w4 ap4 where 4: "a_set_job env ?id ''failed'' (Some (exn_str e)) (w3, count_error ?s2)
        = (Inr (), (w4, (count_error ?s2)\<lparr>api_store := ap4\<rparr>))" "store_ok kv p ap4"
      "holds_job kv (ae_lib env) ap4 w4 ?id ''failed'' (Some (exn_str e))"
      by (rule a_set_job_done [OF ok3])
    let ?s4 = "(count_error ?s2)\<lparr>api_store := ap4\<rparr>"
    have "run_triage_background env alert (w, s) = (Inr (), (w4, ?s4))"
      using 1 2(1) att 4(1) by (simp add: run_triage_background_def)
    moreover have "fst (a_get_job env ?id (w4, ?s4)) = Inr (Some (job_record ''failed'' (Some (exn_str e))))"
      using 4(2,3) by (intro a_reads(3) [OF _ assms(3)]) simp_all
    ultimately show ?thesis using r Inl by (intro exI [of _ w2] exI [of _ "(w4, ?s4)"]) simp
  qed
qed

subsection \<open>The key check\<close>

text \<open>
  C15. Every endpoint but the health check and the verdict endpoint is closed without the API key:
  such a request is answered with 401, nothing outside is touched and no state of the service
  changes.
\<close>

theorem api_key_guards:
  assumes "provided_key (rq_headers rq) \<noteq> st_api_key (ae_settings env)"
    and "r \<noteq> Get_Health" "\<And>a. r \<noteq> Get_Verdict a"
  shows "serve env (handle env r rq) (w, s)
    = (Inr (Inl (HTTPException 401 ''Invalid or missing API key'')), (w, s\<lparr>api_tasks := []\<rparr>))"
proof -
  have k: "require_key env rq = raise_io (HTTPException 401 ''Invalid or missing API key'')"
    using assms(1) by (simp add: require_key_def validate_api_key_def fun_eq_iff)
  have h: "handle env r rq ws = (Inl (HTTPException 401 ''Invalid or missing API key''), ws)" for ws
  proof (cases r)
    case (Get_Verdict a)
    with assms(3) show ?thesis by blast
  qed (use assms(2) in \<open>simp_all add: answer_def k ingest_batch_def ingest_alert_auto_def ingest_alert_def
      get_audit_bundle_def api_get_alert_def get_alert_snapshot_def get_job_status_def
      stream_triage_events_def post_verdict_feedback_def metrics_def\<close>)
  show ?thesis by (simp add: serve_def catch_io_def bind_io_def h)
qed

subsection \<open>The metrics\<close>

text \<open>
  The metrics are true in every history of requests: starting with a fresh process, the number
  of generated verdicts is the number of recorded runs, the average latency is their mean, the
  tool counters count the tools of the runs, and verdicts and errors do not exceed the received
  alerts.
\<close>

theorem metrics_are_means:
  assumes "api_metrics s = pipeline_metrics_init" "api_costs s = CostTracker_init"
    and "\<And>t. agrees (ae_sleep env t)"
    and "snd (api_run env reqs (w, s)) = (w', s')" "runs = ct_runs (api_costs s')"
  shows "pm_verdicts_generated (api_metrics s') = int (length runs)
    \<and> (runs \<noteq> [] \<longrightarrow> pm_avg_latency_ms (api_metrics s')
          = of_int (sum_list (map run_elapsed_ms runs)) / of_nat (length runs))
    \<and> (\<forall>t. default_get (ct_tool_calls (api_costs s')) t 0
          = int (count_list (concat (map run_tools_called runs)) t))
    \<and> pm_verdicts_generated (api_metrics s') + pm_errors (api_metrics s') \<le> pm_alerts_received (api_metrics s')"
proof -
  have "metrics_agree s"
    by (simp add: metrics_agree_def assms(1,2) pipeline_metrics_init_def CostTracker_init_def
        counts_agree_init [unfolded CostTracker_init_def])
  with agrees_run [OF assms(3), of reqs] assms(4) have m: "metrics_agree s'"
    unfolding preserves_def by (metis snd_conv)
  then show ?thesis
    by (auto simp: metrics_agree_def Let_def counts_agree_def assms(5) eq_divide_eq)
qed

subsection \<open>The event stream\<close>

text \<open>An event that leaves the stream open shows a job status that is not \<open>failed\<close>.\<close>

definition open_event :: "string \<Rightarrow> jdict \<Rightarrow> bool" where
  "open_event a ev \<longleftrightarrow> (\<exists>st. st \<noteq> JStr ''failed'' \<and> ev = [(''phase'', st), (''alert_id'', JStr a)])"

text \<open>The events a stream ends with.\<close>

definition final_event :: "'w api_env \<Rightarrow> string \<Rightarrow> jdict \<Rightarrow> bool" where
  "final_event env a ev \<longleftrightarrow>
     (\<exists>v. ev = [(''phase'', JStr ''complete''), (''verdict'', scrubbed env v)])
     \<or> (\<exists>err. ev = [(''phase'', JStr ''failed''), (''error'', err)])
     \<or> (\<exists>exc. ev = ev_error exc) \<or> ev = ev_timeout a"

lemma poll_once_event:
  assumes "poll_once env a ws = (Inr (ev, finished), ws')"
  shows "if finished then final_event env a ev else open_event a ev"
proof -
  obtain rv ws1 where v: "a_get_verdict env a ws = (rv, ws1)" by (rule prod.exhaust)
  show ?thesis
  proof (cases rv)
    case (Inl e)
    with v assms show ?thesis by (simp add: poll_once_def)
  next
    case (Inr vo)
    show ?thesis
    proof (cases vo)
      case (Some vd)
      with v Inr assms show ?thesis by (auto simp: poll_once_def final_event_def)
    next
      case None
      obtain rj ws2 where j: "a_get_job env a ws1 = (rj, ws2)" by (rule prod.exhaust)
      obtain jo where jo: "rj = Inr jo" using v Inr None j assms by (cases rj) (auto simp: poll_once_def)
      let ?job = "py_or (or_null jo) (JDict [])"
      obtain st where st: "attr_get ?job ''status'' JNull = Inr st"
        using v Inr None j jo assms by (cases "attr_get ?job ''status'' JNull") (auto simp: poll_once_def Let_def bind_io_def)
      show ?thesis
      proof (cases "st = JStr ''failed''")
        case True
        with v Inr None j jo st assms show ?thesis
          by (cases "attr_get ?job ''error'' JNull") (auto simp: poll_once_def Let_def bind_io_def final_event_def)
      next
        case False
        with v Inr None j jo st assms show ?thesis
          by (auto simp: poll_once_def Let_def bind_io_def open_event_def py_or_def)
      qed
    qed
  qed
qed

lemma stream_ticks_shape:
  "\<exists>evs e ws'. stream_ticks n env a ws = (Inr (evs @ [e]), ws') \<and> length evs \<le> n
     \<and> list_all (open_event a) evs \<and> final_event env a e"
proof (induction n arbitrary: ws)
  case 0
  show ?case
    by (intro exI [of _ "[]"] exI [of _ "ev_timeout a"] exI [of _ ws]) (simp add: final_event_def)
next
  case (Suc n)
  obtain res ws1 where poll: "poll_once env a ws = (res, ws1)" by (rule prod.exhaust)
  show ?case
  proof (cases res)
    case (Inl exc)
    with poll show ?thesis
      by (intro exI [of _ "[]"] exI [of _ "ev_error exc"] exI [of _ ws1])
        (auto simp: bind_io_def catch_io_def final_event_def)
  next
    case (Inr x)
    obtain ev fin where x: "x = (ev, fin)" by (rule prod.exhaust)
    note shape = poll_once_event [OF poll [unfolded Inr x]]
    show ?thesis
    proof (cases fin)
      case True
      with poll Inr x shape show ?thesis
        by (intro exI [of _ "[]"] exI [of _ ev] exI [of _ ws1]) (simp add: bind_io_def catch_io_def)
    next
      case False
      obtain sl ws2 where sl: "ae_sleep env STREAM_POLL_SEC ws1 = (sl, ws2)" by (rule prod.exhaust)
      obtain evs e ws3 where rest: "stream_ticks n env a ws2 = (Inr (evs @ [e]), ws3)" "length evs \<le> n"
        "list_all (open_event a) evs" "final_event env a e" using Suc.IH by blast
      show ?thesis
      proof (cases sl)
        case (Inl exc)
        with poll Inr x shape False sl show ?thesis
          by (intro exI [of _ "[ev]"] exI [of _ "ev_error exc"] exI [of _ ws2])
            (auto simp: bind_io_def catch_io_def final_event_def)
      next
        case (Inr u)
        with poll \<open>res = Inr x\<close> x shape False sl rest show ?thesis
          by (intro exI [of _ "ev # evs"] exI [of _ e] exI [of _ ws3]) (simp add: bind_io_def catch_io_def)
      qed
    qed
  qed
qed

text \<open>
  C17. An event stream always ends: whatever Redis does and whatever happens while it sleeps, a
  request with the API key gets the open event, then at most 1200 events with a status that is
  not \<open>failed\<close>, then one final event: complete with the scrubbed verdict, failed, error or timeout.
\<close>

theorem stream_ends:
  assumes "provided_key (rq_headers rq) = st_api_key (ae_settings env)"
  shows "\<exists>evs e ws'. stream_triage_events env a rq ws
      = (Inr (map (sse env) (ev_open a # evs @ [e])), ws')
    \<and> length evs \<le> 1200 \<and> list_all (open_event a) evs \<and> final_event env a e"
proof -
  obtain evs e ws' where t: "stream_ticks STREAM_MAX_TICKS env a ws = (Inr (evs @ [e]), ws')"
    "length evs \<le> STREAM_MAX_TICKS" "list_all (open_event a) evs" "final_event env a e"
    using stream_ticks_shape by blast
  have "require_key env rq ws = (Inr (), ws)"
    using assms by (simp add: require_key_def validate_api_key_def)
  with t(1) have "stream_triage_events env a rq ws = (Inr (map (sse env) (ev_open a # evs @ [e])), ws')"
    by (simp add: stream_triage_events_def)
  with t(2-4) show ?thesis unfolding STREAM_MAX_TICKS_def by blast
qed

subsection \<open>An accepted alert\<close>

text \<open>
  The Redis clients of the runtime (audit store, write-ahead log) are like the store's: their
  commands change the keys they name, and NATS changes none.
\<close>

definition runtime_ok :: "('w \<Rightarrow> kv) \<Rightarrow> (string \<Rightarrow> int) \<Rightarrow> 'w runtime_state option \<Rightarrow> bool" where
  "runtime_ok kv p rt \<longleftrightarrow> (\<forall>st. rt = Some st \<longrightarrow>
     (\<forall>a c. rt_audit st = Some a \<longrightarrow> as_client a = Some c \<longrightarrow> redis_ok c kv p)
     \<and> (\<forall>rc. rt_reconciler st = Some rc \<longrightarrow> nats_frame (rc_nats rc) kv
          \<and> (\<forall>c. rc_client rc = Some c \<longrightarrow> redis_ok c kv p)))"

definition wired :: "'w runtime_state option \<Rightarrow> bool" where
  "wired rt \<longleftrightarrow> (\<exists>st. rt = Some st \<and> rt_broker st \<noteq> None \<and> rt_reconciler st \<noteq> None)"

lemma keeps_setex:
  assumes "redis_ok c kv p" "k \<noteq> k'"
  shows "keeps (\<lambda>w. kv w k) (rd_setex c k' t v)"
  unfolding keeps_def
proof
  fix w
  show "kv (snd (rd_setex c k' t v w)) k = kv w k"
    using rd_setex_kv [OF assms(1) surjective_pairing, of k' t v w] assms(2) by auto
qed

lemma keeps_delete:
  assumes "redis_ok c kv p" "k \<notin> set ks"
  shows "keeps (\<lambda>w. kv w k) (rd_delete c ks)"
  unfolding keeps_def
proof
  fix w
  show "kv (snd (rd_delete c ks w)) k = kv w k"
    using rd_delete_kv [OF assms(1) surjective_pairing, of ks w] assms(2) by (auto simp: del_keys_def)
qed

lemma soc_key_other:
  assumes "starts_with k ''soc:''"
  shows "k \<noteq> audit_raw_key a" "k \<notin> {wal_pending_key a, wal_lease_key a, wal_attempts_key a}"
  using assms
  by (auto simp: starts_with_def audit_raw_key_def wal_pending_key_def wal_lease_key_def wal_attempts_key_def)

lemma keeps_record_raw:
  assumes "runtime_ok kv p rt" "starts_with k ''soc:''"
  shows "keeps (\<lambda>w. kv w k) (record_raw_payload lib rt alert payload)"
proof -
  have a: "keeps (\<lambda>w. kv w k) (audit_record_raw_payload lib st i t pl)"
    if "\<And>c. as_client st = Some c \<Longrightarrow> redis_ok c kv p" for st i t pl
    unfolding audit_record_raw_payload_def using that
    by (cases "as_client st") (simp_all add: keeps_ret keeps_try keeps_setex soc_key_other(1) [OF assms(2)])
  show ?thesis
  proof (cases rt)
    case (Some st)
    then show ?thesis unfolding record_raw_payload_def using assms(1)
      by (cases "rt_audit st") (simp_all add: keeps_ret keeps_try a runtime_ok_def)
  qed (simp add: record_raw_payload_def keeps_ret)
qed

lemma keeps_wal:
  assumes "\<And>c. rc_client rc = Some c \<Longrightarrow> redis_ok c kv p" "starts_with k ''soc:''"
  shows "keeps (\<lambda>w. kv w k) (write_ahead rc i pl)" "keeps (\<lambda>w. kv w k) (mark_published rc i)"
  using assms(1) soc_key_other(2) [OF assms(2), of i]
  by (cases "rc_client rc";
      simp add: write_ahead_def mark_published_def keeps_ret keeps_try keeps_bind keeps_setex keeps_delete)+

lemma keeps_enqueue:
  assumes "runtime_ok kv p rt" "starts_with k ''soc:''"
  shows "keeps (\<lambda>w. kv w k) (enqueue_via_nats dump dj rt alert)"
proof (cases "wired rt")
  case False
  then show ?thesis
    by (auto simp: enqueue_via_nats_def wired_def keeps_ret split: option.split)
next
  case True
  then obtain st b rc where rt: "rt = Some st" "rt_broker st = Some b" "rt_reconciler st = Some rc"
    by (auto simp: wired_def)
  have nf: "nats_frame (rc_nats rc) kv" and rc: "\<And>c. rc_client rc = Some c \<Longrightarrow> redis_ok c kv p"
    using assms(1) rt by (simp_all add: runtime_ok_def)
  have bp: "keeps (\<lambda>w. kv w k) (broker_publish (rc_nats rc) b sb py m h a)" for sb py m h a
    using broker_publish_frame [OF nf] unfolding keeps_def by (metis prod.collapse)
  show ?thesis unfolding enqueue_via_nats_def Let_def
    by (simp only: rt option.case fst_conv snd_conv case_prod_unfold)
      (intro keeps_bind keeps_if keeps_ret bp keeps_wal [OF rc assms(2)])
qed

lemma enqueue_answer:
  obtains rt' w' where "enqueue_via_nats dump dj rt alert w = (Inr (wired rt, rt'), w')"
proof (cases "wired rt")
  case False
  then show ?thesis
    by (intro that [of rt w]) (auto simp: enqueue_via_nats_def wired_def split: option.split)
next
  case True
  then obtain st b rc where rt: "rt = Some st" "rt_broker st = Some b" "rt_reconciler st = Some rc"
    by (auto simp: wired_def)
  obtain x w' where x: "enqueue_via_nats dump dj rt alert w = (Inr x, w')"
    using no_raise_enqueue by (rule no_raiseE)
  have "fst x = True" using x rt by (auto simp: enqueue_via_nats_def Let_def bind_io_eq_Inr split: prod.splits)
  with x True show ?thesis by (intro that [of "snd x" w']) (cases x, simp)
qed

text \<open>
  The hand-over to NATS, from the world \<open>w\<close> it starts in. A view of the world that storing an alert
  and drawing its random values leave alone: what NATS has taken so far, say.
\<close>

definition handed_over :: "'w api_env \<Rightarrow> normalized_alert \<Rightarrow> 'w runtime_state option \<Rightarrow> 'w
    \<Rightarrow> 'w runtime_state option \<Rightarrow> 'w \<Rightarrow> bool" where
  "handed_over env alert rt w rt' w' \<longleftrightarrow>
     enqueue_via_nats (ae_dump_alert env) (ae_dump_alert_json env) rt alert w = (Inr (True, rt'), w')"

definition storing_keeps :: "'w api_env \<Rightarrow> 'w api_state \<Rightarrow> ('w \<Rightarrow> 'v) \<Rightarrow> bool" where
  "storing_keeps env s view \<longleftrightarrow> keeps view (ie_draw (ae_ingest env))
     \<and> (\<forall>c k v. ap_redis (api_store s) = Some c \<longrightarrow> keeps view (rd_set c k v))
     \<and> (\<forall>st a c k t v. api_runtime s = Some st \<longrightarrow> rt_audit st = Some a \<longrightarrow> as_client a = Some c
          \<longrightarrow> keeps view (rd_setex c k t v))"

lemma put_alert_view:
  assumes "a_put_alert env alert (w, s) = (Inr u, (w', s'))" "storing_keeps env s view"
  shows "view w' = view w" "storing_keeps env s' view" "api_runtime s' = api_runtime s"
proof -
  obtain ap where ap: "put_alert (ae_codec env) (api_store s) alert w = (Inr ap, w')" "s' = s\<lparr>api_store := ap\<rparr>"
    using assms(1) by (auto simp: a_put_alert_def on_state_def bind_io_eq_Inr split: prod.splits sum.splits)
  then have "view w' = view w \<and> ap_redis ap = ap_redis (api_store s)"
    using assms(2) keepsD unfolding storing_keeps_def
    by (cases "ap_redis (api_store s)") (fastforce simp: put_alert_def bind_io_eq_Inr)+
  with ap(2) assms(2) show "view w' = view w" "storing_keeps env s' view" "api_runtime s' = api_runtime s"
    by (simp_all add: storing_keeps_def)
qed

lemma set_job_view:
  assumes "a_set_job env i st e (w, s) = (Inr u, (w', s'))" "storing_keeps env s view"
  shows "view w' = view w" "storing_keeps env s' view" "api_runtime s' = api_runtime s"
proof -
  obtain ap where ap: "set_job (ae_lib env) (api_store s) i st e w = (Inr ap, w')" "s' = s\<lparr>api_store := ap\<rparr>"
    using assms(1) by (auto simp: a_set_job_def on_state_def bind_io_eq_Inr split: prod.splits sum.splits)
  then have "view w' = view w \<and> ap_redis ap = ap_redis (api_store s)"
    using assms(2) keepsD unfolding storing_keeps_def
    by (cases "ap_redis (api_store s)") (fastforce simp: set_job_def bind_io_eq_Inr)+
  with ap(2) assms(2) show "view w' = view w" "storing_keeps env s' view" "api_runtime s' = api_runtime s"
    by (simp_all add: storing_keeps_def)
qed

lemma record_raw_view:
  assumes "storing_keeps env s view"
  shows "keeps view (record_raw_payload lib (api_runtime s) alert payload)"
  using assms unfolding storing_keeps_def record_raw_payload_def audit_record_raw_payload_def
  by (auto split: option.splits intro!: keeps_intros)

lemma dispatch_done:
  assumes "runtime_ok kv p (api_runtime s)"
  obtains w' rt' where "dispatch_triage env alert (w, s) = (Inr (),
      (w', if st_ingest_via_nats (ae_settings env) \<and> wired (api_runtime s) then s\<lparr>api_runtime := rt'\<rparr>
           else add_task alert (s\<lparr>api_runtime := rt'\<rparr>)))"
    "\<And>k. starts_with k ''soc:'' \<Longrightarrow> kv w' k = kv w k"
    "st_ingest_via_nats (ae_settings env) \<and> wired (api_runtime s) \<Longrightarrow> handed_over env alert (api_runtime s) w rt' w'"
proof (cases "st_ingest_via_nats (ae_settings env)")
  case False
  then show ?thesis by (intro that [of w "api_runtime s"]) (simp_all add: dispatch_triage_def)
next
  case True
  obtain rt' w' where e: "enqueue_via_nats (ae_dump_alert env) (ae_dump_alert_json env) (api_runtime s) alert w
      = (Inr (wired (api_runtime s), rt'), w')" by (rule enqueue_answer)
  have "kv w' k = kv w k" if "starts_with k ''soc:''" for k
    using keepsD [OF keeps_enqueue [OF assms that] e] .
  with True e show ?thesis
    by (intro that [of w' rt']) (simp_all add: dispatch_triage_def on_state_def bind_io_def try_io_def handed_over_def)
qed

lemma accept_done:
  assumes "store_ok kv p (api_store s)" "runtime_ok kv p (api_runtime s)"
  obtains w' s' where "accept_alert env alert payload (w, s) = (Inr (), (w', s'))" "store_ok kv p (api_store s')"
    "holds_alert kv (ae_codec env) (api_store s') w' alert"
    "holds_job kv (ae_lib env) (api_store s') w' (na_alert_id alert) ''queued'' None"
    "api_tasks s' = (if st_ingest_via_nats (ae_settings env) \<and> wired (api_runtime s) then api_tasks s
                     else api_tasks s @ [alert])"
    "st_ingest_via_nats (ae_settings env) \<and> wired (api_runtime s) \<and> storing_keeps env s view \<longrightarrow>
       (\<exists>w0. view w0 = view w \<and> handed_over env alert (api_runtime s) w0 (api_runtime s') w')"
proof -
  let ?id = "na_alert_id alert"
  obtain w1 ap1 where 1: "a_put_alert env alert (w, s) = (Inr (), (w1, s\<lparr>api_store := ap1\<rparr>))"
    "store_ok kv p ap1" "holds_alert kv (ae_codec env) ap1 w1 alert"
    by (rule a_put_alert_done [OF assms(1)])
  have ok1: "store_ok kv p (api_store (s\<lparr>api_store := ap1\<rparr>))" using 1(2) by simp
  obtain w2 ap2 where 2: "a_set_job env ?id ''queued'' None (w1, s\<lparr>api_store := ap1\<rparr>)
      = (Inr (), (w2, s\<lparr>api_store := ap2\<rparr>))"
    "store_ok kv p ap2" "holds_job kv (ae_lib env) ap2 w2 ?id ''queued'' None"
    "holds_alert kv (ae_codec env) ap2 w2 alert"
    by (rule a_set_job_done [OF ok1, of env ?id "''queued''" None w1 "ae_codec env"]) (use 1(3) in auto)
  obtain u w3 where 3: "record_raw_payload (ae_lib env) (api_runtime s) alert payload w2 = (Inr u, w3)"
    using no_raise_record_raw_payload by (rule no_raiseE)
  have k3: "kv w3 k = kv w2 k" if "starts_with k ''soc:''" for k
    using keepsD [OF keeps_record_raw [OF assms(2) that] 3] .
  have rt: "runtime_ok kv p (api_runtime (s\<lparr>api_store := ap2\<rparr>))" using assms(2) by simp
  let ?nats = "st_ingest_via_nats (ae_settings env) \<and> wired (api_runtime s)"
  obtain w4 rt' where 4: "dispatch_triage env alert (w3, s\<lparr>api_store := ap2\<rparr>) = (Inr (),
      (w4, if ?nats then s\<lparr>api_store := ap2, api_runtime := rt'\<rparr>
           else add_task alert (s\<lparr>api_store := ap2, api_runtime := rt'\<rparr>)))"
    "\<And>k. starts_with k ''soc:'' \<Longrightarrow> kv w4 k = kv w3 k"
    "?nats \<Longrightarrow> handed_over env alert (api_runtime s) w3 rt' w4"
    by (rule dispatch_done [OF rt, of env alert w3]) simp
  have seen: "view w3 = view w" if "storing_keeps env s view"
    using put_alert_view [OF 1(1) that] set_job_view [OF 2(1)] keepsD [OF record_raw_view [OF that] 3] by metis
  let ?s4 = "if ?nats then s\<lparr>api_store := ap2, api_runtime := rt'\<rparr>
    else add_task alert (s\<lparr>api_store := ap2, api_runtime := rt'\<rparr>)"
  have k: "kv w4 k = kv w2 k" if "starts_with k ''soc:''" for k using 4(2) k3 that by simp
  have s4: "api_store ?s4 = ap2" by (simp add: add_task_def)
  have "accept_alert env alert payload (w, s) = (Inr (), (w4, ?s4))"
    using 1(1) 2(1) 3 4(1) by (simp add: accept_alert_def reads_eq)
  then show thesis
    using 2(2-4) s4 seen 4(3) by (intro that [of w4 ?s4])
      (auto simp: holds_stable [where kv = kv and w = w2 and w' = w4, OF k] add_task_def)
qed

text \<open>What an answered ingest request has done: the alert, where it is kept and where it was handed on.\<close>

lemma ingest_done:
  assumes "store_ok kv p (api_store s)" "runtime_ok kv p (api_runtime s)"
    and "ingest_alert env source rq (w, s) = (Inr resp, ws')"
  obtains alert src payload f w' s' where
    "source_of (str_lower source) = Inr src" "read_payload env rq = Inr payload"
    "normalize_alert (ae_lib env) (ie_dates (ae_ingest env)) f src payload = Inr alert"
    "ws' = (w', s')" "dict_get resp ''alert_id'' JNull = JStr (na_alert_id alert)"
    "store_ok kv p (api_store s')" "holds_alert kv (ae_codec env) (api_store s') w' alert"
    "holds_job kv (ae_lib env) (api_store s') w' (na_alert_id alert) ''queued'' None"
    "api_tasks s' = (if st_ingest_via_nats (ae_settings env) \<and> wired (api_runtime s) then api_tasks s
                     else api_tasks s @ [alert])"
    "st_ingest_via_nats (ae_settings env) \<and> wired (api_runtime s) \<and> storing_keeps env s view \<longrightarrow>
       (\<exists>w0. view w0 = view w \<and> handed_over env alert (api_runtime s) w0 (api_runtime s') w')"
proof -
  from assms(3) obtain src where src: "source_of (str_lower source) = Inr src"
    unfolding ingest_alert_def by (cases "source_of (str_lower source)") (auto simp: bind_io_eq_Inr require_key_def)
  obtain payload where payload: "read_payload env rq = Inr payload"
    using assms(3) src unfolding ingest_alert_def by (auto simp: bind_io_eq_Inr require_key_def)
  obtain res ws1 where n: "normalise env src payload (w, s) = (res, ws1)" by (rule prod.exhaust)
  from assms(3) src payload n obtain alert where res: "res = Inr alert"
    unfolding ingest_alert_def by (cases res) (auto simp: bind_io_eq_Inr require_key_def)
  obtain f w1 where f: "ie_draw (ae_ingest env) w = (Inr f, w1)"
    by (cases "ie_fresh (ae_ingest env) w") (auto simp: ie_draw_def)
  have norm: "normalize_alert (ae_lib env) (ie_dates (ae_ingest env)) f src payload = Inr alert" "ws1 = (w1, s)"
    using n res f by (auto simp: normalise_def on_world_def split: prod.splits)
  obtain w' s' where acc: "accept_alert env alert payload (w1, s) = (Inr (), (w', s'))" "store_ok kv p (api_store s')"
    "holds_alert kv (ae_codec env) (api_store s') w' alert"
    "holds_job kv (ae_lib env) (api_store s') w' (na_alert_id alert) ''queued'' None"
    "api_tasks s' = (if st_ingest_via_nats (ae_settings env) \<and> wired (api_runtime s) then api_tasks s
                     else api_tasks s @ [alert])"
    "st_ingest_via_nats (ae_settings env) \<and> wired (api_runtime s) \<and> storing_keeps env s view \<longrightarrow>
       (\<exists>w0. view w0 = view w1 \<and> handed_over env alert (api_runtime s) w0 (api_runtime s') w')"
    by (rule accept_done [OF assms(1,2), of env alert payload w1 view])
  have "view w1 = view w" if "storing_keeps env s view"
    using f that unfolding storing_keeps_def by (blast dest: keepsD)
  with acc(6) have acc6: "st_ingest_via_nats (ae_settings env) \<and> wired (api_runtime s) \<and> storing_keeps env s view \<longrightarrow>
       (\<exists>w0. view w0 = view w \<and> handed_over env alert (api_runtime s) w0 (api_runtime s') w')" by auto
  have out: "ws' = (w', s')" "dict_get resp ''alert_id'' JNull = JStr (na_alert_id alert)"
    using assms(3) src payload n res norm(2) acc(1)
    by (auto simp: ingest_alert_def bind_io_eq_Inr require_key_def)
  show thesis by (rule that [OF src payload norm(1) out acc(2-5) acc6])
qed

text \<open>
  C12. An accepted alert is kept: when the ingest endpoint answers, the alert it names is what the
  body normalises to, it reads back from the store, and its job is queued. It is handed on once. When
  NATS is switched on and wired no background task is added, and the request ends with the call of
  \<open>enqueue_via_nats\<close> for this alert, in a world \<open>w0\<close> in which whatever storing leaves alone (what NATS
  has taken so far, say) is as it was before the request; otherwise the alert is the one task the
  request adds.
\<close>

theorem accepted_alert_kept:
  assumes "store_ok kv p (api_store s)" "codec_ok (ae_codec env)" "jobs_ok (ae_lib env)"
    and "runtime_ok kv p (api_runtime s)" "storing_keeps env s view"
    and "ingest_alert env source rq (w, s) = (Inr resp, ws')"
  shows "\<exists>alert src payload f. source_of (str_lower source) = Inr src \<and> read_payload env rq = Inr payload
    \<and> normalize_alert (ae_lib env) (ie_dates (ae_ingest env)) f src payload = Inr alert
    \<and> dict_get resp ''alert_id'' JNull = JStr (na_alert_id alert)
    \<and> fst (a_get_alert env (na_alert_id alert) ws') = Inr (Some alert)
    \<and> fst (a_get_job env (na_alert_id alert) ws') = Inr (Some (job_record ''queued'' None))
    \<and> (if st_ingest_via_nats (ae_settings env) \<and> wired (api_runtime s)
       then api_tasks (snd ws') = api_tasks s
         \<and> (\<exists>w0. view w0 = view w
              \<and> enqueue_via_nats (ae_dump_alert env) (ae_dump_alert_json env) (api_runtime s) alert w0
                  = (Inr (True, api_runtime (snd ws')), fst ws'))
       else api_tasks (snd ws') = api_tasks s @ [alert])"
proof -
  obtain alert src payload f w' s' where d: "source_of (str_lower source) = Inr src" "read_payload env rq = Inr payload"
    "normalize_alert (ae_lib env) (ie_dates (ae_ingest env)) f src payload = Inr alert"
    "ws' = (w', s')" "dict_get resp ''alert_id'' JNull = JStr (na_alert_id alert)"
    "store_ok kv p (api_store s')" "holds_alert kv (ae_codec env) (api_store s') w' alert"
    "holds_job kv (ae_lib env) (api_store s') w' (na_alert_id alert) ''queued'' None"
    "api_tasks s' = (if st_ingest_via_nats (ae_settings env) \<and> wired (api_runtime s) then api_tasks s
                     else api_tasks s @ [alert])"
    "st_ingest_via_nats (ae_settings env) \<and> wired (api_runtime s) \<and> storing_keeps env s view \<longrightarrow>
       (\<exists>w0. view w0 = view w \<and> handed_over env alert (api_runtime s) w0 (api_runtime s') w')"
    by (rule ingest_done [OF assms(1,4,6), of view])
  then show ?thesis
    using a_reads(1) [OF d(6) assms(2) d(7)] a_reads(3) [OF d(6) assms(3) d(8)] assms(5)
    by (intro exI [of _ alert] exI [of _ src] exI [of _ payload] exI [of _ f]) (auto simp: handed_over_def)
qed

subsection \<open>Tenants\<close>

text \<open>
  With authentication required, a verdict leaves the service only for a request that carries
  the API key and, when it also carries a verified service token, only when the verdict names no
  tenant or the token's; and it leaves without its raw tool outputs.
\<close>

theorem verdict_stays_in_tenant:
  assumes "st_verdict_auth_required (ae_settings env)"
    and "api_get_verdict env a rq ws = (Inr resp, ws')"
    and "rs_content resp = JDict content" "has_key content ''verdict''"
  shows "provided_key (rq_headers rq) = st_api_key (ae_settings env)
    \<and> (\<exists>auth ws1 v d. a_attach_token rq ws = (Inr auth, ws1) \<and> a_get_verdict env a ws1 = (Inr (Some v), ws')
        \<and> (verified_tenant_id auth = None \<or> tv_tenant_id v = None \<or> verified_tenant_id auth = tv_tenant_id v)
        \<and> dict_get content ''verdict'' JNull = JDict d \<and> \<not> has_key d ''raw_tool_outputs'')"
proof -
  obtain ra ws1 where at: "a_attach_token rq ws = (ra, ws1)" by (rule prod.exhaust)
  obtain auth where ra: "ra = Inr auth" using assms(1,2) at by (cases ra) (auto simp: api_get_verdict_def)
  have key: "provided_key (rq_headers rq) = st_api_key (ae_settings env)"
    using assms(1,2) at ra
    by (auto simp: api_get_verdict_def require_key_def validate_api_key_def bind_io_eq_Inr split: if_splits)
  have req: "require_key env rq ws1 = (Inr (), ws1)" using key by (simp add: require_key_def validate_api_key_def)
  obtain rv ws2 where gv: "a_get_verdict env a ws1 = (rv, ws2)" by (rule prod.exhaust)
  obtain vo where rv: "rv = Inr vo" using assms(1,2) at ra req gv by (cases rv) (auto simp: api_get_verdict_def)
  have "vo \<noteq> None"
  proof
    assume "vo = None"
    with assms(1,2) at ra req gv rv have "\<exists>err. rs_content resp = JDict [(''alert_id'', JStr a), (''status'', JStr ''failed''), (''error'', err)]
        \<or> rs_content resp = JDict [(''alert_id'', JStr a), (''status'', JStr ''processing'')]"
      by (auto simp: api_get_verdict_def bind_io_eq_Inr split: if_splits)
    with assms(3,4) show False by auto
  qed
  then obtain v where v: "vo = Some v" by auto
  have "\<not> cross_tenant True (verified_tenant_id auth) v"
    using assms(1,2) at ra req gv rv v by (auto simp: api_get_verdict_def split: if_splits)
  moreover from this have "ws' = ws2" "content = [(''alert_id'', JStr a), (''status'', JStr ''complete''), (''verdict'', scrubbed env v)]"
    using assms at ra req gv rv v by (auto simp: api_get_verdict_def)
  moreover have "\<not> has_key (scrub_verdict_for_log (float_repr (ae_lib env)) (ae_dump_verdict env v)) ''raw_tool_outputs''"
    by (rule scrubbed_verdict)
  ultimately show ?thesis
    using key at ra gv rv v by (auto simp: cross_tenant_def scrubbed_def)
qed

subsection \<open>Witnesses\<close>

text \<open>An API process over Redis, with no runtime, whose library reads back what it wrote.\<close>

definition demo_api_lib :: pylib where
  "demo_api_lib = coding_lib
     \<lparr>json_loads := (\<lambda>s. Inr (if s = ''{}'' then JDict [] else decoded s)),
      json_dumps := (\<lambda>v. if v = JDict [] then ''{}'' else coded v)\<rparr>"

definition demo_api :: "kv api_env" where
  "demo_api =
     \<lparr>ae_settings = \<lparr>st_api_key = ''k1'', st_ingest_via_nats = True, st_auto_ingest_coerce_llm = False,
        st_webhook_url = Some ''http://hook'', st_verdict_auth_required = True, st_sunset = ''2026'',
        st_redis_url = ''redis://r''\<rparr>,
      ae_lib = demo_api_lib, ae_codec = demo_codec,
      ae_ingest = \<lparr>ie_lib = demo_api_lib, ie_dates = demo_dates, ie_fresh = Pair (demo_fresh ''u1''),
        ie_pretty = (\<lambda>v. []), ie_ollama_base_url = [], ie_openai_api_key = [],
        ie_ollama = (\<lambda>prompt. ret_io None), ie_openai = (\<lambda>prompt. ret_io None), ie_coerce_llm = False\<rparr>,
      ae_pipeline = demo_env, ae_dump_alert = (\<lambda>a. []), ae_dump_alert_json = na_title,
      ae_dump_verdict = (\<lambda>v. [(''raw_tool_outputs'', JNull)]),
      ae_time = Pair 0, ae_post = (\<lambda>u v. raise_io TimeoutError), ae_from_url = (\<lambda>u. Inr demo_redis),
      ae_sleep = (\<lambda>t. ret_io ())\<rparr>"

definition demo_api_state :: "kv api_state" where
  "demo_api_state = \<lparr>api_store = demo_store (Some demo_redis), api_runtime = None,
     api_metrics = pipeline_metrics_init, api_costs = CostTracker_init, api_feedback = [], api_tasks = []\<rparr>"

definition demo_request :: "string \<Rightarrow> http_request" where
  "demo_request key = \<lparr>rq_headers = [(''x-api-key'', key)], rq_body = ''{}''\<rparr>"

lemma demo_api_simps [simp]:
  "st_api_key (ae_settings demo_api) = ''k1''" "st_ingest_via_nats (ae_settings demo_api) = True"
  "st_verdict_auth_required (ae_settings demo_api) = True"
  "ae_lib demo_api = demo_api_lib" "ae_codec demo_api = demo_codec" "ae_pipeline demo_api = demo_env"
  "ae_sleep demo_api t = ret_io ()"
  by (simp_all add: demo_api_def)

lemma demo_key:
  "provided_key (rq_headers (demo_request ''k1'')) = ''k1''" "provided_key (rq_headers (demo_request ''k2'')) = ''k2''"
  by code_simp+

lemma demo_api_ok:
  "store_ok (\<lambda>w. w) read_int (api_store demo_api_state)" "codec_ok (ae_codec demo_api)"
  "jobs_ok (ae_lib demo_api)" "api_frame demo_api (\<lambda>w. w)"
  "runtime_ok (\<lambda>w. w) read_int (api_runtime demo_api_state)"
proof -
  show "store_ok (\<lambda>w. w) read_int (api_store demo_api_state)"
    using demo_redis_ok demo_redis_up by (simp add: store_ok_def demo_api_state_def demo_store_def)
  have "coded x \<noteq> ''{}''" for x :: json by (simp add: coded_def)
  then show "jobs_ok (ae_lib demo_api)" by (simp add: jobs_ok_def demo_api_lib_def job_record_def)
qed (simp_all add: demo_codec_ok api_frame_def demo_api_def runtime_ok_def demo_api_state_def)

lemma demo_normalises:
  "\<exists>a. normalize_alert demo_api_lib demo_dates (demo_fresh ''u1'') GENERIC [] = Inr a"
proof -
  have at: "\<exists>a. attach_detection_finding b = Inr a" if "observable_candidates b = []" for b
    using attach_total [of b] that by auto
  have "\<exists>b. normalize_alert demo_api_lib demo_dates (demo_fresh ''u1'') GENERIC [] = attach_detection_finding b
      \<and> na_hostname b = None \<and> na_asset_id b = None \<and> na_cloud_account_id b = None
      \<and> na_network b = None \<and> na_user b = None \<and> na_process b = None"
    by (simp add: normalize_alert_def is_detection_finding_payload_def get1_def parse_generic_def Let_def
        make_alert_def opt_value_def str_value_def del: severity_word.simps)
      (rule exI, rule conjI, rule refl, simp)
  then obtain b where b: "normalize_alert demo_api_lib demo_dates (demo_fresh ''u1'') GENERIC [] = attach_detection_finding b"
    and n: "na_hostname b = None" "na_asset_id b = None" "na_cloud_account_id b = None"
      "na_network b = None" "na_user b = None" "na_process b = None" by blast
  have "observable_candidates b = []" by (simp add: observable_candidates_def entry_if_def opt_true_def n)
  then show ?thesis unfolding b by (rule at)
qed

theorem api_key_guards_witness:
  "serve demo_api (handle demo_api (Post_Source ''splunk'') (demo_request ''k2'')) (Map.empty, demo_api_state)
     = (Inr (Inl (HTTPException 401 ''Invalid or missing API key'')), (Map.empty, demo_api_state\<lparr>api_tasks := []\<rparr>))"
  by (rule api_key_guards) (simp_all add: demo_key)

theorem background_run_concluded_witness:
  "\<exists>v ws'. run_triage_background demo_api demo_alert (Map.empty, demo_api_state) = (Inr (), ws')
    \<and> fst (a_get_verdict demo_api (na_alert_id demo_alert) ws') = Inr (Some v)
    \<and> fst (a_get_job demo_api (na_alert_id demo_alert) ws') = Inr (Some (job_record ''complete'' None))"
proof -
  obtain w1 ws' where r: "run_triage_background demo_api demo_alert (Map.empty, demo_api_state) = (Inr (), ws')"
    "case fst (run_triage demo_env demo_alert w1) of
       Inr v \<Rightarrow> fst (a_get_verdict demo_api (na_alert_id demo_alert) ws') = Inr (Some v)
         \<and> fst (a_get_job demo_api (na_alert_id demo_alert) ws') = Inr (Some (job_record ''complete'' None))
     | Inl e \<Rightarrow> fst (a_get_job demo_api (na_alert_id demo_alert) ws') = Inr (Some (job_record ''failed'' (Some (exn_str e))))"
    using background_run_concluded [OF demo_api_ok(1-4), of demo_alert Map.empty]
    unfolding demo_api_simps by blast
  have "no_raise (run_triage demo_env demo_alert)"
    by (rule no_raise_run_triage) (simp_all add: demo_loads demo_extractor)
  then obtain v w2 where "run_triage demo_env demo_alert w1 = (Inr v, w2)" by (rule no_raiseE)
  with r show ?thesis by auto
qed

theorem metrics_are_means_witness:
  "\<exists>w' s'. snd (api_run demo_api [(Post_Source ''generic'', demo_request ''k1''), (Get_Metrics, demo_request ''k1'')]
      (Map.empty, demo_api_state)) = (w', s')
    \<and> pm_verdicts_generated (api_metrics s') = int (length (ct_runs (api_costs s')))
    \<and> pm_verdicts_generated (api_metrics s') + pm_errors (api_metrics s') \<le> pm_alerts_received (api_metrics s')"
proof -
  obtain w' s' where r: "snd (api_run demo_api [(Post_Source ''generic'', demo_request ''k1''),
      (Get_Metrics, demo_request ''k1'')] (Map.empty, demo_api_state)) = (w', s')" by (rule prod.exhaust)
  have "agrees (ae_sleep demo_api t)" for t by (simp add: preserves_ret)
  from metrics_are_means [OF _ _ this r refl] r show ?thesis by (auto simp: demo_api_state_def)
qed

theorem stream_ends_witness:
  "\<exists>evs e ws'. stream_triage_events demo_api ''a1'' (demo_request ''k1'') (Map.empty, demo_api_state)
      = (Inr (map (sse demo_api) (ev_open ''a1'' # evs @ [e])), ws')
    \<and> length evs \<le> 1200 \<and> list_all (open_event ''a1'') evs \<and> final_event demo_api ''a1'' e"
  by (rule stream_ends) (simp add: demo_key)

lemma demo_ingests_in:
  assumes "store_ok (\<lambda>w. w) read_int (api_store s)" "runtime_ok (\<lambda>w. w) read_int (api_runtime s)"
  obtains resp ws where "ingest_alert demo_api ''Generic'' (demo_request ''k1'') (Map.empty, s) = (Inr resp, ws)"
proof -
  have k: "require_key demo_api (demo_request ''k1'') ws = (Inr (), ws)" for ws
    by (simp add: require_key_def validate_api_key_def demo_key)
  have body: "check_payload_size (length (rq_body (demo_request ''k1''))) = Inr ()"
    "read_payload demo_api (demo_request ''k1'') = Inr []"
    by (simp_all add: demo_request_def check_payload_size_def MAX_PAYLOAD_BYTES_def read_payload_def
      demo_api_lib_def sanitise_payload.simps)
  have src: "source_of (str_lower ''Generic'') = Inr GENERIC" by code_simp
  obtain alert where n: "normalise demo_api GENERIC [] (Map.empty, s) = (Inr alert, (Map.empty, s))"
    using demo_normalises by (auto simp: normalise_def on_world_def ie_draw_def demo_api_def)
  obtain w' s' where "accept_alert demo_api alert [] (Map.empty, s) = (Inr (), (w', s'))"
    using accept_done [OF assms] by metis
  with k body src n show thesis by (simp add: ingest_alert_def that)
qed

lemma demo_ingests:
  obtains resp ws where "ingest_alert demo_api ''Generic'' (demo_request ''k1'') (Map.empty, demo_api_state) = (Inr resp, ws)"
  using demo_api_ok(1,5) by (rule demo_ingests_in)

text \<open>The same process with a broker and a write-ahead log.\<close>

definition demo_wired_state :: "kv api_state" where
  "demo_wired_state = demo_api_state\<lparr>api_runtime :=
     Some (RuntimeState_init\<lparr>rt_broker := Some demo_broker, rt_reconciler := Some (demo_reconciler True)\<rparr>)\<rparr>"

lemma demo_wired_ok:
  "store_ok (\<lambda>w. w) read_int (api_store demo_wired_state)"
  "runtime_ok (\<lambda>w. w) read_int (api_runtime demo_wired_state)"
  "wired (api_runtime demo_wired_state)" "storing_keeps demo_api demo_wired_state (\<lambda>w. ())"
  using demo_api_ok(1) demo_redis_ok demo_nats_frame
  by (simp_all add: demo_wired_state_def runtime_ok_def wired_def RuntimeState_init_def storing_keeps_def keeps_def)

theorem accepted_alert_kept_witness:
  "\<exists>resp ws' alert w0. ingest_alert demo_api ''Generic'' (demo_request ''k1'') (Map.empty, demo_wired_state) = (Inr resp, ws')
    \<and> fst (a_get_alert demo_api (na_alert_id alert) ws') = Inr (Some alert)
    \<and> fst (a_get_job demo_api (na_alert_id alert) ws') = Inr (Some (job_record ''queued'' None))
    \<and> api_tasks (snd ws') = []
    \<and> enqueue_via_nats (ae_dump_alert demo_api) (ae_dump_alert_json demo_api) (api_runtime demo_wired_state) alert w0
        = (Inr (True, api_runtime (snd ws')), fst ws')"
proof -
  obtain resp ws' where r: "ingest_alert demo_api ''Generic'' (demo_request ''k1'') (Map.empty, demo_wired_state)
      = (Inr resp, ws')" using demo_wired_ok(1,2) by (rule demo_ingests_in)
  have "api_tasks demo_wired_state = []" by (simp add: demo_wired_state_def demo_api_state_def)
  with accepted_alert_kept [OF demo_wired_ok(1) demo_api_ok(2,3) demo_wired_ok(2,4) r] r demo_wired_ok(3)
  show ?thesis by fastforce
qed

theorem verdict_stays_in_tenant_witness:
  "\<exists>auth ws1 v ws'. api_get_verdict demo_api ''a1'' (demo_request ''k1'')
        ([''soc:verdict:a1'' \<mapsto> coded (decoded ''x'' :: triage_verdict)], demo_api_state)
      = (Inr \<lparr>rs_content = JDict [(''alert_id'', JStr ''a1''), (''status'', JStr ''complete''), (''verdict'', JDict [])],
          rs_headers = []\<rparr>, ws')
    \<and> a_attach_token (demo_request ''k1'')
        ([''soc:verdict:a1'' \<mapsto> coded (decoded ''x'' :: triage_verdict)], demo_api_state) = (Inr auth, ws1)
    \<and> a_get_verdict demo_api ''a1'' ws1 = (Inr (Some v), ws')
    \<and> (verified_tenant_id auth = None \<or> tv_tenant_id v = None \<or> verified_tenant_id auth = tv_tenant_id v)"
proof -
  let ?w = "[''soc:verdict:a1'' \<mapsto> coded (decoded ''x'' :: triage_verdict)]"
  let ?c = "[(''alert_id'', JStr ''a1''), (''status'', JStr ''complete''), (''verdict'', JDict [])]"
  have k: "require_key demo_api (demo_request ''k1'') ws = (Inr (), ws)" for ws
    by (simp add: require_key_def validate_api_key_def demo_key)
  have t: "a_attach_token (demo_request ''k1'') (?w, demo_api_state) = (Inr None, (?w, demo_api_state))"
    by (simp add: a_attach_token_def on_state_def attach_verified_service_token_def demo_api_state_def)
  have v: "a_get_verdict demo_api ''a1'' (?w, demo_api_state) = (Inr (Some (decoded ''x'')), (?w, demo_api_state))"
    by (simp add: a_get_verdict_def reads_eq get_verdict_def demo_api_state_def demo_store_def read_key_def
      KEY_VERDICT_def demo_codec_def)
  have d: "scrubbed demo_api v = JDict []" for v
    by (simp add: scrubbed_def demo_api_def scrub_verdict_for_log_def Let_def)
  have r: "api_get_verdict demo_api ''a1'' (demo_request ''k1'') (?w, demo_api_state)
      = (Inr \<lparr>rs_content = JDict ?c, rs_headers = []\<rparr>, (?w, demo_api_state))"
    using t k v by (simp add: api_get_verdict_def cross_tenant_def verified_tenant_id_def d)
  have q: "st_verdict_auth_required (ae_settings demo_api)" by simp
  from verdict_stays_in_tenant [OF q r, of ?c] r show ?thesis by auto
qed

end
