(* ===== verification/Api_Journey.thy ===== *)
theory Api_Journey
  imports Api_Guarantees Triage_Guarantees
begin

section \<open>From the webhook to the verdict\<close>

text \<open>
  The endpoints of app/main.py composed: an alert is posted, its background task runs with the
  request, and the verdict is asked for afterwards. This is the path the service takes while NATS
  is switched off or not wired; the other path is in Delivery.
\<close>

lemma reads_tasks [simp]:
  "fst (a_get_verdict env i (w, s\<lparr>api_tasks := ts\<rparr>)) = fst (a_get_verdict env i (w, s))"
  "fst (a_get_job env i (w, s\<lparr>api_tasks := ts\<rparr>)) = fst (a_get_job env i (w, s))"
  by (simp_all add: a_get_verdict_def a_get_job_def reads_eq split: prod.split)

lemma serve_returns:
  assumes "handler (w, s\<lparr>api_tasks := []\<rparr>) = (Inr x, ws1)"
  obtains ws' where "serve env handler (w, s) = (Inr (Inr x), ws')"
  using assms that
  by (cases "bind_io (reads (\<lambda>s. ret_io (api_tasks s))) (run_tasks env) ws1")
    (simp add: serve_def catch_io_def bind_io_def)

lemma serve_task:
  assumes "handler (w, s\<lparr>api_tasks := []\<rparr>) = (Inr x, (w1, s1))" "api_tasks s1 = [alert]"
    and "run_triage_background env alert (w1, s1) = (Inr (), ws')"
  shows "serve env handler (w, s) = (Inr (Inr x), ws')"
  using assms by (simp add: serve_def catch_io_def reads_eq bind_io_def split: prod.split)

lemma attach_none:
  assumes "header_get (rq_headers rq) ''Authorization'' = None"
  shows "a_attach_token rq (w, s) = (Inr None, (w, s))"
  using assms
  by (cases "api_runtime s")
    (auto simp: a_attach_token_def on_state_def attach_verified_service_token_def bearer_token_def split: option.split)

text \<open>The verdict endpoint, asked with the API key and no service token, after the background run.\<close>

lemma verdict_request:
  assumes "provided_key (rq_headers rq) = st_api_key (ae_settings env)"
    and "header_get (rq_headers rq) ''Authorization'' = None"
    and "fst (a_get_verdict env i ws) = Inr (Some v)"
  shows "\<exists>resp. fst (serve env (api_get_verdict env i rq) ws) = Inr (Inr resp)
    \<and> rs_content resp = JDict [(''alert_id'', JStr i), (''status'', JStr ''complete''), (''verdict'', scrubbed env v)]"
proof -
  obtain w s where ws: "ws = (w, s)" by (cases ws)
  obtain ws2 where g: "a_get_verdict env i (w, s\<lparr>api_tasks := []\<rparr>) = (Inr (Some v), ws2)"
    using assms(3) ws reads_tasks(1) [where env = env and i = i and w = w and s = s and ts = "[]"]
    by (metis prod.collapse)
  have k: "(if st_verdict_auth_required (ae_settings env) then require_key env rq else ret_io ()) x = (Inr (), x)" for x
    using assms(1) by (simp add: require_key_def validate_api_key_def)
  have "\<not> cross_tenant b None v" for b by (simp add: cross_tenant_def)
  with g obtain resp where
    "api_get_verdict env i rq (w, s\<lparr>api_tasks := []\<rparr>) = (Inr resp, ws2)"
    "rs_content resp = JDict [(''alert_id'', JStr i), (''status'', JStr ''complete''), (''verdict'', scrubbed env v)]"
    by (simp add: api_get_verdict_def Let_def verified_tenant_id_def bind_io_def k attach_none [OF assms(2)])
  with ws show ?thesis by (simp add: serve_def catch_io_def bind_io_def split: prod.split)
qed

text \<open>
  C13. An alert accepted by the service itself is answered: with a working store, and NATS switched
  off or not wired, once the ingest request has answered with an alert id its background run is
  over. When the pipeline gave a verdict, a request for that id with the API key gets exactly this
  verdict, scrubbed, with status complete, and its job is complete; when the pipeline raised, the job has failed with the
  message of the exception.
\<close>

theorem accepted_alert_answered:
  assumes "store_ok kv p (api_store s)" "codec_ok (ae_codec env)" "jobs_ok (ae_lib env)" "api_frame env kv"
    and "runtime_ok kv p (api_runtime s)"
    and "\<not> (st_ingest_via_nats (ae_settings env) \<and> wired (api_runtime s))"
    and "serve env (ingest_alert env source rq) (w, s) = (Inr (Inr resp), ws')"
    and "provided_key (rq_headers rq') = st_api_key (ae_settings env)"
    and "header_get (rq_headers rq') ''Authorization'' = None"
  shows "\<exists>alert w1. dict_get resp ''alert_id'' JNull = JStr (na_alert_id alert)
    \<and> (case fst (run_triage (ae_pipeline env) alert w1) of
         Inr v \<Rightarrow> (\<exists>resp'. fst (serve env (api_get_verdict env (na_alert_id alert) rq') ws') = Inr (Inr resp')
           \<and> rs_content resp' = JDict [(''alert_id'', JStr (na_alert_id alert)), (''status'', JStr ''complete''),
                (''verdict'', scrubbed env v)])
           \<and> fst (a_get_job env (na_alert_id alert) ws') = Inr (Some (job_record ''complete'' None))
       | Inl e \<Rightarrow> fst (a_get_job env (na_alert_id alert) ws') = Inr (Some (job_record ''failed'' (Some (exn_str e)))))"
proof -
  let ?s = "s\<lparr>api_tasks := []\<rparr>"
  obtain r ws1 where i: "ingest_alert env source rq (w, ?s) = (r, ws1)" by (rule prod.exhaust)
  have "r = Inr resp" using assms(7) i
    by (cases r) (auto simp: serve_def catch_io_def bind_io_def split: prod.splits sum.splits)
  with i have ing: "ingest_alert env source rq (w, ?s) = (Inr resp, ws1)" by simp
  have ok: "store_ok kv p (api_store ?s)" "runtime_ok kv p (api_runtime ?s)" using assms(1,5) by simp_all
  obtain alert w1 s1 where d: "ws1 = (w1, s1)" "dict_get resp ''alert_id'' JNull = JStr (na_alert_id alert)"
    "store_ok kv p (api_store s1)" "api_tasks s1 = [alert]"
    using assms(6) by (rule_tac ingest_done [OF ok ing]) auto
  obtain w2 ws2 where b: "run_triage_background env alert (w1, s1) = (Inr (), ws2)"
    "case fst (run_triage (ae_pipeline env) alert w2) of
       Inr v \<Rightarrow> fst (a_get_verdict env (na_alert_id alert) ws2) = Inr (Some v)
         \<and> fst (a_get_job env (na_alert_id alert) ws2) = Inr (Some (job_record ''complete'' None))
     | Inl e \<Rightarrow> fst (a_get_job env (na_alert_id alert) ws2) = Inr (Some (job_record ''failed'' (Some (exn_str e))))"
    using background_run_concluded [OF d(3) assms(2-4), of alert w1] by blast
  have "ws' = ws2"
    using serve_task [where handler = "ingest_alert env source rq" and w = w and s = s, OF _ d(4) b(1)] ing d(1) assms(7)
    by simp
  with d(2) b(2) show ?thesis
    by (intro exI [of _ alert] exI [of _ w2]) (auto split: sum.splits intro: verdict_request [OF assms(8,9)])
qed

theorem accepted_alert_answered_witness:
  "\<exists>resp ws' (alert :: normalized_alert) v resp'. serve demo_api (ingest_alert demo_api ''Generic'' (demo_request ''k1'')) (Map.empty, demo_api_state)
      = (Inr (Inr resp), ws')
    \<and> dict_get resp ''alert_id'' JNull = JStr (na_alert_id alert)
    \<and> fst (serve demo_api (api_get_verdict demo_api (na_alert_id alert) (demo_request ''k1'')) ws') = Inr (Inr resp')
    \<and> rs_content resp' = JDict [(''alert_id'', JStr (na_alert_id alert)), (''status'', JStr ''complete''),
         (''verdict'', scrubbed demo_api v)]"
proof -
  let ?s = "demo_api_state\<lparr>api_tasks := []\<rparr>"
  have s: "?s = demo_api_state" by (simp add: demo_api_state_def)
  obtain resp ws where i: "ingest_alert demo_api ''Generic'' (demo_request ''k1'') (Map.empty, demo_api_state)
      = (Inr resp, ws)" by (rule demo_ingests)
  obtain ws' where r: "serve demo_api (ingest_alert demo_api ''Generic'' (demo_request ''k1''))
      (Map.empty, demo_api_state) = (Inr (Inr resp), ws')"
    by (rule serve_returns [of "ingest_alert demo_api ''Generic'' (demo_request ''k1'')" Map.empty demo_api_state resp ws])
      (simp_all add: s i)
  have nw: "\<not> wired (api_runtime demo_api_state)" by (simp add: wired_def demo_api_state_def)
  have rq: "header_get (rq_headers (demo_request ''k1'')) ''Authorization'' = None" by code_simp
  obtain alert w2 where o: "dict_get resp ''alert_id'' JNull = JStr (na_alert_id alert)"
    "case fst (run_triage demo_env alert w2) of
       Inr v \<Rightarrow> (\<exists>resp'. fst (serve demo_api (api_get_verdict demo_api (na_alert_id alert) (demo_request ''k1'')) ws')
             = Inr (Inr resp')
         \<and> rs_content resp' = JDict [(''alert_id'', JStr (na_alert_id alert)), (''status'', JStr ''complete''),
              (''verdict'', scrubbed demo_api v)])
         \<and> fst (a_get_job demo_api (na_alert_id alert) ws') = Inr (Some (job_record ''complete'' None))
     | Inl e \<Rightarrow> fst (a_get_job demo_api (na_alert_id alert) ws') = Inr (Some (job_record ''failed'' (Some (exn_str e))))"
    using accepted_alert_answered [OF demo_api_ok _ r, of "demo_request ''k1''"] nw rq
    unfolding demo_api_simps demo_key by blast
  have "no_raise (run_triage demo_env alert)"
    by (rule no_raise_run_triage) (simp_all add: demo_loads demo_extractor)
  then obtain v w3 where "run_triage demo_env alert w2 = (Inr v, w3)" by (rule no_raiseE)
  with o(2) obtain resp' where g: "fst (serve demo_api (api_get_verdict demo_api (na_alert_id alert) (demo_request ''k1'')) ws')
       = Inr (Inr resp')"
    "rs_content resp' = JDict [(''alert_id'', JStr (na_alert_id alert)), (''status'', JStr ''complete''),
       (''verdict'', scrubbed demo_api v)]" by auto
  with o(1) r show ?thesis by blast
qed

end
