(* ===== verification/Background_Runs.thy ===== *)
theory Background_Runs
  imports Api_Journey
begin

section \<open>Background runs side by side\<close>

text \<open>
  \<open>_run_triage_background\<close> of app/main.py cut at its \<open>await\<close>s. The event loop may switch to another run,
  or to a request, at each of them and nowhere else, so that a process is a list of runs, each at one
  of the places of \<open>bg_run\<close>, and a step takes one run to its next \<open>await\<close>. The runs share the state of the
  process and the world. \<open>drive_is_background\<close> shows that the pieces put together again are the coroutine
  of Api. A pipeline run is one step, at the moment it ends; the tasks one request adds run one after
  the other in the code, and in any order here.
\<close>

datatype bg_run =
    Queued normalized_alert
  | Announcing normalized_alert rat
  | Triaging normalized_alert rat
  | Storing normalized_alert triage_verdict int
  | Marking normalized_alert triage_verdict int
  | Counting normalized_alert triage_verdict int
  | Notifying normalized_alert triage_verdict
  | Answered normalized_alert triage_verdict
  | Failing normalized_alert exn
  | Reporting normalized_alert exn
  | Reported normalized_alert exn
  | Refused normalized_alert exn
  | Lost normalized_alert exn

text \<open>
  \<open>Answered\<close> and \<open>Reported\<close>: the task returned. \<open>Refused\<close> and \<open>Lost\<close>: the task itself raised, since the job
  state could not be written before the \<open>try\<close> or in its handler.
\<close>

fun run_alert :: "bg_run \<Rightarrow> normalized_alert" where
  "run_alert (Queued a) = a"
| "run_alert (Announcing a t) = a"
| "run_alert (Triaging a t) = a"
| "run_alert (Storing a v e) = a"
| "run_alert (Marking a v e) = a"
| "run_alert (Counting a v e) = a"
| "run_alert (Notifying a v) = a"
| "run_alert (Answered a v) = a"
| "run_alert (Failing a exc) = a"
| "run_alert (Reporting a exc) = a"
| "run_alert (Reported a exc) = a"
| "run_alert (Refused a exc) = a"
| "run_alert (Lost a exc) = a"

subsection \<open>One run\<close>

text \<open>
  The code between two \<open>await\<close>s, with the awaited call itself at the front. An exception inside the \<open>try\<close>
  leads to \<open>Failing\<close>.
\<close>

fun advance :: "'w api_env \<Rightarrow> bg_run \<Rightarrow> ('w, bg_run) api" where
  "advance env (Queued a) =
     bind_io (a_now env) (\<lambda>start. bind_io (modify count_received) (\<lambda>_. ret_io (Announcing a start)))"
| "advance env (Announcing a start) =
     try_io (bind_io (a_set_job env (na_alert_id a) ''running'' None) (\<lambda>_. ret_io (Triaging a start)))
       (\<lambda>exc. ret_io (Refused a exc))"
| "advance env (Triaging a start) =
     try_io
       (bind_io (on_world (run_triage (ae_pipeline env) a)) (\<lambda>v.
        bind_io (a_now env) (\<lambda>now. ret_io (Storing a v (trunc_rat ((now - start) * 1000))))))
       (\<lambda>exc. ret_io (Failing a exc))"
| "advance env (Storing a v e) =
     try_io (bind_io (a_put_verdict env (na_alert_id a) v) (\<lambda>_. ret_io (Marking a v e)))
       (\<lambda>exc. ret_io (Failing a exc))"
| "advance env (Marking a v e) =
     try_io (bind_io (a_set_job env (na_alert_id a) ''complete'' None) (\<lambda>_. ret_io (Counting a v e)))
       (\<lambda>exc. ret_io (Failing a exc))"
| "advance env (Counting a v e) =
     bind_io (modify (count_verdict e)) (\<lambda>_.
     bind_io (a_now env) (\<lambda>ts.
     bind_io (modify (record_cost a v e ts)) (\<lambda>_. ret_io (Notifying a v))))"
| "advance env (Notifying a v) =
     try_io (bind_io (notify_triage_webhook env (na_alert_id a) v) (\<lambda>_. ret_io (Answered a v)))
       (\<lambda>exc. ret_io (Failing a exc))"
| "advance env (Failing a exc) = bind_io (modify count_error) (\<lambda>_. ret_io (Reporting a exc))"
| "advance env (Reporting a exc) =
     try_io (bind_io (a_set_job env (na_alert_id a) ''failed'' (Some (exn_str exc))) (\<lambda>_. ret_io (Reported a exc)))
       (\<lambda>exc'. ret_io (Lost a exc'))"
| "advance env r = ret_io r"

fun over :: "bg_run \<Rightarrow> bool" where
  "over (Answered a v) = True"
| "over (Reported a exc) = True"
| "over (Refused a exc) = True"
| "over (Lost a exc) = True"
| "over r = False"

text \<open>How far a run is: every step of a run that is not over takes it further.\<close>

fun stage :: "bg_run \<Rightarrow> nat" where
  "stage (Queued a) = 0"
| "stage (Announcing a t) = 1"
| "stage (Triaging a t) = 2"
| "stage (Storing a v e) = 3"
| "stage (Marking a v e) = 4"
| "stage (Counting a v e) = 5"
| "stage (Notifying a v) = 6"
| "stage (Failing a exc) = 7"
| "stage (Reporting a exc) = 8"
| "stage r = 9"

text \<open>The run on its own, one step after the other.\<close>

fun drive :: "nat \<Rightarrow> 'w api_env \<Rightarrow> bg_run \<Rightarrow> ('w, bg_run) api" where
  "drive 0 env r = ret_io r"
| "drive (Suc n) env r = bind_io (advance env r) (drive n env)"

definition outcome :: "bg_run \<Rightarrow> exn + unit" where
  "outcome r = (case r of Refused a exc \<Rightarrow> Inl exc | Lost a exc \<Rightarrow> Inl exc | _ \<Rightarrow> Inr ())"

lemma no_raise_advance: "no_raise (advance env r)"
  by (cases r) (auto intro!: no_raise_intros no_raise_a_now)

lemma advance_further:
  assumes "advance env r ws = (Inr r', ws')" "\<not> over r"
  shows "stage r < stage r'" "run_alert r' = run_alert r"
  using assms
  by (cases r; fastforce simp: bind_io_def try_io_def split: prod.splits sum.splits)+

lemma drive_over: "over r \<Longrightarrow> drive n env r ws = (Inr r, ws)"
  by (induction n) (cases r; simp add: bind_io_def)+

text \<open>From the handler of the exception on, from the stored verdict on, and so backwards to the start.\<close>

lemma drive_failing:
  "bind_io (drive (Suc (Suc n)) env (Failing a exc)) (\<lambda>r. of_result (outcome r)) ws
   = bind_io (modify count_error) (\<lambda>_. a_set_job env (na_alert_id a) ''failed'' (Some (exn_str exc))) ws"
proof -
  obtain w s where ws: "ws = (w, s)" by (rule prod.exhaust)
  obtain res ws' where j: "a_set_job env (na_alert_id a) ''failed'' (Some (exn_str exc)) (w, count_error s) = (res, ws')"
    by (rule prod.exhaust)
  show ?thesis
    by (cases res) (simp_all add: ws j drive_over outcome_def bind_io_def try_io_def)
qed

lemma drive_step:
  assumes "advance env r ws = (Inr r', ws')"
  shows "bind_io (drive (Suc n) env r) k ws = bind_io (drive n env r') k ws'"
  using assms by (simp add: bind_io_def)

lemma drive_answered: "bind_io (drive n env (Answered a v)) (\<lambda>r. of_result (outcome r)) ws = (Inr (), ws)"
  by (simp add: drive_over outcome_def bind_io_def)

lemma drive_counting:
  "bind_io (drive 4 env (Counting a v e)) (\<lambda>r. of_result (outcome r)) ws = complete_run env a v e ws"
proof -
  obtain w s where ws: "ws = (w, s)" by (rule prod.exhaust)
  obtain ts w1 s1 where t: "a_now env (w, count_verdict e s) = (Inr ts, (w1, s1))"
    using no_raise_a_now by (rule no_raiseE) auto
  obtain ws2 where n: "notify_triage_webhook env (na_alert_id a) v (w1, record_cost a v e ts s1) = (Inr (), ws2)"
    using no_raise_notify by (rule no_raiseE) auto
  show ?thesis
    using t n by (simp add: ws numeral_eq_Suc complete_run_def outcome_def bind_io_def try_io_def)
qed

lemma drive_triaging:
  "bind_io (drive 7 env (Triaging a t)) (\<lambda>r. of_result (outcome r)) ws
   = try_io (triage_attempt env a t)
       (\<lambda>exc. bind_io (modify count_error) (\<lambda>_. a_set_job env (na_alert_id a) ''failed'' (Some (exn_str exc)))) ws"
proof -
  let ?id = "na_alert_id a" and ?k = "\<lambda>r. of_result (outcome r)"
  let ?h = "\<lambda>exc. bind_io (modify count_error) (\<lambda>_. a_set_job env ?id ''failed'' (Some (exn_str exc)))"
  let ?d = "\<lambda>n r. bind_io (drive n env r) ?k"
  have fail: "?d (Suc (Suc n)) (Failing a exc) x = ?h exc x" for n exc x by (rule drive_failing)
  obtain r1 ws1 where p: "on_world (run_triage (ae_pipeline env) a) ws = (r1, ws1)" by (rule prod.exhaust)
  show ?thesis
  proof (cases r1)
    case (Inl exc)
    then have "?d 7 (Triaging a t) ws = ?d 6 (Failing a exc) ws1"
      using p drive_step [of env "Triaging a t" ws "Failing a exc" ws1 6 ?k] by (simp add: bind_io_def try_io_def)
    with p Inl fail [of 4] show ?thesis by (simp add: triage_attempt_def)
  next
    case v: (Inr v)
    obtain now ws2 where now: "a_now env ws1 = (Inr now, ws2)" using no_raise_a_now by (rule no_raiseE) auto
    define e where "e = trunc_rat ((now - t) * 1000)"
    have 1: "?d 7 (Triaging a t) ws = ?d 6 (Storing a v e) ws2"
      using p v now drive_step [of env "Triaging a t" ws "Storing a v e" ws2 6 ?k] by (simp add: e_def)
    obtain r3 ws3 where s: "a_put_verdict env ?id v ws2 = (r3, ws3)" by (rule prod.exhaust)
    obtain r4 ws4 where m: "a_set_job env ?id ''complete'' None ws3 = (r4, ws4)" by (rule prod.exhaust)
    have att: "triage_attempt env a t ws = bind_io (a_put_verdict env ?id v)
        (\<lambda>_. bind_io (a_set_job env ?id ''complete'' None) (\<lambda>_. complete_run env a v e)) ws2"
      using p v now by (simp add: triage_attempt_def e_def Let_def)
    show ?thesis
    proof (cases "\<exists>exc. r3 = Inl exc")
      case True
      then obtain exc where r3: "r3 = Inl exc" by blast
      have "?d 6 (Storing a v e) ws2 = ?d 5 (Failing a exc) ws3"
        using s r3 drive_step [of env "Storing a v e" ws2 "Failing a exc" ws3 5 ?k] by (simp add: bind_io_def try_io_def)
      with 1 att s r3 fail [of 3] show ?thesis by simp
    next
      case False
      then have r3: "r3 = Inr ()" by (cases r3) auto
      have 2: "?d 6 (Storing a v e) ws2 = ?d 5 (Marking a v e) ws3"
        using s r3 drive_step [of env "Storing a v e" ws2 "Marking a v e" ws3 5 ?k] by (simp add: bind_io_def try_io_def)
      show ?thesis
      proof (cases r4)
        case (Inl exc)
        then have "?d 5 (Marking a v e) ws3 = ?d 4 (Failing a exc) ws4"
          using m drive_step [of env "Marking a v e" ws3 "Failing a exc" ws4 4 ?k] by (simp add: bind_io_def try_io_def)
        with 1 2 att s r3 m Inl fail [of 2] show ?thesis by simp
      next
        case (Inr u)
        then have "?d 5 (Marking a v e) ws3 = ?d 4 (Counting a v e) ws4"
          using m drive_step [of env "Marking a v e" ws3 "Counting a v e" ws4 4 ?k] by (simp add: bind_io_def try_io_def)
        moreover obtain ws5 where "complete_run env a v e ws4 = (Inr (), ws5)"
          using complete_run_core [of env a v e "fst ws4" "snd ws4"] by auto
        ultimately show ?thesis using 1 2 att s r3 m Inr drive_counting [of env a v e ws4] by simp
      qed
    qed
  qed
qed

text \<open>The pieces of a run, one after the other, are the coroutine, and they bring the run to its end.\<close>

lemma drive_is_background:
  "run_triage_background env a ws = bind_io (drive 9 env (Queued a)) (\<lambda>r. of_result (outcome r)) ws"
proof -
  let ?id = "na_alert_id a" and ?k = "\<lambda>r. of_result (outcome r)"
  let ?h = "\<lambda>exc. bind_io (modify count_error) (\<lambda>_. a_set_job env ?id ''failed'' (Some (exn_str exc)))"
  have fail: "bind_io (drive (Suc (Suc n)) env (Failing a exc)) ?k x = ?h exc x" for n exc x
    by (rule drive_failing)
  obtain t w0 s0 where t: "a_now env ws = (Inr t, (w0, s0))" using no_raise_a_now by (rule no_raiseE) auto
  obtain r1 ws1 where j: "a_set_job env ?id ''running'' None (w0, count_received s0) = (r1, ws1)" by (rule prod.exhaust)
  have 1: "bind_io (drive 9 env (Queued a)) ?k ws = bind_io (drive 8 env (Announcing a t)) ?k (w0, count_received s0)"
    using t drive_step [of env "Queued a" ws "Announcing a t" _ 8 ?k] by (simp add: bind_io_def)
  show ?thesis
  proof (cases r1)
    case (Inl exc)
    then have "bind_io (drive 8 env (Announcing a t)) ?k (w0, count_received s0) = bind_io (drive 7 env (Refused a exc)) ?k ws1"
      using j drive_step [of env "Announcing a t" _ "Refused a exc" _ 7 ?k] by (simp add: bind_io_def try_io_def)
    with 1 t j Inl show ?thesis by (simp add: run_triage_background_def drive_over outcome_def bind_io_def)
  next
    case (Inr u)
    then have 2: "bind_io (drive 8 env (Announcing a t)) ?k (w0, count_received s0) = bind_io (drive 7 env (Triaging a t)) ?k ws1"
      using j drive_step [of env "Announcing a t" _ "Triaging a t" _ 7 ?k] by (simp add: bind_io_def try_io_def)
    have "bind_io (drive 7 env (Triaging a t)) ?k ws1 = try_io (triage_attempt env a t) ?h ws1"
      by (rule drive_triaging)
    with 1 2 t j Inr show ?thesis by (simp add: run_triage_background_def bind_io_def)
  qed
qed

lemma drive_ends: "9 \<le> n + stage r \<Longrightarrow> drive n env r ws = (Inr r', ws') \<Longrightarrow> over r'"
proof (induction n arbitrary: r ws)
  case 0
  then show ?case by (cases r) auto
next
  case (Suc n)
  show ?case
  proof (cases "over r")
    case True
    then show ?thesis using Suc.prems(2) drive_over [OF True, of "Suc n" env ws] by simp
  next
    case False
    obtain r1 ws1 where a: "advance env r ws = (Inr r1, ws1)" using no_raise_advance by (rule no_raiseE) auto
    with advance_further(1) [OF a False] Suc.prems show ?thesis by (intro Suc.IH [of r1 ws1]) simp_all
  qed
qed

subsection \<open>The runs of a process\<close>

text \<open>
  A process: its runs, the world and its state. A request is served between two \<open>await\<close>s of the runs,
  and its tasks join the runs; something outside may change the world at any time.
\<close>

type_synonym 'w process = "bg_run list \<times> 'w \<times> 'w api_state"

datatype 'w process_event =
    Step nat
  | Serve api_request http_request
  | Outside 'w

inductive process_step :: "'w api_env \<Rightarrow> 'w process \<Rightarrow> 'w process_event \<Rightarrow> 'w process \<Rightarrow> bool"
  for env :: "'w api_env" where
  step: "i < length runs \<Longrightarrow> advance env (runs ! i) ws = (Inr r, ws') \<Longrightarrow>
     process_step env (runs, ws) (Step i) (runs[i := r], ws')"
| request: "handle env rq h (w, s\<lparr>api_tasks := []\<rparr>) = (res, (w', s')) \<Longrightarrow>
     process_step env (runs, (w, s)) (Serve rq h)
       (runs @ (case res of Inl e \<Rightarrow> [] | Inr x \<Rightarrow> map Queued (api_tasks s')), (w', s'))"
| outside: "process_step env (runs, (w, s)) (Outside w') (runs, (w', s))"

inductive_cases process_stepE: "process_step env (runs, ws) ev (runs', ws')"

inductive process_run :: "'w api_env \<Rightarrow> 'w process \<Rightarrow> 'w process_event list \<Rightarrow> 'w process \<Rightarrow> bool"
  for env :: "'w api_env" where
  run_nil: "process_run env p [] p"
| run_snoc: "process_run env p evs p' \<Longrightarrow> process_step env p' ev p'' \<Longrightarrow> process_run env p (evs @ [ev]) p''"

fun is_step :: "'w process_event \<Rightarrow> bool" where
  "is_step (Step i) = True"
| "is_step ev = False"

text \<open>The runs can always be brought to their end.\<close>

lemma process_run_trans: "process_run env p' evs' p'' \<Longrightarrow> process_run env p evs p' \<Longrightarrow> process_run env p (evs @ evs') p''"
  by (induction rule: process_run.induct) (auto simp flip: append_assoc intro: run_snoc)

definition work_left :: "bg_run list \<Rightarrow> nat" where
  "work_left runs = sum_list (map (\<lambda>r. 9 - stage r) runs)"

lemma stage_bound: "stage r \<le> 9"
  by (cases r) auto

lemma runs_finish: "\<exists>evs runs' ws'. process_run env (runs, ws) evs (runs', ws') \<and> list_all is_step evs
  \<and> list_all over runs'"
proof (induction "work_left runs" arbitrary: runs ws rule: less_induct)
  case less
  show ?case
  proof (cases "list_all over runs")
    case True
    then show ?thesis by (intro exI [of _ "[]"] exI [of _ runs] exI [of _ ws]) (simp add: run_nil)
  next
    case False
    then obtain i where i: "i < length runs" "\<not> over (runs ! i)" by (auto simp: list_all_length)
    obtain r ws1 where a: "advance env (runs ! i) ws = (Inr r, ws1)" using no_raise_advance by (rule no_raiseE) auto
    have "stage (runs ! i) < stage r" by (rule advance_further(1) [OF a i(2)])
    then have "9 - stage r < 9 - stage (runs ! i)" using stage_bound [of r] by simp
    moreover have "9 - stage (runs ! i) \<le> work_left runs"
      unfolding work_left_def using elem_le_sum_list [of i "map (\<lambda>r. 9 - stage r) runs"] i(1) by simp
    ultimately have "work_left (runs[i := r]) < work_left runs"
      using i(1) by (simp add: work_left_def map_update sum_list_update)
    from less [OF this, of ws1] obtain evs runs' ws' where
      rest: "process_run env (runs[i := r], ws1) evs (runs', ws')" "list_all is_step evs" "list_all over runs'" by blast
    have "process_run env (runs, ws) [Step i] (runs[i := r], ws1)"
      using run_snoc [OF run_nil process_step.step [OF i(1) a]] by simp
    from process_run_trans [OF rest(1) this] rest(2,3) show ?thesis
      by (intro exI [of _ "[Step i] @ evs"] exI [of _ runs'] exI [of _ ws']) simp
  qed
qed

lemma steps_length: "process_run env p evs p' \<Longrightarrow> list_all is_step evs \<Longrightarrow> length (fst p') = length (fst p)"
proof (induction rule: process_run.induct)
  case (run_snoc p evs p' ev p'')
  then show ?case by (cases ev) (auto elim: process_step.cases)
qed simp

subsection \<open>The books of interleaved runs\<close>

text \<open>Which counters a run has been counted in.\<close>

fun started :: "bg_run \<Rightarrow> bool" where
  "started (Queued a) = False"
| "started r = True"

fun counted :: "bg_run \<Rightarrow> bool" where
  "counted (Notifying a v) = True"
| "counted (Answered a v) = True"
| "counted r = False"

fun erred :: "bg_run \<Rightarrow> bool" where
  "erred (Reporting a exc) = True"
| "erred (Reported a exc) = True"
| "erred (Lost a exc) = True"
| "erred r = False"

fun refused :: "bg_run \<Rightarrow> bool" where
  "refused (Refused a exc) = True"
| "refused r = False"

text \<open>What the cost tracker has of a counted run.\<close>

fun booked :: "bg_run \<Rightarrow> string \<times> string list" where
  "booked (Notifying a v) = (na_alert_id a, tv_tools_called v)"
| "booked (Answered a v) = (na_alert_id a, tv_tools_called v)"
| "booked r = ([], [])"

definition books :: "bg_run multiset \<Rightarrow> pipeline_metrics \<times> cost_tracker \<Rightarrow> bool" where
  "books M mc \<longleftrightarrow>
     (let m = fst mc; rs = ct_runs (snd mc); xs = map run_elapsed_ms rs in
      pm_alerts_received m = int (size (filter_mset started M))
      \<and> pm_verdicts_generated m = int (size (filter_mset counted M))
      \<and> pm_errors m = int (size (filter_mset erred M))
      \<and> mset (map (\<lambda>c. (run_alert_id c, run_tools_called c)) rs) = image_mset booked (filter_mset counted M)
      \<and> pm_avg_latency_ms m * of_nat (length xs) = of_int (sum_list xs)
      \<and> counts_agree (snd mc))"

lemma books_length:
  assumes "books M mc"
  shows "length (ct_runs (snd mc)) = size (filter_mset counted M)"
proof -
  have "mset (map (\<lambda>c. (run_alert_id c, run_tools_called c)) (ct_runs (snd mc))) = image_mset booked (filter_mset counted M)"
    using assms by (simp add: books_def Let_def)
  from arg_cong [where f = size, OF this] show ?thesis by simp
qed

text \<open>What a step does to the counters, and how it changes the classes of its run.\<close>

lemma advance_core:
  assumes "advance env r (w, s) = (Inr r', (w', s'))"
  shows "case r of
      Queued a \<Rightarrow> core s' = core (count_received s) \<and> started r' \<and> \<not> counted r' \<and> \<not> erred r'
    | Counting a v e \<Rightarrow> (\<exists>ts. core s' = core (record_cost a v e ts (count_verdict e s))) \<and> r' = Notifying a v
    | Failing a exc \<Rightarrow> core s' = core (count_error s) \<and> started r' \<and> \<not> counted r' \<and> erred r'
    | _ \<Rightarrow> core s' = core s \<and> started r' \<and> counted r' = counted r \<and> erred r' = erred r \<and> booked r' = booked r"
proof (cases r)
  case (Queued a)
  obtain t w1 s1 where t: "a_now env (w, s) = (Inr t, (w1, s1))" using no_raise_a_now by (rule no_raiseE) auto
  have "core s1 = core s" using keepsD [OF keeps_core_services(7) t] by simp
  from count_steps_core(1) [OF this] show ?thesis using assms Queued t by auto
next
  case (Counting a v e)
  obtain ts w1 s1 where t: "a_now env (w, count_verdict e s) = (Inr ts, (w1, s1))"
    using no_raise_a_now by (rule no_raiseE) auto
  have "core s1 = core (count_verdict e s)" using keepsD [OF keeps_core_services(7) t] by simp
  then have "core (record_cost a v e ts s1) = core (record_cost a v e ts (count_verdict e s))"
    by (simp add: core_def record_cost_def)
  then show ?thesis using assms Counting t by auto
next
  case (Notifying a v)
  obtain w1 s1 where n: "notify_triage_webhook env (na_alert_id a) v (w, s) = (Inr (), (w1, s1))"
    using no_raise_notify by (rule no_raiseE) auto
  have "core s1 = core s" using keepsD [OF keeps_core_notify n] by simp
  then show ?thesis using assms Notifying n by auto
next
  case (Announcing a t)
  have "keeps_core (advance env r)" unfolding Announcing advance.simps by (intro keeps_intros)
  from keepsD [OF this assms] show ?thesis using assms Announcing
    by (auto simp: bind_io_def try_io_def split: prod.splits sum.splits)
next
  case (Triaging a t)
  have "keeps_core (advance env r)" unfolding Triaging advance.simps by (intro keeps_intros)
  from keepsD [OF this assms] show ?thesis using assms Triaging
    by (auto simp: bind_io_def try_io_def split: prod.splits sum.splits)
next
  case (Storing a v e)
  have "keeps_core (advance env r)" unfolding Storing advance.simps by (intro keeps_intros)
  from keepsD [OF this assms] show ?thesis using assms Storing
    by (auto simp: bind_io_def try_io_def split: prod.splits sum.splits)
next
  case (Marking a v e)
  have "keeps_core (advance env r)" unfolding Marking advance.simps by (intro keeps_intros)
  from keepsD [OF this assms] show ?thesis using assms Marking
    by (auto simp: bind_io_def try_io_def split: prod.splits sum.splits)
next
  case (Reporting a exc)
  have "keeps_core (advance env r)" unfolding Reporting advance.simps by (intro keeps_intros)
  from keepsD [OF this assms] show ?thesis using assms Reporting
    by (auto simp: bind_io_def try_io_def split: prod.splits sum.splits)
qed (use assms in auto)

lemma books_received:
  assumes "books (add_mset (Queued a) M) (core s)" "started r'" "\<not> counted r'" "\<not> erred r'"
  shows "books (add_mset r' M) (core (count_received s))"
  using assms by (simp add: books_def core_def count_received_def Let_def)

lemma books_error:
  assumes "books (add_mset (Failing a exc) M) (core s)" "started r'" "\<not> counted r'" "erred r'"
  shows "books (add_mset r' M) (core (count_error s))"
  using assms by (simp add: books_def core_def count_error_def Let_def)

lemma books_verdict:
  assumes "books (add_mset (Counting a v e) M) (core s)"
  shows "books (add_mset (Notifying a v) M) (core (record_cost a v e ts (count_verdict e s)))"
proof -
  let ?rs = "ct_runs (api_costs s)" and ?m = "api_metrics s"
  have n: "length ?rs = size (filter_mset counted M)" using books_length [OF assms] by (simp add: core_def)
  have avg: "pm_avg_latency_ms ?m * of_nat (length ?rs) = of_int (sum_list (map run_elapsed_ms ?rs))"
    and g: "pm_verdicts_generated ?m = int (size (filter_mset counted M))"
    and c: "counts_agree (api_costs s)"
    using assms by (simp_all add: books_def core_def Let_def)
  have "(pm_avg_latency_ms ?m * ((of_nat (length ?rs) + 1) - 1) + of_int e)
      / (of_nat (length ?rs) + 1) * (of_nat (length ?rs) + 1) = of_int (sum_list (map run_elapsed_ms ?rs) + e)"
    using mean_step [of "of_nat (length ?rs)" "pm_avg_latency_ms ?m" "of_int e"] avg by simp
  moreover have "counts_agree (record_triage ts (na_alert_id a) (tv_tools_called v) e
      (severity_value (tv_severity v)) 0 0 (api_costs s))"
    using c by (rule counts_agree_record)
  ultimately show ?thesis
    using assms n g
    by (simp add: books_def core_def record_cost_def count_verdict_def Let_def record_triage_def add.commute)
qed

lemma books_same:
  assumes "books (add_mset r M) (core s)" "core s' = core s"
    and "started r' = started r" "counted r' = counted r" "erred r' = erred r" "booked r' = booked r"
  shows "books (add_mset r' M) (core s')"
  using assms by (simp add: books_def Let_def)

lemma books_advance:
  assumes "advance env r (w, s) = (Inr r', (w', s'))" "books (add_mset r M) (core s)"
  shows "books (add_mset r' M) (core s')"
proof (cases "\<exists>a. r = Queued a")
  case True
  then obtain a where "r = Queued a" by blast
  with advance_core [OF assms(1)] assms(2) show ?thesis by (auto intro: books_received)
next
  case notq: False
  show ?thesis
  proof (cases "(\<exists>a v e. r = Counting a v e) \<or> (\<exists>a exc. r = Failing a exc)")
    case True
    then show ?thesis
    proof (elim disjE exE)
      fix a v e assume r: "r = Counting a v e"
      then obtain ts where "core s' = core (record_cost a v e ts (count_verdict e s))" "r' = Notifying a v"
        using advance_core [OF assms(1)] by auto
      with books_verdict [of a v e M s ts] assms(2) r show ?thesis by simp
    next
      fix a exc assume "r = Failing a exc"
      with advance_core [OF assms(1)] assms(2) show ?thesis by (auto intro: books_error)
    qed
  next
    case False
    then have st: "started r" using notq by (cases r) auto
    from advance_core [OF assms(1)] notq False
    have "core s' = core s" "started r'" "counted r' = counted r" "erred r' = erred r" "booked r' = booked r"
      by (auto split: bg_run.splits)
    with assms(2) st show ?thesis by (auto intro: books_same)
  qed
qed

lemma books_more: "books M mc \<Longrightarrow> books (M + image_mset Queued N) mc"
  by (simp add: books_def Let_def filter_mset_image_mset)

lemma keeps_core_ticks:
  assumes "\<And>t. keeps_core (ae_sleep env t)"
  shows "keeps_core (stream_ticks n env a)"
  using assms by (induction n) (auto split: sum.split intro!: keeps_intros)

lemma keeps_core_handle:
  assumes "\<And>t. keeps_core (ae_sleep env t)"
  shows "keeps_core (handle env rq h)"
  by (cases rq)
    (auto simp: answer_def stream_triage_events_def intro!: keeps_intros keeps_core_ticks assms)

lemma books_step:
  assumes "process_step env (runs, (w, s)) ev (runs', (w', s'))" "\<And>t. keeps_core (ae_sleep env t)"
    and "books (mset runs) (core s)"
  shows "books (mset runs') (core s')"
  using assms(1)
proof (cases rule: process_step.cases)
  case (step i r)
  then have "mset runs = add_mset (runs ! i) (mset runs - {#runs ! i#})" by simp
  then obtain M where M: "mset runs = add_mset (runs ! i) M" by blast
  have "mset runs' = add_mset r M" using step M by (simp add: mset_update)
  with books_advance [of env "runs ! i" w s r w' s' M] step assms(3) M show ?thesis by simp
next
  case (request rq h res)
  have "core s' = core (s\<lparr>api_tasks := []\<rparr>)"
    using keepsD [OF keeps_core_handle [OF assms(2)]] request by fastforce
  with request assms(3) show ?thesis by (auto split: sum.splits intro: books_more)
next
  case outside
  with assms(3) show ?thesis by simp
qed

lemma books_run:
  assumes "process_run env p evs p'" "\<And>t. keeps_core (ae_sleep env t)"
    and "books (mset (fst p)) (core (snd (snd p)))"
  shows "books (mset (fst p')) (core (snd (snd p')))"
  using assms(1,3)
proof (induction rule: process_run.induct)
  case (run_snoc p evs p' ev p'')
  then show ?case
    using books_step [of env "fst p'" "fst (snd p')" "snd (snd p')" ev "fst p''" "fst (snd p'')" "snd (snd p'')"] assms(2)
    by simp
qed

lemma over_classes: "list_all over runs \<Longrightarrow>
  length (filter started runs) = length (filter counted runs) + length (filter erred runs) + length (filter refused runs)"
proof (induction runs)
  case (Cons r runs)
  then show ?case by (cases r) auto
qed simp

text \<open>
  C16. The books balance whatever the interleaving: in every history of a fresh process, in which any
  number of background runs and requests take turns at the \<open>await\<close>s, the received alerts are the runs
  that have started, the verdicts those past their bookkeeping, the errors those that failed; the cost
  tracker has one entry for each verdict with its alert and its tools, the average latency is the mean
  of the entries and the tool counters count their tools. When all runs are over, every received alert
  is a verdict, an error, or a run whose first job state could not be written.
\<close>

theorem books_balance:
  assumes "api_metrics s = pipeline_metrics_init" "api_costs s = CostTracker_init"
    and "\<And>t. keeps_core (ae_sleep env t)"
    and "process_run env ([], (w, s)) evs (runs, (w', s'))"
    and "m = api_metrics s'" "rs = ct_runs (api_costs s')"
  shows "pm_alerts_received m = int (length (filter started runs))
    \<and> pm_verdicts_generated m = int (length (filter counted runs))
    \<and> pm_errors m = int (length (filter erred runs))
    \<and> mset (map (\<lambda>c. (run_alert_id c, run_tools_called c)) rs) = mset (map booked (filter counted runs))
    \<and> (rs \<noteq> [] \<longrightarrow> pm_avg_latency_ms m = of_int (sum_list (map run_elapsed_ms rs)) / of_nat (length rs))
    \<and> (\<forall>t. default_get (ct_tool_calls (api_costs s')) t 0 = int (count_list (concat (map run_tools_called rs)) t))
    \<and> (list_all over runs \<longrightarrow> pm_alerts_received m
          = pm_verdicts_generated m + pm_errors m + int (length (filter refused runs)))"
proof -
  have "books (mset []) (core s)"
    by (simp add: books_def core_def assms(1,2) pipeline_metrics_init_def CostTracker_init_def
        counts_agree_init [unfolded CostTracker_init_def])
  then have b: "books (mset runs) (core s')" using books_run [OF assms(4,3)] by simp
  have size: "size (filter_mset P (mset runs)) = length (filter P runs)" for P by (metis mset_filter size_mset)
  have "rs \<noteq> [] \<Longrightarrow> pm_avg_latency_ms m = of_int (sum_list (map run_elapsed_ms rs)) / of_nat (length rs)"
    using b by (simp add: books_def core_def assms(5,6) Let_def eq_divide_eq)
  moreover have "image_mset booked (filter_mset counted (mset runs)) = mset (map booked (filter counted runs))" by simp
  ultimately show ?thesis
    using b over_classes [of runs]
    by (simp add: books_def core_def assms(5,6) Let_def size counts_agree_def)
qed

lemma over_started: "over r \<Longrightarrow> started r"
  by (cases r) auto

theorem books_balance_witness:
  "\<exists>evs runs w' s'. process_run demo_api ([], (Map.empty, demo_api_state)) evs (runs, (w', s'))
    \<and> list_all over runs \<and> pm_alerts_received (api_metrics s') = 1
    \<and> pm_verdicts_generated (api_metrics s') + pm_errors (api_metrics s') + int (length (filter refused runs)) = 1
    \<and> pm_verdicts_generated (api_metrics s') = int (length (filter counted runs))"
proof -
  let ?rq = "demo_request ''k1''"
  obtain resp ws where i: "ingest_alert demo_api ''Generic'' ?rq (Map.empty, demo_api_state) = (Inr resp, ws)"
    by (rule demo_ingests)
  obtain w1 s1 alert where d: "ws = (w1, s1)" "api_tasks s1 = [alert]"
    using demo_api_ok(1,5) i by (rule ingest_done) (auto simp: wired_def demo_api_state_def)
  have "demo_api_state\<lparr>api_tasks := []\<rparr> = demo_api_state" by (simp add: demo_api_state_def)
  with i d(1) have h: "handle demo_api (Post_Source ''Generic'') ?rq (Map.empty, demo_api_state\<lparr>api_tasks := []\<rparr>)
      = (Inr (JDict resp), (w1, s1))" by (simp add: answer_def)
  have first: "process_run demo_api ([], (Map.empty, demo_api_state)) [Serve (Post_Source ''Generic'') ?rq]
      ([Queued alert], (w1, s1))"
    using run_snoc [OF run_nil process_step.request [OF h, of "[]"]] d(2) by simp
  obtain evs runs w' s' where rest: "process_run demo_api ([Queued alert], (w1, s1)) evs (runs, (w', s'))"
    "list_all is_step evs" "list_all over runs"
    using runs_finish by (metis prod.exhaust)
  have run: "process_run demo_api ([], (Map.empty, demo_api_state)) ([Serve (Post_Source ''Generic'') ?rq] @ evs) (runs, (w', s'))"
    by (rule process_run_trans [OF rest(1) first])
  have "length runs = 1" using steps_length [OF rest(1,2)] by simp
  moreover have "filter started runs = runs" using rest(3) by (auto simp: list_all_iff filter_id_conv dest: over_started)
  ultimately have n: "length (filter started runs) = 1" by simp
  have init: "api_metrics demo_api_state = pipeline_metrics_init" "api_costs demo_api_state = CostTracker_init"
    by (simp_all add: demo_api_state_def)
  have sleep: "keeps_core (ae_sleep demo_api t)" for t by (simp add: keeps_ret)
  note b = books_balance [OF init sleep run refl refl]
  show ?thesis
    by (rule exI, rule exI [of _ runs], rule exI [of _ w'], rule exI [of _ s'], intro conjI, rule run)
      (use b n rest(3) in auto)
qed

end
