(* ===== verification/Pipeline_Frame.thy ===== *)
theory Pipeline_Frame
  imports Triage_Guarantees
begin

section \<open>What a triage run leaves alone\<close>

text \<open>
  A triage run writes one kind of Redis key, the entries of the tool cache. \<open>pipe_frame\<close> says of the
  parameters of a run that its Redis clients are Redis clients and that the rest (tools, models, clock,
  random identifiers) is not Redis; then every key outside the cache is as it was.
\<close>

definition draws_nothing :: "('w \<Rightarrow> kv) \<Rightarrow> ('w \<Rightarrow> 'a \<times> 'w) \<Rightarrow> bool" where
  "draws_nothing kv g \<longleftrightarrow> (\<forall>w. kv (snd (g w)) = kv w)"

definition pipe_frame :: "'w pipe_env \<Rightarrow> ('w \<Rightarrow> kv) \<Rightarrow> (string \<Rightarrow> int) \<Rightarrow> bool" where
  "pipe_frame env kv p \<longleftrightarrow>
     (\<forall>c. cc_client (env_cache (pe_tools env)) = Some c \<longrightarrow> redis_ok c kv p)
     \<and> (\<forall>u c. pe_from_url env u = Inr c \<longrightarrow> redis_ok c kv p)
     \<and> (\<forall>c. keeps kv (pe_aclose env c))
     \<and> draws_nothing kv (env_now_ms (pe_tools env))
     \<and> (\<forall>n ps t. keeps kv (env_run_tool (pe_tools env) n ps t))
     \<and> (\<forall>q. keeps kv (ex_ollama (pe_extractor env) q) \<and> keeps kv (ex_openai (pe_extractor env) q))
     \<and> (\<forall>ms. keeps kv (pe_think_ollama env ms) \<and> keeps kv (pe_think_openai env ms))
     \<and> (\<forall>q. keeps kv (pe_verdict_ollama env q) \<and> keeps kv (pe_verdict_openai env q))
     \<and> draws_nothing kv (pe_uuid_hex env) \<and> draws_nothing kv (pe_new_verdict env)"

lemma pipe_frameD:
  assumes "pipe_frame env kv p"
  shows "cc_client (env_cache (pe_tools env)) = Some c \<Longrightarrow> redis_ok c kv p"
    and "pe_from_url env u = Inr c \<Longrightarrow> redis_ok c kv p"
    and "keeps kv (pe_aclose env c)" "draws_nothing kv (env_now_ms (pe_tools env))"
    and "keeps kv (env_run_tool (pe_tools env) n ps t)"
    and "keeps kv (ex_ollama (pe_extractor env) q)" "keeps kv (ex_openai (pe_extractor env) q)"
    and "keeps kv (pe_think_ollama env ms)" "keeps kv (pe_think_openai env ms)"
    and "keeps kv (pe_verdict_ollama env q)" "keeps kv (pe_verdict_openai env q)"
    and "draws_nothing kv (pe_uuid_hex env)" "draws_nothing kv (pe_new_verdict env)"
  using assms by (auto simp: pipe_frame_def)

lemma keeps_key: "keeps kv m \<Longrightarrow> keeps (\<lambda>w. kv w k) m"
  by (simp add: keeps_def)

lemma keeps_draw: "draws_nothing kv g \<Longrightarrow> keeps kv (draw g)"
  by (auto simp: keeps_def draw_def draws_nothing_def split: prod.splits) (metis snd_conv)

lemma keeps_finally [keeps_intros]: "keeps f m \<Longrightarrow> keeps f g \<Longrightarrow> keeps f (finally_io m g)"
  unfolding keeps_def finally_io_def by (auto split: prod.splits sum.splits) (metis snd_conv)+

lemma keeps_get: "redis_ok c kv p \<Longrightarrow> keeps kv (rd_get c k)"
  by (auto simp: keeps_def) (metis prod.collapse rd_get_kv)

lemma keeps_setex_other: "redis_ok c kv p \<Longrightarrow> k \<noteq> k' \<Longrightarrow> keeps (\<lambda>w. kv w k) (rd_setex c k' t v)"
  unfolding keeps_def using rd_setex_kv [of c kv p k' t v] by (metis fun_upd_other prod.collapse)

subsection \<open>The tools\<close>

lemma make_key_prefix: "starts_with (make_key lib n ps) ''soc:cache:''"
  by (simp add: make_key_def starts_with_def)

lemma frame_cache:
  assumes "pipe_frame env kv p" "\<not> starts_with k ''soc:cache:''"
  shows "keeps (\<lambda>w. kv w k) (cache_get lib (env_cache (pe_tools env)) n ps)"
    and "keeps (\<lambda>w. kv w k) (cache_set lib (env_cache (pe_tools env)) n ps d)"
proof -
  have "k \<noteq> make_key lib n ps" using assms(2) make_key_prefix by metis
  then show "keeps (\<lambda>w. kv w k) (cache_set lib (env_cache (pe_tools env)) n ps d)"
    unfolding cache_set_def using pipe_frameD(1) [OF assms(1)]
    by (auto split: option.splits intro!: keeps_intros keeps_setex_other)
  show "keeps (\<lambda>w. kv w k) (cache_get lib (env_cache (pe_tools env)) n ps)"
    unfolding cache_get_def using pipe_frameD(1) [OF assms(1)]
    by (auto split: option.splits intro!: keeps_intros keeps_key [OF keeps_get])
qed

lemma frame_tool:
  assumes "pipe_frame env kv p" "\<not> starts_with k ''soc:cache:''"
  shows "keeps (\<lambda>w. kv w k) (execute_single_tool (pe_tools env) n ps t)"
proof -
  have now: "keeps (\<lambda>w. kv w k) (now_ms_io (pe_tools env))"
    using pipe_frameD(4) [OF assms(1)]
    by (auto simp: keeps_def now_ms_io_def draws_nothing_def split: prod.splits) (metis snd_conv)
  have call: "keeps (\<lambda>w. kv w k) (guarded_tool_call (pe_tools env) n ps t)"
    unfolding guarded_tool_call_def by (intro keeps_intros keeps_key [OF pipe_frameD(5) [OF assms(1)]])
  show ?thesis unfolding execute_single_tool_def
    by (intro keeps_intros now call frame_cache [OF assms])
qed

subsection \<open>The nodes\<close>

lemma frame_extract:
  assumes "pipe_frame env kv p"
  shows "keeps kv (extract_entities (pe_extractor env) alert u)"
proof -
  note m = pipe_frameD(6,7) [OF assms]
  have "keeps kv (extract_attempt c (ex_ollama (pe_extractor env) q))" "keeps kv (extract_attempt c (ex_openai (pe_extractor env) q))"
    for c q unfolding extract_attempt_def by (intro keeps_intros m)+
  then show ?thesis unfolding extract_entities_def extract_entities_llm_def Let_def
    by (auto split: option.split intro!: keeps_intros)
qed

lemma frame_check:
  assumes "pipe_frame env kv p"
  shows "keeps kv (check_cancelled env s)"
proof -
  have isc: "keeps kv (is_cancelled (CancelRegistry_init (pe_from_url env) u g) a)" for u g a
    unfolding is_cancelled_def CancelRegistry_init_def
    by (auto split: sum.split intro!: keeps_intros keeps_get pipe_frameD(2) [OF assms])
  have cl: "keeps kv (cancel_close m reg)" if "keeps kv m" for m :: "('a, unit) io" and reg :: "'a cancel_registry"
    unfolding cancel_close_def Let_def using that by (auto split: option.split intro!: keeps_intros)
  have al: "keeps kv (case cl of None \<Rightarrow> ret_io () | Some c \<Rightarrow> pe_aclose env c)" for cl
    by (auto split: option.split intro!: keeps_intros pipe_frameD(3) [OF assms])
  show ?thesis unfolding check_cancelled_def Let_def by (intro keeps_intros isc cl al)
qed

lemma frame_attempt: "keeps kv m \<Longrightarrow> keeps kv (llm_attempt prev c m)"
  unfolding llm_attempt_def by (intro keeps_intros)

lemma frame_ask:
  assumes "pipe_frame env kv p"
  shows "keeps kv (ask_think env ms)" "keeps kv (ask_verdict env q)"
  unfolding ask_think_def ask_verdict_def by (intro keeps_intros frame_attempt pipe_frameD [OF assms])+

lemma frame_node:
  assumes "pipe_frame env kv p" "\<not> starts_with k ''soc:cache:''"
  shows "keeps (\<lambda>w. kv w k) (run_node env n s)"
proof -
  note ks = keeps_key [OF frame_extract [OF assms(1)]] keeps_key [OF frame_check [OF assms(1)]]
    keeps_key [OF frame_ask(1) [OF assms(1)]] keeps_key [OF frame_ask(2) [OF assms(1)]]
    keeps_key [OF keeps_draw [OF pipe_frameD(12) [OF assms(1)]]]
    keeps_key [OF keeps_draw [OF pipe_frameD(13) [OF assms(1)]]]
    frame_tool [OF assms]
  show ?thesis
  proof (cases n)
    case Burst_Enrichment
    have "keeps (\<lambda>w. kv w k) (run_burst_enrichment (pe_tools env) al en tids t)" for al en tids t
      unfolding run_burst_enrichment_def by (auto intro!: keeps_intros ks)
    with Burst_Enrichment show ?thesis
      by (auto simp: burst_enrichment_node_def Let_def split: option.split intro!: keeps_intros)
  next
    case Agent_Think
    have "keeps (\<lambda>w. kv w k) (make_tool_call env pl)" for pl
      unfolding make_tool_call_def by (intro keeps_intros ks)
    with Agent_Think show ?thesis
      by (auto simp: agent_think_node_def Let_def split: option.split intro!: keeps_intros ks)
  qed (auto simp: normalise_alert_node_def extract_entities_node_def route_tools_node_def execute_tool_node_def
      generate_verdict_node_def Let_def split: option.split intro!: keeps_intros ks)
qed

lemma run_triage_frame:
  assumes "pipe_frame env kv p" "\<not> starts_with k ''soc:cache:''"
  shows "keeps (\<lambda>w. kv w k) (run_triage env alert)"
proof -
  have "keeps (\<lambda>w. kv w k) (run_graph l env n s)" for l n s
    by (induction l arbitrary: n s)
      (auto split: option.split intro!: keeps_intros frame_node [OF assms])
  then show ?thesis unfolding run_triage_def verdict_or_fallback_def
    by (auto split: option.split intro!: keeps_intros keeps_key [OF keeps_draw [OF pipe_frameD(13) [OF assms(1)]]])
qed

end
