(* ===== verification/Run_Isolation.thy ===== *)
theory Run_Isolation
  imports Background_Runs Pipeline_Frame
begin

section \<open>Runs of different alerts do not disturb each other\<close>

text \<open>
  The runs of a process share one alert store, in memory or in Redis. \<open>settled\<close> says what the store holds
  of a run's alert at each of its places; a step of the run itself brings it to the next place, and a
  step of a run of another alert leaves it alone, since every write goes to a key of its own alert and
  the pipeline writes none of the store's keys (Pipeline_Frame).
\<close>

definition produced :: "'w api_env \<Rightarrow> normalized_alert \<Rightarrow> triage_verdict \<Rightarrow> bool" where
  "produced env a v \<longleftrightarrow> (\<exists>w0. fst (run_triage (ae_pipeline env) a w0) = Inr v)"

fun settled :: "('w \<Rightarrow> kv) \<Rightarrow> 'w api_env \<Rightarrow> 'w \<times> 'w api_state \<Rightarrow> bg_run \<Rightarrow> bool" where
  "settled kv env (w, s) (Triaging a t) \<longleftrightarrow> holds_job kv (ae_lib env) (api_store s) w (na_alert_id a) ''running'' None"
| "settled kv env (w, s) (Storing a v e) \<longleftrightarrow> produced env a v
     \<and> holds_job kv (ae_lib env) (api_store s) w (na_alert_id a) ''running'' None"
| "settled kv env (w, s) (Marking a v e) \<longleftrightarrow> produced env a v
     \<and> holds_verdict kv (ae_codec env) (api_store s) w (na_alert_id a) v"
| "settled kv env (w, s) (Counting a v e) \<longleftrightarrow> produced env a v
     \<and> holds_verdict kv (ae_codec env) (api_store s) w (na_alert_id a) v
     \<and> holds_job kv (ae_lib env) (api_store s) w (na_alert_id a) ''complete'' None"
| "settled kv env (w, s) (Notifying a v) \<longleftrightarrow> produced env a v
     \<and> holds_verdict kv (ae_codec env) (api_store s) w (na_alert_id a) v
     \<and> holds_job kv (ae_lib env) (api_store s) w (na_alert_id a) ''complete'' None"
| "settled kv env (w, s) (Answered a v) \<longleftrightarrow> produced env a v
     \<and> holds_verdict kv (ae_codec env) (api_store s) w (na_alert_id a) v
     \<and> holds_job kv (ae_lib env) (api_store s) w (na_alert_id a) ''complete'' None"
| "settled kv env (w, s) (Reported a exc) \<longleftrightarrow>
     holds_job kv (ae_lib env) (api_store s) w (na_alert_id a) ''failed'' (Some (exn_str exc))"
| "settled kv env (w, s) (Refused a exc) \<longleftrightarrow> False"
| "settled kv env (w, s) (Lost a exc) \<longleftrightarrow> False"
| "settled kv env (w, s) r \<longleftrightarrow> True"

text \<open>What a run's place needs of the store is about its own alert, and only the store matters.\<close>

lemma settled_transfer:
  assumes "settled kv env (w, s) r"
    and "\<And>st e. holds_job kv (ae_lib env) (api_store s) w (na_alert_id (run_alert r)) st e
      \<Longrightarrow> holds_job kv (ae_lib env) (api_store s') w' (na_alert_id (run_alert r)) st e"
    and "\<And>v. holds_verdict kv (ae_codec env) (api_store s) w (na_alert_id (run_alert r)) v
      \<Longrightarrow> holds_verdict kv (ae_codec env) (api_store s') w' (na_alert_id (run_alert r)) v"
  shows "settled kv env (w', s') r"
  using assms by (cases r) auto

subsection \<open>Writes to other alerts\<close>

text \<open>Over Redis a write puts one key and leaves the store's memory as it is.\<close>

lemma set_job_redis:
  assumes "store_ok kv p ap" "set_job lib ap i st e w = (Inr ap', w')" "ap_redis ap = Some r"
  shows "ap' = ap" "kv w' = (kv w)(KEY_JOB @ i \<mapsto> json_dumps lib (job_record st e))"
proof -
  have "redis_ok r kv p" "redis_up r" using assms(1,3) by (auto simp: store_ok_def)
  then obtain w1 where "rd_set r (KEY_JOB @ i) (json_dumps lib (job_record st e)) w = (Inr (), w1)"
    "kv w1 = (kv w)(KEY_JOB @ i \<mapsto> json_dumps lib (job_record st e))" by (rule rd_set_done)
  with assms(2,3) show "ap' = ap" "kv w' = (kv w)(KEY_JOB @ i \<mapsto> json_dumps lib (job_record st e))"
    by (auto simp: set_job_def)
qed

lemma put_verdict_redis:
  assumes "store_ok kv p ap" "put_verdict co ap i v w = (Inr ap', w')" "ap_redis ap = Some r"
  shows "ap' = ap" "kv w' = (kv w)(KEY_VERDICT @ i \<mapsto> dump_verdict co v)"
proof -
  have "redis_ok r kv p" "redis_up r" using assms(1,3) by (auto simp: store_ok_def)
  then obtain w1 where "rd_set r (KEY_VERDICT @ i) (dump_verdict co v) w = (Inr (), w1)"
    "kv w1 = (kv w)(KEY_VERDICT @ i \<mapsto> dump_verdict co v)" by (rule rd_set_done)
  with assms(2,3) show "ap' = ap" "kv w' = (kv w)(KEY_VERDICT @ i \<mapsto> dump_verdict co v)"
    by (auto simp: put_verdict_def)
qed

lemma key_disjoint [simp]: "KEY_VERDICT @ i \<noteq> KEY_JOB @ j" "KEY_JOB @ j \<noteq> KEY_VERDICT @ i"
  by (simp_all add: KEY_VERDICT_def KEY_JOB_def)

lemma set_job_other:
  assumes "store_ok kv p ap" "set_job lib ap i st e w = (Inr ap', w')"
  shows "j \<noteq> i \<Longrightarrow> holds_job kv lib ap w j st' e' \<Longrightarrow> holds_job kv lib ap' w' j st' e'"
    and "holds_verdict kv co ap w j v \<Longrightarrow> holds_verdict kv co ap' w' j v"
proof -
  have "(j \<noteq> i \<longrightarrow> holds_job kv lib ap w j st' e' \<longrightarrow> holds_job kv lib ap' w' j st' e')
    \<and> (holds_verdict kv co ap w j v \<longrightarrow> holds_verdict kv co ap' w' j v)"
  proof (cases "ap_redis ap")
    case None
    with assms(2) show ?thesis by (auto simp: set_job_def holds_defs update_conv)
  next
    case (Some r)
    with set_job_redis [OF assms Some] show ?thesis by (simp add: holds_defs)
  qed
  then show "j \<noteq> i \<Longrightarrow> holds_job kv lib ap w j st' e' \<Longrightarrow> holds_job kv lib ap' w' j st' e'"
    "holds_verdict kv co ap w j v \<Longrightarrow> holds_verdict kv co ap' w' j v" by blast+
qed

lemma put_verdict_other:
  assumes "store_ok kv p ap" "put_verdict co ap i v w = (Inr ap', w')"
  shows "j \<noteq> i \<Longrightarrow> holds_verdict kv co ap w j v' \<Longrightarrow> holds_verdict kv co ap' w' j v'"
    and "holds_job kv lib ap w j st e \<Longrightarrow> holds_job kv lib ap' w' j st e"
proof -
  have "(j \<noteq> i \<longrightarrow> holds_verdict kv co ap w j v' \<longrightarrow> holds_verdict kv co ap' w' j v')
    \<and> (holds_job kv lib ap w j st e \<longrightarrow> holds_job kv lib ap' w' j st e)"
  proof (cases "ap_redis ap")
    case None
    with assms(2) show ?thesis by (auto simp: put_verdict_def holds_defs update_conv)
  next
    case (Some r)
    with put_verdict_redis [OF assms Some] show ?thesis by (simp add: holds_defs)
  qed
  then show "j \<noteq> i \<Longrightarrow> holds_verdict kv co ap w j v' \<Longrightarrow> holds_verdict kv co ap' w' j v'"
    "holds_job kv lib ap w j st e \<Longrightarrow> holds_job kv lib ap' w' j st e" by blast+
qed

subsection \<open>One step\<close>

definition undisturbed ::
    "('w \<Rightarrow> kv) \<Rightarrow> 'w api_env \<Rightarrow> string \<Rightarrow> 'w \<times> 'w api_state \<Rightarrow> 'w \<times> 'w api_state \<Rightarrow> bool" where
  "undisturbed kv env i ws ws' \<longleftrightarrow> (\<forall>j. j \<noteq> i \<longrightarrow>
     (\<forall>st e. holds_job kv (ae_lib env) (api_store (snd ws)) (fst ws) j st e
        \<longrightarrow> holds_job kv (ae_lib env) (api_store (snd ws')) (fst ws') j st e)
     \<and> (\<forall>v. holds_verdict kv (ae_codec env) (api_store (snd ws)) (fst ws) j v
        \<longrightarrow> holds_verdict kv (ae_codec env) (api_store (snd ws')) (fst ws') j v))"

lemma store_keys: "\<not> starts_with (KEY_JOB @ i) ''soc:cache:''" "\<not> starts_with (KEY_VERDICT @ i) ''soc:cache:''"
  by (simp_all add: KEY_JOB_def KEY_VERDICT_def starts_with_def)

lemma quiet_holds:
  assumes "\<And>k. \<not> starts_with k ''soc:cache:'' \<Longrightarrow> kv w' k = kv w k"
  shows "holds_job kv lib ap w' i st e = holds_job kv lib ap w i st e"
    and "holds_verdict kv co ap w' i v = holds_verdict kv co ap w i v"
  using assms [OF store_keys(1)] assms [OF store_keys(2)]
  by (simp_all add: holds_job_def holds_verdict_def split: option.split)

lemma quiet_undisturbed:
  assumes "\<And>k. \<not> starts_with k ''soc:cache:'' \<Longrightarrow> kv w' k = kv w k" "api_store s' = api_store s"
  shows "undisturbed kv env i (w, s) (w', s')"
  by (simp add: undisturbed_def quiet_holds [where kv = kv and w = w and w' = w', OF assms(1)] assms(2))

lemma job_written:
  assumes "store_ok kv p (api_store s)"
  obtains w' s' where "a_set_job env i st e (w, s) = (Inr (), (w', s'))" "store_ok kv p (api_store s')"
    "holds_job kv (ae_lib env) (api_store s') w' i st e" "undisturbed kv env i (w, s) (w', s')"
    "\<And>v. holds_verdict kv (ae_codec env) (api_store s) w i v \<Longrightarrow> holds_verdict kv (ae_codec env) (api_store s') w' i v"
proof -
  obtain ap' w' where j: "set_job (ae_lib env) (api_store s) i st e w = (Inr ap', w')" "store_ok kv p ap'"
    "holds_job kv (ae_lib env) ap' w' i st e"
    "\<And>k v. holds_verdict kv (ae_codec env) (api_store s) w k v \<Longrightarrow> holds_verdict kv (ae_codec env) ap' w' k v"
    using set_job_done [OF assms, where co = "ae_codec env"] by metis
  have "a_set_job env i st e (w, s) = (Inr (), (w', s\<lparr>api_store := ap'\<rparr>))"
    using j(1) by (simp add: a_set_job_def on_state_def)
  moreover have "undisturbed kv env i (w, s) (w', s\<lparr>api_store := ap'\<rparr>)"
    using set_job_other [OF assms j(1)] by (simp add: undisturbed_def)
  ultimately show thesis using j(2-4) by (intro that [of w' "s\<lparr>api_store := ap'\<rparr>"]) simp_all
qed

lemma verdict_written:
  assumes "store_ok kv p (api_store s)"
  obtains w' s' where "a_put_verdict env i v (w, s) = (Inr (), (w', s'))" "store_ok kv p (api_store s')"
    "holds_verdict kv (ae_codec env) (api_store s') w' i v" "undisturbed kv env i (w, s) (w', s')"
proof -
  obtain ap' w' where j: "put_verdict (ae_codec env) (api_store s) i v w = (Inr ap', w')" "store_ok kv p ap'"
    "holds_verdict kv (ae_codec env) ap' w' i v"
    using put_verdict_done [OF assms] by metis
  have "a_put_verdict env i v (w, s) = (Inr (), (w', s\<lparr>api_store := ap'\<rparr>))"
    using j(1) by (simp add: a_put_verdict_def on_state_def)
  moreover have "undisturbed kv env i (w, s) (w', s\<lparr>api_store := ap'\<rparr>)"
    using put_verdict_other [OF assms j(1)] by (simp add: undisturbed_def)
  ultimately show thesis using j(2,3) by (intro that [of w' "s\<lparr>api_store := ap'\<rparr>"]) simp_all
qed

text \<open>A step of a run: the store works afterwards, the run is settled, the others are undisturbed.\<close>

definition good_step ::
    "('w \<Rightarrow> kv) \<Rightarrow> (string \<Rightarrow> int) \<Rightarrow> 'w api_env \<Rightarrow> 'w \<times> 'w api_state \<Rightarrow> bg_run \<Rightarrow> bool" where
  "good_step kv p env ws r \<longleftrightarrow> (\<exists>r' w' s'. advance env r ws = (Inr r', (w', s'))
     \<and> store_ok kv p (api_store s') \<and> settled kv env (w', s') r'
     \<and> undisturbed kv env (na_alert_id (run_alert r)) ws (w', s'))"

lemma good_quiet:
  assumes "advance env r (w, s) = (Inr r', (w', s'))" "store_ok kv p (api_store s)" "api_store s' = api_store s"
    and "\<And>k. \<not> starts_with k ''soc:cache:'' \<Longrightarrow> kv w' k = kv w k" "settled kv env (w', s') r'"
  shows "good_step kv p env (w, s) r"
proof -
  have "undisturbed kv env (na_alert_id (run_alert r)) (w, s) (w', s')"
    by (rule quiet_undisturbed) (use assms(3,4) in simp_all)
  with assms show ?thesis unfolding good_step_def by auto
qed

lemma undisturbed_refl: "undisturbed kv env i ws ws"
  by (simp add: undisturbed_def)

lemma good_triaging:
  assumes "store_ok kv p (api_store s)" "api_frame env kv" "pipe_frame (ae_pipeline env) kv p"
    and "settled kv env (w, s) (Triaging a t)"
  shows "good_step kv p env (w, s) (Triaging a t)"
proof -
  obtain r w1 where r: "run_triage (ae_pipeline env) a w = (r, w1)" by (rule prod.exhaust)
  have k1: "kv w1 k = kv w k" if "\<not> starts_with k ''soc:cache:''" for k
    using keepsD [OF run_triage_frame [OF assms(3) that] r] .
  show ?thesis
  proof (cases r)
    case (Inl e)
    with r show ?thesis by (intro good_quiet [where r' = "Failing a e" and w' = w1 and s' = s, OF _ assms(1) refl k1])
      (simp_all add: on_world_eq bind_io_def try_io_def)
  next
    case (Inr v)
    obtain now w2 where now: "a_now env (w1, s) = (Inr now, (w2, s))" "kv w2 = kv w1"
      using a_now_done [OF assms(2)] by blast
    have k2: "kv w2 k = kv w k" if "\<not> starts_with k ''soc:cache:''" for k using now(2) k1 [OF that] by simp
    have "produced env a v" unfolding produced_def using r Inr by (metis fst_conv)
    then have "settled kv env (w2, s) (Storing a v (trunc_rat ((now - t) * 1000)))"
      using assms(4) by (simp add: quiet_holds [where kv = kv and w = w and w' = w2, OF k2])
    with r Inr now(1) show ?thesis
      by (intro good_quiet [where r' = "Storing a v (trunc_rat ((now - t) * 1000))" and w' = w2 and s' = s,
            OF _ assms(1) refl k2])
        (simp_all add: on_world_eq bind_io_def try_io_def)
  qed
qed

lemma good_advance:
  assumes "store_ok kv p (api_store s)" "api_frame env kv" "pipe_frame (ae_pipeline env) kv p"
    and "settled kv env (w, s) r"
  shows "good_step kv p env (w, s) r"
proof (cases r)
  case (Queued a)
  obtain t w1 where t: "a_now env (w, s) = (Inr t, (w1, s))" "kv w1 = kv w"
    using a_now_done [OF assms(2)] by blast
  with Queued show ?thesis by (intro good_quiet [where r' = "Announcing a t" and w' = w1 and s' = "count_received s", OF _ assms(1)])
    (simp_all add: bind_io_def count_received_def)
next
  case (Announcing a t)
  obtain w' s' where "a_set_job env (na_alert_id a) ''running'' None (w, s) = (Inr (), (w', s'))"
    "store_ok kv p (api_store s')" "holds_job kv (ae_lib env) (api_store s') w' (na_alert_id a) ''running'' None"
    "undisturbed kv env (na_alert_id a) (w, s) (w', s')" by (rule job_written [OF assms(1)])
  with Announcing show ?thesis by (simp add: good_step_def bind_io_def try_io_def)
next
  case (Triaging a t)
  with good_triaging [OF assms(1-3)] assms(4) show ?thesis by simp
next
  case (Storing a v e)
  obtain w' s' where "a_put_verdict env (na_alert_id a) v (w, s) = (Inr (), (w', s'))"
    "store_ok kv p (api_store s')" "holds_verdict kv (ae_codec env) (api_store s') w' (na_alert_id a) v"
    "undisturbed kv env (na_alert_id a) (w, s) (w', s')" by (rule verdict_written [OF assms(1)])
  with Storing assms(4) show ?thesis by (simp add: good_step_def bind_io_def try_io_def)
next
  case (Marking a v e)
  obtain w' s' where "a_set_job env (na_alert_id a) ''complete'' None (w, s) = (Inr (), (w', s'))"
    "store_ok kv p (api_store s')" "holds_job kv (ae_lib env) (api_store s') w' (na_alert_id a) ''complete'' None"
    "undisturbed kv env (na_alert_id a) (w, s) (w', s')"
    "\<And>v. holds_verdict kv (ae_codec env) (api_store s) w (na_alert_id a) v
       \<Longrightarrow> holds_verdict kv (ae_codec env) (api_store s') w' (na_alert_id a) v" by (rule job_written [OF assms(1)]) blast
  with Marking assms(4) show ?thesis by (simp add: good_step_def bind_io_def try_io_def)
next
  case (Counting a v e)
  obtain ts w1 where t: "a_now env (w, count_verdict e s) = (Inr ts, (w1, count_verdict e s))" "kv w1 = kv w"
    using a_now_done [OF assms(2)] by blast
  have st: "api_store (record_cost a v e ts (count_verdict e s)) = api_store s"
    by (simp add: record_cost_def count_verdict_def Let_def)
  have "settled kv env (w1, record_cost a v e ts (count_verdict e s)) (Notifying a v)"
    using assms(4) Counting by (simp add: st quiet_holds [where kv = kv and w = w and w' = w1] t(2))
  with Counting t st show ?thesis
    by (intro good_quiet [where r' = "Notifying a v" and w' = w1 and s' = "record_cost a v e ts (count_verdict e s)", OF _ assms(1)])
      (simp_all add: bind_io_def)
next
  case (Notifying a v)
  obtain w1 where n: "notify_triage_webhook env (na_alert_id a) v (w, s) = (Inr (), (w1, s))" "kv w1 = kv w"
    by (rule notify_done [OF assms(2)])
  have "settled kv env (w1, s) (Answered a v)"
    using assms(4) Notifying by (simp add: quiet_holds [where kv = kv and w = w and w' = w1] n(2))
  with Notifying n show ?thesis
    by (intro good_quiet [where r' = "Answered a v" and w' = w1 and s' = s, OF _ assms(1)]) (simp_all add: bind_io_def try_io_def)
next
  case (Failing a exc)
  then show ?thesis by (intro good_quiet [where r' = "Reporting a exc" and w' = w and s' = "count_error s", OF _ assms(1)])
    (simp_all add: bind_io_def count_error_def)
next
  case (Reporting a exc)
  obtain w' s' where "a_set_job env (na_alert_id a) ''failed'' (Some (exn_str exc)) (w, s) = (Inr (), (w', s'))"
    "store_ok kv p (api_store s')"
    "holds_job kv (ae_lib env) (api_store s') w' (na_alert_id a) ''failed'' (Some (exn_str exc))"
    "undisturbed kv env (na_alert_id a) (w, s) (w', s')" by (rule job_written [OF assms(1)])
  with Reporting show ?thesis by (simp add: good_step_def bind_io_def try_io_def)
qed (use assms in \<open>auto simp: good_step_def undisturbed_refl\<close>)

subsection \<open>All runs together\<close>

definition apart :: "('w \<Rightarrow> kv) \<Rightarrow> (string \<Rightarrow> int) \<Rightarrow> 'w api_env \<Rightarrow> normalized_alert list \<Rightarrow> 'w process \<Rightarrow> bool" where
  "apart kv p env alerts pr \<longleftrightarrow>
     store_ok kv p (api_store (snd (snd pr))) \<and> map run_alert (fst pr) = alerts
     \<and> list_all (settled kv env (snd pr)) (fst pr)"

lemma advance_alert: "advance env r ws = (Inr r', ws') \<Longrightarrow> run_alert r' = run_alert r"
proof (cases "over r")
  case True
  then show "advance env r ws = (Inr r', ws') \<Longrightarrow> run_alert r' = run_alert r" by (cases r) auto
next
  case False
  then show "advance env r ws = (Inr r', ws') \<Longrightarrow> run_alert r' = run_alert r" by (rule advance_further(2) [rotated])
qed

lemma apart_step:
  assumes "apart kv p env alerts (runs, (w, s))" "distinct (map na_alert_id alerts)"
    and "api_frame env kv" "pipe_frame (ae_pipeline env) kv p"
    and "i < length runs" "advance env (runs ! i) (w, s) = (Inr r', (w', s'))"
  shows "apart kv p env alerts (runs[i := r'], (w', s'))"
proof -
  have ok: "store_ok kv p (api_store s)" and al: "map run_alert runs = alerts"
    and st: "list_all (settled kv env (w, s)) runs" using assms(1) by (simp_all add: apart_def)
  have "settled kv env (w, s) (runs ! i)" using st assms(5) by (simp add: list_all_length)
  from good_advance [OF ok assms(3,4) this] assms(6)
  have ok': "store_ok kv p (api_store s')" and own: "settled kv env (w', s') r'"
    and und: "undisturbed kv env (na_alert_id (run_alert (runs ! i))) (w, s) (w', s')"
    by (auto simp: good_step_def)
  have "settled kv env (w', s') (runs ! j)" if j: "j < length runs" "j \<noteq> i" for j
  proof -
    have "na_alert_id (run_alert (runs ! j)) \<noteq> na_alert_id (run_alert (runs ! i))"
      using assms(2,5) j al by (auto simp: distinct_conv_nth)
    with und have "\<And>st e. holds_job kv (ae_lib env) (api_store s) w (na_alert_id (run_alert (runs ! j))) st e
        \<Longrightarrow> holds_job kv (ae_lib env) (api_store s') w' (na_alert_id (run_alert (runs ! j))) st e"
      "\<And>v. holds_verdict kv (ae_codec env) (api_store s) w (na_alert_id (run_alert (runs ! j))) v
        \<Longrightarrow> holds_verdict kv (ae_codec env) (api_store s') w' (na_alert_id (run_alert (runs ! j))) v"
      by (simp_all add: undisturbed_def)
    moreover have "settled kv env (w, s) (runs ! j)" using st j by (simp add: list_all_length)
    ultimately show ?thesis by (blast intro: settled_transfer)
  qed
  with own assms(5) have "list_all (settled kv env (w', s')) (runs[i := r'])"
    by (simp add: list_all_length nth_list_update)
  moreover have "map run_alert (runs[i := r']) = (map run_alert runs)[i := map run_alert runs ! i]"
    using assms(5) advance_alert [OF assms(6)] by (simp add: map_update)
  then have "map run_alert (runs[i := r']) = alerts" using al by simp
  ultimately show ?thesis using ok' by (simp add: apart_def)
qed

lemma apart_run:
  assumes "process_run env pr evs pr'" "list_all is_step evs" "apart kv p env alerts pr"
    and "distinct (map na_alert_id alerts)" "api_frame env kv" "pipe_frame (ae_pipeline env) kv p"
  shows "apart kv p env alerts pr'"
  using assms(1-3)
proof (induction rule: process_run.induct)
  case (run_snoc pr evs pr' ev pr'')
  then obtain i where "ev = Step i" by (cases ev) auto
  with run_snoc.hyps(2) obtain runs w s r w' s' where "pr' = (runs, (w, s))" "pr'' = (runs[i := r], (w', s'))"
    "i < length runs" "advance env (runs ! i) (w, s) = (Inr r, (w', s'))"
    by (cases rule: process_step.cases) auto
  with run_snoc apart_step [OF _ assms(4-6)] show ?case by simp
qed

text \<open>How a run ends, as its alert's readers see it.\<close>

definition concluded :: "'w api_env \<Rightarrow> 'w \<times> 'w api_state \<Rightarrow> bg_run \<Rightarrow> bool" where
  "concluded env ws r \<longleftrightarrow> (case r of
       Answered a v \<Rightarrow> produced env a v \<and> fst (a_get_verdict env (na_alert_id a) ws) = Inr (Some v)
         \<and> fst (a_get_job env (na_alert_id a) ws) = Inr (Some (job_record ''complete'' None))
     | Reported a exc \<Rightarrow>
         fst (a_get_job env (na_alert_id a) ws) = Inr (Some (job_record ''failed'' (Some (exn_str exc))))
     | _ \<Rightarrow> \<not> over r)"

text \<open>
  C14. Background runs of different alerts do not disturb each other: however their steps interleave over
  one working store, memory or Redis, a run that has answered finds its alert's verdict in the store as
  the pipeline gave it and the job complete, a run that has reported a failure finds the job failed with
  its message, and no run ends in any other way; and from every point of the interleaving all runs can
  be brought to their end.
\<close>

theorem runs_keep_apart:
  assumes "store_ok kv p (api_store s)" "codec_ok (ae_codec env)" "jobs_ok (ae_lib env)"
    and "api_frame env kv" "pipe_frame (ae_pipeline env) kv p" "distinct (map na_alert_id alerts)"
    and "process_run env (map Queued alerts, (w, s)) evs (runs, ws')" "list_all is_step evs"
  shows "map run_alert runs = alerts
    \<and> list_all (concluded env ws') runs
    \<and> (\<exists>evs' runs' ws''. process_run env (runs, ws') evs' (runs', ws'') \<and> list_all is_step evs' \<and> list_all over runs')"
proof -
  have "apart kv p env alerts (map Queued alerts, (w, s))"
    using assms(1) by (simp add: apart_def o_def list.pred_map list_all_iff)
  from apart_run [OF assms(7,8) this assms(6,4,5)]
  have a: "apart kv p env alerts (runs, ws')" .
  obtain w' s' where ws: "ws' = (w', s')" by (rule prod.exhaust)
  have ok: "store_ok kv p (api_store s')" using a ws by (simp add: apart_def)
  have "concluded env ws' r" if "settled kv env ws' r" for r
    using that a_reads(2) [OF ok assms(2)] a_reads(3) [OF ok assms(3)] ws by (cases r) (auto simp: concluded_def)
  then have "list_all (concluded env ws') runs"
    using a by (auto simp: apart_def elim!: list.pred_mono_strong)
  with a runs_finish [of env runs ws'] show ?thesis by (simp add: apart_def)
qed

text \<open>Two runs of the demo process over Redis, brought to their end.\<close>

lemma demo_pipe_frame: "pipe_frame demo_env (\<lambda>w. w) read_int"
  using demo_redis_ok
  by (auto simp: pipe_frame_def demo_env_def draws_nothing_def keeps_def)

theorem runs_keep_apart_witness:
  "\<exists>evs runs ws'. process_run demo_api
      (map Queued [demo_alert, demo_alert\<lparr>na_alert_id := ''a2''\<rparr>], (Map.empty, demo_api_state)) evs (runs, ws')
    \<and> map run_alert runs = [demo_alert, demo_alert\<lparr>na_alert_id := ''a2''\<rparr>] \<and> list_all over runs
    \<and> list_all (concluded demo_api ws') runs"
proof -
  let ?as = "[demo_alert, demo_alert\<lparr>na_alert_id := ''a2''\<rparr>]"
  obtain evs runs ws' where r: "process_run demo_api (map Queued ?as, (Map.empty, demo_api_state)) evs (runs, ws')"
    "list_all is_step evs" "list_all over runs"
    using runs_finish by blast
  have d: "distinct (map na_alert_id ?as)" by (simp add: demo_alert_def)
  have f: "pipe_frame (ae_pipeline demo_api) (\<lambda>w. w) read_int" using demo_pipe_frame by simp
  note k = runs_keep_apart [OF demo_api_ok(1-4) f d r(1,2)]
  show ?thesis
    by (rule exI [of _ evs], rule exI [of _ runs], rule exI [of _ ws'])
      (intro conjI r(1,3) k [THEN conjunct1] k [THEN conjunct2, THEN conjunct1])
qed

end
