(* ===== verification/Http_Port.thy ===== *)
theory Http_Port
  imports Py_Values Tool_Schemas
begin

section \<open>HTTP as the connectors use it\<close>

text \<open>
  The parameter \<open>net\<close>: sending a request (httpx; \<open>TimeoutError\<close> stands for \<open>httpx.TimeoutException\<close>,
  any other failure is another exception), \<open>asyncio.sleep\<close>, and the clock: \<open>time.time()\<close> in seconds and
  the time some hours ago in a format. An answer has a status and a text; \<open>resp.json()\<close> is \<open>json.loads\<close>
  of the text, and \<open>raise_for_status\<close> raises unless the status is 2xx, with the library's message.
  \<open>tool_settings\<close> are the fields of \<open>Settings\<close> the connectors read.
\<close>

record http_call =
  hc_method :: string
  hc_url :: string
  hc_headers :: "(string \<times> string) list"
  hc_auth :: "(string \<times> string) option"
  hc_query :: jdict
  hc_body :: json

record http_answer =
  ha_status :: int
  ha_text :: string

record 'w net =
  net_lib :: pylib
  net_send :: "http_call \<Rightarrow> ('w, http_answer) io"
  net_status_error :: "http_call \<Rightarrow> http_answer \<Rightarrow> string"
  net_sleep :: "int \<Rightarrow> ('w, unit) io"
  net_time :: "'w \<Rightarrow> rat \<times> 'w"
  net_hours_ago :: "string \<Rightarrow> int \<Rightarrow> 'w \<Rightarrow> string \<times> 'w"

record tool_settings =
  tl_splunk_username :: string
  tl_splunk_password :: string
  tl_splunk_token :: string
  tl_splunk_scheme :: string
  tl_splunk_host :: string
  tl_splunk_port :: int
  tl_virustotal_api_key :: string
  tl_abuseipdb_api_key :: string
  tl_otx_api_key :: string
  tl_crowdstrike_client_id :: string
  tl_crowdstrike_client_secret :: string
  tl_crowdstrike_base_url :: string
  tl_servicenow_instance_url :: string
  tl_servicenow_client_id :: string
  tl_servicenow_client_secret :: string
  tl_servicenow_username :: string
  tl_servicenow_password :: string
  tl_ndr_flow_api_url :: string
  tl_ndr_flow_api_token :: string
  tl_backup_api_url :: string
  tl_backup_api_token :: string
  tl_vulncheck_api_token :: string
  tl_aws_access_key_id :: string
  tl_aws_region :: string

definition http_get :: "string \<Rightarrow> (string \<times> string) list \<Rightarrow> jdict \<Rightarrow> http_call" where
  "http_get url headers query =
     \<lparr>hc_method = ''GET'', hc_url = url, hc_headers = headers, hc_auth = None, hc_query = query, hc_body = JNull\<rparr>"

definition http_post :: "string \<Rightarrow> (string \<times> string) list \<Rightarrow> json \<Rightarrow> http_call" where
  "http_post url headers body =
     \<lparr>hc_method = ''POST'', hc_url = url, hc_headers = headers, hc_auth = None, hc_query = [], hc_body = body\<rparr>"

definition net_now :: "'w net \<Rightarrow> ('w, rat) io" where
  "net_now nt w = (case net_time nt w of (t, w') \<Rightarrow> (Inr t, w'))"

text \<open>\<open>int(time.time() * 1000)\<close>.\<close>

definition net_now_ms :: "'w net \<Rightarrow> ('w, int) io" where
  "net_now_ms nt = bind_io (net_now nt) (\<lambda>t. ret_io (trunc_rat (t * 1000)))"

definition net_since :: "'w net \<Rightarrow> string \<Rightarrow> int \<Rightarrow> ('w, string) io" where
  "net_since nt fmt hours w = (case net_hours_ago nt fmt hours w of (s, w') \<Rightarrow> (Inr s, w'))"

definition ok_status :: "http_answer \<Rightarrow> bool" where
  "ok_status a \<longleftrightarrow> 200 \<le> ha_status a \<and> ha_status a < 300"

definition raise_for_status :: "'w net \<Rightarrow> http_call \<Rightarrow> http_answer \<Rightarrow> exn + unit" where
  "raise_for_status nt c a = (if ok_status a then Inr () else Inl (OtherError (net_status_error nt c a)))"

definition answer_json :: "'w net \<Rightarrow> http_answer \<Rightarrow> exn + json" where
  "answer_json nt a = json_loads (net_lib nt) (ha_text a)"

text \<open>A request, \<open>raise_for_status\<close>, and the JSON of the answer.\<close>

definition fetch_json :: "'w net \<Rightarrow> http_call \<Rightarrow> ('w, json) io" where
  "fetch_json nt c =
     bind_io (net_send nt c) (\<lambda>a.
     bind_io (of_result (raise_for_status nt c a)) (\<lambda>_.
       of_result (answer_json nt a)))"

text \<open>\<open>resp.json().get("resources", [])\<close> and the like.\<close>

definition fetch_field :: "'w net \<Rightarrow> http_call \<Rightarrow> string \<Rightarrow> json \<Rightarrow> ('w, json) io" where
  "fetch_field nt c k dflt = bind_io (fetch_json nt c) (\<lambda>v. of_result (attr_get v k dflt))"

text \<open>Fields of checked parameters: optional text, text, an integer with its default.\<close>

definition param_opt :: "jdict \<Rightarrow> string \<Rightarrow> string option" where
  "param_opt d k = (case dict_get d k JNull of JStr s \<Rightarrow> Some s | _ \<Rightarrow> None)"

definition param_str :: "jdict \<Rightarrow> string \<Rightarrow> string" where
  "param_str d k = (case dict_get d k JNull of JStr s \<Rightarrow> s | _ \<Rightarrow> [])"

definition param_int :: "jdict \<Rightarrow> string \<Rightarrow> int \<Rightarrow> int" where
  "param_int d k dflt = (case dict_get d k (JInt dflt) of JInt i \<Rightarrow> i | _ \<Rightarrow> dflt)"

text \<open>\<open>f"{x}"\<close> of an optional text.\<close>

definition show_opt :: "string option \<Rightarrow> string" where
  "show_opt v = (case v of None \<Rightarrow> ''None'' | Some s \<Rightarrow> s)"

definition bearer :: "string \<Rightarrow> string \<times> string" where
  "bearer token = (''Authorization'', ''Bearer '' @ token)"

subsection \<open>Base64\<close>

text \<open>Three bytes to four characters of the alphabet, padded with the equals sign.\<close>

definition b64_alphabet :: "string \<Rightarrow> nat \<Rightarrow> char" where
  "b64_alphabet extra n =
     (if n < 26 then char_of (65 + n) else if n < 52 then char_of (71 + n)
      else if n < 62 then char_of (n - 4) else extra ! (n - 62))"

fun b64_encode :: "string \<Rightarrow> string \<Rightarrow> string" where
  "b64_encode extra [] = []"
| "b64_encode extra [a] =
     (let a = of_char a :: nat; e = b64_alphabet extra in
      [e (a div 4), e (a mod 4 * 16), CHR ''='', CHR ''=''])"
| "b64_encode extra [a, b] =
     (let a = of_char a :: nat; b = of_char b :: nat; e = b64_alphabet extra in
      [e (a div 4), e (a mod 4 * 16 + b div 16), e (b mod 16 * 4), CHR ''=''])"
| "b64_encode extra (a # b # c # s) =
     (let a = of_char a :: nat; b = of_char b :: nat; c = of_char c :: nat; e = b64_alphabet extra in
      [e (a div 4), e (a mod 4 * 16 + b div 16), e (b mod 16 * 4 + c div 64), e (c mod 64)]
        @ b64_encode extra s)"

definition urlsafe_b64encode :: "string \<Rightarrow> string" where
  "urlsafe_b64encode s = b64_encode ''-_'' s"

definition b64encode :: "string \<Rightarrow> string" where
  "b64encode s = b64_encode ''+/'' s"

definition rstrip_char :: "char \<Rightarrow> string \<Rightarrow> string" where
  "rstrip_char c s = rev (dropWhile (\<lambda>x. x = c) (rev s))"

text \<open>\<open>data={...}\<close>: a form.\<close>

definition http_form :: "string \<Rightarrow> jdict \<Rightarrow> http_call" where
  "http_form url form =
     \<lparr>hc_method = ''POST'', hc_url = url,
      hc_headers = [(''Content-Type'', ''application/x-www-form-urlencoded'')], hc_auth = None,
      hc_query = [], hc_body = JDict form\<rparr>"

text \<open>The path of a request joined to \<open>base_url\<close>.\<close>

definition join_url :: "string \<Rightarrow> string \<Rightarrow> string" where
  "join_url base path =
     (if base \<noteq> [] \<and> last base = CHR ''/'' then base @ tl path else base @ path)"

text \<open>The answer of a connector that could not be used.\<close>

definition unavailable :: "jdict \<Rightarrow> string \<Rightarrow> jdict" where
  "unavailable extra msg = (''source_available'', JBool False) # extra @ [(''error'', JStr msg)]"

definition timed_out_or :: "string \<Rightarrow> exn \<Rightarrow> string" where
  "timed_out_or msg exc = (case exc of TimeoutError \<Rightarrow> msg | e \<Rightarrow> exn_str e)"

lemma unavailable_fields [simp]:
  "dict_get (unavailable extra msg) ''source_available'' d = JBool False"
  by (simp add: unavailable_def)

lemma no_raise_net_now [no_raise_intros]: "no_raise (net_now nt)"
  by (rule no_raiseI) (simp add: net_now_def split: prod.splits)

lemma no_raise_net_now_ms [no_raise_intros]: "no_raise (net_now_ms nt)"
  unfolding net_now_ms_def by (intro no_raise_intros)

lemma no_raise_net_since [no_raise_intros]: "no_raise (net_since nt fmt h)"
  by (rule no_raiseI) (simp add: net_since_def split: prod.splits)

lemma no_raise_map_io_all: "(\<And>x. x \<in> set xs \<Longrightarrow> no_raise (f x)) \<Longrightarrow> no_raise (map_io f xs)"
  by (induction xs) (auto intro!: no_raise_intros)

subsection \<open>What every answer of a connector satisfies\<close>

text \<open>\<open>gives P m\<close>: whatever \<open>m\<close> returns satisfies \<open>P\<close>.\<close>

definition gives :: "('a \<Rightarrow> bool) \<Rightarrow> ('w, 'a) io \<Rightarrow> bool" where
  "gives P m \<longleftrightarrow> (\<forall>w x w'. m w = (Inr x, w') \<longrightarrow> P x)"

named_theorems gives_intros

lemma givesD: "gives P m \<Longrightarrow> m w = (Inr x, w') \<Longrightarrow> P x"
  by (auto simp: gives_def)

lemma gives_ret [gives_intros]: "P x \<Longrightarrow> gives P (ret_io x)"
  by (simp add: gives_def)

lemma gives_of_result [gives_intros]: "(\<And>x. r = Inr x \<Longrightarrow> P x) \<Longrightarrow> gives P (of_result r)"
  by (simp add: gives_def)

lemma gives_bind [gives_intros]: "(\<And>x. gives P (f x)) \<Longrightarrow> gives P (bind_io m f)"
  unfolding gives_def by (metis bind_io_eq_Inr)

lemma gives_try [gives_intros]: "gives P m \<Longrightarrow> (\<And>e. gives P (h e)) \<Longrightarrow> gives P (try_io m h)"
  unfolding gives_def try_io_def by (fastforce split: prod.splits sum.splits)

lemma gives_if [gives_intros]: "(b \<Longrightarrow> gives P m) \<Longrightarrow> (\<not> b \<Longrightarrow> gives P m') \<Longrightarrow> gives P (if b then m else m')"
  by simp

lemma gives_map_io:
  assumes "list_all2 gives Ps ms" "map_io (\<lambda>m. m) ms w = (Inr xs, w')"
  shows "list_all2 (\<lambda>P x. P x) Ps xs"
  using assms
proof (induction arbitrary: w xs rule: list_all2_induct)
  case (Cons P Ps m ms)
  then show ?case by (auto simp: bind_io_eq_Inr dest!: givesD)
qed simp

end
