(* ===== verification/Query_Builder.thy ===== *)
theory Query_Builder
  imports Json
begin

section \<open>services/query_builder.py: typed parameters to query text\<close>

text \<open>
  The builders of Splunk, CrowdStrike and Sentinel queries, character by character. \<open>sq\<close> is the single
  quote. The clock reading of \<open>detections_by_host\<close> is the argument \<open>since\<close>. Values are inserted as they
  are: \<open>quote_free\<close> says what a value must not contain for the query to keep the shape of its template,
  the text \<open>outside\<close> its double quotes.
\<close>

abbreviation sq :: string where
  "sq \<equiv> [CHR 0x27]"

subsection \<open>SPLBuilder\<close>

definition spl_process_by_host :: "string \<Rightarrow> int \<Rightarrow> string option \<Rightarrow> string" where
  "spl_process_by_host hostname hours_back process_name =
     ''index=* sourcetype=WinEventLog:Security OR sourcetype=sysmon '' @
     ''host=\"'' @ hostname @ ''\" EventCode IN (4688, 1) '' @
     ''earliest=-'' @ show_int hours_back @ ''h '' @
     (if opt_true process_name
      then (let process_name = the process_name in
        ''(process_name=\"'' @ process_name @ ''\" OR Image=\"*'' @ process_name @ ''*\") '')
      else []) @
     ''| table _time, host, user, process_name, cmdline, parent_process_name''"

definition spl_auth_events_by_user :: "string \<Rightarrow> int \<Rightarrow> string" where
  "spl_auth_events_by_user username hours_back =
     ''index=* sourcetype=WinEventLog:Security '' @
     ''user=\"'' @ username @ ''\" EventCode IN (4624, 4625, 4648, 4768, 4769) '' @
     ''earliest=-'' @ show_int hours_back @ ''h '' @
     ''| table _time, host, user, src_ip, EventCode, LogonType''"

definition spl_network_by_ip :: "string \<Rightarrow> int \<Rightarrow> string" where
  "spl_network_by_ip ip hours_back =
     ''index=* sourcetype=firewall OR sourcetype=zeek_conn '' @
     ''(src_ip=\"'' @ ip @ ''\" OR dest_ip=\"'' @ ip @ ''\") earliest=-'' @ show_int hours_back @ ''h '' @
     ''| stats sum(bytes_out) as total_bytes_out, count as connections, '' @
     ''  dc(dest_port) as unique_ports by src_ip, dest_ip, dest_port '' @
     ''| sort - total_bytes_out''"

definition spl_dns_tunneling :: "string \<Rightarrow> int \<Rightarrow> string" where
  "spl_dns_tunneling hostname hours_back =
     ''index=* sourcetype=stream:dns OR sourcetype=zeek_dns '' @
     ''host=\"'' @ hostname @ ''\" query_type=TXT earliest=-'' @ show_int hours_back @ ''h '' @
     ''| eval query_len=len(query) '' @
     ''| stats count as query_count, avg(query_len) as avg_len, '' @
     ''  sum(bytes) as total_bytes by src_ip, dest_ip '' @
     ''| where query_count > 100 AND avg_len > 30''"

definition spl_scheduled_tasks :: "string \<Rightarrow> int \<Rightarrow> string" where
  "spl_scheduled_tasks hostname hours_back =
     ''index=* sourcetype=WinEventLog:Security '' @
     ''host=\"'' @ hostname @ ''\" EventCode IN (4698, 4702) '' @
     ''earliest=-'' @ show_int hours_back @ ''h '' @
     ''| table _time, host, user, TaskName, TaskContent''"

definition spl_shadow_copy_deletion :: "int \<Rightarrow> string" where
  "spl_shadow_copy_deletion hours_back =
     ''index=* sourcetype=WinEventLog:System OR sourcetype=sysmon '' @
     ''earliest=-'' @ show_int hours_back @ ''h '' @
     ''(CommandLine=\"*vssadmin*delete*\" OR CommandLine=\"*wmic*shadowcopy*delete*\" '' @
     '' OR CommandLine=\"*bcdedit*/set*recoveryenabled*no*\") '' @
     ''| table _time, host, user, cmdline, process_name, parent_process_name''"

definition spl_file_rename_burst :: "string \<Rightarrow> int \<Rightarrow> string" where
  "spl_file_rename_burst hostname hours_back =
     ''index=* sourcetype=sysmon host=\"'' @ hostname @ ''\" '' @
     ''EventCode=11 earliest=-'' @ show_int hours_back @ ''h '' @
     ''| eval extension=mvindex(split(TargetFilename, \".\"), -1) '' @
     ''| stats count as renames by extension '' @
     ''| where renames > 100 '' @
     ''| sort - renames''"

subsection \<open>CrowdStrikeQueryBuilder\<close>

definition cs_process_tree :: "string \<Rightarrow> string option \<Rightarrow> (string \<times> string) list" where
  "cs_process_tree device_id process_id =
     (''device_id'', device_id) # (if opt_true process_id then [(''process_id'', the process_id)] else [])"

definition cs_detections_by_host :: "string \<Rightarrow> string \<Rightarrow> string" where
  "cs_detections_by_host hostname since =
     ''device.hostname:'' @ sq @ hostname @ sq @ ''+created_timestamp:>'' @ sq @ since @ sq"

definition cs_ioc_lookup :: "string \<Rightarrow> string \<Rightarrow> string" where
  "cs_ioc_lookup ioc_value ioc_type =
     ''type:'' @ sq @ ioc_type @ sq @ ''+value:'' @ sq @ ioc_value @ sq"

subsection \<open>KQLBuilder\<close>

definition kql_process_by_host :: "string \<Rightarrow> int \<Rightarrow> string" where
  "kql_process_by_host hostname hours_back =
     ''SecurityEvent'' @ [CHR 0x0A] @
     ''| where TimeGenerated >= ago('' @ show_int hours_back @ ''h)'' @ [CHR 0x0A] @
     ''| where Computer == '' @ sq @ hostname @ [CHR 0x27, CHR 0x0A] @
     ''| where EventID in (4688, 4689)'' @ [CHR 0x0A] @
     ''| project TimeGenerated, Computer, Account, Process, CommandLine, ParentProcessName''"

definition kql_auth_by_user :: "string \<Rightarrow> int \<Rightarrow> string" where
  "kql_auth_by_user username hours_back =
     ''SigninLogs'' @ [CHR 0x0A] @
     ''| where TimeGenerated >= ago('' @ show_int hours_back @ ''h)'' @ [CHR 0x0A] @
     ''| where UserPrincipalName contains '' @ sq @ username @ [CHR 0x27, CHR 0x0A] @
     ''| project TimeGenerated, UserPrincipalName, IPAddress, Location, '' @
     ''ResultType, AppDisplayName''"

subsection \<open>The text outside the quotes\<close>

text \<open>
  What is left of a query when the contents of its double quotes are taken out; inside them a
  backslash hides the next character. The flag says whether a quote is open.
\<close>

fun outside :: "bool \<Rightarrow> string \<Rightarrow> string" where
  "outside q [] = []"
| "outside False (c # s) = c # outside (c = CHR 0x22) s"
| "outside True [c] = (if c = CHR 0x22 then [c] else [])"
| "outside True (c # d # s) =
     (if c = CHR 0x22 then c # outside False (d # s)
      else if c = CHR 0x5C then outside True s else outside True (d # s))"

definition quote_free :: "string \<Rightarrow> bool" where
  "quote_free v \<longleftrightarrow> CHR 0x22 \<notin> set v \<and> CHR 0x5C \<notin> set v"

lemma outside_True_Cons:
  "c \<noteq> CHR 0x5C \<Longrightarrow> outside True (c # s) = (if c = CHR 0x22 then c # outside False s else outside True s)"
  by (cases s) auto

lemma outside_quoted [simp]: "quote_free v \<Longrightarrow> outside True (v @ s) = outside True s"
proof (induction v)
  case (Cons c v)
  then have "c \<noteq> CHR 0x22" "c \<noteq> CHR 0x5C" "quote_free v" by (auto simp: quote_free_def)
  then show ?case using Cons.IH by (simp add: outside_True_Cons)
qed simp

lemma outside_open [simp]: "CHR 0x22 \<notin> set v \<Longrightarrow> outside False (v @ s) = v @ outside False s"
  by (induction v) auto

lemma show_nat_chars: "set (show_nat n) \<subseteq> set (map (\<lambda>d. char_of (48 + d :: nat)) [0..<10])"
proof (induction n rule: show_nat.induct)
  case (1 n)
  show ?case
  proof (cases "n < 10")
    case True
    then show ?thesis by (subst show_nat.simps) auto
  next
    case False
    then have "n mod 10 < 10" by simp
    with 1[OF False] False show ?thesis by (subst show_nat.simps) auto
  qed
qed

lemma show_int_unquoted [simp]: "CHR 0x22 \<notin> set (show_int i)"
  using show_nat_chars[of "nat i"] show_nat_chars[of "nat (- i)"]
  by (auto simp: show_int_def char_of_def upt_rec)

lemmas spl_defs = spl_process_by_host_def spl_auth_events_by_user_def spl_network_by_ip_def
  spl_dns_tunneling_def spl_scheduled_tasks_def spl_shadow_copy_deletion_def spl_file_rename_burst_def

text \<open>A value without quotes and backslashes leaves no trace outside the quotes.\<close>

lemma spl_shapes:
  assumes "quote_free x" "quote_free y"
  shows "outside False (spl_process_by_host x n None) = outside False (spl_process_by_host y n None)"
    and "outside False (spl_auth_events_by_user x n) = outside False (spl_auth_events_by_user y n)"
    and "outside False (spl_network_by_ip x n) = outside False (spl_network_by_ip y n)"
    and "outside False (spl_dns_tunneling x n) = outside False (spl_dns_tunneling y n)"
    and "outside False (spl_scheduled_tasks x n) = outside False (spl_scheduled_tasks y n)"
    and "outside False (spl_file_rename_burst x n) = outside False (spl_file_rename_burst y n)"
  using assms by (simp_all add: spl_defs opt_true_def outside_True_Cons)

end
