(* ===== verification/Splunk_Tool.thy ===== *)
theory Splunk_Tool
  imports Http_Port Query_Builder
begin

section \<open>agents/tools/splunk_tool.py\<close>

text \<open>
  The Splunk connector: the query text from checked parameters, the search job (create, poll at most
  thirty times, fetch), and the summary of the rows. The summary is made after the
  \<open>try\<close>, so rows of an unexpected shape raise. \<open>row_set_order\<close> is the iteration order of a set.
\<close>

definition build_spl :: "jdict \<Rightarrow> string option" where
  "build_spl params =
     (let query_type = param_str params ''query_type''; hours = param_int params ''hours_back'' 72;
          hostname = param_opt params ''hostname''; username = param_opt params ''username'';
          ip = param_opt params ''ip_address'' in
      if query_type = ''raw_spl'' then param_opt params ''raw_spl''
      else if query_type = ''process_by_host'' \<and> opt_true hostname
        then Some (spl_process_by_host (the hostname) hours None)
      else if query_type = ''auth_events_by_user'' \<and> opt_true username
        then Some (spl_auth_events_by_user (the username) hours)
      else if query_type = ''network_by_ip'' \<and> opt_true ip then Some (spl_network_by_ip (the ip) hours)
      else if query_type = ''dns_tunneling'' \<and> opt_true hostname then Some (spl_dns_tunneling (the hostname) hours)
      else if query_type = ''scheduled_tasks'' \<and> opt_true hostname then Some (spl_scheduled_tasks (the hostname) hours)
      else if query_type = ''shadow_copy_deletion'' then Some (spl_shadow_copy_deletion hours)
      else if query_type = ''file_rename_burst'' \<and> opt_true hostname
        then Some (spl_file_rename_burst (the hostname) hours)
      else None)"

subsection \<open>The summary of the rows\<close>

definition auth_summary :: "pylib \<Rightarrow> (json list \<Rightarrow> json list) \<Rightarrow> json list \<Rightarrow> exn + string" where
  "auth_summary lib row_set_order rows =
     bind_r (map_r (\<lambda>r. attr_get r ''src_ip'' (JStr ''?'')) rows) (\<lambda>srcs.
     bind_r (py_set [] srcs) (\<lambda>unique_ips.
     bind_r (map_r (\<lambda>r. attr_get r ''EventCode'' JNull) rows) (\<lambda>codes.
     bind_r (all_strings (take 5 (row_set_order unique_ips))) (\<lambda>shown.
       Inr (show_int (int (length rows)) @ '' auth events | '' @ show_int (int (length unique_ips))
         @ '' unique source IPs | '' @ show_int (int (length (filter (\<lambda>c. c = JStr ''4625'') codes)))
         @ '' failed logins | IPs: '' @ str_join '', '' shown)))))"

definition rename_count :: "json \<Rightarrow> exn + int" where
  "rename_count r = bind_r (attr_get r ''renames'' (JInt 0)) to_int"

text \<open>\<open>sorted(..., reverse=True)\<close> keeps the order of equal elements.\<close>

definition rename_summary :: "pylib \<Rightarrow> json list \<Rightarrow> exn + string" where
  "rename_summary lib rows =
     bind_r (map_r (\<lambda>r. bind_r (rename_count r) (\<lambda>n. Inr (n, r))) rows) (\<lambda>counted.
     bind_r (map_r (\<lambda>(n, r). bind_r (attr_get r ''extension'' JNull) (\<lambda>x.
          bind_r (attr_get r ''renames'' JNull) (\<lambda>y.
            Inr (py_str (float_repr lib) x @ ''='' @ py_str (float_repr lib) y))))
        (take 3 (sort_key (\<lambda>(n, r). - n) counted))) (\<lambda>shown.
       Inr (''File renames by extension: '' @ str_join '', '' shown)))"

definition compress_results :: "pylib \<Rightarrow> (json list \<Rightarrow> json list) \<Rightarrow> json \<Rightarrow> string \<Rightarrow> exn + string" where
  "compress_results lib row_set_order results query_type =
     (if \<not> truthy results then Inr ''No results found.''
      else if query_type = ''auth_events_by_user''
        then bind_r (py_iter results) (auth_summary lib row_set_order)
      else if query_type = ''file_rename_burst'' then bind_r (py_iter results) (rename_summary lib)
      else bind_r (py_len results) (\<lambda>n. Inr (show_int n @ '' results returned.'')))"

subsection \<open>The search job\<close>

definition splunk_call :: "tool_settings \<Rightarrow> http_call \<Rightarrow> http_call" where
  "splunk_call st c =
     c\<lparr>hc_auth := if tl_splunk_token st = [] then Some (tl_splunk_username st, tl_splunk_password st) else None,
       hc_headers := hc_headers c @ (if tl_splunk_token st = [] then [] else [bearer (tl_splunk_token st)])\<rparr>"

definition jobs_url :: "tool_settings \<Rightarrow> string" where
  "jobs_url st = tl_splunk_scheme st @ ''://'' @ tl_splunk_host st @ '':'' @ show_int (tl_splunk_port st)
     @ ''/services/search/jobs''"

definition create_job :: "'w net \<Rightarrow> tool_settings \<Rightarrow> string \<Rightarrow> int \<Rightarrow> ('w, string) io" where
  "create_job nt st spl max_results =
     bind_io (fetch_json nt (splunk_call st (http_form (jobs_url st)
        [(''search'', JStr (''search '' @ spl)), (''output_mode'', JStr ''json''), (''count'', JInt max_results)])))
       (\<lambda>v. of_result (bind_r (item_get v ''sid'') (\<lambda>sid. Inr (py_str (float_repr (net_lib nt)) sid))))"

definition dispatch_state :: "json \<Rightarrow> exn + json" where
  "dispatch_state v =
     bind_r (item_get v ''entry'') (\<lambda>e. bind_r (index_zero e) (\<lambda>e0.
     bind_r (item_get e0 ''content'') (\<lambda>c. item_get c ''dispatchState'')))"

text \<open>\<open>for _ in range(30)\<close>: one look a second until the job is done.\<close>

fun poll_job :: "nat \<Rightarrow> 'w net \<Rightarrow> tool_settings \<Rightarrow> string \<Rightarrow> ('w, unit) io" where
  "poll_job 0 nt st sid = ret_io ()"
| "poll_job (Suc n) nt st sid =
     bind_io (net_sleep nt 1) (\<lambda>_.
     bind_io (fetch_json nt (splunk_call st (http_get (jobs_url st @ ''/'' @ sid) [] [(''output_mode'', JStr ''json'')])))
       (\<lambda>v.
     bind_io (of_result (dispatch_state v)) (\<lambda>state.
     if state = JStr ''DONE'' then ret_io () else poll_job n nt st sid)))"

definition job_results :: "'w net \<Rightarrow> tool_settings \<Rightarrow> string \<Rightarrow> int \<Rightarrow> ('w, json) io" where
  "job_results nt st sid max_results =
     fetch_field nt (splunk_call st (http_get (jobs_url st @ ''/'' @ sid @ ''/results'') []
       [(''output_mode'', JStr ''json''), (''count'', JInt max_results)])) ''results'' (JList [])"

definition run_search :: "'w net \<Rightarrow> tool_settings \<Rightarrow> string \<Rightarrow> int \<Rightarrow> ('w, json) io" where
  "run_search nt st spl max_results =
     bind_io (create_job nt st spl max_results) (\<lambda>sid.
     bind_io (poll_job 30 nt st sid) (\<lambda>_. job_results nt st sid max_results))"

definition splunk_failed :: "exn \<Rightarrow> jdict" where
  "splunk_failed exc =
     [(''source_available'', JBool False),
      (''error'', JStr (timed_out_or ''Splunk query timed out'' exc)),
      (''results'', JList [])]"

definition splunk_answer ::
    "'w net \<Rightarrow> (json list \<Rightarrow> json list) \<Rightarrow> string \<Rightarrow> int \<Rightarrow> json \<Rightarrow> ('w, jdict) io" where
  "splunk_answer nt row_set_order query_type start_ms raw =
     bind_io (net_now_ms nt) (\<lambda>now.
     bind_io (of_result (compress_results (net_lib nt) row_set_order raw query_type)) (\<lambda>summary.
     bind_io (of_result (py_len raw)) (\<lambda>n.
     bind_io (of_result (slice_to 20 raw)) (\<lambda>rows.
       ret_io [(''source'', JStr ''splunk''), (''query_type'', JStr query_type), (''result_count'', JInt n),
               (''elapsed_ms'', JInt (now - start_ms)), (''summary'', JStr summary), (''results'', rows)]))))"

definition splunk_query_async ::
    "'w net \<Rightarrow> tool_settings \<Rightarrow> (json list \<Rightarrow> json list) \<Rightarrow> jdict \<Rightarrow> ('w, jdict) io" where
  "splunk_query_async nt st row_set_order params =
     bind_io (net_now_ms nt) (\<lambda>start_ms.
     let spl = build_spl params in
     if \<not> opt_true spl
     then ret_io [(''error'', JStr ''Could not build SPL query from provided parameters''), (''results'', JList [])]
     else
       bind_io (catch_io (run_search nt st (the spl) (param_int params ''max_results'' 100))) (\<lambda>res.
       (case res of
          Inl exc \<Rightarrow> ret_io (splunk_failed exc)
        | Inr raw \<Rightarrow> splunk_answer nt row_set_order (param_str params ''query_type'') start_ms raw)))"

end
