(* ===== verification/Threat_Intel.thy ===== *)
theory Threat_Intel
  imports Http_Port "HOL-Library.Multiset"
begin

section \<open>agents/tools/threat_intel_tool.py\<close>

text \<open>
  The lookups at VirusTotal, AbuseIPDB and OTX, each of which ends in a dictionary whatever the
  remote side does, and the merger of their answers into one verdict. \<open>asyncio.gather\<close> runs the
  lookups in order. The merger runs outside any \<open>try\<close>.
\<close>

definition VT_BASE :: string where
  "VT_BASE = ''https://www.virustotal.com/api/v3''"

definition ABUSEIPDB_BASE :: string where
  "ABUSEIPDB_BASE = ''https://api.abuseipdb.com/api/v2''"

definition OTX_BASE :: string where
  "OTX_BASE = ''https://otx.alienvault.com/api/v1''"

subsection \<open>The lookups\<close>

definition skipped :: "string \<Rightarrow> string \<Rightarrow> jdict" where
  "skipped source reason =
     [(''source'', JStr source), (''skipped'', JBool True), (''reason'', JStr reason)]"

definition lookup_failed :: "string \<Rightarrow> string \<Rightarrow> exn \<Rightarrow> jdict" where
  "lookup_failed source ioc_value exc =
     [(''source'', JStr source),
      (''error'', JStr (timed_out_or ''timeout'' exc)),
      (''ioc'', JStr ioc_value)]"

definition not_found :: "string \<Rightarrow> string \<Rightarrow> jdict" where
  "not_found source ioc_value =
     [(''source'', JStr source), (''found'', JBool False), (''ioc'', JStr ioc_value)]"

definition vt_url :: "string \<Rightarrow> string \<Rightarrow> string option" where
  "vt_url ioc_type ioc_value =
     (if ioc_type = ''ip'' then Some (VT_BASE @ ''/ip_addresses/'' @ ioc_value)
      else if ioc_type = ''domain'' then Some (VT_BASE @ ''/domains/'' @ ioc_value)
      else if ioc_type \<in> set [''hash_sha256'', ''hash_md5''] then Some (VT_BASE @ ''/files/'' @ ioc_value)
      else if ioc_type = ''url''
        then Some (VT_BASE @ ''/urls/'' @ rstrip_char (CHR ''='') (urlsafe_b64encode ioc_value))
      else None)"

definition vt_answer :: "string \<Rightarrow> json \<Rightarrow> exn + jdict" where
  "vt_answer ioc_value v =
     bind_r (attr_get v ''data'' (JDict [])) (\<lambda>v. bind_r (attr_get v ''attributes'' (JDict [])) (\<lambda>data.
     bind_r (attr_get data ''last_analysis_stats'' (JDict [])) (\<lambda>stats.
     bind_r (attr_get stats ''malicious'' (JInt 0)) (\<lambda>mal.
     bind_r (attr_get stats ''suspicious'' (JInt 0)) (\<lambda>sus.
     bind_r (attr_get stats ''harmless'' (JInt 0)) (\<lambda>harmless.
     bind_r (bind_r (dict_values stats) py_sum) (\<lambda>total.
     bind_r (attr_get data ''reputation'' (JInt 0)) (\<lambda>reputation.
     bind_r (bind_r (attr_get data ''tags'' (JList [])) (slice_to 5)) (\<lambda>tags.
     bind_r (bind_r (attr_get data ''categories'' (JDict [])) dict_values) (\<lambda>cats.
       Inr [(''source'', JStr ''virustotal''), (''found'', JBool True), (''ioc'', JStr ioc_value),
            (''malicious_votes'', mal), (''suspicious_votes'', sus), (''harmless_votes'', harmless),
            (''total_engines'', total), (''reputation'', reputation), (''tags'', tags),
            (''categories'', JList (take 3 cats))]))))))))))"

definition query_virustotal ::
    "'w net \<Rightarrow> string \<Rightarrow> string \<Rightarrow> string \<Rightarrow> ('w, jdict) io" where
  "query_virustotal nt ioc_type ioc_value api_key =
     (if api_key = [] then ret_io (skipped ''virustotal'' ''no_api_key'')
      else try_io
        (case vt_url ioc_type ioc_value of
           None \<Rightarrow> ret_io (skipped ''virustotal'' ''unsupported_type'')
         | Some url \<Rightarrow>
             (let c = http_get url [(''x-apikey'', api_key)] [] in
              bind_io (net_send nt c) (\<lambda>resp.
              if ha_status resp = 404 then ret_io (not_found ''virustotal'' ioc_value)
              else
                bind_io (of_result (raise_for_status nt c resp)) (\<lambda>_.
                  of_result (bind_r (answer_json nt resp) (vt_answer ioc_value))))))
        (\<lambda>exc. ret_io (lookup_failed ''virustotal'' ioc_value exc)))"

definition abuse_answer :: "string \<Rightarrow> json \<Rightarrow> exn + jdict" where
  "abuse_answer ioc_value v =
     bind_r (attr_get v ''data'' (JDict [])) (\<lambda>d. bind_r (as_dict d) (\<lambda>d.
       Inr [(''source'', JStr ''abuseipdb''), (''found'', JBool True), (''ioc'', JStr ioc_value),
            (''abuse_confidence_score'', dict_get d ''abuseConfidenceScore'' (JInt 0)),
            (''total_reports'', dict_get d ''totalReports'' (JInt 0)),
            (''country_code'', get1 d ''countryCode''), (''isp'', get1 d ''isp''),
            (''usage_type'', get1 d ''usageType''), (''is_tor'', dict_get d ''isTor'' (JBool False))]))"

definition query_abuseipdb :: "'w net \<Rightarrow> string \<Rightarrow> string \<Rightarrow> ('w, jdict) io" where
  "query_abuseipdb nt ioc_value api_key =
     (if api_key = [] then ret_io (skipped ''abuseipdb'' ''no_api_key'')
      else try_io
        (let c = http_get (ABUSEIPDB_BASE @ ''/check'') [(''Key'', api_key), (''Accept'', ''application/json'')]
               [(''ipAddress'', JStr ioc_value), (''maxAgeInDays'', JInt 90), (''verbose'', JBool False)] in
         bind_io (net_send nt c) (\<lambda>resp.
         if ha_status resp = 422
         then ret_io [(''source'', JStr ''abuseipdb''), (''found'', JBool False), (''reason'', JStr ''not_an_ip'')]
         else
           bind_io (of_result (raise_for_status nt c resp)) (\<lambda>_.
             of_result (bind_r (answer_json nt resp) (abuse_answer ioc_value)))))
        (\<lambda>exc. ret_io (lookup_failed ''abuseipdb'' ioc_value exc)))"

definition otx_type_map :: "(string \<times> string) list" where
  "otx_type_map = [(''ip'', ''IPv4''), (''domain'', ''domain''), (''hash_sha256'', ''file''),
     (''hash_md5'', ''file''), (''url'', ''URL'')]"

definition otx_answer :: "string \<Rightarrow> string \<Rightarrow> json \<Rightarrow> exn + jdict" where
  "otx_answer otx_type ioc_value data =
     bind_r (attr_get data ''pulse_info'' (JDict [])) (\<lambda>info.
     bind_r (attr_get info ''count'' (JInt 0)) (\<lambda>pulses.
     bind_r (bind_r (attr_get info ''pulses'' (JList [])) (slice_to 3)) (\<lambda>ps.
     bind_r (py_iter ps) (\<lambda>ps. bind_r (map_r (\<lambda>p. attr_get p ''name'' JNull) ps) (\<lambda>names.
       Inr [(''source'', JStr ''otx''), (''found'', JBool True), (''ioc'', JStr ioc_value),
            (''pulse_count'', pulses), (''related_pulses'', JList names),
            (''indicator_type'', JStr otx_type)])))))"

definition query_otx :: "'w net \<Rightarrow> string \<Rightarrow> string \<Rightarrow> string \<Rightarrow> ('w, jdict) io" where
  "query_otx nt ioc_type ioc_value api_key =
     (if api_key = [] then ret_io (skipped ''otx'' ''no_api_key'')
      else (case map_of otx_type_map ioc_type of
          None \<Rightarrow> ret_io (skipped ''otx'' ''unsupported_type'')
        | Some otx_type \<Rightarrow>
            try_io
              (let c = http_get (OTX_BASE @ ''/indicators/'' @ otx_type @ ''/'' @ ioc_value @ ''/general'')
                     [(''X-OTX-API-KEY'', api_key)] [] in
               bind_io (net_send nt c) (\<lambda>resp.
               if ha_status resp = 404 then ret_io (not_found ''otx'' ioc_value)
               else
                 bind_io (of_result (raise_for_status nt c resp)) (\<lambda>_.
                   of_result (bind_r (answer_json nt resp) (otx_answer otx_type ioc_value)))))
              (\<lambda>exc. ret_io (lookup_failed ''otx'' ioc_value exc))))"

subsection \<open>The merger\<close>

text \<open>\<open>2 if x >= hi else 1 if x >= lo else 0\<close>.\<close>

definition grade :: "json \<Rightarrow> rat \<Rightarrow> rat \<Rightarrow> exn + nat" where
  "grade x hi lo =
     bind_r (at_least x hi) (\<lambda>b. if b then Inr 2
       else bind_r (at_least x lo) (\<lambda>b. Inr (if b then 1 else 0)))"

text \<open>What one result adds: signals and lines of detail.\<close>

definition merge_step :: "pylib \<Rightarrow> jdict \<Rightarrow> exn + nat \<times> string list" where
  "merge_step lib r =
     (let show = py_str (float_repr lib) in
      if truthy (get1 r ''skipped'') \<or> truthy (get1 r ''error'') then Inr (0, [])
      else bind_r (item_get (JDict r) ''source'') (\<lambda>source.
        if \<not> truthy (get1 r ''found'') then Inr (0, [show source @ '': not found''])
        else if source = JStr ''virustotal''
          then (let mal = dict_get r ''malicious_votes'' (JInt 0); total = dict_get r ''total_engines'' (JInt 1) in
            bind_r (grade mal 3 1) (\<lambda>n.
              Inr (n, [''VT: '' @ show mal @ ''/'' @ show total @ '' engines flagged''])))
        else if source = JStr ''abuseipdb''
          then (let score = dict_get r ''abuse_confidence_score'' (JInt 0) in
            bind_r (grade score 80 30) (\<lambda>n.
              Inr (n, [''AbuseIPDB: '' @ show score @ ''% confidence, '' @ show (get1 r ''total_reports'') @ '' reports''])))
        else if source = JStr ''otx''
          then (let pulses = dict_get r ''pulse_count'' (JInt 0) in
            bind_r (grade pulses 5 1) (\<lambda>n. Inr (n, [''OTX: '' @ show pulses @ '' threat pulses''])))
        else Inr (0, [])))"

definition verdict_of :: "nat \<Rightarrow> string" where
  "verdict_of malicious_signals =
     (if malicious_signals \<ge> 4 then ''CONFIRMED_MALICIOUS''
      else if malicious_signals \<ge> 2 then ''SUSPICIOUS''
      else if malicious_signals \<ge> 1 then ''LOW_RISK'' else ''CLEAN'')"

definition merge_verdicts :: "pylib \<Rightarrow> jdict list \<Rightarrow> string \<Rightarrow> exn + jdict" where
  "merge_verdicts lib results ioc_value =
     bind_r (map_r (merge_step lib) results) (\<lambda>steps.
       (let signals = sum_list (map fst steps); detail = str_join '' | '' (concat (map snd steps)) in
        Inr [(''ioc'', JStr ioc_value), (''verdict'', JStr (verdict_of signals)),
             (''malicious_signal_count'', JInt (int signals)),
             (''detail'', JStr (if detail = [] then ''No data from any source'' else detail)),
             (''raw_sources'', JList (map JDict results))]))"

subsection \<open>The tool\<close>

definition source_lookups ::
    "'w net \<Rightarrow> tool_settings \<Rightarrow> string \<Rightarrow> string \<Rightarrow> string list \<Rightarrow> ('w, jdict) io list" where
  "source_lookups nt st ioc_type ioc_value sources =
     (if ''virustotal'' \<in> set sources
      then [query_virustotal nt ioc_type ioc_value (tl_virustotal_api_key st)] else [])
     @ (if ''abuseipdb'' \<in> set sources \<and> ioc_type = ''ip''
        then [query_abuseipdb nt ioc_value (tl_abuseipdb_api_key st)] else [])
     @ (if ''otx'' \<in> set sources then [query_otx nt ioc_type ioc_value (tl_otx_api_key st)] else [])"

definition threat_intel_lookup_async ::
    "'w net \<Rightarrow> tool_settings \<Rightarrow> string \<Rightarrow> string \<Rightarrow> string list \<Rightarrow> ('w, jdict) io" where
  "threat_intel_lookup_async nt st ioc_type ioc_value sources =
     bind_io (net_now_ms nt) (\<lambda>start_ms.
     bind_io (map_io (\<lambda>m. m) (source_lookups nt st ioc_type ioc_value sources)) (\<lambda>source_results.
     bind_io (net_now_ms nt) (\<lambda>now.
     bind_io (of_result (merge_verdicts (net_lib nt) source_results ioc_value)) (\<lambda>merged.
       ret_io (merged @ [(''elapsed_ms'', JInt (now - start_ms))])))))"

text \<open>The field \<open>sources\<close> of checked parameters, and what the agent's tool passes for it.\<close>

definition all_sources :: "string list" where
  "all_sources = [''virustotal'', ''abuseipdb'', ''otx'']"

definition param_sources :: "jdict \<Rightarrow> string list" where
  "param_sources params =
     (case dict_get params ''sources'' JNull of
        JList xs \<Rightarrow> map (\<lambda>v. case v of JStr s \<Rightarrow> s | _ \<Rightarrow> []) xs
      | _ \<Rightarrow> all_sources)"

definition lookup_typed :: "'w net \<Rightarrow> tool_settings \<Rightarrow> jdict \<Rightarrow> ('w, jdict) io" where
  "lookup_typed nt st params =
     threat_intel_lookup_async nt st (param_str params ''ioc_type'') (param_str params ''ioc_value'')
       (param_sources params)"

definition lookup_threat_intel ::
    "'w net \<Rightarrow> tool_settings \<Rightarrow> string \<Rightarrow> string \<Rightarrow> string list option \<Rightarrow> ('w, jdict) io" where
  "lookup_threat_intel nt st ioc_type ioc_value sources =
     threat_intel_lookup_async nt st ioc_type ioc_value
       (case sources of Some (s # ss) \<Rightarrow> s # ss | _ \<Rightarrow> all_sources)"

subsection \<open>What the merger decides\<close>

lemma grade_le: "grade x hi lo = Inr n \<Longrightarrow> n \<le> 2"
  by (auto simp: grade_def bind_r_eq_Inr split: if_splits)

text \<open>A result moves the verdict only when it is the found answer of one of the three sources.\<close>

definition found_by :: "string \<Rightarrow> jdict \<Rightarrow> bool" where
  "found_by source r \<longleftrightarrow> \<not> truthy (get1 r ''skipped'') \<and> \<not> truthy (get1 r ''error'')
     \<and> get1 r ''source'' = JStr source \<and> truthy (get1 r ''found'')"

lemma merge_step_bounds:
  assumes "merge_step lib r = Inr (n, ds)"
  shows "n \<le> 2" and "0 < n \<Longrightarrow> \<exists>s \<in> set all_sources. found_by s r"
proof -
  have "n \<le> 2 \<and> (0 < n \<longrightarrow> (\<exists>s \<in> set all_sources. found_by s r))"
    using assms
    by (auto simp: merge_step_def Let_def bind_r_eq_Inr found_by_def all_sources_def get1_def dict_get_def
        dest: grade_le split: if_splits option.splits)
  then show "n \<le> 2" and "0 < n \<Longrightarrow> \<exists>s \<in> set all_sources. found_by s r" by auto
qed

lemma map_r_map: "map_r f xs = Inr ys \<Longrightarrow> list_all2 (\<lambda>x y. f x = Inr y) xs ys"
  by (induction xs arbitrary: ys) (auto elim!: bind_rE)

lemma map_r_list_all2: "list_all2 (\<lambda>x y. f x = Inr y) xs ys \<Longrightarrow> map_r f xs = Inr ys"
  by (induction rule: list_all2_induct) auto

lemma signals_le:
  assumes "list_all2 (\<lambda>r y. merge_step lib r = Inr y) rs ys"
  shows "sum_list (map fst ys) \<le> 2 * length (filter (\<lambda>r. list_ex (\<lambda>s. found_by s r) all_sources) rs)"
  using assms
proof (induction rule: list_all2_induct)
  case (Cons r rs y ys)
  obtain n ds where y: "y = (n, ds)" by (rule prod.exhaust)
  have n: "n \<le> 2" "0 < n \<Longrightarrow> list_ex (\<lambda>s. found_by s r) all_sources"
    using Cons.hyps(1) merge_step_bounds[of lib r n ds] by (auto simp: y list_ex_iff)
  show ?case
    using Cons.IH n by (cases "n = 0") (auto simp: y)
qed simp

subsection \<open>Every lookup ends in a dictionary that names its source\<close>

lemmas lookup_defs = skipped_def lookup_failed_def not_found_def vt_answer_def abuse_answer_def otx_answer_def

lemma no_raise_query_virustotal [no_raise_intros]: "no_raise (query_virustotal nt t v k)"
  unfolding query_virustotal_def by (intro no_raise_intros)

lemma no_raise_query_abuseipdb [no_raise_intros]: "no_raise (query_abuseipdb nt v k)"
  unfolding query_abuseipdb_def by (intro no_raise_intros)

lemma no_raise_query_otx [no_raise_intros]: "no_raise (query_otx nt t v k)"
  unfolding query_otx_def by (auto intro!: no_raise_intros split: option.splits)

definition names_source :: "string \<Rightarrow> jdict \<Rightarrow> bool" where
  "names_source s d \<longleftrightarrow> get1 d ''source'' = JStr s"

lemma virustotal_source: "gives (names_source ''virustotal'') (query_virustotal nt t v k)"
  unfolding query_virustotal_def Let_def
  by (auto intro!: gives_intros split: option.splits
      simp: names_source_def lookup_defs get1_def bind_r_eq_Inr)

lemma abuseipdb_source: "gives (names_source ''abuseipdb'') (query_abuseipdb nt v k)"
  unfolding query_abuseipdb_def Let_def
  by (auto intro!: gives_intros simp: names_source_def lookup_defs get1_def bind_r_eq_Inr)

lemma otx_source: "gives (names_source ''otx'') (query_otx nt t v k)"
  unfolding query_otx_def Let_def
  by (auto intro!: gives_intros split: option.splits
      simp: names_source_def lookup_defs get1_def bind_r_eq_Inr)

definition lookup_names :: "string \<Rightarrow> string list \<Rightarrow> string list" where
  "lookup_names ioc_type sources =
     filter (\<lambda>s. s \<in> set sources \<and> (s = ''abuseipdb'' \<longrightarrow> ioc_type = ''ip'')) all_sources"

lemma source_lookups_sources:
  "list_all2 gives (map names_source (lookup_names t sources)) (source_lookups nt st t v sources)"
  by (simp add: source_lookups_def lookup_names_def all_sources_def virustotal_source abuseipdb_source otx_source)

lemma lookups_answer: "no_raise (map_io (\<lambda>m. m) (source_lookups nt st t v sources))"
  by (rule no_raise_map_io_all) (auto simp: source_lookups_def intro: no_raise_intros split: if_splits)

lemma lookup_results:
  assumes "map_io (\<lambda>m. m) (source_lookups nt st t v sources) w = (Inr rs, w')"
  shows "map (\<lambda>r. get1 r ''source'') rs = map JStr (lookup_names t sources)"
proof -
  have "list_all2 (\<lambda>P x. P x) (map names_source (lookup_names t sources)) rs"
    by (rule gives_map_io[OF source_lookups_sources assms])
  then show ?thesis
    by (auto simp: list_all2_conv_all_nth names_source_def intro: nth_equalityI)
qed

lemma lookup_results_distinct:
  assumes "map_io (\<lambda>m. m) (source_lookups nt st t v sources) w = (Inr rs, w')"
  shows "distinct (map (\<lambda>r. get1 r ''source'') rs)"
  unfolding lookup_results[OF assms]
  by (simp add: distinct_map inj_on_def lookup_names_def all_sources_def)

lemma two_of_filter:
  assumes "2 \<le> length (filter P xs)" "distinct (map f xs)"
  obtains x y where "x \<in> set xs" "y \<in> set xs" "P x" "P y" "f x \<noteq> f y"
proof -
  obtain x y zs where f: "filter P xs = x # y # zs"
    using assms(1) by (cases "filter P xs"; cases "tl (filter P xs)") auto
  have xy: "x \<in> set xs" "y \<in> set xs" "P x" "P y"
    using f[THEN arg_cong, of set] by auto
  have "distinct (map f (filter P xs))" using assms(2) by (rule distinct_map_filter)
  then have "f x \<noteq> f y" using f by auto
  then show ?thesis using that xy by blast
qed

lemma verdict_of_confirmed [simp]: "verdict_of n = ''CONFIRMED_MALICIOUS'' \<longleftrightarrow> 4 \<le> n"
  by (simp add: verdict_of_def)

lemma verdict_of_clean [simp]: "verdict_of n = ''CLEAN'' \<longleftrightarrow> n = 0"
  by (auto simp: verdict_of_def)

lemma merge_verdicts_eq:
  "merge_verdicts lib rs v = Inr m \<longleftrightarrow>
     (\<exists>ys. list_all2 (\<lambda>r y. merge_step lib r = Inr y) rs ys
        \<and> m = [(''ioc'', JStr v), (''verdict'', JStr (verdict_of (sum_list (map fst ys)))),
               (''malicious_signal_count'', JInt (int (sum_list (map fst ys)))),
               (''detail'', JStr (let detail = str_join '' | '' (concat (map snd ys)) in
                                   if detail = [] then ''No data from any source'' else detail)),
               (''raw_sources'', JList (map JDict rs))])"
  by (auto simp: merge_verdicts_def Let_def bind_r_eq_Inr dest: map_r_map map_r_list_all2)

text \<open>Two sources that found the indicator, of different names.\<close>

definition corroborated :: "jdict list \<Rightarrow> bool" where
  "corroborated rs \<longleftrightarrow>
     (\<exists>r1 \<in> set rs. \<exists>r2 \<in> set rs. \<exists>s1 \<in> set all_sources. \<exists>s2 \<in> set all_sources.
        s1 \<noteq> s2 \<and> found_by s1 r1 \<and> found_by s2 r2)"

lemma confirmed_corroborated:
  assumes m: "merge_verdicts lib rs v = Inr m"
    and d: "distinct (map (\<lambda>r. get1 r ''source'') rs)"
    and c: "get1 m ''verdict'' = JStr ''CONFIRMED_MALICIOUS''"
  shows "corroborated rs"
proof -
  let ?found = "\<lambda>r. list_ex (\<lambda>s. found_by s r) all_sources"
  obtain ys where ys: "list_all2 (\<lambda>r y. merge_step lib r = Inr y) rs ys" "4 \<le> sum_list (map fst ys)"
    using m c by (auto simp: merge_verdicts_eq get1_def)
  have "2 \<le> length (filter ?found rs)" using ys signals_le[OF ys(1)] by linarith
  then obtain r1 r2 where r: "r1 \<in> set rs" "r2 \<in> set rs" "?found r1" "?found r2"
      "get1 r1 ''source'' \<noteq> get1 r2 ''source''"
    by (rule two_of_filter[OF _ d])
  then obtain s1 s2 where s: "s1 \<in> set all_sources" "found_by s1 r1" "s2 \<in> set all_sources" "found_by s2 r2"
    by (auto simp: list_ex_iff)
  then have "s1 \<noteq> s2" using r(5) by (auto simp: found_by_def)
  then show ?thesis unfolding corroborated_def using r(1,2) s by blast
qed

lemma merge_any_order:
  assumes "merge_verdicts lib rs v = Inr m" "mset rs' = mset rs"
  shows "\<exists>m'. merge_verdicts lib rs' v = Inr m' \<and> get1 m' ''verdict'' = get1 m ''verdict''
           \<and> get1 m' ''malicious_signal_count'' = get1 m ''malicious_signal_count''"
proof -
  obtain ys where ys: "list_all2 (\<lambda>r y. merge_step lib r = Inr y) rs ys"
      and m: "get1 m ''verdict'' = JStr (verdict_of (sum_list (map fst ys)))"
        "get1 m ''malicious_signal_count'' = JInt (int (sum_list (map fst ys)))"
    using assms(1) by (auto simp: merge_verdicts_eq get1_def)
  obtain ys' where ys': "list_all2 (\<lambda>r y. merge_step lib r = Inr y) rs' ys'" "mset ys' = mset ys"
    using list_all2_reorder_left_invariance[OF ys, of rs'] assms(2) by auto
  have "sum_list (map fst ys') = sum_list (map fst ys)"
    using ys'(2) by (metis mset_map sum_mset_sum_list)
  then show ?thesis
    using ys'(1) m by (auto simp: merge_verdicts_eq get1_def)
qed

text \<open>A lookup that told nothing: skipped, or ended in an error with a message.\<close>

definition told_nothing :: "jdict \<Rightarrow> bool" where
  "told_nothing r \<longleftrightarrow> truthy (get1 r ''skipped'') \<or> truthy (get1 r ''error'')"

lemma merge_told_nothing:
  assumes "list_all told_nothing rs"
  shows "\<exists>m. merge_verdicts lib rs v = Inr m \<and> get1 m ''verdict'' = JStr ''CLEAN''
           \<and> get1 m ''detail'' = JStr ''No data from any source''"
proof -
  have "\<exists>ys. list_all2 (\<lambda>r y. merge_step lib r = Inr y) rs ys
          \<and> sum_list (map fst ys) = 0 \<and> concat (map snd ys) = []"
    using assms
  proof (induction rs)
    case (Cons r rs)
    then obtain ys where ys: "list_all2 (\<lambda>r y. merge_step lib r = Inr y) rs ys"
        "sum_list (map fst ys) = 0" "concat (map snd ys) = []" by auto
    have "merge_step lib r = Inr (0, [])"
      using Cons.prems by (auto simp: told_nothing_def merge_step_def)
    with ys show ?case by (intro exI[of _ "(0, []) # ys"]) simp
  qed simp
  then obtain ys where ys: "map_r (merge_step lib) rs = Inr ys"
      "sum_list (map fst ys) = 0" "concat (map snd ys) = []"
    by (blast intro: map_r_list_all2)
  show ?thesis
    unfolding merge_verdicts_def by (simp del: concat_eq_Nil_conv add: ys get1_def Let_def verdict_of_def)
qed

end
