(* ===== verification/Oauth_Token.thy ===== *)
theory Oauth_Token
  imports Http_Port
begin

section \<open>The token caches of the connectors\<close>

text \<open>
  Two connectors keep an OAuth token in a module dictionary: \<open>_get_token\<close> of
  agents/tools/crowdstrike_tool.py and the OAuth half of \<open>_get_snow_auth_headers\<close> of
  agents/tools/cmdb_tool.py. Both reuse the token while it is valid for more than thirty further
  seconds, otherwise ask for one, keep it, and then keep its expiry. A missing expiry is 0.
\<close>

record token_cache =
  tk_token :: "json option"
  tk_expires_at :: rat

definition no_token :: token_cache where
  "no_token = \<lparr>tk_token = None, tk_expires_at = 0\<rparr>"

definition cached_token_of :: "token_cache \<Rightarrow> exn + json" where
  "cached_token_of tk = (case tk_token tk of None \<Rightarrow> Inl (KeyError ''token'') | Some t \<Rightarrow> Inr t)"

definition fresh_token :: "rat \<Rightarrow> token_cache \<Rightarrow> bool" where
  "fresh_token now tk \<longleftrightarrow> now + 30 < tk_expires_at tk"

definition keep_token :: "rat \<Rightarrow> json \<Rightarrow> ('w \<times> token_cache, unit) io" where
  "keep_token now data =
     bind_io (of_result (item_get data ''access_token'')) (\<lambda>t.
     bind_io (modify (\<lambda>tk. tk\<lparr>tk_token := Some t\<rparr>)) (\<lambda>_.
     bind_io (of_result (bind_r (attr_get data ''expires_in'' (JInt 1800)) num_of)) (\<lambda>n.
       modify (\<lambda>tk. tk\<lparr>tk_expires_at := now + n\<rparr>))))"

definition cached_token :: "'w net \<Rightarrow> http_call \<Rightarrow> ('w \<times> token_cache, json) io" where
  "cached_token nt c =
     bind_io (on_world (net_now nt)) (\<lambda>now.
     bind_io (reads (\<lambda>tk. ret_io (fresh_token now tk))) (\<lambda>fresh.
     bind_io (if fresh then ret_io ()
              else bind_io (on_world (fetch_json nt c)) (keep_token now)) (\<lambda>_.
       reads (\<lambda>tk. of_result (cached_token_of tk)))))"

text \<open>Running an operation on one of several memories.\<close>

definition zoom :: "('s \<Rightarrow> 't) \<Rightarrow> ('t \<Rightarrow> 's \<Rightarrow> 's) \<Rightarrow> ('w \<times> 't, 'a) io \<Rightarrow> ('w \<times> 's, 'a) io" where
  "zoom get put m = (\<lambda>(w, s). case m (w, get s) of (r, (w', t)) \<Rightarrow> (r, (w', put t s)))"

lemma no_raise_zoom [no_raise_intros]: "no_raise m \<Longrightarrow> no_raise (zoom get put m)"
proof (rule no_raiseI)
  fix ws assume m: "no_raise m"
  obtain x w' where "m (fst ws, get (snd ws)) = (Inr x, w')" using m by (rule no_raiseE)
  then show "\<exists>x w'. zoom get put m ws = (Inr x, w')"
    by (simp add: zoom_def case_prod_beta)
qed

text \<open>A token is given out only as the one the cache holds, and a fresh one costs no request.\<close>

lemma cached_token_held:
  assumes "cached_token nt c (w, tk) = (Inr t, (w', tk'))"
  shows "tk_token tk' = Some t"
  using assms
  by (auto simp: cached_token_def bind_io_eq_Inr reads_eq cached_token_of_def split: option.splits prod.splits)

lemma cached_token_reused:
  assumes "net_time nt w = (now, w1)" "fresh_token now tk"
  shows "cached_token nt c (w, tk) = (cached_token_of tk, (w1, tk))"
  using assms by (simp add: cached_token_def net_now_def on_world_eq reads_eq bind_io_def)

text \<open>A token that has to be asked for is kept until the moment its grant says.\<close>

lemma cached_token_renewed:
  assumes "net_time nt w = (now, w1)" "\<not> fresh_token now tk"
    and "fetch_json nt c w1 = (Inr (JDict d), w2)"
    and "map_of d ''access_token'' = Some t" "num_of (dict_get d ''expires_in'' (JInt 1800)) = Inr n"
  shows "cached_token nt c (w, tk) = (Inr t, (w2, \<lparr>tk_token = Some t, tk_expires_at = now + n\<rparr>))"
  using assms
  by (simp add: cached_token_def net_now_def on_world_eq reads_eq bind_io_def keep_token_def
      cached_token_of_def modify_def)

lemma cached_token_failed:
  assumes "net_time nt w = (now, w1)" "\<not> fresh_token now tk" "fetch_json nt c w1 = (Inl e, w2)"
  shows "cached_token nt c (w, tk) = (Inl e, (w2, tk))"
  using assms by (simp add: cached_token_def net_now_def on_world_eq reads_eq bind_io_def)

lemma cached_token_asked:
  assumes "cached_token nt c (w, tk) = (Inr t, (w', tk'))"
    and "net_time nt w = (now, w1)" "\<not> fresh_token now tk"
  shows "\<exists>d n. fetch_json nt c w1 = (Inr d, w') \<and> item_get d ''access_token'' = Inr t
     \<and> bind_r (attr_get d ''expires_in'' (JInt 1800)) num_of = Inr n
     \<and> tk' = \<lparr>tk_token = Some t, tk_expires_at = now + n\<rparr>"
proof -
  obtain r w2 where f: "fetch_json nt c w1 = (r, w2)" by (rule prod.exhaust)
  show ?thesis
  proof (cases r)
    case (Inl e)
    then show ?thesis using assms cached_token_failed[of nt w now w1 tk c e w2] f by simp
  next
    case (Inr d)
    obtain t0 where t0: "item_get d ''access_token'' = Inr t0"
      using assms f Inr
      by (cases "item_get d ''access_token''")
        (auto simp: cached_token_def net_now_def on_world_eq reads_eq bind_io_def keep_token_def modify_def)
    obtain n where n: "bind_r (attr_get d ''expires_in'' (JInt 1800)) num_of = Inr n"
      using assms f Inr t0
      by (cases "bind_r (attr_get d ''expires_in'' (JInt 1800)) num_of")
        (auto simp: cached_token_def net_now_def on_world_eq reads_eq bind_io_def keep_token_def modify_def)
    show ?thesis
      using assms f Inr t0 n
      by (auto simp: cached_token_def net_now_def on_world_eq reads_eq bind_io_def keep_token_def modify_def
          cached_token_of_def)
  qed
qed

end
