(* ===== verification/CrowdStrike_Tool.thy ===== *)
theory CrowdStrike_Tool
  imports Oauth_Token Query_Builder
begin

section \<open>agents/tools/crowdstrike_tool.py\<close>

text \<open>
  The Falcon connector: the cached token, then one of six queries, each a search for identifiers
  followed by a request for their details. Everything after the configuration check is inside the
  \<open>try\<close>.
\<close>

definition get_token :: "'w net \<Rightarrow> tool_settings \<Rightarrow> ('w \<times> token_cache, json) io" where
  "get_token nt st =
     cached_token nt (http_form (tl_crowdstrike_base_url st @ ''/oauth2/token'')
       [(''client_id'', JStr (tl_crowdstrike_client_id st)),
        (''client_secret'', JStr (tl_crowdstrike_client_secret st))])"

definition falcon_get ::
    "'w net \<Rightarrow> tool_settings \<Rightarrow> (string \<times> string) list \<Rightarrow> string \<Rightarrow> jdict \<Rightarrow> ('w, json) io" where
  "falcon_get nt st headers path query =
     fetch_field nt (http_get (join_url (tl_crowdstrike_base_url st) path) headers query)
       ''resources'' (JList [])"

definition falcon_post ::
    "'w net \<Rightarrow> tool_settings \<Rightarrow> (string \<times> string) list \<Rightarrow> string \<Rightarrow> json \<Rightarrow> ('w, json) io" where
  "falcon_post nt st headers path body =
     fetch_field nt (http_post (join_url (tl_crowdstrike_base_url st) path) headers body)
       ''resources'' (JList [])"

text \<open>\<open>{out: d.get(key, dflt), ...}\<close>.\<close>

definition pick_fields :: "(string \<times> string \<times> json) list \<Rightarrow> jdict \<Rightarrow> jdict" where
  "pick_fields fs d = map (\<lambda>(out, k, dflt). (out, dict_get d k dflt)) fs"

definition opt_field :: "string \<Rightarrow> string \<Rightarrow> string \<times> string \<times> json" where
  "opt_field out k = (out, k, JNull)"

text \<open>
  \<open>{"source": ..., "count": len(rows), kind: [view(d) for d in rows]}\<close>, or no rows at all when the
  search gave no identifiers.
\<close>

definition detail_rows :: "string \<Rightarrow> (json \<Rightarrow> exn + jdict) \<Rightarrow> json \<Rightarrow> exn + jdict" where
  "detail_rows kind view rows =
     bind_r (py_len rows) (\<lambda>n. bind_r (py_iter rows) (\<lambda>rs. bind_r (map_r view rs) (\<lambda>ds.
       Inr [(''source'', JStr ''crowdstrike''), (''count'', JInt n), (kind, JList (map JDict ds))])))"

definition ids_then_details ::
    "'w net \<Rightarrow> tool_settings \<Rightarrow> (string \<times> string) list \<Rightarrow> string \<Rightarrow> jdict \<Rightarrow> string \<Rightarrow> string \<Rightarrow> nat
     \<Rightarrow> string \<Rightarrow> (json \<Rightarrow> exn + jdict) \<Rightarrow> ('w, jdict) io" where
  "ids_then_details nt st headers search query details id_key limit kind view =
     bind_io (falcon_get nt st headers search query) (\<lambda>ids.
     if \<not> truthy ids
     then ret_io [(''source'', JStr ''crowdstrike''), (kind, JList []), (''count'', JInt 0)]
     else
       bind_io (of_result (slice_to limit ids)) (\<lambda>some_ids.
       bind_io (falcon_post nt st headers details (JDict [(id_key, some_ids)])) (\<lambda>rows.
         of_result (detail_rows kind view rows))))"

definition detection_view :: "json \<Rightarrow> exn + jdict" where
  "detection_view v = bind_r (as_dict v) (\<lambda>d.
     Inr (pick_fields [opt_field ''id'' ''detection_id'', opt_field ''severity'' ''max_severity_displayname'',
       opt_field ''technique'' ''technique'', opt_field ''tactic'' ''tactic'',
       opt_field ''filename'' ''filename'', opt_field ''cmdline'' ''cmdline'',
       opt_field ''status'' ''status''] d))"

definition detections_by_host ::
    "'w net \<Rightarrow> tool_settings \<Rightarrow> (string \<times> string) list \<Rightarrow> jdict \<Rightarrow> ('w, jdict) io" where
  "detections_by_host nt st headers params =
     bind_io (net_since nt ''%Y-%m-%dT%H:%M:%SZ'' (param_int params ''hours_back'' 72)) (\<lambda>since.
       ids_then_details nt st headers ''/detects/queries/detects/v1''
         [(''filter'', JStr (cs_detections_by_host (param_str params ''hostname'') since)), (''limit'', JInt 50)]
         ''/detects/entities/summaries/GET/v1'' ''ids'' 25 ''detections'' detection_view)"

definition process_tree ::
    "'w net \<Rightarrow> tool_settings \<Rightarrow> (string \<times> string) list \<Rightarrow> jdict \<Rightarrow> ('w, jdict) io" where
  "process_tree nt st headers params =
     (if \<not> opt_true (param_opt params ''device_id'')
      then ret_io [(''error'', JStr ''device_id required for process_tree query'')]
      else
        bind_io (falcon_get nt st headers ''/processes/entities/processes/v1''
            [(''ids'', JStr (param_str params ''process_id''))]) (\<lambda>processes.
          ret_io [(''source'', JStr ''crowdstrike''), (''process_tree'', processes)]))"

text \<open>A filter on a field by the host name, empty without one.\<close>

definition host_filter :: "string \<Rightarrow> jdict \<Rightarrow> string" where
  "host_filter field_name params =
     (case param_opt params ''hostname'' of
        Some h \<Rightarrow> if h = [] then [] else field_name @ '':'' @ sq @ h @ sq
      | None \<Rightarrow> [])"

definition device_view :: "json \<Rightarrow> exn + jdict" where
  "device_view v = bind_r (as_dict v) (\<lambda>d.
     Inr ([(''source'', JStr ''crowdstrike''), (''found'', JBool True)]
       @ pick_fields [opt_field ''device_id'' ''device_id'', opt_field ''hostname'' ''hostname'',
           opt_field ''os_version'' ''os_version'', opt_field ''agent_version'' ''agent_version'',
           opt_field ''last_seen'' ''last_seen'', opt_field ''containment_status'' ''status'',
           (''groups'', ''groups'', JList []), (''tags'', ''tags'', JList [])] d))"

definition device_info ::
    "'w net \<Rightarrow> tool_settings \<Rightarrow> (string \<times> string) list \<Rightarrow> jdict \<Rightarrow> ('w, jdict) io" where
  "device_info nt st headers params =
     bind_io (falcon_get nt st headers ''/devices/queries/devices/v1''
         [(''filter'', JStr (host_filter ''hostname'' params)), (''limit'', JInt 1)]) (\<lambda>device_ids.
     if \<not> truthy device_ids then ret_io [(''source'', JStr ''crowdstrike''), (''found'', JBool False)]
     else
       bind_io (of_result (index_zero device_ids)) (\<lambda>d0.
       bind_io (fetch_field nt (http_get (join_url (tl_crowdstrike_base_url st) ''/devices/entities/devices/v2'')
           headers [(''ids'', d0)]) ''resources'' (JList [JDict []])) (\<lambda>rs.
         of_result (bind_r (index_zero rs) device_view))))"

definition ioc_lookup ::
    "'w net \<Rightarrow> tool_settings \<Rightarrow> (string \<times> string) list \<Rightarrow> jdict \<Rightarrow> ('w, jdict) io" where
  "ioc_lookup nt st headers params =
     bind_io (falcon_get nt st headers ''/iocs/queries/indicators/v1''
         [(''filter'', JStr (cs_ioc_lookup (param_str params ''ioc_value'')
             (case param_opt params ''ioc_type'' of None \<Rightarrow> ''sha256'' | Some t \<Rightarrow> t)))]) (\<lambda>rs.
       ret_io [(''source'', JStr ''crowdstrike''), (''ioc_matches'', rs)])"

definition description_200 :: "jdict \<Rightarrow> exn + json" where
  "description_200 d = slice_to 200 (py_or (get1 d ''description'') (JStr []))"

definition alert_view :: "json \<Rightarrow> exn + jdict" where
  "alert_view v = bind_r (as_dict v) (\<lambda>a. bind_r (description_200 a) (\<lambda>descr.
     Inr ([(''id'', py_or (get1 a ''composite_id'') (get1 a ''id'')), (''name'', get1 a ''name''),
       (''severity'', py_or (get1 a ''severity_name'') (get1 a ''severity''))]
       @ pick_fields [opt_field ''tactic'' ''tactic'', opt_field ''technique'' ''technique'',
           opt_field ''status'' ''status'', opt_field ''product'' ''product''] a
       @ [(''description'', descr), (''created_timestamp'', get1 a ''created_timestamp'')])))"

definition alerts_by_host ::
    "'w net \<Rightarrow> tool_settings \<Rightarrow> (string \<times> string) list \<Rightarrow> jdict \<Rightarrow> ('w, jdict) io" where
  "alerts_by_host nt st headers params =
     ids_then_details nt st headers ''/alerts/queries/alerts/v2''
       [(''filter'', JStr (host_filter ''device.hostname'' params)), (''limit'', JInt 50)]
       ''/alerts/entities/alerts/v2'' ''composite_ids'' 25 ''alerts'' alert_view"

definition incident_view :: "json \<Rightarrow> exn + jdict" where
  "incident_view v = bind_r (as_dict v) (\<lambda>inc. bind_r (description_200 inc) (\<lambda>descr.
     bind_r (py_len (dict_get inc ''hosts'' (JList []))) (\<lambda>n.
     Inr ([(''id'', get1 inc ''incident_id''), (''name'', get1 inc ''name''), (''description'', descr)]
       @ pick_fields [opt_field ''status'' ''status'', opt_field ''severity'' ''fine_score'',
           (''tactics'', ''tactics'', JList []), (''techniques'', ''techniques'', JList []),
           (''tags'', ''tags'', JList []), opt_field ''start'' ''start'', opt_field ''end'' ''end''] inc
       @ [(''host_count'', JInt n)]))))"

definition incidents_by_host ::
    "'w net \<Rightarrow> tool_settings \<Rightarrow> (string \<times> string) list \<Rightarrow> jdict \<Rightarrow> ('w, jdict) io" where
  "incidents_by_host nt st headers params =
     ids_then_details nt st headers ''/incidents/queries/incidents/v1''
       [(''filter'', JStr (host_filter ''host_ids.hostname'' params)), (''limit'', JInt 25),
        (''sort'', JStr ''start.desc'')]
       ''/incidents/entities/incidents/GET/v1'' ''ids'' 15 ''incidents'' incident_view"

definition falcon_query ::
    "'w net \<Rightarrow> tool_settings \<Rightarrow> (string \<times> string) list \<Rightarrow> jdict \<Rightarrow> ('w, jdict) io" where
  "falcon_query nt st headers params =
     (let query_type = param_str params ''query_type'' in
      if query_type = ''detections_by_host'' then detections_by_host nt st headers params
      else if query_type = ''process_tree'' then process_tree nt st headers params
      else if query_type = ''device_info'' then device_info nt st headers params
      else if query_type = ''ioc_lookup'' then ioc_lookup nt st headers params
      else if query_type = ''alerts_by_host'' then alerts_by_host nt st headers params
      else if query_type = ''incidents_by_host'' then incidents_by_host nt st headers params
      else ret_io [(''results'', JList [])])"

definition crowdstrike_unconfigured :: "string \<Rightarrow> jdict" where
  "crowdstrike_unconfigured query_type =
     [(''source_available'', JBool False), (''source'', JStr ''crowdstrike''),
      (''error'', JStr (''CrowdStrike is not configured. Set CROWDSTRIKE_CLIENT_ID and ''
         @ ''CROWDSTRIKE_CLIENT_SECRET in .env (and CROWDSTRIKE_BASE_URL for your Falcon cloud).'')),
      (''query_type'', JStr query_type)]"

definition crowdstrike_query_async ::
    "'w net \<Rightarrow> tool_settings \<Rightarrow> jdict \<Rightarrow> ('w \<times> token_cache, jdict) io" where
  "crowdstrike_query_async nt st params =
     (if tl_crowdstrike_client_id st = [] then ret_io (crowdstrike_unconfigured (param_str params ''query_type''))
      else
        bind_io (on_world (net_now_ms nt)) (\<lambda>start_ms.
        try_io
          (bind_io (get_token nt st) (\<lambda>token.
             on_world (falcon_query nt st [bearer (py_str (float_repr (net_lib nt)) token)] params)))
          (\<lambda>exc. ret_io (unavailable [] (timed_out_or ''CrowdStrike API timed out'' exc)))))"

lemma no_raise_crowdstrike [no_raise_intros]: "no_raise (crowdstrike_query_async nt st params)"
  unfolding crowdstrike_query_async_def by (intro no_raise_intros no_raise_on_world)

end
