(* ===== verification/Cmdb_Tool.thy ===== *)
theory Cmdb_Tool
  imports Oauth_Token
begin

section \<open>agents/tools/cmdb_tool.py\<close>

text \<open>
  The ServiceNow connector: the authorization header (OAuth with a cached token, or Basic), one
  request to the table of configuration items, and the view of its first record. A failure other
  than a timeout is \<open>None\<close>, which the caller turns into an answer.
\<close>

definition CRITICALITY_TIERS :: "(string \<times> int) list" where
  "CRITICALITY_TIERS =
     [(''crown_jewel'', 5), (''high'', 4), (''medium'', 3), (''low'', 2), (''unknown'', 1)]"

definition SERVICENOW_CRITICALITY_MAP :: "(string \<times> string) list" where
  "SERVICENOW_CRITICALITY_MAP = [(''1'', ''crown_jewel''), (''2'', ''high''), (''3'', ''medium''), (''4'', ''low'')]"

definition snow_auth_header :: "'w net \<Rightarrow> tool_settings \<Rightarrow> ('w \<times> token_cache, string \<times> string) io" where
  "snow_auth_header nt st =
     (if tl_servicenow_client_id st \<noteq> [] \<and> tl_servicenow_client_secret st \<noteq> []
      then bind_io (cached_token nt (http_form (tl_servicenow_instance_url st @ ''/oauth_token.do'')
               [(''grant_type'', JStr ''password''), (''client_id'', JStr (tl_servicenow_client_id st)),
                (''client_secret'', JStr (tl_servicenow_client_secret st)),
                (''username'', JStr (tl_servicenow_username st)),
                (''password'', JStr (tl_servicenow_password st))]))
             (\<lambda>token. ret_io (bearer (py_str (float_repr (net_lib nt)) token)))
      else ret_io (''Authorization'',
             ''Basic '' @ b64encode (tl_servicenow_username st @ '':'' @ tl_servicenow_password st)))"

definition sysparm_query :: "jdict \<Rightarrow> string option" where
  "sysparm_query params =
     (let lookup_type = param_str params ''lookup_type'' in
      if lookup_type = ''by_hostname'' then Some (''name='' @ show_opt (param_opt params ''hostname''))
      else if lookup_type = ''by_ip'' then Some (''ip_address='' @ show_opt (param_opt params ''ip_address''))
      else if lookup_type = ''by_owner'' then Some (''owned_by.user_name='' @ show_opt (param_opt params ''owner''))
      else None)"

definition cmdb_not_found :: "jdict \<Rightarrow> jdict" where
  "cmdb_not_found params =
     [(''source'', JStr ''cmdb''), (''found'', JBool False),
      (''hostname'', py_or (json_opt (param_opt params ''hostname''))
          (py_or (json_opt (param_opt params ''ip_address'')) (JStr ''unknown'')))]"

definition criticality_of :: "string \<Rightarrow> string" where
  "criticality_of raw =
     (case map_of SERVICENOW_CRITICALITY_MAP raw of None \<Rightarrow> ''unknown'' | Some c \<Rightarrow> c)"

definition criticality_score :: "string \<Rightarrow> int" where
  "criticality_score c = (case map_of CRITICALITY_TIERS c of None \<Rightarrow> 1 | Some n \<Rightarrow> n)"

definition cmdb_view :: "pylib \<Rightarrow> jdict \<Rightarrow> json \<Rightarrow> exn + jdict" where
  "cmdb_view lib params v = bind_r (as_dict v) (\<lambda>r.
     let raw_criticality = py_str (float_repr lib)
           (dict_get r ''busines_criticality'' (dict_get r ''operational_status'' (JStr ''4'')));
         criticality = criticality_of raw_criticality in
     Inr [(''source'', JStr ''cmdb''), (''found'', JBool True),
          (''hostname'', dict_get r ''name'' (json_opt (param_opt params ''hostname''))),
          (''asset_type'', dict_get r ''sys_class_name'' (JStr ''Unknown'')),
          (''criticality'', JStr criticality), (''criticality_score'', JInt (criticality_score criticality)),
          (''business_unit'', dict_get r ''department'' (dict_get r ''company'' (JStr ''Unknown''))),
          (''owner'', dict_get r ''owned_by'' (dict_get r ''assigned_to'' (JStr ''unknown''))),
          (''os'', dict_get r ''os'' (JStr ''Unknown'')),
          (''patch_status'', JStr (if get1 r ''unverified'' = JStr ''false'' then ''up_to_date'' else ''needs_review'')),
          (''network_zone'', dict_get r ''dns_domain'' (JStr ''corporate'')), (''open_vulns_critical'', JInt 0),
          (''last_seen'', dict_get r ''last_discovered'' (dict_get r ''sys_updated_on'' (JStr []))),
          (''managed_by_edr'', JBool (truthy (get1 r ''discovery_source''))), (''sys_id'', get1 r ''sys_id'')])"

definition cmdb_first :: "pylib \<Rightarrow> jdict \<Rightarrow> json \<Rightarrow> exn + jdict" where
  "cmdb_first lib params records =
     (if \<not> truthy records then Inr (cmdb_not_found params)
      else bind_r (index_zero records) (cmdb_view lib params))"

definition snow_unset :: "tool_settings \<Rightarrow> bool" where
  "snow_unset st \<longleftrightarrow> tl_servicenow_instance_url st = [] \<or> tl_servicenow_username st = []"

definition query_servicenow_cmdb ::
    "'w net \<Rightarrow> tool_settings \<Rightarrow> jdict \<Rightarrow> ('w \<times> token_cache, jdict option) io" where
  "query_servicenow_cmdb nt st params =
     (if snow_unset st then ret_io None
      else (case sysparm_query params of
          None \<Rightarrow> ret_io None
        | Some q \<Rightarrow>
            (let url = rstrip_char (CHR ''/'') (tl_servicenow_instance_url st) @ ''/api/now/table/cmdb_ci'' in
             try_io
               (bind_io (snow_auth_header nt st) (\<lambda>auth.
                bind_io (on_world (fetch_field nt (http_get url
                    [(''Accept'', ''application/json''), (''Content-Type'', ''application/json''), auth]
                    [(''sysparm_query'', JStr q), (''sysparm_limit'', JInt 1),
                     (''sysparm_display_value'', JStr ''true'')]) ''result'' (JList []))) (\<lambda>records.
                bind_io (of_result (cmdb_first (net_lib nt) params records)) (\<lambda>d. ret_io (Some d)))))
               (\<lambda>exc. ret_io (if exc = TimeoutError
                  then Some [(''source_available'', JBool False), (''error'', JStr ''ServiceNow CMDB query timed out'')]
                  else None)))))"

definition CMDB_NOT_CONFIGURED :: string where
  "CMDB_NOT_CONFIGURED =
     ''ServiceNow CMDB is not configured. Set SERVICENOW_INSTANCE_URL, ''
     @ ''SERVICENOW_USERNAME, and SERVICENOW_PASSWORD in .env ''
     @ ''(optional OAuth: SERVICENOW_CLIENT_ID and SERVICENOW_CLIENT_SECRET).''"

definition CMDB_QUERY_FAILED :: string where
  "CMDB_QUERY_FAILED =
     ''ServiceNow CMDB request failed (HTTP error, timeout, or invalid credentials). ''
     @ ''Check instance URL, user ACLs on cmdb_ci, and logs.''"

definition cmdb_query_async ::
    "'w net \<Rightarrow> tool_settings \<Rightarrow> jdict \<Rightarrow> ('w \<times> token_cache, jdict) io" where
  "cmdb_query_async nt st params =
     (if snow_unset st
      then ret_io (unavailable [(''source'', JStr ''cmdb'')] CMDB_NOT_CONFIGURED)
      else
        bind_io (query_servicenow_cmdb nt st params) (\<lambda>result.
          ret_io (case result of Some d \<Rightarrow> d
            | None \<Rightarrow> unavailable [(''source'', JStr ''cmdb'')] CMDB_QUERY_FAILED)))"

lemma no_raise_cmdb [no_raise_intros]: "no_raise (cmdb_query_async nt st params)"
  unfolding cmdb_query_async_def query_servicenow_cmdb_def Let_def
  by (auto intro!: no_raise_intros split: option.splits)

text \<open>Every tier of the table is scored, and a record's tier is always one of the table.\<close>

lemma criticality_tier: "criticality_of raw \<in> set (map fst CRITICALITY_TIERS)"
  by (auto simp: criticality_of_def SERVICENOW_CRITICALITY_MAP_def CRITICALITY_TIERS_def split: option.splits)

lemma criticality_score_bounds: "1 \<le> criticality_score c \<and> criticality_score c \<le> 5"
  by (auto simp: criticality_score_def CRITICALITY_TIERS_def split: option.splits)

end
