(* ===== verification/Site_Tools.thy ===== *)
theory Site_Tools
  imports Http_Port
begin

section \<open>agents/tools/netflow_tool.py, backup_tool.py and vulncheck_tool.py\<close>

text \<open>
  The two connectors to an API of the site (network flows, backups), which post the checked
  parameters and pass on what they get, and the lookup of a CVE at VulnCheck, which extracts the score,
  the English description and the references of the first record.
\<close>

subsection \<open>netflow_tool\<close>

definition netflow_unconfigured_msg :: string where
  "netflow_unconfigured_msg =
     ''NetFlow/NDR API URL not configured. Set NDR_FLOW_API_URL (and optional NDR_FLOW_API_TOKEN) in .env.''"

definition site_headers :: "string \<Rightarrow> (string \<times> string) list" where
  "site_headers token =
     (''Content-Type'', ''application/json'') # (if token = [] then [] else [bearer token])"

text \<open>\<open>isinstance(data, dict)\<close> with its \<open>setdefault\<close>s, or the raw value.\<close>

definition site_data :: "string \<Rightarrow> jdict \<Rightarrow> string \<Rightarrow> json \<Rightarrow> jdict" where
  "site_data source extra query_type data =
     (case data of
        JDict d \<Rightarrow> fold (\<lambda>(k, v). set_default k v)
          ([(''source_available'', JBool True), (''source'', JStr source)] @ extra) d
      | _ \<Rightarrow> [(''source_available'', JBool True), (''source'', JStr source),
              (''query_type'', JStr query_type), (''raw'', data)])"

definition netflow_query_async :: "'w net \<Rightarrow> tool_settings \<Rightarrow> jdict \<Rightarrow> ('w, jdict) io" where
  "netflow_query_async nt st params =
     (let url = str_strip (tl_ndr_flow_api_url st); query_type = param_str params ''query_type'';
          failed = (\<lambda>msg. unavailable [(''source'', JStr ''netflow_dns'')] msg) in
      if url = []
      then ret_io (unavailable [(''source'', JStr ''netflow_dns''), (''query_type'', JStr query_type)]
             netflow_unconfigured_msg)
      else try_io
        (bind_io (net_send nt (http_post url (site_headers (tl_ndr_flow_api_token st))
            (JDict [(''query_type'', JStr query_type), (''src_ip'', json_opt (param_opt params ''src_ip'')),
               (''dst_ip'', json_opt (param_opt params ''dst_ip'')),
               (''hostname'', json_opt (param_opt params ''hostname'')),
               (''hours_back'', JInt (param_int params ''hours_back'' 720)),
               (''threshold_bytes'', JInt (param_int params ''threshold_bytes'' 10000000))]))) (\<lambda>resp.
         if ha_status resp \<ge> 400
         then ret_io (failed (''NDR HTTP '' @ show_int (ha_status resp) @ '': '' @ take 300 (ha_text resp)))
         else
           bind_io (of_result (answer_json nt resp)) (\<lambda>data.
             ret_io (site_data ''netflow_dns'' [(''query_type'', JStr query_type)] query_type data))))
        (\<lambda>exc. ret_io (failed (timed_out_or ''NDR API timed out'' exc))))"

subsection \<open>backup_tool\<close>

definition backup_unconfigured_msg :: string where
  "backup_unconfigured_msg =
     ''Backup vendor API URL not configured. Set BACKUP_API_URL (and optional BACKUP_API_TOKEN) in .env.''"

definition backup_query_async :: "'w net \<Rightarrow> tool_settings \<Rightarrow> jdict \<Rightarrow> ('w, jdict) io" where
  "backup_query_async nt st params =
     (let url = str_strip (tl_backup_api_url st); query_type = param_str params ''query_type'';
          hostname = json_opt (param_opt params ''hostname'');
          failed = (\<lambda>msg. unavailable [(''source'', JStr ''backup_systems'')] msg @ [(''results'', JList [])]) in
      if url = []
      then ret_io (unavailable [(''source'', JStr ''backup_systems''), (''query_type'', JStr query_type),
               (''hostname'', hostname)] backup_unconfigured_msg @ [(''results'', JList [])])
      else try_io
        (bind_io (net_send nt (http_post url (site_headers (tl_backup_api_token st))
            (JDict [(''query_type'', JStr query_type), (''hostname'', hostname),
               (''hours_back'', JInt (param_int params ''hours_back'' 72))]))) (\<lambda>resp.
         if ha_status resp \<ge> 400
         then ret_io (failed (''Backup API HTTP '' @ show_int (ha_status resp) @ '': '' @ take 300 (ha_text resp)))
         else
           bind_io (of_result (answer_json nt resp)) (\<lambda>data.
             ret_io (site_data ''backup_systems'' [] query_type data))))
        (\<lambda>exc. ret_io (failed (timed_out_or ''Backup API timed out'' exc))))"

subsection \<open>vulncheck_tool\<close>

definition VULNCHECK_BASE :: string where
  "VULNCHECK_BASE = ''https://api.vulncheck.com/v3''"

definition vulncheck_unconfigured :: "string \<Rightarrow> jdict" where
  "vulncheck_unconfigured cve_id =
     unavailable [(''source'', JStr ''vulncheck''), (''cve_id'', JStr cve_id)]
       ''VulnCheck is not configured. Set VULNCHECK_API_TOKEN in .env.''"

text \<open>The first description whose language is English, cut to 300 characters.\<close>

fun english :: "json list \<Rightarrow> exn + json" where
  "english [] = Inr (JStr [])"
| "english (desc # ds) =
     bind_r (attr_get desc ''lang'' JNull) (\<lambda>lang.
       if lang = JStr ''en'' then bind_r (attr_get desc ''value'' (JStr [])) (slice_to 300)
       else english ds)"

text \<open>The first CVSS 3.1 metric, when there is one.\<close>

definition cvss_of :: "json \<Rightarrow> exn + json" where
  "cvss_of metrics =
     bind_r (attr_get metrics ''cvssMetricV31'' (JList [JDict []])) (\<lambda>cvss_v31.
       if truthy cvss_v31
       then bind_r (index_zero cvss_v31) (\<lambda>m. attr_get m ''cvssData'' (JDict []))
       else Inr (JDict []))"

definition vuln_view :: "string \<Rightarrow> json \<Rightarrow> exn + jdict" where
  "vuln_view cve_id vuln =
     bind_r (attr_get vuln ''cve'' (JDict [])) (\<lambda>cve_meta.
     bind_r (attr_get cve_meta ''metrics'' (JDict [])) (\<lambda>metrics.
     bind_r (cvss_of metrics) (\<lambda>cvss_data.
     bind_r (attr_get cvss_data ''baseScore'' (JFloat 0)) (\<lambda>cvss_score.
     bind_r (attr_get cvss_data ''baseSeverity'' (JStr ''UNKNOWN'')) (\<lambda>cvss_severity.
     bind_r (attr_get cve_meta ''descriptions'' (JList [])) (\<lambda>descriptions.
     bind_r (bind_r (py_iter descriptions) english) (\<lambda>description.
     bind_r (attr_get vuln ''vulncheck_known_exploited'' JNull) (\<lambda>exploited.
     bind_r (bind_r (attr_get cve_meta ''references'' (JList [])) (slice_to 5)) (\<lambda>refs.
     bind_r (bind_r (py_iter refs) (map_r (\<lambda>ref. attr_get ref ''url'' (JStr [])))) (\<lambda>references.
       Inr [(''source'', JStr ''vulncheck''), (''cve_id'', JStr cve_id), (''found'', JBool True),
            (''cvss_v3_score'', cvss_score), (''severity'', cvss_severity), (''description'', description),
            (''exploit_available'', JBool (truthy exploited)), (''references'', JList references)]))))))))))"

definition vulncheck_lookup_async :: "'w net \<Rightarrow> tool_settings \<Rightarrow> jdict \<Rightarrow> ('w, jdict) io" where
  "vulncheck_lookup_async nt st params =
     (let cve_id = param_str params ''cve_id'' in
      if tl_vulncheck_api_token st = [] then ret_io (vulncheck_unconfigured cve_id)
      else
        bind_io (net_now_ms nt) (\<lambda>start_ms.
        try_io
          (bind_io (fetch_field nt (http_get (VULNCHECK_BASE @ ''/index/vulncheck-nvd2'')
              [(''Content-Type'', ''application/json''), bearer (tl_vulncheck_api_token st)]
              [(''cve'', JStr cve_id)]) ''data'' (JList [])) (\<lambda>data.
           bind_io (of_result
              (if \<not> truthy data
               then Inr [(''source'', JStr ''vulncheck''), (''cve_id'', JStr cve_id), (''found'', JBool False)]
               else bind_r (index_zero data) (vuln_view cve_id))) (\<lambda>answer.
           bind_io (net_now_ms nt) (\<lambda>now. ret_io (answer @ [(''elapsed_ms'', JInt (now - start_ms))])))))
          (\<lambda>exc. ret_io (unavailable [] (timed_out_or ''VulnCheck API timed out'' exc)))))"

subsection \<open>None of them raises\<close>

lemma no_raise_netflow [no_raise_intros]: "no_raise (netflow_query_async nt st params)"
  unfolding netflow_query_async_def Let_def by (intro no_raise_intros)

lemma no_raise_backup [no_raise_intros]: "no_raise (backup_query_async nt st params)"
  unfolding backup_query_async_def Let_def by (intro no_raise_intros)

lemma no_raise_vulncheck [no_raise_intros]: "no_raise (vulncheck_lookup_async nt st params)"
  unfolding vulncheck_lookup_async_def Let_def by (intro no_raise_intros)

end
