(* ===== verification/Aws_Tool.thy ===== *)
theory Aws_Tool
  imports Http_Port
begin

section \<open>agents/tools/aws_tool.py\<close>

text \<open>
  The AWS connector over the parameter \<open>aws\<close> (boto3): whether it is installed, opening a session for
  a region, one call of a service, and the pages of a paginator as a finite list of fetches, each run
  when the loop reaches it. Events hold timestamps; \<open>aws_str\<close> is \<open>str\<close> on the values boto3 gives.
\<close>

record 'w aws =
  aws_installed :: bool
  aws_session :: "string \<Rightarrow> ('w, unit) io"
  aws_call :: "string \<Rightarrow> string \<Rightarrow> jdict \<Rightarrow> ('w, json) io"
  aws_pages :: "string \<Rightarrow> jdict \<Rightarrow> ('w, json) io list"
  aws_str :: "json \<Rightarrow> string"

definition lookup_by :: "string \<Rightarrow> string \<Rightarrow> string \<Rightarrow> jdict" where
  "lookup_by key val since =
     [(''LookupAttributes'', JList [JDict [(''AttributeKey'', JStr key), (''AttributeValue'', JStr val)]]),
      (''StartTime'', JStr since)]"

definition page_events :: "json \<Rightarrow> exn + json list" where
  "page_events page = bind_r (item_get page ''Events'') py_iter"

text \<open>
  \<open>for page in paginator.paginate(...)\<close>: the rows of each page until there are \<open>enough\<close>.
\<close>

fun collect_pages ::
    "nat \<Rightarrow> (json \<Rightarrow> exn + jdict list) \<Rightarrow> ('w, json) io list \<Rightarrow> jdict list \<Rightarrow> ('w, jdict list) io" where
  "collect_pages enough view [] events = ret_io events"
| "collect_pages enough view (fetch # pages) events =
     bind_io fetch (\<lambda>page.
     bind_io (of_result (bind_r (page_events page) (map_r view))) (\<lambda>rows.
       let events = events @ concat rows in
       if enough \<le> length events then ret_io events else collect_pages enough view pages events))"

definition trail_view :: "'w aws \<Rightarrow> json \<Rightarrow> exn + jdict list" where
  "trail_view aw v = bind_r (as_dict v) (\<lambda>ev. Inr [
     [(''EventName'', get1 ev ''EventName''), (''EventTime'', JStr (aws_str aw (get1 ev ''EventTime''))),
      (''SourceIPAddress'', dict_get ev ''CloudTrailEvent'' (JStr ''{}'')), (''Username'', get1 ev ''Username'')]])"

definition HIGH_RISK_EVENTS :: "string list" where
  "HIGH_RISK_EVENTS =
     [''CreateUser'', ''AttachUserPolicy'', ''AttachRolePolicy'', ''PutUserPolicy'', ''CreateAccessKey'',
      ''DeleteTrail'', ''StopLogging'', ''AssumeRoleWithWebIdentity'']"

text \<open>\<open>e.get("EventName", "") in {...}\<close>: a value that cannot be hashed raises.\<close>

definition high_risk :: "jdict \<Rightarrow> exn + bool" where
  "high_risk e = bind_r (hash_key (dict_get e ''EventName'' (JStr [])))
     (\<lambda>k. Inr (k \<in> set (map JStr HIGH_RISK_EVENTS)))"

fun filter_r :: "('a \<Rightarrow> exn + bool) \<Rightarrow> 'a list \<Rightarrow> exn + 'a list" where
  "filter_r p [] = Inr []"
| "filter_r p (x # xs) =
     bind_r (p x) (\<lambda>b. bind_r (filter_r p xs) (\<lambda>ys. Inr (if b then x # ys else ys)))"

definition cloudtrail_by_user :: "'w aws \<Rightarrow> string \<Rightarrow> string \<Rightarrow> ('w, jdict) io" where
  "cloudtrail_by_user aw username since =
     bind_io (collect_pages 200 (trail_view aw) (aws_pages aw ''cloudtrail'' (lookup_by ''Username'' username since)) [])
       (\<lambda>events.
     bind_io (of_result (filter_r high_risk events)) (\<lambda>high_risk_events.
       ret_io [(''source'', JStr ''aws_cloudtrail''), (''total_events'', JInt (int (length events))),
               (''high_risk_events'', JList (map JDict (take 10 high_risk_events))),
               (''username'', JStr username)]))"

definition IAM_EVENTS :: "string list" where
  "IAM_EVENTS = [''AttachUserPolicy'', ''DetachUserPolicy'', ''AttachRolePolicy'', ''CreatePolicy'',
     ''PutUserPolicy'', ''CreateUser'', ''CreateRole'']"

definition iam_view :: "'w aws \<Rightarrow> json \<Rightarrow> exn + jdict list" where
  "iam_view aw v = bind_r (as_dict v) (\<lambda>ev. Inr [
     [(''EventName'', get1 ev ''EventName''), (''EventTime'', JStr (aws_str aw (get1 ev ''EventTime''))),
      (''Username'', get1 ev ''Username'')]])"

text \<open>The first page for each event name.\<close>

fun iam_events :: "'w aws \<Rightarrow> string \<Rightarrow> string list \<Rightarrow> ('w, jdict list) io" where
  "iam_events aw since [] = ret_io []"
| "iam_events aw since (event_name # names) =
     bind_io (collect_pages 0 (iam_view aw)
        (aws_pages aw ''cloudtrail'' (lookup_by ''EventName'' event_name since)) []) (\<lambda>events.
     bind_io (iam_events aw since names) (\<lambda>rest. ret_io (events @ rest)))"

definition iam_policy_changes :: "'w aws \<Rightarrow> string \<Rightarrow> ('w, jdict) io" where
  "iam_policy_changes aw since =
     bind_io (iam_events aw since IAM_EVENTS) (\<lambda>events.
       ret_io [(''source'', JStr ''aws_cloudtrail''), (''iam_changes'', JList (map JDict (take 20 events))),
               (''total'', JInt (int (length events)))])"

definition finding_view :: "json \<Rightarrow> exn + jdict" where
  "finding_view v = bind_r (as_dict v) (\<lambda>f. Inr
     [(''type'', get1 f ''Type''), (''severity'', get1 f ''Severity''), (''title'', get1 f ''Title''),
      (''created'', get1 f ''CreatedAt'')])"

definition guardduty_findings :: "'w aws \<Rightarrow> ('w, jdict) io" where
  "guardduty_findings aw =
     (let call = (\<lambda>op args k. bind_io (aws_call aw ''guardduty'' op args) (\<lambda>v. of_result (attr_get v k (JList [])))) in
      bind_io (call ''list_detectors'' [] ''DetectorIds'') (\<lambda>detectors.
      if \<not> truthy detectors
      then ret_io [(''source'', JStr ''aws_guardduty''), (''findings'', JList []),
                   (''note'', JStr ''No GuardDuty detector found'')]
      else
        bind_io (of_result (index_zero detectors)) (\<lambda>detector_id.
        bind_io (call ''list_findings'' [(''DetectorId'', detector_id),
             (''FindingCriteria'', JDict [(''Criterion'', JDict [(''severity'', JDict [(''Gte'', JInt 4)])])]),
             (''MaxResults'', JInt 20)] ''FindingIds'') (\<lambda>finding_ids.
        if \<not> truthy finding_ids
        then ret_io [(''source'', JStr ''aws_guardduty''), (''findings'', JList []), (''count'', JInt 0)]
        else
          bind_io (call ''get_findings'' [(''DetectorId'', detector_id), (''FindingIds'', finding_ids)] ''Findings'')
            (\<lambda>fs.
          bind_io (of_result (bind_r (py_iter fs) (map_r finding_view))) (\<lambda>findings.
            ret_io [(''source'', JStr ''aws_guardduty''), (''findings'', JList (map JDict findings)),
                    (''count'', JInt (int (length findings)))]))))))"

text \<open>The events whose text holds the user name, whatever the case.\<close>

definition assume_view :: "'w aws \<Rightarrow> string \<Rightarrow> json \<Rightarrow> exn + jdict list" where
  "assume_view aw username v =
     (if str_in (str_lower username) (str_lower (aws_str aw v))
      then bind_r (as_dict v) (\<lambda>ev. Inr [
        [(''EventTime'', JStr (aws_str aw (get1 ev ''EventTime''))), (''EventName'', get1 ev ''EventName''),
         (''Username'', get1 ev ''Username'')]])
      else Inr [])"

definition assume_role_events :: "'w aws \<Rightarrow> string \<Rightarrow> string \<Rightarrow> ('w, jdict) io" where
  "assume_role_events aw username since =
     bind_io (collect_pages 50 (assume_view aw username)
        (aws_pages aw ''cloudtrail'' (lookup_by ''EventName'' ''AssumeRole'' since)) []) (\<lambda>events.
       ret_io [(''source'', JStr ''aws_cloudtrail''), (''assume_role_events'', JList (map JDict events)),
               (''count'', JInt (int (length events)))])"

definition aws_unconfigured :: "string \<Rightarrow> jdict" where
  "aws_unconfigured query_type =
     unavailable [(''source'', JStr ''aws''), (''query_type'', JStr query_type)]
       ''AWS is not configured. Set AWS_ACCESS_KEY_ID and AWS_SECRET_ACCESS_KEY in .env.''"

definition aws_dispatch :: "'w aws \<Rightarrow> jdict \<Rightarrow> string \<Rightarrow> ('w, jdict) io" where
  "aws_dispatch aw params since =
     (let query_type = param_str params ''query_type''; username = param_str params ''username'' in
      if query_type = ''cloudtrail_by_user'' then cloudtrail_by_user aw username since
      else if query_type = ''iam_policy_changes'' then iam_policy_changes aw since
      else if query_type = ''guardduty_findings'' then guardduty_findings aw
      else if query_type = ''assume_role_events'' then assume_role_events aw username since
      else ret_io (unavailable [(''source'', JStr ''aws'')]
             ''AWS query_type did not match a handler or returned no payload.'' @ [(''results'', JList [])]))"

definition aws_query_async :: "'w net \<Rightarrow> 'w aws \<Rightarrow> tool_settings \<Rightarrow> jdict \<Rightarrow> ('w, jdict) io" where
  "aws_query_async nt aw st params =
     (if tl_aws_access_key_id st = [] then ret_io (aws_unconfigured (param_str params ''query_type''))
      else
        (let region = (case param_opt params ''region'' of
               Some r \<Rightarrow> if r = [] then tl_aws_region st else r | None \<Rightarrow> tl_aws_region st) in
         bind_io (net_since nt ''isoformat'' (param_int params ''hours_back'' 336)) (\<lambda>since.
         if \<not> aws_installed aw
         then ret_io (unavailable [(''source'', JStr ''aws'')] ''boto3 not installed. Run: uv pip install -e .'')
         else try_io
           (bind_io (aws_session aw region) (\<lambda>_. aws_dispatch aw params since))
           (\<lambda>exc. ret_io [(''source'', JStr ''aws''), (''error'', JStr (exn_str exc)),
                          (''source_available'', JBool False)]))))"

lemma no_raise_aws [no_raise_intros]: "no_raise (aws_query_async nt aw st params)"
  unfolding aws_query_async_def Let_def by (intro no_raise_intros)

text \<open>The loop over the pages stops at the first page that gives enough rows.\<close>

lemma collect_pages_bound:
  assumes "collect_pages enough view pages events w = (Inr rs, w')"
    and "length events < enough"
    and "\<And>page evs rows. page_events page = Inr evs \<Longrightarrow> map_r view evs = Inr rows \<Longrightarrow> length (concat rows) \<le> m"
  shows "length rs < enough + m"
  using assms(1,2)
proof (induction pages arbitrary: events w)
  case (Cons fetch pages)
  then obtain page rows w1 where s: "bind_r (page_events page) (map_r view) = Inr rows"
      and r: "(let events = events @ concat rows in if enough \<le> length events then ret_io events
               else collect_pages enough view pages events) w1 = (Inr rs, w')"
    by (auto simp: bind_io_eq_Inr)
  have l: "length (concat rows) \<le> m" using s assms(3) by (auto simp: bind_r_eq_Inr)
  show ?case
  proof (cases "enough \<le> length (events @ concat rows)")
    case True
    then show ?thesis using r l Cons.prems(2) by (auto simp: Let_def)
  next
    case False
    then have "collect_pages enough view pages (events @ concat rows) w1 = (Inr rs, w')"
      using r by (simp add: Let_def)
    then show ?thesis using Cons.IH[of "events @ concat rows" w1] False by simp
  qed
qed simp

end
