(* ===== verification/Tool_Connectors.thy ===== *)
theory Tool_Connectors
  imports Splunk_Tool Threat_Intel CrowdStrike_Tool Cmdb_Tool Site_Tools Aws_Tool Enrichment Demo_World
begin

section \<open>The registry of connectors\<close>

text \<open>
  \<open>_TOOL_REGISTRY\<close> of agents/enrichment_node.py with the connectors behind it, and the part of
  \<open>_execute_single_tool\<close> the enrichment model leaves to \<open>env_run_tool\<close>: the schema check and
  \<open>asyncio.wait_for\<close>. The token dictionaries of the modules are the memory beside the world.
  \<open>cn_wait_for\<close> is \<open>asyncio.wait_for\<close>; \<open>wait_ok\<close> says that it gives the awaited outcome or a timeout.
\<close>

record tool_memory =
  tm_falcon :: token_cache
  tm_snow :: token_cache

record 'w connectors =
  cn_net :: "'w net"
  cn_aws :: "'w aws"
  cn_settings :: tool_settings
  cn_row_order :: "json list \<Rightarrow> json list"
  cn_wait_for :: "int \<Rightarrow> ('w \<times> tool_memory, jdict) io \<Rightarrow> ('w \<times> tool_memory, jdict) io"

definition wait_ok :: "'w connectors \<Rightarrow> bool" where
  "wait_ok cn \<longleftrightarrow>
     (\<forall>t m w. cn_wait_for cn t m w = m w \<or> (\<exists>w'. cn_wait_for cn t m w = (Inl TimeoutError, w')))"

definition connector :: "'w connectors \<Rightarrow> string \<Rightarrow> jdict \<Rightarrow> ('w \<times> tool_memory, jdict) io" where
  "connector cn tool_name params =
     (let nt = cn_net cn; st = cn_settings cn in
      if tool_name = ''query_splunk'' then on_world (splunk_query_async nt st (cn_row_order cn) params)
      else if tool_name = ''query_crowdstrike''
        then zoom tm_falcon (\<lambda>t s. s\<lparr>tm_falcon := t\<rparr>) (crowdstrike_query_async nt st params)
      else if tool_name = ''lookup_threat_intel'' then on_world (lookup_typed nt st params)
      else if tool_name = ''query_aws'' then on_world (aws_query_async nt (cn_aws cn) st params)
      else if tool_name = ''query_cmdb''
        then zoom tm_snow (\<lambda>t s. s\<lparr>tm_snow := t\<rparr>) (cmdb_query_async nt st params)
      else if tool_name \<in> set [''query_netflow'', ''query_dns_logs'']
        then on_world (netflow_query_async nt st params)
      else if tool_name = ''query_backup_systems'' then on_world (backup_query_async nt st params)
      else if tool_name = ''lookup_vulncheck'' then on_world (vulncheck_lookup_async nt st params)
      else raise_io (KeyError tool_name))"

definition run_tool :: "'w connectors \<Rightarrow> string \<Rightarrow> jdict \<Rightarrow> int \<Rightarrow> ('w \<times> tool_memory, jdict) io" where
  "run_tool cn tool_name params timeout_seconds =
     (if schema_accepts tool_name params
      then cn_wait_for cn timeout_seconds (connector cn tool_name params)
      else raise_io (ValidationError tool_name))"

text \<open>The enrichment of the pipeline with the connectors in place.\<close>

definition with_connectors ::
    "'w connectors \<Rightarrow> ('w \<times> tool_memory) tool_env \<Rightarrow> ('w \<times> tool_memory) tool_env" where
  "with_connectors cn env = env\<lparr>env_run_tool := run_tool cn\<rparr>"

subsection \<open>Connectors that answer whatever happens\<close>

definition guarded_tools :: "string list" where
  "guarded_tools =
     [''query_crowdstrike'', ''query_aws'', ''query_cmdb'', ''query_netflow'', ''query_dns_logs'',
      ''query_backup_systems'', ''lookup_vulncheck'']"

lemma no_raise_connector: "n \<in> set guarded_tools \<Longrightarrow> no_raise (connector cn n p)"
  by (auto simp: guarded_tools_def connector_def Let_def intro!: no_raise_intros no_raise_on_world)

text \<open>The setting without which a connector does nothing.\<close>

definition unset :: "tool_settings \<Rightarrow> string \<Rightarrow> bool" where
  "unset st n \<longleftrightarrow>
     (if n = ''query_crowdstrike'' then tl_crowdstrike_client_id st = []
      else if n = ''query_aws'' then tl_aws_access_key_id st = []
      else if n = ''query_cmdb'' then snow_unset st
      else if n \<in> set [''query_netflow'', ''query_dns_logs''] then str_strip (tl_ndr_flow_api_url st) = []
      else if n = ''query_backup_systems'' then str_strip (tl_backup_api_url st) = []
      else if n = ''lookup_vulncheck'' then tl_vulncheck_api_token st = []
      else False)"

lemmas unset_defs = unset_def crowdstrike_query_async_def crowdstrike_unconfigured_def aws_query_async_def
  aws_unconfigured_def cmdb_query_async_def netflow_query_async_def backup_query_async_def
  vulncheck_lookup_async_def vulncheck_unconfigured_def

lemma zoom_ret [simp]: "zoom get put (ret_io x) (w, s) = (Inr x, (w, put (get s) s))"
  by (simp add: zoom_def)

lemma on_world_ret [simp]: "on_world (ret_io x) (w, s) = (Inr x, (w, s))"
  by (simp add: on_world_eq)

lemma unset_connector:
  assumes "unset (cn_settings cn) n"
  shows "\<exists>d. connector cn n p (w, m) = (Inr d, (w, m))
           \<and> dict_get d ''source_available'' JNull = JBool False
           \<and> (\<exists>msg. get1 d ''error'' = JStr msg \<and> msg \<noteq> [])"
  using assms
  by (auto simp: connector_def Let_def unset_defs unavailable_def get1_def CMDB_NOT_CONFIGURED_def
      netflow_unconfigured_msg_def backup_unconfigured_msg_def split: if_splits)

lemma accepted_runs:
  "schema_accepts n p \<Longrightarrow> run_tool cn n p t = cn_wait_for cn t (connector cn n p)"
  by (simp add: run_tool_def)

lemma run_tool_answers:
  assumes "wait_ok cn" "schema_accepts n p" "n \<in> set guarded_tools"
  shows "(\<exists>d w'. run_tool cn n p t w = (Inr d, w')) \<or> (\<exists>w'. run_tool cn n p t w = (Inl TimeoutError, w'))"
  using assms(1) no_raise_connector[OF assms(3), of cn p]
  unfolding accepted_runs[OF assms(2)] wait_ok_def by (metis no_raiseE)

subsection \<open>Threat intelligence when nobody answers\<close>

definition net_down :: "'w net \<Rightarrow> bool" where
  "net_down nt \<longleftrightarrow> (\<forall>c w. \<exists>e w'. net_send nt c w = (Inl e, w'))"

text \<open>A result that did not find anything.\<close>

definition not_told :: "jdict \<Rightarrow> bool" where
  "not_told r \<longleftrightarrow> (\<forall>lib. \<exists>ds. merge_step lib r = Inr (0, ds))"

lemma not_told_skipped: "not_told (skipped src reason)"
  by (simp add: not_told_def merge_step_def Let_def skipped_def get1_def)

lemma not_told_failed: "not_told (lookup_failed src v e)"
  by (simp add: not_told_def merge_step_def Let_def lookup_failed_def get1_def)

lemma gives_sent:
  assumes "net_down nt"
  shows "gives P (bind_io (net_send nt c) f)"
  using assms unfolding net_down_def gives_def by (metis bind_io_Inl Pair_inject sum.distinct(1))

lemmas not_told_intros = gives_intros gives_sent not_told_skipped not_told_failed

lemma source_lookups_not_told:
  assumes "net_down nt" "m \<in> set (source_lookups nt st t v srcs)"
  shows "gives not_told m"
  using assms
  by (auto simp: source_lookups_def query_virustotal_def query_abuseipdb_def query_otx_def Let_def
      intro!: not_told_intros split: if_splits option.splits)

lemma merge_not_told:
  assumes "list_all not_told rs"
  shows "\<exists>m. merge_verdicts lib rs v = Inr m \<and> get1 m ''verdict'' = JStr ''CLEAN''
           \<and> get1 m ''error'' = JNull \<and> \<not> has_key m ''source_available''"
proof -
  have "\<exists>ys. map_r (merge_step lib) rs = Inr ys \<and> sum_list (map fst ys) = 0"
    using assms
  proof (induction rs)
    case (Cons r rs)
    then obtain ys where ys: "map_r (merge_step lib) rs = Inr ys" "sum_list (map fst ys) = 0" by auto
    obtain ds where "merge_step lib r = Inr (0, ds)" using Cons.prems by (auto simp: not_told_def)
    with ys show ?case by simp
  qed simp
  then show ?thesis
    by (auto simp: merge_verdicts_def Let_def get1_def)
qed

lemma outage_lookup:
  assumes "net_down nt"
  shows "\<exists>m w'. threat_intel_lookup_async nt st t v srcs w = (Inr m, w')
           \<and> get1 m ''verdict'' = JStr ''CLEAN'' \<and> cacheable m"
proof -
  let ?ms = "source_lookups nt st t v srcs"
  obtain s0 w0 where w0: "net_now_ms nt w = (Inr s0, w0)" by (rule no_raiseE[OF no_raise_net_now_ms])
  obtain rs w1 where w1: "map_io (\<lambda>m. m) ?ms w0 = (Inr rs, w1)" by (rule no_raiseE[OF lookups_answer])
  obtain s2 w2 where w2: "net_now_ms nt w1 = (Inr s2, w2)" by (rule no_raiseE[OF no_raise_net_now_ms])
  have "list_all2 (\<lambda>m r. not_told r) ?ms rs"
    using w1 by (rule map_io_all) (use source_lookups_not_told[OF assms] in \<open>blast dest: givesD\<close>)
  then have "list_all not_told rs" by (auto simp: list_all2_conv_all_nth list_all_length)
  then obtain m where m: "merge_verdicts (net_lib nt) rs v = Inr m" "get1 m ''verdict'' = JStr ''CLEAN''"
      "get1 m ''error'' = JNull" "\<not> has_key m ''source_available''"
    using merge_not_told by blast
  have "threat_intel_lookup_async nt st t v srcs w = (Inr (m @ [(''elapsed_ms'', JInt (s2 - s0))]), w2)"
    using w0 w1 w2 m(1) by (simp add: threat_intel_lookup_async_def bind_io_def)
  moreover have "map_of m ''verdict'' = Some (JStr ''CLEAN'')"
    using m(2) by (auto simp: get1_def dict_get_def split: option.splits)
  moreover have "map_of m ''source_available'' = None" using m(4) by (simp add: has_key_def map_of_eq_None_iff)
  moreover have "map_of m ''error'' \<in> {None, Some JNull}"
    using m(3) by (auto simp: get1_def dict_get_def split: option.splits)
  ultimately show ?thesis
    by (auto simp: get1_def dict_get_def cacheable_def map_add_def)
qed

end
