(* ===== verification/Connector_Guarantees.thy ===== *)
theory Connector_Guarantees
  imports Tool_Connectors
begin

section \<open>What the connectors guarantee\<close>

text \<open>
  The properties of the connectors of agents/tools/, each with a witness over a small network whose
  world counts the requests sent.
\<close>

definition demo_net :: "(string \<times> string) list \<Rightarrow> (string \<times> json) list \<Rightarrow> nat net" where
  "demo_net answers table =
     \<lparr>net_lib = demo_lib table,
      net_send = (\<lambda>c w. (case map_of answers (hc_url c) of
         None \<Rightarrow> Inl TimeoutError | Some t \<Rightarrow> Inr \<lparr>ha_status = 200, ha_text = t\<rparr>, Suc w)),
      net_status_error = (\<lambda>c a. ''status''), net_sleep = (\<lambda>s w. (Inr (), w)),
      net_time = (\<lambda>w. (1000, w)), net_hours_ago = (\<lambda>f h w. (''2024-01-01T00:00:00Z'', w))\<rparr>"

definition demo_settings :: tool_settings where
  "demo_settings =
     \<lparr>tl_splunk_username = ''u'', tl_splunk_password = ''p'', tl_splunk_token = [],
      tl_splunk_scheme = ''https'', tl_splunk_host = ''splunk'', tl_splunk_port = 8089,
      tl_virustotal_api_key = ''vt'', tl_abuseipdb_api_key = ''ab'', tl_otx_api_key = [],
      tl_crowdstrike_client_id = ''id'', tl_crowdstrike_client_secret = ''secret'',
      tl_crowdstrike_base_url = ''https://falcon'', tl_servicenow_instance_url = [],
      tl_servicenow_client_id = [], tl_servicenow_client_secret = [], tl_servicenow_username = [],
      tl_servicenow_password = [], tl_ndr_flow_api_url = [], tl_ndr_flow_api_token = [],
      tl_backup_api_url = [], tl_backup_api_token = [], tl_vulncheck_api_token = [],
      tl_aws_access_key_id = [], tl_aws_region = ''eu-west-1''\<rparr>"

definition demo_connectors :: "nat net \<Rightarrow> nat connectors" where
  "demo_connectors nt =
     \<lparr>cn_net = nt,
      cn_aws = \<lparr>aws_installed = False, aws_session = (\<lambda>r. ret_io ()), aws_call = (\<lambda>s op a. ret_io JNull),
        aws_pages = (\<lambda>s a. []), aws_str = (\<lambda>v. [])\<rparr>,
      cn_settings = demo_settings, cn_row_order = (\<lambda>xs. xs), cn_wait_for = (\<lambda>t m. m)\<rparr>"

definition demo_memory :: tool_memory where
  "demo_memory = \<lparr>tm_falcon = no_token, tm_snow = no_token\<rparr>"

lemma demo_wait_ok: "wait_ok (demo_connectors nt)"
  by (simp add: wait_ok_def demo_connectors_def)

subsection \<open>Every call of the burst is answered\<close>

text \<open>
  C7. A tool call the burst makes for an alert has parameters the input schema of its tool accepts,
  whichever of the nine tools it is. If the tool is not Splunk and not threat intelligence, the call
  ends in a dictionary or in the timeout of the call, whatever the remote services do.
\<close>

theorem burst_call_answers:
  assumes "(n, p) \<in> set (burst_tasks alert entities tids)" "wait_ok cn"
  shows "schema_accepts n p
    \<and> (n \<in> set guarded_tools \<longrightarrow>
         (\<exists>d w'. run_tool cn n p t w = (Inr d, w')) \<or> (\<exists>w'. run_tool cn n p t w = (Inl TimeoutError, w')))"
  using run_tool_answers[OF assms(2)] burst_tasks_accepted[OF assms(1)] by blast

theorem burst_call_answers_witness:
  "\<exists>p. (''query_crowdstrike'', p) \<in> set (burst_tasks demo_alert demo_entities [''T1059.001''])
     \<and> CrowdStrikeInput p
     \<and> ((\<exists>d w'. run_tool (demo_connectors (demo_net [] [])) ''query_crowdstrike'' p 30 (0, demo_memory) = (Inr d, w'))
        \<or> (\<exists>w'. run_tool (demo_connectors (demo_net [] [])) ''query_crowdstrike'' p 30 (0, demo_memory)
               = (Inl TimeoutError, w')))"
proof -
  have "list_ex (\<lambda>x. fst x = ''query_crowdstrike'') (burst_tasks demo_alert demo_entities [''T1059.001''])"
    by code_simp
  then obtain p where p: "(''query_crowdstrike'', p) \<in> set (burst_tasks demo_alert demo_entities [''T1059.001''])"
    by (auto simp: list_ex_iff)
  show ?thesis
    using p burst_call_answers[OF p demo_wait_ok, of "demo_net [] []" 30 "(0, demo_memory)"]
    by (auto simp: guarded_tools_def schema_accepts_def REGISTRY_SCHEMAS_def)
qed

subsection \<open>A connector that is not configured\<close>

text \<open>
  C10. A Falcon, AWS, CMDB, flow, backup or VulnCheck connector whose setting is missing touches
  nothing (no request, no token, not even the clock): its answer says that the source is not
  available, has a text under \<open>error\<close>, and is not cached.
\<close>

theorem unconfigured_tool_silent:
  assumes "unset (cn_settings cn) n"
  shows "\<exists>d. connector cn n p (w, m) = (Inr d, (w, m))
           \<and> dict_get d ''source_available'' JNull = JBool False
           \<and> (\<exists>msg. dict_get d ''error'' JNull = JStr msg \<and> msg \<noteq> []) \<and> \<not> cacheable d"
  using unset_connector[OF assms, of p w m] by (auto simp: cacheable_def get1_def)

theorem unconfigured_tool_silent_witness:
  "\<exists>d. connector (demo_connectors (demo_net [] [])) ''query_cmdb'' [] (0, demo_memory)
         = (Inr d, (0, demo_memory))
     \<and> dict_get d ''source_available'' JNull = JBool False
     \<and> (\<exists>msg. dict_get d ''error'' JNull = JStr msg \<and> msg \<noteq> []) \<and> \<not> cacheable d"
  by (rule unconfigured_tool_silent)
    (simp add: unset_def snow_unset_def demo_connectors_def demo_settings_def)

subsection \<open>Threat intelligence\<close>

text \<open>
  C9. The verdict CONFIRMED_MALICIOUS is given only when two different sources found the indicator.
\<close>

theorem confirmed_by_two_sources:
  assumes "threat_intel_lookup_async nt st t v srcs w = (Inr m, w')"
    and "get1 m ''verdict'' = JStr ''CONFIRMED_MALICIOUS''"
  shows "\<exists>rs. get1 m ''raw_sources'' = JList (map JDict rs) \<and> corroborated rs"
proof -
  obtain rs merged n w1 where rs: "map_io (\<lambda>m. m) (source_lookups nt st t v srcs) w1 = (Inr rs, n)"
      and mg: "merge_verdicts (net_lib nt) rs v = Inr merged"
      and m: "\<exists>x. m = merged @ [(''elapsed_ms'', x)]"
    using assms(1) by (auto simp: threat_intel_lookup_async_def bind_io_eq_Inr)
  have "get1 merged ''raw_sources'' = JList (map JDict rs)"
      and "get1 m ''verdict'' = get1 merged ''verdict''" "get1 m ''raw_sources'' = get1 merged ''raw_sources''"
    using mg m by (auto simp: merge_verdicts_eq get1_def)
  then show ?thesis
    using confirmed_corroborated[OF mg lookup_results_distinct[OF rs]] assms(2) by auto
qed

definition vt_demo :: json where
  "vt_demo = JDict [(''data'', JDict [(''attributes'', JDict [(''last_analysis_stats'', JDict [(''malicious'', JInt 5)])])])]"

definition abuse_demo :: json where
  "abuse_demo = JDict [(''data'', JDict [(''abuseConfidenceScore'', JInt 97), (''totalReports'', JInt 12)])]"

definition intel_net :: "nat net" where
  "intel_net = demo_net
     [(''https://www.virustotal.com/api/v3/ip_addresses/203.0.113.7'', ''V''),
      (''https://api.abuseipdb.com/api/v2/check'', ''A'')] [(''V'', vt_demo), (''A'', abuse_demo)]"

theorem confirmed_by_two_sources_witness:
  "\<exists>m w'. threat_intel_lookup_async intel_net demo_settings ''ip'' ''203.0.113.7'' all_sources 0 = (Inr m, w')
     \<and> get1 m ''verdict'' = JStr ''CONFIRMED_MALICIOUS''
     \<and> (\<exists>rs. get1 m ''raw_sources'' = JList (map JDict rs) \<and> corroborated rs)"
proof -
  obtain m w' where m: "threat_intel_lookup_async intel_net demo_settings ''ip'' ''203.0.113.7'' all_sources 0 = (Inr m, w')"
      and v: "get1 m ''verdict'' = JStr ''CONFIRMED_MALICIOUS''"
    by (simp add: threat_intel_lookup_async_def source_lookups_def demo_settings_def all_sources_def
        query_virustotal_def query_abuseipdb_def query_otx_def vt_url_def VT_BASE_def ABUSEIPDB_BASE_def Let_def
        net_now_ms_def net_now_def bind_io_def try_io_def http_get_def intel_net_def demo_net_def demo_lib_def
        raise_for_status_def ok_status_def answer_json_def vt_answer_def abuse_answer_def vt_demo_def abuse_demo_def
        as_dict_def skipped_def merge_verdicts_def merge_step_def grade_def at_least_def py_sum_def get1_def verdict_of_def)
  show ?thesis using m v confirmed_by_two_sources[OF m v] by blast
qed

text \<open>
  The order in which the sources answer does not matter: the same answers in another order give
  the same verdict and the same number of signals.
\<close>

theorem verdict_order_free:
  assumes "merge_verdicts lib rs v = Inr m" "mset rs' = mset rs"
  shows "\<exists>m'. merge_verdicts lib rs' v = Inr m' \<and> get1 m' ''verdict'' = get1 m ''verdict''
           \<and> get1 m' ''malicious_signal_count'' = get1 m ''malicious_signal_count''"
  using assms by (rule merge_any_order)

theorem verdict_order_free_witness:
  "\<exists>m'. merge_verdicts (demo_lib []) [skipped ''otx'' ''no_api_key'', not_found ''virustotal'' ''v''] ''v'' = Inr m'
     \<and> get1 m' ''verdict'' = JStr ''CLEAN'' \<and> get1 m' ''malicious_signal_count'' = JInt 0"
proof -
  let ?rs = "[not_found ''virustotal'' ''v'', skipped ''otx'' ''no_api_key'']"
  obtain m where m: "merge_verdicts (demo_lib []) ?rs ''v'' = Inr m" "get1 m ''verdict'' = JStr ''CLEAN''"
      "get1 m ''malicious_signal_count'' = JInt 0"
    by (simp add: merge_verdicts_def merge_step_def Let_def not_found_def skipped_def get1_def verdict_of_def)
  show ?thesis
    using verdict_order_free[OF m(1), of "[skipped ''otx'' ''no_api_key'', not_found ''virustotal'' ''v'']"] m(2,3)
    by simp
qed

text \<open>
  When no source can be reached the lookup still gives the verdict CLEAN, in a dictionary that
  the enrichment will cache.
\<close>

theorem outage_verdict_clean:
  assumes "net_down nt"
  shows "\<exists>m w'. threat_intel_lookup_async nt st t v srcs w = (Inr m, w')
           \<and> get1 m ''verdict'' = JStr ''CLEAN'' \<and> cacheable m"
  using assms by (rule outage_lookup)

theorem outage_verdict_clean_witness:
  "\<exists>m w'. threat_intel_lookup_async (demo_net [] []) demo_settings ''ip'' ''203.0.113.7'' all_sources 0 = (Inr m, w')
     \<and> get1 m ''verdict'' = JStr ''CLEAN'' \<and> cacheable m"
  by (rule outage_verdict_clean) (simp add: net_down_def demo_net_def)

subsection \<open>Query text\<close>

text \<open>
  C11. As long as the values hold no quote and no backslash, they stay inside the quotes of the Splunk
  query: outside the quotes, queries of one type and window are the same whatever the values.
\<close>

theorem spl_values_stay_quoted:
  assumes "build_spl p = Some a" "build_spl q = Some b"
    and "param_str p ''query_type'' = param_str q ''query_type''" "param_str p ''query_type'' \<noteq> ''raw_spl''"
    and "param_int p ''hours_back'' 72 = param_int q ''hours_back'' 72"
    and "list_all (\<lambda>k. quote_free (param_str p k) \<and> quote_free (param_str q k)) [''hostname'', ''username'', ''ip_address'']"
  shows "outside False a = outside False b"
proof -
  have o: "param_str d k = the (param_opt d k)" if "opt_true (param_opt d k)" for d k
    using that by (auto simp: param_str_def param_opt_def opt_true_def split: json.splits)
  show ?thesis
    using assms by (auto simp: build_spl_def Let_def o split: if_splits intro!: spl_shapes)
qed

definition spl_params :: "string \<Rightarrow> jdict" where
  "spl_params host = [(''query_type'', JStr ''process_by_host''), (''hostname'', JStr host)]"

theorem spl_values_stay_quoted_witness:
  "outside False (spl_process_by_host ''ws01'' 72 None) = outside False (spl_process_by_host ''dc01'' 72 None)"
  by (rule spl_values_stay_quoted[of "spl_params ''ws01''" _ "spl_params ''dc01''"])
    (simp_all add: spl_params_def build_spl_def param_str_def param_opt_def param_int_def opt_true_def quote_free_def)

text \<open>A value with a quote leaves its quotes: the text after it becomes part of the query.\<close>

lemma spl_value_escapes:
  "outside False (spl_process_by_host ''x\" OR index=_audit host=\"y'' 72 None)
     \<noteq> outside False (spl_process_by_host ''ws01'' 72 None)"
  by (simp add: spl_process_by_host_def opt_true_def show_int_def show_nat.simps)

subsection \<open>The Falcon token\<close>

text \<open>
  The token a Falcon query uses is the one the cache holds. A token that is valid for more than
  thirty further seconds is reused and nothing is sent; otherwise one request is made, its
  \<open>access_token\<close> is kept, and it expires when the grant says.
\<close>

theorem falcon_token_reused_or_renewed:
  assumes "get_token nt st (w, tk) = (Inr t, (w', tk'))" "net_time nt w = (now, w1)"
  shows "tk_token tk' = Some t
     \<and> (if now + 30 < tk_expires_at tk then w' = w1 \<and> tk' = tk
        else \<exists>c d n. hc_url c = tl_crowdstrike_base_url st @ ''/oauth2/token''
               \<and> fetch_json nt c w1 = (Inr d, w') \<and> item_get d ''access_token'' = Inr t
               \<and> bind_r (attr_get d ''expires_in'' (JInt 1800)) num_of = Inr n
               \<and> tk_expires_at tk' = now + n)"
proof -
  have held: "tk_token tk' = Some t"
    using assms(1) unfolding get_token_def by (rule cached_token_held)
  show ?thesis
  proof (cases "fresh_token now tk")
    case True
    then show ?thesis
      using assms cached_token_reused[OF assms(2) True] held
      by (auto simp: get_token_def fresh_token_def)
  next
    case False
    let ?c = "http_form (tl_crowdstrike_base_url st @ ''/oauth2/token'')
       [(''client_id'', JStr (tl_crowdstrike_client_id st)),
        (''client_secret'', JStr (tl_crowdstrike_client_secret st))]"
    obtain d n where "fetch_json nt ?c w1 = (Inr d, w')" "item_get d ''access_token'' = Inr t"
        "bind_r (attr_get d ''expires_in'' (JInt 1800)) num_of = Inr n"
        "tk' = \<lparr>tk_token = Some t, tk_expires_at = now + n\<rparr>"
      using cached_token_asked[OF assms(1)[unfolded get_token_def] assms(2) False] by blast
    moreover have "hc_url ?c = tl_crowdstrike_base_url st @ ''/oauth2/token''" by (simp add: http_form_def)
    ultimately show ?thesis using False unfolding fresh_token_def by auto
  qed
qed

definition token_demo :: json where
  "token_demo = JDict [(''access_token'', JStr ''t0''), (''expires_in'', JInt 1799)]"

theorem falcon_token_reused_or_renewed_witness:
  "\<exists>w' tk'. get_token (demo_net [(''https://falcon/oauth2/token'', ''T'')] [(''T'', token_demo)]) demo_settings (0, no_token)
       = (Inr (JStr ''t0''), (w', tk')) \<and> tk_token tk' = Some (JStr ''t0'') \<and> tk_expires_at tk' = 2799"
proof -
  let ?nt = "demo_net [(''https://falcon/oauth2/token'', ''T'')] [(''T'', token_demo)]"
  have g: "get_token ?nt demo_settings (0, no_token)
      = (Inr (JStr ''t0''), (1, \<lparr>tk_token = Some (JStr ''t0''), tk_expires_at = 2799\<rparr>))"
    by (simp add: get_token_def cached_token_def net_now_def bind_io_def on_world_eq reads_eq fresh_token_def
        no_token_def fetch_json_def http_form_def demo_net_def demo_settings_def raise_for_status_def ok_status_def
        answer_json_def demo_lib_def token_demo_def keep_token_def modify_def cached_token_of_def)
  have "net_time ?nt 0 = (1000, 0)" by (simp add: demo_net_def)
  then show ?thesis using falcon_token_reused_or_renewed[OF g] g by simp
qed

end
