(* ===== verification/Worker_Loop.thy ===== *)
theory Worker_Loop
  imports Triage_Worker "HOL-Library.Multiset"
begin

section \<open>services/_runtime/triage_worker.py: the run loop\<close>

text \<open>
  \<open>TriageWorker.run\<close>: start-up, the fetch loop that hands every message to a task of its own under a
  semaphore, the consumer of cancel requests beside it, the stop signal, and the shutdown that waits for
  the tasks. \<open>loop_step\<close> is one event: what the server delivers and which task ends next is
  not determined. A task runs \<open>dispatch_one\<close> at the moment it ends; that handlers overlap shows in the
  state as tasks in flight. A failed fetch and the pause after it change nothing.
\<close>

record worker_config =
  wc_consumer_durable :: string
  wc_consumer_subject_filter :: string
  wc_max_inflight :: nat
  wc_pull_batch :: nat
  wc_ack_wait_seconds :: int
  wc_max_deliveries :: int
  wc_cancel_consumer_durable :: string
  wc_cancel_subject_filter :: string

definition WorkerConfig_default :: worker_config where
  "WorkerConfig_default =
     \<lparr>wc_consumer_durable = ''soc-triage-worker'', wc_consumer_subject_filter = ''alerts.v1.>'',
      wc_max_inflight = 4, wc_pull_batch = 1, wc_ack_wait_seconds = 60, wc_max_deliveries = 5,
      wc_cancel_consumer_durable = ''soc-triage-cancel'', wc_cancel_subject_filter = ''triage.cancel.v1.>''\<rparr>"

subsection \<open>Start-up and shutdown\<close>

definition w_connect :: "'w worker_env \<Rightarrow> ('w, unit) worker" where
  "w_connect env =
     on_state (\<lambda>s. bind_io (broker_connect (we_nats env) (wk_broker s)) (\<lambda>b. ret_io ((), b)))
       (\<lambda>b s. s\<lparr>wk_broker := b\<rparr>)"

definition w_pull_subscribe :: "'w worker_env \<Rightarrow> string \<Rightarrow> string \<Rightarrow> int \<Rightarrow> int \<Rightarrow> ('w, bool) worker" where
  "w_pull_subscribe env filt durable ack_wait max_deliver =
     on_state (\<lambda>s. broker_pull_subscribe (we_nats env) (wk_broker s) filt durable ack_wait max_deliver)
       (\<lambda>b s. s\<lparr>wk_broker := b\<rparr>)"

definition w_close :: "'w worker_env \<Rightarrow> ('w, unit) worker" where
  "w_close env =
     on_state (\<lambda>s. bind_io (broker_close (we_nats env) (wk_broker s)) (\<lambda>b. ret_io ((), b)))
       (\<lambda>b s. s\<lparr>wk_broker := b\<rparr>)"

text \<open>Whether the loop is entered, and with which consumer of cancel requests.\<close>

definition worker_start :: "'w worker_env \<Rightarrow> worker_config \<Rightarrow> ('w, bool option) worker" where
  "worker_start env cfg =
     bind_io (w_connect env) (\<lambda>_.
     bind_io (w_pull_subscribe env (wc_consumer_subject_filter cfg) (wc_consumer_durable cfg)
        (wc_ack_wait_seconds cfg) (wc_max_deliveries cfg)) (\<lambda>sub.
     if \<not> sub then bind_io (w_close env) (\<lambda>_. ret_io None)
     else
       bind_io (w_pull_subscribe env (wc_cancel_subject_filter cfg) (wc_cancel_consumer_durable cfg) 10 2)
         (\<lambda>cancel_sub. ret_io (Some cancel_sub))))"

subsection \<open>The loop\<close>

datatype loop_phase = Fetching | Handing | Draining | Closed

record 'w loop_state =
  lp_world :: "'w \<times> 'w worker_state"
  lp_pending :: "nats_msg list"
  lp_inflight :: "nats_msg list"
  lp_permits :: nat
  lp_stop :: bool
  lp_phase :: loop_phase
  lp_control :: bool

definition loop_init :: "worker_config \<Rightarrow> bool \<Rightarrow> 'w \<times> 'w worker_state \<Rightarrow> 'w loop_state" where
  "loop_init cfg control ws =
     \<lparr>lp_world = ws, lp_pending = [], lp_inflight = [], lp_permits = wc_max_inflight cfg,
      lp_stop = False, lp_phase = Fetching, lp_control = control\<rparr>"

text \<open>
  The events: a fetch gives messages or nothing, a message of the batch is handed to a task once a
  permit is free, the batch is through, a task ends, a cancel request is handled, \<open>stop()\<close> is called,
  the loop is left, the broker is closed.
\<close>

datatype loop_event =
    Fetch "nats_msg list"
  | Hand
  | BatchDone
  | Finish nats_msg
  | Control nats_msg
  | StopSignal
  | Leave
  | CloseBroker

definition hand_over :: "'w loop_state \<Rightarrow> 'w loop_state" where
  "hand_over s =
     s\<lparr>lp_pending := tl (lp_pending s), lp_inflight := lp_inflight s @ [hd (lp_pending s)],
       lp_permits := lp_permits s - 1\<rparr>"

definition task_done :: "nats_msg \<Rightarrow> 'w \<times> 'w worker_state \<Rightarrow> 'w loop_state \<Rightarrow> 'w loop_state" where
  "task_done msg ws s =
     s\<lparr>lp_world := ws, lp_inflight := remove1 msg (lp_inflight s), lp_permits := lp_permits s + 1\<rparr>"

inductive loop_step :: "'w worker_env \<Rightarrow> 'w loop_state \<Rightarrow> loop_event \<Rightarrow> 'w loop_state \<Rightarrow> bool"
  for env :: "'w worker_env" where
  fetch: "lp_phase s = Fetching \<Longrightarrow> \<not> lp_stop s \<Longrightarrow>
     loop_step env s (Fetch msgs) (s\<lparr>lp_pending := msgs, lp_phase := Handing\<rparr>)"
| hand: "lp_phase s = Handing \<Longrightarrow> lp_pending s \<noteq> [] \<Longrightarrow> 0 < lp_permits s \<Longrightarrow>
     loop_step env s Hand (hand_over s)"
| batch: "lp_phase s = Handing \<Longrightarrow> lp_pending s = [] \<Longrightarrow>
     loop_step env s BatchDone (s\<lparr>lp_phase := Fetching\<rparr>)"
| finish: "lp_phase s \<noteq> Closed \<Longrightarrow> msg \<in> set (lp_inflight s) \<Longrightarrow>
     dispatch_one env msg (lp_world s) = (r, ws) \<Longrightarrow>
     loop_step env s (Finish msg) (task_done msg ws s)"
| control: "lp_phase s \<noteq> Closed \<Longrightarrow> lp_control s \<Longrightarrow>
     handle_cancel env msg (lp_world s) = (r, ws) \<Longrightarrow>
     loop_step env s (Control msg) (s\<lparr>lp_world := ws\<rparr>)"
| stop: "loop_step env s StopSignal (s\<lparr>lp_stop := True\<rparr>)"
| leave: "lp_phase s = Fetching \<Longrightarrow> lp_stop s \<Longrightarrow> loop_step env s Leave (s\<lparr>lp_phase := Draining\<rparr>)"
| close: "lp_phase s = Draining \<Longrightarrow> lp_inflight s = [] \<Longrightarrow> w_close env (lp_world s) = (r, ws) \<Longrightarrow>
     loop_step env s CloseBroker (s\<lparr>lp_world := ws, lp_phase := Closed\<rparr>)"

inductive_cases loop_stepE: "loop_step env s ev s'"

inductive loop_run :: "'w worker_env \<Rightarrow> 'w loop_state \<Rightarrow> loop_event list \<Rightarrow> 'w loop_state \<Rightarrow> bool"
  for env :: "'w worker_env" where
  loop_nil: "loop_run env s [] s"
| loop_snoc: "loop_run env s evs s' \<Longrightarrow> loop_step env s' ev s'' \<Longrightarrow> loop_run env s (evs @ [ev]) s''"

text \<open>The messages the events took from the server, and those whose task ended.\<close>

fun taken :: "loop_event list \<Rightarrow> nats_msg list" where
  "taken [] = []"
| "taken (Fetch msgs # evs) = msgs @ taken evs"
| "taken (ev # evs) = taken evs"

fun finished :: "loop_event list \<Rightarrow> nats_msg list" where
  "finished [] = []"
| "finished (Finish msg # evs) = msg # finished evs"
| "finished (ev # evs) = finished evs"

lemma taken_append [simp]: "taken (xs @ ys) = taken xs @ taken ys"
  by (induction xs rule: taken.induct) auto

lemma finished_append [simp]: "finished (xs @ ys) = finished xs @ finished ys"
  by (induction xs rule: finished.induct) auto

subsection \<open>The consumer of cancel requests\<close>

text \<open>
  \<open>_run_cancel_loop\<close> over what its fetches give until the stop signal is seen: a batch, a timeout, or
  another exception, after which it sleeps for a second. The loop reads the stop signal only between
  batches.
\<close>

datatype fetched = Batch "nats_msg list" | Fetch_Timeout | Fetch_Failed exn

fun handle_cancels :: "'w worker_env \<Rightarrow> nats_msg list \<Rightarrow> ('w, unit) worker" where
  "handle_cancels env [] = ret_io ()"
| "handle_cancels env (msg # msgs) = bind_io (handle_cancel env msg) (\<lambda>_. handle_cancels env msgs)"

fun run_cancel_loop :: "'w worker_env \<Rightarrow> fetched list \<Rightarrow> ('w, unit) worker" where
  "run_cancel_loop env [] = ret_io ()"
| "run_cancel_loop env (Batch msgs # fs) = bind_io (handle_cancels env msgs) (\<lambda>_. run_cancel_loop env fs)"
| "run_cancel_loop env (Fetch_Timeout # fs) = run_cancel_loop env fs"
| "run_cancel_loop env (Fetch_Failed exc # fs) = run_cancel_loop env fs"

fun delivered :: "fetched list \<Rightarrow> nats_msg list" where
  "delivered [] = []"
| "delivered (Batch msgs # fs) = msgs @ delivered fs"
| "delivered (f # fs) = delivered fs"

lemma no_raise_handle_cancel: "no_raise (handle_cancel env msg)"
  unfolding handle_cancel_def by (intro no_raise_try no_raise_safe_settle)

lemma loop_run_trans: "loop_run env s' evs' s'' \<Longrightarrow> loop_run env s evs s' \<Longrightarrow> loop_run env s (evs @ evs') s''"
  by (induction rule: loop_run.induct) (auto simp flip: append_assoc intro: loop_snoc)

text \<open>
  The consumer never raises, whatever its messages hold and whatever Redis and the server do, and
  what it does is the handling of the delivered messages in their order: control events of the loop.
\<close>

lemma handle_cancels_refines:
  assumes "lp_phase s \<noteq> Closed" "lp_control s"
  shows "\<exists>ws. handle_cancels env msgs (lp_world s) = (Inr (), ws)
    \<and> loop_run env s (map Control msgs) (s\<lparr>lp_world := ws\<rparr>)"
  using assms
proof (induction msgs arbitrary: s)
  case Nil
  then show ?case by (auto intro: loop_nil)
next
  case (Cons m ms)
  obtain ws where h: "handle_cancel env m (lp_world s) = (Inr (), ws)"
    using no_raise_handle_cancel by (rule no_raiseE) auto
  have step: "loop_run env s [Control m] (s\<lparr>lp_world := ws\<rparr>)"
    using loop_snoc [OF loop_nil loop_step.control [OF Cons.prems h]] by simp
  obtain ws' where "handle_cancels env ms ws = (Inr (), ws')"
    "loop_run env (s\<lparr>lp_world := ws\<rparr>) (map Control ms) (s\<lparr>lp_world := ws'\<rparr>)"
    using Cons.IH [of "s\<lparr>lp_world := ws\<rparr>"] Cons.prems by auto
  with h loop_run_trans [OF _ step] show ?case by (auto simp: bind_io_def)
qed

theorem cancel_loop_refines:
  assumes "lp_phase s \<noteq> Closed" "lp_control s"
  shows "\<exists>ws. run_cancel_loop env fs (lp_world s) = (Inr (), ws)
    \<and> loop_run env s (map Control (delivered fs)) (s\<lparr>lp_world := ws\<rparr>)"
  using assms
proof (induction fs arbitrary: s rule: delivered.induct)
  case (2 msgs fs)
  obtain ws where b: "handle_cancels env msgs (lp_world s) = (Inr (), ws)"
    "loop_run env s (map Control msgs) (s\<lparr>lp_world := ws\<rparr>)"
    using handle_cancels_refines [OF 2(2,3)] by blast
  obtain ws' where "run_cancel_loop env fs ws = (Inr (), ws')"
    "loop_run env (s\<lparr>lp_world := ws\<rparr>) (map Control (delivered fs)) (s\<lparr>lp_world := ws'\<rparr>)"
    using 2(1) [of "s\<lparr>lp_world := ws\<rparr>"] 2(2,3) by auto
  with b(1) loop_run_trans [OF _ b(2)] show ?case by (auto simp: bind_io_def)
qed (auto intro: loop_nil)

subsection \<open>The invariant\<close>

text \<open>
  Permits and tasks add up to the limit, no message waits outside the handing phase, and a closed
  worker has no task.
\<close>

definition loop_ok :: "worker_config \<Rightarrow> 'w loop_state \<Rightarrow> bool" where
  "loop_ok cfg s \<longleftrightarrow>
     lp_permits s + length (lp_inflight s) = wc_max_inflight cfg
     \<and> (lp_phase s \<noteq> Handing \<longrightarrow> lp_pending s = [])
     \<and> (lp_phase s = Closed \<longrightarrow> lp_inflight s = [])
     \<and> (lp_phase s \<in> {Draining, Closed} \<longrightarrow> lp_stop s)"

lemma remove1_shorter: "x \<in> set xs \<Longrightarrow> length xs = Suc (length (remove1 x xs))"
  by (simp add: length_remove1) (metis Suc_pred length_pos_if_in_set)

lemma mset_hd_tl: "xs \<noteq> [] \<Longrightarrow> add_mset (hd xs) (mset (tl xs)) = mset xs"
  by (cases xs) auto

lemma loop_ok_step: "loop_step env s ev s' \<Longrightarrow> loop_ok cfg s \<Longrightarrow> loop_ok cfg s'"
  by (erule loop_stepE)
    (auto simp: loop_ok_def hand_over_def task_done_def dest: remove1_shorter)

lemma loop_ok_run: "loop_run env s evs s' \<Longrightarrow> loop_ok cfg s \<Longrightarrow> loop_ok cfg s'"
  by (induction rule: loop_run.induct) (auto intro: loop_ok_step)

lemma loop_ok_init: "loop_ok cfg (loop_init cfg control ws)"
  by (simp add: loop_ok_def loop_init_def)

text \<open>No message is lost or handled twice: what was fetched waits, is in flight, or was handled.\<close>

definition held :: "'w loop_state \<Rightarrow> nats_msg multiset" where
  "held s = mset (lp_pending s) + mset (lp_inflight s)"

lemma held_step:
  "loop_step env s ev s' \<Longrightarrow> loop_ok cfg s \<Longrightarrow>
   held s + mset (taken [ev]) = held s' + mset (finished [ev])"
  by (erule loop_stepE) (auto simp: held_def loop_ok_def hand_over_def task_done_def mset_hd_tl)

lemma held_run:
  assumes "loop_run env s evs s'" "loop_ok cfg s"
  shows "held s + mset (taken evs) = held s' + mset (finished evs)"
  using assms
proof (induction rule: loop_run.induct)
  case (loop_snoc s evs s' ev s'')
  have "loop_ok cfg s'" using loop_snoc.hyps(1) loop_snoc.prems by (rule loop_ok_run)
  from held_step[OF loop_snoc.hyps(2) this] loop_snoc.IH[OF loop_snoc.prems]
  show ?case by (simp add: ac_simps) (metis union_assoc union_commute)
qed simp

subsection \<open>The loop can always be stopped\<close>

text \<open>\<open>winds_down s s'\<close>: some events lead from \<open>s\<close> to \<open>s'\<close> without taking a message from the server.\<close>

definition winds_down :: "'w worker_env \<Rightarrow> 'w loop_state \<Rightarrow> 'w loop_state \<Rightarrow> bool" where
  "winds_down env s s' \<longleftrightarrow> (\<exists>evs. loop_run env s evs s' \<and> taken evs = [])"

lemma winds_down_refl: "winds_down env s s"
  unfolding winds_down_def by (metis loop_nil taken.simps(1))

lemma winds_down_trans: "winds_down env s s' \<Longrightarrow> winds_down env s' s'' \<Longrightarrow> winds_down env s s''"
  unfolding winds_down_def by (metis append_Nil loop_run_trans taken_append)

lemma winds_down_step: "loop_step env s ev s' \<Longrightarrow> taken [ev] = [] \<Longrightarrow> winds_down env s s'"
  unfolding winds_down_def using loop_snoc[OF loop_nil] by fastforce

lemma tasks_finish:
  assumes "lp_phase s \<noteq> Closed"
  shows "\<exists>s'. winds_down env s s' \<and> lp_inflight s' = [] \<and> lp_phase s' = lp_phase s
           \<and> lp_pending s' = lp_pending s \<and> lp_stop s' = lp_stop s"
  using assms
proof (induction "lp_inflight s" arbitrary: s)
  case Nil
  then show ?case using winds_down_refl by metis
next
  case (Cons m ms)
  obtain r ws where d: "dispatch_one env m (lp_world s) = (r, ws)" by (rule prod.exhaust)
  have "m \<in> set (lp_inflight s)" using Cons.hyps(2) by (metis list.set_intros(1))
  then have step: "winds_down env s (task_done m ws s)"
    using d Cons.prems by (auto intro!: winds_down_step loop_step.finish)
  have "ms = lp_inflight (task_done m ws s)" using Cons.hyps(2) by (simp add: task_done_def flip: Cons.hyps(2))
  from Cons.hyps(1)[OF this] obtain s' where "winds_down env (task_done m ws s) s'" "lp_inflight s' = []"
      "lp_phase s' = lp_phase s" "lp_pending s' = lp_pending s" "lp_stop s' = lp_stop s"
    using Cons.prems by (auto simp: task_done_def)
  then show ?case using winds_down_trans[OF step] by blast
qed

lemma batch_handed:
  assumes "loop_ok cfg s" "lp_phase s = Handing" "0 < wc_max_inflight cfg"
  shows "\<exists>s'. winds_down env s s' \<and> lp_phase s' = Handing \<and> lp_pending s' = [] \<and> lp_stop s' = lp_stop s"
  using assms(1,2)
proof (induction "lp_pending s" arbitrary: s)
  case Nil
  then show ?case using winds_down_refl by metis
next
  case (Cons m ms)
  obtain s1 where s1: "winds_down env s s1" "lp_inflight s1 = []" "lp_phase s1 = Handing"
      "lp_pending s1 = m # ms" "lp_stop s1 = lp_stop s"
    using tasks_finish[of s env] Cons.prems(2) Cons.hyps(2) by auto
  have ok1: "loop_ok cfg s1" using s1(1) Cons.prems(1) unfolding winds_down_def by (blast intro: loop_ok_run)
  then have p: "0 < lp_permits s1" using s1(2) assms(3) by (auto simp: loop_ok_def)
  have h: "loop_step env s1 Hand (hand_over s1)" using s1 p by (auto intro: loop_step.hand)
  have "winds_down env s (hand_over s1)"
    by (rule winds_down_trans[OF s1(1) winds_down_step[OF h]]) simp
  moreover have "ms = lp_pending (hand_over s1)" "lp_phase (hand_over s1) = Handing"
      "lp_stop (hand_over s1) = lp_stop s"
    using s1 by (simp_all add: hand_over_def)
  ultimately show ?case
    using Cons.hyps(1)[of "hand_over s1"] loop_ok_step[OF h ok1] winds_down_trans by metis
qed

lemma loop_left:
  assumes "loop_ok cfg s" "0 < wc_max_inflight cfg" "lp_stop s" "lp_phase s \<noteq> Closed"
  shows "\<exists>s'. winds_down env s s' \<and> lp_phase s' = Draining"
proof -
  have f: "\<exists>s'. winds_down env t s' \<and> lp_phase s' = Draining" if "lp_phase t = Fetching" "lp_stop t" for t
    using that by (auto intro!: exI[of _ "t\<lparr>lp_phase := Draining\<rparr>"] winds_down_step[of _ _ Leave] loop_step.leave)
  show ?thesis
  proof (cases "lp_phase s")
    case Fetching
    then show ?thesis using f assms(3) by blast
  next
    case Handing
    then obtain s1 where s1: "winds_down env s s1" "lp_phase s1 = Handing" "lp_pending s1 = []" "lp_stop s1"
      using batch_handed[OF assms(1) _ assms(2)] assms(3) by blast
    then have "winds_down env s1 (s1\<lparr>lp_phase := Fetching\<rparr>)"
      by (auto intro!: winds_down_step[of _ _ BatchDone] loop_step.batch)
    moreover obtain s' where "winds_down env (s1\<lparr>lp_phase := Fetching\<rparr>) s'" "lp_phase s' = Draining"
      using f[of "s1\<lparr>lp_phase := Fetching\<rparr>"] s1(4) by auto
    ultimately show ?thesis using s1(1) winds_down_trans by metis
  next
    case Draining
    then show ?thesis using winds_down_refl by blast
  next
    case Closed
    then show ?thesis using assms(4) by simp
  qed
qed

lemma loop_closes:
  assumes "loop_ok cfg s" "0 < wc_max_inflight cfg"
  shows "\<exists>s'. winds_down env s s' \<and> lp_phase s' = Closed"
proof (cases "lp_phase s = Closed")
  case True
  then show ?thesis using winds_down_refl by blast
next
  case False
  let ?t = "s\<lparr>lp_stop := True\<rparr>"
  have t: "winds_down env s ?t" by (rule winds_down_step[OF loop_step.stop]) simp
  have "loop_ok cfg ?t" using assms(1) by (auto simp: loop_ok_def)
  then obtain s1 where s1: "winds_down env ?t s1" "lp_phase s1 = Draining"
    using loop_left[of cfg ?t env] assms(2) False by auto
  obtain s2 where s2: "winds_down env s1 s2" "lp_inflight s2 = []" "lp_phase s2 = Draining"
    using tasks_finish[of s1 env] s1(2) by auto
  obtain r ws where "w_close env (lp_world s2) = (r, ws)" by (rule prod.exhaust)
  then have "winds_down env s2 (s2\<lparr>lp_world := ws, lp_phase := Closed\<rparr>)"
    using s2 by (auto intro!: winds_down_step[of _ _ CloseBroker] loop_step.close)
  then have "winds_down env s (s2\<lparr>lp_world := ws, lp_phase := Closed\<rparr>)"
    by (rule winds_down_trans[OF winds_down_trans[OF winds_down_trans[OF t s1(1)] s2(1)]])
  then show ?thesis by (rule exI[of _ "s2\<lparr>lp_world := ws, lp_phase := Closed\<rparr>", OF conjI]) simp
qed

subsection \<open>Nothing fetched is lost\<close>

text \<open>
  C22. At every moment of a run at most \<open>max_inflight\<close> messages are being handled, and every message
  that was fetched either waits in the batch, is being handled, or has been handled once. When the
  worker has shut down, exactly the messages it fetched have been handled.
\<close>

theorem fetched_messages_handled_once:
  assumes "loop_run env (loop_init cfg control ws) evs s"
  shows "length (lp_inflight s) \<le> wc_max_inflight cfg
     \<and> mset (taken evs) = mset (finished evs) + mset (lp_pending s) + mset (lp_inflight s)
     \<and> (if lp_phase s = Closed then mset (finished evs) = mset (taken evs) else True)"
proof -
  have ok: "loop_ok cfg s" using assms loop_ok_init by (rule loop_ok_run)
  have "held (loop_init cfg control ws) = {#}" by (simp add: held_def loop_init_def)
  with held_run[OF assms loop_ok_init] have "mset (taken evs) = held s + mset (finished evs)" by simp
  then show ?thesis using ok by (auto simp: held_def loop_ok_def)
qed

lemma demo_run:
  fixes ws :: "kv \<times> kv worker_state" and m :: nats_msg
  shows "\<exists>s. loop_run (demo_worker []) (loop_init WorkerConfig_default True ws) [Fetch [m], Hand, StopSignal] s
     \<and> lp_inflight s = [m] \<and> lp_pending s = [] \<and> lp_phase s = Handing"
proof -
  let ?s0 = "loop_init WorkerConfig_default True ws"
  let ?s1 = "?s0\<lparr>lp_pending := [m], lp_phase := Handing\<rparr>"
  have "loop_step (demo_worker []) ?s0 (Fetch [m]) ?s1"
    by (rule loop_step.fetch) (simp_all add: loop_init_def)
  then have r1: "loop_run (demo_worker []) ?s0 [Fetch [m]] ?s1"
    using loop_snoc[OF loop_nil] by fastforce
  have "loop_step (demo_worker []) ?s1 Hand (hand_over ?s1)"
    by (rule loop_step.hand) (simp_all add: loop_init_def WorkerConfig_default_def)
  from loop_snoc[OF loop_snoc[OF r1 this] loop_step.stop]
  show ?thesis by (auto simp: hand_over_def loop_init_def)
qed

theorem fetched_messages_handled_once_witness:
  "\<exists>s. loop_run (demo_worker []) (loop_init WorkerConfig_default True (Map.empty, demo_state))
         [Fetch [demo_msg None], Hand, StopSignal] s
     \<and> length (lp_inflight s) \<le> 4 \<and> mset [demo_msg None] = mset (lp_inflight s)"
proof -
  obtain s where s: "loop_run (demo_worker []) (loop_init WorkerConfig_default True (Map.empty, demo_state))
      [Fetch [demo_msg None], Hand, StopSignal] s" "lp_pending s = []"
    using demo_run by blast
  show ?thesis using s fetched_messages_handled_once[OF s(1)] by (auto simp: WorkerConfig_default_def)
qed

text \<open>
  C23. From every state a run reaches the worker can be stopped: with the stop signal and without
  taking another message, it can hand over the rest of its batch, finish its tasks and close, never
  waiting for a permit in vain.
\<close>

theorem worker_always_stops:
  assumes "loop_run env (loop_init cfg control ws) evs s" "0 < wc_max_inflight cfg"
  shows "\<exists>evs' s'. loop_run env s evs' s' \<and> taken evs' = [] \<and> lp_phase s' = Closed"
  using loop_closes[OF loop_ok_run[OF assms(1) loop_ok_init] assms(2), of env]
  unfolding winds_down_def by blast

theorem worker_always_stops_witness:
  "\<exists>s evs' s'. loop_run (demo_worker []) (loop_init WorkerConfig_default True (Map.empty, demo_state))
         [Fetch [demo_msg None], Hand, StopSignal] s
     \<and> loop_run (demo_worker []) s evs' s' \<and> taken evs' = [] \<and> lp_phase s' = Closed"
proof -
  obtain s where s: "loop_run (demo_worker []) (loop_init WorkerConfig_default True (Map.empty, demo_state))
      [Fetch [demo_msg None], Hand, StopSignal] s"
    using demo_run by blast
  show ?thesis using s worker_always_stops[OF s] by (fastforce simp: WorkerConfig_default_def)
qed

end
