(* ===== verification/Tenant_Lint.thy ===== *)
theory Tenant_Lint
  imports Prelude
begin

section \<open>scripts/lint_tenant_id.py: the lint against client-supplied tenants\<close>

text \<open>
  The lint walks the syntax trees of the repository's files and reports reads of \<open>tenant_id\<close> from names
  and attributes that hold untrusted input. \<open>py_ast\<close> has the node kinds the lint looks at, with the
  position and the text of a node; every other node is \<open>Node\<close> with its children in the order
  \<open>generic_visit\<close> takes them. Parsing a file and reading the file tree are arguments.
\<close>

record node_info =
  ni_lineno :: nat
  ni_col_offset :: nat
  ni_src :: string

datatype py_ast =
    Name string
  | Attribute py_ast string
  | Subscript node_info py_ast py_ast
  | Call node_info py_ast "py_ast list" "py_ast list"
  | Constant "string option"
  | Node "py_ast list"

definition UNSAFE_NAMES :: "string list" where
  "UNSAFE_NAMES =
     [''payload'', ''body'', ''raw_payload'', ''raw'', ''data'', ''msg'', ''message'', ''request'', ''req'',
      ''alert_data'', ''json_body'', ''input_data'']"

definition UNSAFE_ATTRS :: "string list" where
  "UNSAFE_ATTRS = [''json'', ''data'', ''raw_payload'', ''body'', ''payload'']"

subsection \<open>The visitor\<close>

fun const_str :: "py_ast \<Rightarrow> string option" where
  "const_str (Constant v) = v"
| "const_str _ = None"

fun root_name :: "py_ast \<Rightarrow> string option" where
  "root_name (Attribute v a) = root_name v"
| "root_name (Name n) = Some n"
| "root_name _ = None"

fun attr_chain :: "py_ast \<Rightarrow> string list" where
  "attr_chain (Attribute v a) = a # attr_chain v"
| "attr_chain _ = []"

definition untrusted :: "py_ast \<Rightarrow> bool" where
  "untrusted recv \<longleftrightarrow>
     (case root_name recv of Some n \<Rightarrow> n \<in> set UNSAFE_NAMES | None \<Rightarrow> False)
     \<or> list_ex (\<lambda>a. a \<in> set UNSAFE_ATTRS) (attr_chain recv)"

definition report :: "node_info \<Rightarrow> bool \<Rightarrow> node_info list" where
  "report n bad = (if bad then [n] else [])"

definition get_of_tenant :: "py_ast \<Rightarrow> py_ast list \<Rightarrow> bool" where
  "get_of_tenant func args =
     (case func of
        Attribute recv attr \<Rightarrow>
          attr = ''get'' \<and> args \<noteq> [] \<and> const_str (hd args) = Some ''tenant_id'' \<and> untrusted recv
      | _ \<Rightarrow> False)"

text \<open>\<open>visit_Subscript\<close>, \<open>visit_Call\<close> and \<open>generic_visit\<close>: a node's own report precedes those of its children.\<close>

fun violations :: "py_ast \<Rightarrow> node_info list" where
  "violations (Name n) = []"
| "violations (Constant v) = []"
| "violations (Attribute v a) = violations v"
| "violations (Subscript n v key) =
     report n (const_str key = Some ''tenant_id'' \<and> untrusted v) @ violations v @ violations key"
| "violations (Call n func args keywords) =
     report n (get_of_tenant func args)
     @ violations func @ concat (map violations args) @ concat (map violations keywords)"
| "violations (Node children) = concat (map violations children)"

subsection \<open>The files\<close>

type_synonym path = "string list"

datatype target = Missing | PyFile path | Directory "path list"

definition EXEMPT_FILES :: "path list" where
  "EXEMPT_FILES = [[''services'', ''_runtime'', ''tenant.py''], [''scripts'', ''lint_tenant_id.py'']]"

definition EXEMPT_DIRS :: "path list" where
  "EXEMPT_DIRS = [[''schemas''], [''tests''], [''.venv''], [''node_modules''], [''build''], [''dist'']]"

text \<open>\<open>d in path.parents\<close>: paths are relative to the root of the repository.\<close>

definition in_dir :: "path \<Rightarrow> path \<Rightarrow> bool" where
  "in_dir d p \<longleftrightarrow> length d < length p \<and> take (length d) p = d"

definition exempt :: "path \<Rightarrow> bool" where
  "exempt p \<longleftrightarrow> list_ex (\<lambda>d. in_dir d p) EXEMPT_DIRS \<or> p \<in> set EXEMPT_FILES"

fun walk_targets :: "target list \<Rightarrow> path list" where
  "walk_targets [] = []"
| "walk_targets (Missing # ts) = walk_targets ts"
| "walk_targets (PyFile p # ts) = p # walk_targets ts"
| "walk_targets (Directory ps # ts) = filter (\<lambda>p. \<not> exempt p) ps @ walk_targets ts"

text \<open>A file that does not parse counts as one violation. The result is the exit code and the count.\<close>

definition file_violations :: "(path \<Rightarrow> string + py_ast) \<Rightarrow> path \<Rightarrow> nat" where
  "file_violations parse p = (case parse p of Inl err \<Rightarrow> 1 | Inr tree \<Rightarrow> length (violations tree))"

definition lint :: "(path \<Rightarrow> string + py_ast) \<Rightarrow> target list \<Rightarrow> nat \<times> nat" where
  "lint parse targets =
     (let total = sum_list (map (file_violations parse) (walk_targets targets))
      in (if total \<noteq> 0 then 1 else 0, total))"

subsection \<open>What is reported\<close>

text \<open>The nodes of a tree, and the forbidden reads among them.\<close>

fun nodes :: "py_ast \<Rightarrow> py_ast list" where
  "nodes (Name n) = [Name n]"
| "nodes (Constant v) = [Constant v]"
| "nodes (Attribute v a) = Attribute v a # nodes v"
| "nodes (Subscript n v key) = Subscript n v key # nodes v @ nodes key"
| "nodes (Call n func args keywords) =
     Call n func args keywords # nodes func @ concat (map nodes args) @ concat (map nodes keywords)"
| "nodes (Node children) = Node children # concat (map nodes children)"

text \<open>
  A forbidden read, as a pattern: a subscript \<open>x["tenant_id"]\<close> or a call \<open>x.get("tenant_id", ...)\<close>,
  where \<open>x\<close> is an untrusted name, or an untrusted attribute of anything, or any attribute of such.
\<close>

inductive holds_input :: "py_ast \<Rightarrow> bool" where
  name: "n \<in> set UNSAFE_NAMES \<Longrightarrow> holds_input (Name n)"
| attr: "a \<in> set UNSAFE_ATTRS \<Longrightarrow> holds_input (Attribute v a)"
| below: "holds_input v \<Longrightarrow> holds_input (Attribute v a)"

inductive tenant_read :: "py_ast \<Rightarrow> node_info \<Rightarrow> bool" where
  subscript: "holds_input x \<Longrightarrow> tenant_read (Subscript n x (Constant (Some ''tenant_id''))) n"
| get: "holds_input x
    \<Longrightarrow> tenant_read (Call n (Attribute x ''get'') (Constant (Some ''tenant_id'') # args) keywords) n"

inductive_simps holds_input_simps [simp]:
  "holds_input (Name n)" "holds_input (Attribute v a)" "holds_input (Subscript n v key)"
  "holds_input (Call n func args kws)" "holds_input (Constant c)" "holds_input (Node children)"

inductive_simps tenant_read_simps [simp]:
  "tenant_read (Name x) m" "tenant_read (Attribute v a) m" "tenant_read (Subscript n v key) m"
  "tenant_read (Call n func args kws) m" "tenant_read (Constant c) m" "tenant_read (Node children) m"

text \<open>The visitor's test decides the first relation, its reports the second.\<close>

lemma untrusted_holds_input: "untrusted x \<longleftrightarrow> holds_input x"
  by (induction x) (auto simp: untrusted_def)

lemma const_str_Some: "const_str e = Some k \<longleftrightarrow> e = Constant (Some k)"
  by (cases e) auto

lemma subscript_report:
  "set (report n (const_str key = Some ''tenant_id'' \<and> untrusted v)) = {m. tenant_read (Subscript n v key) m}"
  by (auto simp: report_def const_str_Some untrusted_holds_input)

lemma call_report:
  "set (report n (get_of_tenant func args)) = {m. tenant_read (Call n func args kws) m}"
  by (auto simp: report_def get_of_tenant_def const_str_Some untrusted_holds_input neq_Nil_conv split: py_ast.splits)

lemma violations_exact:
  "set (violations t) = {m. \<exists>e \<in> set (nodes t). tenant_read e m}"
proof (induction t rule: violations.induct)
  case (4 n v key)
  show ?case by (auto simp: 4 subscript_report simp del: tenant_read_simps)
next
  case (5 n func args kws)
  show ?case by (auto simp: 5 call_report [of n func args kws] simp del: tenant_read_simps)
qed auto

text \<open>
  C40. The lint accepts a repository exactly when every file it walks parses and holds no forbidden
  read, anywhere in it: a subscript \<open>x["tenant_id"]\<close> or a call \<open>x.get("tenant_id", ...)\<close> on a name, or an
  attribute, that holds untrusted input. Two reads that the module's description lists as forbidden
  are not among them: a file that holds \<open>request.json()["tenant_id"]\<close> and \<open>payload.tenant_id\<close> passes.
\<close>

theorem lint_passes_iff:
  "(fst (lint parse targets) = 0 \<longleftrightarrow>
     list_all (\<lambda>p. case parse p of Inl err \<Rightarrow> False
        | Inr tree \<Rightarrow> list_all (\<lambda>e. \<nexists>n. tenant_read e n) (nodes tree)) (walk_targets targets))
   \<and> lint (\<lambda>p. Inr (Node
        [Subscript n (Call n' (Attribute (Name ''request'') ''json'') [] []) (Constant (Some ''tenant_id'')),
         Attribute (Name ''payload'') ''tenant_id''])) [PyFile p] = (0, 0)"
proof -
  have one: "file_violations parse p = 0 \<longleftrightarrow> (case parse p of Inl err \<Rightarrow> False
      | Inr tree \<Rightarrow> list_all (\<lambda>e. \<nexists>n. tenant_read e n) (nodes tree))" for p
  proof (cases "parse p")
    case (Inr tree)
    have "violations tree = [] \<longleftrightarrow> set (violations tree) = {}" by simp
    also have "\<dots> \<longleftrightarrow> list_all (\<lambda>e. \<nexists>n. tenant_read e n) (nodes tree)"
      unfolding violations_exact by (auto simp: list_all_iff)
    finally show ?thesis using Inr by (simp add: file_violations_def)
  qed (simp add: file_violations_def)
  have "fst (lint parse targets) = 0 \<longleftrightarrow> list_all (\<lambda>p. file_violations parse p = 0) (walk_targets targets)"
    by (simp add: lint_def Let_def list_all_iff del: neq0_conv)
  then show ?thesis
    unfolding one by (simp add: lint_def file_violations_def report_def untrusted_def get_of_tenant_def)
qed

end
