(* ===== verification/Redis_Clock.thy ===== *)
theory Redis_Clock
  imports Redis_Port Complex_Main
begin

section \<open>Redis keys that expire\<close>

subsection \<open>The laws\<close>

text \<open>
  \<open>redis_ok\<close> (theory Redis_Port) says nothing of when a key expires. Properties that depend on it use
  \<open>timed_ok\<close> as well: \<open>dl w k\<close> is the time at which a key expires (\<open>None\<close> for one that does not), \<open>clock\<close> the
  server's time. The commands take no time; a key set with a lifetime expires that much later, and
  no command touches the lifetime of a key it does not name. Between commands the time passes
  (\<open>time_passes\<close>): a key lives on with its value at least until it expires.
\<close>

definition touches_only :: "('w \<Rightarrow> string \<Rightarrow> rat option) \<Rightarrow> ('w \<Rightarrow> rat) \<Rightarrow> string set \<Rightarrow> ('w, 'a) io \<Rightarrow> bool" where
  "touches_only dl clock K m \<longleftrightarrow>
     (\<forall>w. clock (snd (m w)) = clock w \<and> (\<forall>k. k \<notin> K \<longrightarrow> dl (snd (m w)) k = dl w k))"

definition timed_ok ::
    "'w redis \<Rightarrow> ('w \<Rightarrow> kv) \<Rightarrow> ('w \<Rightarrow> string \<Rightarrow> rat option) \<Rightarrow> ('w \<Rightarrow> rat) \<Rightarrow> bool" where
  "timed_ok r kv dl clock \<longleftrightarrow>
     (\<forall>k. touches_only dl clock {} (rd_get r k))
     \<and> (\<forall>k t v. touches_only dl clock {k} (rd_setex r k t v))
     \<and> (\<forall>k v t. touches_only dl clock {k} (rd_set_nx_ex r k v t))
     \<and> (\<forall>ks. touches_only dl clock (set ks) (rd_delete r ks))
     \<and> (\<forall>s ks xs. touches_only dl clock (set ks) (rd_eval r s ks xs))
     \<and> (\<forall>k t v w w'. 0 < t \<and> rd_setex r k t v w = (Inr (), w') \<longrightarrow> dl w' k = Some (clock w + of_int t))
     \<and> (\<forall>k t v w w'. 0 < t \<and> rd_set_nx_ex r k v t w = (Inr True, w') \<longrightarrow>
          dl w' k = Some (clock w + of_int t))
     \<and> (\<forall>k t v w. kv w k \<noteq> None \<longrightarrow> dl (snd (rd_set_nx_ex r k v t w)) k = dl w k)"

definition time_passes ::
    "('w \<Rightarrow> kv) \<Rightarrow> ('w \<Rightarrow> string \<Rightarrow> rat option) \<Rightarrow> ('w \<Rightarrow> rat) \<Rightarrow> string \<Rightarrow> 'w \<Rightarrow> 'w \<Rightarrow> bool" where
  "time_passes kv dl clock k w w' \<longleftrightarrow> clock w \<le> clock w'
     \<and> (\<forall>v. kv w k = Some v \<and> (\<forall>d. dl w k = Some d \<longrightarrow> clock w' < d)
          \<longrightarrow> kv w' k = Some v \<and> dl w' k = dl w k)"

lemma timed_okD:
  assumes "timed_ok r kv dl clock"
  shows "touches_only dl clock {} (rd_get r k)" "touches_only dl clock {k} (rd_setex r k t v)"
    "touches_only dl clock {k} (rd_set_nx_ex r k v t)" "touches_only dl clock (set ks) (rd_delete r ks)"
    "touches_only dl clock (set ks) (rd_eval r s ks xs)"
  using assms by (simp_all add: timed_ok_def)

lemma timed_ok_deadline:
  assumes "timed_ok r kv dl clock" "0 < t"
  shows "rd_setex r k t v w = (Inr (), w') \<Longrightarrow> dl w' k = Some (clock w + of_int t)"
    and "rd_set_nx_ex r k v t w = (Inr True, w') \<Longrightarrow> dl w' k = Some (clock w + of_int t)"
  using assms by (auto simp: timed_ok_def)

lemma timed_ok_held:
  assumes "timed_ok r kv dl clock" "kv w k \<noteq> None" "rd_set_nx_ex r k v t w = (res, w')"
  shows "dl w' k = dl w k"
  using assms unfolding timed_ok_def by (metis snd_conv)

lemma touches_onlyD:
  assumes "touches_only dl clock K m" "m w = (res, w')"
  shows "clock w' = clock w" "k \<notin> K \<Longrightarrow> dl w' k = dl w k"
  using assms unfolding touches_only_def by (metis snd_conv)+

subsection \<open>A client with a clock\<close>

text \<open>A concrete client with a clock, for the witnesses.\<close>

record timed_store =
  tm_keys :: "string \<rightharpoonup> string \<times> rat option"
  tm_now :: rat

definition alive :: "rat option \<Rightarrow> rat \<Rightarrow> bool" where
  "alive d now = (case d of None \<Rightarrow> True | Some t \<Rightarrow> now < t)"

definition timed_view :: "timed_store \<Rightarrow> kv" where
  "timed_view w k = (case tm_keys w k of None \<Rightarrow> None | Some (v, d) \<Rightarrow> if alive d (tm_now w) then Some v else None)"

definition timed_deadline :: "timed_store \<Rightarrow> string \<Rightarrow> rat option" where
  "timed_deadline w k = (case tm_keys w k of None \<Rightarrow> None | Some (v, d) \<Rightarrow> d)"

definition timed_put :: "string \<Rightarrow> string \<Rightarrow> int \<Rightarrow> timed_store \<Rightarrow> timed_store" where
  "timed_put k v t w =
     w\<lparr>tm_keys := (tm_keys w)(k \<mapsto> (v, if 0 < t then Some (tm_now w + of_int t) else None))\<rparr>"

definition timed_del :: "string list \<Rightarrow> timed_store \<Rightarrow> timed_store" where
  "timed_del ks w = w\<lparr>tm_keys := (\<lambda>k. if k \<in> set ks then None else tm_keys w k)\<rparr>"

definition timed_redis :: "timed_store redis" where
  "timed_redis =
     \<lparr>rd_get = (\<lambda>k w. (Inr (timed_view w k), w)),
      rd_set = (\<lambda>k v w. (Inr (), timed_put k v 0 w)),
      rd_set_nx_ex = (\<lambda>k v t w. if timed_view w k = None then (Inr True, timed_put k v t w)
                                else (Inr False, w)),
      rd_setex = (\<lambda>k t v w. (Inr (), timed_put k v t w)),
      rd_delete = (\<lambda>ks w. (Inr (), timed_del ks w)),
      rd_incr = (\<lambda>k w. let n = counter_of (timed_view w k) read_int + 1
         in (Inr n, timed_put k (show_int n) 0 w)),
      rd_expire = (\<lambda>k t w. (Inr (), w)),
      rd_eval = (\<lambda>script ks args w. if timed_view w (hd ks) = Some (hd args)
         then (Inr 1, timed_del ks w) else (Inr 0, w)),
      rd_scan_iter = (\<lambda>p w. (Inr [], w))\<rparr>"

lemma timed_put_view [simp]: "timed_view (timed_put k v t w) = (timed_view w)(k \<mapsto> v)"
  by (rule ext) (auto simp: timed_view_def timed_put_def alive_def split: option.splits)

lemma timed_put_deadline:
  "timed_deadline (timed_put k v t w) j
    = (if j = k then if 0 < t then Some (tm_now w + of_int t) else None else timed_deadline w j)"
  by (simp add: timed_deadline_def timed_put_def)

lemma timed_del_view [simp]: "timed_view (timed_del ks w) = del_keys ks (timed_view w)"
  by (rule ext) (auto simp: timed_view_def timed_del_def del_keys_def split: option.splits)

lemma timed_clock [simp]: "tm_now (timed_put k v t w) = tm_now w" "tm_now (timed_del ks w) = tm_now w"
  by (simp_all add: timed_put_def timed_del_def)

lemma timed_redis_ok: "redis_ok timed_redis timed_view read_int"
  by (simp add: redis_ok_def get_ok_def set_ok_def setex_ok_def set_nx_ok_def delete_ok_def incr_ok_def
      expire_ok_def parse_ok_def timed_redis_def read_show_int Let_def)

lemma timed_redis_up: "redis_up timed_redis"
  by (auto simp: redis_up_def no_raise_def timed_redis_def Let_def)

lemma timed_redis_timed: "timed_ok timed_redis timed_view timed_deadline tm_now"
proof -
  have d: "timed_deadline (timed_del ks w) j = timed_deadline w j" if "j \<notin> set ks" for ks w j
    using that by (simp add: timed_deadline_def timed_del_def)
  show ?thesis
    by (auto simp: timed_ok_def touches_only_def timed_redis_def timed_put_deadline d split: if_splits)
qed

lemma timed_later:
  "tm_now w \<le> c \<Longrightarrow> time_passes timed_view timed_deadline tm_now k w (w\<lparr>tm_now := c\<rparr>)"
  by (auto simp: time_passes_def timed_view_def timed_deadline_def alive_def
      split: option.splits if_splits)

end
