(* ===== verification/Cancel_Timing.thy ===== *)
theory Cancel_Timing
  imports Cancel_Registry Redis_Clock
begin

section \<open>services/_runtime/cancel.py: a cancellation against the lifetime of its key\<close>

text \<open>
  The registry's operations with the time passing between them. The pending key of a request lives
  for the grace period and five seconds more; its timer sleeps for the grace period. \<open>timed_step\<close>
  adds to \<open>cancel_step\<close> the passing of time, in which other processes may use Redis but do not touch
  the pending key of the alert \<open>a\<close>. A waking timer is a step of its own and may come at any time.
\<close>

datatype timed_event = Does cancel_event | Waits

inductive timed_step ::
    "('w \<Rightarrow> kv) \<Rightarrow> ('w \<Rightarrow> string \<Rightarrow> rat option) \<Rightarrow> ('w \<Rightarrow> rat) \<Rightarrow> string
     \<Rightarrow> 'w cancel_registry \<times> 'w \<Rightarrow> timed_event \<Rightarrow> 'w cancel_registry \<times> 'w \<Rightarrow> bool"
  for kv dl clock a where
  does: "cancel_step (reg, w) ev (reg', w') \<Longrightarrow> timed_step kv dl clock a (reg, w) (Does ev) (reg', w')"
| waits: "time_passes kv dl clock (pending_key a) w w' \<Longrightarrow>
     timed_step kv dl clock a (reg, w) Waits (reg, w')"

inductive_cases timed_stepE: "timed_step kv dl clock a (reg, w) ev (reg', w')"

lemma timed_step_cases:
  assumes "timed_step kv dl clock a (reg, w) ev (reg', w')"
  obtains (does) e where "ev = Does e" "cancel_step (reg, w) e (reg', w')"
  | (waits) "ev = Waits" "reg' = reg" "time_passes kv dl clock (pending_key a) w w'"
  using assms by (auto elim: timed_stepE)

inductive timed_run ::
    "('w \<Rightarrow> kv) \<Rightarrow> ('w \<Rightarrow> string \<Rightarrow> rat option) \<Rightarrow> ('w \<Rightarrow> rat) \<Rightarrow> string
     \<Rightarrow> 'w cancel_registry \<times> 'w \<Rightarrow> timed_event list \<Rightarrow> 'w cancel_registry \<times> 'w \<Rightarrow> bool"
  for kv dl clock a where
  timed_nil: "timed_run kv dl clock a s [] s"
| timed_cons: "timed_step kv dl clock a s ev s' \<Longrightarrow> timed_run kv dl clock a s' evs s''
    \<Longrightarrow> timed_run kv dl clock a s (ev # evs) s''"

fun event_alert :: "cancel_event \<Rightarrow> string" where
  "event_alert (Request b) = b"
| "event_alert (Revoke b) = b"
| "event_alert (Fire t b) = b"

subsection \<open>What an operation on one alert leaves of another\<close>

lemma op_keeps:
  assumes "redis_ok r kv p" "timed_ok r kv dl clock" "cr_client reg = Some r"
    and "k \<noteq> pending_key (event_alert ev)" "k \<noteq> cancelled_key (event_alert ev)"
  shows "keeps (\<lambda>w. (kv w k, dl w k, clock w)) (cancel_op ev reg)"
proof -
  let ?f = "\<lambda>w. (kv w k, dl w k, clock w)"
  note t = timed_okD [OF assms(2)]
  have g: "keeps ?f (rd_get r j)" for j
    unfolding keeps_def
  proof
    fix w
    obtain res w' where e: "rd_get r j w = (res, w')" by (rule prod.exhaust)
    from rd_get_kv [OF assms(1) e] touches_onlyD(1) [OF t(1) [of j] e] touches_onlyD(2) [OF t(1) [of j] e, of k]
    show "?f (snd (rd_get r j w)) = ?f w" by (auto simp: e)
  qed
  have s: "keeps ?f (rd_setex r j l v)" if "k \<noteq> j" for j l v
    unfolding keeps_def
  proof
    fix w
    obtain res w' where e: "rd_setex r j l v w = (res, w')" by (rule prod.exhaust)
    from rd_setex_kv [OF assms(1) e] that touches_onlyD(1) [OF t(2) [of j l v] e] touches_onlyD(2) [OF t(2) [of j l v] e, of k]
    show "?f (snd (rd_setex r j l v w)) = ?f w" by (auto simp: e)
  qed
  have d: "keeps ?f (rd_delete r [j])" if "k \<noteq> j" for j
    unfolding keeps_def
  proof
    fix w
    obtain res w' where e: "rd_delete r [j] w = (res, w')" by (rule prod.exhaust)
    from rd_delete_kv [OF assms(1) e] that touches_onlyD(1) [OF t(4) [of "[j]"] e] touches_onlyD(2) [OF t(4) [of "[j]"] e, of k]
    show "?f (snd (rd_delete r [j] w)) = ?f w" by (auto simp: e del_keys_def)
  qed
  show ?thesis
  proof (cases ev)
    case (Request b)
    with assms(3-5) show ?thesis by (auto simp: request_cancel_def Let_def intro!: keeps_intros s)
  next
    case (Revoke b)
    with assms(3-5) show ?thesis by (auto simp: revoke_cancel_def Let_def intro!: keeps_intros d)
  next
    case (Fire t b)
    with assms(3-5) show ?thesis by (auto simp: fire_after_grace_def Let_def intro!: keeps_intros g s d)
  qed
qed

lemma op_live:
  assumes "timers_ok reg" "cancel_op ev reg w = (Inr reg', w')" "event_alert ev \<noteq> a" "(t, a) \<in> set (cr_live reg)"
    and "\<And>u b. ev = Fire u b \<Longrightarrow> (u, b) \<in> set (cr_live reg)"
  shows "(t, a) \<in> set (cr_live reg')"
proof (cases ev)
  case (Request b)
  with assms request_result [of reg b w reg' w'] show ?thesis
    by (auto simp: drop_timer_live start_timer_def)
next
  case (Revoke b)
  with assms revoke_result [of reg b w reg' w'] show ?thesis by (auto simp: drop_timer_live)
next
  case (Fire u b)
  with assms(5) have "(u, b) \<in> set (cr_live reg)" by blast
  then have "u \<noteq> t"
    using timers_okD(2) [OF assms(1)] timers_okD(4) [OF assms(1)] assms(3,4) Fire by fastforce
  with Fire assms fire_result [of reg u b w reg' w'] show ?thesis by (auto simp: set_delete_alist)
qed

text \<open>
  A requested cancellation under way: its timer \<open>t\<close> sleeps, and its key is there until \<open>d\<close>.
\<close>

definition under_way ::
    "'w redis \<Rightarrow> ('w \<Rightarrow> kv) \<Rightarrow> ('w \<Rightarrow> string \<Rightarrow> rat option) \<Rightarrow> string \<Rightarrow> nat \<Rightarrow> rat
     \<Rightarrow> 'w cancel_registry \<times> 'w \<Rightarrow> bool" where
  "under_way r kv dl a t d s \<longleftrightarrow> timers_ok (fst s) \<and> cr_client (fst s) = Some r
     \<and> (t, a) \<in> set (cr_live (fst s))
     \<and> kv (snd s) (pending_key a) = Some ''1'' \<and> dl (snd s) (pending_key a) = Some d"

lemma clock_advances:
  assumes "redis_ok r kv p" "timed_ok r kv dl clock" "timed_step kv dl clock a (reg, w) ev (reg', w')"
    and "cr_client reg = Some r"
  shows "clock w \<le> clock w'"
  using assms(3)
proof (cases rule: timed_step_cases)
  case (does e)
  have k: "[] \<noteq> pending_key (event_alert e)" "[] \<noteq> cancelled_key (event_alert e)"
    by (simp_all add: pending_key_def cancelled_key_def)
  from does have "cancel_op e reg w = (Inr reg', w')" by (auto elim: cancel_stepE)
  with keepsD [OF op_keeps [OF assms(1,2,4) k]] show ?thesis by fastforce
next
  case waits
  then show ?thesis by (simp add: time_passes_def)
qed

lemma step_under_way:
  assumes "redis_ok r kv p" "timed_ok r kv dl clock" "timed_step kv dl clock a (reg, w) ev (reg', w')"
    and "under_way r kv dl a t d (reg, w)" "clock w' < d"
    and "\<And>e. ev = Does e \<Longrightarrow> event_alert e \<noteq> a"
  shows "under_way r kv dl a t d (reg', w')"
  using assms(3)
proof (cases rule: timed_step_cases)
  case (does e)
  from does assms(6) have e: "event_alert e \<noteq> a" by blast
  from does have op: "cancel_op e reg w = (Inr reg', w')"
    and live: "\<And>u b. e = Fire u b \<Longrightarrow> (u, b) \<in> set (cr_live reg)" by (auto elim: cancel_stepE)
  from assms(4) have u: "timers_ok reg" "cr_client reg = Some r" "(t, a) \<in> set (cr_live reg)"
    "kv w (pending_key a) = Some ''1''" "dl w (pending_key a) = Some d"
    by (auto simp: under_way_def)
  have "keeps (\<lambda>w. (kv w (pending_key a), dl w (pending_key a), clock w)) (cancel_op e reg)"
    using e by (intro op_keeps [OF assms(1,2) u(2)]) auto
  from keepsD [OF this op] u(4,5) have "kv w' (pending_key a) = Some ''1''" "dl w' (pending_key a) = Some d"
    by auto
  with timers_ok_step [OF does(2) u(1)] client_kept [OF does(2)] u(2) op_live [OF u(1) op e u(3) live]
  show ?thesis by (auto simp: under_way_def)
next
  case waits
  with assms(4,5) show ?thesis by (auto simp: under_way_def time_passes_def)
qed

lemma timed_client:
  "timed_step kv dl clock a (reg, w) ev (reg', w') \<Longrightarrow> cr_client reg' = cr_client reg"
  by (erule timed_step_cases) (auto dest: client_kept)

lemma run_clock:
  assumes "redis_ok r kv p" "timed_ok r kv dl clock"
  shows "timed_run kv dl clock a s evs s' \<Longrightarrow> cr_client (fst s) = Some r \<Longrightarrow> clock (snd s) \<le> clock (snd s')"
proof (induction rule: timed_run.induct)
  case (timed_cons s ev s1 evs s')
  obtain reg w reg1 w1 where s: "s = (reg, w)" "s1 = (reg1, w1)" by (cases s, cases s1) auto
  note st = timed_cons.hyps(1) [unfolded s]
  have "clock w \<le> clock w1" using clock_advances [OF assms st] timed_cons.prems s by simp
  moreover have "clock w1 \<le> clock (snd s')"
    using timed_cons.IH timed_client [OF st] timed_cons.prems s by simp
  ultimately show ?case using s by simp
qed simp

lemma run_under_way:
  assumes "redis_ok r kv p" "timed_ok r kv dl clock"
  shows "timed_run kv dl clock a s evs s' \<Longrightarrow> under_way r kv dl a t d s \<Longrightarrow> clock (snd s') < d
    \<Longrightarrow> (\<And>e. Does e \<in> set evs \<Longrightarrow> event_alert e \<noteq> a)
    \<Longrightarrow> under_way r kv dl a t d s' \<and> clock (snd s) \<le> clock (snd s')"
proof (induction rule: timed_run.induct)
  case (timed_cons s ev s1 evs s')
  obtain reg w reg1 w1 where s: "s = (reg, w)" "s1 = (reg1, w1)" by (cases s, cases s1) auto
  note st = timed_cons.hyps(1) [unfolded s]
  have cl: "cr_client reg = Some r" using timed_cons.prems(1) s by (simp add: under_way_def)
  have mono: "clock w \<le> clock w1" using clock_advances [OF assms st cl] .
  have le: "clock w1 \<le> clock (snd s')"
    using run_clock [OF assms timed_cons.hyps(2)] timed_client [OF st] cl s by simp
  with timed_cons.prems(2) have "clock w1 < d" by simp
  with step_under_way [OF assms st _ this] timed_cons.prems(1,3) s have "under_way r kv dl a t d s1"
    by simp
  with timed_cons.IH timed_cons.prems(2,3) mono le s show ?case by auto
qed simp

subsection \<open>The property of cancellation\<close>

text \<open>
  C33. A cancellation that is not revoked takes effect: with Redis reachable, a request starts a
  timer for the alert; whatever requests, revocations and waking timers of other alerts follow, and
  however long they take, that timer is still the alert's live timer, and when it wakes less than
  five seconds after the grace period (before the pending key expires) the alert reads as cancelled
  and the timer is gone. Supposed are that commands themselves take no time, that no other process
  revokes the alert, and a positive lifetime of the pending key.
\<close>

theorem unrevoked_cancel_fires:
  assumes "redis_ok r kv p" "redis_up r" "timed_ok r kv dl clock" "cr_client reg = Some r" "timers_ok reg"
    and "request_cancel reg a w = (Inr reg1, w1)" "0 < cr_grace reg + 5"
    and "timed_run kv dl clock a (reg1, w1) evs (reg2, w2)"
    and "\<And>e. Does e \<in> set evs \<Longrightarrow> event_alert e \<noteq> a"
    and "clock w2 < clock w + of_int (cr_grace reg) + 5"
  shows "\<exists>t reg3 w3. (t, a) \<in> set (cr_live reg2)
    \<and> fire_after_grace reg2 t a w2 = (Inr reg3, w3)
    \<and> fst (is_cancelled reg3 a w3) = Inr True \<and> t \<notin> fst ` set (cr_live reg3)"
proof -
  obtain w' where s: "rd_setex r (pending_key a) (cr_grace reg + 5) ''1'' w = (Inr (), w')"
    using redis_upE(3) [OF assms(2)] by (rule no_raiseE) auto
  with assms(4,6) have r1: "reg1 = start_timer a (drop_timer a reg)" "w1 = w'"
    by (simp_all add: request_cancel_def Let_def)
  let ?t = "cr_next reg" and ?d = "clock w + of_int (cr_grace reg) + 5"
  have "under_way r kv dl a ?t ?d (reg1, w1)"
    using rd_setex_Inr [OF assms(1) s] timed_ok_deadline(1) [OF assms(3,7) s] r1 assms(4)
      timers_ok_start [OF timers_ok_drop [OF assms(5), of a]]
    by (auto simp: under_way_def start_timer_def drop_timer_live [OF assms(5)])
  with run_under_way [OF assms(1,3,8)] assms(9,10) have u: "under_way r kv dl a ?t ?d (reg2, w2)"
    by simp
  then have live: "(?t, a) \<in> set (cr_live reg2)" and cl2: "cr_client reg2 = Some r"
    and pend: "kv w2 (pending_key a) = Some ''1''" by (auto simp: under_way_def)
  obtain reg3 w3 where f: "fire_after_grace reg2 ?t a w2 = (Inr reg3, w3)"
    using no_raise_fire by (rule no_raiseE)
  from fire_result [OF f] have r3: "cr_live reg3 = AList.delete ?t (cr_live reg2)"
    and cl3: "cr_client reg3 = Some r" using cl2 by auto
  have "fst (is_cancelled reg3 a w3) = Inr True"
    using fire_sets_flag [OF assms(1,2) cl2 pend f] is_cancelled_reads [OF assms(1,2) cl3, of a w3]
    by simp
  moreover have "?t \<notin> fst ` set (cr_live reg3)" using r3 by (auto simp: set_delete_alist)
  ultimately show ?thesis using live f by blast
qed

text \<open>At a Redis with a clock: a request at time 0, another alert's request, and seven seconds.\<close>

theorem unrevoked_cancel_fires_witness:
  "\<exists>reg1 w1 reg2 w2 t reg3 w3.
      request_cancel (CancelRegistry_init (\<lambda>u. Inr timed_redis) ''u'' 5) ''a'' \<lparr>tm_keys = Map.empty, tm_now = 0\<rparr>
        = (Inr reg1, w1)
    \<and> timed_run timed_view timed_deadline tm_now ''a'' (reg1, w1) [Does (Request ''b''), Waits] (reg2, w2)
    \<and> tm_now w2 = 7
    \<and> fire_after_grace reg2 t ''a'' w2 = (Inr reg3, w3) \<and> fst (is_cancelled reg3 ''a'' w3) = Inr True"
proof -
  let ?i = "CancelRegistry_init (\<lambda>u. Inr timed_redis) ''u'' 5" and ?w = "\<lparr>tm_keys = Map.empty, tm_now = 0\<rparr>"
  have cl: "cr_client ?i = Some timed_redis" and gr: "cr_grace ?i = 5" by (simp_all add: CancelRegistry_init_def)
  obtain reg1 w1 where rq: "request_cancel ?i ''a'' ?w = (Inr reg1, w1)"
    using no_raise_request by (rule no_raiseE)
  obtain reg2 v2 where rb: "request_cancel reg1 ''b'' w1 = (Inr reg2, v2)"
    using no_raise_request by (rule no_raiseE)
  let ?w2 = "v2\<lparr>tm_now := 7\<rparr>"
  have put: "tm_now (snd (rd_setex timed_redis k t v u)) = tm_now u" for k t v u
    by (simp add: timed_redis_def)
  have now: "tm_now w' = tm_now u" if "request_cancel g b u = (Inr g', w')" "cr_client g = Some timed_redis"
    for g b u g' w'
    using that put by (auto simp: request_cancel_def Let_def try_io_def bind_io_def timed_redis_def)
  have cl1: "cr_client reg1 = Some timed_redis"
    using request_result [OF rq] cl by (auto simp: start_timer_def)
  have n: "tm_now v2 \<le> 7" using now [OF rq cl] now [OF rb cl1] by simp
  have st: "cancel_step (reg1, w1) (Request ''b'') (reg2, v2)"
    by (rule cancel_step.intros) (simp_all add: rb)
  have run: "timed_run timed_view timed_deadline tm_now ''a'' (reg1, w1) [Does (Request ''b''), Waits] (reg2, ?w2)"
    by (rule timed_cons [OF does [OF st] timed_cons [OF waits [OF timed_later [OF n]] timed_nil]])
  have e: "event_alert e \<noteq> ''a''" if "Does e \<in> set [Does (Request ''b''), Waits]" for e
    using that by auto
  have g: "0 < cr_grace ?i + 5" and c: "tm_now ?w2 < tm_now ?w + of_int (cr_grace ?i) + 5"
    by (simp_all add: gr)
  obtain t reg3 w3 where "fire_after_grace reg2 t ''a'' ?w2 = (Inr reg3, w3)"
      "fst (is_cancelled reg3 ''a'' w3) = Inr True"
    using unrevoked_cancel_fires [OF timed_redis_ok timed_redis_up timed_redis_timed cl timers_ok_init rq g run e c]
    by blast
  moreover have "tm_now ?w2 = 7" by simp
  ultimately show ?thesis using rq run by blast
qed

end
