(* ===== verification/Wal_Leases.thy ===== *)
theory Wal_Leases
  imports Ingest_Wal Redis_Clock
begin

section \<open>services/_runtime/ingest_reconciler.py: several reconcilers and one lease\<close>

text \<open>
  What the lease of an alert is for: several reconcilers, in several processes, visit one alert
  \<open>a\<close>. A visit is cut where \<open>process_batch\<close> awaits another part: \<open>Take\<close> asks for the lease, \<open>Work\<close> is
  \<open>_process_one\<close>, \<open>Drop\<close> releases the lease; the steps of different reconcilers interleave, and time
  passes between them, in which the lease may expire. \<open>Holding d\<close> is a reconciler that got the lease,
  which expires at \<open>d\<close>, and has not finished its work.

  Not a step is \<open>mark_published\<close> by the ingest path: it deletes the lease key whoever holds it.
\<close>

datatype lease_phase = Resting | Holding rat | Finished

datatype lease_event = Take nat | Work nat | Drop nat | Pass

inductive lease_step ::
    "'w redis \<Rightarrow> ('w \<Rightarrow> kv) \<Rightarrow> ('w \<Rightarrow> string \<Rightarrow> rat option) \<Rightarrow> ('w \<Rightarrow> rat) \<Rightarrow> 'w reconciler list \<Rightarrow> string
     \<Rightarrow> lease_phase list \<times> 'w \<Rightarrow> lease_event \<Rightarrow> lease_phase list \<times> 'w \<Rightarrow> bool"
  for r kv dl clock rcs a where
  take: "i < length rcs \<Longrightarrow> ps ! i = Resting \<Longrightarrow> acquire_lease (rcs ! i) r a w = (res, w') \<Longrightarrow>
    lease_step r kv dl clock rcs a (ps, w) (Take i)
      (if res = Inr True then ps[i := Holding (clock w + of_int (rc_lease (rcs ! i)))] else ps, w')"
| work: "i < length rcs \<Longrightarrow> ps ! i = Holding d \<Longrightarrow> process_one (rcs ! i) r b a w = (res, w') \<Longrightarrow>
    lease_step r kv dl clock rcs a (ps, w) (Work i) (ps[i := Finished], w')"
| drop: "i < length rcs \<Longrightarrow> ps ! i = Finished \<Longrightarrow> release_lease (rcs ! i) r a w = (res, w') \<Longrightarrow>
    lease_step r kv dl clock rcs a (ps, w) (Drop i) (ps[i := Resting], w')"
| pass: "time_passes kv dl clock (wal_lease_key a) w w' \<Longrightarrow>
    lease_step r kv dl clock rcs a (ps, w) Pass (ps, w')"

inductive_cases takeE: "lease_step r kv dl clock rcs a (ps, w) (Take i) (ps', w')"
inductive_cases workE: "lease_step r kv dl clock rcs a (ps, w) (Work i) (ps', w')"
inductive_cases dropE: "lease_step r kv dl clock rcs a (ps, w) (Drop i) (ps', w')"
inductive_cases passE: "lease_step r kv dl clock rcs a (ps, w) Pass (ps', w')"

text \<open>No reconciler overruns its lease: in each state of the run, who holds it holds an unexpired one.\<close>

definition in_time :: "('w \<Rightarrow> rat) \<Rightarrow> lease_phase list \<times> 'w \<Rightarrow> bool" where
  "in_time clock s \<longleftrightarrow> (\<forall>i d. i < length (fst s) \<and> fst s ! i = Holding d \<longrightarrow> clock (snd s) < d)"

inductive lease_run ::
    "'w redis \<Rightarrow> ('w \<Rightarrow> kv) \<Rightarrow> ('w \<Rightarrow> string \<Rightarrow> rat option) \<Rightarrow> ('w \<Rightarrow> rat) \<Rightarrow> 'w reconciler list \<Rightarrow> string
     \<Rightarrow> lease_phase list \<times> 'w \<Rightarrow> lease_event list \<Rightarrow> lease_phase list \<times> 'w \<Rightarrow> bool"
  for r kv dl clock rcs a where
  lease_nil: "in_time clock s \<Longrightarrow> lease_run r kv dl clock rcs a s [] s"
| lease_cons: "in_time clock s \<Longrightarrow> lease_step r kv dl clock rcs a s ev s'
    \<Longrightarrow> lease_run r kv dl clock rcs a s' evs s'' \<Longrightarrow> lease_run r kv dl clock rcs a s (ev # evs) s''"

text \<open>What the release script does in Redis: it deletes the key only while it holds the given owner.\<close>

definition script_ok :: "'w redis \<Rightarrow> ('w \<Rightarrow> kv) \<Rightarrow> ('w \<Rightarrow> string \<Rightarrow> rat option) \<Rightarrow> bool" where
  "script_ok r kv dl \<longleftrightarrow> (\<forall>k owner w res w'. rd_eval r release_script [k] [owner] w = (res, w') \<longrightarrow>
     (if kv w k = Some owner then kv w' = kv w \<or> kv w' = del_keys [k] (kv w)
      else kv w' = kv w \<and> dl w' k = dl w k))"

lemma release_frame:
  assumes "script_ok r kv dl" "release_lease rc r a w = (res, w')" "kv w (wal_lease_key a) \<noteq> Some (rc_owner rc)"
  shows "kv w' = kv w" "dl w' (wal_lease_key a) = dl w (wal_lease_key a)"
proof -
  obtain x w1 where e: "rd_eval r release_script [wal_lease_key a] [rc_owner rc] w = (x, w1)" by (rule prod.exhaust)
  then have "w' = w1"
    using assms(2) by (cases x) (auto simp: release_lease_def bind_io_def try_io_def)
  with e assms(1,3) show "kv w' = kv w" "dl w' (wal_lease_key a) = dl w (wal_lease_key a)"
    by (auto simp: script_ok_def)
qed

subsection \<open>The invariant of the lease\<close>

text \<open>The key names who holds the lease, and expires when the holder thinks it does.\<close>

definition lease_inv ::
    "('w \<Rightarrow> kv) \<Rightarrow> ('w \<Rightarrow> string \<Rightarrow> rat option) \<Rightarrow> 'w reconciler list \<Rightarrow> string \<Rightarrow> lease_phase list \<times> 'w \<Rightarrow> bool" where
  "lease_inv kv dl rcs a s \<longleftrightarrow> length (fst s) = length rcs
     \<and> (\<forall>i d. i < length rcs \<and> fst s ! i = Holding d \<longrightarrow>
          kv (snd s) (wal_lease_key a) = Some (rc_owner (rcs ! i)) \<and> dl (snd s) (wal_lease_key a) = Some d)"

lemma lease_invD:
  assumes "lease_inv kv dl rcs a (ps, w)"
  shows "length ps = length rcs"
    and "i < length rcs \<Longrightarrow> ps ! i = Holding d \<Longrightarrow> kv w (wal_lease_key a) = Some (rc_owner (rcs ! i))"
    and "i < length rcs \<Longrightarrow> ps ! i = Holding d \<Longrightarrow> dl w (wal_lease_key a) = Some d"
  using assms by (auto simp: lease_inv_def)

lemma one_holder:
  assumes "lease_inv kv dl rcs a (ps, w)" "distinct (map rc_owner rcs)"
    and "i < length rcs" "j < length rcs" "ps ! i = Holding d" "ps ! j = Holding e"
  shows "i = j"
proof -
  have "rc_owner (rcs ! i) = rc_owner (rcs ! j)"
    using lease_invD(2) [OF assms(1,3,5)] lease_invD(2) [OF assms(1,4,6)] by simp
  with assms(2-4) show ?thesis by (simp add: distinct_conv_nth) (metis nth_map)
qed

lemma inv_take:
  assumes "redis_ok r kv p" "timed_ok r kv dl clock" "\<forall>rc \<in> set rcs. 0 < rc_lease rc"
    and "lease_inv kv dl rcs a (ps, w)" "lease_step r kv dl clock rcs a (ps, w) (Take i) (ps', w')"
  shows "lease_inv kv dl rcs a (ps', w')"
proof -
  from assms(5) obtain res where i: "i < length rcs" "ps ! i = Resting"
    and res: "acquire_lease (rcs ! i) r a w = (res, w')"
    and ps': "ps' = (if res = Inr True then ps[i := Holding (clock w + of_int (rc_lease (rcs ! i)))] else ps)"
    by (auto elim!: takeE)
  let ?k = "wal_lease_key a"
  from res have set: "rd_set_nx_ex r ?k (rc_owner (rcs ! i)) (rc_lease (rcs ! i)) w = (res, w')"
    by (simp add: acquire_lease_def)
  have pos: "0 < rc_lease (rcs ! i)" using assms(3) i(1) by simp
  show ?thesis
  proof (cases "res = Inr True")
    case True
    have kv: "kv w ?k = None" "kv w' ?k = Some (rc_owner (rcs ! i))"
      using rd_set_nx_Inr [OF assms(1) set [unfolded True]] by simp_all
    then have none: "ps ! j \<noteq> Holding d" if "j < length rcs" for j d
      using lease_invD(2) [OF assms(4) that] by fastforce
    have "dl w' ?k = Some (clock w + of_int (rc_lease (rcs ! i)))"
      using timed_ok_deadline(2) [OF assms(2) pos set [unfolded True]] .
    with True ps' kv none i(1) lease_invD(1) [OF assms(4)] show ?thesis
      by (auto simp: lease_inv_def nth_list_update split: if_splits)
  next
    case False
    have same: "kv w' ?k = kv w ?k" "dl w' ?k = dl w ?k" if "kv w ?k \<noteq> None"
    proof -
      show "dl w' ?k = dl w ?k" using timed_ok_held [OF assms(2) that set] .
      show "kv w' ?k = kv w ?k"
        using assms(1) set that unfolding redis_ok_def set_nx_ok_def by (fastforce split: sum.splits if_splits)
    qed
    from False ps' have "ps' = ps" by simp
    with lease_invD [OF assms(4)] same show ?thesis by (auto simp: lease_inv_def)
  qed
qed

lemma inv_step:
  assumes "redis_ok r kv p" "timed_ok r kv dl clock" "script_ok r kv dl"
    and "\<forall>rc \<in> set rcs. 0 < rc_lease rc" "distinct (map rc_owner rcs)"
    and "lease_inv kv dl rcs a (ps, w)" "lease_step r kv dl clock rcs a (ps, w) ev (ps', w')"
    and "in_time clock (ps', w')"
  shows "lease_inv kv dl rcs a (ps', w')"
proof (cases ev)
  case (Take i)
  with inv_take [OF assms(1,2,4,6)] assms(7) show ?thesis by blast
next
  case (Work i)
  with assms(7) obtain d where i: "i < length rcs" "ps ! i = Holding d" "ps' = ps[i := Finished]"
    by (auto elim!: workE)
  have "ps' ! j \<noteq> Holding e" if "j < length rcs" for j e
    using one_holder [OF assms(6,5) i(1) that i(2)] i that lease_invD(1) [OF assms(6)]
    by (auto simp: nth_list_update split: if_splits)
  with i(3) lease_invD(1) [OF assms(6)] show ?thesis by (auto simp: lease_inv_def)
next
  case (Drop i)
  with assms(7) obtain res where i: "i < length rcs" "ps ! i = Finished" "ps' = ps[i := Resting]"
    "release_lease (rcs ! i) r a w = (res, w')"
    by (auto elim!: dropE)
  have "kv w' (wal_lease_key a) = kv w (wal_lease_key a) \<and> dl w' (wal_lease_key a) = dl w (wal_lease_key a)"
    if "j < length rcs" "ps ! j = Holding d" for j d
  proof -
    have "j \<noteq> i" using i(2) that(2) by auto
    then have "rc_owner (rcs ! j) \<noteq> rc_owner (rcs ! i)"
      using assms(5) i(1) that(1) by (simp add: distinct_conv_nth)
    then have "kv w (wal_lease_key a) \<noteq> Some (rc_owner (rcs ! i))"
      using lease_invD(2) [OF assms(6) that] by simp
    from release_frame [OF assms(3) i(4) this] show ?thesis by simp
  qed
  with i(1,3) lease_invD [OF assms(6)] show ?thesis
    by (auto simp: lease_inv_def nth_list_update split: if_splits)
next
  case Pass
  with assms(7) have t: "ps' = ps" "time_passes kv dl clock (wal_lease_key a) w w'"
    by (auto elim!: passE)
  have "kv w' (wal_lease_key a) = Some (rc_owner (rcs ! j)) \<and> dl w' (wal_lease_key a) = Some d"
    if "j < length rcs" "ps ! j = Holding d" for j d
  proof -
    have "clock w' < d" using assms(8) that t(1) lease_invD(1) [OF assms(6)] by (auto simp: in_time_def)
    then show ?thesis
      using t(2) lease_invD(2,3) [OF assms(6) that] by (auto simp: time_passes_def)
  qed
  with t(1) lease_invD(1) [OF assms(6)] show ?thesis by (auto simp: lease_inv_def)
qed

lemma run_in_time: "lease_run r kv dl clock rcs a s evs s' \<Longrightarrow> in_time clock s"
  by (auto elim: lease_run.cases)

lemma inv_run:
  assumes "redis_ok r kv p" "timed_ok r kv dl clock" "script_ok r kv dl"
    and "\<forall>rc \<in> set rcs. 0 < rc_lease rc" "distinct (map rc_owner rcs)"
  shows "lease_run r kv dl clock rcs a s evs s' \<Longrightarrow> lease_inv kv dl rcs a s \<Longrightarrow> lease_inv kv dl rcs a s'"
proof (induction rule: lease_run.induct)
  case (lease_cons s ev s1 evs s')
  obtain ps w ps1 w1 where s: "s = (ps, w)" "s1 = (ps1, w1)" by (cases s, cases s1) auto
  have "lease_inv kv dl rcs a s1"
    using inv_step [OF assms] lease_cons.hyps(2) lease_cons.prems run_in_time [OF lease_cons.hyps(3)]
    unfolding s by blast
  then show ?case by (rule lease_cons.IH)
qed simp

subsection \<open>A pass over the alert is a visit\<close>

lemma batch_visit:
  assumes "i < length rcs" "length ps = length rcs" "ps ! i = Resting"
    and "process_batch (rcs ! i) r b [a] w = (res, w')"
  shows "lease_step r kv dl clock rcs a (ps, w) (Take i) (ps, w')
    \<or> (\<exists>d w1 w2. lease_step r kv dl clock rcs a (ps, w) (Take i) (ps[i := Holding d], w1)
         \<and> lease_step r kv dl clock rcs a (ps[i := Holding d], w1) (Work i) (ps[i := Finished], w2)
         \<and> lease_step r kv dl clock rcs a (ps[i := Finished], w2) (Drop i) (ps, w'))"
proof -
  obtain x w1 where x: "acquire_lease (rcs ! i) r a w = (x, w1)" by (rule prod.exhaust)
  note t = take [OF assms(1,3) x, of kv dl clock]
  show ?thesis
  proof (cases "x = Inr True")
    case False
    with assms(4) x have "w' = w1" by (cases x) (auto simp: bind_io_def)
    with t False show ?thesis by simp
  next
    case True
    obtain y w2 where y: "process_one (rcs ! i) r b a w1 = (y, w2)" by (rule prod.exhaust)
    obtain z w3 where z: "release_lease (rcs ! i) r a w2 = (z, w3)" by (rule prod.exhaust)
    have "w' = w3"
      using assms(4) x True y z
      by (cases y; cases z) (auto simp: bind_io_def finally_io_def)
    moreover have "lease_step r kv dl clock rcs a (ps[i := Holding d], w1) (Work i) (ps[i := Finished], w2)" for d
      using work [OF assms(1) _ y, of "ps[i := Holding d]" d kv dl clock] assms(1,2) by simp
    moreover have "ps[i := Resting] = ps" using assms(3) by (metis list_update_id)
    then have "lease_step r kv dl clock rcs a (ps[i := Finished], w2) (Drop i) (ps, w3)"
      using drop [OF assms(1) _ z, of "ps[i := Finished]" kv dl clock] assms(1-3) by simp
    ultimately show ?thesis using t True by auto
  qed
qed

subsection \<open>The property of the lease\<close>

text \<open>
  C24. Two reconcilers never hold the lease of one alert at the same time, so they do not both
  work on it: from a state in which none visits the alert, however the visits of any number of
  reconcilers with different owner names interleave and whatever Redis commands fail, at most one
  of them is between getting the lease and the end of its work, and the lease key names that one;
  and each pass of a reconciler over the alert is such a visit: it works only after it got the lease
  and releases it only after the work. Supposed is that no reconciler overruns its lease
  (\<open>lease_run\<close>: with 30 seconds it can, and then another one takes the alert) and that no ingest
  request marks the alert as published meanwhile.
\<close>

theorem lease_exclusive:
  assumes "redis_ok r kv p" "timed_ok r kv dl clock" "script_ok r kv dl"
    and "\<forall>rc \<in> set rcs. 0 < rc_lease rc" "distinct (map rc_owner rcs)"
    and "lease_run r kv dl clock rcs a (replicate (length rcs) Resting, w) evs (ps, w')"
    and "i < length rcs" "j < length rcs"
  shows "(\<forall>d e. ps ! i = Holding d \<and> ps ! j = Holding e \<longrightarrow> i = j)
    \<and> (\<forall>d. ps ! i = Holding d \<longrightarrow> kv w' (wal_lease_key a) = Some (rc_owner (rcs ! i)))
    \<and> (ps ! i = Resting \<longrightarrow> (\<forall>b res w''. process_batch (rcs ! i) r b [a] w' = (res, w'') \<longrightarrow>
         lease_step r kv dl clock rcs a (ps, w') (Take i) (ps, w'')
         \<or> (\<exists>d w1 w2. lease_step r kv dl clock rcs a (ps, w') (Take i) (ps[i := Holding d], w1)
              \<and> lease_step r kv dl clock rcs a (ps[i := Holding d], w1) (Work i) (ps[i := Finished], w2)
              \<and> lease_step r kv dl clock rcs a (ps[i := Finished], w2) (Drop i) (ps, w''))))"
proof -
  have "lease_inv kv dl rcs a (replicate (length rcs) Resting, w)" by (auto simp: lease_inv_def)
  then have inv: "lease_inv kv dl rcs a (ps, w')" by (rule inv_run [OF assms(1-6)])
  from one_holder [OF inv assms(5,7,8)] lease_invD(2) [OF inv assms(7)]
    batch_visit [OF assms(7) lease_invD(1) [OF inv]]
  show ?thesis by blast
qed

text \<open>Two reconcilers at a Redis with a clock: the second one asks ten seconds after the first got the lease.\<close>

definition timed_reconciler :: "string \<Rightarrow> timed_store reconciler" where
  "timed_reconciler owner =
     \<lparr>rc_lib = demo_lib [(''{}'', JDict [])],
      rc_nats = \<lparr>nt_connect = (\<lambda>s c n. ret_io ()), nt_jetstream = ret_io (), nt_js_publish = (\<lambda>s p h. ret_io ()),
        nt_publish = (\<lambda>s p h. ret_io ()), nt_pull_subscribe = (\<lambda>f d a m. ret_io ()), nt_drain = ret_io ()\<rparr>,
      rc_client = Some timed_redis,
      rc_publish_subject_for = (\<lambda>d. Inr ''alerts.v1.acme.splunk.a1''), rc_max_age = 86400,
      rc_lease = 30, rc_owner = owner, rc_dlq = None, rc_now = (\<lambda>w. (tm_now w, w))\<rparr>"

lemma timed_script_ok: "script_ok timed_redis timed_view timed_deadline"
  by (auto simp: script_ok_def timed_redis_def)

theorem lease_exclusive_witness:
  "\<exists>w' d. lease_run timed_redis timed_view timed_deadline tm_now
      [timed_reconciler ''one'', timed_reconciler ''two''] ''a1''
      ([Resting, Resting], \<lparr>tm_keys = Map.empty, tm_now = 0\<rparr>) [Take 0, Pass, Take 1] ([Holding d, Resting], w')
    \<and> timed_view w' (wal_lease_key ''a1'') = Some ''one''"
proof -
  let ?rcs = "[timed_reconciler ''one'', timed_reconciler ''two'']" and ?w = "\<lparr>tm_keys = Map.empty, tm_now = 0\<rparr>"
  let ?run = "lease_run timed_redis timed_view timed_deadline tm_now ?rcs ''a1''"
  let ?step = "lease_step timed_redis timed_view timed_deadline tm_now ?rcs ''a1''"
  let ?w1 = "timed_put (wal_lease_key ''a1'') ''one'' 30 ?w" and ?ps = "[Holding 30, Resting]"
  have a0: "acquire_lease (?rcs ! 0) timed_redis ''a1'' ?w = (Inr True, ?w1)"
    by (simp add: acquire_lease_def timed_redis_def timed_reconciler_def timed_view_def)
  have s0: "?step ([Resting, Resting], ?w) (Take 0) (?ps, ?w1)"
    using take [OF _ _ a0, of "[Resting, Resting]" timed_view timed_deadline tm_now]
    by (simp add: timed_reconciler_def)
  have "tm_now ?w1 \<le> 10" by simp
  then have s1: "?step (?ps, ?w1) Pass (?ps, ?w1\<lparr>tm_now := 10\<rparr>)"
    by (intro pass timed_later)
  have held: "timed_view (?w1\<lparr>tm_now := 10\<rparr>) (wal_lease_key ''a1'') = Some ''one''"
    by (simp add: timed_view_def timed_put_def alive_def)
  have a1: "acquire_lease (?rcs ! 1) timed_redis ''a1'' (?w1\<lparr>tm_now := 10\<rparr>) = (Inr False, ?w1\<lparr>tm_now := 10\<rparr>)"
    using held by (simp add: acquire_lease_def timed_redis_def)
  have s2: "?step (?ps, ?w1\<lparr>tm_now := 10\<rparr>) (Take 1) (?ps, ?w1\<lparr>tm_now := 10\<rparr>)"
    using take [OF _ _ a1, of ?ps timed_view timed_deadline tm_now] by simp
  have t: "in_time tm_now ([Resting, Resting], ?w)" "in_time tm_now (?ps, ?w1)"
    "in_time tm_now (?ps, ?w1\<lparr>tm_now := 10\<rparr>)"
    by (auto simp: in_time_def nth_Cons split: nat.splits)
  have run: "?run ([Resting, Resting], ?w) [Take 0, Pass, Take 1] (?ps, ?w1\<lparr>tm_now := 10\<rparr>)"
    by (rule lease_cons [OF t(1) s0 lease_cons [OF t(2) s1 lease_cons [OF t(3) s2 lease_nil [OF t(3)]]]])
  then have run': "?run (replicate (length ?rcs) Resting, ?w) [Take 0, Pass, Take 1] (?ps, ?w1\<lparr>tm_now := 10\<rparr>)"
    by (simp add: numeral_2_eq_2)
  have h: "\<forall>rc \<in> set ?rcs. 0 < rc_lease rc" "distinct (map rc_owner ?rcs)"
    by (simp_all add: timed_reconciler_def)
  have "timed_view (?w1\<lparr>tm_now := 10\<rparr>) (wal_lease_key ''a1'') = Some (rc_owner (?rcs ! 0))"
    using lease_exclusive [OF timed_redis_ok timed_redis_timed timed_script_ok h run', of 0 1] by simp
  with run show ?thesis by (auto simp: timed_reconciler_def)
qed

end
