(* ===== verification/Tracing.thy ===== *)
theory Tracing
  imports Json
begin

section \<open>services/_runtime/otel.py, observability/tracer.py and langfuse_client.py\<close>

text \<open>
  The tracing that wraps the program: initialisation with its fallbacks, the trace context in message
  headers, and the span context managers. The tracing libraries are parameters. A \<open>with\<close>
  statement over a generator-based context manager is written out as \<open>contextlib\<close> runs it: the body runs
  at the \<open>yield\<close>, its exception is thrown in there, and a generator that yields again makes
  \<open>RuntimeError\<close>.
\<close>

subsection \<open>otel.py\<close>

datatype span_obj = Span nat | NoOpSpan

record 'w otel =
  ot_setup :: "string \<Rightarrow> string \<Rightarrow> bool \<Rightarrow> ('w, unit) io"
  ot_get_tracer :: "string \<Rightarrow> ('w, nat) io"
  ot_span_valid :: "('w, bool) io"
  ot_inject :: "(string \<times> string) list \<Rightarrow> ('w, (string \<times> string) list) io"
  ot_extract :: "(string \<times> string) list \<Rightarrow> ('w, nat) io"
  ot_enter :: "string \<Rightarrow> jdict \<Rightarrow> ('w, nat) io"
  ot_set_attribute :: "nat \<Rightarrow> string \<Rightarrow> json \<Rightarrow> ('w, unit) io"
  ot_exit :: "nat \<Rightarrow> exn option \<Rightarrow> ('w, unit) io"
  ot_time :: "'w \<Rightarrow> rat \<times> 'w"

definition otel_endpoint :: "environ \<Rightarrow> string" where
  "otel_endpoint env = env_or env ''OTEL_EXPORTER_OTLP_ENDPOINT'' ''http://localhost:4317''"

definition otel_service :: "environ \<Rightarrow> string option \<Rightarrow> string" where
  "otel_service env service_name =
     (if opt_true service_name then the service_name else env_or env ''OTEL_SERVICE_NAME'' ''soc-triage'')"

text \<open>The flag \<open>_initialised\<close> goes in and comes out.\<close>

definition init_otel :: "'w otel \<Rightarrow> environ \<Rightarrow> string option \<Rightarrow> bool \<Rightarrow> ('w, bool) io" where
  "init_otel lib env service_name initialised =
     (if initialised then ret_io True
      else if env ''OTEL_DISABLED'' = Some ''1'' then ret_io True
      else
        (let endpoint = otel_endpoint env in
         try_io
           (bind_io (ot_setup lib endpoint (otel_service env service_name) (starts_with endpoint ''http://''))
              (\<lambda>_. ret_io True))
           (\<lambda>exc. ret_io True)))"

datatype tracer_obj = Tracer nat | NoOpTracer

definition otel_get_tracer :: "'w otel \<Rightarrow> string \<Rightarrow> ('w, tracer_obj) io" where
  "otel_get_tracer lib name =
     try_io (bind_io (ot_get_tracer lib name) (\<lambda>t. ret_io (Tracer t))) (\<lambda>exc. ret_io NoOpTracer)"

definition inject_trace_id_into_headers ::
    "'w otel \<Rightarrow> (string \<times> string) list option \<Rightarrow> ('w, (string \<times> string) list) io" where
  "inject_trace_id_into_headers lib headers =
     (let h = (case headers of None \<Rightarrow> [] | Some h \<Rightarrow> h) in
      try_io
        (bind_io (ot_span_valid lib) (\<lambda>valid. if valid then ot_inject lib h else ret_io h))
        (\<lambda>exc. ret_io h))"

definition extract_trace_context ::
    "'w otel \<Rightarrow> (string \<times> string) list option \<Rightarrow> ('w, nat option) io" where
  "extract_trace_context lib headers =
     (case headers of
        None \<Rightarrow> ret_io None
      | Some h \<Rightarrow>
          if h = [] then ret_io None
          else try_io (bind_io (ot_extract lib h) (\<lambda>c. ret_io (Some c))) (\<lambda>exc. ret_io None))"

text \<open>
  \<open>with span(name): body\<close>. When the span cannot be opened the body runs under the no-op span. The
  \<open>except\<close> around the \<open>yield\<close> also catches what the body raises, and yields a second time.
\<close>

definition otel_span :: "'w otel \<Rightarrow> string \<Rightarrow> jdict \<Rightarrow> (span_obj \<Rightarrow> ('w, 'a) io) \<Rightarrow> ('w, 'a) io" where
  "otel_span lib name attributes body w =
     (case ot_enter lib name attributes w of
        (Inl e, w1) \<Rightarrow> body NoOpSpan w1
      | (Inr sp, w1) \<Rightarrow>
          (case body (Span sp) w1 of
             (Inr x, w2) \<Rightarrow>
               (case ot_exit lib sp None w2 of
                  (Inr _, w3) \<Rightarrow> (Inr x, w3)
                | (Inl e, w3) \<Rightarrow> (Inl (RuntimeError ''generator did not stop''), w3))
           | (Inl e, w2) \<Rightarrow>
               (case ot_exit lib sp (Some e) w2 of
                  (_, w3) \<Rightarrow> (Inl (RuntimeError ''generator did not stop after throw()''), w3))))"

subsection \<open>tracer.py\<close>

text \<open>A span of the library itself: its exit sees the exception of the body and lets it through.\<close>

definition with_span :: "'w otel \<Rightarrow> string \<Rightarrow> jdict \<Rightarrow> (nat \<Rightarrow> ('w, 'a) io) \<Rightarrow> ('w, 'a) io" where
  "with_span lib name attributes body =
     bind_io (ot_enter lib name attributes) (\<lambda>sp.
     bind_io (catch_io (body sp)) (\<lambda>r.
     bind_io (ot_exit lib sp (case r of Inl e \<Rightarrow> Some e | Inr x \<Rightarrow> None)) (\<lambda>_.
       of_result r)))"

record soc_tracer =
  so_enabled :: bool
  so_tracer :: bool

definition SOCTracer_init :: "'w otel \<Rightarrow> bool \<Rightarrow> ('w, soc_tracer) io" where
  "SOCTracer_init lib enabled =
     (if \<not> enabled then ret_io \<lparr>so_enabled = False, so_tracer = False\<rparr>
      else
        try_io
          (bind_io (ot_get_tracer lib ''soc-triage-agent'') (\<lambda>t.
             ret_io \<lparr>so_enabled = True, so_tracer = True\<rparr>))
          (\<lambda>exc. ret_io \<lparr>so_enabled = True, so_tracer = False\<rparr>))"

definition trace_alert ::
    "'w otel \<Rightarrow> soc_tracer \<Rightarrow> string \<Rightarrow> string option \<Rightarrow> (span_obj \<Rightarrow> ('w, 'a) io) \<Rightarrow> ('w, 'a) io" where
  "trace_alert lib tr alert_id run_id body =
     (if \<not> so_enabled tr \<or> \<not> so_tracer tr then body NoOpSpan
      else with_span lib ''soc.triage''
        [(''alert.id'', JStr alert_id), (''run.id'', JStr (case run_id of None \<Rightarrow> [] | Some r \<Rightarrow> r)),
         (''service.name'', JStr ''soc-triage-agent'')] (\<lambda>sp. body (Span sp)))"

definition ot_now :: "'w otel \<Rightarrow> ('w, rat) io" where
  "ot_now lib w = (case ot_time lib w of (t, w') \<Rightarrow> (Inr t, w'))"

definition trace_node ::
    "'w otel \<Rightarrow> soc_tracer \<Rightarrow> string \<Rightarrow> (span_obj \<Rightarrow> ('w, 'a) io) \<Rightarrow> ('w, 'a) io" where
  "trace_node lib tr node_name body =
     (if \<not> so_enabled tr \<or> \<not> so_tracer tr then body NoOpSpan
      else with_span lib (''soc.node.'' @ node_name) [] (\<lambda>sp.
        bind_io (ot_now lib) (\<lambda>start.
          finally_io (body (Span sp))
            (bind_io (ot_now lib) (\<lambda>now.
               ot_set_attribute lib sp ''node.latency_ms'' (JInt (trunc_rat ((now - start) * 1000))))))))"

subsection \<open>langfuse_client.py\<close>

record langfuse_state =
  lf_client :: bool
  lf_enabled :: bool

record 'w langfuse =
  lf_new :: "string \<Rightarrow> string \<Rightarrow> string \<Rightarrow> ('w, unit) io"
  lf_handler :: "('w, unit) io"
  lf_flush :: "('w, unit) io"

fun first_text :: "string list \<Rightarrow> string \<Rightarrow> string" where
  "first_text [] dflt = dflt"
| "first_text (s # ss) dflt = (if s = [] then first_text ss dflt else s)"

definition resolved_base :: "environ \<Rightarrow> string \<Rightarrow> string" where
  "resolved_base env host =
     first_text [str_strip host, str_strip (getenv env ''LANGFUSE_BASE_URL''),
       str_strip (getenv env ''LANGFUSE_HOST'')] ''https://cloud.langfuse.com''"

definition connect_langfuse ::
    "'w langfuse \<Rightarrow> environ \<Rightarrow> string \<Rightarrow> string \<Rightarrow> string \<Rightarrow> bool \<Rightarrow> langfuse_state \<Rightarrow> ('w, langfuse_state) io" where
  "connect_langfuse lib env secret_key public_key host enabled st =
     (if \<not> enabled then ret_io st
      else if lf_client st then ret_io st
      else
        try_io
          (bind_io (lf_new lib (first_text [public_key] (getenv env ''LANGFUSE_PUBLIC_KEY''))
              (first_text [secret_key] (getenv env ''LANGFUSE_SECRET_KEY'')) (resolved_base env host)) (\<lambda>_.
             ret_io \<lparr>lf_client = True, lf_enabled = True\<rparr>))
          (\<lambda>exc. ret_io \<lparr>lf_client = False, lf_enabled = False\<rparr>))"

definition is_enabled :: "langfuse_state \<Rightarrow> bool" where
  "is_enabled st \<longleftrightarrow> lf_enabled st \<and> lf_client st"

definition get_langfuse_handler :: "'w langfuse \<Rightarrow> langfuse_state \<Rightarrow> ('w, bool) io" where
  "get_langfuse_handler lib st =
     (if \<not> is_enabled st then ret_io False
      else try_io (bind_io (lf_handler lib) (\<lambda>_. ret_io True)) (\<lambda>exc. ret_io False))"

definition langfuse_flush :: "'w langfuse \<Rightarrow> langfuse_state \<Rightarrow> ('w, unit) io" where
  "langfuse_flush lib st =
     (if lf_client st then try_io (lf_flush lib) (\<lambda>exc. ret_io ()) else ret_io ())"

text \<open>\<open>get_settings()\<close> may raise.\<close>

definition prompt_management_enabled :: "langfuse_state \<Rightarrow> exn + bool \<Rightarrow> bool" where
  "prompt_management_enabled st setting =
     (is_enabled st \<and> (case setting of Inl e \<Rightarrow> False | Inr b \<Rightarrow> b))"

subsection \<open>Tracing does not disturb the program, but for one context manager\<close>

lemma no_raise_tracing [no_raise_intros]:
  "no_raise (init_otel lib env service_name i)"
  "no_raise (otel_get_tracer lib name)"
  "no_raise (inject_trace_id_into_headers lib h)"
  "no_raise (SOCTracer_init lib enabled)"
  "no_raise (connect_langfuse lf env sk pk host enabled st)"
  "no_raise (get_langfuse_handler lf st)"
  "no_raise (langfuse_flush lf st)"
  unfolding init_otel_def otel_get_tracer_def inject_trace_id_into_headers_def SOCTracer_init_def
    connect_langfuse_def get_langfuse_handler_def langfuse_flush_def Let_def
  by (intro no_raise_intros)+

lemma no_raise_extract_context: "no_raise (extract_trace_context lib h)"
  unfolding extract_trace_context_def by (auto intro!: no_raise_intros split: option.splits)

text \<open>
  An exception of the code under \<open>otel.span\<close> does not reach the caller: once the span is open,
  the caller sees a \<open>RuntimeError\<close> of the context manager instead, whatever was raised. \<open>trace_node\<close>
  lets it through, when the library's own calls do not fail.
\<close>

theorem span_masks_exceptions:
  assumes "ot_enter lib name attributes w = (Inr sp, w1)" "body (Span sp) w1 = (Inl e, w2)"
  shows "\<exists>m w3. otel_span lib name attributes body w = (Inl (RuntimeError m), w3)"
  using assms by (auto simp: otel_span_def split: prod.splits)

definition demo_otel :: "nat otel" where
  "demo_otel =
     \<lparr>ot_setup = (\<lambda>e n i. ret_io ()), ot_get_tracer = (\<lambda>n. ret_io 0), ot_span_valid = ret_io True,
      ot_inject = (\<lambda>h. ret_io (h @ [(''traceparent'', ''00'')])), ot_extract = (\<lambda>h. ret_io 0),
      ot_enter = (\<lambda>n a w. (Inr w, Suc w)), ot_set_attribute = (\<lambda>s k v. ret_io ()),
      ot_exit = (\<lambda>s e. ret_io ()), ot_time = (\<lambda>w. (of_nat w, Suc w))\<rparr>"

theorem span_masks_exceptions_witness:
  "\<exists>m w3. otel_span demo_otel ''triage'' [] (\<lambda>sp. raise_io (KeyError ''alert_id'')) 7
     = (Inl (RuntimeError m) :: exn + json, w3)"
  by (rule span_masks_exceptions) (simp_all add: demo_otel_def ret_io_def raise_io_def)

lemma trace_node_transparent:
  assumes "\<And>sp r. no_raise (ot_exit lib sp r)" "\<And>sp k v. no_raise (ot_set_attribute lib sp k v)"
    and "so_enabled tr" "so_tracer tr" "ot_enter lib (''soc.node.'' @ n) [] w = (Inr sp, w1)"
    and "ot_time lib w1 = (t, w2)" "body (Span sp) w2 = (r, w3)"
  shows "\<exists>w4. trace_node lib tr n body w = (r, w4)"
proof -
  obtain t' w4 where t: "ot_time lib w3 = (t', w4)" by (rule prod.exhaust)
  obtain w5 where a: "ot_set_attribute lib sp ''node.latency_ms'' (JInt (trunc_rat ((t' - t) * 1000))) w4 = (Inr (), w5)"
    using assms(2) by (metis no_raiseE old.unit.exhaust)
  obtain w6 where e: "ot_exit lib sp (case r of Inl e \<Rightarrow> Some e | Inr x \<Rightarrow> None) w5 = (Inr (), w6)"
    using assms(1) by (metis no_raiseE old.unit.exhaust)
  show ?thesis
    using assms(3-7) t a e
    by (simp add: trace_node_def with_span_def ot_now_def bind_io_def catch_io_def finally_io_def split: sum.splits)
qed

end
