(* ===== verification/Wal_Loop.thy ===== *)
theory Wal_Loop
  imports Runtime_Glue
begin

section \<open>services/_runtime/ingest_reconciler.py: the background task\<close>

text \<open>
  The task that drains the write-ahead log every few seconds: its start and stop, its loop, and what
  a pass achieves once NATS is back. The broker is an object the passes share: when a pass raises, the
  broker is left in a state the model does not determine (the second component of a round).
\<close>

subsection \<open>The loop\<close>

definition loop_pass :: "'w reconciler \<Rightarrow> broker \<Rightarrow> broker \<Rightarrow> ('w, broker) io" where
  "loop_pass rc b b_exn =
     try_io (bind_io (run_once rc b) (\<lambda>(n, b'). ret_io b')) (\<lambda>exc. ret_io b_exn)"

text \<open>
  \<open>_loop\<close>: one round per pass, with whether the stop event came before the scan interval was over.
  The list ends when the event does not come any more.
\<close>

fun reconciler_loop :: "'w reconciler \<Rightarrow> broker \<Rightarrow> (bool \<times> broker) list \<Rightarrow> ('w, broker) io" where
  "reconciler_loop rc b [] = ret_io b"
| "reconciler_loop rc b ((stopped, b_exn) # rounds) =
     bind_io (loop_pass rc b b_exn) (\<lambda>b'.
       if stopped then ret_io b' else reconciler_loop rc b' rounds)"

datatype task_state = NoTask | RunningTask | DoneTask

record rec_task =
  rk_task :: task_state
  rk_stop :: bool
  rk_client :: bool

definition reconciler_start :: "rec_task \<Rightarrow> rec_task" where
  "reconciler_start t =
     (if rk_task t = RunningTask then t else t\<lparr>rk_task := RunningTask, rk_stop := False\<rparr>)"

text \<open>
  \<open>stop\<close> waits five seconds for the task and cancels it then; either way it has ended. Closing the
  client may raise.
\<close>

definition reconciler_stop :: "('w, unit) io \<Rightarrow> rec_task \<Rightarrow> ('w, rec_task) io" where
  "reconciler_stop aclose t =
     (let t' = t\<lparr>rk_stop := True, rk_task := (if rk_task t = NoTask then NoTask else DoneTask)\<rparr>
      in if rk_client t then bind_io aclose (\<lambda>_. ret_io t') else ret_io t')"

text \<open>\<open>reconciler_from_env\<close>: the address of Redis and the resolver; the other settings have defaults.\<close>

definition reconciler_redis_url :: "environ \<Rightarrow> string" where
  "reconciler_redis_url env =
     (case env ''REDIS_URL'' of None \<Rightarrow> ''redis://localhost:6379/0'' | Some u \<Rightarrow> u)"

subsection \<open>NATS is back\<close>

definition nats_up :: "'w nats \<Rightarrow> bool" where
  "nats_up nt \<longleftrightarrow> (\<forall>s c n. no_raise (nt_connect nt s c n)) \<and> no_raise (nt_jetstream nt)
     \<and> (\<forall>s p h. no_raise (nt_js_publish nt s p h))"

definition broker_ok :: "broker \<Rightarrow> bool" where
  "broker_ok b \<longleftrightarrow> (nb_connected b \<longrightarrow> nb_js b)"

lemma connect_acked:
  assumes "nats_up nt" "broker_ok b"
  shows "\<exists>b' w'. broker_connect nt b w = (Inr b', w') \<and> nb_connected b' \<and> nb_js b'"
proof (cases "nb_connected b")
  case True
  then show ?thesis using assms(2) by (simp add: broker_connect_def broker_ok_def)
next
  case False
  let ?creds = "case nb_creds_path b of None \<Rightarrow> None | Some p \<Rightarrow> if p = [] then None else Some p"
  obtain u1 w1 where c: "nt_connect nt (nb_servers b) ?creds (nb_name b) w = (Inr u1, w1)"
    using assms(1) unfolding nats_up_def by (meson no_raiseE)
  obtain u2 w2 where j: "nt_jetstream nt w1 = (Inr u2, w2)"
    using assms(1) unfolding nats_up_def by (meson no_raiseE)
  show ?thesis using False c j by (simp add: broker_connect_def bind_io_def catch_io_def)
qed

lemma publish_acked:
  assumes "nats_up nt" "broker_ok b"
  shows "\<exists>b' w'. broker_publish nt b s p m h True w = (Inr (True, b'), w') \<and> broker_ok b'"
proof -
  obtain b1 w1 where b1: "(if nb_connected b then ret_io b else broker_connect nt b) w = (Inr b1, w1)"
      "nb_connected b1" "nb_js b1"
    using connect_acked[OF assms, of w] assms(2)
    by (cases "nb_connected b") (auto simp: broker_ok_def)
  obtain u w2 where "nt_js_publish nt s p (all_headers m h) w1 = (Inr u, w2)"
    using assms(1) unfolding nats_up_def by (meson no_raiseE)
  with b1 show ?thesis by (auto simp: broker_publish_def bind_io_def try_io_def broker_ok_def)
qed

subsection \<open>A pass over alerts that are due\<close>

text \<open>
  An entry is due: it is a JSON object with a subject, nobody holds its lease, and its retry time is
  unset or past. Alert identifiers that end like a retry key (\<open>x:next\<close>) share keys with others and are
  excluded.
\<close>

definition past_due :: "'w reconciler \<Rightarrow> string option \<Rightarrow> bool" where
  "past_due rc nx \<longleftrightarrow> (case nx of None \<Rightarrow> True
     | Some s \<Rightarrow> s = [] \<or> (\<exists>t. float_parse (rc_lib rc) s = Inr t \<and> (\<forall>w. t \<le> fst (rc_now rc w))))"

definition due :: "'w reconciler \<Rightarrow> kv \<Rightarrow> string \<Rightarrow> bool" where
  "due rc m a \<longleftrightarrow>
     (\<exists>s payload subject. m (wal_pending_key a) = Some s \<and> s \<noteq> []
        \<and> json_loads (rc_lib rc) s = Inr (JDict payload) \<and> rc_publish_subject_for rc payload = Inr subject)
     \<and> m (wal_lease_key a) = None \<and> past_due rc (m (wal_next_key a))"

definition plain_ids :: "string set \<Rightarrow> bool" where
  "plain_ids A \<longleftrightarrow> (\<forall>a \<in> A. \<forall>b \<in> A. wal_next_key a \<noteq> wal_attempts_key b)"

text \<open>Releasing a lease touches no other key; the scan yields the pending keys, perhaps twice.\<close>

definition release_frame :: "'w redis \<Rightarrow> ('w \<Rightarrow> kv) \<Rightarrow> bool" where
  "release_frame r kv \<longleftrightarrow> (\<forall>k owner w j. j \<noteq> k \<longrightarrow> kv (snd (rd_eval r release_script [k] [owner] w)) j = kv w j)"

definition scan_ok :: "'w redis \<Rightarrow> ('w \<Rightarrow> kv) \<Rightarrow> 'w \<Rightarrow> bool" where
  "scan_ok r kv w \<longleftrightarrow> (\<exists>keys w'. rd_scan_iter r ''pending_alert:*'' w = (Inr keys, w') \<and> kv w' = kv w
     \<and> set keys = {k. kv w k \<noteq> None \<and> starts_with k ''pending_alert:''})"

text \<open>
  What is published for an entry: the subject and the text of its payload. \<open>logs_into\<close>: an
  acknowledged publish puts its message into \<open>S\<close>, and nothing else the pass does takes one out.
\<close>

definition entry_message :: "'w reconciler \<Rightarrow> kv \<Rightarrow> string \<Rightarrow> (string \<times> string) option" where
  "entry_message rc m a =
     (case m (wal_pending_key a) of
        None \<Rightarrow> None
      | Some s \<Rightarrow>
          (case json_loads (rc_lib rc) s of
             Inr (JDict payload) \<Rightarrow>
               (case rc_publish_subject_for rc payload of
                  Inl e \<Rightarrow> None
                | Inr subject \<Rightarrow> Some (subject, json_dumps (rc_lib rc) (JDict payload)))
           | _ \<Rightarrow> None))"

definition logs_into ::
    "'w reconciler \<Rightarrow> 'w redis \<Rightarrow> ('w \<Rightarrow> 'm set) \<Rightarrow> (string \<Rightarrow> string \<Rightarrow> string \<Rightarrow> 'm) \<Rightarrow> bool" where
  "logs_into rc r S msg \<longleftrightarrow>
     (\<forall>b subject text a w b' w'. broker_publish (rc_nats rc) b subject text (Some a) [] True w = (Inr (True, b'), w')
        \<longrightarrow> msg subject text a \<in> S w')
     \<and> (\<forall>a w. S w \<subseteq> S (snd (mark_published rc a w))) \<and> (\<forall>a w. S w \<subseteq> S (snd (release_lease rc r a w)))
     \<and> (\<forall>b ids w. S w \<subseteq> S (snd (process_batch rc r b ids w)))"

lemma logs_intoD:
  assumes "logs_into rc r S msg"
  shows "broker_publish (rc_nats rc) b subject text (Some a) [] True w = (Inr (True, b'), w') \<Longrightarrow> msg subject text a \<in> S w'"
    and "mark_published rc a w = (res, w') \<Longrightarrow> x \<in> S w \<Longrightarrow> x \<in> S w'"
    and "release_lease rc r a w = (res, w') \<Longrightarrow> x \<in> S w \<Longrightarrow> x \<in> S w'"
    and "process_batch rc r b ids w = (res', w') \<Longrightarrow> x \<in> S w \<Longrightarrow> x \<in> S w'"
  using assms unfolding logs_into_def by (blast, (metis snd_conv subsetD)+)

lemma due_not_waiting:
  assumes "past_due rc nx" "clock_frame rc kv"
  shows "\<exists>w'. backing_off rc nx w = (Inr False, w') \<and> kv w' = kv w"
proof (cases nx)
  case None
  then show ?thesis by (simp add: backing_off_def)
next
  case (Some s)
  show ?thesis
  proof (cases "s = []")
    case False
    then obtain t where t: "float_parse (rc_lib rc) s = Inr t" "t \<le> fst (rc_now rc w)"
      using assms(1) Some by (auto simp: past_due_def)
    obtain now w' where "rc_time rc w = (Inr now, w')" "kv w' = kv w" "now = fst (rc_now rc w)"
      using assms(2) by (rule rc_timeE)
    then show ?thesis using Some False t by (auto simp: backing_off_def not_less)
  qed (simp add: Some backing_off_def)
qed

lemma process_one_due:
  assumes "redis_ok r kv p" "redis_up r" "rc_client rc = Some r" "nats_frame (rc_nats rc) kv" "clock_frame rc kv"
    and "nats_up (rc_nats rc)" "broker_ok b"
    and "\<exists>s payload subject. kv w (wal_pending_key a) = Some s \<and> s \<noteq> []
        \<and> json_loads (rc_lib rc) s = Inr (JDict payload) \<and> rc_publish_subject_for rc payload = Inr subject"
    and "past_due rc (kv w (wal_next_key a))" "logs_into rc r S msg"
  shows "\<exists>b' w'. process_one rc r b a w = (Inr b', w') \<and> broker_ok b'
    \<and> kv w' = del_keys [wal_pending_key a, wal_lease_key a, wal_attempts_key a] (kv w)
    \<and> (\<forall>subject text. entry_message rc (kv w) a = Some (subject, text) \<longrightarrow> msg subject text a \<in> S w')"
proof -
  obtain s payload subject where s: "kv w (wal_pending_key a) = Some s" "s \<noteq> []"
      "json_loads (rc_lib rc) s = Inr (JDict payload)" "rc_publish_subject_for rc payload = Inr subject"
    using assms(8) by blast
  obtain v1 w1 where g1: "rd_get r (wal_pending_key a) w = (Inr v1, w1)"
    using redis_upE(1) [OF assms(2)] by (rule no_raiseE)
  note k1 = rd_get_Inr [OF assms(1) g1]
  obtain n w2 where i: "rd_incr r (wal_attempts_key a) w1 = (Inr n, w2)"
    using redis_upE(5) [OF assms(2)] by (rule no_raiseE)
  obtain u w3 where e: "rd_expire r (wal_attempts_key a) (rc_max_age rc) w2 = (Inr u, w3)"
    using redis_upE(6) [OF assms(2)] by (rule no_raiseE)
  have k3: "kv w3 = (kv w)(wal_attempts_key a \<mapsto> show_int n)"
    using rd_incr_Inr [OF assms(1) i] rd_expire_kv [OF assms(1) e] k1 by simp
  obtain v4 w4 where g4: "rd_get r (wal_next_key a) w3 = (Inr v4, w4)"
    using redis_upE(1) [OF assms(2)] by (rule no_raiseE)
  have k4: "v4 = kv w (wal_next_key a)" "kv w4 = kv w3"
    using rd_get_Inr [OF assms(1) g4] k3 by simp_all
  obtain w5 where t: "backing_off rc v4 w4 = (Inr False, w5)" "kv w5 = kv w4"
    using due_not_waiting [OF _ assms(5)] assms(9) k4(1) by blast
  have inc: "increment_attempts rc r a w1 = (Inr n, w3)"
    using i e by (simp add: increment_attempts_def)
  obtain b' w6 where pub: "broker_publish (rc_nats rc) b subject (json_dumps (rc_lib rc) (JDict payload)) (Some a) [] True w5
      = (Inr (True, b'), w6)" "broker_ok b'"
    using publish_acked [OF assms(6,7)] by blast
  obtain w7 where pp: "publish_pending rc r b a payload n w5 = (Inr b', w7)"
      "kv w7 = del_keys [wal_pending_key a, wal_lease_key a, wal_attempts_key a] (kv w5)"
    using publish_pending_ok [OF assms(1-4) s(4) pub(1)] by blast
  obtain u8 where mark: "mark_published rc a w6 = (Inr u8, w7)"
    using pp(1) s(4) pub(1) by (auto simp: publish_pending_def bind_io_eq_Inr)
  have "msg subject (json_dumps (rc_lib rc) (JDict payload)) a \<in> S w7"
    using logs_intoD(2) [OF assms(10) mark logs_intoD(1) [OF assms(10) pub(1)]] .
  then have log: "\<forall>sb tx. entry_message rc (kv w) a = Some (sb, tx) \<longrightarrow> msg sb tx a \<in> S w7"
    using s by (simp add: entry_message_def)
  have "process_one rc r b a w = (Inr b', w7)"
    using g1 k1 s inc g4 t(1) pp(1) by (simp add: process_one_def)
  moreover have "kv w7 = del_keys [wal_pending_key a, wal_lease_key a, wal_attempts_key a] (kv w)"
    using pp(2) t(2) k4(2) k3 by (auto simp: del_keys_def)
  ultimately show ?thesis using pub(2) log by blast
qed

text \<open>The keys that belong to an alert.\<close>

definition alert_keys :: "string \<Rightarrow> string set" where
  "alert_keys a = {wal_pending_key a, wal_lease_key a, wal_attempts_key a}"

lemma wal_keys_apart [simp]:
  "wal_lease_key a \<noteq> wal_attempts_key b" "wal_attempts_key b \<noteq> wal_lease_key a"
  "wal_lease_key a \<noteq> wal_next_key b" "wal_next_key b \<noteq> wal_lease_key a"
  by (simp_all add: wal_lease_key_def wal_next_key_def wal_attempts_key_def)

lemma keys_apart:
  assumes "plain_ids A" "a \<in> A" "c \<in> A" "c \<noteq> a"
  shows "wal_pending_key c \<notin> alert_keys a" "wal_lease_key c \<notin> alert_keys a" "wal_next_key c \<notin> alert_keys a"
  using assms unfolding alert_keys_def plain_ids_def by auto

text \<open>One alert of the batch: its entry is gone afterwards, and no key of another alert has changed.\<close>

lemma batch_step:
  assumes "redis_ok r kv p" "redis_up r" "rc_client rc = Some r" "nats_frame (rc_nats rc) kv" "clock_frame rc kv"
    and "nats_up (rc_nats rc)" "release_frame r kv" "broker_ok b"
    and "due rc (kv w) a \<or> kv w (wal_pending_key a) = None" "logs_into rc r S msg"
  shows "\<exists>b' w'. process_batch rc r b (a # rest) w = process_batch rc r b' rest w' \<and> broker_ok b'
    \<and> kv w' (wal_pending_key a) = None \<and> (\<forall>k. k \<notin> alert_keys a \<longrightarrow> kv w' k = kv w k)
    \<and> (\<forall>subject text. entry_message rc (kv w) a = Some (subject, text) \<longrightarrow> msg subject text a \<in> S w')"
proof -
  obtain got w1 where g: "acquire_lease rc r a w = (Inr got, w1)"
    unfolding acquire_lease_def using redis_upE(2) [OF assms(2)] by (rule no_raiseE)
  have k1: "got \<longleftrightarrow> kv w (wal_lease_key a) = None"
    "kv w1 = (if got then (kv w)(wal_lease_key a \<mapsto> rc_owner rc) else kv w)"
    using rd_set_nx_Inr [OF assms(1), of "wal_lease_key a" "rc_owner rc" "rc_lease rc" w got w1] g
    by (simp_all add: acquire_lease_def)
  show ?thesis
  proof (cases got)
    case False
    then have "kv w (wal_pending_key a) = None" using assms(9) k1(1) by (auto simp: due_def)
    with False g k1(2) assms(8) show ?thesis
      by (intro exI[of _ b] exI[of _ w1]) (simp add: bind_io_def entry_message_def)
  next
    case True
    have "\<exists>b' w2. process_one rc r b a w1 = (Inr b', w2) \<and> broker_ok b'
      \<and> kv w2 (wal_pending_key a) = None \<and> (\<forall>k. k \<notin> alert_keys a \<longrightarrow> kv w2 k = kv w1 k)
      \<and> (\<forall>subject text. entry_message rc (kv w) a = Some (subject, text) \<longrightarrow> msg subject text a \<in> S w2)"
    proof (cases "kv w (wal_pending_key a)")
      case None
      obtain v w2 where v: "rd_get r (wal_pending_key a) w1 = (Inr v, w2)"
        using redis_upE(1) [OF assms(2)] by (rule no_raiseE)
      with rd_get_Inr [OF assms(1) v] None True k1(2) assms(8) show ?thesis
        by (intro exI[of _ b] exI[of _ w2]) (simp add: process_one_def entry_message_def)
    next
      case (Some s)
      then have d: "due rc (kv w) a" using assms(9) by simp
      have "\<exists>s payload subject. kv w1 (wal_pending_key a) = Some s \<and> s \<noteq> []
          \<and> json_loads (rc_lib rc) s = Inr (JDict payload) \<and> rc_publish_subject_for rc payload = Inr subject"
        "past_due rc (kv w1 (wal_next_key a))"
        using d True k1(2) by (auto simp: due_def)
      moreover have "entry_message rc (kv w1) a = entry_message rc (kv w) a"
        using k1(2) True by (simp add: entry_message_def)
      ultimately obtain b2 v2 where "process_one rc r b a w1 = (Inr b2, v2)" "broker_ok b2"
          "kv v2 = del_keys [wal_pending_key a, wal_lease_key a, wal_attempts_key a] (kv w1)"
          "\<forall>subject text. entry_message rc (kv w) a = Some (subject, text) \<longrightarrow> msg subject text a \<in> S v2"
        using process_one_due [OF assms(1-6,8), of w1 a S msg] assms(10) by auto
      then show ?thesis
        by (intro exI[of _ b2] exI[of _ v2]) (simp add: del_keys_def alert_keys_def)
    qed
    then obtain b' w2 where one: "process_one rc r b a w1 = (Inr b', w2)" "broker_ok b'"
        "kv w2 (wal_pending_key a) = None" "\<forall>k. k \<notin> alert_keys a \<longrightarrow> kv w2 k = kv w1 k"
        "\<forall>subject text. entry_message rc (kv w) a = Some (subject, text) \<longrightarrow> msg subject text a \<in> S w2" by blast
    obtain res w3 where ev: "rd_eval r release_script [wal_lease_key a] [rc_owner rc] w2 = (res, w3)"
      by (rule prod.exhaust)
    have k3: "kv w3 k = kv w2 k" if "k \<noteq> wal_lease_key a" for k
      using assms(7) ev that unfolding release_frame_def by (metis snd_conv)
    have rel: "release_lease rc r a w2 = (Inr (), w3)"
      using ev by (cases res) (simp_all add: release_lease_def try_io_def bind_io_def)
    have "process_batch rc r b (a # rest) w = process_batch rc r b' rest w3"
      using g True one(1) rel by (simp add: bind_io_def finally_io_def)
    moreover have "kv w3 (wal_pending_key a) = None" using k3 one(3) by simp
    moreover have "\<forall>k. k \<notin> alert_keys a \<longrightarrow> kv w3 k = kv w k"
      using k3 one(4) k1(2) by (simp add: alert_keys_def)
    moreover have "\<forall>subject text. entry_message rc (kv w) a = Some (subject, text) \<longrightarrow> msg subject text a \<in> S w3"
      using one(5) logs_intoD(3) [OF assms(10) rel] by blast
    ultimately show ?thesis using one(2) by blast
  qed
qed

lemma batch_drains:
  assumes "redis_ok r kv p" "redis_up r" "rc_client rc = Some r" "nats_frame (rc_nats rc) kv" "clock_frame rc kv"
    and "nats_up (rc_nats rc)" "release_frame r kv" "plain_ids A"
    and "logs_into rc r S msg"
    and "broker_ok b" "set ids \<subseteq> A" "\<forall>a \<in> set ids. due rc (kv w) a \<or> kv w (wal_pending_key a) = None"
  shows "\<exists>b' w'. process_batch rc r b ids w = (Inr b', w') \<and> broker_ok b'
    \<and> (\<forall>a \<in> set ids. kv w' (wal_pending_key a) = None)
    \<and> (\<forall>a \<in> A. kv w (wal_pending_key a) = None \<longrightarrow> kv w' (wal_pending_key a) = None)
    \<and> (\<forall>a \<in> set ids. \<forall>subject text. entry_message rc (kv w) a = Some (subject, text) \<longrightarrow> msg subject text a \<in> S w')"
  using assms(10-12)
proof (induction ids arbitrary: b w)
  case (Cons a ids)
  obtain b1 w1 where st: "process_batch rc r b (a # ids) w = process_batch rc r b1 ids w1" "broker_ok b1"
      "kv w1 (wal_pending_key a) = None" "\<forall>k. k \<notin> alert_keys a \<longrightarrow> kv w1 k = kv w k"
      "\<forall>subject text. entry_message rc (kv w) a = Some (subject, text) \<longrightarrow> msg subject text a \<in> S w1"
    using batch_step [OF assms(1-7) Cons.prems(1), of w a S msg ids] Cons.prems(3) assms(9) by auto
  have same: "kv w1 (wal_pending_key c) = kv w (wal_pending_key c)" "due rc (kv w1) c = due rc (kv w) c"
    if "c \<in> A" "c \<noteq> a" for c
    using keys_apart [OF assms(8) _ that] Cons.prems(2) st(4) by (simp_all add: due_def)
  have rest: "\<forall>c \<in> set ids. due rc (kv w1) c \<or> kv w1 (wal_pending_key c) = None"
    using same st(3) Cons.prems(2,3) by (metis list.set_intros(2) subsetD)
  obtain b2 w2 where b2: "process_batch rc r b1 ids w1 = (Inr b2, w2)" "broker_ok b2"
      "\<forall>c \<in> set ids. kv w2 (wal_pending_key c) = None"
      "\<forall>c \<in> A. kv w1 (wal_pending_key c) = None \<longrightarrow> kv w2 (wal_pending_key c) = None"
      "\<forall>c \<in> set ids. \<forall>subject text. entry_message rc (kv w1) c = Some (subject, text) \<longrightarrow> msg subject text c \<in> S w2"
    using Cons.IH [OF st(2) _ rest] Cons.prems(2) by auto
  have a: "a \<in> A" using Cons.prems(2) by simp
  have log: "msg sb tx c \<in> S w2"
    if "c \<in> set (a # ids)" "entry_message rc (kv w) c = Some (sb, tx)" for c sb tx
  proof (cases "c = a")
    case True
    then have "msg sb tx c \<in> S w1" using st(5) that(2) by blast
    then show ?thesis by (rule logs_intoD(4) [OF assms(9) b2(1)])
  next
    case False
    then have c: "c \<in> set ids" "c \<in> A" using that(1) Cons.prems(2) by auto
    have "entry_message rc (kv w1) c = Some (sb, tx)"
      using that(2) same(1) [OF c(2) False] by (simp add: entry_message_def)
    with b2(5) c(1) show ?thesis by blast
  qed
  have gone: "\<forall>c \<in> set (a # ids). kv w2 (wal_pending_key c) = None"
    using b2(3,4) st(3) a by auto
  have stay: "\<forall>c \<in> A. kv w (wal_pending_key c) = None \<longrightarrow> kv w2 (wal_pending_key c) = None"
    using b2(4) st(3) same(1) by metis
  from st(1) b2(1,2) log gone stay show ?case by (intro exI[of _ b2] exI[of _ w2]) simp
qed auto

text \<open>One pass, from the scan on.\<close>

lemma pass_drains:
  assumes "redis_ok r kv p" "redis_up r" "rc_client rc = Some r" "nats_frame (rc_nats rc) kv" "clock_frame rc kv"
    and "nats_up (rc_nats rc)" "release_frame r kv" "scan_ok r kv w" "broker_ok b"
    and "plain_ids {a. kv w (wal_pending_key a) \<noteq> None}"
    and "\<forall>a. kv w (wal_pending_key a) \<noteq> None \<longrightarrow> due rc (kv w) a"
    and "logs_into rc r S msg"
  shows "\<exists>n b' w'. run_once rc b w = (Inr (n, b'), w') \<and> broker_ok b'
    \<and> (\<forall>a. kv w (wal_pending_key a) \<noteq> None \<longrightarrow> kv w' (wal_pending_key a) = None
         \<and> (\<exists>subject text. entry_message rc (kv w) a = Some (subject, text) \<and> msg subject text a \<in> S w'))"
proof -
  obtain keys w1 where sc: "rd_scan_iter r ''pending_alert:*'' w = (Inr keys, w1)" "kv w1 = kv w"
      "set keys = {k. kv w k \<noteq> None \<and> starts_with k ''pending_alert:''}"
    using assms(8) unfolding scan_ok_def by blast
  let ?A = "{a. kv w (wal_pending_key a) \<noteq> None}" and ?ids = "map (\<lambda>k. drop (length ''pending_alert:'') k) keys"
  have ids: "set ?ids = ?A"
  proof -
    have "k = wal_pending_key (drop (length ''pending_alert:'') k)" if "starts_with k ''pending_alert:''" for k
      using that unfolding starts_with_def wal_pending_key_def by (metis append_take_drop_id)
    then have "a \<in> set ?ids \<longleftrightarrow> kv w (wal_pending_key a) \<noteq> None" for a
      using sc(3) scan_pattern_exact(1) [of a] by (force simp: wal_pending_key_def image_iff)
    then show ?thesis by blast
  qed
  have mem: "a \<in> set ?ids" if "kv w (wal_pending_key a) \<noteq> None" for a
    using ids that by blast
  have sub: "set ?ids \<subseteq> ?A" using ids by (rule equalityD1)
  have d: "\<forall>a \<in> set ?ids. due rc (kv w1) a \<or> kv w1 (wal_pending_key a) = None"
    using assms(11) sc(2) by auto
  have msg: "\<exists>subject text. entry_message rc (kv w) a = Some (subject, text)" if "kv w (wal_pending_key a) \<noteq> None" for a
    using assms(11) that by (auto simp: due_def entry_message_def)
  obtain b' w' where dr: "process_batch rc r b ?ids w1 = (Inr b', w')" "broker_ok b'"
      "\<forall>a \<in> set ?ids. kv w' (wal_pending_key a) = None"
      "\<forall>a \<in> set ?ids. \<forall>subject text. entry_message rc (kv w1) a = Some (subject, text) \<longrightarrow> msg subject text a \<in> S w'"
    using batch_drains [OF assms(1-7,10,12,9) sub d] by blast
  from dr(1) have "run_once rc b w = (Inr (int (length keys), b'), w')"
    unfolding run_once_def assms(3) using sc(1) by (simp del: length_Cons)
  moreover have "kv w' (wal_pending_key a) = None
      \<and> (\<exists>subject text. entry_message rc (kv w) a = Some (subject, text) \<and> msg subject text a \<in> S w')"
    if pending: "kv w (wal_pending_key a) \<noteq> None" for a
  proof -
    obtain sb tx where m: "entry_message rc (kv w1) a = Some (sb, tx)" using msg [OF pending] sc(2) by auto
    with dr(3,4) mem [OF pending] sc(2) show ?thesis by (metis (no_types, lifting))
  qed
  ultimately show ?thesis using dr(2) by blast
qed

subsection \<open>The loop\<close>

text \<open>
  The loop never ends by an exception, whatever a pass meets, and ends after the pass in whose wait
  the stop event comes: later rounds do not run.
\<close>

lemma loop_survives: "no_raise (reconciler_loop rc b rounds)"
proof (induction rc b rounds rule: reconciler_loop.induct)
  case (2 rc b stopped b_exn rounds)
  have "no_raise (loop_pass rc b b_exn)"
    unfolding loop_pass_def by (intro no_raise_intros)
  then show ?case using 2 unfolding reconciler_loop.simps by (intro no_raise_intros)
qed (simp only: reconciler_loop.simps no_raise_ret)

lemma loop_stops: "reconciler_loop rc b (map (Pair False) bs @ (True, b') # later) = reconciler_loop rc b (map (Pair False) bs @ [(True, b')])"
  by (induction bs arbitrary: b) (simp_all add: bind_io_def fun_eq_iff split: prod.splits sum.splits)

text \<open>Starting twice is starting once; a stopped reconciler can be started again.\<close>

lemma start_idempotent: "reconciler_start (reconciler_start t) = reconciler_start t"
  by (simp add: reconciler_start_def)

lemma stopped_has_no_task:
  "reconciler_stop aclose t w = (Inr t', w') \<Longrightarrow> rk_task t' \<noteq> RunningTask \<and> rk_stop t'"
  by (auto simp: reconciler_stop_def Let_def bind_io_def split: if_splits prod.splits sum.splits)

end
