(* ===== verification/Delivery.thy ===== *)
theory Delivery
  imports Wal_Loop Worker_Loop
begin

section \<open>From the ingest path to the worker\<close>

text \<open>
  The API and the reconciler publish alerts, the worker takes them: the two sides meet in the ALERTS
  stream of NATS. \<open>stream w\<close> are the messages the stream has taken so far; a publish that is
  acknowledged has appended its message, one that fails may have.
\<close>

definition stream_ok :: "'w nats \<Rightarrow> ('w \<Rightarrow> nats_msg list) \<Rightarrow> bool" where
  "stream_ok nt stream \<longleftrightarrow>
     (\<forall>s p h w r w'. nt_js_publish nt s p h w = (r, w') \<longrightarrow>
        stream w' = stream w @ [\<lparr>ms_subject = s, ms_data = p, ms_headers = h\<rparr>]
        \<or> ((\<exists>e. r = Inl e) \<and> stream w' = stream w))
     \<and> (\<forall>s c n. keeps stream (nt_connect nt s c n)) \<and> keeps stream (nt_jetstream nt)"

text \<open>Redis and the clock have no part in it.\<close>

definition redis_frame :: "'w redis \<Rightarrow> ('w \<Rightarrow> 'k) \<Rightarrow> bool" where
  "redis_frame r view \<longleftrightarrow> (\<forall>k. keeps view (rd_get r k)) \<and> (\<forall>k v t. keeps view (rd_set_nx_ex r k v t))
     \<and> (\<forall>k t v. keeps view (rd_setex r k t v)) \<and> (\<forall>ks. keeps view (rd_delete r ks))
     \<and> (\<forall>k. keeps view (rd_incr r k)) \<and> (\<forall>k t. keeps view (rd_expire r k t))
     \<and> (\<forall>s ks args. keeps view (rd_eval r s ks args)) \<and> (\<forall>p. keeps view (rd_scan_iter r p))"

lemma redis_frameD:
  assumes "redis_frame r view"
  shows "keeps view (rd_get r k)" "keeps view (rd_set_nx_ex r k v t)" "keeps view (rd_setex r k t v)"
    "keeps view (rd_delete r ks)" "keeps view (rd_incr r k)" "keeps view (rd_expire r k t)"
    "keeps view (rd_eval r s ks args)" "keeps view (rd_scan_iter r p)"
  using assms by (auto simp: redis_frame_def)

text \<open>
  \<open>appends P stream m\<close>: the coroutine \<open>m\<close> takes nothing from the stream and appends only messages
  with \<open>P\<close>.
\<close>

definition appends :: "(nats_msg \<Rightarrow> bool) \<Rightarrow> ('w \<Rightarrow> nats_msg list) \<Rightarrow> ('w, 'a) io \<Rightarrow> bool" where
  "appends P stream m \<longleftrightarrow> (\<forall>w. \<exists>ms. stream (snd (m w)) = stream w @ ms \<and> list_all P ms)"

named_theorems appends_intros "coroutines that append only messages of a kind"

lemma appendsE:
  assumes "appends P stream m" "m w = (r, w')"
  obtains ms where "stream w' = stream w @ ms" "list_all P ms"
  using assms unfolding appends_def by (metis snd_conv)

lemma appends_keeps: "keeps stream m \<Longrightarrow> appends P stream m"
  unfolding appends_def keeps_def by (metis append_Nil2 list.pred_inject(1))

lemma appends_ret [appends_intros]:
  "appends P stream (ret_io x)" "appends P stream (raise_io e)" "appends P stream (of_result y)"
  by (intro appends_keeps keeps_intros)+

lemma appends_bind [appends_intros]:
  assumes "appends P stream m" "\<And>x. appends P stream (f x)"
  shows "appends P stream (bind_io m f)"
  unfolding appends_def
proof
  fix w
  obtain r w1 where m: "m w = (r, w1)" by (rule prod.exhaust)
  obtain ms where ms: "stream w1 = stream w @ ms" "list_all P ms"
    using assms(1) m by (rule appendsE)
  show "\<exists>ms. stream (snd (bind_io m f w)) = stream w @ ms \<and> list_all P ms"
  proof (cases r)
    case (Inr x)
    obtain ms' where "stream (snd (f x w1)) = stream w1 @ ms'" "list_all P ms'"
      using assms(2) unfolding appends_def by blast
    with m ms Inr show ?thesis by (intro exI[of _ "ms @ ms'"]) simp
  qed (use m ms in \<open>auto simp: bind_io_def\<close>)
qed

lemma appends_catch [appends_intros]: "appends P stream m \<Longrightarrow> appends P stream (catch_io m)"
  unfolding appends_def catch_io_def by (simp add: case_prod_beta)

lemma appends_try [appends_intros]:
  assumes "appends P stream m" "\<And>e. appends P stream (h e)"
  shows "appends P stream (try_io m h)"
proof -
  have "try_io m h = bind_io (catch_io m) (\<lambda>r. case r of Inl e \<Rightarrow> h e | Inr x \<Rightarrow> ret_io x)"
    by (simp add: fun_eq_iff try_io_def bind_io_def catch_io_def split: prod.splits sum.splits)
  then show ?thesis
    by (auto intro!: appends_bind appends_catch assms appends_ret split: sum.splits)
qed

lemma appends_finally [appends_intros]:
  assumes "appends P stream m" "appends P stream n"
  shows "appends P stream (finally_io m n)"
proof -
  have "finally_io m n = bind_io (catch_io m) (\<lambda>r. bind_io n (\<lambda>_. of_result r))"
    by (simp add: fun_eq_iff finally_io_def bind_io_def catch_io_def of_result_def split: prod.splits sum.splits)
  then show ?thesis by (simp add: appends_bind appends_catch appends_ret assms)
qed

lemma appends_if [appends_intros]:
  "appends P stream m \<Longrightarrow> appends P stream n \<Longrightarrow> appends P stream (if c then m else n)"
  by simp

subsection \<open>What the ingest path publishes\<close>

text \<open>A message whose only header is its message id.\<close>

definition tokenless :: "nats_msg \<Rightarrow> bool" where
  "tokenless msg \<longleftrightarrow> map_of (case ms_headers msg of None \<Rightarrow> [] | Some h \<Rightarrow> h) ''X-Service-Auth'' = None"

lemma tokenless_headers: "tokenless \<lparr>ms_subject = s, ms_data = p, ms_headers = all_headers m []\<rparr>"
  by (simp add: tokenless_def all_headers_def split: option.splits)

text \<open>What the parts of the ingest path rely on: the stream, a Redis beside it, no dead-letter publisher.\<close>

definition ingest_env :: "'w reconciler \<Rightarrow> ('w \<Rightarrow> nats_msg list) \<Rightarrow> bool" where
  "ingest_env rc stream \<longleftrightarrow> stream_ok (rc_nats rc) stream \<and> rc_dlq rc = None \<and> keeps stream (rc_time rc)
     \<and> (case rc_client rc of None \<Rightarrow> True | Some r \<Rightarrow> redis_frame r stream)"

lemma appends_publish:
  assumes "stream_ok nt stream"
  shows "appends tokenless stream (broker_publish nt b s p m [] True)"
proof -
  have conn: "appends tokenless stream (broker_connect nt b)"
    using assms unfolding stream_ok_def broker_connect_def
    by (intro appends_keeps) (auto intro!: keeps_intros split: sum.splits)
  have js: "appends tokenless stream (nt_js_publish nt s p (all_headers m []))"
    unfolding appends_def
  proof
    fix w
    obtain r w' where js: "nt_js_publish nt s p (all_headers m []) w = (r, w')" by (rule prod.exhaust)
    then have "stream w' = stream w @ [\<lparr>ms_subject = s, ms_data = p, ms_headers = all_headers m []\<rparr>]
        \<or> stream w' = stream w @ []"
      using assms unfolding stream_ok_def by fastforce
    then show "\<exists>ms. stream (snd (nt_js_publish nt s p (all_headers m []) w)) = stream w @ ms \<and> list_all tokenless ms"
      unfolding js using tokenless_headers by (metis list.pred_inject snd_conv)
  qed
  show ?thesis unfolding broker_publish_def by (auto intro!: appends_intros conn js)
qed

lemma appends_log:
  assumes "ingest_env rc stream"
  shows "appends tokenless stream (write_ahead rc a payload)" "appends tokenless stream (mark_published rc a)"
  using assms unfolding write_ahead_def mark_published_def ingest_env_def
  by (auto split: option.splits intro!: appends_keeps keeps_intros redis_frameD)

lemma appends_enqueue:
  assumes "ingest_env rc stream" "rt_reconciler st = Some rc"
  shows "appends tokenless stream (enqueue_via_nats dump dump_json (Some st) alert)"
  using assms(2) unfolding enqueue_via_nats_def Let_def
  by (auto split: option.splits intro!: appends_intros appends_log[OF assms(1)] appends_publish
      simp: assms(1)[unfolded ingest_env_def])

lemma appends_release: "redis_frame r stream \<Longrightarrow> appends P stream (release_lease rc r a)"
  unfolding release_lease_def by (intro appends_intros redis_frameD [THEN appends_keeps])

lemma appends_batch:
  assumes "ingest_env rc stream" "rc_client rc = Some r"
  shows "appends tokenless stream (process_batch rc r b ids)"
proof -
  have rf: "redis_frame r stream" and tm: "keeps stream (rc_time rc)" and dlq: "rc_dlq rc = None"
      and st: "stream_ok (rc_nats rc) stream"
    using assms by (simp_all add: ingest_env_def)
  note rd = redis_frameD [OF rf, THEN appends_keeps]
  have wait: "appends tokenless stream (backing_off rc nx)" for nx
    unfolding backing_off_def by (auto split: option.splits intro!: appends_intros appends_keeps [OF tm])
  have move: "appends tokenless stream (move_to_dlq rc r a p m)" for a p m
    unfolding move_to_dlq_def dlq by (auto intro!: appends_intros rd)
  have inc: "appends tokenless stream (increment_attempts rc r a)" for a
    unfolding increment_attempts_def by (intro appends_intros rd)
  have pub: "appends tokenless stream (publish_pending rc r b a p n)" for b a p n
    unfolding publish_pending_def Let_def
    by (auto intro!: appends_intros appends_publish [OF st] appends_log [OF assms(1)] appends_keeps [OF tm] rd move)
  have one: "appends tokenless stream (process_one rc r b a)" for b a
    unfolding process_one_def
    by (auto split: option.splits sum.splits exn.splits json.splits intro!: appends_intros rd inc wait pub)
  show ?thesis
  proof (induction ids arbitrary: b)
    case (Cons a ids)
    show ?case
      unfolding process_batch.simps acquire_lease_def
      by (intro appends_intros rd one Cons.IH appends_release [OF rf])
  qed (simp add: appends_ret)
qed

lemma appends_pass:
  assumes "ingest_env rc stream"
  shows "appends tokenless stream (run_once rc b)"
proof (cases "rc_client rc")
  case None
  then show ?thesis by (simp add: run_once_def appends_ret)
next
  case (Some r)
  then have "redis_frame r stream" using assms by (simp add: ingest_env_def)
  then show ?thesis
    unfolding run_once_def Some option.case
    by (intro appends_intros redis_frameD [THEN appends_keeps] appends_batch [OF assms Some])
qed

text \<open>What the publisher puts on the stream for an entry of the log.\<close>

definition published_entry :: "string \<Rightarrow> string \<Rightarrow> string \<Rightarrow> nats_msg" where
  "published_entry subject txt a = \<lparr>ms_subject = subject, ms_data = txt, ms_headers = all_headers (Some a) []\<rparr>"

lemma publish_lands:
  assumes "stream_ok nt stream" "broker_publish nt b subject txt (Some a) [] True w = (Inr (True, b'), w')"
  shows "published_entry subject txt a \<in> set (stream w')"
proof -
  obtain b1 w1 u where "nt_js_publish nt subject txt (all_headers (Some a) []) w1 = (Inr u, w')"
    using assms(2) unfolding broker_publish_def
    by (auto simp: bind_io_def try_io_def split: if_splits prod.splits sum.splits)
  then show ?thesis
    using assms(1) unfolding stream_ok_def published_entry_def by fastforce
qed

lemma appends_grows: "appends P stream m \<Longrightarrow> set (stream w) \<subseteq> set (stream (snd (m w)))"
  unfolding appends_def by (metis set_append sup_ge1)

lemma stream_logs:
  assumes "ingest_env rc stream" "rc_client rc = Some r"
  shows "logs_into rc r (\<lambda>w. set (stream w)) published_entry"
  using publish_lands [of "rc_nats rc" stream] assms appends_grows [OF appends_log(2) [OF assms(1)]]
    appends_grows [OF appends_batch [OF assms]]
    appends_grows [OF appends_release [of r stream tokenless]]
  unfolding logs_into_def ingest_env_def by simp

subsection \<open>Delivery\<close>

lemma dispatch_tokenless: "tokenless msg \<Longrightarrow> dispatch_one env msg ws = safe_settle env Term msg ws"
  by (simp add: dispatch_one_def service_token_of_def tokenless_def)

text \<open>
  C21. No alert that goes through NATS is triaged: whatever the ingest path and a following pass of the
  reconciler put on the stream, every worker terminates it without looking at it, since it carries no
  service token.
\<close>

theorem ingested_alert_never_triaged:
  assumes "ingest_env rc stream" "rt_reconciler st = Some rc"
    and "enqueue_via_nats dump dump_json (Some st) alert w = (r1, w1)" "run_once rc b w1 = (r2, w2)"
  shows "\<exists>ms. stream w2 = stream w @ ms
    \<and> list_all (\<lambda>msg. \<forall>env ws. dispatch_one env msg ws = safe_settle env Term msg ws) ms"
proof -
  obtain ms1 where ms1: "stream w1 = stream w @ ms1" "list_all tokenless ms1"
    using appends_enqueue [OF assms(1,2)] assms(3) by (rule appendsE)
  obtain ms2 where ms2: "stream w2 = stream w1 @ ms2" "list_all tokenless ms2"
    using appends_pass [OF assms(1)] assms(4) by (rule appendsE)
  show ?thesis
    using ms1 ms2 by (intro exI[of _ "ms1 @ ms2"]) (auto simp: list_all_iff dispatch_tokenless)
qed

text \<open>A NATS that keeps its stream beside the demonstration store.\<close>

definition stream_nats :: "(kv \<times> nats_msg list) nats" where
  "stream_nats =
     \<lparr>nt_connect = (\<lambda>s c n. ret_io ()), nt_jetstream = ret_io (),
      nt_js_publish = (\<lambda>s p h w. (Inr (), (fst w, snd w @ [\<lparr>ms_subject = s, ms_data = p, ms_headers = h\<rparr>]))),
      nt_publish = (\<lambda>s p h. ret_io ()), nt_pull_subscribe = (\<lambda>f d a m. ret_io ()), nt_drain = ret_io ()\<rparr>"

definition stream_reconciler :: "(kv \<times> nats_msg list) reconciler" where
  "stream_reconciler =
     \<lparr>rc_lib = demo_lib [], rc_nats = stream_nats, rc_client = Some (map_redis fst (\<lambda>m w. (m, snd w))),
      rc_publish_subject_for = wal_subject_resolver, rc_max_age = 86400, rc_lease = 60, rc_owner = ''me'',
      rc_dlq = None, rc_now = (\<lambda>w. (1000, w))\<rparr>"

lemma stream_ingest: "ingest_env stream_reconciler snd"
  by (simp add: ingest_env_def stream_ok_def redis_frame_def keeps_def stream_reconciler_def stream_nats_def
      map_redis_def rc_time_def Let_def)

theorem ingested_alert_never_triaged_witness:
  "\<exists>r1 w1 r2 w2. enqueue_via_nats demo_dump na_title
        (Some (RuntimeState_init\<lparr>rt_broker := Some demo_broker, rt_reconciler := Some stream_reconciler\<rparr>))
        demo_alert (Map.empty, []) = (r1, w1)
    \<and> run_once stream_reconciler demo_broker w1 = (r2, w2) \<and> length (snd w2) = 1
    \<and> list_all (\<lambda>msg. \<forall>ws. dispatch_one (demo_worker []) msg ws = safe_settle (demo_worker []) Term msg ws) (snd w2)"
proof -
  let ?st = "RuntimeState_init\<lparr>rt_broker := Some demo_broker, rt_reconciler := Some stream_reconciler\<rparr>"
  obtain r1 w1 where e: "enqueue_via_nats demo_dump na_title (Some ?st) demo_alert (Map.empty, []) = (r1, w1)"
    by (rule prod.exhaust)
  obtain r2 w2 where o: "run_once stream_reconciler demo_broker w1 = (r2, w2)" by (rule prod.exhaust)
  have rt: "rt_reconciler ?st = Some stream_reconciler" by simp
  have "length (snd w1) = 1"
    using e by (simp add: enqueue_via_nats_def Let_def stream_reconciler_def stream_nats_def write_ahead_def
        map_redis_def broker_publish_def broker_connect_def demo_broker_def NatsBroker_init_def mark_published_def
        bind_io_def try_io_def catch_io_def ret_io_def) auto
  moreover have "snd w2 = snd w1"
    using o by (simp add: run_once_def stream_reconciler_def map_redis_def bind_io_def ret_io_def)
  moreover obtain ms where "snd w2 = snd (Map.empty :: kv, []) @ ms"
      "list_all (\<lambda>msg. \<forall>(env :: kv worker_env) ws. dispatch_one env msg ws = safe_settle env Term msg ws) ms"
    using ingested_alert_never_triaged [OF stream_ingest rt e o] by blast
  ultimately show ?thesis using e o
    by (intro exI[of _ r1] exI[of _ w1] exI[of _ r2] exI[of _ w2]) (simp add: list_all_iff)
qed


text \<open>The reconciler of the demonstration, with a Redis whose scan finds the one entry of the log.\<close>

definition logged_redis :: "(kv \<times> nats_msg list) redis" where
  "logged_redis = (map_redis fst (\<lambda>m w. (m, snd w)))\<lparr>rd_scan_iter := (\<lambda>p w. (Inr [''pending_alert:a1''], w))\<rparr>"

definition logged_reconciler :: "(kv \<times> nats_msg list) reconciler" where
  "logged_reconciler =
     stream_reconciler\<lparr>rc_client := Some logged_redis,
       rc_lib := demo_lib [(''{}'', JDict [(''__subject__'', JStr ''alerts.v1.acme.splunk.a1'')])]\<rparr>"

lemma logged_env: "redis_ok logged_redis fst read_int" "redis_up logged_redis" "release_frame logged_redis fst"
    "ingest_env logged_reconciler snd" "nats_frame (rc_nats logged_reconciler) fst"
    "clock_frame logged_reconciler fst" "nats_up (rc_nats logged_reconciler)"
proof -
  have "redis_ok (map_redis fst (\<lambda>m (w :: kv \<times> nats_msg list). (m, snd w))) fst read_int"
    by (rule map_redis_ok) simp
  then show "redis_ok logged_redis fst read_int"
    by (simp add: logged_redis_def redis_ok_def get_ok_def set_ok_def setex_ok_def set_nx_ok_def delete_ok_def
        incr_ok_def expire_ok_def)
  have "redis_up (map_redis fst (\<lambda>m (w :: kv \<times> nats_msg list). (m, snd w)))" by (rule map_redis_up)
  then show "redis_up logged_redis" by (simp add: logged_redis_def redis_up_def)
  show "release_frame logged_redis fst"
    by (simp add: logged_redis_def release_frame_def map_redis_def del_keys_def)
  show "ingest_env logged_reconciler snd"
    by (simp add: ingest_env_def stream_ok_def redis_frame_def keeps_def logged_reconciler_def logged_redis_def
        stream_reconciler_def stream_nats_def map_redis_def rc_time_def Let_def)
  show "nats_frame (rc_nats logged_reconciler) fst" "clock_frame logged_reconciler fst"
    "nats_up (rc_nats logged_reconciler)"
    by (simp_all add: logged_reconciler_def stream_reconciler_def stream_nats_def nats_frame_def clock_frame_def
        nats_up_def no_raise_def keeps_def rc_time_def)
qed


end
