(* ===== verification/Connector_Check.thy ===== *)
theory Connector_Check
  imports App_Settings
begin

section \<open>scripts/test_connector_creds.py\<close>

text \<open>
  The read-only check of the configured connectors: one row per connector with its status, and an exit
  code that is 1 when a configured connector failed. Settings are the dictionary of theory App_Settings;
  \<open>cc_failure\<close> says which of httpx's exceptions an exception stands for, \<open>cc_netloc_ok\<close> is what
  \<open>urlsplit\<close> checks of bracketed and non-ASCII hosts. Printing is the list of rows.
\<close>

datatype http_failure = ConnectTimeout | ReadTimeout | ConnectError | OtherTimeout | NoHttpFailure

record 'w checks =
  cc_net :: "'w net"
  cc_failure :: "exn \<Rightarrow> http_failure"
  cc_netloc_ok :: "string \<Rightarrow> bool"
  cc_boto3 :: bool
  cc_sts :: "('w, json option \<times> string) io"
  cc_redis_installed :: bool
  cc_redis_ping :: "string \<Rightarrow> ('w, bool) io"

datatype check_status = PASS | FAIL | SKIP | WARN

type_synonym outcome = "check_status \<times> string"

definition cred_mask_show :: "nat \<Rightarrow> string \<Rightarrow> string" where
  "cred_mask_show n s =
     (if s = [] then ''(empty)'' else if length s \<le> n * 2 then ''***''
      else take n s @ [CHR 0xE2, CHR 0x80, CHR 0xA6] @ drop (length s - n) s)"

definition cred_mask :: "string \<Rightarrow> string" where
  "cred_mask s = cred_mask_show 4 s"

definition http_code :: "http_answer \<Rightarrow> string" where
  "http_code r = ''HTTP '' @ show_int (ha_status r)"

text \<open>\<open>f"HTTP {r.status_code} {_mask(r.text[:120])}"\<close>.\<close>

definition code_and_text :: "http_answer \<Rightarrow> string" where
  "code_and_text r = http_code r @ '' '' @ cred_mask (take 120 (ha_text r))"

subsection \<open>\<open>urlparse\<close>, as far as it is used\<close>

definition before :: "char \<Rightarrow> string \<Rightarrow> string" where
  "before c s = takeWhile (\<lambda>x. x \<noteq> c) s"

definition after :: "char \<Rightarrow> string \<Rightarrow> string" where
  "after c s = drop 1 (dropWhile (\<lambda>x. x \<noteq> c) s)"

definition is_alpha :: "char \<Rightarrow> bool" where
  "is_alpha c \<longleftrightarrow> (let n = of_char (lower_char c) :: nat in 97 \<le> n \<and> n \<le> 122)"

definition is_digit :: "char \<Rightarrow> bool" where
  "is_digit c \<longleftrightarrow> (let n = of_char c :: nat in 48 \<le> n \<and> n \<le> 57)"

text \<open>The scheme and the network location of a stripped text.\<close>

definition url_parts :: "string \<Rightarrow> string \<times> string" where
  "url_parts raw =
     (let url = filter (\<lambda>c. c \<notin> {CHR 0x09, CHR 0x0A, CHR 0x0D}) raw;
          s = before CHR '':'' url;
          has_scheme = (CHR '':'' \<in> set url \<and> s \<noteq> [] \<and> is_alpha (hd s)
            \<and> list_all (\<lambda>c. is_alpha c \<or> is_digit c \<or> c \<in> set ''+-.'') s);
          rest = (if has_scheme then after CHR '':'' url else url)
      in (if has_scheme then str_lower s else [],
          if starts_with rest ''//'' then takeWhile (\<lambda>c. c \<notin> set ''/?#'') (drop 2 rest) else []))"

definition host_and_port :: "string \<Rightarrow> string \<times> string" where
  "host_and_port netloc =
     (let h = rev (before CHR ''@'' (rev netloc))
      in if CHR ''['' \<in> set h
         then (before CHR '']'' (after CHR ''['' h), after CHR '':'' (after CHR '']'' (after CHR ''['' h)))
         else (before CHR '':'' h, after CHR '':'' h))"

definition url_port :: "string \<Rightarrow> exn + int option" where
  "url_port p =
     (if p = [] then Inr None
      else if \<not> list_all is_digit p then Inl (ValueError (''Port could not be cast to integer value as '' @ repr_str p))
      else if 65535 < read_nat 0 p then Inl (ValueError ''Port out of range 0-65535'')
      else Inr (Some (int (read_nat 0 p))))"

definition splunk_connection :: "'w checks \<Rightarrow> jdict \<Rightarrow> exn + string \<times> int \<times> string" where
  "splunk_connection cc s =
     (let raw = str_strip (param_str s ''splunk_host''); port = param_int s ''splunk_port'' 0;
          scheme = param_str s ''splunk_scheme''
      in if raw = [] then Inr ([], port, scheme)
         else if str_in ''://'' raw
         then (let (url_scheme, netloc) = url_parts raw; (host, p) = host_and_port netloc
               in if \<not> cc_netloc_ok cc netloc then Inl (ValueError netloc)
                  else bind_r (url_port p) (\<lambda>url_port.
                    Inr (str_lower (before CHR ''%'' host) @ dropWhile (\<lambda>c. c \<noteq> CHR ''%'') host,
                         (case url_port of None \<Rightarrow> port | Some n \<Rightarrow> if n = 0 then port else n),
                         str_lower (if url_scheme = [] then scheme else url_scheme))))
         else Inr (raw, port, scheme))"

subsection \<open>The checks\<close>

definition test_splunk :: "'w checks \<Rightarrow> jdict \<Rightarrow> ('w, outcome) io" where
  "test_splunk cc s =
     bind_io (of_result (splunk_connection cc s)) (\<lambda>(host, port, scheme).
     let token = param_str s ''splunk_token''; user = param_str s ''splunk_username'';
         password = param_str s ''splunk_password''
     in if host = [] then ret_io (SKIP, ''SPLUNK_HOST empty or unparsable'')
        else if token = [] \<and> \<not> (user \<noteq> [] \<and> password \<noteq> [])
        then ret_io (SKIP, ''need SPLUNK_TOKEN or SPLUNK_USERNAME+SPLUNK_PASSWORD'')
        else
          bind_io (catch_io (net_send (cc_net cc)
            ((http_get (scheme @ ''://'' @ host @ '':'' @ show_int port @ ''/services/server/info'')
                (if token \<noteq> [] then [bearer token] else []) [(''output_mode'', JStr ''json'')])
             \<lparr>hc_auth := if token \<noteq> [] then None else Some (user, password)\<rparr>))) (\<lambda>answer.
          case answer of
            Inr r \<Rightarrow>
              ret_io (if ha_status r = 200 then (PASS, http_code r @ '' server='' @ host @ '':'' @ show_int port)
                      else (FAIL, code_and_text r))
          | Inl exc \<Rightarrow>
              (case cc_failure cc exc of
                 ConnectTimeout \<Rightarrow> ret_io (FAIL,
                   ''connect timed out '' @ [CHR 0xE2, CHR 0x80, CHR 0x94] @ '' host/port likely unreachable (VPN, firewall, wrong SPLUNK_HOST, '' @
                   ''or Splunk not listening). Larger TOOL_TIMEOUT_SECONDS usually does not fix this.'')
               | ReadTimeout \<Rightarrow> ret_io (FAIL,
                   ''read timed out '' @ [CHR 0xE2, CHR 0x80, CHR 0x94] @ '' TLS/connect ok but Splunk did not finish the HTTP response in time.'')
               | ConnectError \<Rightarrow> ret_io (FAIL,
                   ''connect failed: '' @ take 140 (exn_str exc) @ '' '' @ [CHR 0xE2, CHR 0x80, CHR 0x94] @
                   '' check scheme/host/port and SPLUNK_VERIFY_SSL'')
               | OtherTimeout \<Rightarrow> ret_io (FAIL, ''timed out ('' @ exn_str exc @ '')'')
               | NoHttpFailure \<Rightarrow> raise_io exc)))"

text \<open>The first error message of a refused token; whatever fails while looking for it is passed over.\<close>

definition oauth_hint :: "pylib \<Rightarrow> http_answer \<Rightarrow> string" where
  "oauth_hint lib r =
     (case bind_r (json_loads lib (ha_text r)) (\<lambda>body.
           bind_r (attr_get body ''errors'' (JList [])) (\<lambda>errs.
           if truthy errs
           then bind_r (index_zero errs) (\<lambda>err.
                bind_r (attr_get err ''message'' (JStr [])) (\<lambda>msg.
                bind_r (slice_to 120 msg) (\<lambda>m.
                  Inr ('' '' @ [CHR 0xE2, CHR 0x80, CHR 0x94] @ '' '' @ py_str (float_repr lib) m))))
           else Inr [])) of
        Inr h \<Rightarrow> h | Inl e \<Rightarrow> [])"

definition test_crowdstrike :: "'w checks \<Rightarrow> jdict \<Rightarrow> ('w, outcome) io" where
  "test_crowdstrike cc s =
     (let client = param_str s ''crowdstrike_client_id''; secret = param_str s ''crowdstrike_client_secret''
      in if client = [] \<or> secret = [] then ret_io (SKIP, ''CROWDSTRIKE_CLIENT_ID/SECRET empty'')
         else
           bind_io (net_send (cc_net cc)
             (http_form (rstrip_char CHR ''/'' (param_str s ''crowdstrike_base_url'') @ ''/oauth2/token'')
               [(''client_id'', JStr client), (''client_secret'', JStr secret)])) (\<lambda>r.
           if ha_status r \<in> {200, 201} \<and> str_in ''access_token'' (ha_text r)
           then ret_io (PASS, http_code r @ '' oauth2 token ok'')
           else
             (let h0 = oauth_hint (net_lib (cc_net cc)) r;
                  hint = (if ha_status r = 400 \<and> h0 = []
                    then '' '' @ [CHR 0xE2, CHR 0x80, CHR 0x94] @ '' OAuth rejected: wrong CROWDSTRIKE_CLIENT_SECRET, wrong CROWDSTRIKE_BASE_URL for your '' @
                      ''cloud (e.g. api.us-2.crowdstrike.com, api.eu-1.crowdstrike.com), or revoked API client. '' @
                      ''Timeouts do not fix HTTP 400.''
                    else h0)
              in ret_io (FAIL, if hint \<noteq> [] then http_code r @ hint else code_and_text r))))"

text \<open>The checks that send one request with a key: what counts as accepted, and what 401 means.\<close>

definition key_check ::
    "'w checks \<Rightarrow> bool \<Rightarrow> string \<Rightarrow> http_call \<Rightarrow> int list \<Rightarrow> string \<Rightarrow> string \<Rightarrow> ('w, outcome) io" where
  "key_check cc absent missing call accepted good bad =
     (if absent then ret_io (SKIP, missing)
      else bind_io (net_send (cc_net cc) call) (\<lambda>r.
        ret_io (if ha_status r \<in> set accepted then (PASS, http_code r @ good)
                else if ha_status r = 401 then (FAIL, ''HTTP 401 '' @ bad)
                else (FAIL, code_and_text r))))"

definition test_virustotal :: "'w checks \<Rightarrow> jdict \<Rightarrow> ('w, outcome) io" where
  "test_virustotal cc s =
     (let k = param_str s ''virustotal_api_key'' in
      key_check cc (k = []) ''VIRUSTOTAL_API_KEY empty''
        (http_get ''https://www.virustotal.com/api/v3/ip_addresses/8.8.8.8'' [(''x-apikey'', k)] [])
        [200, 404] '' (key accepted)'' ''invalid API key'')"

definition test_abuseipdb :: "'w checks \<Rightarrow> jdict \<Rightarrow> ('w, outcome) io" where
  "test_abuseipdb cc s =
     (let k = param_str s ''abuseipdb_api_key'' in
      key_check cc (k = []) ''ABUSEIPDB_API_KEY empty''
        (http_get ''https://api.abuseipdb.com/api/v2/check'' [(''Key'', k), (''Accept'', ''application/json'')]
          [(''ipAddress'', JStr ''1.1.1.1''), (''maxAgeInDays'', JInt 90)])
        [200] '' check ok'' ''invalid key'')"

definition test_otx :: "'w checks \<Rightarrow> jdict \<Rightarrow> ('w, outcome) io" where
  "test_otx cc s =
     (let k = param_str s ''otx_api_key'' in
      key_check cc (k = []) ''OTX_API_KEY empty''
        (http_get ''https://otx.alienvault.com/api/v1/user/me'' [(''X-OTX-API-KEY'', k)] [])
        [200] '' user/me ok'' ''invalid key'')"

definition servicenow_probe :: "'w checks \<Rightarrow> string \<Rightarrow> string \<Rightarrow> ('w, outcome) io" where
  "servicenow_probe cc base authorization =
     key_check cc False []
       (http_get (base @ ''/api/now/table/cmdb_ci'')
         [(''Authorization'', authorization), (''Accept'', ''application/json'')] [(''sysparm_limit'', JInt 1)])
       [200] '' cmdb_ci table ok'' ''auth failed''"

definition test_servicenow :: "'w checks \<Rightarrow> jdict \<Rightarrow> ('w, outcome) io" where
  "test_servicenow cc s =
     (let user = param_str s ''servicenow_username''; password = param_str s ''servicenow_password'';
          client = param_str s ''servicenow_client_id''; secret = param_str s ''servicenow_client_secret'';
          base = rstrip_char CHR ''/'' (param_str s ''servicenow_instance_url''); lib = net_lib (cc_net cc)
      in if param_str s ''servicenow_instance_url'' = [] then ret_io (SKIP, ''SERVICENOW_INSTANCE_URL empty'')
         else if user = [] then ret_io (SKIP, ''SERVICENOW_USERNAME empty'')
         else if client \<noteq> [] \<and> secret \<noteq> []
         then
           bind_io (net_send (cc_net cc) (http_form (base @ ''/oauth_token.do'')
             [(''grant_type'', JStr ''password''), (''client_id'', JStr client), (''client_secret'', JStr secret),
              (''username'', JStr user), (''password'', JStr password)])) (\<lambda>tr.
           if ha_status tr \<noteq> 200 \<or> \<not> str_in ''access_token'' (ha_text tr)
           then ret_io (FAIL, ''oauth '' @ http_code tr @ '' '' @ cred_mask (take 100 (ha_text tr)))
           else
             bind_io (of_result (bind_r (json_loads lib (ha_text tr)) (\<lambda>v. attr_get v ''access_token'' (JStr [])))) (\<lambda>token.
               servicenow_probe cc base (''Bearer '' @ py_str (float_repr lib) token)))
         else servicenow_probe cc base (''Basic '' @ b64encode (user @ '':'' @ password)))"

definition test_vulncheck :: "'w checks \<Rightarrow> jdict \<Rightarrow> ('w, outcome) io" where
  "test_vulncheck cc s =
     (let k = param_str s ''vulncheck_api_token'' in
      key_check cc (k = []) ''VULNCHECK_API_TOKEN empty''
        (http_get ''https://api.vulncheck.com/v3/index'' [bearer k, (''Content-Type'', ''application/json'')] [])
        [200] '' index ok'' ''invalid token'')"

text \<open>The account goes into the row as it is, the ARN is masked.\<close>

definition test_aws :: "'w checks \<Rightarrow> jdict \<Rightarrow> ('w, outcome) io" where
  "test_aws cc s =
     (if param_str s ''aws_access_key_id'' = [] \<or> param_str s ''aws_secret_access_key'' = []
      then ret_io (SKIP, ''AWS keys empty'')
      else if \<not> cc_boto3 cc then ret_io (SKIP, ''boto3 not installed (uv pip install -e .)'')
      else try_io
        (bind_io (cc_sts cc) (\<lambda>(account, arn).
           ret_io (PASS, ''account='' @ py_str (float_repr (net_lib (cc_net cc))) (case account of None \<Rightarrow> JStr ''?'' | Some a \<Rightarrow> a)
             @ '' '' @ cred_mask_show 20 arn)))
        (\<lambda>e. ret_io (FAIL, take 160 (exn_str e))))"

definition truthy_setting :: "jdict \<Rightarrow> string \<Rightarrow> bool" where
  "truthy_setting s k = truthy (dict_get s k JNull)"

definition test_redis :: "'w checks \<Rightarrow> jdict \<Rightarrow> ('w, outcome) io" where
  "test_redis cc s =
     (if \<not> truthy_setting s ''cache_enabled'' then ret_io (SKIP, ''CACHE_ENABLED=false'')
      else if \<not> cc_redis_installed cc then ret_io (SKIP, ''redis package missing'')
      else try_io
        (bind_io (cc_redis_ping cc (param_str s ''redis_url'')) (\<lambda>pong.
           ret_io (if pong then (PASS, ''PING ok'') else (FAIL, ''PING returned false''))))
        (\<lambda>e. let es = str_lower (exn_str e) in
           ret_io (if list_ex (\<lambda>t. str_in t es) [''refused'', ''10061'', ''error 61'', ''timed out'']
             then (SKIP, ''Redis not reachable (optional '' @ [CHR 0xE2, CHR 0x80, CHR 0x94] @ '' start Redis or set CACHE_ENABLED=false)'')
             else (FAIL, take 160 (exn_str e)))))"

definition test_openai :: "'w checks \<Rightarrow> jdict \<Rightarrow> ('w, outcome) io" where
  "test_openai cc s =
     (let k = param_str s ''openai_api_key'' in
      key_check cc (k = []) ''OPENAI_API_KEY empty''
        (http_get ''https://api.openai.com/v1/models'' [bearer k] [(''limit'', JInt 1)])
        [200] ('' model='' @ repr_str (param_str s ''openai_model'')) ''invalid key'')"

definition test_ollama :: "'w checks \<Rightarrow> jdict \<Rightarrow> ('w, outcome) io" where
  "test_ollama cc s =
     (let base = rstrip_char CHR ''/'' (param_str s ''ollama_base_url'') in
      bind_io (catch_io (net_send (cc_net cc) (http_get (base @ ''/api/tags'') [] []))) (\<lambda>answer.
      case answer of
        Inr r \<Rightarrow> ret_io (if ha_status r = 200 then (PASS, ''HTTP 200 '' @ base) else (FAIL, http_code r))
      | Inl e \<Rightarrow>
          (let es = str_lower (exn_str e) in
           ret_io (if list_ex (\<lambda>t. str_in t es) [''refused'', ''connection refused'', ''61'']
             then (SKIP, ''Ollama not running (optional local LLM)'')
             else (FAIL, take 160 (''connect error: '' @ exn_str e))))))"

definition test_langfuse :: "'w checks \<Rightarrow> jdict \<Rightarrow> ('w, outcome) io" where
  "test_langfuse cc s =
     (let base = rstrip_char CHR ''/'' (param_str s ''langfuse_base_url'') in
      if \<not> truthy_setting s ''langfuse_enabled'' then ret_io (SKIP, ''LANGFUSE_ENABLED=false'')
      else if param_str s ''langfuse_public_key'' = [] \<or> param_str s ''langfuse_secret_key'' = []
      then ret_io (SKIP, ''Langfuse keys empty'')
      else bind_io (net_send (cc_net cc) (http_get (base @ ''/api/public/health'') [] [])) (\<lambda>r.
        ret_io (if ha_status r = 200 then (PASS, ''HTTP 200 health '' @ cred_mask_show 24 base)
                else (WARN, ''public health '' @ http_code r @ '' (keys not verified)''))))"

subsection \<open>\<open>main\<close>\<close>

definition all_checks :: "(string \<times> ('w checks \<Rightarrow> jdict \<Rightarrow> ('w, outcome) io)) list" where
  "all_checks =
    [(''Splunk'', test_splunk), (''CrowdStrike'', test_crowdstrike), (''VirusTotal'', test_virustotal),
     (''AbuseIPDB'', test_abuseipdb), (''OTX (AlienVault)'', test_otx), (''ServiceNow CMDB'', test_servicenow),
     (''VulnCheck'', test_vulncheck), (''AWS STS'', test_aws), (''Redis cache'', test_redis),
     (''OpenAI API'', test_openai), (''Ollama'', test_ollama), (''Langfuse health'', test_langfuse)]"

fun run_checks ::
    "'w checks \<Rightarrow> jdict \<Rightarrow> (string \<times> ('w checks \<Rightarrow> jdict \<Rightarrow> ('w, outcome) io)) list
     \<Rightarrow> ('w, (string \<times> outcome) list) io" where
  "run_checks cc s [] = ret_io []"
| "run_checks cc s ((name, fn) # rest) =
     bind_io (try_io (fn cc s) (\<lambda>e. ret_io (FAIL, take 200 (exn_str e)))) (\<lambda>row.
     bind_io (run_checks cc s rest) (\<lambda>rows. ret_io ((name, row) # rows)))"

text \<open>The Splunk target is computed for the heading before any check runs.\<close>

definition check_main :: "'w checks \<Rightarrow> jdict \<Rightarrow> ('w, int \<times> (string \<times> outcome) list) io" where
  "check_main cc s =
     bind_io (of_result (splunk_connection cc s)) (\<lambda>heading.
     bind_io (run_checks cc s all_checks) (\<lambda>rows.
       ret_io (if list_ex (\<lambda>(name, st, detail). st = FAIL) rows then 1 else 0, rows)))"

subsection \<open>What a run reports\<close>

lemma check_names:
  "map fst all_checks = [''Splunk'', ''CrowdStrike'', ''VirusTotal'', ''AbuseIPDB'', ''OTX (AlienVault)'',
     ''ServiceNow CMDB'', ''VulnCheck'', ''AWS STS'', ''Redis cache'', ''OpenAI API'', ''Ollama'', ''Langfuse health'']"
  by (simp add: all_checks_def)

lemma run_checks_total:
  "\<exists>rows w'. run_checks cc s cs w = (Inr rows, w') \<and> map fst rows = map fst cs"
proof (induction cs arbitrary: w)
  case (Cons c cs)
  obtain name fn where c: "c = (name, fn)" by (rule prod.exhaust)
  obtain row w1 where "try_io (fn cc s) (\<lambda>e. ret_io (FAIL, take 200 (exn_str e))) w = (Inr row, w1)"
    by (cases "fn cc s w" rule: prod.exhaust; cases "fst (fn cc s w)") (auto simp: try_io_def)
  moreover obtain rows w2 where "run_checks cc s cs w1 = (Inr rows, w2)" "map fst rows = map fst cs"
    using Cons.IH by blast
  ultimately show ?case by (simp add: c bind_io_def)
qed simp

text \<open>
  A connector that fails or raises does not stop the others: with a well-formed Splunk address the
  run ends with one row for each of the twelve connectors, in order, and exit code 1 exactly when one of
  them failed.
\<close>

theorem check_reports_every_connector:
  assumes "splunk_connection cc s = Inr target"
  shows "\<exists>code rows w'. check_main cc s w = (Inr (code, rows), w')
    \<and> map fst rows = [''Splunk'', ''CrowdStrike'', ''VirusTotal'', ''AbuseIPDB'', ''OTX (AlienVault)'',
        ''ServiceNow CMDB'', ''VulnCheck'', ''AWS STS'', ''Redis cache'', ''OpenAI API'', ''Ollama'', ''Langfuse health'']
    \<and> (code = 1 \<longleftrightarrow> list_ex (\<lambda>(name, st, detail). st = FAIL) rows) \<and> code \<in> {0, 1}"
proof -
  obtain rows w' where r: "run_checks cc s all_checks w = (Inr rows, w')"
      "map fst rows = [''Splunk'', ''CrowdStrike'', ''VirusTotal'', ''AbuseIPDB'', ''OTX (AlienVault)'',
        ''ServiceNow CMDB'', ''VulnCheck'', ''AWS STS'', ''Redis cache'', ''OpenAI API'', ''Ollama'', ''Langfuse health'']"
    using run_checks_total[of cc s all_checks w] unfolding check_names by (elim exE conjE)
  have "check_main cc s w = (Inr (if list_ex (\<lambda>(name, st, detail). st = FAIL) rows then 1 else 0, rows), w')"
    using assms r(1) by (simp add: check_main_def bind_io_def)
  then show ?thesis using r(2) by simp
qed

text \<open>A connector without its settings is skipped, and nothing is sent.\<close>

lemma default_values:
  "splunk_connection cc (settings_of []) = Inr (''localhost'', 8089, ''https'')"
  "param_str (settings_of []) ''splunk_token'' = []" "param_str (settings_of []) ''splunk_password'' = []"
  "param_str (settings_of []) ''crowdstrike_client_id'' = []" "param_str (settings_of []) ''virustotal_api_key'' = []"
  "param_str (settings_of []) ''abuseipdb_api_key'' = []" "param_str (settings_of []) ''otx_api_key'' = []"
  "param_str (settings_of []) ''servicenow_instance_url'' = []" "param_str (settings_of []) ''vulncheck_api_token'' = []"
  "param_str (settings_of []) ''aws_access_key_id'' = []" "param_str (settings_of []) ''openai_api_key'' = []"
  "truthy_setting (settings_of []) ''langfuse_enabled'' = False"
  by code_simp+

lemma default_skips:
  "test_splunk cc (settings_of []) w = (Inr (SKIP, ''need SPLUNK_TOKEN or SPLUNK_USERNAME+SPLUNK_PASSWORD''), w)"
  "test_crowdstrike cc (settings_of []) w = (Inr (SKIP, ''CROWDSTRIKE_CLIENT_ID/SECRET empty''), w)"
  "test_virustotal cc (settings_of []) w = (Inr (SKIP, ''VIRUSTOTAL_API_KEY empty''), w)"
  "test_abuseipdb cc (settings_of []) w = (Inr (SKIP, ''ABUSEIPDB_API_KEY empty''), w)"
  "test_otx cc (settings_of []) w = (Inr (SKIP, ''OTX_API_KEY empty''), w)"
  "test_servicenow cc (settings_of []) w = (Inr (SKIP, ''SERVICENOW_INSTANCE_URL empty''), w)"
  "test_vulncheck cc (settings_of []) w = (Inr (SKIP, ''VULNCHECK_API_TOKEN empty''), w)"
  "test_aws cc (settings_of []) w = (Inr (SKIP, ''AWS keys empty''), w)"
  "test_openai cc (settings_of []) w = (Inr (SKIP, ''OPENAI_API_KEY empty''), w)"
  "test_langfuse cc (settings_of []) w = (Inr (SKIP, ''LANGFUSE_ENABLED=false''), w)"
  by (simp_all add: test_splunk_def test_crowdstrike_def test_virustotal_def test_abuseipdb_def test_otx_def
      test_servicenow_def test_vulncheck_def test_aws_def test_openai_def test_langfuse_def key_check_def
      default_values Let_def)

text \<open>An address with a port that is no number ends the whole run before the first row.\<close>

lemma bad_port_ends_run:
  "str_strip (param_str s ''splunk_host'') = ''https://splunk:80x'' \<Longrightarrow> cc_netloc_ok cc ''splunk:80x'' \<Longrightarrow>
   \<exists>m. check_main cc s w = (Inl (ValueError m), w)"
proof -
  assume a: "str_strip (param_str s ''splunk_host'') = ''https://splunk:80x''" "cc_netloc_ok cc ''splunk:80x''"
  have u: "url_parts ''https://splunk:80x'' = (''https'', ''splunk:80x'')"
    by (simp add: url_parts_def before_def after_def is_alpha_def lower_char_def str_lower_def starts_with_def Let_def)
  have h: "host_and_port ''splunk:80x'' = (''splunk'', ''80x'')"
    by (simp add: host_and_port_def before_def after_def)
  have p: "url_port ''80x'' = Inl (ValueError (''Port could not be cast to integer value as '' @ repr_str ''80x''))"
    by (simp add: url_port_def is_digit_def)
  have i: "str_in ''://'' ''https://splunk:80x''" by (simp add: starts_with_def)
  show ?thesis unfolding check_main_def splunk_connection_def Let_def a(1)
    by (simp add: i u h p a(2) bind_r_def del: str_in.simps)
qed

definition demo_checks :: "nat checks" where
  "demo_checks =
     \<lparr>cc_net = demo_net [] [], cc_failure = (\<lambda>e. if e = TimeoutError then ReadTimeout else NoHttpFailure),
      cc_netloc_ok = (\<lambda>n. True), cc_boto3 = False, cc_sts = raise_io TimeoutError, cc_redis_installed = True,
      cc_redis_ping = (\<lambda>u. ret_io True)\<rparr>"

theorem check_reports_every_connector_witness:
  "\<exists>code rows w'. check_main demo_checks (settings_of []) 0 = (Inr (code, rows), w') \<and> length rows = 12 \<and> code \<in> {0, 1}"
proof -
  obtain code rows w' where "check_main demo_checks (settings_of []) 0 = (Inr (code, rows), w')"
      "map fst rows = [''Splunk'', ''CrowdStrike'', ''VirusTotal'', ''AbuseIPDB'', ''OTX (AlienVault)'',
        ''ServiceNow CMDB'', ''VulnCheck'', ''AWS STS'', ''Redis cache'', ''OpenAI API'', ''Ollama'', ''Langfuse health'']"
      "code \<in> {0, 1}"
    using check_reports_every_connector[of demo_checks "settings_of []" _ 0, OF default_values(1)] by (elim exE conjE)
  then have "length (map fst rows) = 12" "check_main demo_checks (settings_of []) 0 = (Inr (code, rows), w')" "code \<in> {0, 1}"
    by simp_all
  then show ?thesis by (intro exI[of _ code] exI[of _ rows] exI[of _ w']) simp
qed

text \<open>
  With the default settings every connector but Redis and Ollama is skipped, so a fresh installation fails
  the check only if one of those two does.
\<close>

lemma default_check_skips:
  "\<exists>code rows w'. check_main cc (settings_of []) w = (Inr (code, rows), w')
    \<and> list_all (\<lambda>(name, st, detail). name \<in> {''Redis cache'', ''Ollama''} \<or> st = SKIP) rows"
proof -
  have io: "\<exists>row w'. try_io (fn cc s) (\<lambda>e. ret_io (FAIL, take 200 (exn_str e))) w = (Inr row, w')" for fn :: "'a checks \<Rightarrow> jdict \<Rightarrow> ('a, outcome) io" and s w
    by (cases "fn cc s w" rule: prod.exhaust; cases "fst (fn cc s w)") (auto simp: try_io_def)
  obtain r1 w1 where redis: "try_io (test_redis cc (settings_of [])) (\<lambda>e. ret_io (FAIL, take 200 (exn_str e))) w = (Inr r1, w1)"
    using io by blast
  obtain r2 w2 where ollama: "try_io (test_ollama cc (settings_of [])) (\<lambda>e. ret_io (FAIL, take 200 (exn_str e))) w1 = (Inr r2, w2)"
    using io by blast
  show ?thesis
    by (simp add: check_main_def default_values(1) all_checks_def bind_io_def default_skips redis ollama)
qed

end
