(* ===== verification/Dev_Scripts.thy ===== *)
theory Dev_Scripts
  imports Secret_Rotation Alert_Normalizer Triage_Guarantees Tracing
begin

section \<open>scripts/demo_siem_triage.py and scripts/dev_dump_gateway_secret.py\<close>

text \<open>
  The demo turns a Sysmon event into the webhook of a Splunk alert and runs the pipeline on it; the
  second script writes the gateway's secret to a file. Reading .env and what is printed on the terminal
  are left out: \<open>vals\<close> are the pairs of the .env file.
\<close>

subsection \<open>The demo's environment\<close>

text \<open>\<open>s.strip(chars)\<close>.\<close>

definition strip_chars :: "char set \<Rightarrow> string \<Rightarrow> string" where
  "strip_chars cs s = rev (dropWhile (\<lambda>c. c \<in> cs) (rev (dropWhile (\<lambda>c. c \<in> cs) s)))"

fun apply_langfuse_keys :: "(string \<times> string option) list \<Rightarrow> string list \<Rightarrow> environ \<Rightarrow> environ" where
  "apply_langfuse_keys vals [] env = env"
| "apply_langfuse_keys vals (key # keys) env =
     apply_langfuse_keys vals keys
       (case map_of vals key of
          Some (Some raw) \<Rightarrow>
            if str_strip raw = [] then env
            else env(key \<mapsto> strip_chars {CHR 0x27} (strip_chars {CHR 0x22} (str_strip raw)))
        | _ \<Rightarrow> env)"

definition apply_langfuse_from_dotenv_file :: "(string \<times> string option) list option \<Rightarrow> environ \<Rightarrow> environ" where
  "apply_langfuse_from_dotenv_file dotenv env =
     (case dotenv of
        None \<Rightarrow> env
      | Some vals \<Rightarrow> apply_langfuse_keys vals
          [''LANGFUSE_ENABLED'', ''LANGFUSE_SECRET_KEY'', ''LANGFUSE_PUBLIC_KEY'', ''LANGFUSE_BASE_URL'',
           ''LANGFUSE_PROMPT_MANAGEMENT''] env)"

definition maybe_enable_langfuse :: "environ \<Rightarrow> environ" where
  "maybe_enable_langfuse env =
     (let sk = strip_chars {CHR 0x22} (str_strip (getenv env ''LANGFUSE_SECRET_KEY''));
          pk = strip_chars {CHR 0x22} (str_strip (getenv env ''LANGFUSE_PUBLIC_KEY''));
          raw = str_strip (getenv env ''LANGFUSE_ENABLED'')
      in if sk = [] \<or> pk = [] then env
         else if str_in ''...'' sk \<or> str_in ''...'' pk then env
         else if str_lower raw \<in> {''false'', ''0'', ''no''} then env
         else if raw = [] then env(''LANGFUSE_ENABLED'' \<mapsto> ''true'')
         else env)"

record demo_args =
  da_with_ollama :: bool
  da_disable_langfuse :: bool
  da_json_file :: string

definition demo_environment :: "demo_args \<Rightarrow> (string \<times> string option) list option \<Rightarrow> environ \<Rightarrow> environ" where
  "demo_environment args dotenv env =
     (let env1 = (if da_disable_langfuse args then env else apply_langfuse_from_dotenv_file dotenv env);
          env2 = (if da_with_ollama args then env1 else env1(''OLLAMA_BASE_URL'' \<mapsto> []))
      in if da_disable_langfuse args then env2(''LANGFUSE_ENABLED'' \<mapsto> ''false'') else maybe_enable_langfuse env2)"

subsection \<open>The demo's webhook\<close>

text \<open>The sample event of the script.\<close>

definition SYSMON_SIEM_ALERT :: jdict where
  "SYSMON_SIEM_ALERT =
    [(''EventTime'', JStr ''2026-04-12T10:15:22.451Z''),
     (''EventID'', JInt 1),
     (''ProviderName'', JStr ''Microsoft-Windows-Sysmon''),
     (''Computer'', JStr ''WIN-FIN-DESK-04.corp.local''),
     (''UserData'', JDict [(''RuleName'', JStr ''Detect_Office_Spawning_PowerShell''),
        (''UtcTime'', JStr ''2026-04-12 10:15:22.451''),
        (''ProcessGuid'', JStr ''{A1B2C3D4-E5F6-7890-1234-567890ABCDEF}''),
        (''ProcessId'', JStr ''8192''),
        (''Image'', JStr (''C:'' @ [CHR 0x5C] @ ''Windows'' @ [CHR 0x5C] @ ''System32'' @ [CHR 0x5C] @ ''WindowsPowerShell'' @ [CHR 0x5C] @ ''v1.0'' @ [CHR 0x5C] @ ''powershell.exe'')),
        (''FileVersion'', JStr ''10.0.19041.1''),
        (''Description'', JStr ''Windows PowerShell''),
        (''Product'', JStr (''Microsoft'' @ [CHR 0xC2, CHR 0xAE] @ '' Windows'' @ [CHR 0xC2, CHR 0xAE] @ '' Operating System'')),
        (''Company'', JStr ''Microsoft Corporation''),
        (''OriginalFileName'', JStr ''PowerShell.EXE''),
        (''CommandLine'', JStr ''powershell.exe -nop -w hidden -ep bypass -EncodedCommand SQBuAHYAbwBrAG...''),
        (''CurrentDirectory'', JStr (''C:'' @ [CHR 0x5C] @ ''Users'' @ [CHR 0x5C] @ ''jsmith'' @ [CHR 0x5C] @ ''Documents'' @ [CHR 0x5C])),
        (''User'', JStr (''CORP'' @ [CHR 0x5C] @ ''jsmith'')),
        (''LogonGuid'', JStr ''{A1B2C3D4-0000-0000-0000-000000000000}''),
        (''LogonId'', JStr ''0x3f5c9''),
        (''TerminalSessionId'', JStr ''1''),
        (''IntegrityLevel'', JStr ''Medium''),
        (''Hashes'', JStr ''SHA256=908B64B1971A979C7E3E8CE4621945CBA84854CB98D76367B791A6E22B5F6D53''),
        (''ParentProcessGuid'', JStr ''{A1B2C3D4-1111-2222-3333-444455556666}''),
        (''ParentProcessId'', JStr ''4028''),
        (''ParentImage'', JStr (''C:'' @ [CHR 0x5C] @ ''Program Files'' @ [CHR 0x5C] @ ''Microsoft Office'' @ [CHR 0x5C] @ ''root'' @ [CHR 0x5C] @ ''Office16'' @ [CHR 0x5C] @ ''WINWORD.EXE'')),
        (''ParentCommandLine'', JStr (''\"C:'' @ [CHR 0x5C] @ ''Program Files'' @ [CHR 0x5C] @ ''Microsoft Office'' @ [CHR 0x5C] @ ''root'' @ [CHR 0x5C] @ ''Office16'' @ [CHR 0x5C] @ ''WINWORD.EXE\" /n \"C:'' @ [CHR 0x5C] @ ''Users'' @ [CHR 0x5C] @ ''jsmith'' @ [CHR 0x5C] @ ''Downloads'' @ [CHR 0x5C] @ ''Q2_Invoice_04122026.docm\"''))])]"

definition backslash :: char where "backslash = CHR 0x5C"

text \<open>\<open>v.split("\\")[-1]\<close>.\<close>

definition base_name :: "json \<Rightarrow> exn + string" where
  "base_name v = (case v of JStr s \<Rightarrow> Inr (last (split_on backslash s)) | _ \<Rightarrow> Inl (AttributeError ''split''))"

text \<open>The digest of the first part \<open>SHA256=...\<close>, if there is one.\<close>

fun sha256_part :: "string list \<Rightarrow> string option" where
  "sha256_part [] = None"
| "sha256_part (part # parts) =
     (let p = str_strip part in
      if starts_with (str_upper p) ''SHA256=''
      then Some (str_strip (drop 1 (dropWhile (\<lambda>c. c \<noteq> CHR ''='') p)))
      else sha256_part parts)"

definition sha256_of :: "json \<Rightarrow> exn + string option" where
  "sha256_of hashes =
     (case hashes of
        JStr s \<Rightarrow> Inr (if str_in ''SHA256='' (str_upper s) then sha256_part (split_on CHR '','' s) else None)
      | _ \<Rightarrow> Inl (AttributeError ''upper''))"

definition demo_row ::
    "(json \<Rightarrow> string) \<Rightarrow> jdict \<Rightarrow> jdict \<Rightarrow> json \<Rightarrow> string \<Rightarrow> string option \<Rightarrow> string option \<Rightarrow> jdict" where
  "demo_row str raw ud img proc_name parent_name sha256 =
     [(''_time'', dict_get raw ''EventTime'' (get1 raw ''timestamp'')),
      (''sid'', JStr ''demo-sysmon-office-powershell-20260412''),
      (''host'', get1 raw ''Computer''), (''urgency'', JStr ''high''), (''severity'', JStr ''high''),
      (''process_name'', JStr proc_name), (''process_path'', img),
      (''command_line'', get1 ud ''CommandLine''), (''parent_process_name'', json_opt parent_name),
      (''process_id'', get1 ud ''ProcessId''), (''user'', get1 ud ''User''), (''sha256'', json_opt sha256),
      (''mitre_technique'', JStr ''T1059.001''),
      (''message'', JStr (''Sysmon EID '' @ str (get1 raw ''EventID'') @ '': '' @ str (get1 ud ''RuleName'') @
         '' '' @ [CHR 0xE2, CHR 0x80, CHR 0x94] @ '' '' @ (if opt_true parent_name then the parent_name else ''Office'') @
         '' spawned '' @ proc_name @ '' with suspicious flags.''))]"

definition flatten_sysmon_to_splunk_result :: "pylib \<Rightarrow> jdict \<Rightarrow> exn + jdict" where
  "flatten_sysmon_to_splunk_result lib raw =
     bind_r (as_dict (py_or (get1 raw ''UserData'') (JDict []))) (\<lambda>ud.
     let img = py_or (get1 ud ''Image'') (JStr []); parent_img = py_or (get1 ud ''ParentImage'') (JStr []) in
     bind_r (base_name img) (\<lambda>base.
     bind_r (if truthy parent_img then bind_r (base_name parent_img) (\<lambda>p. Inr (Some p)) else Inr None) (\<lambda>parent_name.
     bind_r (sha256_of (py_or (get1 ud ''Hashes'') (JStr []))) (\<lambda>sha256.
       Inr (demo_row (py_str (float_repr lib)) raw ud img (if base = [] then ''powershell.exe'' else base)
         parent_name sha256)))))"

definition build_splunk_webhook_payload :: "pylib \<Rightarrow> jdict \<Rightarrow> exn + jdict" where
  "build_splunk_webhook_payload lib siem =
     bind_r (attr_get (dict_get siem ''UserData'' (JDict [])) ''RuleName'' (JStr ''Detect_Office_Spawning_PowerShell'')) (\<lambda>name.
     bind_r (flatten_sysmon_to_splunk_result lib siem) (\<lambda>result.
       Inr [(''search_name'', name), (''result'', JDict result)]))"

definition demo_normalised :: "pylib \<Rightarrow> dates \<Rightarrow> fresh \<Rightarrow> jdict \<Rightarrow> exn + normalized_alert" where
  "demo_normalised lib dt f siem =
     bind_r (build_splunk_webhook_payload lib siem) (normalize_alert lib dt f SPLUNK)"

text \<open>The run of the pipeline; traces are flushed whatever happens.\<close>

definition demo_run ::
    "pylib \<Rightarrow> dates \<Rightarrow> fresh \<Rightarrow> 'w pipe_env \<Rightarrow> bool \<Rightarrow> ('w, unit) io \<Rightarrow> jdict \<Rightarrow> ('w, triage_verdict) io" where
  "demo_run lib dt f env langfuse_enabled flush siem =
     bind_io (of_result (demo_normalised lib dt f siem)) (\<lambda>alert.
       finally_io (run_triage env alert) (if langfuse_enabled then flush else ret_io ()))"

text \<open>The event: a file of the user's, which is any JSON value, or the sample.\<close>

definition load_siem_json :: "(string \<Rightarrow> exn + json) \<Rightarrow> demo_args \<Rightarrow> exn + json" where
  "load_siem_json read args = (if da_json_file args \<noteq> [] then read (da_json_file args) else Inr (JDict SYSMON_SIEM_ALERT))"

text \<open>
  Settings read after the environment was prepared, the tracing client connected, and the run. The
  exit code is 0; an exception ends the script.
\<close>

record demo_settings =
  ds_langfuse_secret_key :: string
  ds_langfuse_public_key :: string
  ds_langfuse_base_url :: string
  ds_langfuse_enabled :: bool

definition demo_main ::
    "pylib \<Rightarrow> dates \<Rightarrow> fresh \<Rightarrow> 'w pipe_env \<Rightarrow> 'w langfuse \<Rightarrow> (environ \<Rightarrow> demo_settings) \<Rightarrow> (string \<Rightarrow> exn + json)
     \<Rightarrow> demo_args \<Rightarrow> (string \<times> string option) list option \<Rightarrow> environ \<Rightarrow> langfuse_state \<Rightarrow> ('w, int \<times> triage_verdict) io" where
  "demo_main lib dt f env lf get_settings read args dotenv os_environ st =
     (let os = demo_environment args dotenv os_environ; settings = get_settings os in
      bind_io (connect_langfuse lf os (ds_langfuse_secret_key settings) (ds_langfuse_public_key settings)
        (ds_langfuse_base_url settings) (ds_langfuse_enabled settings) st) (\<lambda>st'.
      bind_io (of_result (load_siem_json read args)) (\<lambda>raw.
      bind_io (of_result (as_dict raw)) (\<lambda>siem.
      bind_io (demo_run lib dt f env (ds_langfuse_enabled settings) (langfuse_flush lf st') siem) (\<lambda>verdict.
        ret_io (0, verdict))))))"

subsection \<open>The hook on the tool calls\<close>

text \<open>
  The demo replaces \<open>_execute_single_tool\<close> of the enrichment module by a wrapper that reports each call to
  Langfuse. A caller may leave out the timeout: the original's default is 30 seconds, the wrapper's 15,
  and the wrapper always hands its own on. \<open>client\<close> says whether there is a Langfuse client.
\<close>

type_synonym 'w tool_call_fn = "string \<Rightarrow> jdict \<Rightarrow> int option \<Rightarrow> ('w, tool_outcome) io"

definition single_tool :: "'w tool_env \<Rightarrow> 'w tool_call_fn" where
  "single_tool env tool_name params timeout =
     execute_single_tool env tool_name params (case timeout of None \<Rightarrow> 30 | Some t \<Rightarrow> t)"

definition log_tool_to_langfuse ::
    "langfuse_state \<Rightarrow> (string \<Rightarrow> jdict \<Rightarrow> jdict \<Rightarrow> jdict \<Rightarrow> ('w, unit) io) \<Rightarrow> string \<Rightarrow> jdict \<Rightarrow> jdict \<Rightarrow> ('w, unit) io" where
  "log_tool_to_langfuse st create_event tool_name params data =
     (if \<not> is_enabled st then ret_io ()
      else try_io
        (create_event (''demo_siem_triage:tool:'' @ tool_name) params data
          [(''script'', JStr ''demo_siem_triage''), (''tool'', JStr tool_name)])
        (\<lambda>exc. ret_io ()))"

definition traced ::
    "langfuse_state \<Rightarrow> (string \<Rightarrow> jdict \<Rightarrow> jdict \<Rightarrow> jdict \<Rightarrow> ('w, unit) io) \<Rightarrow> 'w tool_call_fn \<Rightarrow> 'w tool_call_fn" where
  "traced st create_event orig tool_name params timeout =
     bind_io (orig tool_name params (Some (case timeout of None \<Rightarrow> 15 | Some t \<Rightarrow> t))) (\<lambda>out.
     bind_io (log_tool_to_langfuse st create_event (fst out) params (fst (snd out))) (\<lambda>_. ret_io out))"

lemma no_raise_log: "no_raise (log_tool_to_langfuse st create_event n p d)"
  unfolding log_tool_to_langfuse_def by (intro no_raise_intros)

text \<open>
  The hook only watches where the timeout is given: the outcome is that of the original call, exceptions
  included. Where it is left out, as in the ReAct loop of the pipeline, the call gets half the time.
\<close>

theorem traced_call_watches:
  "fst (traced st create_event (single_tool env) n p (Some t) w) = fst (single_tool env n p (Some t) w)"
  "fst (traced st create_event (single_tool env) n p None w) = fst (execute_single_tool env n p 15 w)"
  "single_tool env n p None w = execute_single_tool env n p 30 w"
proof -
  have h: "fst (bind_io m (\<lambda>out. bind_io (log_tool_to_langfuse st create_event (fst out) p (fst (snd out))) (\<lambda>_. ret_io out)) w)
      = fst (m w)" for m :: "('a, tool_outcome) io"
  proof -
    obtain r w1 where m: "m w = (r, w1)" by (rule prod.exhaust)
    show ?thesis
    proof (cases r)
      case (Inr out)
      obtain u w2 where "log_tool_to_langfuse st create_event (fst out) p (fst (snd out)) w1 = (Inr u, w2)"
        using no_raise_log by (rule no_raiseE)
      with m Inr show ?thesis by simp
    qed (simp add: m)
  qed
  show "fst (traced st create_event (single_tool env) n p (Some t) w) = fst (single_tool env n p (Some t) w)"
    "fst (traced st create_event (single_tool env) n p None w) = fst (execute_single_tool env n p 15 w)"
    "single_tool env n p None w = execute_single_tool env n p 30 w"
    by (simp_all add: traced_def h) (simp_all add: single_tool_def)
qed

text \<open>The demo ends with exit code 0 and a verdict for its alert whatever the tools, the models and Langfuse do.\<close>

lemma demo_main_succeeds:
  assumes "loads_ok (pe_lib env)" "extractor_answers env" "36 \<le> pe_recursion_limit env"
    and "load_siem_json read args = Inr (JDict siem)" "demo_normalised lib dt f siem = Inr alert"
  shows "\<exists>v w'. demo_main lib dt f env lf get_settings read args dotenv os st w = (Inr (0, v), w')"
proof -
  let ?os = "demo_environment args dotenv os"
  let ?s = "get_settings ?os"
  obtain st' w1 where c: "connect_langfuse lf ?os (ds_langfuse_secret_key ?s) (ds_langfuse_public_key ?s)
      (ds_langfuse_base_url ?s) (ds_langfuse_enabled ?s) st w = (Inr st', w1)"
    using no_raise_tracing(5) by (rule no_raiseE)
  have "no_raise (finally_io (run_triage env alert)
      (if ds_langfuse_enabled ?s then langfuse_flush lf st' else ret_io ()))"
    by (intro no_raise_intros no_raise_run_triage assms(1-3) no_raise_tracing(7))
  then obtain v w2 where "finally_io (run_triage env alert)
      (if ds_langfuse_enabled ?s then langfuse_flush lf st' else ret_io ()) w1 = (Inr v, w2)" by (rule no_raiseE)
  with c assms(4,5) show ?thesis
    by (simp add: demo_main_def Let_def demo_run_def as_dict_def)
qed

subsection \<open>What the demo makes of an event\<close>

lemma demo_row_keys:
  "map_of (demo_row str raw ud img pn par sha) ''_cd'' = None"
  "map_of (demo_row str raw ud img pn par sha) ''sid'' = Some (JStr ''demo-sysmon-office-powershell-20260412'')"
  by (simp_all add: demo_row_def)

lemma flatten_keys:
  assumes "flatten_sysmon_to_splunk_result lib raw = Inr r"
  shows "map_of r ''_cd'' = None" "map_of r ''sid'' = Some (JStr ''demo-sysmon-office-powershell-20260412'')"
  using assms unfolding flatten_sysmon_to_splunk_result_def Let_def
  by (auto elim!: bind_rE simp: demo_row_keys)

text \<open>
  The demo files every event under the same alert: two runs on different events get one
  identifier, so that the second overwrites the first wherever alerts are kept.
\<close>

theorem demo_events_share_alert_id:
  assumes "demo_normalised lib dt f siem = Inr a" "demo_normalised lib dt' f' siem' = Inr a'"
  shows "na_alert_id a' = na_alert_id a"
proof -
  have "na_alert_id a = stable_alert_id lib ''splunk'' ''demo-sysmon-office-powershell-20260412''"
    if n: "demo_normalised lib dt f siem = Inr a" for dt f siem a
  proof -
    obtain name r where p: "build_splunk_webhook_payload lib siem = Inr [(''search_name'', name), (''result'', JDict r)]"
        "flatten_sysmon_to_splunk_result lib siem = Inr r"
      using n unfolding demo_normalised_def build_splunk_webhook_payload_def by (elim bind_rE) auto
    let ?p = "[(''search_name'', name), (''result'', JDict r)]"
    have "\<not> is_detection_finding_payload ?p" by (simp add: is_detection_finding_payload_def get1_def dict_get_def)
    then have "parse_splunk lib dt f ?p = Inr a" using n p(1) by (simp add: demo_normalised_def normalize_alert_def)
    from parse_splunk_Inr [OF this] show ?thesis
      using flatten_keys [OF p(2)] by (auto simp: dict_get_def)
  qed
  from this [OF assms(1)] this [OF assms(2)] show ?thesis by simp
qed

lemma demo_events_run:
  "accepted_as (stable_alert_id (demo_lib []) ''splunk'' ''demo-sysmon-office-powershell-20260412'') HIGH
     (demo_normalised (demo_lib []) demo_dates (demo_fresh ''u1'') [])"
  "accepted_as (stable_alert_id (demo_lib []) ''splunk'' ''demo-sysmon-office-powershell-20260412'') HIGH
     (demo_normalised (demo_lib []) demo_dates (demo_fresh ''u2'') [(''Computer'', JStr ''WS01'')])"
  by code_simp+

theorem demo_events_share_alert_id_witness:
  "\<exists>a a'. demo_normalised (demo_lib []) demo_dates (demo_fresh ''u1'') [] = Inr a
     \<and> demo_normalised (demo_lib []) demo_dates (demo_fresh ''u2'') [(''Computer'', JStr ''WS01'')] = Inr a'
     \<and> na_alert_id a' = na_alert_id a"
proof -
  obtain a a' where n: "demo_normalised (demo_lib []) demo_dates (demo_fresh ''u1'') [] = Inr a"
      "demo_normalised (demo_lib []) demo_dates (demo_fresh ''u2'') [(''Computer'', JStr ''WS01'')] = Inr a'"
    using demo_events_run by (auto simp: accepted_as_def split: sum.splits)
  from n demo_events_share_alert_id [OF n] show ?thesis by blast
qed

subsection \<open>The gateway's secret\<close>

text \<open>The exit code and, on success, the text written to gateway/.dev.vars. \<open>reachable\<close>: the driver is there and connects.\<close>

definition dump_gateway_secret :: "bool \<Rightarrow> pg_world \<Rightarrow> int \<times> string option" where
  "dump_gateway_secret reachable w =
     (if \<not> reachable then (1, None)
      else (case map_of (pw_table w) ''gateway'' of
              None \<Rightarrow> (1, None)
            | Some row \<Rightarrow> (0, Some (''GATEWAY_SERVICE_TOKEN_SECRET='' @ [CHR 0x22] @ sr_current_secret row @ [CHR 0x22, CHR 0x0A]))))"

text \<open>What is written is the secret the gateway's bundle signs with at that moment; a rotation makes it the previous one.\<close>

lemma dumped_secret_is_current:
  "dump_gateway_secret True w = (0, Some t) \<longleftrightarrow>
     (\<exists>b. pg_get_bundle (pw_table w) ''gateway'' = Inr b
        \<and> t = ''GATEWAY_SERVICE_TOKEN_SECRET='' @ [CHR 0x22] @ sb_current b @ [CHR 0x22, CHR 0x0A])"
  by (auto simp: dump_gateway_secret_def pg_get_bundle_def row_bundle_def split: option.splits)

end
