(* ===== verification/Service_Lifecycle.thy ===== *)
theory Service_Lifecycle
  imports Wal_Loop Tracing Http_Port
begin

section \<open>The life of the API process: its description, its start and its shutdown\<close>

text \<open>
  app/main.py: \<open>custom_openapi\<close>, the startup and shutdown hooks, which FastAPI runs in the order of
  their declaration and stops at the first exception; app/_runtime_glue.py: \<open>shutdown\<close>. Closing a
  client is a parameter that may raise.
\<close>

subsection \<open>The description of the API\<close>

text \<open>\<open>setdefault\<close> gives the value that is then mutated in place: written here as an update of the parent.\<close>

definition security_scheme :: json where
  "security_scheme = JDict [(''type'', JStr ''apiKey''), (''in'', JStr ''header''), (''name'', JStr ''X-API-Key''),
     (''description'', JStr ''Must match API_KEY in server environment'')]"

definition api_key_required :: json where
  "api_key_required = JList [JDict [(''ApiKeyAuth'', JList [])]]"

text \<open>\<open>schema["paths"][path]["get"]["security"] = []\<close> where these are dictionaries.\<close>

definition open_get :: "string \<Rightarrow> jdict \<Rightarrow> jdict" where
  "open_get path schema =
     (case dict_get schema ''paths'' JNull of
        JDict paths \<Rightarrow>
          (case dict_get paths path JNull of
             JDict item \<Rightarrow>
               (case dict_get item ''get'' JNull of
                  JDict op \<Rightarrow>
                    AList.update ''paths'' (JDict (AList.update path (JDict (AList.update ''get''
                      (JDict (AList.update ''security'' (JList []) op)) item)) paths)) schema
                | _ \<Rightarrow> schema)
           | _ \<Rightarrow> schema)
      | _ \<Rightarrow> schema)"

text \<open>\<open>openapi_schema.get("paths", {}).get("/health", {}).get("get")\<close> raises unless these are dictionaries.\<close>

definition health_readable :: "jdict \<Rightarrow> exn + json" where
  "health_readable schema =
     bind_r (attr_get (dict_get schema ''paths'' (JDict [])) ''/health'' (JDict [])) (\<lambda>h. attr_get h ''get'' JNull)"

definition with_scheme :: "jdict \<Rightarrow> exn + jdict" where
  "with_scheme schema =
     (case dict_get schema ''components'' (JDict []) of
        JDict comps \<Rightarrow>
          (case dict_get comps ''securitySchemes'' (JDict []) of
             JDict schemes \<Rightarrow>
               Inr (AList.update ''components'' (JDict (AList.update ''securitySchemes''
                 (JDict (AList.update ''ApiKeyAuth'' security_scheme schemes)) comps)) schema)
           | _ \<Rightarrow> Inl (TypeError ''object does not support item assignment''))
      | _ \<Rightarrow> Inl (AttributeError ''setdefault''))"

text \<open>The answer is kept; an empty one counts as none. The \<open>get\<close> on a missing \<open>paths\<close> of the second part does not raise.\<close>

definition custom_openapi :: "jdict option \<Rightarrow> jdict \<Rightarrow> exn + jdict" where
  "custom_openapi cached generated =
     (case cached of
        Some (kv # rest) \<Rightarrow> Inr (kv # rest)
      | _ \<Rightarrow>
          bind_r (with_scheme generated) (\<lambda>s1.
          let s2 = AList.update ''security'' api_key_required s1 in
          bind_r (health_readable s2) (\<lambda>_.
            Inr (open_get ''/verdict/{alert_id}'' (open_get ''/health'' s2)))))"

text \<open>Whether a request to a GET route needs the key, by the description.\<close>

definition described_security :: "jdict \<Rightarrow> string \<Rightarrow> json" where
  "described_security schema path =
     (case dict_get schema ''paths'' JNull of
        JDict paths \<Rightarrow>
          (case dict_get paths path JNull of
             JDict item \<Rightarrow>
               (case dict_get item ''get'' JNull of
                  JDict op \<Rightarrow> dict_get op ''security'' (dict_get schema ''security'' JNull)
                | _ \<Rightarrow> JNull)
           | _ \<Rightarrow> JNull)
      | _ \<Rightarrow> JNull)"

lemma dict_get_update: "dict_get (AList.update k v d) k' x = (if k = k' then v else dict_get d k' x)"
  by (simp add: dict_get_def update_conv')

lemma open_get_described:
  "described_security (open_get path schema) path' =
     (if path = path' \<and> (\<exists>paths item op. dict_get schema ''paths'' JNull = JDict paths
        \<and> dict_get paths path JNull = JDict item \<and> dict_get item ''get'' JNull = JDict op)
      then JList [] else described_security schema path')"
  by (auto simp: open_get_def described_security_def dict_get_update split: json.splits)

text \<open>The description says that \<open>GET /verdict/{alert_id}\<close> needs no key, whatever the settings say.\<close>

lemma verdict_described_open:
  assumes "custom_openapi None generated = Inr schema"
    and "dict_get generated ''paths'' JNull = JDict paths" "dict_get paths ''/verdict/{alert_id}'' JNull = JDict item"
    and "dict_get item ''get'' JNull = JDict op"
  shows "described_security schema ''/verdict/{alert_id}'' = JList []"
proof -
  obtain s1 where s1: "with_scheme generated = Inr s1"
      "schema = open_get ''/verdict/{alert_id}'' (open_get ''/health'' (AList.update ''security'' api_key_required s1))"
    using assms(1) by (auto simp: custom_openapi_def Let_def elim!: bind_rE)
  have "dict_get s1 ''paths'' JNull = JDict paths"
    using s1(1) assms(2) by (auto simp: with_scheme_def dict_get_update split: json.splits)
  then have "dict_get (AList.update ''security'' api_key_required s1) ''paths'' JNull = JDict paths"
    by (simp add: dict_get_update)
  then have "\<exists>ps it p. dict_get (open_get ''/health'' (AList.update ''security'' api_key_required s1)) ''paths'' JNull = JDict ps
      \<and> dict_get ps ''/verdict/{alert_id}'' JNull = JDict it \<and> dict_get it ''get'' JNull = JDict p"
    using assms(3,4) by (auto simp: open_get_def dict_get_update split: json.splits)
  then show ?thesis unfolding s1(2) open_get_described by simp
qed

subsection \<open>Start and shutdown\<close>

text \<open>
  \<open>startup_event\<close> connects Langfuse with the settings. The closes of the clients:
  \<open>cl_reconciler\<close>, \<open>cl_audit\<close>, \<open>cl_cache\<close>, \<open>cl_persistence\<close> close Redis connections (nothing when there is
  none), \<open>cl_secrets\<close> is the secret store's \<open>close\<close>, which \<open>ServiceTokenAuthority.stop\<close> calls.
\<close>

definition startup_event :: "'w langfuse \<Rightarrow> environ \<Rightarrow> jdict \<Rightarrow> langfuse_state \<Rightarrow> ('w, langfuse_state) io" where
  "startup_event lib env settings st =
     connect_langfuse lib env (param_str settings ''langfuse_secret_key'') (param_str settings ''langfuse_public_key'')
       (param_str settings ''langfuse_base_url'') (truthy (dict_get settings ''langfuse_enabled'' JNull)) st"

record 'w closers =
  cl_reconciler :: "('w, unit) io"
  cl_audit :: "('w, unit) io"
  cl_secrets :: "('w, unit) io"
  cl_cache :: "('w, unit) io"
  cl_persistence :: "('w, unit) io"
  cl_langfuse :: "'w langfuse"

definition runtime_shutdown :: "'w nats \<Rightarrow> 'w closers \<Rightarrow> 'w runtime_state option \<Rightarrow> rec_task \<Rightarrow> ('w, unit) io" where
  "runtime_shutdown nt cl state task =
     (case state of
        None \<Rightarrow> ret_io ()
      | Some st \<Rightarrow>
          bind_io (case rt_reconciler st of None \<Rightarrow> ret_io ()
                   | Some rc \<Rightarrow> bind_io (reconciler_stop (cl_reconciler cl) task) (\<lambda>_. ret_io ())) (\<lambda>_.
          bind_io (case rt_broker st of None \<Rightarrow> ret_io ()
                   | Some b \<Rightarrow> bind_io (broker_close nt b) (\<lambda>_. ret_io ())) (\<lambda>_.
          bind_io (case rt_audit st of None \<Rightarrow> ret_io () | Some a \<Rightarrow> cl_audit cl) (\<lambda>_.
            (case rt_authority st of None \<Rightarrow> ret_io () | Some au \<Rightarrow> cl_secrets cl)))))"

definition shutdown_event :: "'w closers \<Rightarrow> langfuse_state \<Rightarrow> ('w, unit) io" where
  "shutdown_event cl lf =
     bind_io (cl_cache cl) (\<lambda>_. bind_io (cl_persistence cl) (\<lambda>_. langfuse_flush (cl_langfuse cl) lf))"

definition app_shutdown ::
    "'w nats \<Rightarrow> 'w closers \<Rightarrow> 'w runtime_state option \<Rightarrow> rec_task \<Rightarrow> langfuse_state \<Rightarrow> ('w, unit) io" where
  "app_shutdown nt cl state task lf =
     bind_io (runtime_shutdown nt cl state task) (\<lambda>_. shutdown_event cl lf)"

text \<open>
  When the Redis connections close without an exception, the whole shutdown runs, whatever NATS and
  Langfuse do.
\<close>

lemma shutdown_completes:
  assumes "no_raise (cl_reconciler cl)" "no_raise (cl_audit cl)" "no_raise (cl_secrets cl)"
    and "no_raise (cl_cache cl)" "no_raise (cl_persistence cl)"
  shows "no_raise (app_shutdown nt cl state task lf)"
proof -
  have "no_raise (reconciler_stop (cl_reconciler cl) task)"
    unfolding reconciler_stop_def Let_def using assms(1) by (auto intro!: no_raise_intros)
  then show ?thesis
    unfolding app_shutdown_def runtime_shutdown_def shutdown_event_def
    by (intro no_raise_intros assms)
      (auto split: option.splits intro!: no_raise_intros no_raise_close assms)
qed

text \<open>
  A client that cannot be closed leaves everything after it open: when the reconciler's connection
  raises, the broker is not drained, no other client is closed and no trace is flushed.
\<close>

theorem failed_close_ends_shutdown:
  assumes "rt_reconciler st = Some rc" "rk_client task" "cl_reconciler cl w = (Inl e, w1)"
  shows "app_shutdown nt cl (Some st) task lf w = (Inl e, w1)"
  using assms by (simp add: app_shutdown_def runtime_shutdown_def reconciler_stop_def Let_def bind_io_def)

theorem failed_close_ends_shutdown_witness:
  "app_shutdown (demo_nats True) \<lparr>cl_reconciler = raise_io TimeoutError, cl_audit = ret_io (), cl_secrets = ret_io (),
        cl_cache = ret_io (), cl_persistence = ret_io (),
        cl_langfuse = \<lparr>lf_new = (\<lambda>a b c. ret_io ()), lf_handler = ret_io (), lf_flush = ret_io ()\<rparr>\<rparr>
      (Some (demo_runtime True)) \<lparr>rk_task = RunningTask, rk_stop = False, rk_client = True\<rparr>
      \<lparr>lf_client = False, lf_enabled = False\<rparr> Map.empty = (Inl TimeoutError, Map.empty)"
  by (rule failed_close_ends_shutdown[of _ "demo_reconciler True"]) (simp_all add: demo_runtime_def)

end
