(* ===== verification/Spec2Isabelle.thy ===== *)
theory Spec2Isabelle
  imports Triage_Worker Runtime_Glue Secret_Store Ingest_Wal Audit_Store Checkpoint_Factory
    Prompts Entity_Extractor Cancel_Registry Event_Seq Nats_Broker Context_Cache Jwt_Service
    Mitre_Router Triage_Guarantees Security Alert_Persistence Alert_Normalizer Auto_Ingest
    Observability Api_Guarantees Api_Journey Run_Isolation Connector_Guarantees Worker_Loop Secret_Rotation Tenant_Lint
    Redis_Clock Cancel_Timing Wal_Leases Tracing App_Settings Delivery Playbooks Connector_Check Dev_Scripts Service_Lifecycle
begin

text \<open>
  \<^bold>\<open>A model of the alert triage service and the theorems that make it correct.\<close>

  \<^bold>\<open>The program.\<close> An alert of a security product enters through the API, is written to a log in
  Redis and published to NATS; a worker takes it from there, checks the service token it came with,
  and runs the triage pipeline: extract the entities of the alert, route its MITRE techniques to
  tools, run those tools in one parallel burst, let a model ask for further tools within a budget,
  and produce a verdict. Around it stand the services the worker and the API share: service tokens
  whose secrets rotate, a cancel registry with a grace period, event numbers, an audit store, a
  cache of tool results, checkpoint retention.

  \<^bold>\<open>Conventions of the model.\<close> A function of the code that has effects is a function of type
  \<open>('w, 'a) io\<close> (theory Prelude): from a world to a result and a world, where a result is an
  exception (\<open>Inl\<close>, of type \<open>exn\<close>) or a value (\<open>Inr\<close>). \<open>bind_io\<close> sequences, \<open>try_io\<close> is
  \<open>try/except Exception\<close>, \<open>finally_io\<close> is \<open>try/finally\<close>. The world \<open>'w\<close> is abstract. What is not
  code of the repository (Redis, NATS, Postgres, the JWT and JSON libraries, the models, the tools'
  connectors, clock and random identifiers) is a field of a parameter record, and what a theorem
  relies on is a named hypothesis about it: \<open>redis_ok\<close> (the commands act on a key-value view of
  the world when they succeed), \<open>redis_up\<close> (they succeed), \<open>timed_ok\<close> (keys have deadlines and are gone
  after them), \<open>script_ok\<close> (the release script of a lease), \<open>jwt_ok\<close> (claims that PyJWT accepts, texts
  for \<open>sub\<close> and \<open>jti\<close> and no future \<open>nbf\<close> among its conditions, decode with the key they were signed
  with, and with no other \<open>plain_key\<close>, a text as the secret store draws it), \<open>loads_ok\<close> (\<open>json.loads\<close>
  raises only on bad input), \<open>set_order_ok\<close> (iterating a set yields its elements), \<open>nats_frame\<close> and
  \<open>clock_frame\<close> (these services leave Redis alone), \<open>stream_ok\<close> (an acknowledged publish is on the
  stream). Every witness discharges them on concrete functions (theory
  Demo_World: a Redis whose state is a map, a JSON library that knows the texts it is asked for; \<open>ideal_jwt\<close> in
  Jwt_Service: tokens that are an injective encoding of claims and key). State that lives in a
  Python object is a record passed through its operations. \<open>asyncio.gather\<close> runs its tasks in
  order; logging and tracing have no effect on results and are left out. Numbers are Python's
  (\<open>int\<close>, and \<open>rat\<close> for times and confidences); strings are lists of characters, dicts are association lists in
  insertion order.

  \<^bold>\<open>Theories and the code they model\<close> (paths under src/).
  \<^item> Prelude: exceptions, the \<open>io\<close> type and its laws (\<open>no_raise\<close>: never raises; \<open>keeps\<close>: leaves a
    view of the world alone), \<open>dict.fromkeys\<close>, string functions. Json: JSON values as Python
    sees them (truthiness, \<open>get\<close>, slicing, \<open>repr\<close>) and the library parameter \<open>pylib\<close>.
    Redis_Port: the client's commands and their laws. Regex: a backtracking matcher for the regular
    expressions the code uses, proved sound for their languages.
  \<^item> Schemas: schemas/_common and schemas/v1. Tool_Schemas: the input classes of agents/tools.
  \<^item> Mitre_Router: services/mitre_router.py, its tables included.
  \<^item> Context_Cache: services/context_cache.py. The locale \<open>best_effort_cache\<close> is what the executor
    relies on: neither operation raises.
  \<^item> Enrichment: agents/enrichment_node.py. \<open>execute_single_tool\<close> is composed of the cache lookup,
    the registry check, the guarded call and the record, as in the code.
  \<^item> Prompts: prompts/templates.py (the templates in full, with \<open>str.format\<close>) and
    prompts/registry.py.
  \<^item> Entity_Extractor: components/entity_extractor.py.
  \<^item> Cancel_Registry: services/_runtime/cancel.py. \<open>cancel_step\<close> interleaves requests, revocations
    and waking timers; Cancel_Timing adds time and keys that expire. Redis_Clock: the laws of such keys
    and a client that has them.
  \<^item> Triage_Pipeline: services/triage_pipeline.py. One function per node over \<open>triage_state\<close>,
    \<open>next_node\<close> for the edges, \<open>run_graph\<close> for the loop; \<open>run_graph_saved\<close> is the loop with a checkpointer,
    which may raise before the first node and after every one. Pipeline_Facts: the invariant
    \<open>pipe_inv\<close> of every node. Triage_Guarantees: the relation \<open>reaches\<close> (the states in which a
    node is about to run) and the properties of the pipeline.
  \<^item> Triage_Worker: services/_runtime/triage_worker.py. The services' in-memory state is part of the
    worker's world, so it survives an exception as it does in the code. The run it makes has the
    tenant's checkpointer; what that gives the run to start with and whether it fails are parameters.
  \<^item> Event_Seq: services/_runtime/event_seq.py, with the locale \<open>sequencer\<close> for its counters.
    Nats_Broker: services/_runtime/nats_broker.py. Ingest_Wal: services/_runtime/ingest_reconciler.py.
    Wal_Leases: the visits of several reconcilers to one alert as a step relation, over keys that expire.
    Audit_Store: services/_runtime/audit.py. Checkpoint_Factory: services/_runtime/checkpoint_redis_ttl.py.
  \<^item> Jwt_Service: services/_runtime/jwt_service.py and tenant.py. Secret_Store:
    services/_runtime/secret_store.py (in-memory and Postgres, both interpretations of the locale
    \<open>secret_store\<close>) and jwt_bootstrap.py.
  \<^item> Security: security/ (key check, sanitising, parameter filter, scrubbing of verdicts).
    Alert_Persistence: services/alert_persistence.py, both modes, interpretations of the locale
    \<open>keyed_store\<close>. Detection_Finding and Alert_Normalizer: components/detection_finding_builder.py and
    alert_normalizer.py, with the operations on values of unknown shape in Py_Values. Auto_Ingest:
    components/auto_ingest.py. Observability: observability/ and evaluation/online_monitor.py.
  \<^item> Runtime_Glue: app/_runtime_glue.py, which joins the log, the broker and the audit store. Api:
    app/main.py, every endpoint over \<open>api_state\<close>, what the process keeps in memory; \<open>serve\<close> runs
    the background tasks of a request after its answer. Api_Guarantees: histories of requests
    (\<open>api_run\<close>) and the properties of the service. Api_Journey: the endpoints composed, from the
    posted alert to its verdict. Background_Runs: the background run cut at its \<open>await\<close>s (\<open>advance\<close>,
    which put together again is the coroutine of Api), and a process as a step relation in which
    runs, requests and the outside take turns. Pipeline_Frame: the one kind of Redis key a triage run
    writes. Run_Isolation: runs of different alerts over one store.
  \<^item> Http_Port: requests, answers and the clock as the parameter \<open>net\<close>, \<open>gives\<close> for what every answer
    satisfies. Query_Builder: services/query_builder.py. Splunk_Tool, Threat_Intel,
    CrowdStrike_Tool, Cmdb_Tool, Site_Tools (flows, backups, CVEs) and Aws_Tool: the modules of
    agents/tools, with the token caches two of them keep in Oauth_Token. Tool_Connectors: the
    registry as \<open>run_tool\<close>, which is the code behind the parameter \<open>env_run_tool\<close> of Enrichment.
    Connector_Guarantees: their properties.

  \<^item> Worker_Loop: the run loop of the worker as the step relation \<open>loop_step\<close> (fetch, permits, tasks in
    flight, stop, shutdown), which the consumer of cancel requests refines. Wal_Loop: the background task of the reconciler and what a pass achieves
    once NATS is back. Delivery: the ingest path and the worker joined by the NATS stream.
    Secret_Rotation: services/_runtime/secret_publisher.py and the LISTEN/NOTIFY watcher of the secret store, with
    the callback it is given as an argument (no code under src/ gives one), a database that may be
    unreachable and a listening connection that may be lost.
    Service_Lifecycle: the hooks and the OpenAPI document of app/main.py and the shutdown of app/_runtime_glue.py.
  \<^item> Tracing: services/_runtime/otel.py, observability/tracer.py and langfuse_client.py, with \<open>with\<close>
    statements as contextlib runs them. App_Settings: app/config.py. Playbooks: the static prompts of
    prompts/templates.py and prompts/state_example_strings.py.
  \<^item> Tenant_Lint: scripts/lint_tenant_id.py. Connector_Check: scripts/test_connector_creds.py. Dev_Scripts:
    scripts/demo_siem_triage.py and dev_dump_gateway_secret.py.

  \<^bold>\<open>What the theorems show.\<close> C1 to C6, C8: a triage run ends, with a verdict whatever fails but for one
  case (an extraction model that answers \<open>None\<close>, which crashes the run), within its budget, with a
  well-formed conversation, honouring cancellation; the burst reports each
  routed tool once, and a failing tool neither breaks the run nor is cached. C7 and C9 to C11: the
  burst's parameters fit the tools' schemas, the guarded connectors answer or time out and do nothing
  when they are not configured, threat intelligence confirms an indicator only by
  two sources, and the query builders keep values inside the quotes. C12 to C17: the API keeps what it accepts,
  answers with the verdict of the run (Api_Journey), is closed without the key, its event streams end, and
  over all interleavings of background runs and requests its metrics balance and runs of different alerts
  keep apart.
  C18 to C20: the worker takes the tenant from the verified token only, settles every message once, and
  a good message fails only with its run; C22, C23:
  its loop loses no message, keeps to its limit of tasks in flight and can always be stopped. C21: no
  alert that goes through NATS is triaged, since the ingest path sends no token. C24 to C27: the
  write-ahead log: its leases exclude each other while nobody overruns one, what becomes of an entry
  (which seven attempts can lose), a pass that puts every due entry on the stream once NATS is back, and
  the durability of an enqueued alert. C28 to C31: persistence refines the in-memory
  store, payloads are sanitised, alerts normalised within their bounds and with stable identifiers.
  C32, C33: the cancel registry, over all interleavings, and over time. C34 to C38: tokens and
  secrets (an identity is bound to the token it was decoded from), the refinement of the in-memory secret store by the Postgres one, and the rotation of secrets as a listening process and a
  deaf one see it. C39: routing. C40: the linter. Theorems without a number are properties of the same
  kind about the prompts, the extraction, the audit store, the tracing and the scripts.

  \<^bold>\<open>Bounds.\<close> The graph runs with LangGraph's step limit as fuel (\<open>pe_recursion_limit\<close>). The
  repository does not set it. Every THINK that plans spends at least one unit of the budget, which
  is at most 15, so a run takes at most 4 + 2 * 15 + 2 = 36 steps; \<open>run_triage_returns\<close> is proved
  for every limit from 36 on. With a limit of 25, LangGraph's default in its older releases, a
  critical alert could run into it. Every other recursion is structural or has a termination proof.

  \<^bold>\<open>What is not modelled.\<close> What LangGraph's saver stores; logging; interleaving
  of other tasks in the middle of an operation (operations are atomic, except the background runs of
  the API, cut at their \<open>await\<close>s, the cancel timers' waiting, and the reconciler's visits, cut into
  taking the lease, work and release; a handler of the worker is one step of
  its loop, placed where it ends, and a run of the pipeline one step of its background run); an ingest request that marks an alert as
  published while a reconciler works on it; signal handlers and argument parsing; the spans around the API's handlers; the wrappers that offer the connectors to an
  agent, which nothing calls; the terminal output of the scripts; the TypeScript frontend and gateway.
\<close>

end
